(* ===== verification/Arc_Prelude.thy ===== *)
theory Arc_Prelude
  imports Main "HOL-Library.AList" "HOL-Library.Sublist"
begin

section \<open>Prelude: Go values, errors, effects\<close>

text \<open>
  Shared vocabulary of the development.

  \<^item> Go's \<open>time.Time\<close> and \<open>time.Duration\<close> are integers counting nanoseconds; a
    \<open>*time.Time\<close> or \<open>*metav1.Time\<close> is a \<open>time option\<close>.
  \<^item> A \<open>map[string]string\<close> is an association list read with \<open>map_of\<close> and written with
    \<open>AList.update\<close>; \<open>sameMap\<close> is \<open>reflect.DeepEqual\<close> on such maps.
  \<^item> A Go function that returns \<open>(T, error)\<close> and may panic returns a \<open>'a go\<close>.
  \<^item> Code that talks to an API server is an \<open>eff\<close>: it extends the log of the write calls issued
    so far. The server is a parameter \<open>'c api\<close> that answers each write call, knowing
    the calls before it, so that every pattern of failures is an instance of the model.
\<close>

named_theorems go_simps \<open>unfolding rules for the outcome and effect combinators\<close>
named_theorems arc_defs \<open>definitions of small handlers that proofs unfold\<close>

subsection \<open>Time\<close>

type_synonym time = int
type_synonym duration = int

abbreviation Second :: duration where "Second \<equiv> 1000000000"
abbreviation Minute :: duration where "Minute \<equiv> 60000000000"

text \<open>The zero \<open>time.Time\<close> is 0001-01-01T00:00:00Z.\<close>

definition zeroTime :: time where
  "zeroTime = - 62135596800 * Second"

definition IsZero :: "time option \<Rightarrow> bool" where
  "IsZero t = (case t of None \<Rightarrow> True | Some u \<Rightarrow> u = zeroTime)"

lemma IsZero_None [simp]: "IsZero None"
  by (simp add: IsZero_def)

text \<open>\<open>Time.Sub\<close> saturates at the bounds of a 64 bit duration.\<close>

definition maxDuration :: duration where "maxDuration = 2 ^ 63 - 1"
definition minDuration :: duration where "minDuration = - (2 ^ 63)"

definition timeSub :: "time \<Rightarrow> time \<Rightarrow> duration" where
  "timeSub t u = max minDuration (min maxDuration (t - u))"

lemma timeSub_exact: "minDuration \<le> t - u \<Longrightarrow> t - u \<le> maxDuration \<Longrightarrow> timeSub t u = t - u"
  by (simp add: timeSub_def)

text \<open>Conversion of a Go \<open>int\<close> to \<open>int32\<close> keeps the low 32 bits.\<close>

definition int32 :: "int \<Rightarrow> int" where
  "int32 x = (x + 2 ^ 31) mod 2 ^ 32 - 2 ^ 31"

lemma int32_id: "- (2 ^ 31) \<le> x \<Longrightarrow> x < 2 ^ 31 \<Longrightarrow> int32 x = x"
  by (simp add: int32_def)

lemma int32_range: "- (2 ^ 31) \<le> int32 x \<and> int32 x < 2 ^ 31"
proof -
  have "0 \<le> (x + 2 ^ 31) mod 2 ^ 32" and "(x + 2 ^ 31) mod 2 ^ 32 < (2 ^ 32 :: int)"
    by simp_all
  then show ?thesis by (simp add: int32_def)
qed

subsection \<open>Maps of strings\<close>

type_synonym strmap = "(string \<times> string) list"

definition sameMap :: "strmap \<Rightarrow> strmap \<Rightarrow> bool" where
  "sameMap m n = (\<forall>k \<in> set (map fst m) \<union> set (map fst n). map_of m k = map_of n k)"

lemma sameMap_iff: "sameMap m n \<longleftrightarrow> map_of m = map_of n"
proof
  assume *: "sameMap m n"
  show "map_of m = map_of n"
  proof
    fix k
    show "map_of m k = map_of n k"
    proof (cases "k \<in> fst ` set m \<or> k \<in> fst ` set n")
      case True
      with * show ?thesis by (auto simp: sameMap_def)
    next
      case False
      then have "map_of m k = None" and "map_of n k = None"
        by (auto simp: map_of_eq_None_iff)
      then show ?thesis by simp
    qed
  qed
qed (simp add: sameMap_def)

lemma sameMap_refl [simp]: "sameMap m m"
  by (simp add: sameMap_def)

lemma map_of_update [simp]: "map_of (AList.update k v m) k' = (if k' = k then Some v else map_of m k')"
  by (simp add: update_conv)

lemma set_update_subset: "set (AList.update k v al) \<subseteq> insert (k, v) (set al)"
  by (induction al) auto

subsection \<open>Errors and outcomes\<close>

text \<open>
  Errors: what the Kubernetes API returns, what the GitHub API returns (an error response with
  its status code, or some other failure), \<open>fmt.Errorf\<close>/\<open>errors.New\<close> of the program
  (named by the message's fixed text) and \<open>fmt.Errorf\<close> with \<open>%w\<close> wrapping.
\<close>

datatype kerr = NotFound | AlreadyExists | KubeErr string

datatype goerr =
    Kube kerr
  | ErrorResponse int
  | GitHubErr string
  | Canceled
  | Errorf string
  | Wrapped string goerr

text \<open>\<open>client.IgnoreNotFound\<close>, and \<open>errors.As(err, &ErrorResponse)\<close>.\<close>

fun IgnoreNotFound :: "goerr \<Rightarrow> goerr option" where
  "IgnoreNotFound (Kube NotFound) = None"
| "IgnoreNotFound e = Some e"

fun asErrorResponse :: "goerr \<Rightarrow> int option" where
  "asErrorResponse (ErrorResponse c) = Some c"
| "asErrorResponse (Wrapped _ e) = asErrorResponse e"
| "asErrorResponse _ = None"

fun isCanceled :: "goerr \<Rightarrow> bool" where
  "isCanceled Canceled = True"
| "isCanceled (Wrapped _ e) = isCanceled e"
| "isCanceled _ = False"

text \<open>The outcomes of a Go function: a value, an error, a panic, or no return at all.\<close>

datatype 'a go = Ret 'a | Err goerr | Panic string | Hang

fun go_bind :: "'a go \<Rightarrow> ('a \<Rightarrow> 'b go) \<Rightarrow> 'b go" where
  "go_bind (Ret x) f = f x"
| "go_bind (Err e) f = Err e"
| "go_bind (Panic s) f = Panic s"
| "go_bind Hang f = Hang"

declare go_bind.simps [go_simps]

lemma go_bind_Ret_iff: "go_bind m f = Ret y \<longleftrightarrow> (\<exists>x. m = Ret x \<and> f x = Ret y)"
  by (cases m) auto

definition panics :: "'a go \<Rightarrow> bool" where
  "panics m = (case m of Panic _ \<Rightarrow> True | _ \<Rightarrow> False)"

lemma panics_simps [simp]: "panics (Panic s)" "\<not> panics (Ret x)" "\<not> panics (Err e)" "\<not> panics Hang"
  by (simp_all add: panics_def)

lemma panics_iff: "panics m \<longleftrightarrow> (\<exists>s. m = Panic s)"
  by (cases m) auto

subsection \<open>Effects: a log of write calls\<close>

type_synonym 'c api = "'c list \<Rightarrow> 'c \<Rightarrow> goerr option"
type_synonym ('c, 'a) eff = "'c list \<Rightarrow> 'c list \<times> 'a go"

definition eret :: "'a \<Rightarrow> ('c, 'a) eff" where "eret x l = (l, Ret x)"
definition eerr :: "goerr \<Rightarrow> ('c, 'a) eff" where "eerr e l = (l, Err e)"
definition epanic :: "string \<Rightarrow> ('c, 'a) eff" where "epanic s l = (l, Panic s)"

definition ebind :: "('c, 'a) eff \<Rightarrow> ('a \<Rightarrow> ('c, 'b) eff) \<Rightarrow> ('c, 'b) eff" where
  "ebind m f l =
     (case m l of (l', Ret x) \<Rightarrow> f x l' | (l', Err e) \<Rightarrow> (l', Err e) | (l', Panic s) \<Rightarrow> (l', Panic s)
        | (l', Hang) \<Rightarrow> (l', Hang))"

text \<open>\<open>ecall api c k\<close> issues the write call \<open>c\<close> and continues with the server's answer.\<close>

definition ecall :: "'c api \<Rightarrow> 'c \<Rightarrow> (goerr option \<Rightarrow> ('c, 'a) eff) \<Rightarrow> ('c, 'a) eff" where
  "ecall api c k l = k (api l c) (l @ [c])"

text \<open>\<open>elog c k\<close> records a call whose answer is computed by the continuation.\<close>

definition elog :: "'c \<Rightarrow> ('c, 'a) eff \<Rightarrow> ('c, 'a) eff" where
  "elog c k l = k (l @ [c])"

text \<open>\<open>elift\<close> is a read or a pure computation with an outcome.\<close>

definition elift :: "'a go \<Rightarrow> ('c, 'a) eff" where "elift m l = (l, m)"

text \<open>\<open>ecatch m h\<close> goes on with \<open>h\<close> where \<open>m\<close> returns an error.\<close>

definition ecatch :: "('c, 'a) eff \<Rightarrow> (goerr \<Rightarrow> ('c, 'a) eff) \<Rightarrow> ('c, 'a) eff" where
  "ecatch m h l = (case m l of (l', Err e) \<Rightarrow> h e l' | r \<Rightarrow> r)"

lemmas eff_defs [go_simps] = eret_def eerr_def epanic_def ebind_def ecall_def elog_def elift_def ecatch_def

text \<open>The writes of a run from the empty log, and its outcome.\<close>

definition writes :: "('c, 'a) eff \<Rightarrow> 'c list" where "writes m = fst (m [])"
definition outcome :: "('c, 'a) eff \<Rightarrow> 'a go" where "outcome m = snd (m [])"

lemmas run_defs [go_simps] = writes_def outcome_def

text \<open>A server that accepts every write.\<close>

definition acceptAll :: "'c api" where "acceptAll l c = None"

lemma acceptAll_simp [simp]: "acceptAll l c = None"
  by (simp add: acceptAll_def)

subsection \<open>Generic list facts\<close>

lemma sum_list_filter_le: "(\<forall>x \<in> set xs. 0 \<le> f x) \<Longrightarrow> sum_list (map f (filter P xs)) \<le> sum_list (map f xs)"
  for f :: "'a \<Rightarrow> int"
  by (induction xs) auto

lemma list_all_ex_conv: "\<not> list_all P xs \<longleftrightarrow> (\<exists>x \<in> set xs. \<not> P x)"
  by (simp add: list_all_iff)

end
