(* ===== verification/Go_Strings.thy ===== *)
theory Go_Strings
  imports Arc_Prelude
begin

section \<open>Package strings\<close>

text \<open>
  The part of Go's \<open>strings\<close> package the program uses. Strings are byte strings.
\<close>

fun Index :: "string \<Rightarrow> string \<Rightarrow> nat option" where
  "Index [] sep = (if sep = [] then Some 0 else None)"
| "Index (c # cs) sep = (if prefix sep (c # cs) then Some 0 else map_option Suc (Index cs sep))"

definition HasPrefix :: "string \<Rightarrow> string \<Rightarrow> bool" where "HasPrefix s p = prefix p s"
definition HasSuffix :: "string \<Rightarrow> string \<Rightarrow> bool" where "HasSuffix s p = suffix p s"
definition Contains :: "string \<Rightarrow> string \<Rightarrow> bool" where "Contains s p = (Index s p \<noteq> None)"

definition TrimSuffix :: "string \<Rightarrow> string \<Rightarrow> string" where
  "TrimSuffix s p = (if suffix p s then take (length s - length p) s else s)"

text \<open>\<open>SplitN(s, sep, 2)\<close>: cut at the first separator; an empty separator cuts off one character.\<close>

definition SplitN2 :: "string \<Rightarrow> string \<Rightarrow> string list" where
  "SplitN2 s sep =
     (if sep = [] then (case s of [] \<Rightarrow> [] | [c] \<Rightarrow> [[c]] | c # cs \<Rightarrow> [[c], cs])
      else (case Index s sep of None \<Rightarrow> [s] | Some i \<Rightarrow> [take i s, drop (i + length sep) s]))"

text \<open>\<open>Split\<close> and \<open>SplitAfter\<close> with a separator of one character.\<close>

fun Split :: "string \<Rightarrow> char \<Rightarrow> string list" where
  "Split [] sep = [[]]"
| "Split (c # cs) sep =
     (if c = sep then [] # Split cs sep
      else (case Split cs sep of [] \<Rightarrow> [[c]] | t # ts \<Rightarrow> (c # t) # ts))"

fun SplitAfter :: "string \<Rightarrow> char \<Rightarrow> string list" where
  "SplitAfter [] sep = [[]]"
| "SplitAfter (c # cs) sep =
     (if c = sep then [c] # SplitAfter cs sep
      else (case SplitAfter cs sep of [] \<Rightarrow> [[c]] | t # ts \<Rightarrow> (c # t) # ts))"

fun Join :: "string list \<Rightarrow> string \<Rightarrow> string" where
  "Join [] sep = []"
| "Join [x] sep = x"
| "Join (x # y # xs) sep = x @ sep @ Join (y # xs) sep"

subsection \<open>Index and SplitN\<close>

lemma Index_SomeD: "Index s sep = Some i \<Longrightarrow> s = take i s @ sep @ drop (i + length sep) s"
proof (induction s arbitrary: i)
  case Nil
  then show ?case by (auto split: if_splits)
next
  case (Cons c cs)
  show ?case
  proof (cases "prefix sep (c # cs)")
    case True
    with Cons.prems have "i = 0" by simp
    with True show ?thesis by (auto elim: prefixE)
  next
    case False
    with Cons.prems obtain j where j: "Index cs sep = Some j" and i: "i = Suc j" by auto
    from Cons.IH [OF j] i show ?thesis by simp
  qed
qed

lemma Index_Some_le: "Index s sep = Some i \<Longrightarrow> i + length sep \<le> length s"
proof (induction s arbitrary: i)
  case Nil
  then show ?case by (auto split: if_splits)
next
  case (Cons c cs)
  then show ?case by (auto split: if_splits dest: prefix_length_le)
qed

lemma Index_NoneD: "Index s sep = None \<Longrightarrow> s \<noteq> a @ sep @ b"
proof (induction s arbitrary: a)
  case Nil
  then show ?case by (auto split: if_splits)
next
  case (Cons c cs)
  then show ?case by (cases a) (auto split: if_splits simp: prefix_def)
qed

lemma Index_eq_None_iff: "Index s sep = None \<longleftrightarrow> (\<forall>a b. s \<noteq> a @ sep @ b)"
proof
  assume "\<forall>a b. s \<noteq> a @ sep @ b"
  then show "Index s sep = None"
    by (metis Index_SomeD not_None_eq)
qed (blast dest: Index_NoneD)

text \<open>The first occurrence is the leftmost one.\<close>

lemma Index_leftmost: "s = a @ sep @ b \<Longrightarrow> Index s sep = Some i \<Longrightarrow> i \<le> length a"
proof (induction s arbitrary: a i)
  case Nil
  then show ?case by (auto split: if_splits)
next
  case (Cons c cs)
  show ?case
  proof (cases a)
    case Nil
    with Cons.prems(1) have "prefix sep (c # cs)" by (simp add: prefix_def)
    with Cons.prems(2) show ?thesis by simp
  next
    case (Cons d a')
    with Cons.prems Cons.IH show ?thesis by (auto split: if_splits)
  qed
qed

lemma Index_prefix: "Index s sep = Some 0 \<longleftrightarrow> prefix sep s"
  by (cases s) auto

lemma SplitN2_cases:
  assumes "sep \<noteq> []"
  obtains (none) "Index s sep = None" "SplitN2 s sep = [s]"
    | (some) a b where "Index s sep = Some (length a)" "s = a @ sep @ b" "SplitN2 s sep = [a, b]"
proof (cases "Index s sep")
  case None
  with assms have "SplitN2 s sep = [s]" by (simp add: SplitN2_def)
  with None show ?thesis by (rule none)
next
  case (Some i)
  with assms have "SplitN2 s sep = [take i s, drop (i + length sep) s]" by (simp add: SplitN2_def)
  moreover have "length (take i s) = i" using Index_Some_le [OF Some] by simp
  ultimately show ?thesis using some [of "take i s" "drop (i + length sep) s"] Index_SomeD [OF Some] Some
    by simp
qed

subsection \<open>Split and SplitAfter\<close>

lemma last_neI: "p \<noteq> [] \<Longrightarrow> c \<notin> set p \<Longrightarrow> last p \<noteq> c"
  by (metis last_in_set)

lemma Split_nonempty [simp]: "Split s c \<noteq> []"
  by (induction s) (auto split: list.splits)

lemma SplitAfter_nonempty [simp]: "SplitAfter s c \<noteq> []"
  by (induction s) (auto split: list.splits)

lemma concat_SplitAfter: "concat (SplitAfter s c) = s"
  by (induction s) (auto split: list.splits)

lemma Split_notin: "c \<notin> set s \<Longrightarrow> Split s c = [s]"
  by (induction s) auto

lemma SplitAfter_notin: "c \<notin> set s \<Longrightarrow> SplitAfter s c = [s]"
  by (induction s) auto

lemma Split_append: "c \<notin> set s \<Longrightarrow> Split (s @ c # t) c = s # Split t c"
  by (induction s) auto

lemma SplitAfter_append: "c \<notin> set s \<Longrightarrow> SplitAfter (s @ c # t) c = (s @ [c]) # SplitAfter t c"
  by (induction s) auto

lemma Split_parts: "x \<in> set (Split s c) \<Longrightarrow> c \<notin> set x"
  by (induction s arbitrary: x) (auto split: list.splits if_splits)

lemma Join_Split: "Join (Split s c) [c] = s"
proof (induction s)
  case (Cons d s)
  then show ?case by (cases "Split s c"; cases "tl (Split s c)") auto
qed simp

end
