(* ===== verification/Kube_Types.thy ===== *)
theory Kube_Types
  imports Go_Strings
begin

section \<open>Kubernetes objects\<close>

text \<open>
  The fields of Kubernetes objects (metadata, pods, containers, volumes, stateful sets) that the controllers read or write, as
  records. A value that the code only passes along (a resource list, an affinity, a toleration, ...) is
  an \<open>opaque\<close>, its serialised form. The helpers at the end are the ones of
  \<open>src/controllers/runner_graceful_stop.go\<close>, \<open>runner_controller.go\<close>, \<open>runnerdeployment_controller.go\<close> and \<open>utils.go\<close> that work on these objects
  alone.
\<close>

type_synonym opaque = string

subsection \<open>Metadata\<close>

record OwnerReference =
  or_APIVersion :: string
  or_Kind :: string
  or_Name :: string
  or_Controller :: bool

record ObjectMeta =
  om_Name :: string
  om_GenerateName :: string
  om_Namespace :: string
  om_Labels :: strmap
  om_Annotations :: strmap
  om_CreationTimestamp :: time
  om_DeletionTimestamp :: "time option"
  om_Finalizers :: "string list"
  om_OwnerReferences :: "OwnerReference list"

definition emptyMeta :: ObjectMeta where
  "emptyMeta = \<lparr>om_Name = [], om_GenerateName = [], om_Namespace = [], om_Labels = [], om_Annotations = [],
     om_CreationTimestamp = zeroTime, om_DeletionTimestamp = None, om_Finalizers = [], om_OwnerReferences = []\<rparr>"

text \<open>\<open>metav1.GetControllerOf\<close>: the first owner reference that is a controller.\<close>

definition GetControllerOf :: "ObjectMeta \<Rightarrow> OwnerReference option" where
  "GetControllerOf m = List.find or_Controller (om_OwnerReferences m)"

record LabelSelectorRequirement =
  lsr_Key :: string
  lsr_Operator :: string
  lsr_Values :: "string list option"

record LabelSelector =
  ls_MatchLabels :: strmap
  ls_MatchExpressions :: "LabelSelectorRequirement list option"

definition sameSelector :: "LabelSelector \<Rightarrow> LabelSelector \<Rightarrow> bool" where
  "sameSelector s t \<longleftrightarrow> sameMap (ls_MatchLabels s) (ls_MatchLabels t) \<and> ls_MatchExpressions s = ls_MatchExpressions t"

text \<open>The labels part of \<open>metav1.LabelSelectorAsSelector\<close>: every required label is there.\<close>

definition matchesLabels :: "LabelSelector \<Rightarrow> strmap \<Rightarrow> bool" where
  "matchesLabels s ls = (\<forall>k \<in> set (map fst (ls_MatchLabels s)). map_of ls k = map_of (ls_MatchLabels s) k)"

subsection \<open>Pods\<close>

record EnvVar =
  ev_Name :: string
  ev_Value :: string

record VolumeMount =
  vm_Name :: string
  vm_MountPath :: string
  vm_ReadOnly :: bool

record EmptyDir =
  ed_Medium :: string
  ed_SizeLimit :: "int option"

datatype VolumeSource = EmptyDirSource EmptyDir | OtherSource opaque

record Volume =
  vol_Name :: string
  vol_Source :: VolumeSource

record SecurityContext =
  sc_Privileged :: "bool option"
  sc_SELinuxOptions :: "opaque option"
  sc_Rest :: opaque

record PodSecurityContext =
  psc_SELinuxOptions :: "opaque option"
  psc_Rest :: opaque

record Container =
  c_Name :: string
  c_Image :: string
  c_ImagePullPolicy :: string
  c_Args :: "string list"
  c_Env :: "EnvVar list"
  c_EnvFrom :: "opaque list"
  c_Resources :: opaque
  c_SecurityContext :: "SecurityContext option"
  c_VolumeMounts :: "VolumeMount list"
  c_Rest :: opaque

definition emptyContainer :: "string \<Rightarrow> Container" where
  "emptyContainer name = \<lparr>c_Name = name, c_Image = [], c_ImagePullPolicy = [], c_Args = [], c_Env = [], c_EnvFrom = [],
     c_Resources = [], c_SecurityContext = None, c_VolumeMounts = [], c_Rest = []\<rparr>"

record PodSpec =
  ps_Containers :: "Container list"
  ps_InitContainers :: "Container list"
  ps_EphemeralContainers :: "opaque list"
  ps_Volumes :: "Volume list"
  ps_RestartPolicy :: string
  ps_ImagePullSecrets :: "string list"
  ps_SecurityContext :: "PodSecurityContext option"
  ps_EnableServiceLinks :: "bool option"
  ps_NodeSelector :: "strmap option"
  ps_ServiceAccountName :: string
  ps_AutomountServiceAccountToken :: "bool option"
  ps_Affinity :: "opaque option"
  ps_Tolerations :: "opaque list"
  ps_TopologySpreadConstraints :: "opaque list"
  ps_TerminationGracePeriodSeconds :: "int option"
  ps_HostAliases :: "opaque list"
  ps_DNSConfig :: "opaque option"
  ps_RuntimeClassName :: "string option"

definition emptyPodSpec :: PodSpec where
  "emptyPodSpec = \<lparr>ps_Containers = [], ps_InitContainers = [], ps_EphemeralContainers = [], ps_Volumes = [],
     ps_RestartPolicy = [], ps_ImagePullSecrets = [], ps_SecurityContext = None, ps_EnableServiceLinks = None,
     ps_NodeSelector = None, ps_ServiceAccountName = [], ps_AutomountServiceAccountToken = None, ps_Affinity = None,
     ps_Tolerations = [], ps_TopologySpreadConstraints = [], ps_TerminationGracePeriodSeconds = None,
     ps_HostAliases = [], ps_DNSConfig = None, ps_RuntimeClassName = None\<rparr>"

datatype PodPhase = NoPhase | Pending | Running | Succeeded | Failed | UnknownPhase

fun phaseString :: "PodPhase \<Rightarrow> string" where
  "phaseString NoPhase = []"
| "phaseString Pending = ''Pending''"
| "phaseString Running = ''Running''"
| "phaseString Succeeded = ''Succeeded''"
| "phaseString Failed = ''Failed''"
| "phaseString UnknownPhase = ''Unknown''"

record PodCondition =
  pc_Type :: string
  pc_Status :: string
  pc_LastTransitionTime :: time

record ContainerStatus =
  cs_Name :: string
  cs_Terminated :: "int option"

record PodStatus =
  pst_Phase :: PodPhase
  pst_Conditions :: "PodCondition list"
  pst_ContainerStatuses :: "ContainerStatus list"
  pst_Reason :: string
  pst_Message :: string

record Pod =
  pod_Meta :: ObjectMeta
  pod_Spec :: PodSpec
  pod_Status :: PodStatus

definition emptyPodStatus :: PodStatus where
  "emptyPodStatus = \<lparr>pst_Phase = NoPhase, pst_Conditions = [], pst_ContainerStatuses = [], pst_Reason = [], pst_Message = []\<rparr>"

definition emptyPod :: Pod where
  "emptyPod = \<lparr>pod_Meta = emptyMeta, pod_Spec = emptyPodSpec, pod_Status = emptyPodStatus\<rparr>"

lemmas empty_defs = emptyMeta_def emptyContainer_def emptyPodSpec_def emptyPodStatus_def emptyPod_def

subsection \<open>Stateful sets\<close>

record StatefulSet =
  ss_Meta :: ObjectMeta
  ss_Replicas :: "int option"
  ss_Selector :: "LabelSelector option"
  ss_TemplateMeta :: ObjectMeta
  ss_TemplateSpec :: PodSpec
  ss_SpecRest :: opaque
  ss_StatusReplicas :: int
  ss_StatusReadyReplicas :: int
  ss_StatusCurrentReplicas :: int
  ss_StatusUpdatedReplicas :: int

subsection \<open>Names the controllers use\<close>

definition LabelKeyRunnerTemplateHash :: string where "LabelKeyRunnerTemplateHash = ''runner-template-hash''"
definition LabelKeyRunnerDeploymentName :: string where "LabelKeyRunnerDeploymentName = ''runner-deployment-name''"
definition LabelKeyRunnerSetName :: string where "LabelKeyRunnerSetName = ''runnerset-name''"
definition LabelKeyPodTemplateHash :: string where "LabelKeyPodTemplateHash = ''pod-template-hash''"
definition LabelKeyPodMutation :: string where "LabelKeyPodMutation = ''actions-runner-controller/inject-registration-token''"
definition LabelValuePodMutation :: string where "LabelValuePodMutation = ''true''"
definition SyncTimeAnnotationKey :: string where "SyncTimeAnnotationKey = ''sync-time''"
definition AnnotationKeyUnregistrationCompleteTimestamp :: string where
  "AnnotationKeyUnregistrationCompleteTimestamp = ''actions-runner/unregistration-complete-timestamp''"
definition AnnotationKeyRunnerCompletionWaitStartTimestamp :: string where
  "AnnotationKeyRunnerCompletionWaitStartTimestamp = ''actions-runner/runner-completion-wait-start-timestamp''"
definition AnnotationKeyUnregistrationStartTimestamp :: string where
  "AnnotationKeyUnregistrationStartTimestamp = ''actions-runner/unregistration-start-timestamp''"
definition AnnotationKeyUnregistrationRequestTimestamp :: string where
  "AnnotationKeyUnregistrationRequestTimestamp = ''actions-runner/unregistration-request-timestamp''"
definition AnnotationKeyRunnerID :: string where "AnnotationKeyRunnerID = ''actions-runner/id''"
definition containerName :: string where "containerName = ''runner''"
definition finalizerName :: string where "finalizerName = ''runner.actions.summerwind.dev''"
definition runnerPodFinalizerName :: string where "runnerPodFinalizerName = ''actions.summerwind.dev/runner-pod''"

lemmas annotation_keys = AnnotationKeyUnregistrationCompleteTimestamp_def
  AnnotationKeyRunnerCompletionWaitStartTimestamp_def AnnotationKeyUnregistrationStartTimestamp_def
  AnnotationKeyUnregistrationRequestTimestamp_def AnnotationKeyRunnerID_def SyncTimeAnnotationKey_def

lemmas label_keys = LabelKeyRunnerTemplateHash_def LabelKeyRunnerDeploymentName_def LabelKeyRunnerSetName_def
  LabelKeyPodTemplateHash_def LabelKeyPodMutation_def LabelValuePodMutation_def

definition DefaultUnregistrationRetryDelay :: duration where "DefaultUnregistrationRetryDelay = Minute"
definition RetryDelayOnCreateRegistrationError :: duration where "RetryDelayOnCreateRegistrationError = 3 * Minute"
definition registrationTimeout :: duration where "registrationTimeout = 10 * Minute"
definition DefaultRunnerPodRecreationDelayAfterWebhookScale :: duration where
  "DefaultRunnerPodRecreationDelayAfterWebhookScale = 10 * Minute"

subsection \<open>Annotations and labels\<close>

definition getAnnotation :: "ObjectMeta \<Rightarrow> string \<Rightarrow> string option" where
  "getAnnotation obj key = map_of (om_Annotations obj) key"

definition setAnnotation :: "ObjectMeta \<Rightarrow> string \<Rightarrow> string \<Rightarrow> ObjectMeta" where
  "setAnnotation meta key val = meta\<lparr>om_Annotations := AList.update key val (om_Annotations meta)\<rparr>"

lemma getAnnotation_setAnnotation [simp]:
  "getAnnotation (setAnnotation m k v) k' = (if k' = k then Some v else getAnnotation m k')"
  by (simp add: getAnnotation_def setAnnotation_def)

lemma setAnnotation_frame [simp]:
  "om_Name (setAnnotation m k v) = om_Name m" "om_Labels (setAnnotation m k v) = om_Labels m"
  "om_Namespace (setAnnotation m k v) = om_Namespace m"
  "om_DeletionTimestamp (setAnnotation m k v) = om_DeletionTimestamp m"
  "om_CreationTimestamp (setAnnotation m k v) = om_CreationTimestamp m"
  "om_Finalizers (setAnnotation m k v) = om_Finalizers m"
  "om_OwnerReferences (setAnnotation m k v) = om_OwnerReferences m"
  by (simp_all add: setAnnotation_def)

definition getRunnerTemplateHash :: "ObjectMeta \<Rightarrow> string option" where
  "getRunnerTemplateHash r = map_of (om_Labels r) LabelKeyRunnerTemplateHash"

definition CloneAndAddLabel :: "strmap \<Rightarrow> string \<Rightarrow> string \<Rightarrow> strmap" where
  "CloneAndAddLabel labels labelKey labelValue =
     (if labelKey = [] then labels else AList.update labelKey labelValue labels)"

definition CloneSelectorAndAddLabel :: "LabelSelector \<Rightarrow> string \<Rightarrow> string \<Rightarrow> LabelSelector" where
  "CloneSelectorAndAddLabel selector labelKey labelValue =
     (if labelKey = [] then selector
      else \<lparr>ls_MatchLabels = AList.update labelKey labelValue (ls_MatchLabels selector),
            ls_MatchExpressions =
              map_option (map (\<lambda>me. \<lparr>lsr_Key = lsr_Key me, lsr_Operator = lsr_Operator me, lsr_Values = lsr_Values me\<rparr>))
                (ls_MatchExpressions selector)\<rparr>)"

definition filterLabels :: "strmap \<Rightarrow> string \<Rightarrow> strmap" where
  "filterLabels labels flt = filter (\<lambda>(k, v). k \<noteq> flt) labels"

lemma map_of_CloneAndAddLabel:
  "k \<noteq> [] \<Longrightarrow> map_of (CloneAndAddLabel ls k v) k' = (if k' = k then Some v else map_of ls k')"
  by (simp add: CloneAndAddLabel_def)

lemma map_of_CloneSelectorAndAddLabel:
  "k \<noteq> [] \<Longrightarrow> map_of (ls_MatchLabels (CloneSelectorAndAddLabel s k v)) k' =
    (if k' = k then Some v else map_of (ls_MatchLabels s) k')"
  by (simp add: CloneSelectorAndAddLabel_def)

lemma CloneSelectorAndAddLabel_expressions [simp]:
  "ls_MatchExpressions (CloneSelectorAndAddLabel s k v) = ls_MatchExpressions s"
  by (cases "ls_MatchExpressions s") (auto simp: CloneSelectorAndAddLabel_def intro!: map_idI)

lemma map_of_filterLabels: "map_of (filterLabels ls f) k = (if k = f then None else map_of ls k)"
  by (induction ls) (auto simp: filterLabels_def)

lemma matchesLabels_iff:
  "matchesLabels s ls \<longleftrightarrow> (\<forall>k v. map_of (ls_MatchLabels s) k = Some v \<longrightarrow> map_of ls k = Some v)"
  by (auto simp: matchesLabels_def dom_map_of_conv_image_fst [symmetric] dom_def)

definition getIntOrDefault :: "int option \<Rightarrow> int \<Rightarrow> int" where
  "getIntOrDefault p d = (case p of None \<Rightarrow> d | Some v \<Rightarrow> v)"

end
