(* ===== verification/Api_Types.thy ===== *)
theory Api_Types
  imports Kube_Types
begin

section \<open>The custom resources\<close>

text \<open>
  Model of \<open>src/api/v1alpha1\<close>: the five custom resources as records with the fields of the Go structs, the
  validation of the three admission webhooks and \<open>IsRegisterable\<close>. An embedded struct is a field. The Go interface \<open>webhook.Validator\<close> is the
  locale \<open>validator\<close>, interpreted for the three types that implement it.
\<close>

subsection \<open>Runners\<close>

record RunnerConfig =
  rc_Enterprise :: string
  rc_Organization :: string
  rc_Repository :: string
  rc_Labels :: "string list"
  rc_Group :: string
  rc_Ephemeral :: "bool option"
  rc_Image :: string
  rc_WorkDir :: string
  rc_DockerdWithinRunnerContainer :: "bool option"
  rc_DockerEnabled :: "bool option"
  rc_DockerMTU :: "int option"
  rc_DockerRegistryMirror :: "string option"
  rc_VolumeSizeLimit :: "int option"
  rc_VolumeStorageMedium :: "string option"

record RunnerPodSpec =
  rp_DockerdContainerResources :: opaque
  rp_DockerVolumeMounts :: "VolumeMount list"
  rp_DockerEnv :: "EnvVar list"
  rp_Containers :: "Container list"
  rp_ImagePullPolicy :: string
  rp_Env :: "EnvVar list"
  rp_EnvFrom :: "opaque list"
  rp_Resources :: opaque
  rp_VolumeMounts :: "VolumeMount list"
  rp_Volumes :: "Volume list"
  rp_EnableServiceLinks :: "bool option"
  rp_InitContainers :: "Container list"
  rp_NodeSelector :: "strmap option"
  rp_ServiceAccountName :: string
  rp_AutomountServiceAccountToken :: "bool option"
  rp_SidecarContainers :: "Container list"
  rp_SecurityContext :: "PodSecurityContext option"
  rp_ImagePullSecrets :: "string list"
  rp_Affinity :: "opaque option"
  rp_Tolerations :: "opaque list"
  rp_TerminationGracePeriodSeconds :: "int option"
  rp_EphemeralContainers :: "opaque list"
  rp_HostAliases :: "opaque list"
  rp_TopologySpreadConstraints :: "opaque list"
  rp_RuntimeClassName :: "string option"
  rp_DnsConfig :: "opaque option"

record RunnerSpec =
  rs_Config :: RunnerConfig
  rs_PodSpec :: RunnerPodSpec

record RunnerStatusRegistration =
  reg_Enterprise :: string
  reg_Organization :: string
  reg_Repository :: string
  reg_Labels :: "string list"
  reg_Token :: string
  reg_ExpiresAt :: time

record RunnerStatus =
  rst_Ready :: bool
  rst_Registration :: RunnerStatusRegistration
  rst_Phase :: string
  rst_Reason :: string
  rst_Message :: string
  rst_LastRegistrationCheckTime :: "time option"

record Runner =
  r_Meta :: ObjectMeta
  r_Spec :: RunnerSpec
  r_Status :: RunnerStatus

subsection \<open>Replica sets, deployments, runner sets\<close>

record RunnerTemplate =
  rt_Meta :: ObjectMeta
  rt_Spec :: RunnerSpec

record RunnerReplicaSetSpec =
  rrss_Replicas :: "int option"
  rrss_EffectiveTime :: "time option"
  rrss_Selector :: "LabelSelector option"
  rrss_Template :: RunnerTemplate

record RunnerReplicaSetStatus =
  rrst_Replicas :: "int option"
  rrst_ReadyReplicas :: "int option"
  rrst_AvailableReplicas :: "int option"

record RunnerReplicaSet =
  rrs_Meta :: ObjectMeta
  rrs_Spec :: RunnerReplicaSetSpec
  rrs_Status :: RunnerReplicaSetStatus

record RunnerDeploymentSpec =
  rds_Replicas :: "int option"
  rds_EffectiveTime :: "time option"
  rds_Selector :: "LabelSelector option"
  rds_Template :: RunnerTemplate

record RunnerDeploymentStatus =
  rdst_AvailableReplicas :: "int option"
  rdst_ReadyReplicas :: "int option"
  rdst_UpdatedReplicas :: "int option"
  rdst_DesiredReplicas :: "int option"
  rdst_Replicas :: "int option"

record RunnerDeployment =
  rd_Meta :: ObjectMeta
  rd_Spec :: RunnerDeploymentSpec
  rd_Status :: RunnerDeploymentStatus

text \<open>A \<open>RunnerSetSpec\<close> embeds a \<open>RunnerConfig\<close> and an \<open>appsv1.StatefulSetSpec\<close>.\<close>

record RunnerSetSpec =
  rss_Config :: RunnerConfig
  rss_EffectiveTime :: "time option"
  rss_Replicas :: "int option"
  rss_Selector :: "LabelSelector option"
  rss_TemplateMeta :: ObjectMeta
  rss_TemplateSpec :: PodSpec
  rss_StatefulSetRest :: opaque

record RunnerSetStatus =
  rsst_CurrentReplicas :: "int option"
  rsst_ReadyReplicas :: "int option"
  rsst_UpdatedReplicas :: "int option"
  rsst_DesiredReplicas :: "int option"
  rsst_Replicas :: "int option"

record RunnerSet =
  rset_Meta :: ObjectMeta
  rset_Spec :: RunnerSetSpec
  rset_Status :: RunnerSetStatus

subsection \<open>Horizontal runner autoscalers\<close>

record CheckRunSpec =
  crs_Types :: "string list"
  crs_Status :: string
  crs_Names :: "string list"
  crs_Repositories :: "string list"

datatype WorkflowJobSpec = WorkflowJobSpec

record PullRequestSpec =
  prs_Types :: "string list"
  prs_Branches :: "string list"

datatype PushSpec = PushSpec

record GitHubEventScaleUpTriggerSpec =
  ge_CheckRun :: "CheckRunSpec option"
  ge_PullRequest :: "PullRequestSpec option"
  ge_Push :: "PushSpec option"
  ge_WorkflowJob :: "WorkflowJobSpec option"

record ScaleUpTrigger =
  sut_GitHubEvent :: "GitHubEventScaleUpTriggerSpec option"
  sut_Amount :: int
  sut_Duration :: duration

record CapacityReservation =
  cr_Name :: string
  cr_ExpirationTime :: time
  cr_Replicas :: int
  cr_EffectiveTime :: time

record ScaleTargetRef =
  str_Kind :: string
  str_Name :: string

record MetricSpec =
  m_Type :: string
  m_RepositoryNames :: "string list"
  m_ScaleUpThreshold :: string
  m_ScaleDownThreshold :: string
  m_ScaleUpFactor :: string
  m_ScaleDownFactor :: string
  m_ScaleUpAdjustment :: int
  m_ScaleDownAdjustment :: int

record RecurrenceRule =
  rr_Frequency :: string
  rr_UntilTime :: time

record ScheduledOverride =
  so_StartTime :: time
  so_EndTime :: time
  so_MinReplicas :: "int option"
  so_RecurrenceRule :: RecurrenceRule

record HorizontalRunnerAutoscalerSpec =
  hs_ScaleTargetRef :: ScaleTargetRef
  hs_MinReplicas :: "int option"
  hs_MaxReplicas :: "int option"
  hs_ScaleDownDelaySecondsAfterScaleUp :: "int option"
  hs_Metrics :: "MetricSpec list"
  hs_ScaleUpTriggers :: "ScaleUpTrigger list"
  hs_CapacityReservations :: "CapacityReservation list"
  hs_ScheduledOverrides :: "ScheduledOverride list"

record CacheEntry =
  ce_Key :: string
  ce_Value :: int
  ce_ExpirationTime :: time

record HorizontalRunnerAutoscalerStatus =
  hst_ObservedGeneration :: int
  hst_DesiredReplicas :: "int option"
  hst_LastSuccessfulScaleOutTime :: "time option"
  hst_CacheEntries :: "CacheEntry list"
  hst_ScheduledOverridesSummary :: "string option"

record HorizontalRunnerAutoscaler =
  hra_Meta :: ObjectMeta
  hra_Spec :: HorizontalRunnerAutoscalerSpec
  hra_Status :: HorizontalRunnerAutoscalerStatus

definition AutoscalingMetricTypeTotalNumberOfQueuedAndInProgressWorkflowRuns :: string where
  "AutoscalingMetricTypeTotalNumberOfQueuedAndInProgressWorkflowRuns = ''TotalNumberOfQueuedAndInProgressWorkflowRuns''"

definition AutoscalingMetricTypePercentageRunnersBusy :: string where
  "AutoscalingMetricTypePercentageRunnersBusy = ''PercentageRunnersBusy''"

lemmas metric_types = AutoscalingMetricTypeTotalNumberOfQueuedAndInProgressWorkflowRuns_def
  AutoscalingMetricTypePercentageRunnersBusy_def

text \<open>The selector of a deployment's runners.\<close>

definition getSelector :: "RunnerDeployment \<Rightarrow> LabelSelector" where
  "getSelector rd =
     (case rds_Selector (rd_Spec rd) of
        None \<Rightarrow> \<lparr>ls_MatchLabels = [(LabelKeyRunnerDeploymentName, om_Name (rd_Meta rd))], ls_MatchExpressions = None\<rparr>
      | Some selector \<Rightarrow> selector)"

subsection \<open>Validation\<close>

definition ValidateRepository :: "RunnerSpec \<Rightarrow> goerr option" where
  "ValidateRepository rs =
     (let foundCount = (if length (rc_Organization (rs_Config rs)) > 0 then 1 else 0)
            + (if length (rc_Repository (rs_Config rs)) > 0 then 1 else 0)
            + (if length (rc_Enterprise (rs_Config rs)) > 0 then 1 else (0 :: int))
      in if foundCount = 0 then Some (Errorf ''Spec needs enterprise, organization or repository'')
         else if foundCount > 1 then
           Some (Errorf ''Spec cannot have many fields defined enterprise, organization and repository'')
         else None)"

text \<open>The outcome of an admission check: the invalid fields of \<open>apierrors.NewInvalid\<close>, each with the offending value and message.\<close>

type_synonym invalid = "(string list \<times> string \<times> goerr) list"

definition newInvalid :: "invalid \<Rightarrow> invalid option" where
  "newInvalid errList = (if length errList > 0 then Some errList else None)"

definition validateAt :: "string list \<Rightarrow> RunnerSpec \<Rightarrow> invalid option" where
  "validateAt path spec =
     newInvalid (case ValidateRepository spec of
         None \<Rightarrow> []
       | Some e \<Rightarrow> [(path, rc_Repository (rs_Config spec), e)])"

definition Runner_Validate :: "Runner \<Rightarrow> invalid option" where
  "Runner_Validate r = validateAt [''spec'', ''repository''] (r_Spec r)"

definition Runner_ValidateCreate :: "Runner \<Rightarrow> invalid option" where
  "Runner_ValidateCreate r = Runner_Validate r"

definition Runner_ValidateUpdate :: "Runner \<Rightarrow> Runner \<Rightarrow> invalid option" where
  "Runner_ValidateUpdate r old = Runner_Validate r"

definition Runner_ValidateDelete :: "Runner \<Rightarrow> invalid option" where
  "Runner_ValidateDelete r = None"

definition Runner_Default :: "Runner \<Rightarrow> Runner" where "Runner_Default r = r"

definition RunnerDeployment_Validate :: "RunnerDeployment \<Rightarrow> invalid option" where
  "RunnerDeployment_Validate r =
     validateAt [''spec'', ''template'', ''spec'', ''repository''] (rt_Spec (rds_Template (rd_Spec r)))"

definition RunnerDeployment_ValidateCreate :: "RunnerDeployment \<Rightarrow> invalid option" where
  "RunnerDeployment_ValidateCreate r = RunnerDeployment_Validate r"

definition RunnerDeployment_ValidateUpdate :: "RunnerDeployment \<Rightarrow> RunnerDeployment \<Rightarrow> invalid option" where
  "RunnerDeployment_ValidateUpdate r old = RunnerDeployment_Validate r"

definition RunnerDeployment_ValidateDelete :: "RunnerDeployment \<Rightarrow> invalid option" where
  "RunnerDeployment_ValidateDelete r = None"

definition RunnerDeployment_Default :: "RunnerDeployment \<Rightarrow> RunnerDeployment" where "RunnerDeployment_Default r = r"

definition RunnerReplicaSet_Validate :: "RunnerReplicaSet \<Rightarrow> invalid option" where
  "RunnerReplicaSet_Validate r =
     validateAt [''spec'', ''template'', ''spec'', ''repository''] (rt_Spec (rrss_Template (rrs_Spec r)))"

definition RunnerReplicaSet_ValidateCreate :: "RunnerReplicaSet \<Rightarrow> invalid option" where
  "RunnerReplicaSet_ValidateCreate r = RunnerReplicaSet_Validate r"

definition RunnerReplicaSet_ValidateUpdate :: "RunnerReplicaSet \<Rightarrow> RunnerReplicaSet \<Rightarrow> invalid option" where
  "RunnerReplicaSet_ValidateUpdate r old = RunnerReplicaSet_Validate r"

definition RunnerReplicaSet_ValidateDelete :: "RunnerReplicaSet \<Rightarrow> invalid option" where
  "RunnerReplicaSet_ValidateDelete r = None"

definition RunnerReplicaSet_Default :: "RunnerReplicaSet \<Rightarrow> RunnerReplicaSet" where "RunnerReplicaSet_Default r = r"

text \<open>\<open>Time.Before\<close> on a \<open>metav1.Time\<close>; \<open>now\<close> is the clock reading.\<close>

definition IsRegisterable :: "time \<Rightarrow> Runner \<Rightarrow> bool" where
  "IsRegisterable now r =
     (let reg = rst_Registration (r_Status r)
      in if reg_Repository reg \<noteq> rc_Repository (rs_Config (r_Spec r)) then False
         else if reg_Token reg = [] then False
         else if reg_ExpiresAt reg < now then False
         else True)"

subsection \<open>The scope of a runner\<close>

text \<open>A runner specification names exactly one of enterprise, organization and repository.\<close>

definition scopes :: "RunnerSpec \<Rightarrow> string list" where
  "scopes rs = filter (\<lambda>s. s \<noteq> []) [rc_Enterprise (rs_Config rs), rc_Organization (rs_Config rs), rc_Repository (rs_Config rs)]"

lemma ValidateRepository_iff: "ValidateRepository rs = None \<longleftrightarrow> length (scopes rs) = 1"
  by (simp add: ValidateRepository_def scopes_def Let_def)

lemma validateAt_iff: "validateAt p rs = None \<longleftrightarrow> length (scopes rs) = 1"
  using ValidateRepository_iff [of rs] by (auto simp add: validateAt_def newInvalid_def split: option.splits)

text \<open>
  The interface \<open>webhook.Validator\<close>. Creation and update are judged by the new object alone and by the same rule, deletion is never refused.
\<close>

locale validator =
  fixes create :: "'r \<Rightarrow> invalid option"
    and update :: "'r \<Rightarrow> 'r \<Rightarrow> invalid option"
    and remove :: "'r \<Rightarrow> invalid option"
    and spec :: "'r \<Rightarrow> RunnerSpec"
  assumes create_iff: "create r = None \<longleftrightarrow> length (scopes (spec r)) = 1"
    and update_create: "update r old = create r"
    and remove_ok: "remove r = None"
begin

definition admit :: "'r option \<Rightarrow> 'r option \<Rightarrow> bool" where
  "admit old new = (case (old, new) of
      (None, Some r) \<Rightarrow> create r = None
    | (Some o', Some r) \<Rightarrow> update r o' = None
    | (Some o', None) \<Rightarrow> remove o' = None
    | (None, None) \<Rightarrow> True)"

text \<open>Whatever is stored after an admitted request names exactly one scope.\<close>

lemma admit_scope: "admit old (Some r) \<Longrightarrow> length (scopes (spec r)) = 1"
  by (cases old) (simp_all add: admit_def create_iff update_create)

lemma admit_remove: "admit old None"
  by (cases old) (simp_all add: admit_def remove_ok)

end

interpretation runner: validator Runner_ValidateCreate Runner_ValidateUpdate Runner_ValidateDelete r_Spec
  by unfold_locales
    (simp_all add: Runner_ValidateCreate_def Runner_ValidateUpdate_def Runner_ValidateDelete_def
      Runner_Validate_def validateAt_iff)

interpretation deployment: validator RunnerDeployment_ValidateCreate RunnerDeployment_ValidateUpdate
  RunnerDeployment_ValidateDelete "\<lambda>r. rt_Spec (rds_Template (rd_Spec r))"
  by unfold_locales
    (simp_all add: RunnerDeployment_ValidateCreate_def RunnerDeployment_ValidateUpdate_def
      RunnerDeployment_ValidateDelete_def RunnerDeployment_Validate_def validateAt_iff)

interpretation replicaset: validator RunnerReplicaSet_ValidateCreate RunnerReplicaSet_ValidateUpdate
  RunnerReplicaSet_ValidateDelete "\<lambda>r. rt_Spec (rrss_Template (rrs_Spec r))"
  by unfold_locales
    (simp_all add: RunnerReplicaSet_ValidateCreate_def RunnerReplicaSet_ValidateUpdate_def
      RunnerReplicaSet_ValidateDelete_def RunnerReplicaSet_Validate_def validateAt_iff)

subsection \<open>Example objects\<close>

definition exampleConfig :: RunnerConfig where
  "exampleConfig = \<lparr>rc_Enterprise = [], rc_Organization = [], rc_Repository = ''o/r'', rc_Labels = [''linux''], rc_Group = [], rc_Ephemeral = None,
     rc_Image = [], rc_WorkDir = [], rc_DockerdWithinRunnerContainer = None, rc_DockerEnabled = None, rc_DockerMTU = None,
     rc_DockerRegistryMirror = None, rc_VolumeSizeLimit = None, rc_VolumeStorageMedium = None\<rparr>"

definition exampleRunnerPodSpec :: RunnerPodSpec where
  "exampleRunnerPodSpec = \<lparr>rp_DockerdContainerResources = [], rp_DockerVolumeMounts = [], rp_DockerEnv = [], rp_Containers = [], rp_ImagePullPolicy = [],
     rp_Env = [], rp_EnvFrom = [], rp_Resources = [], rp_VolumeMounts = [], rp_Volumes = [], rp_EnableServiceLinks = None, rp_InitContainers = [],
     rp_NodeSelector = None, rp_ServiceAccountName = [], rp_AutomountServiceAccountToken = None, rp_SidecarContainers = [], rp_SecurityContext = None,
     rp_ImagePullSecrets = [], rp_Affinity = None, rp_Tolerations = [], rp_TerminationGracePeriodSeconds = None, rp_EphemeralContainers = [],
     rp_HostAliases = [], rp_TopologySpreadConstraints = [], rp_RuntimeClassName = None, rp_DnsConfig = None\<rparr>"

definition exampleSpec :: RunnerSpec where
  "exampleSpec = \<lparr>rs_Config = exampleConfig\<lparr>rc_Organization := ''o'', rc_Repository := [], rc_Labels := []\<rparr>, rs_PodSpec = exampleRunnerPodSpec\<rparr>"

definition exampleRD :: RunnerDeployment where
  "exampleRD = \<lparr>rd_Meta = emptyMeta, rd_Spec = \<lparr>rds_Replicas = Some 4, rds_EffectiveTime = None, rds_Selector = None,
     rds_Template = \<lparr>rt_Meta = emptyMeta, rt_Spec = exampleSpec\<rparr>\<rparr>,
   rd_Status = \<lparr>rdst_AvailableReplicas = None, rdst_ReadyReplicas = None, rdst_UpdatedReplicas = None, rdst_DesiredReplicas = None,
     rdst_Replicas = None\<rparr>\<rparr>"

end
