(* ===== verification/Runner_Groups.thy ===== *)
theory Runner_Groups
  imports Go_Strings "HOL-Library.Multiset"
begin

section \<open>Runner groups and their precedence\<close>

text \<open>
  Model of \<open>src/simulator/runnergroups.go\<close>: runner groups, the list of groups visible to a repository, kept sorted by a
  binary search, and its traversal. The two Go enumerations are datatypes with the order of their constants. \<open>sort.Search\<close> is the loop of
  the standard library.
\<close>

subsection \<open>Data\<close>

datatype RunnerGroupScope = Organization | Enterprise

datatype RunnerGroupKind = Default | Custom

instantiation RunnerGroupScope :: linorder
begin

definition less_eq_RunnerGroupScope :: "RunnerGroupScope \<Rightarrow> RunnerGroupScope \<Rightarrow> bool" where
  "less_eq_RunnerGroupScope a b = (a = b \<or> a = Organization)"

definition less_RunnerGroupScope :: "RunnerGroupScope \<Rightarrow> RunnerGroupScope \<Rightarrow> bool" where
  "less_RunnerGroupScope a b = (a = Organization \<and> b = Enterprise)"

instance
proof
  fix x y z :: RunnerGroupScope
  show "x < y \<longleftrightarrow> x \<le> y \<and> \<not> y \<le> x"
    by (cases x; cases y) (auto simp: less_eq_RunnerGroupScope_def less_RunnerGroupScope_def)
  show "x \<le> x" by (simp add: less_eq_RunnerGroupScope_def)
  show "x \<le> y \<Longrightarrow> y \<le> z \<Longrightarrow> x \<le> z" by (auto simp: less_eq_RunnerGroupScope_def)
  show "x \<le> y \<Longrightarrow> y \<le> x \<Longrightarrow> x = y" by (auto simp: less_eq_RunnerGroupScope_def)
  show "x \<le> y \<or> y \<le> x" by (cases x; cases y) (auto simp: less_eq_RunnerGroupScope_def)
qed

end

instantiation RunnerGroupKind :: linorder
begin

definition less_eq_RunnerGroupKind :: "RunnerGroupKind \<Rightarrow> RunnerGroupKind \<Rightarrow> bool" where
  "less_eq_RunnerGroupKind a b = (a = b \<or> a = Default)"

definition less_RunnerGroupKind :: "RunnerGroupKind \<Rightarrow> RunnerGroupKind \<Rightarrow> bool" where
  "less_RunnerGroupKind a b = (a = Default \<and> b = Custom)"

instance
proof
  fix x y z :: RunnerGroupKind
  show "x < y \<longleftrightarrow> x \<le> y \<and> \<not> y \<le> x"
    by (cases x; cases y) (auto simp: less_eq_RunnerGroupKind_def less_RunnerGroupKind_def)
  show "x \<le> x" by (simp add: less_eq_RunnerGroupKind_def)
  show "x \<le> y \<Longrightarrow> y \<le> z \<Longrightarrow> x \<le> z" by (auto simp: less_eq_RunnerGroupKind_def)
  show "x \<le> y \<Longrightarrow> y \<le> x \<Longrightarrow> x = y" by (auto simp: less_eq_RunnerGroupKind_def)
  show "x \<le> y \<or> y \<le> x" by (cases x; cases y) (auto simp: less_eq_RunnerGroupKind_def)
qed

end

lemmas enum_order = less_eq_RunnerGroupScope_def less_RunnerGroupScope_def
  less_eq_RunnerGroupKind_def less_RunnerGroupKind_def

record RunnerGroup =
  Scope :: RunnerGroupScope
  Kind :: RunnerGroupKind
  Name :: string

type_synonym VisibleRunnerGroups = "RunnerGroup list"

text \<open>What GitHub says of a runner group (a \<open>github.RunnerGroup\<close>; absent fields read as zero values).\<close>

record GhRunnerGroup =
  ghDefault :: bool
  ghInherited :: bool
  ghName :: string
  ghVisibility :: string
  ghID :: int

subsection \<open>The code\<close>

fun scopeString :: "RunnerGroupScope \<Rightarrow> string" where
  "scopeString Organization = ''Organization''"
| "scopeString Enterprise = ''Enterprise''"

fun kindString :: "RunnerGroupKind \<Rightarrow> string" where
  "kindString Default = ''Default''"
| "kindString Custom = ''Custom''"

definition newRunnerGroup :: "RunnerGroupScope \<Rightarrow> string \<Rightarrow> RunnerGroup" where
  "newRunnerGroup scope name =
     (if name = [] then \<lparr>Scope = scope, Kind = Default, Name = []\<rparr>
      else \<lparr>Scope = scope, Kind = Custom, Name = name\<rparr>)"

definition NewRunnerGroupFromGitHub :: "GhRunnerGroup \<Rightarrow> RunnerGroup" where
  "NewRunnerGroupFromGitHub g =
     (let name = (if \<not> ghDefault g then ghName g else []);
          scope = (if ghInherited g then Enterprise else Organization)
      in newRunnerGroup scope name)"

definition NewRunnerGroupFromProperties :: "string \<Rightarrow> string \<Rightarrow> string \<Rightarrow> RunnerGroup" where
  "NewRunnerGroupFromProperties enterprise organization grp =
     (let scope = (if enterprise \<noteq> [] then Enterprise else Organization)
      in newRunnerGroup scope grp)"

definition groupString :: "RunnerGroup \<Rightarrow> string" where
  "groupString r = ''RunnerGroup{Scope:'' @ scopeString (Scope r) @ '', Kind:'' @ kindString (Kind r) @
     '', Name:'' @ Name r @ ''}''"

definition NewVisibleRunnerGroups :: VisibleRunnerGroups where
  "NewVisibleRunnerGroups = []"

definition groupsString :: "VisibleRunnerGroups \<Rightarrow> string" where
  "groupsString g = Join (map groupString g) '', ''"

definition IsEmpty :: "VisibleRunnerGroups \<Rightarrow> bool" where
  "IsEmpty g = (length g = 0)"

fun Includes :: "VisibleRunnerGroups \<Rightarrow> RunnerGroup \<Rightarrow> bool" where
  "Includes [] ref = False"
| "Includes (r # rs) ref =
     (if Scope r = Scope ref \<and> Kind r = Kind ref \<and> Name r = Name ref then True else Includes rs ref)"

text \<open>\<open>sort.Search\<close>: binary search for the least index at which \<open>f\<close> holds, \<open>j\<close> being the upper end.\<close>

function searchLoop :: "(nat \<Rightarrow> bool) \<Rightarrow> nat \<Rightarrow> nat \<Rightarrow> nat" where
  "searchLoop f i j =
     (if i < j then (let h = (i + j) div 2 in if \<not> f h then searchLoop f (h + 1) j else searchLoop f i h)
      else i)"
  by pat_completeness auto
termination
  by (relation "measure (\<lambda>(f, i, j). j - i)") auto

declare searchLoop.simps [simp del]

definition sortSearch :: "nat \<Rightarrow> (nat \<Rightarrow> bool) \<Rightarrow> nat" where
  "sortSearch n f = searchLoop f 0 n"

definition insertGroup :: "VisibleRunnerGroups \<Rightarrow> RunnerGroup \<Rightarrow> nat \<Rightarrow> VisibleRunnerGroups" where
  "insertGroup g rg i = take i g @ [rg] @ drop i g"

text \<open>The closure that \<open>Add\<close> passes to \<open>sort.Search\<close>.\<close>

definition precedes :: "RunnerGroup \<Rightarrow> RunnerGroup \<Rightarrow> bool" where
  "precedes rg data =
     (if Kind rg > Kind data then False
      else if Kind rg < Kind data then True
      else if Scope rg > Scope data then False
      else if Scope rg < Scope data then True
      else False)"

definition Add :: "VisibleRunnerGroups \<Rightarrow> RunnerGroup \<Rightarrow> VisibleRunnerGroups" where
  "Add g rg =
     (let n = length g; i = sortSearch n (\<lambda>i. precedes rg (g ! i))
      in insertGroup g rg i)"

text \<open>
  \<open>Traverse\<close> with a callback that may fail; the callback's assignment to a captured variable is the
  result it hands back with \<open>True\<close>.
\<close>

fun Traverse :: "VisibleRunnerGroups \<Rightarrow> (RunnerGroup \<Rightarrow> 'a option go) \<Rightarrow> 'a option go" where
  "Traverse [] f = Ret None"
| "Traverse (rg # rgs) f =
     (case f rg of
        Err e \<Rightarrow> Err e
      | Panic s \<Rightarrow> Panic s
      | Hang \<Rightarrow> Hang
      | Ret (Some x) \<Rightarrow> Ret (Some x)
      | Ret None \<Rightarrow> Traverse rgs f)"

subsection \<open>Binary search\<close>

lemma searchLoop_step:
  "i < j \<Longrightarrow> searchLoop f i j =
    (if f ((i + j) div 2) then searchLoop f i ((i + j) div 2) else searchLoop f ((i + j) div 2 + 1) j)"
  by (simp add: searchLoop.simps [of f i j] Let_def)

lemma searchLoop_stop: "\<not> i < j \<Longrightarrow> searchLoop f i j = i"
  by (simp add: searchLoop.simps [of f i j])

text \<open>For a predicate that once true stays true, the search finds the boundary.\<close>

lemma searchLoop_boundary:
  assumes mono: "\<forall>a b. a \<le> b \<longrightarrow> b < n \<longrightarrow> f a \<longrightarrow> f b"
  shows "i \<le> j \<Longrightarrow> j \<le> n \<Longrightarrow> (\<forall>k < i. \<not> f k) \<Longrightarrow> (\<forall>k. j \<le> k \<and> k < n \<longrightarrow> f k) \<Longrightarrow>
    searchLoop f i j \<le> j \<and> (\<forall>k < searchLoop f i j. \<not> f k) \<and> (\<forall>k. searchLoop f i j \<le> k \<and> k < n \<longrightarrow> f k)"
proof (induction "j - i" arbitrary: i j rule: less_induct)
  case less
  let ?h = "(i + j) div 2"
  show ?case
  proof (cases "i < j")
    case False
    with less.prems show ?thesis by (simp add: searchLoop_stop)
  next
    case True
    then have h: "i \<le> ?h" "?h < j" by auto
    show ?thesis
    proof (cases "f ?h")
      case ft: True
      have "\<forall>k. ?h \<le> k \<and> k < n \<longrightarrow> f k" using mono ft by blast
      moreover have "?h - i < j - i" and "?h \<le> n" using h True less.prems(2) by linarith+
      ultimately have "searchLoop f i ?h \<le> ?h \<and> (\<forall>k < searchLoop f i ?h. \<not> f k) \<and>
          (\<forall>k. searchLoop f i ?h \<le> k \<and> k < n \<longrightarrow> f k)"
        using less.hyps [of ?h i] h less.prems(3) by blast
      then show ?thesis unfolding searchLoop_step [OF True] if_P [OF ft] using h by (metis less_imp_le order.trans)
    next
      case ff: False
      have "?h < n" using h less.prems(2) by linarith
      then have "\<not> f k" if "k < ?h + 1" for k using mono that ff by (metis Suc_eq_plus1 less_Suc_eq_le)
      moreover have "j - (?h + 1) < j - i" and "?h + 1 \<le> j" using h True by linarith+
      ultimately have "searchLoop f (?h + 1) j \<le> j \<and> (\<forall>k < searchLoop f (?h + 1) j. \<not> f k) \<and>
          (\<forall>k. searchLoop f (?h + 1) j \<le> k \<and> k < n \<longrightarrow> f k)"
        using less.hyps [of j "?h + 1"] less.prems(2,4) by blast
      then show ?thesis unfolding searchLoop_step [OF True] if_not_P [OF ff] .
    qed
  qed
qed

lemma sortSearch_boundary:
  assumes "\<forall>a b. a \<le> b \<longrightarrow> b < n \<longrightarrow> f a \<longrightarrow> f b"
  shows "sortSearch n f \<le> n \<and> (\<forall>k < sortSearch n f. \<not> f k) \<and> (\<forall>k. sortSearch n f \<le> k \<and> k < n \<longrightarrow> f k)"
  unfolding sortSearch_def by (rule searchLoop_boundary [OF assms]) auto

subsection \<open>Precedence order\<close>

text \<open>A group ranks before another one when its kind, then its scope, is smaller.\<close>

definition rank :: "RunnerGroup \<Rightarrow> nat" where
  "rank g = (case Kind g of Default \<Rightarrow> 0 | Custom \<Rightarrow> 2) + (case Scope g of Organization \<Rightarrow> 0 | Enterprise \<Rightarrow> 1)"

lemma precedes_rank: "precedes a b \<longleftrightarrow> rank a < rank b"
  by (cases "Kind a"; cases "Kind b"; cases "Scope a"; cases "Scope b")
     (simp_all add: precedes_def rank_def enum_order)

definition sortedGroups :: "VisibleRunnerGroups \<Rightarrow> bool" where
  "sortedGroups g = sorted (map rank g)"

text \<open>Reference insertion: after every group of the same or a smaller rank.\<close>

fun insertAfter :: "RunnerGroup \<Rightarrow> VisibleRunnerGroups \<Rightarrow> VisibleRunnerGroups" where
  "insertAfter rg [] = [rg]"
| "insertAfter rg (x # xs) = (if rank rg < rank x then rg # x # xs else x # insertAfter rg xs)"

lemma insertAfter_split:
  "(\<forall>x \<in> set xs. \<not> rank rg < rank x) \<Longrightarrow> (\<forall>y \<in> set ys. rank rg < rank y) \<Longrightarrow>
    insertAfter rg (xs @ ys) = xs @ rg # ys"
  by (induction xs) (cases ys, auto)

lemma Add_split:
  assumes "sortedGroups g"
  obtains xs ys where "g = xs @ ys" "Add g rg = xs @ rg # ys"
    "\<forall>x \<in> set xs. \<not> rank rg < rank x" "\<forall>y \<in> set ys. rank rg < rank y"
proof -
  let ?f = "\<lambda>i. precedes rg (g ! i)" and ?n = "length g"
  let ?i = "sortSearch ?n ?f"
  have "\<forall>a b. a \<le> b \<longrightarrow> b < ?n \<longrightarrow> ?f a \<longrightarrow> ?f b"
  proof (intro allI impI)
    fix a b
    assume "a \<le> b" "b < ?n" "?f a"
    moreover from this have "map rank g ! a \<le> map rank g ! b"
      using assms unfolding sortedGroups_def by (intro sorted_nth_mono) simp_all
    ultimately show "?f b" by (simp add: precedes_rank)
  qed
  note b = sortSearch_boundary [OF this]
  show ?thesis
  proof (rule that [of "take ?i g" "drop ?i g"])
    show "Add g rg = take ?i g @ rg # drop ?i g" by (simp add: Add_def insertGroup_def Let_def)
    show "\<forall>x \<in> set (take ?i g). \<not> rank rg < rank x"
    proof
      fix x
      assume "x \<in> set (take ?i g)"
      then obtain k where "k < ?i" and "x = g ! k" by (auto simp: in_set_conv_nth)
      with b show "\<not> rank rg < rank x" unfolding precedes_rank by blast
    qed
    show "\<forall>y \<in> set (drop ?i g). rank rg < rank y"
    proof
      fix y
      assume "y \<in> set (drop ?i g)"
      then obtain k where "k < ?n - ?i" and "y = g ! (?i + k)" by (auto simp: in_set_conv_nth)
      moreover from this(1) have "?i \<le> ?i + k" and "?i + k < ?n" by linarith+
      ultimately show "rank rg < rank y" using b unfolding precedes_rank by blast
    qed
  qed simp
qed

lemma Add_eq_insertAfter: "sortedGroups g \<Longrightarrow> Add g rg = insertAfter rg g"
  by (rule Add_split [of g rg]) (simp_all add: insertAfter_split)

lemma mset_insertAfter: "mset (insertAfter rg g) = add_mset rg (mset g)"
  by (induction g) auto

lemma sorted_insertAfter: "sortedGroups g \<Longrightarrow> sortedGroups (insertAfter rg g)"
proof (induction g)
  case (Cons x xs)
  moreover have "set (insertAfter rg xs) = insert rg (set xs)"
    using mset_insertAfter [of rg xs] by (metis set_mset_add_mset_insert set_mset_mset)
  ultimately show ?case by (auto simp: sortedGroups_def)
qed (simp add: sortedGroups_def)

lemma sortedGroups_Nil [simp]: "sortedGroups NewVisibleRunnerGroups"
  by (simp add: sortedGroups_def NewVisibleRunnerGroups_def)

lemma set_Add [simp]: "sortedGroups g \<Longrightarrow> set (Add g rg) = insert rg (set g)"
  by (metis Add_eq_insertAfter mset_insertAfter set_mset_add_mset_insert set_mset_mset)

lemma sorted_Add: "sortedGroups g \<Longrightarrow> sortedGroups (Add g rg)"
  by (simp add: Add_eq_insertAfter sorted_insertAfter)

lemma Includes_iff: "Includes g ref \<longleftrightarrow> ref \<in> set g"
  by (induction g) auto

text \<open>
  C22. \<open>Add\<close> implements stable insertion by precedence: on a sorted list the binary search finds the place after all groups
  of the same or a higher precedence, the list stays sorted, and exactly the new group is added.
\<close>

theorem Add_refines_insertion:
  assumes "sortedGroups g"
  shows "Add g rg = insertAfter rg g \<and> sortedGroups (Add g rg) \<and> mset (Add g rg) = add_mset rg (mset g)"
  using assms by (simp add: Add_eq_insertAfter sorted_insertAfter mset_insertAfter)

theorem Add_refines_insertion_witness:
  "Add [newRunnerGroup Organization [], newRunnerGroup Enterprise ''b''] (newRunnerGroup Organization ''a'') =
   [newRunnerGroup Organization [], newRunnerGroup Organization ''a'', newRunnerGroup Enterprise ''b'']"
  using Add_refines_insertion [of "[newRunnerGroup Organization [], newRunnerGroup Enterprise ''b'']"
      "newRunnerGroup Organization ''a''"]
  by (simp add: sortedGroups_def rank_def newRunnerGroup_def)

lemma Traverse_None:
  "(\<forall>rg \<in> set g. f rg = Ret None) \<Longrightarrow> Traverse g f = Ret None"
  by (induction g) auto

lemma Traverse_Some:
  "Traverse g f = Ret (Some x) \<Longrightarrow>
    \<exists>xs rg ys. g = xs @ rg # ys \<and> f rg = Ret (Some x) \<and> (\<forall>y \<in> set xs. f y = Ret None)"
proof (induction g)
  case (Cons a g)
  show ?case
  proof (cases "f a")
    case (Ret r)
    show ?thesis
    proof (cases r)
      case None
      with Cons Ret obtain xs rg ys where "g = xs @ rg # ys" "f rg = Ret (Some x)" "\<forall>y \<in> set xs. f y = Ret None"
        by auto
      with Ret None have "a # g = (a # xs) @ rg # ys \<and> f rg = Ret (Some x) \<and> (\<forall>y \<in> set (a # xs). f y = Ret None)"
        by simp
      then show ?thesis by blast
    next
      case (Some y)
      with Cons Ret have "a # g = [] @ a # g \<and> f a = Ret (Some x) \<and> (\<forall>y \<in> set []. f y = Ret None)" by simp
      then show ?thesis by blast
    qed
  qed (use Cons in simp_all)
qed simp

text \<open>
  \<open>Traverse\<close> on a sorted list answers with a group of the highest precedence among those its callback accepts:
  every group that ranks strictly before the chosen one was asked and declined.
\<close>

theorem Traverse_highest_precedence:
  assumes "sortedGroups g" and "Traverse g f = Ret (Some x)"
  shows "\<exists>rg \<in> set g. f rg = Ret (Some x) \<and> (\<forall>y \<in> set g. rank y < rank rg \<longrightarrow> f y = Ret None)"
proof -
  obtain xs rg ys where g: "g = xs @ rg # ys" and f: "f rg = Ret (Some x)" and n: "\<forall>y \<in> set xs. f y = Ret None"
    using Traverse_Some [OF assms(2)] by blast
  have "rank rg \<le> rank y" if "y \<in> set ys" for y
    using assms(1) that unfolding g sortedGroups_def by (auto simp: sorted_append)
  with g f n show ?thesis by fastforce
qed

theorem Traverse_highest_precedence_witness:
  "\<exists>rg \<in> set [newRunnerGroup Organization [], newRunnerGroup Enterprise ''b''].
     (if Kind rg = Custom then Ret (Some rg) else Ret None) = Ret (Some (newRunnerGroup Enterprise ''b''))"
  using Traverse_highest_precedence [of "[newRunnerGroup Organization [], newRunnerGroup Enterprise ''b'']"
      "\<lambda>rg. if Kind rg = Custom then Ret (Some rg) else Ret None" "newRunnerGroup Enterprise ''b''"]
  by (simp add: sortedGroups_def rank_def newRunnerGroup_def)

end
