(* ===== verification/Fnv_Hash.thy ===== *)
theory Fnv_Hash
  imports Go_Strings "HOL-Library.Word"
begin

unbundle bit_operations_syntax

section \<open>Template hashes\<close>

text \<open>
  Model of \<open>src/hash/hash.go\<close>, \<open>src/hash/fnv.go\<close> and of \<open>ComputeHash\<close> in
  \<open>src/controllers/runnerdeployment_controller.go\<close>. The hasher is Go's 32 bit FNV-1a, a \<open>32 word\<close>. The
  object printer (package spew) and \<open>rand.SafeEncodeString\<close> are not part of the repository; they are
  the parameters \<open>spew\<close> and \<open>safeEncode\<close>.
\<close>

subsection \<open>FNV-1a and decimal printing\<close>

type_synonym hasher = "32 word"

definition fnvNew32a :: hasher where "fnvNew32a = 2166136261"

definition hashByte :: "hasher \<Rightarrow> char \<Rightarrow> hasher" where
  "hashByte h c = (h XOR of_char c) * 16777619"

definition hashWrite :: "hasher \<Rightarrow> string \<Rightarrow> hasher" where
  "hashWrite h s = foldl hashByte h s"

definition hashReset :: "hasher \<Rightarrow> hasher" where "hashReset h = fnvNew32a"

fun Itoa :: "nat \<Rightarrow> string" where
  "Itoa n = (if n < 10 then [char_of (48 + n)] else Itoa (n div 10) @ [char_of (48 + n mod 10)])"

declare Itoa.simps [simp del]

text \<open>\<open>fmt.Sprintf("%d")\<close>\<close>

definition Sprintd :: "int \<Rightarrow> string" where
  "Sprintd i = (if i < 0 then CHR ''-'' # Itoa (nat (- i)) else Itoa (nat i))"

subsection \<open>The code\<close>

definition DeepHashObject :: "('o \<Rightarrow> string) \<Rightarrow> hasher \<Rightarrow> 'o \<Rightarrow> hasher" where
  "DeepHashObject spew hasher objectToWrite = hashWrite (hashReset hasher) (spew objectToWrite)"

definition FNVHashStringObjects :: "('o \<Rightarrow> string) \<Rightarrow> (string \<Rightarrow> string) \<Rightarrow> 'o list \<Rightarrow> string" where
  "FNVHashStringObjects spew safeEncode objs =
     safeEncode (Itoa (unat (foldl (DeepHashObject spew) fnvNew32a objs)))"

definition ComputeHash :: "('o \<Rightarrow> string) \<Rightarrow> (string \<Rightarrow> string) \<Rightarrow> 'o \<Rightarrow> string" where
  "ComputeHash spew safeEncode template =
     (let hasher = hashWrite (hashReset fnvNew32a) (spew template)
      in safeEncode (Itoa (unat hasher)))"

subsection \<open>Properties\<close>

lemma foldl_DeepHashObject:
  "foldl (DeepHashObject spew) h (objs @ [obj]) = hashWrite fnvNew32a (spew obj)"
  by (simp add: DeepHashObject_def hashReset_def)

text \<open>
  \<open>DeepHashObject\<close> resets the hasher before it writes, so the pod template hash of a list of objects depends
  on nothing but the last object: every object before it can be replaced, added or dropped without any change of the hash.
\<close>

theorem FNVHash_only_last_object:
  "FNVHashStringObjects spew safeEncode (objs @ [obj]) = FNVHashStringObjects spew safeEncode (objs' @ [obj]) \<and>
   FNVHashStringObjects spew safeEncode (objs @ [obj]) = ComputeHash spew safeEncode obj"
  by (simp add: FNVHashStringObjects_def foldl_DeepHashObject ComputeHash_def hashReset_def
      del: foldl_append)

end
