(* ===== verification/GitHub_Client.thy ===== *)
theory GitHub_Client
  imports Runner_Groups Fnv_Hash
begin

section \<open>The GitHub client\<close>

text \<open>
  Model of \<open>src/github/github.go\<close>: the dispatch between repository, organization and enterprise endpoints, the paging loops, and the cache of
  registration tokens with its clean-up. The go-github package is a parameter: a record \<open>GitHub\<close> with one function per endpoint the client calls. A list endpoint
  takes a page number and answers with the items and the number of the next page, 0 at the end; the endpoints that are not lists answer with the HTTP status.
\<close>

record GhRunner =
  ghr_ID :: "int option"
  ghr_Name :: "string option"
  ghr_Status :: string
  ghr_Busy :: bool

record WorkflowRun =
  wr_ID :: int
  wr_Status :: string

record WorkflowJob =
  wj_Labels :: "string list"
  wj_Status :: string

record RegistrationToken =
  rgt_Token :: string
  rgt_ExpiresAt :: time

type_synonym 'a pager = "int \<Rightarrow> ('a list \<times> int) go"

record GitHub =
  gh_CreateRegistrationToken :: "string \<Rightarrow> string \<Rightarrow> (RegistrationToken \<times> int) go"
  gh_CreateOrganizationRegistrationToken :: "string \<Rightarrow> (RegistrationToken \<times> int) go"
  gh_CreateEnterpriseRegistrationToken :: "string \<Rightarrow> (RegistrationToken \<times> int) go"
  gh_RemoveRunner :: "string \<Rightarrow> string \<Rightarrow> int \<Rightarrow> int go"
  gh_RemoveOrganizationRunner :: "string \<Rightarrow> int \<Rightarrow> int go"
  gh_RemoveEnterpriseRunner :: "string \<Rightarrow> int \<Rightarrow> int go"
  gh_ListRunners :: "string \<Rightarrow> string \<Rightarrow> GhRunner pager"
  gh_ListOrganizationRunners :: "string \<Rightarrow> GhRunner pager"
  gh_ListEnterpriseRunners :: "string \<Rightarrow> GhRunner pager"
  gh_ListOrganizationRunnerGroups :: "string \<Rightarrow> GhRunnerGroup pager"
  gh_ListRepositoryAccessRunnerGroup :: "string \<Rightarrow> int \<Rightarrow> string pager"
  gh_GetRunnerGroups :: "string \<Rightarrow> (GhRunnerGroup list \<times> int) go"
  gh_ListRepositoryWorkflowRuns :: "string \<Rightarrow> string \<Rightarrow> string \<Rightarrow> WorkflowRun pager"
  gh_ListWorkflowJobs :: "string \<Rightarrow> string \<Rightarrow> int \<Rightarrow> WorkflowJob pager"

subsection \<open>The paging loops\<close>

text \<open>
  Every list of the client runs the same loop: ask for a page, append its items, go on with \<open>NextPage\<close> until that is 0. The server may
  never answer 0, so the loop is a partial function; not returning is the outcome \<open>Hang\<close>.
\<close>

partial_function (option) pages :: "(goerr \<Rightarrow> goerr) \<Rightarrow> 'a pager \<Rightarrow> int \<Rightarrow> 'a list \<Rightarrow> 'a list go option" where
  [code]: "pages wrap fetch page acc =
     (case fetch page of
        Ret r \<Rightarrow> if snd r = 0 then Some (Ret (acc @ fst r)) else pages wrap fetch (snd r) (acc @ fst r)
      | Err e \<Rightarrow> Some (Err (wrap e))
      | Panic s \<Rightarrow> Some (Panic s)
      | Hang \<Rightarrow> Some Hang)"

definition returned :: "'a go option \<Rightarrow> 'a go" where
  "returned r = (case r of None \<Rightarrow> Hang | Some v \<Rightarrow> v)"

definition listAll :: "(goerr \<Rightarrow> goerr) \<Rightarrow> 'a pager \<Rightarrow> 'a list go" where
  "listAll wrap fetch = returned (pages wrap fetch 0 [])"

subsection \<open>The code\<close>

definition splitOwnerAndRepo :: "string \<Rightarrow> (string \<times> string) go" where
  "splitOwnerAndRepo repo =
     (let chunk = Split repo CHR ''/''
      in if length chunk \<noteq> 2 then Err (Errorf ''invalid repository name'') else Ret (chunk ! 0, chunk ! 1))"

definition getEnterpriseOrganizationAndRepo :: "string \<Rightarrow> string \<Rightarrow> string \<Rightarrow> (string \<times> string \<times> string) go" where
  "getEnterpriseOrganizationAndRepo enterprise org repo =
     (if length repo > 0 then go_bind (splitOwnerAndRepo repo) (\<lambda>(owner, repository). Ret ([], owner, repository))
      else if length org > 0 then Ret ([], org, [])
      else if length enterprise > 0 then Ret (enterprise, [], [])
      else Err (Errorf ''enterprise, organization and repository are all empty''))"

definition getRegistrationKey :: "string \<Rightarrow> string \<Rightarrow> string \<Rightarrow> string" where
  "getRegistrationKey org repo enterprise = ''org='' @ org @ '',repo='' @ repo @ '',enterprise='' @ enterprise"

definition createRegistrationToken :: "GitHub \<Rightarrow> string \<Rightarrow> string \<Rightarrow> string \<Rightarrow> (RegistrationToken \<times> int) go" where
  "createRegistrationToken gh enterprise org repo =
     (if length repo > 0 then gh_CreateRegistrationToken gh org repo
      else if length org > 0 then gh_CreateOrganizationRegistrationToken gh org
      else gh_CreateEnterpriseRegistrationToken gh enterprise)"

definition removeRunner :: "GitHub \<Rightarrow> string \<Rightarrow> string \<Rightarrow> string \<Rightarrow> int \<Rightarrow> int go" where
  "removeRunner gh enterprise org repo runnerID =
     (if length repo > 0 then gh_RemoveRunner gh org repo runnerID
      else if length org > 0 then gh_RemoveOrganizationRunner gh org runnerID
      else gh_RemoveEnterpriseRunner gh enterprise runnerID)"

definition listRunners :: "GitHub \<Rightarrow> string \<Rightarrow> string \<Rightarrow> string \<Rightarrow> GhRunner pager" where
  "listRunners gh enterprise org repo =
     (if length repo > 0 then gh_ListRunners gh org repo
      else if length org > 0 then gh_ListOrganizationRunners gh org
      else gh_ListEnterpriseRunners gh enterprise)"

text \<open>The cache of registration tokens is the client's state; \<open>now\<close> is the clock reading.\<close>

type_synonym regTokens = "(string \<times> RegistrationToken) list"

definition runnerStartupTimeout :: duration where "runnerStartupTimeout = 30 * Minute"

definition freshRegistrationToken :: "GitHub \<Rightarrow> string \<Rightarrow> string \<Rightarrow> string \<Rightarrow> RegistrationToken go" where
  "freshRegistrationToken gh enterprise org repo =
     go_bind (getEnterpriseOrganizationAndRepo enterprise org repo)
       (\<lambda>(enterprise', owner, repo').
         (case createRegistrationToken gh enterprise' owner repo' of
            Err e \<Rightarrow> Err (Errorf ''failed to create registration token'')
          | Ret (rt, status) \<Rightarrow> if status \<noteq> 201 then Err (Errorf ''unexpected status'') else Ret rt
          | Panic s \<Rightarrow> Panic s
          | Hang \<Rightarrow> Hang))"

definition GetRegistrationToken ::
  "GitHub \<Rightarrow> time \<Rightarrow> regTokens \<Rightarrow> string \<Rightarrow> string \<Rightarrow> string \<Rightarrow> regTokens \<times> RegistrationToken go" where
  "GetRegistrationToken gh now cache enterprise org repo =
     (let key = getRegistrationKey org repo enterprise;
          rt = map_of cache key
      in if rt \<noteq> None \<and> rgt_ExpiresAt (the rt) > now + runnerStartupTimeout then (cache, Ret (the rt))
         else (case freshRegistrationToken gh enterprise org repo of
             Ret rt' \<Rightarrow> (AList.update key rt' cache, Ret rt')
           | r \<Rightarrow> (cache, r)))"

definition cleanup :: "time \<Rightarrow> regTokens \<Rightarrow> regTokens" where
  "cleanup now cache = filter (\<lambda>(key, rt). \<not> rgt_ExpiresAt rt < now) cache"

definition RemoveRunner :: "GitHub \<Rightarrow> string \<Rightarrow> string \<Rightarrow> string \<Rightarrow> int \<Rightarrow> unit go" where
  "RemoveRunner gh enterprise org repo runnerID =
     go_bind (getEnterpriseOrganizationAndRepo enterprise org repo)
       (\<lambda>(enterprise', owner, repo').
         (case removeRunner gh enterprise' owner repo' runnerID of
            Err e \<Rightarrow> Err (Wrapped ''failed to remove runner'' e)
          | Ret status \<Rightarrow> if status \<noteq> 204 then Err (Errorf ''unexpected status'') else Ret ()
          | Panic s \<Rightarrow> Panic s
          | Hang \<Rightarrow> Hang))"

definition ListRunners :: "GitHub \<Rightarrow> string \<Rightarrow> string \<Rightarrow> string \<Rightarrow> GhRunner list go" where
  "ListRunners gh enterprise org repo =
     go_bind (getEnterpriseOrganizationAndRepo enterprise org repo)
       (\<lambda>(enterprise', owner, repo'). listAll (Wrapped ''failed to list runners'') (listRunners gh enterprise' owner repo'))"

definition ListOrganizationRunnerGroups :: "GitHub \<Rightarrow> string \<Rightarrow> GhRunnerGroup list go" where
  "ListOrganizationRunnerGroups gh org =
     listAll (Wrapped ''failed to list organization runner groups'') (gh_ListOrganizationRunnerGroups gh org)"

definition listOrganizationRunnerGroupsVisibleToRepo ::
  "GitHub \<Rightarrow> string \<Rightarrow> string \<Rightarrow> int \<Rightarrow> int \<Rightarrow> (GhRunnerGroup list \<times> int) go" where
  "listOrganizationRunnerGroupsVisibleToRepo gh org repo perPage page =
     (let parts = Split repo CHR ''/'';
          repoName = (if length parts = 2 then parts ! 1 else repo);
          u = ''orgs/'' @ org @ ''/actions/runner-groups?visible_to_repository='' @ repoName;
          u1 = (if perPage > 0 then u @ ''&per_page='' @ Itoa (nat perPage) else u);
          u2 = (if page > 0 then u1 @ ''&page='' @ Itoa (nat page) else u1)
      in gh_GetRunnerGroups gh u2)"

definition ListOrganizationRunnerGroupsForRepository ::
  "GitHub \<Rightarrow> string \<Rightarrow> string \<Rightarrow> GhRunnerGroup list go" where
  "ListOrganizationRunnerGroupsForRepository gh org repo =
     listAll (Wrapped ''failed to list organization runner groups'')
       (listOrganizationRunnerGroupsVisibleToRepo gh org repo 100)"

definition ListRunnerGroupRepositoryAccesses :: "GitHub \<Rightarrow> string \<Rightarrow> int \<Rightarrow> string list go" where
  "ListRunnerGroupRepositoryAccesses gh org runnerGroupId =
     listAll (Wrapped ''failed to list repository access for runner group'') (gh_ListRepositoryAccessRunnerGroup gh org runnerGroupId)"

text \<open>This one formats the cause with \<open>%v\<close>: the error is not wrapped.\<close>

definition listRepositoryWorkflowRuns :: "GitHub \<Rightarrow> string \<Rightarrow> string \<Rightarrow> string \<Rightarrow> WorkflowRun list go" where
  "listRepositoryWorkflowRuns gh user repoName status =
     listAll (\<lambda>e. Errorf ''failed to list workflow runs'') (gh_ListRepositoryWorkflowRuns gh user repoName status)"

definition wrapErr :: "string \<Rightarrow> 'a go \<Rightarrow> 'a go" where
  "wrapErr msg m = (case m of Err e \<Rightarrow> Err (Wrapped msg e) | _ \<Rightarrow> m)"

definition ListRepositoryWorkflowRuns :: "GitHub \<Rightarrow> string \<Rightarrow> string \<Rightarrow> WorkflowRun list go" where
  "ListRepositoryWorkflowRuns gh user repoName =
     go_bind (wrapErr ''listing queued workflow runs'' (listRepositoryWorkflowRuns gh user repoName ''queued''))
       (\<lambda>queued. go_bind (wrapErr ''listing in_progress workflow runs'' (listRepositoryWorkflowRuns gh user repoName ''in_progress''))
         (\<lambda>inProgress. Ret (queued @ inProgress)))"

text \<open>\<open>url.Parse\<close> yields scheme, host and path or fails; it is a parameter.\<close>

definition getEnterpriseApiUrl :: "(string \<Rightarrow> (string \<times> string \<times> string) go) \<Rightarrow> string \<Rightarrow> string go" where
  "getEnterpriseApiUrl urlParse baseURL =
     go_bind (urlParse baseURL)
       (\<lambda>(scheme, host, path).
         (let path1 = (if \<not> HasSuffix path ''/'' then path @ ''/'' else path);
              path2 = (if \<not> HasSuffix path1 ''/api/v3/'' \<and> \<not> HasPrefix host ''api.'' \<and> \<not> Contains host ''.api.''
                 then path1 @ ''api/v3/'' else path1)
          in Ret (scheme @ ''://'' @ host @ TrimSuffix path2 ''/'')))"

text \<open>\<open>GetName\<close> reads a nil name as the empty string.\<close>

definition GetName :: "GhRunner \<Rightarrow> string" where
  "GetName r = (case ghr_Name r of None \<Rightarrow> [] | Some n \<Rightarrow> n)"

datatype RunnerState = Busy bool | RunnerOffline bool | RunnerNotFound

definition IsRunnerBusy :: "GitHub \<Rightarrow> string \<Rightarrow> string \<Rightarrow> string \<Rightarrow> string \<Rightarrow> RunnerState go" where
  "IsRunnerBusy gh enterprise org repo name =
     go_bind (ListRunners gh enterprise org repo)
       (\<lambda>runners. Ret (case List.find (\<lambda>r. GetName r = name) runners of
          Some r \<Rightarrow> if ghr_Status r = ''offline'' then RunnerOffline (ghr_Busy r) else Busy (ghr_Busy r)
        | None \<Rightarrow> RunnerNotFound))"

subsection \<open>Paging\<close>

text \<open>
  GitHub numbers pages from 1 (page 0 is page 1) and answers with the next page's number, or 0 on the last page.
\<close>

definition servesPages :: "'a pager \<Rightarrow> 'a list list \<Rightarrow> bool" where
  "servesPages fetch ps \<longleftrightarrow> ps \<noteq> [] \<and> fetch 0 = fetch 1 \<and>
     (\<forall>i < length ps. fetch (int i + 1) = Ret (ps ! i, if Suc i < length ps then int i + 2 else 0))"

lemma pages_from:
  assumes "servesPages fetch ps" and "i < length ps"
  shows "pages wrap fetch (int i + 1) acc = Some (Ret (acc @ concat (drop i ps)))"
  using assms(2)
proof (induction "length ps - Suc i" arbitrary: i acc)
  case 0
  then have "Suc i = length ps" by simp
  with assms show ?case
    by (subst pages.simps) (auto simp: servesPages_def Cons_nth_drop_Suc [symmetric])
next
  case (Suc k)
  then have "Suc i < length ps" and "k = length ps - Suc (Suc i)" by simp_all
  moreover from this(1) have "fetch (int i + 1) = Ret (ps ! i, int (Suc i) + 1)"
    using assms(1) by (simp add: servesPages_def)
  ultimately show ?case
    using Suc.hyps(1) [of "Suc i" "acc @ ps ! i"]
    by (subst pages.simps) (simp add: Cons_nth_drop_Suc [symmetric])
qed

lemma listAll_concat: "servesPages fetch ps \<Longrightarrow> listAll wrap fetch = Ret (concat ps)"
proof -
  assume s: "servesPages fetch ps"
  then have "pages wrap fetch 0 [] = pages wrap fetch 1 []"
    by (subst (1 2) pages.simps) (simp add: servesPages_def)
  with pages_from [OF s, of 0 wrap "[]"] s show ?thesis
    by (simp add: listAll_def returned_def servesPages_def)
qed

text \<open>
  C25. \<open>ListRunners\<close> returns, with the runners of every page of the endpoint in order, whenever the server numbers its pages the way GitHub documents; and the endpoint it asks is the
  repository's when a repository is given, else the organization's, else the enterprise's.
\<close>

theorem ListRunners_complete:
  assumes "servesPages (if repo \<noteq> [] then gh_ListRunners gh owner name
      else if org \<noteq> [] then gh_ListOrganizationRunners gh org else gh_ListEnterpriseRunners gh enterprise) ps"
    and "repo \<noteq> [] \<longrightarrow> repo = owner @ ''/'' @ name \<and> CHR ''/'' \<notin> set owner \<and> CHR ''/'' \<notin> set name \<and> name \<noteq> []"
    and "enterprise @ org @ repo \<noteq> []"
  shows "ListRunners gh enterprise org repo = Ret (concat ps)"
proof -
  have "repo \<noteq> [] \<longrightarrow> splitOwnerAndRepo repo = Ret (owner, name)"
    using assms(2) by (auto simp: splitOwnerAndRepo_def Split_append Split_notin)
  with assms show ?thesis
    by (auto simp: ListRunners_def getEnterpriseOrganizationAndRepo_def listRunners_def listAll_concat split: if_splits)
qed

definition exampleRunner :: "string \<Rightarrow> GhRunner" where
  "exampleRunner name = \<lparr>ghr_ID = Some 1, ghr_Name = Some name, ghr_Status = ''online'', ghr_Busy = False\<rparr>"

text \<open>A GitHub on which every endpoint has two pages, or fails.\<close>

definition exampleGitHub :: GitHub where
  "exampleGitHub =
     \<lparr>gh_CreateRegistrationToken = \<lambda>o' r. Ret (\<lparr>rgt_Token = r, rgt_ExpiresAt = 60 * Minute\<rparr>, 201),
      gh_CreateOrganizationRegistrationToken = \<lambda>o'. Ret (\<lparr>rgt_Token = o', rgt_ExpiresAt = 60 * Minute\<rparr>, 201),
      gh_CreateEnterpriseRegistrationToken = \<lambda>e. Err (ErrorResponse 403),
      gh_RemoveRunner = \<lambda>o' r i. Ret 204, gh_RemoveOrganizationRunner = \<lambda>o' i. Ret 204,
      gh_RemoveEnterpriseRunner = \<lambda>e i. Err (ErrorResponse 422),
      gh_ListRunners = \<lambda>o' r p. if p = 2 then Ret ([exampleRunner ''b''], 0) else Ret ([exampleRunner ''a''], 2),
      gh_ListOrganizationRunners = \<lambda>o' p. Ret ([exampleRunner ''c''], 0),
      gh_ListEnterpriseRunners = \<lambda>e p. Err (ErrorResponse 403),
      gh_ListOrganizationRunnerGroups = \<lambda>o' p. Ret ([], 0),
      gh_ListRepositoryAccessRunnerGroup = \<lambda>o' i p. Ret ([], 0),
      gh_GetRunnerGroups = \<lambda>u. Ret ([], 0),
      gh_ListRepositoryWorkflowRuns = \<lambda>u r s p. Ret ([\<lparr>wr_ID = 1, wr_Status = s\<rparr>], 0),
      gh_ListWorkflowJobs = \<lambda>u r i p. Ret ([\<lparr>wj_Labels = [''self-hosted''], wj_Status = ''queued''\<rparr>], 0)\<rparr>"

theorem ListRunners_complete_witness:
  "ListRunners exampleGitHub [] [] ''o/r'' = Ret [exampleRunner ''a'', exampleRunner ''b'']"
  using ListRunners_complete [of "''o/r''" exampleGitHub "''o''" "''r''" "[]" "[]"
      "[[exampleRunner ''a''], [exampleRunner ''b'']]"]
  by (auto simp: servesPages_def exampleGitHub_def less_Suc_eq)

subsection \<open>The token cache\<close>

text \<open>Names on GitHub hold no comma, so a cache key determines the scope it was made from.\<close>

lemma append_comma_inject:
  assumes "c \<notin> set a" and "c \<notin> set b" and "a @ c # x = b @ c # y"
  shows "a = b \<and> x = y"
  using assms
proof (induction a arbitrary: b)
  case (Cons d a)
  then show ?case by (cases b) auto
next
  case Nil
  then show ?case by (cases b) auto
qed

lemma getRegistrationKey_inject:
  assumes "CHR '','' \<notin> set (org @ repo)" and "CHR '','' \<notin> set (org' @ repo')"
    and "getRegistrationKey org repo enterprise = getRegistrationKey org' repo' enterprise'"
  shows "org = org' \<and> repo = repo' \<and> enterprise = enterprise'"
proof -
  have "org @ CHR '','' # (''repo='' @ repo @ '',enterprise='' @ enterprise) =
      org' @ CHR '','' # (''repo='' @ repo' @ '',enterprise='' @ enterprise')"
    using assms(3) by (simp add: getRegistrationKey_def)
  then have o: "org = org'" and "''repo='' @ repo @ '',enterprise='' @ enterprise = ''repo='' @ repo' @ '',enterprise='' @ enterprise'"
    using append_comma_inject [of "CHR '',''" org org'] assms(1,2) by auto
  then have "repo @ CHR '','' # (''enterprise='' @ enterprise) = repo' @ CHR '','' # (''enterprise='' @ enterprise')"
    by simp
  then have "repo = repo' \<and> ''enterprise='' @ enterprise = ''enterprise='' @ enterprise'"
    using append_comma_inject [of "CHR '',''" repo repo'] assms(1,2) by auto
  with o show ?thesis by simp
qed

text \<open>
  The steps of the client: a request for a token at some time, and the clean-up that a goroutine runs later. \<open>G\<close> are the ways in which GitHub answers over time, so that a token asked for again is another one. Names of organizations and repositories have no comma.
\<close>

inductive clientStep :: "GitHub set \<Rightarrow> regTokens \<Rightarrow> regTokens \<Rightarrow> bool" for G where
  get: "gh \<in> G \<Longrightarrow> CHR '','' \<notin> set (org @ repo) \<Longrightarrow> clientStep G cache (fst (GetRegistrationToken gh now cache enterprise org repo))"
| clean: "clientStep G cache (cleanup now cache)"

definition issued :: "GitHub \<Rightarrow> string \<Rightarrow> string \<Rightarrow> string \<Rightarrow> RegistrationToken \<Rightarrow> bool" where
  "issued gh enterprise org repo rt \<longleftrightarrow>
     (\<exists>e' o' r'. getEnterpriseOrganizationAndRepo enterprise org repo = Ret (e', o', r') \<and>
        createRegistrationToken gh e' o' r' = Ret (rt, 201))"

definition cacheOk :: "GitHub set \<Rightarrow> regTokens \<Rightarrow> bool" where
  "cacheOk G cache \<longleftrightarrow> (\<forall>(key, rt) \<in> set cache. \<exists>gh enterprise org repo.
     gh \<in> G \<and> CHR '','' \<notin> set (org @ repo) \<and> key = getRegistrationKey org repo enterprise \<and> issued gh enterprise org repo rt)"

lemma freshRegistrationToken_issued:
  "freshRegistrationToken gh enterprise org repo = Ret rt \<Longrightarrow> issued gh enterprise org repo rt"
proof -
  assume f: "freshRegistrationToken gh enterprise org repo = Ret rt"
  then obtain e' o' r' where g: "getEnterpriseOrganizationAndRepo enterprise org repo = Ret (e', o', r')"
    by (auto simp: freshRegistrationToken_def go_bind_Ret_iff)
  with f show ?thesis
    by (cases "createRegistrationToken gh e' o' r'")
      (auto simp: freshRegistrationToken_def issued_def split: if_splits prod.splits)
qed

lemma GetRegistrationToken_cases:
  obtains (cached) rt where "map_of cache (getRegistrationKey org repo enterprise) = Some rt"
      "rgt_ExpiresAt rt > now + runnerStartupTimeout"
      "GetRegistrationToken gh now cache enterprise org repo = (cache, Ret rt)"
    | (created) rt where "issued gh enterprise org repo rt" "\<not> (\<exists>t. map_of cache (getRegistrationKey org repo enterprise) = Some t \<and> rgt_ExpiresAt t > now + runnerStartupTimeout)"
      "GetRegistrationToken gh now cache enterprise org repo =
        (AList.update (getRegistrationKey org repo enterprise) rt cache, Ret rt)"
    | (failed) "fst (GetRegistrationToken gh now cache enterprise org repo) = cache"
      "\<forall>rt. snd (GetRegistrationToken gh now cache enterprise org repo) \<noteq> Ret rt"
proof -
  let ?key = "getRegistrationKey org repo enterprise"
  show thesis
  proof (cases "\<exists>rt. map_of cache ?key = Some rt \<and> rgt_ExpiresAt rt > now + runnerStartupTimeout")
    case True
    then show ?thesis using cached by (auto simp: GetRegistrationToken_def)
  next
    case False
    then have g: "GetRegistrationToken gh now cache enterprise org repo =
        (case freshRegistrationToken gh enterprise org repo of
             Ret rt' \<Rightarrow> (AList.update ?key rt' cache, Ret rt')
           | r \<Rightarrow> (cache, r))"
      by (auto simp: GetRegistrationToken_def Let_def)
    show ?thesis
    proof (cases "freshRegistrationToken gh enterprise org repo")
      case (Ret rt)
      with g created [OF freshRegistrationToken_issued False] show ?thesis by simp
    qed (use g failed in simp_all)
  qed
qed

lemma cacheOk_step: "clientStep G cache cache' \<Longrightarrow> cacheOk G cache \<Longrightarrow> cacheOk G cache'"
proof (induction rule: clientStep.induct)
  case (get gh org repo cache now enterprise)
  then show ?case
  proof (cases rule: GetRegistrationToken_cases [of cache org repo enterprise now gh])
    case (created rt)
    let ?key = "getRegistrationKey org repo enterprise"
    have "x = (?key, rt) \<or> x \<in> set cache" if "x \<in> set (AList.update ?key rt cache)" for x
      using that set_update_subset by fastforce
    moreover have "cacheOk G [(?key, rt)]" using created(1) get.hyps by (auto simp: cacheOk_def)
    ultimately show ?thesis using get.prems created(3) unfolding cacheOk_def by fastforce
  qed auto
next
  case (clean cache now)
  then show ?case by (auto simp: cacheOk_def cleanup_def)
qed

text \<open>
  C24. Whatever requests and clean-ups ran before, in any order, and whatever GitHub answered to them, a registration token handed out is good for the enterprise, organization or repository it is requested for, where the names of organizations and repositories have no comma. When the cache has a token of
  that key that stays valid for more than the 30 minutes a runner may take to start, that token is handed out, GitHub issued it for exactly that scope in an earlier request, and the cache stays as it is; otherwise GitHub issues a new one for exactly that scope in this request, and the cache has it then.
\<close>

theorem GetRegistrationToken_scope:
  assumes "(clientStep G)\<^sup>*\<^sup>* [] cache" and "CHR '','' \<notin> set (org @ repo)"
    and "GetRegistrationToken gh now cache enterprise org repo = (cache', Ret rt)"
  shows "if \<exists>t. map_of cache (getRegistrationKey org repo enterprise) = Some t \<and> rgt_ExpiresAt t > now + 30 * Minute
    then map_of cache (getRegistrationKey org repo enterprise) = Some rt \<and> (\<exists>gh' \<in> G. issued gh' enterprise org repo rt) \<and> cache' = cache
    else issued gh enterprise org repo rt \<and> map_of cache' (getRegistrationKey org repo enterprise) = Some rt"
proof -
  have ok: "cacheOk G cache"
    using assms(1) by (induction rule: rtranclp_induct) (simp add: cacheOk_def, metis cacheOk_step)
  show ?thesis
  proof (cases rule: GetRegistrationToken_cases [of cache org repo enterprise now gh])
    case (cached rt')
    with ok obtain gh' e' o' r' where i: "gh' \<in> G" "CHR '','' \<notin> set (o' @ r')"
      "getRegistrationKey org repo enterprise = getRegistrationKey o' r' e'" "issued gh' e' o' r' rt'"
      unfolding cacheOk_def by (blast dest: map_of_SomeD)
    have "issued gh' enterprise org repo rt'" using getRegistrationKey_inject [OF assms(2) i(2,3)] i(4) by simp
    moreover have "rt' = rt" "cache' = cache" "rgt_ExpiresAt rt > now + 30 * Minute" using cached(2,3) assms(3) by (auto simp: runnerStartupTimeout_def)
    ultimately show ?thesis using i(1) cached(1) by auto
  next
    case (created rt')
    with assms(3) show ?thesis by (auto simp: runnerStartupTimeout_def)
  qed (use assms(3) in auto)
qed

text \<open>A token in the cache that is about to expire is replaced.\<close>

theorem GetRegistrationToken_scope_witness:
  "\<exists>cache'. GetRegistrationToken exampleGitHub (40 * Minute) [(getRegistrationKey ''o'' [] [], \<lparr>rgt_Token = ''old'', rgt_ExpiresAt = 60 * Minute\<rparr>)] [] ''o'' [] =
      (cache', Ret \<lparr>rgt_Token = ''o'', rgt_ExpiresAt = 60 * Minute\<rparr>) \<and>
    map_of cache' (getRegistrationKey ''o'' [] []) = Some \<lparr>rgt_Token = ''o'', rgt_ExpiresAt = 60 * Minute\<rparr>"
proof -
  let ?key = "getRegistrationKey ''o'' [] []" and ?old = "\<lparr>rgt_Token = ''old'', rgt_ExpiresAt = 60 * Minute\<rparr>" and ?rt = "\<lparr>rgt_Token = ''o'', rgt_ExpiresAt = 60 * Minute\<rparr>"
  let ?gh = "exampleGitHub\<lparr>gh_CreateOrganizationRegistrationToken := \<lambda>og. Ret (?old, 201)\<rparr>"
  have "GetRegistrationToken ?gh 0 [] [] ''o'' [] = ([(?key, ?old)], Ret ?old)"
    by (simp add: GetRegistrationToken_def freshRegistrationToken_def getEnterpriseOrganizationAndRepo_def createRegistrationToken_def exampleGitHub_def Let_def)
  then have "clientStep {?gh} [] [(?key, ?old)]" using clientStep.get [of ?gh "{?gh}" "''o''" "[]" "[]" 0 "[]"] by simp
  then have r: "(clientStep {?gh})\<^sup>*\<^sup>* [] [(?key, ?old)]" by (rule r_into_rtranclp)
  obtain cache' where g: "GetRegistrationToken exampleGitHub (40 * Minute) [(?key, ?old)] [] ''o'' [] = (cache', Ret ?rt)"
    by (simp add: GetRegistrationToken_def freshRegistrationToken_def getEnterpriseOrganizationAndRepo_def createRegistrationToken_def exampleGitHub_def runnerStartupTimeout_def Let_def)
  from GetRegistrationToken_scope [OF r _ g] g show ?thesis by auto
qed

end
