(* ===== verification/Go_Float.thy ===== *)
theory Go_Float
  imports Complex_Main "HOL-Library.Log_Nat" "HOL-Library.Char_ord" Go_Strings
begin

section \<open>Go's float64\<close>

text \<open>
  Double precision numbers as the autoscaler uses them: conversion from \<open>int\<close>, multiplication, division, comparison, \<open>math.Ceil\<close>, conversion to \<open>int\<close> and
  \<open>strconv.ParseFloat\<close>. A finite number is its rational value; results are rounded to nearest, ties to even, with 53 bits of precision and the least exponent
  -1074. The sign of zero is not kept: the code divides by a zero only after converting an integer, which gives the positive one.
\<close>

datatype float64 = NaN | PInf | NInf | Fin rat

subsection \<open>Rounding\<close>

definition pow2 :: "int \<Rightarrow> rat" where
  "pow2 e = (if e \<ge> 0 then 2 ^ nat e else 1 / 2 ^ nat (- e))"

definition roundEven :: "rat \<Rightarrow> int" where
  "roundEven x = (let f = \<lfloor>x\<rfloor>; r = x - of_int f
     in if r < 1 / 2 then f else if r > 1 / 2 then f + 1 else if even f then f else f + 1)"

definition fexp0 :: "rat \<Rightarrow> int" where
  "fexp0 q = bitlen (fst (quotient_of q)) - bitlen (snd (quotient_of q)) - 53"

definition fexp :: "rat \<Rightarrow> int" where
  "fexp q = (let e = fexp0 q in max (- 1074) (if q / pow2 e \<ge> 2 ^ 53 then e + 1 else e))"

definition roundF :: "rat \<Rightarrow> float64" where
  "roundF q =
     (if q = 0 then Fin 0
      else (let a = \<bar>q\<bar>; e = fexp a; v = of_int (roundEven (a / pow2 e)) * pow2 e
            in if v \<ge> 2 ^ 1024 then (if q > 0 then PInf else NInf)
               else Fin (if q > 0 then v else - v)))"

subsection \<open>Operations\<close>

definition ofInt :: "int \<Rightarrow> float64" where "ofInt i = roundF (of_int i)"

fun fneg :: "float64 \<Rightarrow> float64" where
  "fneg NaN = NaN" | "fneg PInf = NInf" | "fneg NInf = PInf" | "fneg (Fin x) = Fin (- x)"

definition signedInf :: "rat \<Rightarrow> float64" where
  "signedInf x = (if x > 0 then PInf else if x < 0 then NInf else NaN)"

fun fmul :: "float64 \<Rightarrow> float64 \<Rightarrow> float64" where
  "fmul NaN y = NaN"
| "fmul x NaN = NaN"
| "fmul (Fin x) (Fin y) = roundF (x * y)"
| "fmul (Fin x) PInf = signedInf x"
| "fmul (Fin x) NInf = signedInf (- x)"
| "fmul PInf (Fin y) = signedInf y"
| "fmul NInf (Fin y) = signedInf (- y)"
| "fmul PInf PInf = PInf" | "fmul PInf NInf = NInf" | "fmul NInf PInf = NInf" | "fmul NInf NInf = PInf"

fun fdiv :: "float64 \<Rightarrow> float64 \<Rightarrow> float64" where
  "fdiv NaN y = NaN"
| "fdiv x NaN = NaN"
| "fdiv (Fin x) (Fin y) = (if y = 0 then signedInf x else roundF (x / y))"
| "fdiv (Fin x) PInf = Fin 0"
| "fdiv (Fin x) NInf = Fin 0"
| "fdiv PInf (Fin y) = (if y < 0 then NInf else PInf)"
| "fdiv NInf (Fin y) = (if y < 0 then PInf else NInf)"
| "fdiv PInf PInf = NaN" | "fdiv PInf NInf = NaN" | "fdiv NInf PInf = NaN" | "fdiv NInf NInf = NaN"

fun flt :: "float64 \<Rightarrow> float64 \<Rightarrow> bool" where
  "flt (Fin x) (Fin y) = (x < y)"
| "flt (Fin x) PInf = True"
| "flt NInf (Fin y) = True"
| "flt NInf PInf = True"
| "flt x y = False"

definition fge :: "float64 \<Rightarrow> float64 \<Rightarrow> bool" where
  "fge x y \<longleftrightarrow> flt y x \<or> (x = y \<and> x \<noteq> NaN)"

fun Ceil :: "float64 \<Rightarrow> float64" where
  "Ceil (Fin x) = Fin (of_int \<lceil>x\<rceil>)" | "Ceil x = x"

text \<open>
  Conversion to \<open>int\<close> truncates towards zero. Go leaves a value out of range to the implementation; this is what amd64 gives.
\<close>

definition minInt64 :: int where "minInt64 = - (2 ^ 63)"

fun toInt :: "float64 \<Rightarrow> int" where
  "toInt (Fin x) = (let t = (if x \<ge> 0 then \<lfloor>x\<rfloor> else \<lceil>x\<rceil>) in if minInt64 \<le> t \<and> t < 2 ^ 63 then t else minInt64)"
| "toInt x = minInt64"

subsection \<open>ParseFloat\<close>

definition lower :: "char \<Rightarrow> char" where
  "lower c = (if CHR ''A'' \<le> c \<and> c \<le> CHR ''Z'' then char_of (of_char c + (32 :: nat)) else c)"

definition isDigit :: "char \<Rightarrow> bool" where "isDigit c \<longleftrightarrow> CHR ''0'' \<le> c \<and> c \<le> CHR ''9''"

definition digitVal :: "nat \<Rightarrow> char \<Rightarrow> nat option" where
  "digitVal base c =
     (if isDigit c then Some (of_char c - 48)
      else if base = 16 \<and> CHR ''a'' \<le> lower c \<and> lower c \<le> CHR ''f'' then Some (of_char (lower c) - 87)
      else None)"

text \<open>The mantissa: its digits' value, how many of them follow the point, whether there was one, and the rest of the input.\<close>

fun scanMantissa :: "nat \<Rightarrow> bool \<Rightarrow> nat \<Rightarrow> nat \<Rightarrow> bool \<Rightarrow> string \<Rightarrow> nat \<times> nat \<times> bool \<times> string" where
  "scanMantissa base sawdot m afterDot sawdigits [] = (m, afterDot, sawdigits, [])"
| "scanMantissa base sawdot m afterDot sawdigits (c # cs) =
     (if c = CHR ''_'' then scanMantissa base sawdot m afterDot sawdigits cs
      else if c = CHR ''.'' then
        (if sawdot then (m, afterDot, sawdigits, c # cs) else scanMantissa base True m afterDot sawdigits cs)
      else case digitVal base c of
          None \<Rightarrow> (m, afterDot, sawdigits, c # cs)
        | Some d \<Rightarrow> scanMantissa base sawdot (m * base + d) (if sawdot then afterDot + 1 else afterDot) True cs)"

fun scanExponent :: "nat \<Rightarrow> string \<Rightarrow> nat \<times> string" where
  "scanExponent e [] = (e, [])"
| "scanExponent e (c # cs) =
     (if c = CHR ''_'' then scanExponent e cs
      else if isDigit c then scanExponent (if e < 10000 then e * 10 + (of_char c - 48) else e) cs
      else (e, c # cs))"

definition splitSign :: "string \<Rightarrow> bool \<times> string" where
  "splitSign s = (case s of c # cs \<Rightarrow> if c = CHR ''-'' then (True, cs) else if c = CHR ''+'' then (False, cs) else (False, s)
     | [] \<Rightarrow> (False, []))"

text \<open>An underscore separates digits; the base prefix counts as a digit. The first argument is the class of the character before.\<close>

datatype lastSeen = SeenNothing | SeenDigit | SeenUnderscore | SeenOther

fun underscores :: "bool \<Rightarrow> lastSeen \<Rightarrow> string \<Rightarrow> bool" where
  "underscores hex i [] = (i \<noteq> SeenUnderscore)"
| "underscores hex i (c # cs) =
     (if digitVal (if hex then 16 else 10) c \<noteq> None then underscores hex SeenDigit cs
      else if c = CHR ''_'' then i = SeenDigit \<and> underscores hex SeenUnderscore cs
      else i \<noteq> SeenUnderscore \<and> underscores hex SeenOther cs)"

definition underscoreOK :: "string \<Rightarrow> bool" where
  "underscoreOK s =
     (let s1 = snd (splitSign s)
      in case s1 of
           z # x # rest \<Rightarrow>
             if z = CHR ''0'' \<and> lower x \<in> set ''box'' then underscores (lower x = CHR ''x'') SeenDigit rest
             else underscores False SeenNothing s1
         | _ \<Rightarrow> underscores False SeenNothing s1)"

definition specialFloat :: "string \<Rightarrow> float64 option" where
  "specialFloat s =
     (let (neg, rest) = splitSign s; w = map lower rest
      in if w = ''inf'' \<or> w = ''infinity'' then Some (if neg then NInf else PInf)
         else if map lower s = ''nan'' then Some NaN
         else None)"

definition parseExponent :: "char \<Rightarrow> string \<Rightarrow> (int \<times> string) option" where
  "parseExponent expChar s =
     (case s of
        c # cs \<Rightarrow>
          if lower c = expChar then
            (let (neg, ds) = splitSign cs
             in case ds of
                  d # _ \<Rightarrow> if isDigit d then (let (e, rest) = scanExponent 0 ds in Some (if neg then - int e else int e, rest)) else None
                | [] \<Rightarrow> None)
          else if expChar = CHR ''p'' then None else Some (0, s)
      | [] \<Rightarrow> if expChar = CHR ''p'' then None else Some (0, s))"

definition parseNumber :: "string \<Rightarrow> rat option" where
  "parseNumber s =
     (let (neg, s1) = splitSign s;
          hex = (case s1 of z # x # _ # _ \<Rightarrow> z = CHR ''0'' \<and> lower x = CHR ''x'' | _ \<Rightarrow> False);
          base = (if hex then 16 else 10);
          (m, afterDot, sawdigits, s2) = scanMantissa base False 0 0 False (if hex then drop 2 s1 else s1)
      in if \<not> sawdigits then None
         else case parseExponent (if hex then CHR ''p'' else CHR ''e'') s2 of
             None \<Rightarrow> None
           | Some (e, s3) \<Rightarrow>
               if s3 \<noteq> [] \<or> (CHR ''_'' \<in> set s \<and> \<not> underscoreOK s) then None
               else (let scale = (if hex then pow2 e else if e \<ge> 0 then 10 ^ nat e else 1 / 10 ^ nat (- e));
                         q = of_nat m / of_nat (base ^ afterDot) * scale
                     in Some (if neg then - q else q)))"

definition ParseFloat :: "string \<Rightarrow> float64 option" where
  "ParseFloat s =
     (case specialFloat s of
        Some f \<Rightarrow> Some f
      | None \<Rightarrow>
          (case parseNumber s of
             None \<Rightarrow> None
           | Some q \<Rightarrow> (case roundF q of Fin v \<Rightarrow> Some (Fin v) | _ \<Rightarrow> None)))"

subsection \<open>The relative error of rounding\<close>

lemma pow2_pos [simp]: "0 < pow2 e"
  by (simp add: pow2_def)

lemma pow2_powi: "pow2 e = 2 powi e"
  unfolding pow2_def power_int_def by (simp add: power_one_over)

lemma pow2_nz [simp]: "pow2 e \<noteq> 0"
  using pow2_pos [of e] by linarith

lemma pow2_add: "pow2 (d + e) = pow2 d * pow2 e"
  by (simp only: pow2_powi, subst power_int_add) simp_all

lemma pow2_mono: "d \<le> e \<Longrightarrow> pow2 d \<le> pow2 e"
proof -
  assume "d \<le> e"
  then have "1 \<le> pow2 (e - d)" by (simp add: pow2_def)
  moreover have "pow2 e = pow2 d * pow2 (e - d)" by (simp add: pow2_add [symmetric])
  ultimately show ?thesis using pow2_pos [of d] by (metis less_imp_le mult.right_neutral mult_left_mono)
qed

lemma roundEven_error: "\<bar>of_int (roundEven x) - x\<bar> \<le> 1 / 2"
proof -
  have "of_int \<lfloor>x\<rfloor> \<le> x" and "x < of_int \<lfloor>x\<rfloor> + 1" by linarith+
  then show ?thesis by (auto simp: roundEven_def Let_def abs_le_iff)
qed

lemma fexp0_bounds:
  assumes "0 < q"
  shows "pow2 52 \<le> q / pow2 (fexp0 q)" and "q / pow2 (fexp0 q) \<le> pow2 54"
proof -
  obtain n d where nd: "quotient_of q = (n, d)" by fastforce
  then have d: "0 < d" and q: "q = of_int n / of_int d"
    using quotient_of_denom_pos quotient_of_div by blast+
  with assms have n: "0 < n" by (simp add: zero_less_divide_iff)
  have b: "pow2 (bitlen k - 1) \<le> of_int k \<and> of_int k \<le> pow2 (bitlen k)" if "0 < k" for k
  proof -
    have "2 ^ nat (bitlen k - 1) \<le> k \<and> k < 2 ^ nat (bitlen k)" using bitlen_bounds [OF that] .
    moreover have "0 < bitlen k" using that bitlen_nonneg [of k] bitlen_eq_zero_iff [of k] by linarith
    ultimately show ?thesis
      unfolding pow2_def using of_int_le_iff [of "2 ^ nat (bitlen k - 1)" k, where 'a = rat]
        of_int_le_iff [of k "2 ^ nat (bitlen k)", where 'a = rat] by simp
  qed
  have e: "fexp0 q = bitlen n - bitlen d - 53" by (simp add: fexp0_def nd)
  have "pow2 52 * pow2 (fexp0 q) * of_int d \<le> pow2 52 * pow2 (fexp0 q) * pow2 (bitlen d)"
    using b [OF d] by (simp add: less_imp_le)
  also have "\<dots> = pow2 (bitlen n - 1)" by (simp add: e pow2_add [symmetric])
  also have "\<dots> \<le> of_int n" using b [OF n] by simp
  finally show "pow2 52 \<le> q / pow2 (fexp0 q)" using d by (simp add: q field_simps)
  have "of_int n \<le> pow2 (bitlen n)" using b [OF n] by simp
  also have "\<dots> = pow2 54 * pow2 (fexp0 q) * pow2 (bitlen d - 1)" by (simp add: e pow2_add [symmetric])
  also have "\<dots> \<le> pow2 54 * pow2 (fexp0 q) * of_int d"
    using b [OF d] by (simp add: less_imp_le)
  finally show "q / pow2 (fexp0 q) \<le> pow2 54" using d by (simp add: q field_simps)
qed

lemma fexp_bound:
  assumes "1 / 4 \<le> q"
  shows "pow2 52 * pow2 (fexp q) \<le> q"
proof -
  have "0 < q" using assms by simp
  note b = fexp0_bounds [OF this]
  have "pow2 (- 2) \<le> q" using assms by (simp add: pow2_def)
  also have "q \<le> pow2 54 * pow2 (fexp0 q)" using b(2) by (simp add: field_simps)
  finally have "pow2 (- 2) \<le> pow2 (54 + fexp0 q)" by (simp add: pow2_add)
  then have "- 56 \<le> fexp0 q"
    using pow2_mono [of "54 + fexp0 q" "- 3"] by (cases "fexp0 q \<ge> - 56") (simp_all add: pow2_def)
  then have m: "fexp q = (if q / pow2 (fexp0 q) \<ge> 2 ^ 53 then fexp0 q + 1 else fexp0 q)"
    by (simp add: fexp_def Let_def)
  show ?thesis
  proof (cases "q / pow2 (fexp0 q) \<ge> 2 ^ 53")
    case True
    then have "pow2 53 * pow2 (fexp0 q) \<le> q" by (simp add: pow2_def [of 53] field_simps)
    with True m show ?thesis by (simp add: pow2_add [symmetric] add.commute)
  next
    case False
    with m b(1) show ?thesis by (simp add: field_simps)
  qed
qed

text \<open>Rounding moves a number of ordinary size by at most one part in \<open>2 ^ 53\<close>.\<close>

lemma roundF_error:
  assumes "1 / 4 \<le> q" and "q \<le> 2 ^ 100"
  obtains v where "roundF q = Fin v" "\<bar>v - q\<bar> \<le> q / 2 ^ 53"
proof -
  let ?e = "pow2 (fexp q)"
  define v where "v = of_int (roundEven (q / ?e)) * ?e"
  have "\<bar>v - q\<bar> = \<bar>of_int (roundEven (q / ?e)) - q / ?e\<bar> * ?e"
  proof -
    have "v - q = (of_int (roundEven (q / ?e)) - q / ?e) * ?e"
      by (simp add: v_def left_diff_distrib)
    then show ?thesis by (simp add: abs_mult less_imp_le)
  qed
  also have "\<dots> \<le> 1 / 2 * ?e" using roundEven_error by (intro mult_right_mono) (simp_all add: less_imp_le)
  also have "\<dots> \<le> q / 2 ^ 53" using fexp_bound [OF assms(1)] by (simp add: pow2_def [of 52])
  finally have err: "\<bar>v - q\<bar> \<le> q / 2 ^ 53" .
  moreover have "q / 2 ^ 53 \<le> q" using assms(1) by simp
  ultimately have "v \<le> 2 * q" by linarith
  also have "\<dots> < 2 ^ 1024" using assms(2) by simp
  finally have "roundF q = Fin v" using assms(1) by (simp add: roundF_def v_def Let_def)
  with err that show ?thesis by blast
qed

end
