(* ===== verification/Autoscaling.thy ===== *)
theory Autoscaling
  imports Api_Types GitHub_Client Go_Float
begin

section \<open>Suggested replicas\<close>

text \<open>
  Model of \<open>src/controllers/autoscaling.go\<close>: the two metrics that suggest a number of replicas for a scale target, and how a horizontal runner autoscaler combines
  them. A suggestion is \<open>Ret None\<close> where the code returns a nil pointer.
\<close>

record scaleTarget =
  st_st :: string
  st_kind :: string
  st_enterprise :: string
  st_repo :: string
  st_org :: string
  st_replicas :: "int option"
  st_labels :: "string list"
  st_getRunnerMap :: "string list go"

subsection \<open>Queued and in-progress workflow runs\<close>

record runCounts =
  n_total :: int
  n_inProgress :: int
  n_queued :: int
  n_completed :: int
  n_unknown :: int

definition noRuns :: runCounts where
  "noRuns = \<lparr>n_total = 0, n_inProgress = 0, n_queued = 0, n_completed = 0, n_unknown = 0\<rparr>"

definition incTotal :: "runCounts \<Rightarrow> runCounts" where "incTotal c = c\<lparr>n_total := n_total c + 1\<rparr>"
definition incInProgress :: "runCounts \<Rightarrow> runCounts" where "incInProgress c = c\<lparr>n_inProgress := n_inProgress c + 1\<rparr>"
definition incQueued :: "runCounts \<Rightarrow> runCounts" where "incQueued c = c\<lparr>n_queued := n_queued c + 1\<rparr>"
definition incCompleted :: "runCounts \<Rightarrow> runCounts" where "incCompleted c = c\<lparr>n_completed := n_completed c + 1\<rparr>"
definition incUnknown :: "runCounts \<Rightarrow> runCounts" where "incUnknown c = c\<lparr>n_unknown := n_unknown c + 1\<rparr>"

lemmas inc_defs = incTotal_def incInProgress_def incQueued_def incCompleted_def incUnknown_def

text \<open>The body of the loop over a run's jobs.\<close>

definition countJob :: "string list \<Rightarrow> WorkflowJob \<Rightarrow> runCounts \<Rightarrow> runCounts" where
  "countJob stLabels job c =
     (if ''self-hosted'' \<notin> set (wj_Labels job) then c
      else if \<exists>l \<in> set stLabels. l \<notin> set (wj_Labels job) then c
      else if wj_Status job = ''completed'' then c
      else if wj_Status job = ''in_progress'' then incInProgress c
      else if wj_Status job = ''queued'' then incQueued c
      else incUnknown c)"

definition listWorkflowJobs ::
  "GitHub \<Rightarrow> string list \<Rightarrow> string \<Rightarrow> string \<Rightarrow> int \<Rightarrow> (runCounts \<Rightarrow> runCounts) \<Rightarrow> runCounts \<Rightarrow> runCounts go" where
  "listWorkflowJobs gh stLabels user repoName runID fallback_cb c =
     (if runID = 0 then Ret (fallback_cb c)
      else case listAll id (gh_ListWorkflowJobs gh user repoName runID) of
          Err e \<Rightarrow> Ret c
        | Panic s \<Rightarrow> Panic s
        | Hang \<Rightarrow> Hang
        | Ret allJobs \<Rightarrow> if length allJobs = 0 then Ret (fallback_cb c) else Ret (fold (countJob stLabels) allJobs c))"

definition countRun :: "GitHub \<Rightarrow> string list \<Rightarrow> string \<Rightarrow> string \<Rightarrow> WorkflowRun \<Rightarrow> runCounts \<Rightarrow> runCounts go" where
  "countRun gh stLabels user repoName run c =
     (let c1 = incTotal c
      in if wr_Status run = ''completed'' then Ret (incCompleted c1)
         else if wr_Status run = ''in_progress'' then listWorkflowJobs gh stLabels user repoName (wr_ID run) incInProgress c1
         else if wr_Status run = ''queued'' then listWorkflowJobs gh stLabels user repoName (wr_ID run) incQueued c1
         else Ret (incUnknown c1))"

fun countRuns :: "GitHub \<Rightarrow> string list \<Rightarrow> string \<Rightarrow> string \<Rightarrow> WorkflowRun list \<Rightarrow> runCounts \<Rightarrow> runCounts go" where
  "countRuns gh stLabels user repoName [] c = Ret c"
| "countRuns gh stLabels user repoName (run # runs) c =
     go_bind (countRun gh stLabels user repoName run c) (countRuns gh stLabels user repoName runs)"

fun countRepos :: "GitHub \<Rightarrow> string list \<Rightarrow> string list list \<Rightarrow> runCounts \<Rightarrow> runCounts go" where
  "countRepos gh stLabels [] c = Ret c"
| "countRepos gh stLabels (repo # repos) c =
     (if length repo < 2 then Panic ''index out of range''
      else go_bind (ListRepositoryWorkflowRuns gh (repo ! 0) (repo ! 1))
        (\<lambda>workflowRuns. go_bind (countRuns gh stLabels (repo ! 0) (repo ! 1) workflowRuns c) (countRepos gh stLabels repos)))"

definition suggestReplicasByQueuedAndInProgressWorkflowRuns ::
  "GitHub \<Rightarrow> scaleTarget \<Rightarrow> MetricSpec option \<Rightarrow> int option go" where
  "suggestReplicasByQueuedAndInProgressWorkflowRuns gh st metrics =
     (let count = (\<lambda>repos. go_bind (countRepos gh (st_labels st) repos noRuns) (\<lambda>c. Ret (Some (n_queued c + n_inProgress c))))
      in if st_repo st = [] then
           (if st_org st = [] then Err (Errorf ''asserting runner deployment spec to detect bug: spec.template.organization should not be empty on this code path'')
            else case metrics of
                None \<Rightarrow> Ret None
              | Some m \<Rightarrow>
                  if length (m_RepositoryNames m) = 0 then Err (Errorf ''validating autoscaling metrics: repositoryNames is required'')
                  else count (map (\<lambda>repoName. [st_org st, repoName]) (m_RepositoryNames m)))
         else count [Split (st_repo st) CHR ''/''])"

subsection \<open>Percentage of busy runners\<close>

definition defaultScaleUpThreshold :: float64 where "defaultScaleUpThreshold = roundF (8 / 10)"
definition defaultScaleDownThreshold :: float64 where "defaultScaleDownThreshold = roundF (3 / 10)"
definition defaultScaleUpFactor :: float64 where "defaultScaleUpFactor = roundF (13 / 10)"
definition defaultScaleDownFactor :: float64 where "defaultScaleDownFactor = roundF (7 / 10)"

record busyParams =
  bp_scaleUpThreshold :: float64
  bp_scaleDownThreshold :: float64
  bp_scaleUpAdjustment :: int
  bp_scaleUpFactor :: float64
  bp_scaleDownAdjustment :: int
  bp_scaleDownFactor :: float64

definition floatOr :: "float64 \<Rightarrow> string \<Rightarrow> string \<Rightarrow> float64 go" where
  "floatOr def msg s =
     (if s \<noteq> [] then (case ParseFloat s of None \<Rightarrow> Err (Errorf msg) | Some f \<Rightarrow> Ret f) else Ret def)"

definition busyFactor :: "float64 \<Rightarrow> string \<Rightarrow> int \<Rightarrow> string \<Rightarrow> float64 go" where
  "busyFactor def msg adjustment factor =
     (if adjustment \<noteq> 0 then
        (if adjustment < 0 then Err (Errorf (msg @ ''Adjustment cannot be lower than 0''))
         else if factor \<noteq> [] then Err (Errorf (msg @ ''Adjustment and '' @ msg @ ''Factor cannot be specified together''))
         else Ret def)
      else floatOr def (msg @ ''Factor cannot be parsed into a float64'') factor)"

definition busyParamsOf :: "MetricSpec \<Rightarrow> busyParams go" where
  "busyParamsOf m =
     go_bind (floatOr defaultScaleUpThreshold ''scaleUpThreshold cannot be parsed into a float64'' (m_ScaleUpThreshold m)) (\<lambda>sut.
     go_bind (floatOr defaultScaleDownThreshold ''scaleDownThreshold cannot be parsed into a float64'' (m_ScaleDownThreshold m)) (\<lambda>sdt.
     go_bind (busyFactor defaultScaleUpFactor ''scaleUp'' (m_ScaleUpAdjustment m) (m_ScaleUpFactor m)) (\<lambda>suf.
     go_bind (busyFactor defaultScaleDownFactor ''scaleDown'' (m_ScaleDownAdjustment m) (m_ScaleDownFactor m)) (\<lambda>sdf.
       Ret \<lparr>bp_scaleUpThreshold = sut, bp_scaleDownThreshold = sdt, bp_scaleUpAdjustment = m_ScaleUpAdjustment m,
            bp_scaleUpFactor = suf, bp_scaleDownAdjustment = m_ScaleDownAdjustment m, bp_scaleDownFactor = sdf\<rparr>))))"

text \<open>The loop over the runners GitHub knows: registered and busy ones among those of the scale target.\<close>

fun countBusy :: "string list \<Rightarrow> GhRunner list \<Rightarrow> int \<times> int \<Rightarrow> (int \<times> int) go" where
  "countBusy runnerMap [] c = Ret c"
| "countBusy runnerMap (runner # runners) (registered, busy) =
     (case ghr_Name runner of
        None \<Rightarrow> Panic ''nil pointer dereference''
      | Some name \<Rightarrow>
          if name \<in> set runnerMap then countBusy runnerMap runners (registered + 1, if ghr_Busy runner then busy + 1 else busy)
          else countBusy runnerMap runners (registered, busy))"

definition busyDesired :: "busyParams \<Rightarrow> int option \<Rightarrow> int \<Rightarrow> int go" where
  "busyDesired p replicas numRunnersBusy =
     (let desiredReplicasBefore = (case replicas of None \<Rightarrow> 1 | Some v \<Rightarrow> v);
          fractionBusy = fdiv (ofInt numRunnersBusy) (ofInt desiredReplicasBefore)
      in if fge fractionBusy (bp_scaleUpThreshold p) then
           (if bp_scaleUpAdjustment p > 0 then Ret (desiredReplicasBefore + bp_scaleUpAdjustment p)
            else Ret (toInt (Ceil (fmul (ofInt desiredReplicasBefore) (bp_scaleUpFactor p)))))
         else if flt fractionBusy (bp_scaleDownThreshold p) then
           (if bp_scaleDownAdjustment p > 0 then Ret (desiredReplicasBefore - bp_scaleDownAdjustment p)
            else Ret (toInt (fmul (ofInt desiredReplicasBefore) (bp_scaleDownFactor p))))
         else (case replicas of None \<Rightarrow> Panic ''nil pointer dereference'' | Some v \<Rightarrow> Ret v))"

definition suggestReplicasByPercentageRunnersBusy :: "GitHub \<Rightarrow> scaleTarget \<Rightarrow> MetricSpec \<Rightarrow> int option go" where
  "suggestReplicasByPercentageRunnersBusy gh st metrics =
     go_bind (busyParamsOf metrics) (\<lambda>p.
     go_bind (st_getRunnerMap st) (\<lambda>runnerMap.
     go_bind (ListRunners gh (st_enterprise st) (st_org st) (st_repo st)) (\<lambda>runners.
     go_bind (countBusy runnerMap runners (0, 0)) (\<lambda>(numRunnersRegistered, numRunnersBusy).
     go_bind (busyDesired p (st_replicas st) numRunnersBusy) (\<lambda>desiredReplicas. Ret (Some desiredReplicas))))))"

subsection \<open>Combining the metrics\<close>

definition suggestDesiredReplicas :: "GitHub \<Rightarrow> scaleTarget \<Rightarrow> HorizontalRunnerAutoscaler \<Rightarrow> int option go" where
  "suggestDesiredReplicas gh st hra =
     (if hs_MinReplicas (hra_Spec hra) = None then Err (Errorf ''horizontalrunnerautoscaler is missing minReplicas'')
      else if hs_MaxReplicas (hra_Spec hra) = None then Err (Errorf ''horizontalrunnerautoscaler is missing maxReplicas'')
      else case hs_Metrics (hra_Spec hra) of
          [] \<Rightarrow> Ret None
        | primaryMetric # rest \<Rightarrow>
            if length rest > 1 then Err (Errorf ''too many autoscaling metrics configured'')
            else
              go_bind (if m_Type primaryMetric = AutoscalingMetricTypeTotalNumberOfQueuedAndInProgressWorkflowRuns then
                         suggestReplicasByQueuedAndInProgressWorkflowRuns gh st (Some primaryMetric)
                       else if m_Type primaryMetric = AutoscalingMetricTypePercentageRunnersBusy then
                         suggestReplicasByPercentageRunnersBusy gh st primaryMetric
                       else Err (Errorf ''validating autoscaling metrics: unsupported metric type''))
                (\<lambda>suggested.
                  if (case suggested of None \<Rightarrow> False | Some s \<Rightarrow> s > 0) then Ret suggested
                  else case rest of
                      [] \<Rightarrow> Ret None
                    | fallbackMetric # _ \<Rightarrow>
                        if m_Type primaryMetric \<noteq> AutoscalingMetricTypePercentageRunnersBusy \<or>
                           m_Type fallbackMetric \<noteq> AutoscalingMetricTypeTotalNumberOfQueuedAndInProgressWorkflowRuns
                        then Err (Errorf ''invalid HRA Spec: Metrics[0] cannot be combined with Metrics[1]'')
                        else suggestReplicasByQueuedAndInProgressWorkflowRuns gh st (Some fallbackMetric)))"

subsection \<open>What the job count means\<close>

text \<open>A job that needs a runner of the target: queued or running, self-hosted, and asking at least for the target's labels.\<close>

definition needsRunner :: "string list \<Rightarrow> WorkflowJob \<Rightarrow> bool" where
  "needsRunner stLabels job \<longleftrightarrow> insert ''self-hosted'' (set stLabels) \<subseteq> set (wj_Labels job) \<and>
     (wj_Status job = ''queued'' \<or> wj_Status job = ''in_progress'')"

text \<open>A run counts its jobs that need a runner; a run whose jobs are not known yet counts once, and one whose jobs cannot be listed not at all.\<close>

definition runNeed :: "GitHub \<Rightarrow> string list \<Rightarrow> string \<Rightarrow> string \<Rightarrow> WorkflowRun \<Rightarrow> int" where
  "runNeed gh stLabels user repoName run =
     (if wr_Status run \<noteq> ''queued'' \<and> wr_Status run \<noteq> ''in_progress'' then 0
      else if wr_ID run = 0 then 1
      else case listAll id (gh_ListWorkflowJobs gh user repoName (wr_ID run)) of
          Ret jobs \<Rightarrow> if jobs = [] then 1 else int (length (filter (needsRunner stLabels) jobs))
        | _ \<Rightarrow> 0)"

definition activeRuns :: "runCounts \<Rightarrow> int" where "activeRuns c = n_queued c + n_inProgress c"

lemma activeRuns_inc [simp]:
  "activeRuns (incTotal c) = activeRuns c" "activeRuns (incInProgress c) = activeRuns c + 1"
  "activeRuns (incQueued c) = activeRuns c + 1" "activeRuns (incCompleted c) = activeRuns c"
  "activeRuns (incUnknown c) = activeRuns c" "activeRuns noRuns = 0"
  by (simp_all add: activeRuns_def inc_defs noRuns_def)

lemma activeRuns_countJob:
  "activeRuns (countJob ls job c) = activeRuns c + (if needsRunner ls job then 1 else 0)"
  by (auto simp: countJob_def needsRunner_def)

lemma activeRuns_fold_countJob:
  "activeRuns (fold (countJob ls) jobs c) = activeRuns c + int (length (filter (needsRunner ls) jobs))"
  by (induction jobs arbitrary: c) (simp_all add: activeRuns_countJob)

text \<open>A job listing that neither panics nor goes on for ever: it succeeds or fails.\<close>

definition jobsAnswered :: "GitHub \<Rightarrow> bool" where
  "jobsAnswered gh \<longleftrightarrow> (\<forall>u r i. (\<exists>jobs. listAll id (gh_ListWorkflowJobs gh u r i) = Ret jobs) \<or>
     (\<exists>e. listAll id (gh_ListWorkflowJobs gh u r i) = Err e))"

lemma countRun_need:
  assumes "jobsAnswered gh"
  shows "\<exists>c'. countRun gh ls user repo run c = Ret c' \<and> activeRuns c' = activeRuns c + runNeed gh ls user repo run"
proof -
  consider (ret) jobs where "listAll id (gh_ListWorkflowJobs gh user repo (wr_ID run)) = Ret jobs"
    | (err) e where "listAll id (gh_ListWorkflowJobs gh user repo (wr_ID run)) = Err e"
    using assms unfolding jobsAnswered_def by blast
  then show ?thesis
    by cases (auto simp: countRun_def listWorkflowJobs_def runNeed_def Let_def activeRuns_fold_countJob)
qed

lemma countRuns_need:
  assumes "jobsAnswered gh"
  shows "\<exists>c'. countRuns gh ls user repo runs c = Ret c' \<and>
    activeRuns c' = activeRuns c + (\<Sum>run \<leftarrow> runs. runNeed gh ls user repo run)"
proof (induction runs arbitrary: c)
  case (Cons run runs)
  obtain c1 where c1: "countRun gh ls user repo run c = Ret c1" "activeRuns c1 = activeRuns c + runNeed gh ls user repo run"
    using countRun_need [OF assms] by blast
  with Cons.IH [of c1] show ?case by auto
qed simp

lemma countRepos_need:
  assumes "jobsAnswered gh" and "\<forall>repo \<in> set names. ListRepositoryWorkflowRuns gh org repo = Ret (runsOf repo)"
  shows "\<exists>c'. countRepos gh ls (map (\<lambda>repo. [org, repo]) names) c = Ret c' \<and>
    activeRuns c' = activeRuns c + (\<Sum>repo \<leftarrow> names. \<Sum>run \<leftarrow> runsOf repo. runNeed gh ls org repo run)"
  using assms(2)
proof (induction names arbitrary: c)
  case (Cons repo names)
  obtain c1 where c1: "countRuns gh ls org repo (runsOf repo) c = Ret c1"
    "activeRuns c1 = activeRuns c + (\<Sum>run \<leftarrow> runsOf repo. runNeed gh ls org repo run)"
    using countRuns_need [OF assms(1)] by blast
  with Cons.IH [of c1] Cons.prems show ?case by auto
qed simp

text \<open>The runs that are queued or in progress, with the repositories they belong to; and what is known of the jobs of a run: none for a run without an id, \<open>None\<close> when they cannot be listed.\<close>

definition unfinishedRuns :: "(string \<Rightarrow> WorkflowRun list) \<Rightarrow> string list \<Rightarrow> (string \<times> WorkflowRun) list" where
  "unfinishedRuns runsOf repos = concat (map (\<lambda>repo. map (Pair repo) (filter (\<lambda>run. wr_Status run \<in> {''queued'', ''in_progress''}) (runsOf repo))) repos)"

definition knownJobs :: "GitHub \<Rightarrow> string \<Rightarrow> string \<times> WorkflowRun \<Rightarrow> WorkflowJob list option" where
  "knownJobs gh org rr = (case rr of (repo, run) \<Rightarrow>
     if wr_ID run = 0 then Some [] else case listAll id (gh_ListWorkflowJobs gh org repo (wr_ID run)) of Ret jobs \<Rightarrow> Some jobs | _ \<Rightarrow> None)"

text \<open>What runs with known jobs ask for, and how it adds up over runs.\<close>

definition needOf :: "GitHub \<Rightarrow> string list \<Rightarrow> string \<Rightarrow> (string \<times> WorkflowRun) list \<Rightarrow> int" where
  "needOf gh ls org rrs = int (length (filter (needsRunner ls) (concat (List.map_filter (knownJobs gh org) rrs)))) +
     int (length (filter (\<lambda>rr. knownJobs gh org rr = Some []) rrs))"

lemma needOf_Nil [simp]: "needOf gh ls org [] = 0"
  by (simp add: needOf_def map_filter_simps)

lemma needOf_append [simp]: "needOf gh ls org (xs @ ys) = needOf gh ls org xs + needOf gh ls org ys"
  by (simp add: needOf_def map_filter_def)

lemma needOf_single:
  "wr_Status run \<in> {''queued'', ''in_progress''} \<Longrightarrow> needOf gh ls org [(repo, run)] = runNeed gh ls org repo run"
  by (cases "listAll id (gh_ListWorkflowJobs gh org repo (wr_ID run))"; cases "wr_ID run = 0")
    (auto simp: needOf_def runNeed_def knownJobs_def map_filter_simps)

lemma needOf_runs:
  "needOf gh ls org (map (Pair repo) (filter (\<lambda>run. wr_Status run \<in> {''queued'', ''in_progress''}) runs)) = (\<Sum>run \<leftarrow> runs. runNeed gh ls org repo run)"
proof (induction runs)
  case (Cons run runs)
  show ?case
  proof (cases "wr_Status run \<in> {''queued'', ''in_progress''}")
    case True
    with Cons needOf_append [of gh ls org "[(repo, run)]"] show ?thesis by (simp only: filter.simps if_True list.map append_Cons append_Nil sum_list.Cons needOf_single)
  next
    case False
    then have "runNeed gh ls org repo run = 0" by (simp add: runNeed_def)
    with Cons False show ?thesis by (simp only: filter.simps if_False list.map sum_list.Cons add_0)
  qed
qed simp

lemma runNeed_sum:
  "(\<Sum>repo \<leftarrow> repos. \<Sum>run \<leftarrow> runsOf repo. runNeed gh ls org repo run) = needOf gh ls org (unfinishedRuns runsOf repos)"
  by (induction repos) (simp_all only: unfinishedRuns_def list.map concat.simps sum_list.Nil sum_list.Cons needOf_Nil needOf_append needOf_runs)

text \<open>
  C26. The suggestion for an organizational scale target, when GitHub lists the workflow runs of every repository named by the metric (at least one), and every listing of jobs ends, with jobs or with an error. It is the number of jobs of queued and running workflow runs that are themselves queued or
  running and ask for \<open>self-hosted\<close> and for all labels of the target (they may ask for more), plus one for every queued or running workflow run that has no id or of which no job is known; the jobs of a run that cannot be listed do not count.
\<close>

theorem suggest_counts_needed_runners:
  assumes "jobsAnswered gh" and "\<forall>repo \<in> set (m_RepositoryNames m). ListRepositoryWorkflowRuns gh (st_org st) repo = Ret (runsOf repo)"
    and "st_repo st = []" and "st_org st \<noteq> []" and "m_RepositoryNames m \<noteq> []"
  shows "suggestReplicasByQueuedAndInProgressWorkflowRuns gh st (Some m) =
    (let runs = unfinishedRuns runsOf (m_RepositoryNames m)
     in Ret (Some (int (length (filter (needsRunner (st_labels st)) (concat (List.map_filter (knownJobs gh (st_org st)) runs)))) +
        int (length (filter (\<lambda>rr. knownJobs gh (st_org st) rr = Some []) runs)))))"
proof -
  obtain c' where "countRepos gh (st_labels st) (map (\<lambda>repo. [st_org st, repo]) (m_RepositoryNames m)) noRuns = Ret c'"
    "activeRuns c' = (\<Sum>repo \<leftarrow> m_RepositoryNames m. \<Sum>run \<leftarrow> runsOf repo. runNeed gh (st_labels st) (st_org st) repo run)"
    using countRepos_need [OF assms(1,2), of "st_labels st" noRuns] by auto
  with assms(3-5) show ?thesis
    by (simp add: suggestReplicasByQueuedAndInProgressWorkflowRuns_def activeRuns_def runNeed_sum needOf_def Let_def)
qed

lemma listAll_single: "fetch 0 = Ret (items, 0) \<Longrightarrow> listAll wrap fetch = Ret items"
  by (simp add: listAll_def returned_def) (subst pages.simps, simp)

definition exampleTarget :: scaleTarget where
  "exampleTarget = \<lparr>st_st = ''rd'', st_kind = ''runnerdeployment'', st_enterprise = [], st_repo = [], st_org = ''o'',
     st_replicas = Some 2, st_labels = [], st_getRunnerMap = Ret [''c'']\<rparr>"

definition exampleMetric :: MetricSpec where
  "exampleMetric = \<lparr>m_Type = AutoscalingMetricTypePercentageRunnersBusy, m_RepositoryNames = [''r''], m_ScaleUpThreshold = [],
     m_ScaleDownThreshold = [], m_ScaleUpFactor = [], m_ScaleDownFactor = [], m_ScaleUpAdjustment = 0, m_ScaleDownAdjustment = 0\<rparr>"

lemma exampleGitHub_runs:
  "ListRepositoryWorkflowRuns exampleGitHub u r =
    Ret [\<lparr>wr_ID = 1, wr_Status = ''queued''\<rparr>, \<lparr>wr_ID = 1, wr_Status = ''in_progress''\<rparr>]"
  by (simp add: ListRepositoryWorkflowRuns_def listRepositoryWorkflowRuns_def wrapErr_def exampleGitHub_def listAll_single)

lemma exampleGitHub_jobs:
  "listAll id (gh_ListWorkflowJobs exampleGitHub u r i) = Ret [\<lparr>wj_Labels = [''self-hosted''], wj_Status = ''queued''\<rparr>]"
  by (simp add: exampleGitHub_def listAll_single)

theorem suggest_counts_needed_runners_witness:
  "suggestReplicasByQueuedAndInProgressWorkflowRuns exampleGitHub exampleTarget (Some exampleMetric) = Ret (Some 2)"
  using suggest_counts_needed_runners [of exampleGitHub exampleMetric exampleTarget
      "\<lambda>r. [\<lparr>wr_ID = 1, wr_Status = ''queued''\<rparr>, \<lparr>wr_ID = 1, wr_Status = ''in_progress''\<rparr>]"]
  by (simp add: jobsAnswered_def exampleGitHub_jobs exampleGitHub_runs exampleTarget_def exampleMetric_def needsRunner_def unfinishedRuns_def knownJobs_def map_filter_simps Let_def)

subsection \<open>Scaling by the share of busy runners\<close>

lemma countBusy_spec:
  assumes "\<forall>r \<in> set runners. ghr_Name r \<noteq> None"
  shows "\<exists>registered. countBusy names runners c =
    Ret (registered, snd c + int (length (filter (\<lambda>r. GetName r \<in> set names \<and> ghr_Busy r) runners)))"
  using assms
proof (induction names runners c rule: countBusy.induct)
  case (2 names r rs registered busy)
  then show ?case by (cases "ghr_Name r") (auto simp: GetName_def [of r])
qed (simp add: prod_eq_iff)

text \<open>A product of an integer with a constant, each rounded, and the product rounded again, is off by less than a part in 300.\<close>

lemma roundF_close:
  assumes "1 / 4 \<le> q" and "q \<le> 2 ^ 100"
  shows "\<exists>v. roundF q = Fin v \<and> 999 / 1000 * q \<le> v \<and> v \<le> 1001 / 1000 * q"
proof -
  obtain v where v: "roundF q = Fin v" and e: "\<bar>v - q\<bar> \<le> q / 2 ^ 53" using roundF_error [OF assms] by blast
  have "q / 2 ^ 53 \<le> q / 1000" using assms(1) by (intro divide_left_mono) simp_all
  with e have "\<bar>v - q\<bar> \<le> q / 1000" by linarith
  then have "999 / 1000 * q \<le> v" and "v \<le> 1001 / 1000 * q" by linarith+
  with v show ?thesis by blast
qed

lemma toInt_floor: "0 \<le> x \<Longrightarrow> \<lfloor>x\<rfloor> < 2 ^ 63 \<Longrightarrow> toInt (Fin x) = \<lfloor>x\<rfloor>"
  by (simp only: toInt.simps Let_def minInt64_def if_True) (simp del: floor_less_numeral)

lemma scaled_close:
  assumes "1 \<le> b" and "b \<le> 2 ^ 31" and "1 / 2 \<le> c" and "c \<le> 2"
  shows "\<exists>v. fmul (ofInt b) (roundF c) = Fin v \<and> 997 / 1000 * (of_int b * c) \<le> v \<and> v \<le> 1004 / 1000 * (of_int b * c)"
proof -
  have b: "1 \<le> (of_int b :: rat)" "of_int b \<le> (2 ^ 31 :: rat)" using assms(1,2) by (simp_all add: of_int_le_iff [of b "2 ^ 31", symmetric] del: of_int_le_iff)
  then obtain x where x: "ofInt b = Fin x" "999 / 1000 * of_int b \<le> x" "x \<le> 1001 / 1000 * of_int b"
    using roundF_close [of "of_int b"] by (auto simp: ofInt_def)
  obtain f where f: "roundF c = Fin f" "999 / 1000 * c \<le> f" "f \<le> 1001 / 1000 * c"
    using roundF_close [of c] assms(3,4) by auto
  have lo: "999 / 1000 * of_int b * (999 / 1000 * c) \<le> x * f" using x f b assms(3) by (intro mult_mono) simp_all
  have hi: "x * f \<le> 1001 / 1000 * of_int b * (1001 / 1000 * c)" using x f b assms(3) by (intro mult_mono) simp_all
  have bc: "1 / 2 \<le> of_int b * c" "of_int b * c \<le> 2 ^ 31 * 2"
    using mult_mono [OF b(1) assms(3)] mult_mono [OF b(2) assms(4)] b assms(3) by simp_all
  have "1 / 4 \<le> x * f" and "x * f \<le> 2 ^ 100" using lo hi bc by simp_all
  then obtain v where v: "roundF (x * f) = Fin v" "999 / 1000 * (x * f) \<le> v" "v \<le> 1001 / 1000 * (x * f)"
    using roundF_close by blast
  have "997 / 1000 * (of_int b * c) \<le> v" and "v \<le> 1004 / 1000 * (of_int b * c)" using lo hi v(2,3) bc by simp_all
  with v(1) x(1) f(1) show ?thesis by simp
qed

lemma fits_int64: "i \<le> 2 * b \<Longrightarrow> b \<le> 2 ^ 31 \<Longrightarrow> i < 2 ^ 63" for i b :: int
  by simp

lemma scale_up_grows:
  assumes "1 \<le> b" and "b \<le> 2 ^ 31"
  shows "b < toInt (Ceil (fmul (ofInt b) defaultScaleUpFactor)) \<and> toInt (Ceil (fmul (ofInt b) defaultScaleUpFactor)) \<le> 2 * b"
proof -
  obtain v where v: "fmul (ofInt b) defaultScaleUpFactor = Fin v"
    "997 / 1000 * (of_int b * (13 / 10)) \<le> v" "v \<le> 1004 / 1000 * (of_int b * (13 / 10))"
    using scaled_close [OF assms, of "13 / 10"] by (auto simp: defaultScaleUpFactor_def)
  have "1 \<le> (of_int b :: rat)" using assms(1) by simp
  with v(2,3) have "of_int b < v" and "v \<le> of_int (2 * b)" by simp_all
  then have "b < \<lceil>v\<rceil>" and "\<lceil>v\<rceil> \<le> 2 * b" by (simp_all add: less_ceiling_iff ceiling_le_iff)
  moreover from this have "0 \<le> \<lceil>v\<rceil>" and "\<lceil>v\<rceil> < 2 ^ 63" using assms(1) fits_int64 [OF _ assms(2)] by (blast intro: order_trans [OF _ less_imp_le] zero_le_one order_trans)+
  then have "toInt (Fin (of_int \<lceil>v\<rceil>)) = \<lceil>v\<rceil>"
    using toInt_floor [of "of_int \<lceil>v\<rceil>"] by (simp only: floor_of_int of_int_0_le_iff simp_thms)
  ultimately show ?thesis using v(1) by simp
qed

lemma scale_down_shrinks:
  assumes "1 \<le> b" and "b \<le> 2 ^ 31"
  shows "0 \<le> toInt (fmul (ofInt b) defaultScaleDownFactor) \<and> toInt (fmul (ofInt b) defaultScaleDownFactor) < b"
proof -
  obtain v where v: "fmul (ofInt b) defaultScaleDownFactor = Fin v"
    "997 / 1000 * (of_int b * (7 / 10)) \<le> v" "v \<le> 1004 / 1000 * (of_int b * (7 / 10))"
    using scaled_close [OF assms, of "7 / 10"] by (auto simp: defaultScaleDownFactor_def)
  have "1 \<le> (of_int b :: rat)" using assms(1) by simp
  with v(2,3) have "0 \<le> v" and "v < of_int b" by simp_all
  then have "0 \<le> \<lfloor>v\<rfloor>" and "\<lfloor>v\<rfloor> < b" by (simp_all add: floor_less_iff)
  moreover from this have "\<lfloor>v\<rfloor> \<le> 2 * b" using assms(1) by simp
  then have "\<lfloor>v\<rfloor> < 2 ^ 63" using assms(2) by (rule fits_int64)
  with \<open>0 \<le> v\<close> have "toInt (Fin v) = \<lfloor>v\<rfloor>" by (rule toInt_floor)
  ultimately show ?thesis using v(1) by simp
qed

definition defaultBusyMetric :: "MetricSpec \<Rightarrow> bool" where
  "defaultBusyMetric m \<longleftrightarrow> m_ScaleUpThreshold m = [] \<and> m_ScaleDownThreshold m = [] \<and> m_ScaleUpFactor m = [] \<and>
     m_ScaleDownFactor m = [] \<and> m_ScaleUpAdjustment m = 0 \<and> m_ScaleDownAdjustment m = 0"

text \<open>
  C27. With the default settings the metric on busy runners moves the right way in spite of floating point rounding, for a scale target whose number of replicas \<open>b\<close> is set and between 1 and 2 to the power of 31, when the names of its runners are known and GitHub lists its runners, all of them with a name: with the
  share of busy runners of the target, of \<open>b\<close>, at or above the scale-up threshold it suggests strictly more replicas than before (at most twice as many), below the scale-down threshold strictly fewer but not a negative number, and in between the same number. Only busy runners of the target itself
  are counted.
\<close>

theorem percentage_busy_direction:
  assumes "defaultBusyMetric m" and "st_replicas st = Some b" and "1 \<le> b" and "b \<le> 2 ^ 31"
    and "st_getRunnerMap st = Ret names"
    and "ListRunners gh (st_enterprise st) (st_org st) (st_repo st) = Ret runners"
    and "\<forall>r \<in> set runners. ghr_Name r \<noteq> None"
  defines "busyShare \<equiv> fdiv (ofInt (int (length (filter (\<lambda>r. GetName r \<in> set names \<and> ghr_Busy r) runners)))) (ofInt b)"
  shows "\<exists>d. suggestReplicasByPercentageRunnersBusy gh st m = Ret (Some d) \<and>
    (if fge busyShare defaultScaleUpThreshold then b < d \<and> d \<le> 2 * b
     else if flt busyShare defaultScaleDownThreshold then 0 \<le> d \<and> d < b
     else d = b)"
proof -
  obtain registered where c: "countBusy names runners (0, 0) =
      Ret (registered, int (length (filter (\<lambda>r. GetName r \<in> set names \<and> ghr_Busy r) runners)))"
    using countBusy_spec [OF assms(7), of names "(0, 0)"] by auto
  have p: "busyParamsOf m = Ret \<lparr>bp_scaleUpThreshold = defaultScaleUpThreshold, bp_scaleDownThreshold = defaultScaleDownThreshold,
      bp_scaleUpAdjustment = 0, bp_scaleUpFactor = defaultScaleUpFactor, bp_scaleDownAdjustment = 0,
      bp_scaleDownFactor = defaultScaleDownFactor\<rparr>"
    using assms(1) by (simp add: busyParamsOf_def defaultBusyMetric_def floatOr_def busyFactor_def)
  show ?thesis
    using scale_up_grows [OF assms(3,4)] scale_down_shrinks [OF assms(3,4)]
    by (auto simp add: suggestReplicasByPercentageRunnersBusy_def p assms(2,5,6) c busyDesired_def busyShare_def)
qed

theorem percentage_busy_direction_witness:
  "\<exists>d. suggestReplicasByPercentageRunnersBusy exampleGitHub exampleTarget exampleMetric = Ret (Some d) \<and> d < 2"
proof -
  have l: "ListRunners exampleGitHub [] ''o'' [] = Ret [exampleRunner ''c'']"
    by (simp add: ListRunners_def getEnterpriseOrganizationAndRepo_def listRunners_def exampleGitHub_def listAll_single)
  have z: "fdiv (ofInt 0) (ofInt 2) = Fin 0" and u: "\<not> fge (Fin 0) defaultScaleUpThreshold" and d: "flt (Fin 0) defaultScaleDownThreshold"
  proof -
    obtain x where "roundF 2 = Fin x" "0 < x" using roundF_close [of 2] by fastforce
    then show "fdiv (ofInt 0) (ofInt 2) = Fin 0" by (simp add: ofInt_def roundF_def [of 0])
    obtain y where "roundF (8 / 10) = Fin y" "0 < y" using roundF_close [of "8 / 10"] by fastforce
    then show "\<not> fge (Fin 0) defaultScaleUpThreshold" by (simp add: defaultScaleUpThreshold_def fge_def)
    obtain y where "roundF (3 / 10) = Fin y" "0 < y" using roundF_close [of "3 / 10"] by fastforce
    then show "flt (Fin 0) defaultScaleDownThreshold" by (simp add: defaultScaleDownThreshold_def)
  qed
  have "defaultBusyMetric exampleMetric" by (simp add: defaultBusyMetric_def exampleMetric_def)
  from percentage_busy_direction [OF this, of exampleTarget 2 "[''c'']" exampleGitHub "[exampleRunner ''c'']"]
  show ?thesis using l z u d by (auto simp: exampleTarget_def exampleRunner_def)
qed

end
