(* ===== verification/Go_Time.thy ===== *)
theory Go_Time
  imports Arc_Prelude
begin

section \<open>Package time: calendar arithmetic\<close>

text \<open>
  The calendar computations of Go's \<open>time\<close> package that the schedule uses: year, month and day of an instant and \<open>time.Date\<close> with its
  normalisation of an overflowing month or day. The algorithms are the ones of the standard library. A location is a fixed offset from UTC.
\<close>

abbreviation Hour :: duration where "Hour \<equiv> 3600000000000"
abbreviation Day :: duration where "Day \<equiv> 86400000000000"

text \<open>Days since 0001-01-01 and nanoseconds since midnight, on the clock of a location.\<close>

definition absDay :: "duration \<Rightarrow> time \<Rightarrow> int" where
  "absDay loc t = (t + loc - zeroTime) div Day"

definition clock :: "duration \<Rightarrow> time \<Rightarrow> duration" where
  "clock loc t = (t + loc - zeroTime) mod Day"

text \<open>Year (counted from year 1) and day of the year, by cycles of 400, 100, 4 and 1 years.\<close>

definition absYear :: "int \<Rightarrow> int \<times> int" where
  "absYear d =
     (let n = d div 146097; d1 = d mod 146097;
          c0 = d1 div 36524; c = c0 - c0 div 4; d2 = d1 - 36524 * c;
          q = d2 div 1461; d3 = d2 - 1461 * q;
          a0 = d3 div 365; a = a0 - a0 div 4
      in (400 * n + 100 * c + 4 * q + a + 1, d3 - 365 * a))"

definition daysSinceEpoch :: "int \<Rightarrow> int" where
  "daysSinceEpoch year =
     (let y = year - 1; n = y div 400; y1 = y mod 400; c = y1 div 100; y2 = y1 mod 100
      in 146097 * n + 36524 * c + 1461 * (y2 div 4) + 365 * (y2 mod 4))"

definition isLeap :: "int \<Rightarrow> bool" where
  "isLeap year \<longleftrightarrow> year mod 4 = 0 \<and> (year mod 100 \<noteq> 0 \<or> year mod 400 = 0)"

definition daysBefore :: "int \<Rightarrow> int" where
  "daysBefore m = (if m \<le> 0 then 0 else if m = 1 then 31 else if m = 2 then 59 else if m = 3 then 90
     else if m = 4 then 120 else if m = 5 then 151 else if m = 6 then 181 else if m = 7 then 212
     else if m = 8 then 243 else if m = 9 then 273 else if m = 10 then 304 else if m = 11 then 334 else 365)"

text \<open>Month (1 to 12) and day of the month of a day of the year.\<close>

definition monthDay :: "bool \<Rightarrow> int \<Rightarrow> int \<times> int" where
  "monthDay leap yday =
     (if leap \<and> yday = 59 then (2, 29)
      else
        (let day = (if leap \<and> yday > 59 then yday - 1 else yday);
             month = day div 31;
             e = daysBefore (month + 1)
         in if day \<ge> e then (month + 2, day - e + 1) else (month + 1, day - daysBefore month + 1)))"

definition civil :: "duration \<Rightarrow> time \<Rightarrow> int \<times> int \<times> int" where
  "civil loc t = (let (year, yday) = absYear (absDay loc t); (month, day) = monthDay (isLeap year) yday
     in (year, month, day))"

definition Date :: "duration \<Rightarrow> int \<Rightarrow> int \<Rightarrow> int \<Rightarrow> duration \<Rightarrow> time" where
  "Date loc year month day clk =
     (let m = month - 1; y = year + m div 12; m' = m mod 12;
          d = daysSinceEpoch y + daysBefore m' + (if isLeap y \<and> m' + 1 \<ge> 3 then 1 else 0) + (day - 1)
      in zeroTime + d * Day + clk - loc)"

subsection \<open>Round trip\<close>

lemma absYear_cycles:
  fixes d :: int
  obtains n c q a y where "d = 146097 * n + 36524 * c + 1461 * q + 365 * a + y"
    "absYear d = (400 * n + 100 * c + 4 * q + a + 1, y)"
    "0 \<le> c" "c \<le> 3" "0 \<le> q" "q \<le> 24" "0 \<le> a" "a \<le> 3" "0 \<le> y" "y \<le> 365"
proof -
  define n where "n = d div 146097"
  define d1 where "d1 = d mod 146097"
  define c0 where "c0 = d1 div 36524"
  define c where "c = c0 - c0 div 4"
  define d2 where "d2 = d1 - 36524 * c"
  define q where "q = d2 div 1461"
  define d3 where "d3 = d2 - 1461 * q"
  define a0 where "a0 = d3 div 365"
  define a where "a = a0 - a0 div 4"
  have d1: "0 \<le> d1" "d1 < 146097" and d: "d = 146097 * n + d1" by (simp_all add: d1_def n_def)
  have c0: "0 \<le> c0" "c0 \<le> 4" "36524 * c0 \<le> d1" "d1 < 36524 * c0 + 36524" using d1 unfolding c0_def by linarith+
  have "c0 div 4 = (if c0 = 4 then 1 else 0)" using c0 by auto
  then have ceq: "c = (if c0 = 4 then 3 else c0)" by (simp add: c_def)
  then have c: "0 \<le> c" "c \<le> 3" "0 \<le> d2" "d2 \<le> 36524"
    using c0 d1 unfolding d2_def by (auto split: if_splits)
  have q: "0 \<le> q" "1461 * q \<le> d2" "d2 < 1461 * q + 1461" using c unfolding q_def by linarith+
  then have q24: "q \<le> 24" using c by linarith
  have d3: "0 \<le> d3" "d3 < 1461" using q unfolding d3_def by linarith+
  have a0: "0 \<le> a0" "a0 \<le> 4" "365 * a0 \<le> d3" "d3 < 365 * a0 + 365" using d3 unfolding a0_def by linarith+
  have "a0 div 4 = (if a0 = 4 then 1 else 0)" using a0 by auto
  then have aeq: "a = (if a0 = 4 then 3 else a0)" by (simp add: a_def)
  then have a: "0 \<le> a" "a \<le> 3" "0 \<le> d3 - 365 * a" "d3 - 365 * a \<le> 365"
    using a0 d3 by (auto split: if_splits)
  have "absYear d = (400 * n + 100 * c + 4 * q + a + 1, d3 - 365 * a)"
    by (simp add: absYear_def Let_def n_def d1_def c0_def c_def d2_def q_def d3_def a0_def a_def)
  moreover have "d = 146097 * n + 36524 * c + 1461 * q + 365 * a + (d3 - 365 * a)"
    using d by (simp add: d2_def d3_def)
  ultimately show ?thesis using that [of n c q a "d3 - 365 * a"] c q q24 a by blast
qed

lemma daysSinceEpoch_cycles:
  fixes n c q a :: int
  assumes "0 \<le> c" "c \<le> 3" "0 \<le> q" "q \<le> 24" "0 \<le> a" "a \<le> 3"
  shows "daysSinceEpoch (400 * n + 100 * c + 4 * q + a + 1) = 146097 * n + 36524 * c + 1461 * q + 365 * a"
proof -
  let ?r = "100 * c + 4 * q + a" and ?s = "4 * q + a"
  have r: "0 \<le> ?r" "?r < 400" and s: "0 \<le> ?s" "?s < 100" using assms by linarith+
  have "(400 * n + ?r) div 400 = n" and "(400 * n + ?r) mod 400 = ?r" using r by simp_all
  moreover have "(100 * c + ?s) div 100 = c" and "(100 * c + ?s) mod 100 = ?s" using s by simp_all
  moreover have "(4 * q + a) div 4 = q" and "(4 * q + a) mod 4 = a" using assms by simp_all
  ultimately show ?thesis by (simp add: daysSinceEpoch_def Let_def add.assoc)
qed

lemma absYear_roundtrip: "absYear d = (year, yday) \<Longrightarrow> daysSinceEpoch year + yday = d \<and> 0 \<le> yday \<and> yday \<le> 365"
  by (rule absYear_cycles [of d]) (auto simp: daysSinceEpoch_cycles)

lemma monthDay_roundtrip:
  assumes "0 \<le> yday" "yday \<le> 365" and "monthDay leap yday = (month, day)"
  shows "1 \<le> month \<and> month \<le> 13 \<and>
    (month \<le> 12 \<longrightarrow> daysBefore (month - 1) + (if leap \<and> month \<ge> 3 then 1 else 0) + (day - 1) = yday)"
proof (cases "leap \<and> yday = 59")
  case True
  with assms show ?thesis by (auto simp: monthDay_def daysBefore_def)
next
  case False
  define dd where "dd = (if leap \<and> yday > 59 then yday - 1 else yday)"
  define m where "m = dd div 31"
  have dd: "0 \<le> dd" "dd \<le> 365" using assms(1,2) by (auto simp: dd_def)
  have m: "0 \<le> m" "m \<le> 11" "31 * m \<le> dd" "dd < 31 * m + 31" using dd unfolding m_def by linarith+
  have md: "(month, day) = (if dd \<ge> daysBefore (m + 1) then (m + 2, dd - daysBefore (m + 1) + 1)
      else (m + 1, dd - daysBefore m + 1))"
    using assms(3) [unfolded monthDay_def Let_def if_not_P [OF False], folded dd_def, folded m_def] by simp
  have early: "leap \<and> month < 3 \<longrightarrow> yday \<le> 59" and late: "leap \<and> month \<ge> 3 \<longrightarrow> yday > 59"
    using md m dd False by (auto simp: daysBefore_def dd_def split: if_splits)
  have "1 \<le> month \<and> month \<le> 13" using md m by (auto split: if_splits)
  moreover have "daysBefore (month - 1) + (day - 1) = dd"
    using md by (auto split: if_splits simp: add.commute [of 1])
  ultimately show ?thesis using early late dd_def False by (auto split: if_splits)
qed

lemma monthDay_month:
  assumes "0 \<le> yday" "yday \<le> (if leap then 365 else 364)" and "monthDay leap yday = (month, day)"
  shows "month \<le> 12"
proof (cases "leap \<and> yday = 59")
  case True
  with assms show ?thesis by (auto simp: monthDay_def)
next
  case False
  define dd where "dd = (if leap \<and> yday > 59 then yday - 1 else yday)"
  define m where "m = dd div 31"
  have dd: "0 \<le> dd" "dd \<le> 364" using assms(1,2) by (auto simp: dd_def split: if_splits)
  then have m: "0 \<le> m" "m \<le> 11" unfolding m_def by linarith+
  have "(month, day) = (if dd \<ge> daysBefore (m + 1) then (m + 2, dd - daysBefore (m + 1) + 1)
      else (m + 1, dd - daysBefore m + 1))"
    using assms(3) [unfolded monthDay_def Let_def if_not_P [OF False], folded dd_def, folded m_def] by simp
  with m dd show ?thesis by (auto simp: daysBefore_def split: if_splits)
qed

text \<open>The last day of a year is day 365 only in a leap year: the fourth year of a cycle of four, unless it ends a century that is not the fourth.\<close>

lemma isLeap_cycles:
  assumes y: "year = 400 * n + 100 * c + 4 * q + 4" and q: "0 \<le> q" "q \<le> 24" and "q < 24 \<or> c = 3"
  shows "isLeap year"
proof -
  have "year = 4 * (100 * n + 25 * c + q + 1)" using y by simp
  then have m4: "year mod 4 = 0" by simp
  have "year mod 100 \<noteq> 0" if "q < 24"
  proof -
    have "year = 100 * (4 * n + c) + (4 * q + 4)" using y by simp
    then have "year mod 100 = (4 * q + 4) mod 100" by (metis mod_mult_self4)
    also have "\<dots> = 4 * q + 4" using that q by simp
    finally show ?thesis using q by simp
  qed
  moreover have "year mod 400 = 0" if "\<not> q < 24"
  proof -
    have "year = 400 * (n + 1)" using y that q assms(4) by simp
    then show ?thesis by simp
  qed
  ultimately show ?thesis unfolding isLeap_def using m4 by (cases "q < 24") (metis, metis)
qed

lemma absYear_leap: "absYear d = (year, yday) \<Longrightarrow> yday \<le> (if isLeap year then 365 else 364)"
proof -
  assume ay: "absYear d = (year, yday)"
  define n where "n = d div 146097"
  define d1 where "d1 = d mod 146097"
  define c0 where "c0 = d1 div 36524"
  define c where "c = c0 - c0 div 4"
  define d2 where "d2 = d1 - 36524 * c"
  define q where "q = d2 div 1461"
  define d3 where "d3 = d2 - 1461 * q"
  define a0 where "a0 = d3 div 365"
  define a where "a = a0 - a0 div 4"
  have y: "year = 400 * n + 100 * c + 4 * q + a + 1" and yd: "yday = d3 - 365 * a"
    using ay by (simp_all add: absYear_def Let_def n_def d1_def c0_def c_def d2_def q_def d3_def a0_def a_def)
  have d1: "0 \<le> d1" "d1 < 146097" by (simp_all add: d1_def)
  have c0: "0 \<le> c0" "c0 \<le> 4" "36524 * c0 \<le> d1" "d1 < 36524 * c0 + 36524" using d1 unfolding c0_def by linarith+
  have "c0 div 4 = (if c0 = 4 then 1 else 0)" using c0 by auto
  then have c: "c = (if c0 = 4 then 3 else c0)" by (simp add: c_def)
  have d2: "0 \<le> d2" "d2 \<le> 36524" "d2 = 36524 \<longrightarrow> c = 3" "c \<le> 3" "0 \<le> c"
    using c0 d1 c unfolding d2_def by (auto split: if_splits)
  have q: "0 \<le> q" "1461 * q \<le> d2" "d2 < 1461 * q + 1461" using d2 unfolding q_def by linarith+
  then have q24: "q \<le> 24" using d2 by linarith
  have d3: "0 \<le> d3" "d3 < 1461" using q unfolding d3_def by linarith+
  have a0: "0 \<le> a0" "a0 \<le> 4" "365 * a0 \<le> d3" "d3 < 365 * a0 + 365" using d3 unfolding a0_def by linarith+
  have "a0 div 4 = (if a0 = 4 then 1 else 0)" using a0 by auto
  then have a: "a = (if a0 = 4 then 3 else a0)" by (simp add: a_def)
  have le: "yday \<le> 365" and ge: "yday = 365 \<longrightarrow> a0 = 4" using a a0 d3 yd by (auto split: if_splits)
  show ?thesis
  proof (cases "yday = 365")
    case False
    with le show ?thesis by auto
  next
    case True
    with ge a have a3: "a = 3" and d3': "d3 = 1460" using yd by auto
    have "q < 24 \<or> c = 3" using d3' q d2 unfolding d3_def by linarith
    then have "isLeap year" using y a3 q(1) q24 by (intro isLeap_cycles [of year n c q]) simp_all
    with True show ?thesis by simp
  qed
qed

text \<open>\<open>time.Date\<close> undoes the calendar, and adding to the day adds whole days.\<close>

lemma Date_civil:
  assumes "civil loc t = (year, month, day)"
  shows "Date loc year month (day + k) (clock loc t) = t + k * Day"
proof -
  obtain yday where ay: "absYear (absDay loc t) = (year, yday)" and md: "monthDay (isLeap year) yday = (month, day)"
    using assms by (auto simp: civil_def split: prod.splits)
  note rt = absYear_roundtrip [OF ay]
  have m12: "month \<le> 12" using monthDay_month [OF _ absYear_leap [OF ay] md] rt by blast
  have mr: "1 \<le> month" "daysBefore (month - 1) + (if isLeap year \<and> month \<ge> 3 then 1 else 0) + (day - 1) = yday"
    using monthDay_roundtrip [OF _ _ md] rt m12 by blast+
  have mod: "(month - 1) div 12 = 0" "(month - 1) mod 12 = month - 1" using mr(1) m12 by simp_all
  have d: "daysSinceEpoch year + daysBefore (month - 1) + (if isLeap year \<and> month \<ge> 3 then 1 else 0) + (day + k - 1)
      = absDay loc t + k"
    using mr(2) rt by simp
  have "Date loc year month (day + k) (clock loc t) = zeroTime + (absDay loc t + k) * Day + clock loc t - loc"
    unfolding Date_def Let_def mod by (subst d [symmetric]) simp
  also have "\<dots> = t + k * Day"
    unfolding absDay_def clock_def using div_mult_mod_eq [of "t + loc - zeroTime" Day] by (simp add: algebra_simps)
  finally show ?thesis .
qed

end
