(* ===== verification/Schedule.thy ===== *)
theory Schedule
  imports Go_Time Api_Types
begin

section \<open>Scheduled overrides: active and upcoming periods\<close>

text \<open>
  Model of \<open>src/controllers/schedule.go\<close>. The recurrence rules come from a library (rrule-go) that is
  a parameter: \<open>newRRule freq dtstart until\<close> is the rule's method \<open>Between after before inc\<close>, or an error.
\<close>

datatype Frequency = YEARLY | MONTHLY | WEEKLY | DAILY

type_synonym between = "time \<Rightarrow> time \<Rightarrow> bool \<Rightarrow> time list"
type_synonym rrule = "Frequency \<Rightarrow> time \<Rightarrow> time \<Rightarrow> between go"

record Period =
  StartTime :: time
  EndTime :: time

subsection \<open>The code\<close>

text \<open>The switch on the frequency's name: the rule's frequency and the days, months and years added to \<open>now\<close>.\<close>

definition freqOf :: "string \<Rightarrow> (Frequency \<times> int \<times> int \<times> int) option" where
  "freqOf frequency =
     (if frequency = ''Daily'' then Some (DAILY, 1, 0, 0)
      else if frequency = ''Weekly'' then Some (WEEKLY, 7, 0, 0)
      else if frequency = ''Monthly'' then Some (MONTHLY, 0, 1, 0)
      else if frequency = ''Yearly'' then Some (YEARLY, 0, 0, 1)
      else None)"

definition freqDurationLater :: "duration \<Rightarrow> time \<Rightarrow> int \<times> int \<times> int \<Rightarrow> time" where
  "freqDurationLater loc now = (\<lambda>(freqDurationDay, freqDurationMonth, freqDurationYear).
     (let (year, month, day) = civil loc now
      in Date loc (year + freqDurationYear) (month + freqDurationMonth) (day + freqDurationDay) (clock loc now)))"

definition recurringPeriods ::
  "between \<Rightarrow> time \<Rightarrow> duration \<Rightarrow> time \<Rightarrow> (Period option \<times> Period option) go" where
  "recurringPeriods btw now overrideDuration later =
     (let overrideDurationBefore = now + (- overrideDuration + 1);
          activeOverrideStarts = btw overrideDurationBefore now True
      in if length activeOverrideStarts > 1 then
           Err (Errorf ''[bug] unexpted number of active overrides found'')
         else
           (let active = (if length activeOverrideStarts = 1 then
                  Some \<lparr>StartTime = activeOverrideStarts ! 0, EndTime = activeOverrideStarts ! 0 + overrideDuration\<rparr>
                  else None);
                oneSecondLater = now + 1;
                upcomingOverrideStarts = btw oneSecondLater later True;
                nxt = (if length upcomingOverrideStarts > 0 then
                  Some \<lparr>StartTime = upcomingOverrideStarts ! 0, EndTime = upcomingOverrideStarts ! 0 + overrideDuration\<rparr>
                  else None)
            in Ret (active, nxt)))"

definition calculateActiveAndUpcomingRecurringPeriods ::
  "rrule \<Rightarrow> duration \<Rightarrow> time \<Rightarrow> time \<Rightarrow> time \<Rightarrow> string \<Rightarrow> time \<Rightarrow> (Period option \<times> Period option) go" where
  "calculateActiveAndUpcomingRecurringPeriods newRRule loc now startTime endTime frequency untilTime =
     (case freqOf frequency of
        None \<Rightarrow>
          if frequency = [] then
            (if now < startTime then Ret (None, Some \<lparr>StartTime = startTime, EndTime = endTime\<rparr>)
             else if now < endTime then Ret (Some \<lparr>StartTime = startTime, EndTime = endTime\<rparr>, None)
             else Ret (None, None))
          else Err (Errorf ''invalid freq'')
      | Some (freqValue, step) \<Rightarrow>
          (let later = freqDurationLater loc now step;
               freqDuration = timeSub later now;
               overrideDuration = timeSub endTime startTime
           in if overrideDuration > freqDuration then
                Err (Errorf ''override's duration must be equal to or shorter than the duration implied by freq'')
              else go_bind (newRRule freqValue startTime untilTime)
                (\<lambda>btw. recurringPeriods btw now overrideDuration later)))"

definition MatchSchedule ::
  "rrule \<Rightarrow> duration \<Rightarrow> time \<Rightarrow> time \<Rightarrow> time \<Rightarrow> RecurrenceRule \<Rightarrow> (Period option \<times> Period option) go" where
  "MatchSchedule newRRule loc now startTime endTime recurrenceRule =
     calculateActiveAndUpcomingRecurringPeriods newRRule loc now startTime endTime
       (rr_Frequency recurrenceRule) (rr_UntilTime recurrenceRule)"

subsection \<open>What the code relies on in the recurrence library\<close>

text \<open>\<open>Between after before true\<close> returns occurrences in ascending order, all within the closed interval.\<close>

definition betweenInRange :: "rrule \<Rightarrow> bool" where
  "betweenInRange newRRule \<longleftrightarrow>
     (\<forall>f s u btw a b. newRRule f s u = Ret btw \<longrightarrow> sorted (btw a b True) \<and> (\<forall>t \<in> set (btw a b True). a \<le> t \<and> t \<le> b))"

text \<open>Occurrences of a daily or weekly rule lie at least a day or a week apart.\<close>

definition spacing :: "Frequency \<Rightarrow> duration" where
  "spacing f = (case f of DAILY \<Rightarrow> Day | WEEKLY \<Rightarrow> 7 * Day | _ \<Rightarrow> 28 * Day)"

definition betweenSpaced :: "rrule \<Rightarrow> bool" where
  "betweenSpaced newRRule \<longleftrightarrow>
     (\<forall>f s u btw a b. newRRule f s u = Ret btw \<longrightarrow> sorted_wrt (\<lambda>t t'. t + spacing f \<le> t') (btw a b True))"

text \<open>A rule with its first occurrence only, for closed instances.\<close>

definition onceRule :: rrule where
  "onceRule f s u = Ret (\<lambda>a b inc. if a \<le> s \<and> s \<le> b then [s] else [])"

lemma onceRule_ok: "betweenInRange onceRule" "betweenSpaced onceRule"
  by (auto simp: betweenInRange_def betweenSpaced_def onceRule_def)

subsection \<open>Properties\<close>

text \<open>The instant one frequency step after \<open>now\<close> for the fixed-length frequencies.\<close>

lemma freqDurationLater_days: "freqDurationLater loc now (k, 0, 0) = now + k * Day"
  by (cases "civil loc now") (simp add: freqDurationLater_def Date_civil)

lemma freqOf_spacing:
  "freqOf fr = Some (f, step) \<Longrightarrow> f = DAILY \<or> f = WEEKLY \<Longrightarrow> freqDurationLater loc now step = now + spacing f"
  by (auto simp: freqOf_def freqDurationLater_days spacing_def split: if_splits)

lemma timeSub_step: "f = DAILY \<or> f = WEEKLY \<Longrightarrow> timeSub (now + spacing f) now = spacing f"
  by (auto simp: timeSub_def spacing_def maxDuration_def minDuration_def)

lemma spaced_singleton:
  fixes xs :: "int list"
  assumes "sorted_wrt (\<lambda>t t'. t + d \<le> t') xs" and "\<forall>t \<in> set xs. a \<le> t \<and> t \<le> b" and "b - a < d"
  shows "length xs \<le> 1"
proof (rule ccontr)
  assume "\<not> length xs \<le> 1"
  then obtain x y zs where xs: "xs = x # y # zs" by (cases xs; cases "tl xs") auto
  with assms show False by auto
qed

text \<open>
  A one-off override (empty frequency) is active exactly from its start time up to but excluding its end time, and upcoming exactly before its start time; it
  is never both.
\<close>

theorem MatchSchedule_once:
  assumes "rr_Frequency rule = []"
  shows "MatchSchedule newRRule loc now s e rule =
    Ret (if s \<le> now \<and> now < e then Some \<lparr>StartTime = s, EndTime = e\<rparr> else None,
         if now < s then Some \<lparr>StartTime = s, EndTime = e\<rparr> else None)"
  using assms by (auto simp: MatchSchedule_def calculateActiveAndUpcomingRecurringPeriods_def freqOf_def)

theorem MatchSchedule_once_witness:
  "MatchSchedule onceRule 0 5 3 9 \<lparr>rr_Frequency = [], rr_UntilTime = zeroTime\<rparr> =
    Ret (Some \<lparr>StartTime = 3, EndTime = 9\<rparr>, None)"
  using MatchSchedule_once [of "\<lparr>rr_Frequency = [], rr_UntilTime = zeroTime\<rparr>" onceRule 0 5 3 9] by simp

lemma recurring_Ret:
  assumes "MatchSchedule newRRule loc now s e rule = Ret (active, upcoming)" and "rr_Frequency rule \<noteq> []"
  obtains f step btw where "freqOf (rr_Frequency rule) = Some (f, step)" "newRRule f s (rr_UntilTime rule) = Ret btw"
    "recurringPeriods btw now (timeSub e s) (freqDurationLater loc now step) = Ret (active, upcoming)"
    "timeSub e s \<le> timeSub (freqDurationLater loc now step) now"
  using assms
  by (auto simp: MatchSchedule_def calculateActiveAndUpcomingRecurringPeriods_def Let_def go_bind_Ret_iff
      split: option.splits if_splits)

text \<open>
  C32. For a recurring override, given a recurrence library whose \<open>Between\<close> keeps to its interval, an active period covers \<open>now\<close> (it has started and has
  not ended), an upcoming period starts strictly after \<open>now\<close> and at most one recurrence step later, and both last as long as the first override.
\<close>

theorem MatchSchedule_recurring:
  assumes "betweenInRange newRRule" and "rr_Frequency rule \<noteq> []"
    and "MatchSchedule newRRule loc now s e rule = Ret (active, upcoming)"
  shows "(\<forall>p. active = Some p \<longrightarrow> StartTime p \<le> now \<and> now < EndTime p \<and> EndTime p = StartTime p + timeSub e s) \<and>
    (\<forall>p. upcoming = Some p \<longrightarrow> now < StartTime p \<and> EndTime p = StartTime p + timeSub e s \<and>
       (\<exists>f step. freqOf (rr_Frequency rule) = Some (f, step) \<and> StartTime p \<le> freqDurationLater loc now step))"
proof -
  obtain f step btw where f: "freqOf (rr_Frequency rule) = Some (f, step)"
    and b: "newRRule f s (rr_UntilTime rule) = Ret btw"
    and r: "recurringPeriods btw now (timeSub e s) (freqDurationLater loc now step) = Ret (active, upcoming)"
    using recurring_Ret [OF assms(3,2)] by blast
  have range: "t \<in> set (btw a c True) \<Longrightarrow> a \<le> t \<and> t \<le> c" for t a c
    using assms(1) b unfolding betweenInRange_def by blast
  show ?thesis
  proof (intro conjI allI impI)
    fix p
    assume "active = Some p"
    then have "p = \<lparr>StartTime = btw (now + (- timeSub e s + 1)) now True ! 0,
        EndTime = btw (now + (- timeSub e s + 1)) now True ! 0 + timeSub e s\<rparr>"
      and "btw (now + (- timeSub e s + 1)) now True \<noteq> []"
      using r by (auto simp: recurringPeriods_def Let_def split: if_splits)
    with range [OF nth_mem, of 0 "now + (- timeSub e s + 1)" now]
    show "StartTime p \<le> now" "now < EndTime p" "EndTime p = StartTime p + timeSub e s" by auto
  next
    fix p
    assume "upcoming = Some p"
    then have "p = \<lparr>StartTime = btw (now + 1) (freqDurationLater loc now step) True ! 0,
        EndTime = btw (now + 1) (freqDurationLater loc now step) True ! 0 + timeSub e s\<rparr>"
      and "btw (now + 1) (freqDurationLater loc now step) True \<noteq> []"
      using r by (auto simp: recurringPeriods_def Let_def split: if_splits)
    with range [OF nth_mem, of 0 "now + 1" "freqDurationLater loc now step"] f
    show "now < StartTime p" "EndTime p = StartTime p + timeSub e s"
      "\<exists>f step. freqOf (rr_Frequency rule) = Some (f, step) \<and> StartTime p \<le> freqDurationLater loc now step" by auto
  qed
qed

theorem MatchSchedule_recurring_witness:
  "(5::int) \<le> 7 \<and> (7::int) < 9 \<and> 9 = 5 + timeSub 9 5 \<and>
   MatchSchedule onceRule 0 7 5 9 \<lparr>rr_Frequency = ''Daily'', rr_UntilTime = zeroTime\<rparr> =
     Ret (Some \<lparr>StartTime = 5, EndTime = 9\<rparr>, None)"
proof -
  have m: "MatchSchedule onceRule 0 7 5 9 \<lparr>rr_Frequency = ''Daily'', rr_UntilTime = zeroTime\<rparr> =
     Ret (Some \<lparr>StartTime = 5, EndTime = 9\<rparr>, None)"
    by (simp add: MatchSchedule_def calculateActiveAndUpcomingRecurringPeriods_def freqOf_def
        freqDurationLater_days timeSub_def minDuration_def maxDuration_def onceRule_def recurringPeriods_def Let_def)
  show ?thesis
    using MatchSchedule_recurring [OF onceRule_ok(1) _ m] m by simp
qed

text \<open>
  The branch that reports "[bug] unexpted number of active overrides" is dead for daily and weekly overrides: given a library whose occurrences keep to
  the interval and to the rule's spacing, a daily or weekly override that is not longer than its period is matched without an error.
\<close>

theorem MatchSchedule_no_bug_branch:
  assumes "betweenInRange newRRule" and "betweenSpaced newRRule"
    and "freqOf (rr_Frequency rule) = Some (f, step)" and "f = DAILY \<or> f = WEEKLY"
    and "newRRule f s (rr_UntilTime rule) = Ret btw" and "timeSub e s \<le> spacing f"
  shows "\<exists>active upcoming. MatchSchedule newRRule loc now s e rule = Ret (active, upcoming)"
proof -
  let ?d = "timeSub e s"
  have "length (btw (now + (- ?d + 1)) now True) \<le> 1"
  proof (rule spaced_singleton)
    show "sorted_wrt (\<lambda>t t'. t + spacing f \<le> t') (btw (now + (- ?d + 1)) now True)"
      using assms(2,5) unfolding betweenSpaced_def by blast
    show "\<forall>t \<in> set (btw (now + (- ?d + 1)) now True). now + (- ?d + 1) \<le> t \<and> t \<le> now"
      using assms(1,5) unfolding betweenInRange_def by blast
  qed (use assms(6) in simp)
  moreover have "freqDurationLater loc now step = now + spacing f" using freqOf_spacing [OF assms(3,4)] .
  ultimately show ?thesis
    using assms(3,5,6) timeSub_step [OF assms(4), of now]
    by (simp add: MatchSchedule_def calculateActiveAndUpcomingRecurringPeriods_def recurringPeriods_def Let_def)
qed

theorem MatchSchedule_no_bug_branch_witness:
  "\<exists>active upcoming. MatchSchedule onceRule 0 7 5 9 \<lparr>rr_Frequency = ''Weekly'', rr_UntilTime = zeroTime\<rparr> =
     Ret (active, upcoming)"
  by (rule MatchSchedule_no_bug_branch [OF onceRule_ok, where f = WEEKLY and step = "(7, 0, 0)"
      and btw = "\<lambda>a b inc. if a \<le> 5 \<and> 5 \<le> b then [5] else []"])
    (simp_all add: freqOf_def onceRule_def timeSub_def spacing_def maxDuration_def minDuration_def)

end
