(* ===== verification/HRA_Controller.thy ===== *)
theory HRA_Controller
  imports Autoscaling Schedule
begin

section \<open>The horizontal runner autoscaler's controller\<close>

text \<open>
  Model of \<open>src/controllers/horizontalrunnerautoscaler_controller.go\<close>: one reconciliation of a \<open>HorizontalRunnerAutoscaler\<close>. Reads of the Kubernetes API are the
  functions of a record \<open>HraReads\<close>; writes are logged calls answered by the API parameter. The two readings of the clock are \<open>now\<close> and
  \<open>now'\<close>, and \<open>showTime\<close> is the layout of a time in the status summary.
\<close>

record HraReads =
  k_GetHRA :: "string \<Rightarrow> string \<Rightarrow> HorizontalRunnerAutoscaler go"
  k_GetRD :: "string \<Rightarrow> string \<Rightarrow> RunnerDeployment go"
  k_GetRS :: "string \<Rightarrow> string \<Rightarrow> RunnerSet go"
  k_LabelSelectorAsSelector :: "LabelSelector option \<Rightarrow> (strmap \<Rightarrow> bool) go"
  k_ListRunners :: "string \<Rightarrow> (strmap \<Rightarrow> bool) \<Rightarrow> Runner list go"
  k_ListPods :: "string \<Rightarrow> (strmap \<Rightarrow> bool) \<Rightarrow> Pod list go"

datatype hraCall =
    PatchRunnerDeployment RunnerDeployment
  | PatchRunnerSet RunnerSet
  | PatchHRAStatus HorizontalRunnerAutoscaler
  | RecordEvent string

record HraEnv =
  he_GitHub :: GitHub
  he_Reads :: HraReads
  he_NewRRule :: rrule
  he_Loc :: duration
  he_ShowTime :: "time \<Rightarrow> string"
  he_DefaultScaleDownDelay :: duration

definition defaultReplicas :: int where "defaultReplicas = 1"

subsection \<open>Scheduled overrides\<close>

record Override =
  ov_ScheduledOverride :: ScheduledOverride
  ov_Period :: Period

type_synonym overrides = "int option \<times> Override option \<times> Override option"

definition addActive :: "ScheduledOverride \<Rightarrow> Period option \<Rightarrow> int option \<times> Override option \<Rightarrow> int option \<times> Override option" where
  "addActive so a = (\<lambda>(minReplicas, active).
     (case a of
        Some p \<Rightarrow>
          if active = None then
            (if so_MinReplicas so \<noteq> None then so_MinReplicas so else minReplicas,
             Some \<lparr>ov_ScheduledOverride = so, ov_Period = p\<rparr>)
          else (minReplicas, active)
      | None \<Rightarrow> (minReplicas, active)))"

definition addUpcoming :: "ScheduledOverride \<Rightarrow> Period option \<Rightarrow> Override option \<Rightarrow> Override option" where
  "addUpcoming so u upcoming =
     (case u of
        Some p \<Rightarrow>
          if (case upcoming of None \<Rightarrow> True | Some b \<Rightarrow> StartTime p < StartTime (ov_Period b))
          then Some \<lparr>ov_ScheduledOverride = so, ov_Period = p\<rparr> else upcoming
      | None \<Rightarrow> upcoming)"

fun matchOverrides :: "rrule \<Rightarrow> duration \<Rightarrow> time \<Rightarrow> ScheduledOverride list \<Rightarrow> overrides \<Rightarrow> overrides go" where
  "matchOverrides newRRule loc now [] st = Ret st"
| "matchOverrides newRRule loc now (so # sos) (minReplicas, active, upcoming) =
     go_bind (MatchSchedule newRRule loc now (so_StartTime so) (so_EndTime so) (so_RecurrenceRule so))
       (\<lambda>(a, u). (let (minReplicas', active') = addActive so a (minReplicas, active)
                  in matchOverrides newRRule loc now sos (minReplicas', active', addUpcoming so u upcoming)))"

definition matchScheduledOverrides :: "rrule \<Rightarrow> duration \<Rightarrow> time \<Rightarrow> HorizontalRunnerAutoscaler \<Rightarrow> overrides go" where
  "matchScheduledOverrides newRRule loc now hra =
     matchOverrides newRRule loc now (hs_ScheduledOverrides (hra_Spec hra)) (None, None, None)"

definition minReplicasOf :: "HorizontalRunnerAutoscaler \<Rightarrow> int" where
  "minReplicasOf hra =
     (case hs_MinReplicas (hra_Spec hra) of Some m \<Rightarrow> if m \<ge> 0 then m else defaultReplicas | None \<Rightarrow> defaultReplicas)"

definition getMinReplicas ::
  "rrule \<Rightarrow> duration \<Rightarrow> time \<Rightarrow> HorizontalRunnerAutoscaler \<Rightarrow> (int \<times> Override option \<times> Override option) go" where
  "getMinReplicas newRRule loc now hra =
     go_bind (matchScheduledOverrides newRRule loc now hra)
       (\<lambda>(m, active, upcoming). Ret (case m of Some v \<Rightarrow> v | None \<Rightarrow> minReplicasOf hra, active, upcoming))"

subsection \<open>Desired replicas\<close>

definition reservedReplicas :: "time \<Rightarrow> CapacityReservation list \<Rightarrow> int" where
  "reservedReplicas now rs = fold (\<lambda>r acc. if cr_ExpirationTime r > now then acc + cr_Replicas r else acc) rs 0"

definition clampReplicas :: "int \<Rightarrow> int option \<Rightarrow> int \<Rightarrow> int" where
  "clampReplicas minReplicas maxReplicas n =
     (if n < minReplicas then minReplicas
      else case maxReplicas of Some m \<Rightarrow> if n > m then m else n | None \<Rightarrow> n)"

definition scaleDownDelay :: "duration \<Rightarrow> HorizontalRunnerAutoscaler \<Rightarrow> duration" where
  "scaleDownDelay defaultDelay hra =
     (case hs_ScaleDownDelaySecondsAfterScaleUp (hra_Spec hra) of Some s \<Rightarrow> s * Second | None \<Rightarrow> defaultDelay)"

definition delayScaleDown :: "duration \<Rightarrow> time \<Rightarrow> HorizontalRunnerAutoscaler \<Rightarrow> int \<Rightarrow> int" where
  "delayScaleDown defaultDelay now hra n =
     (case hst_DesiredReplicas (hra_Status hra) of
        None \<Rightarrow> n
      | Some d \<Rightarrow>
          if d < n then n
          else case hst_LastSuccessfulScaleOutTime (hra_Status hra) of
              None \<Rightarrow> n
            | Some t \<Rightarrow> if t + scaleDownDelay defaultDelay hra > now then d else n)"

definition computeReplicasWithCache ::
  "GitHub \<Rightarrow> duration \<Rightarrow> time \<Rightarrow> scaleTarget \<Rightarrow> HorizontalRunnerAutoscaler \<Rightarrow> int \<Rightarrow> int go" where
  "computeReplicasWithCache gh defaultDelay now st hra minReplicas =
     go_bind (suggestDesiredReplicas gh st hra)
       (\<lambda>v. (let suggestedReplicas = (case v of None \<Rightarrow> minReplicas | Some s \<Rightarrow> s);
                 reserved = reservedReplicas now (hs_CapacityReservations (hra_Spec hra));
                 n = clampReplicas minReplicas (hs_MaxReplicas (hra_Spec hra)) (suggestedReplicas + reserved)
             in Ret (delayScaleDown defaultDelay now hra n)))"

subsection \<open>Reconciliation\<close>

definition overridesSummary ::
  "(time \<Rightarrow> string) \<Rightarrow> HorizontalRunnerAutoscaler \<Rightarrow> Override option \<Rightarrow> Override option \<Rightarrow> string option" where
  "overridesSummary showTime hra active upcoming =
     (let entry = (\<lambda>m t. ''min='' @ Sprintd m @ '' time='' @ showTime t);
          s1 = (case (active, upcoming) of
                  (Some a, None) \<Rightarrow> Some (entry (minReplicasOf hra) (EndTime (ov_Period a)))
                | (Some a, Some u) \<Rightarrow>
                    if EndTime (ov_Period a) < StartTime (ov_Period u) then Some (entry (minReplicasOf hra) (EndTime (ov_Period a)))
                    else None
                | _ \<Rightarrow> None);
          useUpcoming = (case (active, upcoming) of
                  (None, Some u) \<Rightarrow> True
                | (Some a, Some u) \<Rightarrow> EndTime (ov_Period a) > StartTime (ov_Period u)
                | _ \<Rightarrow> False)
      in if useUpcoming then
           (case so_MinReplicas (ov_ScheduledOverride (the upcoming)) of
              Some m \<Rightarrow> Some (entry m (StartTime (ov_Period (the upcoming))))
            | None \<Rightarrow> s1)
         else s1)"

definition updatedStatus ::
  "(time \<Rightarrow> string) \<Rightarrow> time \<Rightarrow> HorizontalRunnerAutoscaler \<Rightarrow> int \<Rightarrow> Override option \<Rightarrow> Override option \<Rightarrow>
    HorizontalRunnerAutoscalerStatus" where
  "updatedStatus showTime now' hra n active upcoming =
     (let s = hra_Status hra;
          desired = hst_DesiredReplicas s;
          s1 = (if desired = None \<or> the desired \<noteq> n then
                  s\<lparr>hst_LastSuccessfulScaleOutTime :=
                      (if (desired = None \<and> n > 1) \<or> (desired \<noteq> None \<and> n > the desired) then Some now'
                       else hst_LastSuccessfulScaleOutTime s),
                    hst_DesiredReplicas := Some n\<rparr>
                else s)
      in s1\<lparr>hst_ScheduledOverridesSummary := overridesSummary showTime hra active upcoming\<rparr>)"

text \<open>The latest effective time among the capacity reservations.\<close>

definition latestEffectiveTime :: "CapacityReservation list \<Rightarrow> time option" where
  "latestEffectiveTime rs =
     fold (\<lambda>r acc. if (case acc of None \<Rightarrow> True | Some t \<Rightarrow> t < cr_EffectiveTime r) then Some (cr_EffectiveTime r) else acc) rs None"

definition ephemeralOf :: "RunnerConfig \<Rightarrow> bool" where
  "ephemeralOf c = (case rc_Ephemeral c of None \<Rightarrow> True | Some b \<Rightarrow> b)"

definition updateRunnerDeployment ::
  "hraCall api \<Rightarrow> HorizontalRunnerAutoscaler \<Rightarrow> RunnerDeployment \<Rightarrow> int \<Rightarrow> (hraCall, unit) eff" where
  "updateRunnerDeployment api hra rd newDesiredReplicas =
     (let currentDesiredReplicas = getIntOrDefault (rds_Replicas (rd_Spec rd)) defaultReplicas;
          ephemeral = ephemeralOf (rs_Config (rt_Spec (rds_Template (rd_Spec rd))));
          effectiveTime = latestEffectiveTime (hs_CapacityReservations (hra_Spec hra));
          patch = (\<lambda>spec. ecall api (PatchRunnerDeployment (rd\<lparr>rd_Spec := spec\<rparr>))
             (\<lambda>e. case e of None \<Rightarrow> eret () | Some err \<Rightarrow> eerr (Wrapped ''patching runnerdeployment'' err)))
      in if currentDesiredReplicas \<noteq> newDesiredReplicas then
           patch ((rd_Spec rd)\<lparr>rds_Replicas := Some newDesiredReplicas,
             rds_EffectiveTime := (if ephemeral \<and> effectiveTime \<noteq> None then effectiveTime else rds_EffectiveTime (rd_Spec rd))\<rparr>)
         else if ephemeral \<and> effectiveTime \<noteq> None then patch ((rd_Spec rd)\<lparr>rds_EffectiveTime := effectiveTime\<rparr>)
         else eret ())"

definition updateRunnerSet ::
  "hraCall api \<Rightarrow> HorizontalRunnerAutoscaler \<Rightarrow> RunnerSet \<Rightarrow> int \<Rightarrow> (hraCall, unit) eff" where
  "updateRunnerSet api hra rs newDesiredReplicas =
     (let currentDesiredReplicas = getIntOrDefault (rss_Replicas (rset_Spec rs)) defaultReplicas;
          ephemeral = ephemeralOf (rss_Config (rset_Spec rs));
          effectiveTime = latestEffectiveTime (hs_CapacityReservations (hra_Spec hra));
          patch = (\<lambda>spec. ecall api (PatchRunnerSet (rs\<lparr>rset_Spec := spec\<rparr>))
             (\<lambda>e. case e of None \<Rightarrow> eret () | Some err \<Rightarrow> eerr (Wrapped ''patching runnerset'' err)))
      in if currentDesiredReplicas \<noteq> newDesiredReplicas then
           patch ((rset_Spec rs)\<lparr>rss_Replicas := Some (int32 newDesiredReplicas),
             rss_EffectiveTime := (if ephemeral \<and> effectiveTime \<noteq> None then effectiveTime else rss_EffectiveTime (rset_Spec rs))\<rparr>)
         else if ephemeral \<and> effectiveTime \<noteq> None then patch ((rset_Spec rs)\<lparr>rss_EffectiveTime := effectiveTime\<rparr>)
         else eret ())"

text \<open>The names of the objects that a selector finds; not finding the kind at all is an empty list.\<close>

definition namesOf :: "('a \<Rightarrow> ObjectMeta) \<Rightarrow> 'a list go \<Rightarrow> string list go" where
  "namesOf meta m = (case m of
      Err (Kube NotFound) \<Rightarrow> Ret []
    | Err e \<Rightarrow> Err e
    | Panic s \<Rightarrow> Panic s
    | Hang \<Rightarrow> Hang
    | Ret xs \<Rightarrow> Ret (map (\<lambda>x. om_Name (meta x)) xs))"

definition scaleTargetFromRD :: "HraReads \<Rightarrow> RunnerDeployment \<Rightarrow> scaleTarget" where
  "scaleTargetFromRD k rd =
     (let c = rs_Config (rt_Spec (rds_Template (rd_Spec rd)))
      in \<lparr>st_st = om_Name (rd_Meta rd), st_kind = ''runnerdeployment'', st_enterprise = rc_Enterprise c, st_repo = rc_Repository c,
          st_org = rc_Organization c, st_replicas = rds_Replicas (rd_Spec rd), st_labels = rc_Labels c,
          st_getRunnerMap = go_bind (k_LabelSelectorAsSelector k (Some (getSelector rd)))
            (\<lambda>selector. namesOf r_Meta (k_ListRunners k (om_Namespace (rd_Meta rd)) selector))\<rparr>)"

definition scaleTargetFromRS :: "HraReads \<Rightarrow> RunnerSet \<Rightarrow> scaleTarget" where
  "scaleTargetFromRS k rs =
     (let c = rss_Config (rset_Spec rs)
      in \<lparr>st_st = om_Name (rset_Meta rs), st_kind = ''runnerset'', st_enterprise = rc_Enterprise c, st_repo = rc_Repository c,
          st_org = rc_Organization c, st_replicas = rss_Replicas (rset_Spec rs), st_labels = rc_Labels c,
          st_getRunnerMap = go_bind (k_LabelSelectorAsSelector k (rss_Selector (rset_Spec rs)))
            (\<lambda>selector. namesOf pod_Meta (k_ListPods k (om_Namespace (rset_Meta rs)) selector))\<rparr>)"

definition reconcileHRA ::
  "HraEnv \<Rightarrow> hraCall api \<Rightarrow> time \<Rightarrow> time \<Rightarrow> HorizontalRunnerAutoscaler \<Rightarrow> scaleTarget \<Rightarrow>
    (int \<Rightarrow> (hraCall, unit) eff) \<Rightarrow> (hraCall, unit) eff" where
  "reconcileHRA env api now now' hra st updatedDesiredReplicas =
     ebind (elift (getMinReplicas (he_NewRRule env) (he_Loc env) now hra))
       (\<lambda>(minReplicas, active, upcoming).
         ebind (case computeReplicasWithCache (he_GitHub env) (he_DefaultScaleDownDelay env) now st hra minReplicas of
                  Err e \<Rightarrow> elog (RecordEvent ''RunnerAutoscalingFailure'') (eerr e)
                | r \<Rightarrow> elift r)
           (\<lambda>newDesiredReplicas.
             ebind (updatedDesiredReplicas newDesiredReplicas)
               (\<lambda>_. (let status = updatedStatus (he_ShowTime env) now' hra newDesiredReplicas active upcoming
                     in if hra_Status hra \<noteq> status then
                          ecall api (PatchHRAStatus (hra\<lparr>hra_Status := status\<rparr>))
                            (\<lambda>e. case e of None \<Rightarrow> eret ()
                               | Some err \<Rightarrow> eerr (Wrapped ''patching horizontalrunnerautoscaler status'' err))
                        else eret ()))))"

text \<open>A failed read that says "not found" ends the reconciliation without an error.\<close>

definition ifFound :: "'a go \<Rightarrow> ('a \<Rightarrow> ('c, unit) eff) \<Rightarrow> ('c, unit) eff" where
  "ifFound m f = (case m of
      Ret x \<Rightarrow> f x
    | Err e \<Rightarrow> (case IgnoreNotFound e of None \<Rightarrow> eret () | Some e' \<Rightarrow> eerr e')
    | Panic s \<Rightarrow> epanic s
    | Hang \<Rightarrow> elift Hang)"

definition Reconcile_HRA :: "HraEnv \<Rightarrow> hraCall api \<Rightarrow> time \<Rightarrow> time \<Rightarrow> string \<Rightarrow> string \<Rightarrow> (hraCall, unit) eff" where
  "Reconcile_HRA env api now now' namespace name =
     ifFound (k_GetHRA (he_Reads env) namespace name)
       (\<lambda>hra.
         if \<not> IsZero (om_DeletionTimestamp (hra_Meta hra)) then eret ()
         else
           (let kind = str_Kind (hs_ScaleTargetRef (hra_Spec hra)); target = str_Name (hs_ScaleTargetRef (hra_Spec hra))
            in if kind = [] \<or> kind = ''RunnerDeployment'' then
                 ifFound (k_GetRD (he_Reads env) namespace target)
                   (\<lambda>rd. if \<not> IsZero (om_DeletionTimestamp (rd_Meta rd)) then eret ()
                         else reconcileHRA env api now now' hra (scaleTargetFromRD (he_Reads env) rd) (updateRunnerDeployment api hra rd))
               else if kind = ''RunnerSet'' then
                 ifFound (k_GetRS (he_Reads env) namespace target)
                   (\<lambda>rs. if \<not> IsZero (om_DeletionTimestamp (rset_Meta rs)) then eret ()
                         else reconcileHRA env api now now' hra (scaleTargetFromRS (he_Reads env) rs) (updateRunnerSet api hra rs))
               else eret ()))"

subsection \<open>How many replicas\<close>

lemma reservedReplicas_sum:
  "reservedReplicas now rs = (\<Sum>r \<leftarrow> filter (\<lambda>r. now < cr_ExpirationTime r) rs. cr_Replicas r)"
proof -
  have "fold (\<lambda>r acc. if cr_ExpirationTime r > now then acc + cr_Replicas r else acc) rs k =
      k + (\<Sum>r \<leftarrow> filter (\<lambda>r. now < cr_ExpirationTime r) rs. cr_Replicas r)" for k
    by (induction rs arbitrary: k) simp_all
  then show ?thesis by (simp add: reservedReplicas_def)
qed

lemma clampReplicas_max_min: "m \<le> M \<Longrightarrow> clampReplicas m (Some M) n = max m (min M n)"
  by (auto simp: clampReplicas_def)

lemma computeReplicas_value:
  fixes now :: time
  assumes "suggestDesiredReplicas gh st hra = Ret v" and "hs_MaxReplicas (hra_Spec hra) = Some M" and "minReplicas \<le> M"
  defines "base \<equiv> (case v of None \<Rightarrow> minReplicas | Some s \<Rightarrow> s)"
    and "reserved \<equiv> (\<Sum>r \<leftarrow> filter (\<lambda>r. now < cr_ExpirationTime r) (hs_CapacityReservations (hra_Spec hra)). cr_Replicas r)"
  defines "want \<equiv> max minReplicas (min M (base + reserved))"
  shows "computeReplicasWithCache gh defaultDelay now st hra minReplicas =
    Ret (case (hst_DesiredReplicas (hra_Status hra), hst_LastSuccessfulScaleOutTime (hra_Status hra)) of
          (Some d, Some t) \<Rightarrow> if now < t + scaleDownDelay defaultDelay hra then max d want else want
        | _ \<Rightarrow> want)"
  using assms(1-3)
  by (auto simp: computeReplicasWithCache_def Let_def reservedReplicas_sum clampReplicas_max_min delayScaleDown_def
      base_def reserved_def want_def max_def split: option.splits)

text \<open>
  C7. With no more minimum than maximum, the computed number of replicas is the suggestion (the minimum where no metric suggests one) plus the replicas of the
  reservations that have not expired, brought between minimum and maximum; while the scale-down delay since the last scale-out lasts it is never less than the number desired before,
  but scaling up is not delayed.
\<close>

theorem computeReplicas_bounds:
  fixes now :: time
  assumes "suggestDesiredReplicas gh st hra = Ret v" and "hs_MaxReplicas (hra_Spec hra) = Some M" and "minReplicas \<le> M"
  defines "base \<equiv> (case v of None \<Rightarrow> minReplicas | Some s \<Rightarrow> s)"
    and "reserved \<equiv> (\<Sum>r \<leftarrow> filter (\<lambda>r. now < cr_ExpirationTime r) (hs_CapacityReservations (hra_Spec hra)). cr_Replicas r)"
  defines "want \<equiv> max minReplicas (min M (base + reserved))"
  shows "computeReplicasWithCache gh defaultDelay now st hra minReplicas =
    Ret (case (hst_DesiredReplicas (hra_Status hra), hst_LastSuccessfulScaleOutTime (hra_Status hra)) of
          (Some d, Some t) \<Rightarrow> if now < t + scaleDownDelay defaultDelay hra then max d want else want
        | _ \<Rightarrow> want)"
  unfolding want_def base_def reserved_def using assms(1-3) by (rule computeReplicas_value)

definition exampleHRA :: HorizontalRunnerAutoscaler where
  "exampleHRA = \<lparr>hra_Meta = emptyMeta,
     hra_Spec = \<lparr>hs_ScaleTargetRef = \<lparr>str_Kind = [], str_Name = ''rd''\<rparr>, hs_MinReplicas = Some 1, hs_MaxReplicas = Some 5,
       hs_ScaleDownDelaySecondsAfterScaleUp = None, hs_Metrics = [], hs_ScaleUpTriggers = [],
       hs_CapacityReservations = [\<lparr>cr_Name = [], cr_ExpirationTime = 10, cr_Replicas = 2, cr_EffectiveTime = 1\<rparr>,
         \<lparr>cr_Name = [], cr_ExpirationTime = 3, cr_Replicas = 1, cr_EffectiveTime = 2\<rparr>],
       hs_ScheduledOverrides = []\<rparr>,
     hra_Status = \<lparr>hst_ObservedGeneration = 0, hst_DesiredReplicas = Some 4, hst_LastSuccessfulScaleOutTime = Some 0,
       hst_CacheEntries = [], hst_ScheduledOverridesSummary = None\<rparr>\<rparr>"

theorem computeReplicas_bounds_witness:
  "computeReplicasWithCache exampleGitHub 100 5 exampleTarget exampleHRA 1 = Ret 4 \<and>
   computeReplicasWithCache exampleGitHub 1 5 exampleTarget exampleHRA 1 = Ret 3"
  using computeReplicas_bounds [where gh = exampleGitHub and st = exampleTarget and hra = exampleHRA and v = None and M = 5 and minReplicas = 1
      and defaultDelay = 100 and now = 5]
    computeReplicas_bounds [where gh = exampleGitHub and st = exampleTarget and hra = exampleHRA and v = None and M = 5 and minReplicas = 1
      and defaultDelay = 1 and now = 5]
  by (simp add: suggestDesiredReplicas_def exampleHRA_def scaleDownDelay_def)

subsection \<open>Which override applies\<close>

definition activeOf :: "rrule \<Rightarrow> duration \<Rightarrow> time \<Rightarrow> ScheduledOverride \<Rightarrow> Period option" where
  "activeOf newRRule loc now so =
     (case MatchSchedule newRRule loc now (so_StartTime so) (so_EndTime so) (so_RecurrenceRule so) of Ret (a, u) \<Rightarrow> a | _ \<Rightarrow> None)"

definition upcomingOf :: "rrule \<Rightarrow> duration \<Rightarrow> time \<Rightarrow> ScheduledOverride \<Rightarrow> Period option" where
  "upcomingOf newRRule loc now so =
     (case MatchSchedule newRRule loc now (so_StartTime so) (so_EndTime so) (so_RecurrenceRule so) of Ret (a, u) \<Rightarrow> u | _ \<Rightarrow> None)"

definition firstActive :: "rrule \<Rightarrow> duration \<Rightarrow> time \<Rightarrow> ScheduledOverride list \<Rightarrow> Override option" where
  "firstActive newRRule loc now sos =
     map_option (\<lambda>so. \<lparr>ov_ScheduledOverride = so, ov_Period = the (activeOf newRRule loc now so)\<rparr>)
       (List.find (\<lambda>so. activeOf newRRule loc now so \<noteq> None) sos)"

lemma matchOverrides_step:
  assumes "matchOverrides newRRule loc now (so # sos) (m, act, up) = Ret res"
  shows "matchOverrides newRRule loc now sos
    (fst (addActive so (activeOf newRRule loc now so) (m, act)), snd (addActive so (activeOf newRRule loc now so) (m, act)),
     addUpcoming so (upcomingOf newRRule loc now so) up) = Ret res"
  using assms
  by (cases "MatchSchedule newRRule loc now (so_StartTime so) (so_EndTime so) (so_RecurrenceRule so)")
    (auto simp: activeOf_def upcomingOf_def split: prod.splits)

lemma matchOverrides_active:
  assumes "matchOverrides newRRule loc now sos (m, act, up) = Ret (m', act', up')"
  shows "act' = (if act = None then firstActive newRRule loc now sos else act) \<and>
    m' = (if act = None then (case Option.bind (firstActive newRRule loc now sos) (\<lambda>b. so_MinReplicas (ov_ScheduledOverride b)) of
        None \<Rightarrow> m | Some v \<Rightarrow> Some v) else m)"
  using assms
proof (induction sos arbitrary: m act up)
  case (Cons so sos)
  note ih = Cons.IH [OF matchOverrides_step [OF Cons.prems]]
  show ?case
  proof (cases "activeOf newRRule loc now so")
    case None
    then have "addActive so (activeOf newRRule loc now so) (m, act) = (m, act)" by (simp add: addActive_def)
    from ih [unfolded this fst_conv snd_conv] None show ?thesis by (simp add: firstActive_def)
  next
    case (Some p)
    with ih show ?thesis by (cases act; cases "so_MinReplicas so") (simp_all add: addActive_def firstActive_def)
  qed
qed (simp add: firstActive_def)

lemma addUpcoming_least:
  "(\<forall>p. u = Some p \<longrightarrow> (\<exists>b. addUpcoming so u up = Some b \<and> StartTime (ov_Period b) \<le> StartTime p)) \<and>
   (\<forall>b. up = Some b \<longrightarrow> (\<exists>b'. addUpcoming so u up = Some b' \<and> StartTime (ov_Period b') \<le> StartTime (ov_Period b))) \<and>
   (\<forall>b. addUpcoming so u up = Some b \<longrightarrow> up = Some b \<or> (ov_ScheduledOverride b = so \<and> u = Some (ov_Period b)))"
  by (auto simp: addUpcoming_def split: option.splits)

lemma matchOverrides_upcoming:
  assumes "matchOverrides newRRule loc now sos (m, act, up) = Ret (m', act', up')"
  shows "(\<forall>so \<in> set sos. \<forall>p. upcomingOf newRRule loc now so = Some p \<longrightarrow>
        (\<exists>b. up' = Some b \<and> StartTime (ov_Period b) \<le> StartTime p)) \<and>
    (\<forall>b. up = Some b \<longrightarrow> (\<exists>b'. up' = Some b' \<and> StartTime (ov_Period b') \<le> StartTime (ov_Period b))) \<and>
    (\<forall>b. up' = Some b \<longrightarrow> up = Some b \<or>
        (ov_ScheduledOverride b \<in> set sos \<and> upcomingOf newRRule loc now (ov_ScheduledOverride b) = Some (ov_Period b)))"
  using assms
proof (induction sos arbitrary: m act up)
  case (Cons so sos)
  let ?u = "upcomingOf newRRule loc now so"
  note ih = Cons.IH [OF matchOverrides_step [OF Cons.prems]]
  note ad = addUpcoming_least [of ?u so up]
  show ?case
  proof (intro conjI ballI allI impI)
    fix so' p
    assume so': "so' \<in> set (so # sos)" and p: "upcomingOf newRRule loc now so' = Some p"
    show "\<exists>b. up' = Some b \<and> StartTime (ov_Period b) \<le> StartTime p"
    proof (cases "so' \<in> set sos")
      case True
      with ih p show ?thesis by blast
    next
      case False
      with so' p ad obtain b where b: "addUpcoming so ?u up = Some b" "StartTime (ov_Period b) \<le> StartTime p" by auto
      with ih obtain b' where "up' = Some b'" "StartTime (ov_Period b') \<le> StartTime (ov_Period b)" by blast
      with b(2) show ?thesis by auto
    qed
  next
    fix b
    assume "up = Some b"
    with ad obtain b1 where b1: "addUpcoming so ?u up = Some b1" "StartTime (ov_Period b1) \<le> StartTime (ov_Period b)" by blast
    with ih obtain b' where "up' = Some b'" "StartTime (ov_Period b') \<le> StartTime (ov_Period b1)" by blast
    with b1(2) show "\<exists>b'. up' = Some b' \<and> StartTime (ov_Period b') \<le> StartTime (ov_Period b)" by auto
  next
    fix b
    assume "up' = Some b"
    with ih have "addUpcoming so ?u up = Some b \<or>
        ov_ScheduledOverride b \<in> set sos \<and> upcomingOf newRRule loc now (ov_ScheduledOverride b) = Some (ov_Period b)" by blast
    with ad show "up = Some b \<or> ov_ScheduledOverride b \<in> set (so # sos) \<and>
        upcomingOf newRRule loc now (ov_ScheduledOverride b) = Some (ov_Period b)" by auto
  qed
qed simp

text \<open>
  Of the scheduled overrides that are active now the first in the list applies, and only its minimum replaces the autoscaler's own; the upcoming override reported is one that starts earliest.
\<close>

theorem getMinReplicas_first_active:
  assumes "getMinReplicas newRRule loc now hra = Ret (minReplicas, active, upcoming)"
  defines "sos \<equiv> hs_ScheduledOverrides (hra_Spec hra)"
  shows "active = firstActive newRRule loc now sos \<and>
    minReplicas = (case Option.bind active (\<lambda>b. so_MinReplicas (ov_ScheduledOverride b)) of
        Some m \<Rightarrow> m | None \<Rightarrow> minReplicasOf hra) \<and>
    (\<forall>so p. so \<in> set sos \<and> upcomingOf newRRule loc now so = Some p \<longrightarrow>
        (\<exists>b. upcoming = Some b \<and> StartTime (ov_Period b) \<le> StartTime p)) \<and>
    (\<forall>b. upcoming = Some b \<longrightarrow> ov_ScheduledOverride b \<in> set sos \<and>
        upcomingOf newRRule loc now (ov_ScheduledOverride b) = Some (ov_Period b))"
proof -
  from assms(1) obtain m where m: "matchOverrides newRRule loc now sos (None, None, None) = Ret (m, active, upcoming)"
    and r: "minReplicas = (case m of Some v \<Rightarrow> v | None \<Rightarrow> minReplicasOf hra)"
    by (auto simp: getMinReplicas_def matchScheduledOverrides_def sos_def go_bind_Ret_iff)
  show ?thesis
    using matchOverrides_active [OF m] matchOverrides_upcoming [OF m] r by (auto split: option.splits)
qed

definition exampleOverride :: "time \<Rightarrow> time \<Rightarrow> int option \<Rightarrow> ScheduledOverride" where
  "exampleOverride s e m = \<lparr>so_StartTime = s, so_EndTime = e, so_MinReplicas = m,
     so_RecurrenceRule = \<lparr>rr_Frequency = [], rr_UntilTime = zeroTime\<rparr>\<rparr>"

definition exampleOverrides :: HorizontalRunnerAutoscaler where
  "exampleOverrides = exampleHRA\<lparr>hra_Spec := (hra_Spec exampleHRA)\<lparr>hs_ScheduledOverrides :=
     [exampleOverride 8 9 (Some 7), exampleOverride 1 9 (Some 3), exampleOverride 2 9 (Some 4), exampleOverride 6 9 None]\<rparr>\<rparr>"

theorem getMinReplicas_first_active_witness:
  "\<exists>a u. getMinReplicas onceRule 0 5 exampleOverrides = Ret (3, Some a, Some u) \<and>
     ov_ScheduledOverride a = exampleOverride 1 9 (Some 3) \<and> StartTime (ov_Period u) \<le> 6"
proof -
  let ?a = "\<lparr>ov_ScheduledOverride = exampleOverride 1 9 (Some 3), ov_Period = \<lparr>StartTime = 1, EndTime = 9\<rparr>\<rparr>"
  let ?u = "\<lparr>ov_ScheduledOverride = exampleOverride 6 9 None, ov_Period = \<lparr>StartTime = 6, EndTime = 9\<rparr>\<rparr>"
  have g: "getMinReplicas onceRule 0 5 exampleOverrides = Ret (3, Some ?a, Some ?u)"
    by (simp add: getMinReplicas_def matchScheduledOverrides_def exampleOverrides_def exampleHRA_def exampleOverride_def
        MatchSchedule_def calculateActiveAndUpcomingRecurringPeriods_def freqOf_def addActive_def addUpcoming_def)
  from getMinReplicas_first_active [OF g]
  have "upcomingOf onceRule 0 5 (exampleOverride 6 9 None) = Some \<lparr>StartTime = 6, EndTime = 9\<rparr>" by simp
  with g show ?thesis by simp
qed

subsection \<open>What a reconciliation writes\<close>

text \<open>The scale target and the autoscaler after a sequence of writes that the API server accepted.\<close>

definition targetAfter :: "(hraCall \<Rightarrow> 't option) \<Rightarrow> hraCall list \<Rightarrow> 't \<Rightarrow> 't" where
  "targetAfter target cs t = fold (\<lambda>c t. case target c of Some t' \<Rightarrow> t' | None \<Rightarrow> t) cs t"

fun statusPatch :: "hraCall \<Rightarrow> HorizontalRunnerAutoscaler option" where
  "statusPatch (PatchHRAStatus h) = Some h" | "statusPatch _ = None"

fun deploymentPatch :: "hraCall \<Rightarrow> RunnerDeployment option" where
  "deploymentPatch (PatchRunnerDeployment rd) = Some rd" | "deploymentPatch _ = None"

fun runnerSetPatch :: "hraCall \<Rightarrow> RunnerSet option" where
  "runnerSetPatch (PatchRunnerSet rs) = Some rs" | "runnerSetPatch _ = None"

text \<open>
  The contract of the callback \<open>updatedDesiredReplicas\<close> that \<open>reconcile\<close> is given: it makes the target have the number of replicas with at most one write, or fails when
  that write fails.
\<close>

locale scale_target_updater =
  fixes update :: "hraCall api \<Rightarrow> HorizontalRunnerAutoscaler \<Rightarrow> 't \<Rightarrow> int \<Rightarrow> (hraCall, unit) eff"
    and current :: "'t \<Rightarrow> int"
    and target :: "hraCall \<Rightarrow> 't option"
    and inRange :: "int \<Rightarrow> bool"
  assumes update_cases: "inRange n \<Longrightarrow>
      (update api hra t n l = (l, Ret ()) \<and> current t = n) \<or>
      (\<exists>c t' r. target c = Some t' \<and> current t' = n \<and> update api hra t n l = (l @ [c], r) \<and> (r = Ret () \<longleftrightarrow> api l c = None))"
    and target_status: "target c = None \<or> statusPatch c = None"
    and target_patch: "target (PatchHRAStatus h) = None"
begin

lemma reconcile_success:
  assumes "getMinReplicas (he_NewRRule env) (he_Loc env) now hra = Ret (minReplicas, active, upcoming)"
    and "computeReplicasWithCache (he_GitHub env) (he_DefaultScaleDownDelay env) now st hra minReplicas = Ret n"
    and "inRange n" and "reconcileHRA env api now now' hra st (update api hra t) [] = (cs, Ret ())"
  shows "current (targetAfter target cs t) = n \<and>
    hra_Status (targetAfter statusPatch cs hra) = updatedStatus (he_ShowTime env) now' hra n active upcoming"
proof -
  let ?status = "updatedStatus (he_ShowTime env) now' hra n active upcoming"
  have run: "ebind (update api hra t n) (\<lambda>_. if hra_Status hra \<noteq> ?status
      then ecall api (PatchHRAStatus (hra\<lparr>hra_Status := ?status\<rparr>))
        (\<lambda>e. case e of None \<Rightarrow> eret () | Some err \<Rightarrow> eerr (Wrapped ''patching horizontalrunnerautoscaler status'' err))
      else eret ()) [] = (cs, Ret ())"
    using assms(4) by (simp add: reconcileHRA_def assms(1,2) Let_def elift_def ebind_def)
  from update_cases [OF assms(3), of api hra t "[]"]
  consider (none) "update api hra t n [] = ([], Ret ())" "current t = n"
    | (patch) c t' r where "target c = Some t'" "current t' = n" "update api hra t n [] = ([c], r)" by auto
  then show ?thesis
  proof cases
    case none
    with run show ?thesis by (auto simp: go_simps targetAfter_def Let_def target_patch split: if_splits option.splits)
  next
    case patch
    have c: "statusPatch c = None" using target_status [of c] patch(1) by auto
    have r: "r = Ret ()" using run patch(3) by (cases r) (auto simp: go_simps)
    show ?thesis using run patch(1,2) patch(3) [unfolded r] c
      by (auto simp: go_simps targetAfter_def Let_def target_patch split: if_splits option.splits)
  qed
qed

end

definition deploymentReplicas :: "RunnerDeployment \<Rightarrow> int" where
  "deploymentReplicas rd = getIntOrDefault (rds_Replicas (rd_Spec rd)) defaultReplicas"

definition runnerSetReplicas :: "RunnerSet \<Rightarrow> int" where
  "runnerSetReplicas rs = getIntOrDefault (rss_Replicas (rset_Spec rs)) defaultReplicas"

interpretation rd: scale_target_updater updateRunnerDeployment deploymentReplicas deploymentPatch "\<lambda>n. True"
proof unfold_locales
  fix n api hra t l
  show "(updateRunnerDeployment api hra t n l = (l, Ret ()) \<and> deploymentReplicas t = n) \<or>
      (\<exists>c t' r. deploymentPatch c = Some t' \<and> deploymentReplicas t' = n \<and> updateRunnerDeployment api hra t n l = (l @ [c], r) \<and>
        (r = Ret () \<longleftrightarrow> api l c = None))"
    by (auto simp: updateRunnerDeployment_def Let_def go_simps deploymentReplicas_def getIntOrDefault_def split: option.splits)
next
  show "deploymentPatch c = None \<or> statusPatch c = None" for c by (cases c) simp_all
qed simp

interpretation rset: scale_target_updater updateRunnerSet runnerSetReplicas runnerSetPatch "\<lambda>n. - (2 ^ 31) \<le> n \<and> n < 2 ^ 31"
proof unfold_locales
  fix n :: int and api hra t l
  assume "- (2 ^ 31) \<le> n \<and> n < 2 ^ 31"
  then have "int32 n = n" by (simp add: int32_id)
  then show "(updateRunnerSet api hra t n l = (l, Ret ()) \<and> runnerSetReplicas t = n) \<or>
      (\<exists>c t' r. runnerSetPatch c = Some t' \<and> runnerSetReplicas t' = n \<and> updateRunnerSet api hra t n l = (l @ [c], r) \<and>
        (r = Ret () \<longleftrightarrow> api l c = None))"
    by (auto simp: updateRunnerSet_def Let_def go_simps runnerSetReplicas_def getIntOrDefault_def split: option.splits)
next
  show "runnerSetPatch c = None \<or> statusPatch c = None" for c by (cases c) simp_all
qed simp

text \<open>Whether going to \<open>n\<close> replicas is a scale-out, from the number in the status.\<close>

definition scaledOut :: "HorizontalRunnerAutoscalerStatus \<Rightarrow> int \<Rightarrow> bool" where
  "scaledOut s n = (case hst_DesiredReplicas s of None \<Rightarrow> n > 1 | Some d \<Rightarrow> n > d)"

lemma updatedStatus_fields:
  "hst_DesiredReplicas (updatedStatus showTime now' hra n a u) = Some n"
  "hst_LastSuccessfulScaleOutTime (updatedStatus showTime now' hra n a u) =
    (if scaledOut (hra_Status hra) n then Some now' else hst_LastSuccessfulScaleOutTime (hra_Status hra))"
  by (auto simp: updatedStatus_def scaledOut_def Let_def split: option.splits)

lemma reconcileHRA_Ret:
  assumes "reconcileHRA env api now now' hra st upd l = (cs, Ret ())"
  obtains minReplicas active upcoming n
    where "getMinReplicas (he_NewRRule env) (he_Loc env) now hra = Ret (minReplicas, active, upcoming)"
      "computeReplicasWithCache (he_GitHub env) (he_DefaultScaleDownDelay env) now st hra minReplicas = Ret n"
proof (cases "getMinReplicas (he_NewRRule env) (he_Loc env) now hra")
  case (Ret x)
  obtain m a u where x: "x = (m, a, u)" by (cases x) auto
  show ?thesis
  proof (cases "computeReplicasWithCache (he_GitHub env) (he_DefaultScaleDownDelay env) now st hra m")
    case (Ret n)
    with \<open>getMinReplicas _ _ _ _ = Ret x\<close> x that show ?thesis by blast
  qed (use assms Ret x in \<open>auto simp: reconcileHRA_def go_simps\<close>)
qed (use assms in \<open>auto simp: reconcileHRA_def go_simps\<close>)

lemma Reconcile_HRA_deployment:
  assumes "k_GetHRA (he_Reads env) namespace name = Ret hra" and "IsZero (om_DeletionTimestamp (hra_Meta hra))"
    and "str_Kind (hs_ScaleTargetRef (hra_Spec hra)) \<in> {[], ''RunnerDeployment''}"
    and "k_GetRD (he_Reads env) namespace (str_Name (hs_ScaleTargetRef (hra_Spec hra))) = Ret rd"
    and "IsZero (om_DeletionTimestamp (rd_Meta rd))"
    and "outcome (Reconcile_HRA env api now now' namespace name) = Ret ()"
  defines "cs \<equiv> writes (Reconcile_HRA env api now now' namespace name)"
  shows "\<exists>minReplicas active upcoming n.
    getMinReplicas (he_NewRRule env) (he_Loc env) now hra = Ret (minReplicas, active, upcoming) \<and>
    computeReplicasWithCache (he_GitHub env) (he_DefaultScaleDownDelay env) now (scaleTargetFromRD (he_Reads env) rd) hra minReplicas = Ret n \<and>
    deploymentReplicas (targetAfter deploymentPatch cs rd) = n \<and>
    hst_DesiredReplicas (hra_Status (targetAfter statusPatch cs hra)) = Some n \<and>
    hst_LastSuccessfulScaleOutTime (hra_Status (targetAfter statusPatch cs hra)) =
      (if scaledOut (hra_Status hra) n then Some now' else hst_LastSuccessfulScaleOutTime (hra_Status hra))"
proof -
  let ?st = "scaleTargetFromRD (he_Reads env) rd"
  have eq: "Reconcile_HRA env api now now' namespace name [] =
      reconcileHRA env api now now' hra ?st (updateRunnerDeployment api hra rd) []"
    using assms(1-5) by (auto simp: Reconcile_HRA_def ifFound_def Let_def)
  then have run: "reconcileHRA env api now now' hra ?st (updateRunnerDeployment api hra rd) [] = (cs, Ret ())"
    using assms(6) by (simp add: outcome_def writes_def cs_def prod_eq_iff)
  then obtain m a u n where m: "getMinReplicas (he_NewRRule env) (he_Loc env) now hra = Ret (m, a, u)"
    and n: "computeReplicasWithCache (he_GitHub env) (he_DefaultScaleDownDelay env) now ?st hra m = Ret n"
    by (rule reconcileHRA_Ret)
  from rd.reconcile_success [OF m n TrueI run] m n show ?thesis by (auto simp: updatedStatus_fields)
qed

text \<open>
  C16. A successful reconciliation of an autoscaler for a runner deployment (neither being deleted) leaves the deployment with exactly the number of replicas
  that was computed, records that number in the autoscaler's status, and moves the time of the last scale-out exactly when the number grew.
\<close>

theorem Reconcile_HRA_sets_replicas:
  assumes "k_GetHRA (he_Reads env) namespace name = Ret hra" and "IsZero (om_DeletionTimestamp (hra_Meta hra))"
    and "str_Kind (hs_ScaleTargetRef (hra_Spec hra)) \<in> {[], ''RunnerDeployment''}"
    and "k_GetRD (he_Reads env) namespace (str_Name (hs_ScaleTargetRef (hra_Spec hra))) = Ret rd"
    and "IsZero (om_DeletionTimestamp (rd_Meta rd))"
    and "outcome (Reconcile_HRA env api now now' namespace name) = Ret ()"
  defines "cs \<equiv> writes (Reconcile_HRA env api now now' namespace name)"
  shows "\<exists>minReplicas active upcoming n.
    getMinReplicas (he_NewRRule env) (he_Loc env) now hra = Ret (minReplicas, active, upcoming) \<and>
    computeReplicasWithCache (he_GitHub env) (he_DefaultScaleDownDelay env) now (scaleTargetFromRD (he_Reads env) rd) hra minReplicas = Ret n \<and>
    deploymentReplicas (targetAfter deploymentPatch cs rd) = n \<and>
    hst_DesiredReplicas (hra_Status (targetAfter statusPatch cs hra)) = Some n \<and>
    hst_LastSuccessfulScaleOutTime (hra_Status (targetAfter statusPatch cs hra)) =
      (if scaledOut (hra_Status hra) n then Some now' else hst_LastSuccessfulScaleOutTime (hra_Status hra))"
  unfolding cs_def using assms(1-6) by (rule Reconcile_HRA_deployment)

definition exampleEnv :: HraEnv where
  "exampleEnv = \<lparr>he_GitHub = exampleGitHub,
     he_Reads = \<lparr>k_GetHRA = \<lambda>ns n. Ret exampleHRA, k_GetRD = \<lambda>ns n. Ret exampleRD, k_GetRS = \<lambda>ns n. Err (Kube NotFound),
       k_LabelSelectorAsSelector = \<lambda>s. Ret (\<lambda>ls. True), k_ListRunners = \<lambda>ns s. Ret [], k_ListPods = \<lambda>ns s. Ret []\<rparr>,
     he_NewRRule = onceRule, he_Loc = 0, he_ShowTime = \<lambda>t. [], he_DefaultScaleDownDelay = 1\<rparr>"

theorem Reconcile_HRA_sets_replicas_witness:
  "\<exists>n. hst_DesiredReplicas (hra_Status (targetAfter statusPatch (writes (Reconcile_HRA exampleEnv acceptAll 5 6 [] ''h'')) exampleHRA)) = Some n \<and>
    deploymentReplicas (targetAfter deploymentPatch (writes (Reconcile_HRA exampleEnv acceptAll 5 6 [] ''h'')) exampleRD) = n"
proof -
  have "outcome (Reconcile_HRA exampleEnv acceptAll 5 6 [] ''h'') = Ret ()"
    by (simp add: outcome_def Reconcile_HRA_def exampleEnv_def ifFound_def exampleHRA_def exampleRD_def emptyMeta_def reconcileHRA_def
        getMinReplicas_def matchScheduledOverrides_def minReplicasOf_def computeReplicasWithCache_def suggestDesiredReplicas_def
        updateRunnerDeployment_def ebind_def ecall_def eret_def elift_def Let_def split: option.splits)
  from Reconcile_HRA_sets_replicas [of exampleEnv "[]" "''h''" exampleHRA exampleRD, OF _ _ _ _ _ this]
  show ?thesis by (auto simp: exampleEnv_def exampleHRA_def exampleRD_def emptyMeta_def)
qed

lemma scaleDownDelay_status [simp]: "scaleDownDelay d (hra\<lparr>hra_Status := s\<rparr>) = scaleDownDelay d hra"
  by (simp add: scaleDownDelay_def)

lemma minReplicasOf_status [simp]: "minReplicasOf (hra\<lparr>hra_Status := s\<rparr>) = minReplicasOf hra"
  by (simp add: minReplicasOf_def)

lemma overridesSummary_status [simp]: "overridesSummary f (hra\<lparr>hra_Status := s\<rparr>) a u = overridesSummary f hra a u"
  by (simp only: overridesSummary_def minReplicasOf_status)

lemma suggestDesiredReplicas_status [simp]:
  "suggestDesiredReplicas gh st (hra\<lparr>hra_Status := s\<rparr>) = suggestDesiredReplicas gh st hra"
  by (simp add: suggestDesiredReplicas_def)

text \<open>
  C17. Reconciling is stable: once the computed number is in the status, computing again at the same time, with the same suggestion, gives the same number, whatever delay
  applies, and leaves nothing of the status to be patched.
\<close>

theorem reconcile_stable:
  fixes showTime :: "time \<Rightarrow> string" and now' :: time and active upcoming :: "Override option"
  assumes "computeReplicasWithCache gh delay now st hra minReplicas = Ret n"
  defines "hra' \<equiv> hra\<lparr>hra_Status := updatedStatus showTime now' hra n active upcoming\<rparr>"
  shows "computeReplicasWithCache gh delay now st hra' minReplicas = Ret n \<and>
    updatedStatus showTime now'' hra' n active upcoming = hra_Status hra'"
proof -
  obtain v where v: "suggestDesiredReplicas gh st hra = Ret v"
    using assms(1) by (auto simp: computeReplicasWithCache_def go_bind_Ret_iff)
  define c where "c = clampReplicas minReplicas (hs_MaxReplicas (hra_Spec hra))
    ((case v of None \<Rightarrow> minReplicas | Some s \<Rightarrow> s) + reservedReplicas now (hs_CapacityReservations (hra_Spec hra)))"
  have n: "n = delayScaleDown delay now hra c"
    using assms(1) v by (simp add: computeReplicasWithCache_def c_def Let_def)
  have "delayScaleDown delay now hra' c = n"
    using n by (auto simp: delayScaleDown_def hra'_def updatedStatus_fields scaledOut_def split: option.splits if_splits)
  moreover have "updatedStatus showTime now'' hra' n active upcoming = hra_Status hra'"
    by (auto simp: updatedStatus_def hra'_def Let_def)
  ultimately show ?thesis using v
    by (simp add: computeReplicasWithCache_def hra'_def c_def Let_def)
qed

theorem reconcile_stable_witness:
  "computeReplicasWithCache exampleGitHub 100 5 exampleTarget
     (exampleHRA\<lparr>hra_Status := updatedStatus (\<lambda>t. []) 6 exampleHRA 4 None None\<rparr>) 1 = Ret 4"
proof -
  have "computeReplicasWithCache exampleGitHub 100 5 exampleTarget exampleHRA 1 = Ret 4"
    by (simp add: computeReplicasWithCache_def suggestDesiredReplicas_def exampleHRA_def reservedReplicas_def clampReplicas_def
        delayScaleDown_def scaleDownDelay_def)
  from reconcile_stable [OF this] show ?thesis by simp
qed

end
