(* ===== verification/Group_Visibility.thy ===== *)
theory Group_Visibility
  imports GitHub_Client
begin

section \<open>Runner groups visible to a repository\<close>

text \<open>
  Model of \<open>src/simulator/runnergroup_visibility.go\<close>: which of the managed runner groups a repository may use, asked of GitHub in one call on github.com and group by
  group on a GitHub Enterprise server.
\<close>

fun addManaged :: "VisibleRunnerGroups \<Rightarrow> GhRunnerGroup list \<Rightarrow> VisibleRunnerGroups \<Rightarrow> VisibleRunnerGroups" where
  "addManaged managed [] visible = visible"
| "addManaged managed (g # gs) visible =
     (let ref = NewRunnerGroupFromGitHub g
      in if \<not> Includes managed ref then addManaged managed gs visible else addManaged managed gs (Add visible ref))"

definition hasRepoAccessToOrganizationRunnerGroup :: "GitHub \<Rightarrow> string \<Rightarrow> int \<Rightarrow> string \<Rightarrow> bool go" where
  "hasRepoAccessToOrganizationRunnerGroup gh org runnerGroupId repo =
     go_bind (ListRunnerGroupRepositoryAccesses gh org runnerGroupId) (\<lambda>repos. Ret (List.find (\<lambda>r. r = repo) repos \<noteq> None))"

fun addAccessible ::
  "GitHub \<Rightarrow> string \<Rightarrow> string \<Rightarrow> VisibleRunnerGroups \<Rightarrow> GhRunnerGroup list \<Rightarrow> VisibleRunnerGroups \<Rightarrow> VisibleRunnerGroups go" where
  "addAccessible gh org repo managed [] visible = Ret visible"
| "addAccessible gh org repo managed (g # gs) visible =
     (let ref = NewRunnerGroupFromGitHub g
      in if \<not> Includes managed ref then addAccessible gh org repo managed gs visible
         else if ghVisibility g \<noteq> ''all'' then
           go_bind (hasRepoAccessToOrganizationRunnerGroup gh org (ghID g) repo)
             (\<lambda>hasAccess. if \<not> hasAccess then addAccessible gh org repo managed gs visible
                          else addAccessible gh org repo managed gs (Add visible ref))
         else addAccessible gh org repo managed gs (Add visible ref))"

definition GetRunnerGroupsVisibleToRepository ::
  "GitHub \<Rightarrow> string \<Rightarrow> string \<Rightarrow> string \<Rightarrow> VisibleRunnerGroups \<Rightarrow> VisibleRunnerGroups go" where
  "GetRunnerGroupsVisibleToRepository gh githubBaseURL org repo managed =
     (if org = [] then Panic ''BUG: owner should not be empty in this context''
      else if githubBaseURL = ''https://github.com/'' then
        go_bind (ListOrganizationRunnerGroupsForRepository gh org repo)
          (\<lambda>runnerGroups. Ret (addManaged managed runnerGroups NewVisibleRunnerGroups))
      else go_bind (ListOrganizationRunnerGroups gh org)
          (\<lambda>runnerGroups. addAccessible gh org repo managed runnerGroups NewVisibleRunnerGroups))"

subsection \<open>Properties\<close>

lemma addManaged_spec:
  "sortedGroups visible \<Longrightarrow> sortedGroups (addManaged managed gs visible) \<and>
    set (addManaged managed gs visible) = set visible \<union> set (filter (\<lambda>ref. ref \<in> set managed) (map NewRunnerGroupFromGitHub gs))"
proof (induction gs arbitrary: visible)
  case (Cons g gs)
  have "sortedGroups (Add visible (NewRunnerGroupFromGitHub g))" using Cons.prems by (rule sorted_Add)
  from Cons.IH [OF this] Cons.IH [OF Cons.prems] Cons.prems show ?case
    by (auto simp: Let_def Includes_iff)
qed simp

text \<open>Whether GitHub lets the repository use a group: every repository may, or it is on the group's access list.\<close>

definition accessible :: "GitHub \<Rightarrow> string \<Rightarrow> string \<Rightarrow> GhRunnerGroup \<Rightarrow> bool" where
  "accessible gh org repo g \<longleftrightarrow>
     ghVisibility g = ''all'' \<or> (\<exists>repos. ListRunnerGroupRepositoryAccesses gh org (ghID g) = Ret repos \<and> repo \<in> set repos)"

lemma hasRepoAccess_iff:
  "hasRepoAccessToOrganizationRunnerGroup gh org i repo = Ret b \<Longrightarrow>
    b \<longleftrightarrow> (\<exists>repos. ListRunnerGroupRepositoryAccesses gh org i = Ret repos \<and> repo \<in> set repos)"
  by (auto simp: hasRepoAccessToOrganizationRunnerGroup_def go_bind_Ret_iff find_Some_iff find_None_iff2 find_None_iff in_set_conv_nth)

lemma addAccessible_spec:
  "addAccessible gh org repo managed gs visible = Ret res \<Longrightarrow> sortedGroups visible \<Longrightarrow>
    sortedGroups res \<and> set res = set visible \<union>
      set (map NewRunnerGroupFromGitHub (filter (\<lambda>g. NewRunnerGroupFromGitHub g \<in> set managed \<and> accessible gh org repo g) gs))"
proof (induction gs arbitrary: visible)
  case (Cons g gs)
  let ?ref = "NewRunnerGroupFromGitHub g"
  have sa: "sortedGroups (Add visible ?ref)" using Cons.prems(2) by (rule sorted_Add)
  consider (out) "?ref \<notin> set managed \<or> \<not> accessible gh org repo g" "addAccessible gh org repo managed gs visible = Ret res"
    | (usable) "?ref \<in> set managed" "accessible gh org repo g" "addAccessible gh org repo managed gs (Add visible ?ref) = Ret res"
    using Cons.prems(1) hasRepoAccess_iff [of gh org "ghID g" repo]
    by (auto simp: Let_def Includes_iff accessible_def go_bind_Ret_iff split: if_splits)
  then show ?case
  proof cases
    case out
    with Cons.IH [OF out(2) Cons.prems(2)] show ?thesis by auto
  next
    case usable
    with Cons.IH [OF usable(3) sa] Cons.prems(2) show ?thesis by auto
  qed
qed simp

text \<open>
  C23. On a GitHub Enterprise server the groups found for a repository are, in order of precedence, exactly the managed groups that GitHub lists for the organization and
  that the repository may use.
\<close>

theorem visible_groups_exact:
  assumes "org \<noteq> []" and "githubBaseURL \<noteq> ''https://github.com/''" and "ListOrganizationRunnerGroups gh org = Ret runnerGroups"
    and "GetRunnerGroupsVisibleToRepository gh githubBaseURL org repo managed = Ret visible"
  shows "sortedGroups visible \<and> set visible =
    set (map NewRunnerGroupFromGitHub (filter (\<lambda>g. NewRunnerGroupFromGitHub g \<in> set managed \<and> accessible gh org repo g) runnerGroups))"
  using assms addAccessible_spec [of gh org repo managed runnerGroups NewVisibleRunnerGroups visible]
  by (simp add: GetRunnerGroupsVisibleToRepository_def) (simp add: NewVisibleRunnerGroups_def)

definition groupsGitHub :: GitHub where
  "groupsGitHub = exampleGitHub\<lparr>
     gh_ListOrganizationRunnerGroups := \<lambda>o' p. Ret ([\<lparr>ghDefault = False, ghInherited = False, ghName = ''g'', ghVisibility = ''all'', ghID = 2\<rparr>,
       \<lparr>ghDefault = True, ghInherited = False, ghName = ''Default'', ghVisibility = ''selected'', ghID = 1\<rparr>], 0),
     gh_ListRepositoryAccessRunnerGroup := \<lambda>o' i p. Ret ([''o/r''], 0)\<rparr>"

theorem visible_groups_exact_witness:
  "\<exists>visible. GetRunnerGroupsVisibleToRepository groupsGitHub ''https://ghe/'' ''o'' ''o/r''
      [newRunnerGroup Organization [], newRunnerGroup Organization ''g''] = Ret visible \<and>
    set visible = {newRunnerGroup Organization [], newRunnerGroup Organization ''g''}"
proof -
  let ?gs = "[\<lparr>ghDefault = False, ghInherited = False, ghName = ''g'', ghVisibility = ''all'', ghID = 2\<rparr>,
       \<lparr>ghDefault = True, ghInherited = False, ghName = ''Default'', ghVisibility = ''selected'', ghID = 1\<rparr>]"
  let ?m = "[newRunnerGroup Organization [], newRunnerGroup Organization ''g'']"
  have one: "listAll w f = Ret items" if "f 0 = Ret (items, 0)" for w and f :: "'a pager" and items
    using that by (simp add: listAll_def returned_def) (subst pages.simps, simp)
  have l: "ListOrganizationRunnerGroups groupsGitHub ''o'' = Ret ?gs"
    by (simp add: ListOrganizationRunnerGroups_def groupsGitHub_def one)
  have a: "ListRunnerGroupRepositoryAccesses groupsGitHub ''o'' i = Ret [''o/r'']" for i
    by (simp add: ListRunnerGroupRepositoryAccesses_def groupsGitHub_def one)
  obtain visible where v: "GetRunnerGroupsVisibleToRepository groupsGitHub ''https://ghe/'' ''o'' ''o/r'' ?m = Ret visible"
    using l a by (auto simp: GetRunnerGroupsVisibleToRepository_def hasRepoAccessToOrganizationRunnerGroup_def NewRunnerGroupFromGitHub_def
        newRunnerGroup_def Let_def)
  with visible_groups_exact [OF _ _ l v] a show ?thesis
    by (auto simp: accessible_def NewRunnerGroupFromGitHub_def newRunnerGroup_def Let_def)
qed

end
