(* ===== verification/Actions_Glob.thy ===== *)
theory Actions_Glob
  imports Go_Strings
begin

section \<open>Glob patterns for check_run names\<close>

text \<open>
  Model of \<open>src/pkg/actionsglob/actionsglob.go\<close>: the whole function \<open>Match\<close>, its loop over
  the tokens of the pattern being \<open>matchTokens\<close>. \<open>glob\<close> is the reference meaning of a pattern (an
  asterisk matches any string). The theorems say where \<open>Match\<close> agrees with it, and where it
  reads \<open>subs[1]\<close> of a slice of length one, which panics.
\<close>

subsection \<open>The code\<close>

text \<open>
  One iteration per token; \<open>wildcardInHead\<close> and \<open>s\<close> are the loop's state. The result is the
  value of \<open>s\<close> when the loop is left.
\<close>

fun matchTokens :: "string list \<Rightarrow> bool \<Rightarrow> string \<Rightarrow> string go" where
  "matchTokens [] wildcardInHead s = Ret s"
| "matchTokens (p # ps) wildcardInHead s =
     (if p = [] then Ret []
      else if p = ''*'' then (if ps = [] then Ret [] else matchTokens ps True s)
      else
        (let wildcardInTail = (last p = CHR ''*'');
             p' = (if wildcardInTail then butlast p else p);
             subs = SplitN2 s p'
         in if subs = [] then Ret s
            else if subs ! 0 \<noteq> [] \<and> \<not> wildcardInHead then Ret s
            else if length subs < 2 then Panic ''index out of range''
            else if subs ! 1 \<noteq> [] \<and> \<not> wildcardInTail then Ret s
            else matchTokens ps wildcardInTail (subs ! 1)))"

definition Match :: "string \<Rightarrow> string \<Rightarrow> bool go" where
  "Match pat s =
     (case pat of
        [] \<Rightarrow> Panic ''unexpected length of pattern''
      | c # cs \<Rightarrow>
          (let inverse = (c = CHR ''!'');
               pat' = (if inverse then cs else pat)
           in go_bind (matchTokens (SplitAfter pat' CHR ''*'') False s)
                (\<lambda>s'. let r = (s' = []) in Ret (if inverse then \<not> r else r))))"

subsection \<open>The reference meaning of a pattern\<close>

fun glob :: "string \<Rightarrow> string \<Rightarrow> bool" where
  "glob [] s = (s = [])"
| "glob (c # cs) s =
     (if c = CHR ''*'' then (\<exists>k \<in> {0..length s}. glob cs (drop k s))
      else (case s of [] \<Rightarrow> False | d # ds \<Rightarrow> c = d \<and> glob cs ds))"

lemma glob_star: "glob (CHR ''*'' # cs) s \<longleftrightarrow> (\<exists>a b. s = a @ b \<and> glob cs b)"
proof
  assume "glob (CHR ''*'' # cs) s"
  then obtain k where "k \<le> length s" and "glob cs (drop k s)" by auto
  then show "\<exists>a b. s = a @ b \<and> glob cs b" by (metis append_take_drop_id)
next
  assume "\<exists>a b. s = a @ b \<and> glob cs b"
  then obtain a b where "s = a @ b" and "glob cs b" by blast
  then have "length a \<in> {0..length s} \<and> glob cs (drop (length a) s)" by simp
  then show "glob (CHR ''*'' # cs) s" by auto
qed

lemma glob_literal: "CHR ''*'' \<notin> set p \<Longrightarrow> glob (p @ q) s \<longleftrightarrow> (\<exists>b. s = p @ b \<and> glob q b)"
proof (induction p arbitrary: s)
  case (Cons c p)
  then show ?case by (cases s) auto
qed simp

lemma glob_literal_only: "CHR ''*'' \<notin> set p \<Longrightarrow> glob p s \<longleftrightarrow> s = p"
  using glob_literal [of p "[]" s] by simp

lemma glob_prefix: "CHR ''*'' \<notin> set p \<Longrightarrow> glob (p @ ''*'') s \<longleftrightarrow> prefix p s"
  by (simp add: glob_literal glob_star prefix_def)

lemma glob_absorb: "glob (CHR ''*'' # CHR ''*'' # cs) s = glob (CHR ''*'' # cs) s"
  unfolding glob_star [of "_ # cs"] glob_star [of cs] by (metis append.assoc append_Nil)

subsection \<open>Tokens of a pattern\<close>

text \<open>
  The tokens of a pattern: each but the last ends in its only asterisk, the last has none.
\<close>

fun tokens :: "string list \<Rightarrow> bool" where
  "tokens [] = False"
| "tokens [t] = (CHR ''*'' \<notin> set t)"
| "tokens (t # ts) = (t \<noteq> [] \<and> last t = CHR ''*'' \<and> CHR ''*'' \<notin> set (butlast t) \<and> tokens ts)"

lemma tokens_SplitAfter: "tokens (SplitAfter s CHR ''*'')"
proof (induction s)
  case (Cons c s)
  have ne: "SplitAfter s CHR ''*'' \<noteq> []" by simp
  show ?case
  proof (cases "c = CHR ''*''")
    case True
    with Cons ne show ?thesis by (cases "SplitAfter s CHR ''*''") auto
  next
    case False
    with Cons ne show ?thesis
      by (cases "SplitAfter s CHR ''*''"; cases "tl (SplitAfter s CHR ''*'')") auto
  qed
qed simp

lemma tokens_Cons2:
  "tokens (t # t' # ts) \<Longrightarrow> \<exists>p. t = p @ ''*'' \<and> CHR ''*'' \<notin> set p \<and> tokens (t' # ts)"
  by (metis append_butlast_last_id tokens.simps(3))

text \<open>What a token list means, with the flag for an asterisk just before it.\<close>

definition meaning :: "string list \<Rightarrow> bool \<Rightarrow> string \<Rightarrow> bool" where
  "meaning ts w s = glob ((if w then ''*'' else []) @ concat ts) s"

lemma meaning_True: "meaning ts True s \<longleftrightarrow> (\<exists>a b. s = a @ b \<and> glob (concat ts) b)"
  unfolding meaning_def using glob_star by simp

lemma meaning_False: "meaning ts False s \<longleftrightarrow> glob (concat ts) s"
  by (simp add: meaning_def)

text \<open>Cutting a literal out of the string is sound for either flag.\<close>

lemma meaning_cut:
  assumes lit: "CHR ''*'' \<notin> set p" and s: "s = a @ p @ b" and head: "a = [] \<or> w"
    and rest: "glob q b"
  shows "glob ((if w then ''*'' else []) @ p @ q) s"
proof (cases w)
  case True
  have "glob (p @ q) (p @ b)" using lit rest by (auto simp: glob_literal)
  then have "glob (CHR ''*'' # p @ q) (a @ (p @ b))" unfolding glob_star by blast
  with True s show ?thesis by simp
next
  case False
  with head s lit rest show ?thesis by (auto simp: glob_literal)
qed

lemma matchTokens_sound_last:
  assumes "p \<noteq> []" and lit: "CHR ''*'' \<notin> set p" and m: "matchTokens [p] w s = Ret []"
  shows "meaning [p] w s"
proof -
  have star: "p \<noteq> ''*''" "last p \<noteq> CHR ''*''" using assms last_neI [of p] by auto
  from assms(1) show ?thesis
  proof (cases rule: SplitN2_cases [of p s])
    case none
    with assms star have "s = [] \<and> False" by (auto simp: Let_def split: if_splits)
    then show ?thesis by simp
  next
    case (some a b)
    with assms star have "b = [] \<and> (a = [] \<or> w)" by (auto simp: Let_def split: if_splits)
    with some(2) lit meaning_cut [of p s a b w "[]"] show ?thesis by (auto simp: meaning_def)
  qed
qed

lemma matchTokens_sound_cut:
  assumes "l \<noteq> []" and lit: "CHR ''*'' \<notin> set l" and m: "matchTokens ((l @ ''*'') # ps) w s = Ret []" and ps: "ps \<noteq> []"
    and IH: "\<And>b. matchTokens ps True b = Ret [] \<Longrightarrow> meaning ps True b"
  shows "meaning ((l @ ''*'') # ps) w s"
  using assms(1)
proof (cases rule: SplitN2_cases [of l s])
  case none
  with assms have "s = [] \<and> False" by (auto simp: Let_def split: if_splits)
  then show ?thesis by simp
next
  case (some a b)
  with assms(1) m have aw: "a = [] \<or> w" and "matchTokens ps True b = Ret []"
    by (auto simp: Let_def split: if_splits)
  then have "glob (''*'' @ concat ps) b" using IH [of b] by (simp add: meaning_def)
  from meaning_cut [OF lit some(2) aw this] show ?thesis by (auto simp: meaning_def)
qed

lemma matchTokens_sound:
  "tokens ts \<Longrightarrow> matchTokens ts w s = Ret [] \<Longrightarrow> ts \<noteq> [[]] \<or> w \<Longrightarrow> meaning ts w s"
proof (induction ts arbitrary: w s)
  case (Cons p ps)
  show ?case
  proof (cases ps)
    case Nil
    with Cons.prems show ?thesis by (cases "p = []") (auto simp: meaning_True matchTokens_sound_last)
  next
    case (Cons t' ts')
    with Cons.prems obtain l where p: "p = l @ ''*''" and lit: "CHR ''*'' \<notin> set l" and tok: "tokens ps"
      using tokens_Cons2 [of p t' ts'] by auto
    with Cons.IH have IH: "\<And>b. matchTokens ps True b = Ret [] \<Longrightarrow> meaning ps True b" by blast
    show ?thesis
    proof (cases "l = []")
      case True
      with p Cons.prems IH Cons have "meaning ps True s" by auto
      then show ?thesis using p True glob_absorb
        by (cases w) (simp_all add: meaning_def)
    next
      case False
      with lit IH p Cons Cons.prems show ?thesis using matchTokens_sound_cut [of l ps w s] by simp
    qed
  qed
qed simp

subsection \<open>Match against the reference meaning\<close>

lemma Match_plain: "c \<noteq> CHR ''!'' \<Longrightarrow>
    Match (c # cs) s = go_bind (matchTokens (SplitAfter (c # cs) CHR ''*'') False s) (\<lambda>s'. Ret (s' = []))"
  by (simp add: Match_def Let_def)

lemma Match_inverse:
  "Match (CHR ''!'' # cs) s = go_bind (matchTokens (SplitAfter cs CHR ''*'') False s) (\<lambda>s'. Ret (s' \<noteq> []))"
  by (simp add: Match_def Let_def)

lemma SplitAfter_ne_empty_token: "q \<noteq> [] \<Longrightarrow> SplitAfter q c \<noteq> [[]]"
  using concat_SplitAfter [of q c] by auto

lemma matchTokens_sound_pattern:
  "q \<noteq> [] \<Longrightarrow> matchTokens (SplitAfter q CHR ''*'') False s = Ret [] \<Longrightarrow> glob q s"
  using matchTokens_sound [OF tokens_SplitAfter [of q], of False s] SplitAfter_ne_empty_token [of q]
  by (simp add: meaning_False concat_SplitAfter)

text \<open>
  C33. What the answers of \<open>Match\<close> are good for, against the meaning of a pattern \<open>q\<close> (non-empty, and not itself starting with an exclamation mark) in which each asterisk stands for an arbitrary string. \<open>Match\<close> accepts a name for \<open>q\<close> only if \<open>q\<close> describes it, and
  rejects a name for the inverted pattern, \<open>q\<close> with an exclamation mark in front, only if \<open>q\<close> describes it; whenever it accepts a name for the one it rejects it for the other. The converses do not hold: \<open>*bar\<close> describes \<open>barbar\<close>, but \<open>Match\<close> rejects that name for \<open>*bar\<close> and
  accepts it for \<open>!*bar\<close>.
\<close>

theorem Match_sound:
  assumes "q \<noteq> []" and "hd q \<noteq> CHR ''!''"
  shows "(Match q s = Ret True \<longrightarrow> glob q s) \<and> (Match (CHR ''!'' # q) s = Ret False \<longrightarrow> glob q s) \<and>
    (\<forall>b. Match q s = Ret b \<longleftrightarrow> Match (CHR ''!'' # q) s = Ret (\<not> b)) \<and>
    glob ''*bar'' ''barbar'' \<and> Match ''*bar'' ''barbar'' = Ret False \<and> Match ''!*bar'' ''barbar'' = Ret True"
proof -
  from assms obtain c cs where q: "q = c # cs" and c: "c \<noteq> CHR ''!''" by (cases q) auto
  have "Match q s = Ret True \<Longrightarrow> matchTokens (SplitAfter q CHR ''*'') False s = Ret []"
    using Match_plain [OF c, of cs s] q by (simp add: go_bind_Ret_iff)
  moreover have "Match (CHR ''!'' # q) s = Ret False \<Longrightarrow> matchTokens (SplitAfter q CHR ''*'') False s = Ret []"
    by (simp add: Match_inverse go_bind_Ret_iff)
  moreover have "Match q s = Ret b \<longleftrightarrow> Match (CHR ''!'' # q) s = Ret (\<not> b)" for b
    using Match_plain [OF c, of cs s] Match_inverse [of q s] q by (cases "matchTokens (SplitAfter q CHR ''*'') False s") auto
  moreover have "glob ''*bar'' ''barbar''" by code_simp
  moreover have "Match ''*bar'' ''barbar'' = Ret False" and "Match ''!*bar'' ''barbar'' = Ret True" by code_simp+
  ultimately show ?thesis using matchTokens_sound_pattern [OF assms(1)] by blast
qed

theorem Match_sound_witness:
  "glob ''actions-*-metrics'' ''actions-workflow-metrics'' \<and>
   Match ''actions-*-metrics'' ''actions-workflow-metrics'' = Ret True"
proof -
  have m: "Match ''actions-*-metrics'' ''actions-workflow-metrics'' = Ret True" by code_simp
  with Match_sound [of "''actions-*-metrics''" "''actions-workflow-metrics''"] show ?thesis by simp
qed

lemma matchTokens_literal:
  "p \<noteq> [] \<Longrightarrow> CHR ''*'' \<notin> set p \<Longrightarrow> s \<noteq> [] \<Longrightarrow>
    \<exists>r. matchTokens [p] False s = Ret r \<and> (r = [] \<longleftrightarrow> s = p)"
proof -
  assume a: "p \<noteq> []" "CHR ''*'' \<notin> set p" "s \<noteq> []"
  then have star: "p \<noteq> ''*''" "last p \<noteq> CHR ''*''" using last_neI [of p] by auto
  from a(1) show ?thesis
  proof (cases rule: SplitN2_cases [of p s])
    case none
    then have "s \<noteq> p" using Index_NoneD [of s p "[]" "[]"] by auto
    with none a star show ?thesis by (simp add: Let_def)
  next
    case (some x y)
    have "s = p \<longleftrightarrow> x = [] \<and> y = []"
      unfolding some(2) by (auto dest: arg_cong [of _ _ length])
    with some(1,3) a star show ?thesis by (auto simp: Let_def)
  qed
qed

lemma matchTokens_prefix:
  "p \<noteq> [] \<Longrightarrow> CHR ''*'' \<notin> set p \<Longrightarrow> s \<noteq> [] \<Longrightarrow>
    \<exists>r. matchTokens [p @ ''*'', []] False s = Ret r \<and> (r = [] \<longleftrightarrow> prefix p s)"
proof -
  assume a: "p \<noteq> []" "CHR ''*'' \<notin> set p" "s \<noteq> []"
  from a(1) show ?thesis
  proof (cases rule: SplitN2_cases [of p s])
    case none
    then have "\<not> prefix p s" using Index_NoneD [of s p "[]"] by (auto simp: prefix_def)
    with none a show ?thesis by (simp add: Let_def)
  next
    case (some x y)
    with a show ?thesis
      using Index_prefix [of s p] by (auto simp: Let_def)
  qed
qed

text \<open>
  For the two commonest shapes of pattern, a literal name and a literal prefix followed by one asterisk,
  \<open>Match\<close> on a non-empty name never panics and gives exactly the reference answer.
\<close>

theorem Match_exact:
  assumes "p \<noteq> []" and "CHR ''*'' \<notin> set p" and "hd p \<noteq> CHR ''!''" and "s \<noteq> []"
  shows "Match p s = Ret (glob p s) \<and> Match (p @ ''*'') s = Ret (glob (p @ ''*'') s)"
proof -
  from assms obtain c cs where p: "p = c # cs" and c: "c \<noteq> CHR ''!''" by (cases p) auto
  obtain r where r: "matchTokens [p] False s = Ret r" "r = [] \<longleftrightarrow> s = p"
    using matchTokens_literal [OF assms(1,2,4)] by blast
  obtain r' where r': "matchTokens [p @ ''*'', []] False s = Ret r'" "r' = [] \<longleftrightarrow> prefix p s"
    using matchTokens_prefix [OF assms(1,2,4)] by blast
  have "Match p s = go_bind (matchTokens [p] False s) (\<lambda>s'. Ret (s' = []))"
    using Match_plain [OF c, of cs s] SplitAfter_notin [OF assms(2)] p by simp
  moreover have "Match (p @ ''*'') s = go_bind (matchTokens [p @ ''*'', []] False s) (\<lambda>s'. Ret (s' = []))"
    using Match_plain [OF c, of "cs @ ''*''" s] SplitAfter_append [OF assms(2), of "[]"] p by simp
  ultimately show ?thesis using r r' glob_literal_only [OF assms(2)] glob_prefix [OF assms(2)]
    by auto
qed

theorem Match_exact_witness:
  "Match ''build'' ''build'' = Ret True \<and> Match ''build*'' ''lint'' = Ret False"
  using Match_exact [of "''build''" "''build''"] Match_exact [of "''build''" "''lint''"]
  by (simp add: glob_literal_only)

text \<open>
  A leading asterisk before a literal is handled incompletely: \<open>Match\<close> panics exactly when the literal does not
  occur in the name, and otherwise looks only at the leftmost occurrence. So \<open>*bar\<close> against \<open>barbar\<close>
  answers "no" although the reference meaning is "yes", and \<open>*foo\<close> against \<open>bar\<close> crashes.
\<close>

theorem Match_suffix_pattern:
  assumes "p \<noteq> []" and "CHR ''*'' \<notin> set p"
  shows "Match (''*'' @ p) s =
    (case Index s p of None \<Rightarrow> Panic ''index out of range'' | Some i \<Rightarrow> Ret (drop (i + length p) s = []))"
proof -
  have star: "p \<noteq> ''*''" "last p \<noteq> CHR ''*''" using assms last_neI [of p] by auto
  have "Match (''*'' @ p) s = go_bind (matchTokens [''*'', p] False s) (\<lambda>s'. Ret (s' = []))"
    using Match_plain [of "CHR ''*''" p s] SplitAfter_notin [OF assms(2)] by simp
  also have "\<dots> = go_bind (matchTokens [p] True s) (\<lambda>s'. Ret (s' = []))" by simp
  also have "\<dots> = (case Index s p of None \<Rightarrow> Panic ''index out of range''
                    | Some i \<Rightarrow> Ret (drop (i + length p) s = []))"
    using assms star by (auto simp: SplitN2_def Let_def split: option.splits)
  finally show ?thesis .
qed

theorem Match_suffix_pattern_witness:
  "Match ''*foo'' ''bar'' = Panic ''index out of range'' \<and>
   Match ''*bar'' ''barbar'' = Ret False \<and> glob ''*bar'' ''barbar''"
proof -
  have "glob ''*bar'' ''barbar''" by code_simp
  then show ?thesis
    using Match_suffix_pattern [of "''foo''" "''bar''"] Match_suffix_pattern [of "''bar''" "''barbar''"]
    by simp
qed

end
