(* ===== verification/HRA_Webhook.thy ===== *)
theory HRA_Webhook
  imports HRA_Controller Group_Visibility Actions_Glob
begin

section \<open>The webhook that scales autoscalers on GitHub events\<close>

text \<open>
  Model of \<open>src/controllers/horizontal_runner_autoscaler_webhook.go\<close> and its three event matchers: which autoscaler an event scales, by how much, and the HTTP
  answer. Parsing and validating a request is done by go-github, whose results are fields of the request; reads of the Kubernetes API are the functions of a record \<open>WebhookReads\<close>, the
  one write is the patch of an autoscaler.
\<close>

record RepoInfo =
  ri_Name :: "string option"
  ri_OwnerLogin :: string
  ri_OwnerType :: string

text \<open>
  A pull request event carries its action and, where pull request and base are there, the base's ref; a check run event its action and the check run's
  status and name; a workflow job event its action and the job's labels and conclusion.
\<close>

datatype webhookEvent =
    PushEvent "RepoInfo option"
  | PullRequestEvent "RepoInfo option" "string option" "string option option"
  | CheckRunEvent "RepoInfo option" "string option" "(string option \<times> string) option"
  | WorkflowJobEvent "RepoInfo option" string "(string list \<times> string) option"
  | PingEvent
  | UnknownEvent

record WebhookReads =
  w_ListHRAsByKey :: "string \<Rightarrow> string \<Rightarrow> HorizontalRunnerAutoscaler list go"
  w_ListHRAs :: "string \<Rightarrow> HorizontalRunnerAutoscaler list go"
  w_GetRD :: "string \<Rightarrow> string \<Rightarrow> RunnerDeployment go"
  w_GetRS :: "string \<Rightarrow> string \<Rightarrow> RunnerSet go"

record HorizontalRunnerAutoscalerGitHubWebhook =
  wh_Reads :: WebhookReads
  wh_SecretKeyBytes :: string
  wh_GitHubClient :: "(GitHub \<times> string) option"
  wh_Namespace :: string

record WebhookRequest =
  wq_IsGet :: bool
  wq_ValidatePayload :: "string \<Rightarrow> string go"
  wq_ReadAll :: "string go"
  wq_ParseWebHook :: "string \<Rightarrow> webhookEvent go"
  wq_EnterpriseSlug :: "string \<Rightarrow> string"

datatype webhookCall = PatchHRA HorizontalRunnerAutoscaler

datatype responseBody = NoBody | Message string | ErrorMessage goerr

record Response =
  rsp_Status :: int
  rsp_Body :: responseBody

record ScaleTarget =
  tgt_HRA :: HorizontalRunnerAutoscaler
  tgt_Trigger :: ScaleUpTrigger

subsection \<open>Keys\<close>

definition keyPrefixEnterprise :: string where "keyPrefixEnterprise = ''enterprises/''"
definition keyRunnerGroup :: string where "keyRunnerGroup = ''/group/''"

definition enterpriseKey :: "string \<Rightarrow> string" where "enterpriseKey name = keyPrefixEnterprise @ name"

definition organizationalRunnerGroupKey :: "string \<Rightarrow> string \<Rightarrow> string" where
  "organizationalRunnerGroupKey owner grp = owner @ keyRunnerGroup @ grp"

definition enterpriseRunnerGroupKey :: "string \<Rightarrow> string \<Rightarrow> string" where
  "enterpriseRunnerGroupKey enterprise grp = keyPrefixEnterprise @ enterprise @ keyRunnerGroup @ grp"

text \<open>The keys under which the field index of the manager's cache lists an autoscaler.\<close>

definition keysOfDeployment :: "RunnerConfig \<Rightarrow> string list" where
  "keysOfDeployment c =
     (if rc_Repository c \<noteq> [] then [rc_Repository c] else []) @
     (if rc_Organization c \<noteq> [] then
        (if rc_Group c \<noteq> [] then [organizationalRunnerGroupKey (rc_Organization c) (rc_Group c)] else [rc_Organization c])
      else []) @
     (if rc_Enterprise c \<noteq> [] then
        (if rc_Group c \<noteq> [] then [enterpriseRunnerGroupKey (rc_Enterprise c) (rc_Group c)] else [enterpriseKey (rc_Enterprise c)])
      else [])"

definition keysOfRunnerSet :: "RunnerConfig \<Rightarrow> string list" where
  "keysOfRunnerSet c =
     (if rc_Repository c \<noteq> [] then [rc_Repository c] else []) @
     (if rc_Organization c \<noteq> [] then
        [rc_Organization c] @
        (if rc_Group c \<noteq> [] then [organizationalRunnerGroupKey (rc_Organization c) (rc_Group c)] else [])
      else []) @
     (if rc_Enterprise c \<noteq> [] then
        [enterpriseKey (rc_Enterprise c)] @
        (if rc_Group c \<noteq> [] then [enterpriseRunnerGroupKey (rc_Enterprise c) (rc_Group c)] else [])
      else [])"

definition scaleTargetKeys :: "WebhookReads \<Rightarrow> HorizontalRunnerAutoscaler \<Rightarrow> string list" where
  "scaleTargetKeys k hra =
     (let ref = hs_ScaleTargetRef (hra_Spec hra); ns = om_Namespace (hra_Meta hra)
      in if str_Name ref = [] then []
         else if str_Kind ref = [] \<or> str_Kind ref = ''RunnerDeployment'' then
           (case w_GetRD k ns (str_Name ref) of
              Ret rd \<Rightarrow> keysOfDeployment (rs_Config (rt_Spec (rds_Template (rd_Spec rd))))
            | _ \<Rightarrow> [])
         else if str_Kind ref = ''RunnerSet'' then
           (case w_GetRS k ns (str_Name ref) of Ret rs \<Rightarrow> keysOfRunnerSet (rss_Config (rset_Spec rs)) | _ \<Rightarrow> [])
         else [])"

definition findHRAsByKey :: "HorizontalRunnerAutoscalerGitHubWebhook \<Rightarrow> string \<Rightarrow> HorizontalRunnerAutoscaler list go" where
  "findHRAsByKey a value = (if value \<noteq> [] then w_ListHRAsByKey (wh_Reads a) (wh_Namespace a) value else Ret [])"

subsection \<open>Matching events\<close>

definition matchTriggerConditionAgainstEvent :: "string list \<Rightarrow> string option \<Rightarrow> bool" where
  "matchTriggerConditionAgainstEvent types eventAction =
     (if length types = 0 then True
      else case eventAction of None \<Rightarrow> False | Some act \<Rightarrow> List.find (\<lambda>tpe. tpe = act) types \<noteq> None)"

definition MatchPushEvent :: "ScaleUpTrigger \<Rightarrow> bool go" where
  "MatchPushEvent trigger =
     (case sut_GitHubEvent trigger of
        None \<Rightarrow> Ret False
      | Some g \<Rightarrow> (case ge_Push g of None \<Rightarrow> Ret False | Some push \<Rightarrow> Ret True))"

definition MatchPullRequestEvent :: "string option \<Rightarrow> string option option \<Rightarrow> ScaleUpTrigger \<Rightarrow> bool go" where
  "MatchPullRequestEvent action baseRef trigger =
     (case sut_GitHubEvent trigger of
        None \<Rightarrow> Ret False
      | Some g \<Rightarrow>
          (case ge_PullRequest g of
             None \<Rightarrow> Ret False
           | Some pr \<Rightarrow>
               if \<not> matchTriggerConditionAgainstEvent (prs_Types pr) action then Ret False
               else case baseRef of
                   None \<Rightarrow> Panic ''nil pointer dereference''
                 | Some ref \<Rightarrow> Ret (matchTriggerConditionAgainstEvent (prs_Branches pr) ref)))"

fun anyPattern :: "string list \<Rightarrow> string \<Rightarrow> bool go" where
  "anyPattern [] name = Ret False"
| "anyPattern (pat # pats) name = go_bind (Match pat name) (\<lambda>r. if r then Ret True else anyPattern pats name)"

definition MatchCheckRunEvent ::
  "RepoInfo option \<Rightarrow> string option \<Rightarrow> (string option \<times> string) option \<Rightarrow> ScaleUpTrigger \<Rightarrow> bool go" where
  "MatchCheckRunEvent repo action checkRun trigger =
     (case sut_GitHubEvent trigger of
        None \<Rightarrow> Ret False
      | Some g \<Rightarrow>
          (case ge_CheckRun g of
             None \<Rightarrow> Ret False
           | Some cr \<Rightarrow>
               if \<not> matchTriggerConditionAgainstEvent (crs_Types cr) action then Ret False
               else if crs_Status cr \<noteq> [] \<and> (case checkRun of Some (Some status, name) \<Rightarrow> status \<noteq> crs_Status cr | _ \<Rightarrow> True) then Ret False
               else if checkRun \<noteq> None \<and> length (crs_Names cr) > 0 then anyPattern (crs_Names cr) (snd (the checkRun))
               else if length (crs_Repositories cr) > 0 then
                 (case repo of
                    Some r \<Rightarrow> (case ri_Name r of Some n \<Rightarrow> Ret (n \<in> set (crs_Repositories cr)) | None \<Rightarrow> Panic ''nil pointer dereference'')
                  | None \<Rightarrow> Panic ''nil pointer dereference'')
               else Ret True))"

subsection \<open>Finding the scale target under a key\<close>

fun matchTriggers :: "HorizontalRunnerAutoscaler \<Rightarrow> (ScaleUpTrigger \<Rightarrow> bool go) \<Rightarrow> ScaleUpTrigger list \<Rightarrow> ScaleTarget list go" where
  "matchTriggers hra f [] = Ret []"
| "matchTriggers hra f (t # ts) =
     go_bind (f t) (\<lambda>b. go_bind (matchTriggers hra f ts)
       (\<lambda>rest. Ret (if b then \<lparr>tgt_HRA = hra, tgt_Trigger = t\<rparr> # rest else rest)))"

fun searchScaleTargets :: "HorizontalRunnerAutoscaler list \<Rightarrow> (ScaleUpTrigger \<Rightarrow> bool go) \<Rightarrow> ScaleTarget list go" where
  "searchScaleTargets [] f = Ret []"
| "searchScaleTargets (hra # hras) f =
     (if \<not> IsZero (om_DeletionTimestamp (hra_Meta hra)) then searchScaleTargets hras f
      else go_bind (matchTriggers hra f (hs_ScaleUpTriggers (hra_Spec hra)))
        (\<lambda>matched. go_bind (searchScaleTargets hras f) (\<lambda>rest. Ret (matched @ rest))))"

definition getScaleTarget ::
  "HorizontalRunnerAutoscalerGitHubWebhook \<Rightarrow> (ScaleUpTrigger \<Rightarrow> bool go) \<Rightarrow> string \<Rightarrow> ScaleTarget option go" where
  "getScaleTarget a f name =
     go_bind (findHRAsByKey a name) (\<lambda>hras. go_bind (searchScaleTargets hras f)
       (\<lambda>targets. Ret (if length targets = 0 then None else if length targets > 1 then None else Some (targets ! 0))))"

definition hasLabels :: "string list \<Rightarrow> string list \<Rightarrow> bool" where
  "hasLabels labels runnerLabels = list_all (\<lambda>l. l = ''self-hosted'' \<or> l \<in> set runnerLabels) labels"

text \<open>The labels of the runners an autoscaler scales.\<close>

definition targetLabels :: "WebhookReads \<Rightarrow> HorizontalRunnerAutoscaler \<Rightarrow> string list go" where
  "targetLabels k hra =
     (let ref = hs_ScaleTargetRef (hra_Spec hra); ns = om_Namespace (hra_Meta hra)
      in if str_Kind ref = ''RunnerSet'' then
           go_bind (w_GetRS k ns (str_Name ref)) (\<lambda>rs. Ret (rc_Labels (rss_Config (rset_Spec rs))))
         else if str_Kind ref = ''RunnerDeployment'' \<or> str_Kind ref = [] then
           go_bind (w_GetRD k ns (str_Name ref)) (\<lambda>rd. Ret (rc_Labels (rs_Config (rt_Spec (rds_Template (rd_Spec rd))))))
         else Err (Errorf ''unsupported scaleTargetRef.kind''))"

definition jobTrigger :: "HorizontalRunnerAutoscaler \<Rightarrow> ScaleUpTrigger option" where
  "jobTrigger hra =
     (case hs_ScaleUpTriggers (hra_Spec hra) of
        [t] \<Rightarrow> (case sut_GitHubEvent t of None \<Rightarrow> None | Some g \<Rightarrow> if ge_WorkflowJob g = None then None else Some t)
      | _ \<Rightarrow> None)"

definition jobDuration :: "ScaleUpTrigger \<Rightarrow> duration" where
  "jobDuration t = (if sut_Duration t \<le> 0 then 10 * Minute else sut_Duration t)"

fun searchJobTarget :: "WebhookReads \<Rightarrow> string list \<Rightarrow> HorizontalRunnerAutoscaler list \<Rightarrow> ScaleTarget option go" where
  "searchJobTarget k labels [] = Ret None"
| "searchJobTarget k labels (hra # hras) =
     (if \<not> IsZero (om_DeletionTimestamp (hra_Meta hra)) then searchJobTarget k labels hras
      else case jobTrigger hra of
          None \<Rightarrow> searchJobTarget k labels hras
        | Some t \<Rightarrow>
            go_bind (targetLabels k hra)
              (\<lambda>ls. if \<not> hasLabels labels ls then searchJobTarget k labels hras
                    else Ret (Some \<lparr>tgt_HRA = hra,
                      tgt_Trigger = \<lparr>sut_GitHubEvent = None, sut_Amount = 0, sut_Duration = jobDuration t\<rparr>\<rparr>)))"

definition getJobScaleTarget ::
  "HorizontalRunnerAutoscalerGitHubWebhook \<Rightarrow> string list \<Rightarrow> string \<Rightarrow> ScaleTarget option go" where
  "getJobScaleTarget a labels name = go_bind (findHRAsByKey a name) (searchJobTarget (wh_Reads a) labels)"

subsection \<open>From a repository to a scale target\<close>

fun managedGroups ::
  "WebhookReads \<Rightarrow> string \<Rightarrow> string \<Rightarrow> HorizontalRunnerAutoscaler list \<Rightarrow> VisibleRunnerGroups \<Rightarrow> VisibleRunnerGroups go" where
  "managedGroups k enterprise org [] groups = Ret groups"
| "managedGroups k enterprise org (hra # hras) groups =
     (let ref = hs_ScaleTargetRef (hra_Spec hra); ns = om_Namespace (hra_Meta hra)
      in go_bind (if str_Kind ref = ''RunnerSet'' then go_bind (w_GetRS k ns (str_Name ref)) (\<lambda>rs. Ret (rss_Config (rset_Spec rs)))
                  else if str_Kind ref = ''RunnerDeployment'' \<or> str_Kind ref = [] then
                    go_bind (w_GetRD k ns (str_Name ref)) (\<lambda>rd. Ret (rs_Config (rt_Spec (rds_Template (rd_Spec rd)))))
                  else Err (Errorf ''unsupported scale target kind''))
           (\<lambda>c. (let g = rc_Group c; e = rc_Enterprise c; o' = rc_Organization c
                 in if g \<noteq> [] \<and> e = [] \<and> o' = [] then managedGroups k enterprise org hras groups
                    else if e \<noteq> enterprise \<and> o' \<noteq> org then managedGroups k enterprise org hras groups
                    else managedGroups k enterprise org hras (Add groups (NewRunnerGroupFromProperties e o' g)))))"

definition getManagedRunnerGroupsFromHRAs ::
  "HorizontalRunnerAutoscalerGitHubWebhook \<Rightarrow> string \<Rightarrow> string \<Rightarrow> VisibleRunnerGroups go" where
  "getManagedRunnerGroupsFromHRAs a enterprise org =
     go_bind (w_ListHRAs (wh_Reads a) (wh_Namespace a)) (\<lambda>hras. managedGroups (wh_Reads a) enterprise org hras NewVisibleRunnerGroups)"

definition groupKey :: "string \<Rightarrow> string \<Rightarrow> RunnerGroup \<Rightarrow> string" where
  "groupKey owner enterprise rg =
     (case Kind rg of
        Default \<Rightarrow> (case Scope rg of Organization \<Rightarrow> owner | Enterprise \<Rightarrow> enterpriseKey enterprise)
      | Custom \<Rightarrow> (case Scope rg of Organization \<Rightarrow> organizationalRunnerGroupKey owner (Name rg)
                   | Enterprise \<Rightarrow> enterpriseRunnerGroupKey enterprise (Name rg)))"

text \<open>Without a GitHub client every managed group counts as visible.\<close>

definition visibleGroupsFor ::
  "HorizontalRunnerAutoscalerGitHubWebhook \<Rightarrow> string \<Rightarrow> string \<Rightarrow> VisibleRunnerGroups \<Rightarrow> VisibleRunnerGroups go" where
  "visibleGroupsFor a owner repositoryRunnerKey managedRunnerGroups =
     (case wh_GitHubClient a of
        Some (gh, baseURL) \<Rightarrow>
          (case GetRunnerGroupsVisibleToRepository gh baseURL owner repositoryRunnerKey managedRunnerGroups of
             Err e \<Rightarrow> Err (Errorf ''error while finding visible runner groups'')
           | r \<Rightarrow> r)
      | None \<Rightarrow> Ret managedRunnerGroups)"

definition getScaleUpTargetWithFunction ::
  "HorizontalRunnerAutoscalerGitHubWebhook \<Rightarrow> string \<Rightarrow> string \<Rightarrow> string \<Rightarrow> string \<Rightarrow>
    (string \<Rightarrow> ScaleTarget option go) \<Rightarrow> ScaleTarget option go" where
  "getScaleUpTargetWithFunction a repo owner ownerType enterprise scaleTarget =
     (let repositoryRunnerKey = owner @ ''/'' @ repo
      in go_bind (scaleTarget repositoryRunnerKey)
        (\<lambda>target.
          if target \<noteq> None then Ret target
          else if ownerType = ''User'' then Ret None
          else go_bind (getManagedRunnerGroupsFromHRAs a enterprise owner)
            (\<lambda>managedRunnerGroups.
              go_bind (visibleGroupsFor a owner repositoryRunnerKey managedRunnerGroups)
                (\<lambda>visibleGroups.
                  (case Traverse visibleGroups (\<lambda>rg. scaleTarget (groupKey owner enterprise rg)) of
                     Err traverseErr \<Rightarrow> Ret None
                   | r \<Rightarrow> r)))))"

definition getScaleUpTarget where
  "getScaleUpTarget a repo owner ownerType enterprise f =
     getScaleUpTargetWithFunction a repo owner ownerType enterprise (getScaleTarget a f)"

definition getJobScaleUpTargetForRepoOrOrg where
  "getJobScaleUpTargetForRepoOrOrg a repo owner ownerType enterprise labels =
     getScaleUpTargetWithFunction a repo owner ownerType enterprise (getJobScaleTarget a labels)"

subsection \<open>Scaling\<close>

definition getValidCapacityReservations :: "time \<Rightarrow> HorizontalRunnerAutoscaler \<Rightarrow> CapacityReservation list" where
  "getValidCapacityReservations now hra = filter (\<lambda>r. cr_ExpirationTime r > now) (hs_CapacityReservations (hra_Spec hra))"

fun eraseReservation :: "int \<Rightarrow> CapacityReservation list \<Rightarrow> CapacityReservation list" where
  "eraseReservation amount [] = []"
| "eraseReservation amount (r # rs) = (if cr_Replicas r + amount = 0 then rs else r # eraseReservation amount rs)"

definition scaledReservations :: "time \<Rightarrow> time \<Rightarrow> ScaleTarget \<Rightarrow> CapacityReservation list" where
  "scaledReservations now now' target =
     (let hra = tgt_HRA target;
          amount = (if sut_Amount (tgt_Trigger target) \<noteq> 0 then sut_Amount (tgt_Trigger target) else 1);
          valid = getValidCapacityReservations now hra
      in if amount > 0 then
           valid @ [\<lparr>cr_Name = [], cr_ExpirationTime = now' + sut_Duration (tgt_Trigger target), cr_Replicas = amount, cr_EffectiveTime = now'\<rparr>]
         else eraseReservation amount valid)"

definition tryScale :: "webhookCall api \<Rightarrow> time \<Rightarrow> time \<Rightarrow> ScaleTarget \<Rightarrow> (webhookCall, unit) eff" where
  "tryScale api now now' target =
     (let hra = tgt_HRA target
      in ecall api (PatchHRA (hra\<lparr>hra_Spec := (hra_Spec hra)\<lparr>hs_CapacityReservations := scaledReservations now now' target\<rparr>\<rparr>))
           (\<lambda>e. case e of None \<Rightarrow> eret ()
              | Some err \<Rightarrow> eerr (Wrapped ''patching horizontalrunnerautoscaler to add capacity reservation'' err)))"

subsection \<open>Handling a request\<close>

text \<open>What an event asks for: a target (or none), an answer without a target, or an error.\<close>

datatype decision = Scale "ScaleTarget option" | Answer Response

definition resp :: "int \<Rightarrow> responseBody \<Rightarrow> Response" where "resp s b = \<lparr>rsp_Status = s, rsp_Body = b\<rparr>"

definition withRepo :: "RepoInfo option \<Rightarrow> (string \<Rightarrow> string \<Rightarrow> string \<Rightarrow> 'a go) \<Rightarrow> 'a go" where
  "withRepo repo f = (case repo of
      None \<Rightarrow> Panic ''nil pointer dereference''
    | Some r \<Rightarrow> f (case ri_Name r of None \<Rightarrow> [] | Some n \<Rightarrow> n) (ri_OwnerLogin r) (ri_OwnerType r))"

definition setAmount :: "int \<Rightarrow> ScaleTarget \<Rightarrow> ScaleTarget" where
  "setAmount n t = t\<lparr>tgt_Trigger := (tgt_Trigger t)\<lparr>sut_Amount := n\<rparr>\<rparr>"

definition decideJob ::
  "HorizontalRunnerAutoscalerGitHubWebhook \<Rightarrow> string \<Rightarrow> RepoInfo option \<Rightarrow> string \<Rightarrow> (string list \<times> string) option \<Rightarrow> decision go" where
  "decideJob a slug repo action job =
     (case job of
        None \<Rightarrow> Panic ''nil pointer dereference''
      | Some (labels, conclusion) \<Rightarrow>
          withRepo repo (\<lambda>name owner ownerType.
            if action = ''queued'' \<or> action = ''completed'' then
              go_bind (getJobScaleUpTargetForRepoOrOrg a name owner ownerType slug labels)
                (\<lambda>target. case target of
                    None \<Rightarrow> Ret (Scale None)
                  | Some t \<Rightarrow>
                      if action = ''queued'' then Ret (Scale (Some (setAmount 1 t)))
                      else if conclusion \<noteq> ''skipped'' then Ret (Scale (Some (setAmount (- 1) t)))
                      else Ret (Answer (resp 200 NoBody)))
            else Ret (Answer (resp 200 NoBody))))"

definition decideEvent ::
  "HorizontalRunnerAutoscalerGitHubWebhook \<Rightarrow> string \<Rightarrow> webhookEvent \<Rightarrow> decision go" where
  "decideEvent a slug event =
     (let find = (\<lambda>repo f. withRepo repo (\<lambda>name owner ownerType.
            go_bind (getScaleUpTarget a name owner ownerType slug f) (\<lambda>target. Ret (Scale target))))
      in case event of
           PushEvent repo \<Rightarrow> find repo MatchPushEvent
         | PullRequestEvent repo action baseRef \<Rightarrow> find repo (MatchPullRequestEvent action baseRef)
         | CheckRunEvent repo action checkRun \<Rightarrow> find repo (MatchCheckRunEvent repo action checkRun)
         | WorkflowJobEvent repo action job \<Rightarrow> decideJob a slug repo action job
         | PingEvent \<Rightarrow> Ret (Answer (resp 200 (Message ''pong'')))
         | UnknownEvent \<Rightarrow> Ret (Answer (resp 500 NoBody)))"

definition readEvent :: "HorizontalRunnerAutoscalerGitHubWebhook \<Rightarrow> WebhookRequest \<Rightarrow> (webhookEvent \<times> string) go" where
  "readEvent a r =
     go_bind (if length (wh_SecretKeyBytes a) > 0 then wq_ValidatePayload r (wh_SecretKeyBytes a) else wq_ReadAll r)
       (\<lambda>payload. go_bind (wq_ParseWebHook r payload) (\<lambda>event. Ret (event, wq_EnterpriseSlug r payload)))"

definition Handle ::
  "HorizontalRunnerAutoscalerGitHubWebhook \<Rightarrow> webhookCall api \<Rightarrow> time \<Rightarrow> time \<Rightarrow> WebhookRequest \<Rightarrow> (webhookCall, Response) eff" where
  "Handle a api now now' r =
     (if wq_IsGet r then eret (resp 200 (Message ''webhook server is running''))
      else case go_bind (readEvent a r) (\<lambda>(event, slug). decideEvent a slug event) of
          Err e \<Rightarrow> eret (resp 500 (ErrorMessage e))
        | Panic s \<Rightarrow> epanic s
        | Hang \<Rightarrow> elift Hang
        | Ret (Answer rsp) \<Rightarrow> eret rsp
        | Ret (Scale None) \<Rightarrow> eret (resp 200 (Message ''no horizontalrunnerautoscaler to scale for this github event''))
        | Ret (Scale (Some t)) \<Rightarrow>
            (\<lambda>l. case tryScale api now now' t l of
               (l', Ret _) \<Rightarrow> (l', Ret (resp 200 (Message (''scaled '' @ om_Name (hra_Meta (tgt_HRA t)) @ '' by '' @ Sprintd (sut_Amount (tgt_Trigger t))))))
             | (l', Err e) \<Rightarrow> (l', Ret (resp 500 NoBody))
             | (l', Panic s) \<Rightarrow> (l', Panic s)
             | (l', Hang) \<Rightarrow> (l', Hang)))"

subsection \<open>The finders and their contract\<close>

lemma getScaleUpTargetWithFunction_cases:
  assumes "getScaleUpTargetWithFunction a repo owner ownerType enterprise scaleTarget = Ret (Some t)"
  obtains (repository) "scaleTarget (owner @ ''/'' @ repo) = Ret (Some t)"
    | (searched) managed visible where "scaleTarget (owner @ ''/'' @ repo) = Ret None" "ownerType \<noteq> ''User''"
      "getManagedRunnerGroupsFromHRAs a enterprise owner = Ret managed"
      "visibleGroupsFor a owner (owner @ ''/'' @ repo) managed = Ret visible"
      "Traverse visible (\<lambda>rg. scaleTarget (groupKey owner enterprise rg)) = Ret (Some t)"
proof (cases "scaleTarget (owner @ ''/'' @ repo)")
  case (Ret x)
  show ?thesis
  proof (cases x)
    case (Some y)
    with assms Ret repository show ?thesis by (simp add: getScaleUpTargetWithFunction_def)
  next
    case None
    note n = Ret [unfolded None]
    have u: "ownerType \<noteq> ''User''" using assms n by (auto simp: getScaleUpTargetWithFunction_def)
    show ?thesis
    proof (cases "getManagedRunnerGroupsFromHRAs a enterprise owner")
      case (Ret managed)
      note m = this
      show ?thesis
      proof (cases "visibleGroupsFor a owner (owner @ ''/'' @ repo) managed")
        case (Ret visible)
        with assms n u m searched show ?thesis
          by (cases "Traverse visible (\<lambda>rg. scaleTarget (groupKey owner enterprise rg))")
            (simp_all add: getScaleUpTargetWithFunction_def Let_def)
      qed (use assms n u m in \<open>simp_all add: getScaleUpTargetWithFunction_def Let_def\<close>)
    qed (use assms n u in \<open>simp_all add: getScaleUpTargetWithFunction_def Let_def\<close>)
  qed
qed (use assms in \<open>simp_all add: getScaleUpTargetWithFunction_def Let_def\<close>)

text \<open>
  \<open>getScaleUpTargetWithFunction\<close> is given a function that finds the scale target under a key. What it relies on: a target found under a key is an autoscaler listed under that
  key, not being deleted, that suits the event.
\<close>

locale scale_target_finder =
  fixes find :: "string \<Rightarrow> ScaleTarget option go"
    and candidates :: "string \<Rightarrow> HorizontalRunnerAutoscaler list go"
    and suits :: "ScaleTarget \<Rightarrow> bool"
  assumes found: "find key = Ret (Some t) \<Longrightarrow>
    \<exists>hras. candidates key = Ret hras \<and> tgt_HRA t \<in> set hras \<and> IsZero (om_DeletionTimestamp (hra_Meta (tgt_HRA t))) \<and> suits t"
begin

lemma searched_key:
  assumes "getScaleUpTargetWithFunction a repo owner ownerType enterprise find = Ret (Some t)"
  shows "find (owner @ ''/'' @ repo) = Ret (Some t) \<or> (\<exists>rg. find (groupKey owner enterprise rg) = Ret (Some t))"
  using assms
proof (cases rule: getScaleUpTargetWithFunction_cases)
  case (searched managed visible)
  from Traverse_Some [OF searched(5)] show ?thesis by auto
qed blast

lemma target_suits:
  assumes "getScaleUpTargetWithFunction a repo owner ownerType enterprise find = Ret (Some t)"
  shows "IsZero (om_DeletionTimestamp (hra_Meta (tgt_HRA t))) \<and> suits t \<and>
    (\<exists>key hras. candidates key = Ret hras \<and> tgt_HRA t \<in> set hras)"
  using searched_key [OF assms] found by blast

end

lemma matchTriggers_set:
  "matchTriggers hra f ts = Ret res \<Longrightarrow> t \<in> set res \<Longrightarrow>
    tgt_HRA t = hra \<and> tgt_Trigger t \<in> set ts \<and> f (tgt_Trigger t) = Ret True"
  by (induction ts arbitrary: res) (auto simp: go_bind_Ret_iff split: if_splits)

lemma searchScaleTargets_set:
  "searchScaleTargets hras f = Ret res \<Longrightarrow> t \<in> set res \<Longrightarrow>
    tgt_HRA t \<in> set hras \<and> IsZero (om_DeletionTimestamp (hra_Meta (tgt_HRA t))) \<and>
    tgt_Trigger t \<in> set (hs_ScaleUpTriggers (hra_Spec (tgt_HRA t))) \<and> f (tgt_Trigger t) = Ret True"
proof (induction hras arbitrary: res)
  case (Cons hra hras)
  show ?case
  proof (cases "IsZero (om_DeletionTimestamp (hra_Meta hra))")
    case True
    with Cons.prems obtain m r where m: "matchTriggers hra f (hs_ScaleUpTriggers (hra_Spec hra)) = Ret m"
      and r: "searchScaleTargets hras f = Ret r" and "res = m @ r"
      by (auto simp: go_bind_Ret_iff)
    with Cons.prems(2) consider "t \<in> set m" | "t \<in> set r" by auto
    then show ?thesis
    proof cases
      case 1
      from matchTriggers_set [OF m this] True show ?thesis by auto
    next
      case 2
      from Cons.IH [OF r this] show ?thesis by auto
    qed
  qed (use Cons in auto)
qed simp

definition suitsEvent :: "(ScaleUpTrigger \<Rightarrow> bool go) \<Rightarrow> ScaleTarget \<Rightarrow> bool" where
  "suitsEvent f t \<longleftrightarrow> tgt_Trigger t \<in> set (hs_ScaleUpTriggers (hra_Spec (tgt_HRA t))) \<and> f (tgt_Trigger t) = Ret True"

definition suitsJob :: "WebhookReads \<Rightarrow> string list \<Rightarrow> ScaleTarget \<Rightarrow> bool" where
  "suitsJob k labels t \<longleftrightarrow> (\<exists>trigger ls. jobTrigger (tgt_HRA t) = Some trigger \<and> targetLabels k (tgt_HRA t) = Ret ls \<and>
     set labels \<subseteq> insert ''self-hosted'' (set ls) \<and> sut_Amount (tgt_Trigger t) = 0 \<and>
     sut_Duration (tgt_Trigger t) = jobDuration trigger)"

interpretation by_trigger: scale_target_finder "getScaleTarget a f" "findHRAsByKey a" "suitsEvent f" for a f
proof
  fix key t
  assume "getScaleTarget a f key = Ret (Some t)"
  then obtain hras res where h: "findHRAsByKey a key = Ret hras" and s: "searchScaleTargets hras f = Ret res" and "t \<in> set res"
    by (auto simp: getScaleTarget_def go_bind_Ret_iff split: if_splits)
  with searchScaleTargets_set [OF s] show "\<exists>hras. findHRAsByKey a key = Ret hras \<and> tgt_HRA t \<in> set hras \<and>
      IsZero (om_DeletionTimestamp (hra_Meta (tgt_HRA t))) \<and> suitsEvent f t"
    by (auto simp: suitsEvent_def)
qed

lemma searchJobTarget_Some:
  "searchJobTarget k labels hras = Ret (Some t) \<Longrightarrow>
    tgt_HRA t \<in> set hras \<and> IsZero (om_DeletionTimestamp (hra_Meta (tgt_HRA t))) \<and> suitsJob k labels t"
proof (induction k labels hras rule: searchJobTarget.induct)
  case (2 k labels hra hras)
  show ?case
  proof (cases "IsZero (om_DeletionTimestamp (hra_Meta hra)) \<and> jobTrigger hra \<noteq> None")
    case True
    then obtain trigger where z: "IsZero (om_DeletionTimestamp (hra_Meta hra))" and j: "jobTrigger hra = Some trigger" by auto
    with 2(4) obtain ls where l: "targetLabels k hra = Ret ls" by (auto simp: go_bind_Ret_iff)
    show ?thesis
    proof (cases "hasLabels labels ls")
      case True
      with z j l 2(4) have "t = \<lparr>tgt_HRA = hra, tgt_Trigger = \<lparr>sut_GitHubEvent = None, sut_Amount = 0, sut_Duration = jobDuration trigger\<rparr>\<rparr>"
        by simp
      with True z j l show ?thesis by (auto simp: suitsJob_def hasLabels_def list_all_iff)
    next
      case False
      with z j l 2(4) have "searchJobTarget k labels hras = Ret (Some t)" by simp
      with 2(3) [of trigger ls] z j False show ?thesis by auto
    qed
  next
    case False
    with 2(4) have s: "searchJobTarget k labels hras = Ret (Some t)" by (auto split: if_splits)
    with 2(1,2) False show ?thesis by (cases "IsZero (om_DeletionTimestamp (hra_Meta hra))") auto
  qed
qed simp

interpretation by_job: scale_target_finder "getJobScaleTarget a labels" "findHRAsByKey a" "suitsJob (wh_Reads a) labels" for a labels
proof
  fix key t
  assume "getJobScaleTarget a labels key = Ret (Some t)"
  then obtain hras where h: "findHRAsByKey a key = Ret hras" and s: "searchJobTarget (wh_Reads a) labels hras = Ret (Some t)"
    by (auto simp: getJobScaleTarget_def go_bind_Ret_iff)
  from h searchJobTarget_Some [OF s] show "\<exists>hras. findHRAsByKey a key = Ret hras \<and> tgt_HRA t \<in> set hras \<and>
      IsZero (om_DeletionTimestamp (hra_Meta (tgt_HRA t))) \<and> suitsJob (wh_Reads a) labels t"
    by auto
qed

subsection \<open>Which autoscaler is scaled\<close>

lemma managedGroups_sorted:
  "managedGroups k enterprise org hras groups = Ret res \<Longrightarrow> sortedGroups groups \<Longrightarrow> sortedGroups res"
  by (induction hras arbitrary: groups) (auto simp: Let_def go_bind_Ret_iff sorted_Add split: if_splits)

lemma visibleGroupsFor_sorted:
  assumes "visibleGroupsFor a owner key managed = Ret visible" and "sortedGroups managed"
  shows "sortedGroups visible"
proof (cases "wh_GitHubClient a")
  case (Some c)
  obtain gh url where c: "c = (gh, url)" by (cases c)
  with assms(1) Some have "GetRunnerGroupsVisibleToRepository gh url owner key managed = Ret visible"
    by (auto simp: visibleGroupsFor_def split: go.splits)
  then show ?thesis
    using addManaged_spec [OF sortedGroups_Nil] addAccessible_spec [OF _ sortedGroups_Nil]
    by (auto simp: GetRunnerGroupsVisibleToRepository_def go_bind_Ret_iff split: if_splits)
qed (use assms in \<open>simp add: visibleGroupsFor_def\<close>)

text \<open>
  C18. A job of a repository scales the repository's own autoscaler whenever there is one; otherwise the autoscaler scaled serves a runner group visible to the repository such that no visible
  group of higher precedence (default before custom, organization before enterprise) has one.
\<close>

theorem scale_target_precedence:
  assumes "getScaleUpTargetWithFunction a repo owner ownerType enterprise scaleTarget = Ret (Some t)"
  shows "scaleTarget (owner @ ''/'' @ repo) = Ret (Some t) \<or>
    (scaleTarget (owner @ ''/'' @ repo) = Ret None \<and> ownerType \<noteq> ''User'' \<and>
     (\<exists>managed visible rg. getManagedRunnerGroupsFromHRAs a enterprise owner = Ret managed \<and>
        visibleGroupsFor a owner (owner @ ''/'' @ repo) managed = Ret visible \<and> rg \<in> set visible \<and>
        scaleTarget (groupKey owner enterprise rg) = Ret (Some t) \<and>
        (\<forall>g. g \<in> set visible \<and> rank g < rank rg \<longrightarrow> scaleTarget (groupKey owner enterprise g) = Ret None)))"
proof -
  let ?f = "\<lambda>rg. scaleTarget (groupKey owner enterprise rg)"
  from assms show ?thesis
  proof (cases rule: getScaleUpTargetWithFunction_cases)
    case (searched managed visible)
    have "sortedGroups managed"
      using searched(3) by (auto simp: getManagedRunnerGroupsFromHRAs_def go_bind_Ret_iff intro: managedGroups_sorted)
    then have s: "sortedGroups visible" using visibleGroupsFor_sorted [OF searched(4)] by simp
    obtain xs rg ys where g: "visible = xs @ rg # ys" "?f rg = Ret (Some t)" "\<forall>y \<in> set xs. ?f y = Ret None"
      using Traverse_Some [OF searched(5)] by blast
    have "?f z = Ret None" if "z \<in> set visible" "rank z < rank rg" for z
    proof -
      have "z \<notin> set ys" "z \<noteq> rg" using s that(2) by (auto simp: g(1) sortedGroups_def sorted_append)
      with that(1) g show ?thesis by auto
    qed
    moreover have "rg \<in> set visible" using g(1) by simp
    ultimately show ?thesis using searched(1-4) g(2) by blast
  qed blast
qed

lemma Handle_queued_patch:
  fixes api :: "webhookCall api" and now now' :: time
  assumes "\<not> wq_IsGet r" and "readEvent a r = Ret (WorkflowJobEvent repo ''queued'' (Some (labels, conclusion)), slug)"
  defines "cs \<equiv> writes (Handle a api now now' r)"
  shows "cs = [] \<or>
    (\<exists>t trigger ls. cs = [PatchHRA ((tgt_HRA t)\<lparr>hra_Spec := (hra_Spec (tgt_HRA t))\<lparr>hs_CapacityReservations := scaledReservations now now' (setAmount 1 t)\<rparr>\<rparr>)] \<and>
      IsZero (om_DeletionTimestamp (hra_Meta (tgt_HRA t))) \<and> jobTrigger (tgt_HRA t) = Some trigger \<and> sut_Duration (tgt_Trigger t) = jobDuration trigger \<and>
      targetLabels (wh_Reads a) (tgt_HRA t) = Ret ls \<and> set labels \<subseteq> insert ''self-hosted'' (set ls))"
proof (cases "decideJob a slug repo ''queued'' (Some (labels, conclusion))")
  case (Ret d)
  then consider (none) "d = Scale None" | (some) t where "d = Scale (Some (setAmount 1 t))"
      "\<exists>name owner ownerType. getJobScaleUpTargetForRepoOrOrg a name owner ownerType slug labels = Ret (Some t)"
    by (fastforce simp: decideJob_def withRepo_def go_bind_Ret_iff split: option.splits)
  then show ?thesis
  proof cases
    case none
    with Ret assms show ?thesis by (simp add: Handle_def decideEvent_def go_simps)
  next
    case some
    then have s: "suitsJob (wh_Reads a) labels t" and z: "IsZero (om_DeletionTimestamp (hra_Meta (tgt_HRA t)))"
      using by_job.target_suits unfolding getJobScaleUpTargetForRepoOrOrg_def by blast+
    then obtain trigger ls where j: "jobTrigger (tgt_HRA t) = Some trigger" "targetLabels (wh_Reads a) (tgt_HRA t) = Ret ls"
      "set labels \<subseteq> insert ''self-hosted'' (set ls)" "sut_Duration (tgt_Trigger t) = jobDuration trigger"
      by (auto simp: suitsJob_def)
    have "cs = [PatchHRA ((tgt_HRA t)\<lparr>hra_Spec := (hra_Spec (tgt_HRA t))\<lparr>hs_CapacityReservations := scaledReservations now now' (setAmount 1 t)\<rparr>\<rparr>)]"
      using assms(1,2) Ret some(1)
      by (auto simp: cs_def Handle_def decideEvent_def tryScale_def setAmount_def Let_def go_simps split: option.splits)
    then show ?thesis using z j by blast
  qed
qed (use assms in \<open>simp_all add: Handle_def decideEvent_def go_simps\<close>)

text \<open>
  C10. The handling of a queued job writes nothing, or it patches exactly one autoscaler: one that is not being deleted, whose only trigger is a workflow job trigger and whose runners have all the labels
  the job asks for (self-hosted apart). The patch drops the expired reservations and adds one replica that expires after a positive time.
\<close>

theorem Handle_queued_job:
  fixes api :: "webhookCall api" and now now' :: time
  assumes "\<not> wq_IsGet r" and "readEvent a r = Ret (WorkflowJobEvent repo ''queued'' (Some (labels, conclusion)), slug)"
  defines "cs \<equiv> writes (Handle a api now now' r)"
  shows "cs = [] \<or>
    (\<exists>hra trigger ls. cs = [PatchHRA (hra\<lparr>hra_Spec := (hra_Spec hra)\<lparr>hs_CapacityReservations := getValidCapacityReservations now hra @
          [\<lparr>cr_Name = [], cr_ExpirationTime = now' + jobDuration trigger, cr_Replicas = 1, cr_EffectiveTime = now'\<rparr>]\<rparr>\<rparr>)] \<and>
      IsZero (om_DeletionTimestamp (hra_Meta hra)) \<and> jobTrigger hra = Some trigger \<and> 0 < jobDuration trigger \<and>
      targetLabels (wh_Reads a) hra = Ret ls \<and> set labels \<subseteq> insert ''self-hosted'' (set ls))"
  using Handle_queued_patch [OF assms(1,2), of api now now'] by (fastforce simp: cs_def scaledReservations_def setAmount_def jobDuration_def Let_def)

subsection \<open>An example\<close>

definition jobHRA :: HorizontalRunnerAutoscaler where
  "jobHRA = exampleHRA\<lparr>hra_Spec := (hra_Spec exampleHRA)\<lparr>hs_ScaleUpTriggers :=
     [\<lparr>sut_GitHubEvent = Some \<lparr>ge_CheckRun = None, ge_PullRequest = None, ge_Push = None, ge_WorkflowJob = Some WorkflowJobSpec\<rparr>,
       sut_Amount = 0, sut_Duration = 0\<rparr>]\<rparr>\<rparr>"

text \<open>One organizational deployment, found under its organization's key.\<close>

definition exampleWebhook :: HorizontalRunnerAutoscalerGitHubWebhook where
  "exampleWebhook = \<lparr>wh_Reads = \<lparr>w_ListHRAsByKey = \<lambda>ns key. Ret (if key = ''o'' then [jobHRA] else []), w_ListHRAs = \<lambda>ns. Ret [jobHRA],
     w_GetRD = \<lambda>ns n. Ret exampleRD, w_GetRS = \<lambda>ns n. Err (Kube NotFound)\<rparr>,
   wh_SecretKeyBytes = [], wh_GitHubClient = None, wh_Namespace = []\<rparr>"

definition exampleRepo :: RepoInfo where
  "exampleRepo = \<lparr>ri_Name = Some ''r'', ri_OwnerLogin = ''o'', ri_OwnerType = ''Organization''\<rparr>"

definition exampleRequest :: WebhookRequest where
  "exampleRequest = \<lparr>wq_IsGet = False, wq_ValidatePayload = \<lambda>s. Ret [], wq_ReadAll = Ret [],
     wq_ParseWebHook = \<lambda>p. Ret (WorkflowJobEvent (Some exampleRepo) ''queued'' (Some ([''self-hosted''], []))),
     wq_EnterpriseSlug = \<lambda>p. []\<rparr>"

definition jobTarget :: ScaleTarget where
  "jobTarget = \<lparr>tgt_HRA = jobHRA, tgt_Trigger = \<lparr>sut_GitHubEvent = None, sut_Amount = 0, sut_Duration = 10 * Minute\<rparr>\<rparr>"

lemma example_found:
  "getJobScaleTarget exampleWebhook [''self-hosted''] ''o/r'' = Ret None"
  "getJobScaleTarget exampleWebhook [''self-hosted''] ''o'' = Ret (Some jobTarget)"
  by (simp_all add: getJobScaleTarget_def findHRAsByKey_def exampleWebhook_def jobHRA_def exampleHRA_def emptyMeta_def jobTrigger_def
      targetLabels_def hasLabels_def jobDuration_def jobTarget_def)

lemma example_groups:
  "getManagedRunnerGroupsFromHRAs exampleWebhook [] ''o'' = Ret [newRunnerGroup Organization []]"
  by (simp add: getManagedRunnerGroupsFromHRAs_def exampleWebhook_def jobHRA_def exampleHRA_def exampleRD_def exampleSpec_def exampleConfig_def
      NewRunnerGroupFromProperties_def Add_eq_insertAfter) (simp add: NewVisibleRunnerGroups_def)

lemma example_target:
  "getScaleUpTargetWithFunction exampleWebhook ''r'' ''o'' ''Organization'' [] (getJobScaleTarget exampleWebhook [''self-hosted'']) =
    Ret (Some jobTarget)"
  using example_found example_groups
  by (simp add: getScaleUpTargetWithFunction_def Let_def visibleGroupsFor_def newRunnerGroup_def groupKey_def)
    (simp add: exampleWebhook_def)

theorem scale_target_precedence_witness:
  "\<exists>rg. getJobScaleTarget exampleWebhook [''self-hosted''] (groupKey ''o'' [] rg) = Ret (Some jobTarget)"
  using scale_target_precedence [OF example_target] example_found(1) by auto

theorem Handle_queued_job_witness:
  "writes (Handle exampleWebhook acceptAll 5 6 exampleRequest) \<noteq> [] \<and>
   (\<exists>hra trigger ls. jobTrigger hra = Some trigger \<and> 0 < jobDuration trigger \<and>
      targetLabels (wh_Reads exampleWebhook) hra = Ret ls)"
proof -
  have r: "readEvent exampleWebhook exampleRequest =
      Ret (WorkflowJobEvent (Some exampleRepo) ''queued'' (Some ([''self-hosted''], [])), [])"
    by (simp add: readEvent_def exampleWebhook_def exampleRequest_def)
  have w: "writes (Handle exampleWebhook acceptAll 5 6 exampleRequest) \<noteq> []"
    using r example_target
    by (simp add: Handle_def exampleRequest_def decideEvent_def decideJob_def withRepo_def exampleRepo_def
        getJobScaleUpTargetForRepoOrOrg_def tryScale_def writes_def ecall_def eret_def Let_def)
  have "\<not> wq_IsGet exampleRequest" by (simp add: exampleRequest_def)
  from Handle_queued_job [OF this r, of acceptAll 5 6] w show ?thesis by blast
qed

subsection \<open>Reservations over time\<close>

lemma sum_eraseReservation:
  "\<exists>r \<in> set rs. cr_Replicas r + amount = 0 \<Longrightarrow>
    (\<Sum>r \<leftarrow> eraseReservation amount rs. cr_Replicas r) = (\<Sum>r \<leftarrow> rs. cr_Replicas r) + amount"
  by (induction rs) auto

lemma set_eraseReservation: "set (eraseReservation amount rs) \<subseteq> set rs"
  by (induction rs) auto

definition withReservations :: "CapacityReservation list \<Rightarrow> HorizontalRunnerAutoscaler \<Rightarrow> HorizontalRunnerAutoscaler" where
  "withReservations rs hra = hra\<lparr>hra_Spec := (hra_Spec hra)\<lparr>hs_CapacityReservations := rs\<rparr>\<rparr>"

text \<open>The autoscaler after a patch was accepted.\<close>

definition afterScale :: "time \<Rightarrow> time \<Rightarrow> int \<Rightarrow> duration \<Rightarrow> HorizontalRunnerAutoscaler \<Rightarrow> HorizontalRunnerAutoscaler" where
  "afterScale now now' amount d hra =
     (let target = \<lparr>tgt_HRA = hra, tgt_Trigger = \<lparr>sut_GitHubEvent = None, sut_Amount = amount, sut_Duration = d\<rparr>\<rparr>
      in case writes (tryScale acceptAll now now' target) of [PatchHRA h] \<Rightarrow> h | _ \<Rightarrow> hra)"

lemma afterScale_eq:
  "afterScale now now' amount d hra = withReservations (scaledReservations now now'
     \<lparr>tgt_HRA = hra, tgt_Trigger = \<lparr>sut_GitHubEvent = None, sut_Amount = amount, sut_Duration = d\<rparr>\<rparr>) hra"
  by (simp add: afterScale_def tryScale_def withReservations_def Let_def go_simps)

abbreviation reservedAt :: "time \<Rightarrow> HorizontalRunnerAutoscaler \<Rightarrow> int" where
  "reservedAt now hra \<equiv> reservedReplicas now (hs_CapacityReservations (hra_Spec hra))"

lemma reservedAt_filter:
  "now \<le> now' \<Longrightarrow> reservedReplicas now' (filter (\<lambda>r. now < cr_ExpirationTime r) rs) = reservedReplicas now' rs"
  unfolding reservedReplicas_sum by (induction rs) auto

lemma scaledReservations_down:
  assumes "amount < 0" and "\<exists>r \<in> set (hs_CapacityReservations (hra_Spec hra)). now < cr_ExpirationTime r \<and> cr_Replicas r + amount = 0"
  shows "reservedAt now (afterScale now now' amount d hra) = reservedAt now hra + amount"
proof -
  let ?valid = "filter (\<lambda>r. now < cr_ExpirationTime r) (hs_CapacityReservations (hra_Spec hra))"
  have "filter (\<lambda>r. now < cr_ExpirationTime r) (eraseReservation amount ?valid) = eraseReservation amount ?valid"
    using set_eraseReservation [of amount ?valid] by (auto simp: filter_id_conv)
  moreover have "\<exists>r \<in> set ?valid. cr_Replicas r + amount = 0" using assms(2) by auto
  note sum_eraseReservation [OF this]
  ultimately show ?thesis using assms(1)
    by (simp add: afterScale_eq withReservations_def scaledReservations_def getValidCapacityReservations_def reservedReplicas_sum Let_def)
qed

lemma scaledReservations_up:
  assumes "0 < amount" and "now \<le> t" and "t < now' + d"
  shows "reservedAt t (afterScale now now' amount d hra) = reservedAt t hra + amount \<and>
    (\<exists>r \<in> set (hs_CapacityReservations (hra_Spec (afterScale now now' amount d hra))). t < cr_ExpirationTime r \<and> cr_Replicas r = amount)"
  using assms reservedAt_filter [OF assms(2), of "hs_CapacityReservations (hra_Spec hra)"]
  by (simp add: afterScale_eq withReservations_def scaledReservations_def getValidCapacityReservations_def reservedReplicas_sum Let_def)

text \<open>
  C19. A queued job followed by its completion before the reservation expires cancel out: at the time of the completion as many replicas are reserved as would be without the job, whatever other
  reservations there are and whichever reservation of one replica is the one erased.
\<close>

theorem queued_completed_cancel:
  assumes "queuedAt \<le> completedAt" and "completedAt < queuedAt' + d"
  shows "reservedAt completedAt (afterScale completedAt completedAt' (- 1) d' (afterScale queuedAt queuedAt' 1 d hra)) = reservedAt completedAt hra"
proof -
  note up = scaledReservations_up [of 1 queuedAt completedAt queuedAt' d hra, OF _ assms]
  then have "\<exists>r \<in> set (hs_CapacityReservations (hra_Spec (afterScale queuedAt queuedAt' 1 d hra))).
      completedAt < cr_ExpirationTime r \<and> cr_Replicas r + (- 1) = 0" by auto
  from scaledReservations_down [OF _ this] up show ?thesis by simp
qed

theorem queued_completed_cancel_witness:
  "reservedAt 7 (afterScale 7 8 (- 1) 0 (afterScale 5 6 1 (10 * Minute) jobHRA)) = 2"
  using queued_completed_cancel [of 5 7 6 "10 * Minute" 8 0 jobHRA]
  by (simp add: jobHRA_def exampleHRA_def reservedReplicas_def)

subsection \<open>Handlers that interleave\<close>

text \<open>
  The server handles requests concurrently. A handler first reads the autoscaler, then patches it; the merge patch it sends holds the whole new list of reservations, computed from
  what it read. The steps of handler \<open>i\<close>, each for a queued job, on the stored autoscaler and what the handlers have read:
\<close>

datatype handlerAction = ReadHRA nat | PatchReservations nat

type_synonym handlers = "HorizontalRunnerAutoscaler \<times> (nat \<rightharpoonup> HorizontalRunnerAutoscaler)"

fun handlerStep :: "time \<Rightarrow> duration \<Rightarrow> handlerAction \<Rightarrow> handlers \<Rightarrow> handlers" where
  "handlerStep now d (ReadHRA i) (stored, seen) = (stored, seen(i \<mapsto> stored))"
| "handlerStep now d (PatchReservations i) (stored, seen) =
     (case seen i of
        None \<Rightarrow> (stored, seen)
      | Some h \<Rightarrow> (withReservations (hs_CapacityReservations (hra_Spec (afterScale now now 1 d h))) stored, seen))"

definition runHandlers :: "time \<Rightarrow> duration \<Rightarrow> handlerAction list \<Rightarrow> HorizontalRunnerAutoscaler \<Rightarrow> HorizontalRunnerAutoscaler" where
  "runHandlers now d steps hra = fst (fold (handlerStep now d) steps (hra, Map.empty))"

lemma reservedAt_with [simp]: "reservedAt t (withReservations rs hra) = reservedReplicas t rs"
  by (simp add: withReservations_def)

text \<open>
  C40. Two queued jobs handled one after the other reserve two replicas; handled at the same time, each reading before the other patches, they reserve only one: the second patch replaces the list the
  first one wrote.
\<close>

theorem interleaved_handlers_lose_a_reservation:
  assumes "now \<le> t" and "t < now + d"
  shows "reservedAt t (runHandlers now d [ReadHRA 0, PatchReservations 0, ReadHRA 1, PatchReservations 1] hra) = reservedAt t hra + 2 \<and>
    reservedAt t (runHandlers now d [ReadHRA 0, ReadHRA 1, PatchReservations 0, PatchReservations 1] hra) = reservedAt t hra + 1"
  using scaledReservations_up [of 1 now t now d, OF _ assms] by (simp add: runHandlers_def)

theorem interleaved_handlers_lose_a_reservation_witness:
  "reservedAt 5 (runHandlers 5 60 [ReadHRA 0, ReadHRA 1, PatchReservations 0, PatchReservations 1] jobHRA) = 3"
  using interleaved_handlers_lose_a_reservation [of 5 5 60 jobHRA]
  by (simp add: jobHRA_def exampleHRA_def reservedReplicas_def)

subsection \<open>A failing search\<close>

text \<open>
  An error while looking up a visible runner group (an unreadable scale target, say) is not reported: the search answers that there is no target, and the request is answered with status 200 as if nothing were configured,
  so that GitHub will not deliver the event again. The error of the traversal is tested but a different, nil, error is returned.
\<close>

theorem group_search_error_swallowed:
  assumes "\<not> wq_IsGet r" and "readEvent a r = Ret (WorkflowJobEvent (Some repo) ''queued'' (Some (labels, conclusion)), slug)"
    and "ri_Name repo = Some name" and "ri_OwnerType repo \<noteq> ''User''"
    and "getJobScaleTarget a labels (ri_OwnerLogin repo @ ''/'' @ name) = Ret None"
    and "getManagedRunnerGroupsFromHRAs a slug (ri_OwnerLogin repo) = Ret managed"
    and "visibleGroupsFor a (ri_OwnerLogin repo) (ri_OwnerLogin repo @ ''/'' @ name) managed = Ret (rg # rgs)"
    and "getJobScaleTarget a labels (groupKey (ri_OwnerLogin repo) slug rg) = Err e"
  shows "outcome (Handle a api now now' r) = Ret (resp 200 (Message ''no horizontalrunnerautoscaler to scale for this github event''))"
proof -
  have "getJobScaleUpTargetForRepoOrOrg a name (ri_OwnerLogin repo) (ri_OwnerType repo) slug labels = Ret None"
    using assms(4-8) by (simp add: getJobScaleUpTargetForRepoOrOrg_def getScaleUpTargetWithFunction_def Let_def)
  with assms(1-3) show ?thesis
    by (simp add: Handle_def decideEvent_def decideJob_def withRepo_def outcome_def eret_def)
qed

text \<open>The lookup of the organization's autoscalers times out.\<close>

definition failingWebhook :: HorizontalRunnerAutoscalerGitHubWebhook where
  "failingWebhook = exampleWebhook\<lparr>wh_Reads := (wh_Reads exampleWebhook)\<lparr>
     w_ListHRAsByKey := \<lambda>ns key. if key = ''o'' then Err (Kube (KubeErr ''timeout'')) else Ret []\<rparr>\<rparr>"

theorem group_search_error_swallowed_witness:
  "outcome (Handle failingWebhook acceptAll 5 6 exampleRequest) =
    Ret (resp 200 (Message ''no horizontalrunnerautoscaler to scale for this github event''))"
proof (rule group_search_error_swallowed [where repo = exampleRepo and name = "''r''" and labels = "[''self-hosted'']" and slug = "[]"
      and conclusion = "[]" and managed = "[newRunnerGroup Organization []]" and rg = "newRunnerGroup Organization []" and rgs = "[]"
      and e = "Kube (KubeErr ''timeout'')"])
  show "getManagedRunnerGroupsFromHRAs failingWebhook [] (ri_OwnerLogin exampleRepo) = Ret [newRunnerGroup Organization []]"
    by (simp add: getManagedRunnerGroupsFromHRAs_def failingWebhook_def exampleWebhook_def jobHRA_def exampleHRA_def exampleRD_def exampleSpec_def exampleConfig_def
        exampleRepo_def NewRunnerGroupFromProperties_def Add_eq_insertAfter) (simp add: NewVisibleRunnerGroups_def)
qed (simp_all add: readEvent_def failingWebhook_def exampleWebhook_def exampleRequest_def exampleRepo_def getJobScaleTarget_def findHRAsByKey_def
    visibleGroupsFor_def groupKey_def newRunnerGroup_def)

end
