(* ===== verification/Kube_Calls.thy ===== *)
theory Kube_Calls
  imports Api_Types
begin

section \<open>Writes of the runner controllers\<close>

text \<open>
  The calls that the runner, runner pod, replica set, deployment and runner set controllers make: writes to the Kubernetes API, the removal of a runner on GitHub, and events. \<open>Result\<close> is
  \<open>ctrl.Result\<close>; a helper that may end the reconciliation with a result and an error returns a \<open>step\<close>.
\<close>

datatype kubeCall =
    CreatePod Pod
  | PatchPod Pod
  | DeletePod Pod bool
  | CreateRunner Runner
  | UpdateRunner Runner
  | PatchRunner Runner
  | PatchRunnerStatus Runner
  | DeleteRunner Runner
  | CreateStatefulSet StatefulSet
  | PatchStatefulSet StatefulSet
  | DeleteStatefulSet StatefulSet
  | CreateReplicaSet RunnerReplicaSet
  | UpdateReplicaSet RunnerReplicaSet
  | PatchReplicaSet RunnerReplicaSet
  | PatchReplicaSetStatus RunnerReplicaSet
  | DeleteReplicaSet RunnerReplicaSet
  | PatchDeploymentStatus RunnerDeployment
  | PatchRunnerSetStatus RunnerSet
  | RemoveGitHubRunner string string string int
  | Event string

record Result =
  res_Requeue :: bool
  res_RequeueAfter :: duration

definition emptyResult :: Result where "emptyResult = \<lparr>res_Requeue = False, res_RequeueAfter = 0\<rparr>"
definition requeueAfter :: "duration \<Rightarrow> Result" where "requeueAfter d = \<lparr>res_Requeue = False, res_RequeueAfter = d\<rparr>"
definition requeue :: Result where "requeue = \<lparr>res_Requeue = True, res_RequeueAfter = 0\<rparr>"

datatype 'a step = Done 'a | Stop Result "goerr option"

definition sdone :: "'a \<Rightarrow> ('c, 'a step) eff" where "sdone x = eret (Done x)"
definition sstop :: "Result \<Rightarrow> goerr option \<Rightarrow> ('c, 'a step) eff" where "sstop r e = eret (Stop r e)"

definition sbind :: "('c, 'a step) eff \<Rightarrow> ('a \<Rightarrow> ('c, 'b step) eff) \<Rightarrow> ('c, 'b step) eff" where
  "sbind m f = ebind m (\<lambda>s. case s of Done x \<Rightarrow> f x | Stop r e \<Rightarrow> eret (Stop r e))"

text \<open>\<open>sorElse r m\<close>: where \<open>m\<close> fails, stop with the result \<open>r\<close> and the error.\<close>

definition sorElse :: "Result \<Rightarrow> ('c, 'a) eff \<Rightarrow> ('c, 'a step) eff" where
  "sorElse r m = ecatch (ebind m (\<lambda>x. eret (Done x))) (\<lambda>e. eret (Stop r (Some e)))"

lemmas step_defs [go_simps] = sdone_def sstop_def sbind_def sorElse_def

text \<open>A reconciliation returns its result, with an error as the outcome \<open>Err\<close>: \<open>finish\<close> ends one with what a step stopped with.\<close>

definition finish :: "('c, Result step) eff \<Rightarrow> ('c, Result) eff" where
  "finish m = ebind m (\<lambda>s. case s of Done r \<Rightarrow> eret r | Stop r None \<Rightarrow> eret r | Stop r (Some e) \<Rightarrow> eerr e)"

lemmas finish_go [go_simps] = finish_def

text \<open>A write whose error ends the function.\<close>

definition ewrite :: "'c api \<Rightarrow> 'c \<Rightarrow> ('c, unit) eff" where
  "ewrite api c = ecall api c (\<lambda>e. case e of None \<Rightarrow> eret () | Some err \<Rightarrow> eerr err)"

lemmas ewrite_go [go_simps] = ewrite_def

end
