(* ===== verification/Go_Rfc3339.thy ===== *)
theory Go_Rfc3339
  imports Go_Time Fnv_Hash
begin

section \<open>Timestamps in annotations\<close>

text \<open>
  \<open>Time.Format\<close> and \<open>time.Parse\<close> with the layout \<open>time.RFC3339\<close>, which the controllers use to keep times in annotations. Times are formatted to the second. Parsing follows
  the standard library: an hour of one digit and a fraction after the seconds are accepted.
\<close>

definition padInt :: "nat \<Rightarrow> int \<Rightarrow> string" where
  "padInt w i = (let s = Itoa (nat i) in replicate (w - length s) CHR ''0'' @ s)"

definition zoneString :: "duration \<Rightarrow> string" where
  "zoneString loc =
     (if loc = 0 then ''Z''
      else (let m = \<bar>loc\<bar> div Minute
            in (if loc < 0 then ''-'' else ''+'') @ padInt 2 (m div 60) @ '':'' @ padInt 2 (m mod 60)))"

definition FormatRFC3339 :: "duration \<Rightarrow> time \<Rightarrow> string" where
  "FormatRFC3339 loc t =
     (let (year, month, day) = civil loc t; s = clock loc t div Second
      in padInt 4 year @ ''-'' @ padInt 2 month @ ''-'' @ padInt 2 day @ ''T'' @
         padInt 2 (s div 3600) @ '':'' @ padInt 2 (s div 60 mod 60) @ '':'' @ padInt 2 (s mod 60) @ zoneString loc)"

definition isDigitC :: "char \<Rightarrow> bool" where "isDigitC c \<longleftrightarrow> of_char c \<ge> (48 :: nat) \<and> of_char c \<le> (57 :: nat)"

definition digitsVal :: "string \<Rightarrow> int" where
  "digitsVal s = foldl (\<lambda>acc c. acc * 10 + (of_char c - 48)) 0 s"

text \<open>\<open>getnum\<close>: two digits, or one where the layout does not fix the width.\<close>

definition getnum :: "bool \<Rightarrow> string \<Rightarrow> (int \<times> string) option" where
  "getnum fixed s =
     (case s of
        [] \<Rightarrow> None
      | c # cs \<Rightarrow>
          if \<not> isDigitC c then None
          else (case cs of
              d # ds \<Rightarrow> if isDigitC d then Some (digitsVal [c, d], ds) else if fixed then None else Some (digitsVal [c], cs)
            | [] \<Rightarrow> if fixed then None else Some (digitsVal [c], cs)))"

definition getYear :: "string \<Rightarrow> (int \<times> string) option" where
  "getYear s = (if length s \<ge> 4 \<and> list_all isDigitC (take 4 s) then Some (digitsVal (take 4 s), drop 4 s) else None)"

definition skip :: "char \<Rightarrow> string \<Rightarrow> string option" where
  "skip c s = (case s of d # ds \<Rightarrow> if d = c then Some ds else None | [] \<Rightarrow> None)"

text \<open>A fraction of a second: its digits up to the ninth count as nanoseconds.\<close>

definition getFraction :: "string \<Rightarrow> int \<times> string" where
  "getFraction s =
     (case s of
        c # d # _ \<Rightarrow>
          if (c = CHR ''.'' \<or> c = CHR '','') \<and> isDigitC d then
            (let ds = takeWhile isDigitC (tl s); nine = take 9 (ds @ replicate 9 CHR ''0'')
             in (digitsVal nine, drop (length ds) (tl s)))
          else (0, s)
      | _ \<Rightarrow> (0, s))"

definition getZone :: "string \<Rightarrow> (duration \<times> string) option" where
  "getZone s =
     (case s of
        c # cs \<Rightarrow>
          if c = CHR ''Z'' then Some (0, cs)
          else if (c = CHR ''+'' \<or> c = CHR ''-'') \<and> length s \<ge> 6 \<and> s ! 3 = CHR '':'' \<and> list_all isDigitC [s ! 1, s ! 2, s ! 4, s ! 5] then
            (let off = (digitsVal [s ! 1, s ! 2] * 60 + digitsVal [s ! 4, s ! 5]) * Minute
             in Some (if c = CHR ''-'' then - off else off, drop 6 s))
          else None
      | [] \<Rightarrow> None)"

definition daysIn :: "int \<Rightarrow> int \<Rightarrow> int" where
  "daysIn month year =
     (if month = 2 then (if isLeap year then 29 else 28)
      else if month \<in> {4, 6, 9, 11} then 30 else 31)"

definition ParseRFC3339 :: "string \<Rightarrow> time option" where
  "ParseRFC3339 s =
     Option.bind (getYear s) (\<lambda>(year, s). Option.bind (skip CHR ''-'' s) (\<lambda>s.
     Option.bind (getnum True s) (\<lambda>(month, s). Option.bind (skip CHR ''-'' s) (\<lambda>s.
     Option.bind (getnum True s) (\<lambda>(day, s). Option.bind (skip CHR ''T'' s) (\<lambda>s.
     Option.bind (getnum False s) (\<lambda>(hour, s). Option.bind (skip CHR '':'' s) (\<lambda>s.
     Option.bind (getnum True s) (\<lambda>(mins, s). Option.bind (skip CHR '':'' s) (\<lambda>s.
     Option.bind (getnum True s) (\<lambda>(sec, s).
     (let (nanos, s) = getFraction s
      in Option.bind (getZone s) (\<lambda>(loc, s).
           if s \<noteq> [] \<or> month < 1 \<or> month > 12 \<or> hour \<ge> 24 \<or> mins \<ge> 60 \<or> sec \<ge> 60 \<or> day < 1 \<or> day > daysIn month year then None
           else Some (Date loc year month day ((hour * 3600 + mins * 60 + sec) * Second + nanos)))))))))))))))"

end
