(* ===== verification/Go_Numbers.thy ===== *)
theory Go_Numbers
  imports Go_Rfc3339
begin

section \<open>Numbers in texts\<close>

text \<open>
  \<open>strconv.ParseInt\<close> and that it reads what \<open>strconv.FormatInt\<close> and \<open>fmt.Sprintf("%d")\<close> write. On the platforms the programs run on, \<open>strconv.Atoi\<close> is the same function.
\<close>

text \<open>\<open>strconv.ParseInt(s, 10, 64)\<close>\<close>

definition ParseInt10 :: "string \<Rightarrow> int option" where
  "ParseInt10 s =
     (let neg = (case s of c # _ \<Rightarrow> c = CHR ''-'' | [] \<Rightarrow> False);
          ds = (case s of c # cs \<Rightarrow> if c = CHR ''-'' \<or> c = CHR ''+'' then cs else s | [] \<Rightarrow> []);
          v = (if neg then - digitsVal ds else digitsVal ds)
      in if ds = [] \<or> \<not> list_all isDigitC ds then None
         else if v < - (2 ^ 63) \<or> v \<ge> 2 ^ 63 then None
         else Some v)"

lemma digit_char:
  assumes "n < 10"
  shows "isDigitC (char_of (48 + n))" and "(of_char (char_of (48 + n)) :: int) = 48 + int n"
proof -
  have c: "(of_char (char_of (48 + n)) :: nat) = 48 + n" using assms by simp
  then show "isDigitC (char_of (48 + n))" using assms by (simp add: isDigitC_def)
  have "(of_char (char_of (48 + n)) :: int) = int (of_char (char_of (48 + n)))" by (simp only: of_nat_of_char)
  with c show "(of_char (char_of (48 + n)) :: int) = 48 + int n" by simp
qed

lemma Itoa_digits: "list_all isDigitC (Itoa n) \<and> Itoa n \<noteq> []"
proof (induction n rule: Itoa.induct)
  case (1 n)
  then show ?case by (subst (1 2) Itoa.simps) (simp add: digit_char)
qed

lemma digitsVal_snoc: "digitsVal (s @ [c]) = digitsVal s * 10 + (of_char c - 48)"
  by (simp add: digitsVal_def)

lemma digitsVal_Itoa: "digitsVal (Itoa n) = int n"
proof (induction n rule: Itoa.induct)
  case (1 n)
  show ?case
  proof (cases "n < 10")
    case True
    then show ?thesis by (subst Itoa.simps) (simp add: digitsVal_def digit_char)
  next
    case False
    with 1 have "digitsVal (Itoa (n div 10)) = int (n div 10)" by blast
    with False show ?thesis by (subst Itoa.simps) (simp add: digitsVal_snoc digit_char, presburger)
  qed
qed

text \<open>An id written with \<open>%d\<close> is read back by \<open>strconv.ParseInt\<close>, or refused when it does not fit 64 bits.\<close>

lemma ParseInt10_Sprintd: "ParseInt10 (Sprintd i) = (if - (2 ^ 63) \<le> i \<and> i < 2 ^ 63 then Some i else None)"
proof (cases "i < 0")
  case True
  have "list_all isDigitC (Itoa (nat (- i))) \<and> Itoa (nat (- i)) \<noteq> [] \<and> digitsVal (Itoa (nat (- i))) = - i"
    using True by (simp add: Itoa_digits digitsVal_Itoa)
  with True show ?thesis by (auto simp: ParseInt10_def Sprintd_def)
next
  case False
  obtain c cs where s: "Itoa (nat i) = c # cs" using Itoa_digits [of "nat i"] by (cases "Itoa (nat i)") auto
  have "isDigitC c" "list_all isDigitC cs" "digitsVal (c # cs) = i"
    using Itoa_digits [of "nat i"] digitsVal_Itoa [of "nat i"] False by (simp_all add: s)
  moreover have "c \<noteq> CHR ''-''" "c \<noteq> CHR ''+''" using calculation(1) by (auto simp: isDigitC_def)
  ultimately show ?thesis using False by (auto simp: ParseInt10_def Sprintd_def s)
qed

end
