(* ===== verification/Graceful_Stop.thy ===== *)
theory Graceful_Stop
  imports Kube_Calls GitHub_Client Go_Numbers
begin

section \<open>Stopping a runner gracefully\<close>

text \<open>
  Model of \<open>src/controllers/runner_graceful_stop.go\<close> and of the pod predicates of \<open>runner_controller.go\<close>: how a runner pod is brought, over several reconciliations,
  to where it can be deleted without disrupting a job. A nil \<open>*Pod\<close> is \<open>None\<close>. Of go-github's errors, whether one is a rate limit error in the sense of \<open>errors.Is\<close> is a parameter.
\<close>

record StopEnv =
  se_GitHub :: GitHub
  se_IsRateLimit :: "goerr \<Rightarrow> bool"
  se_Stamp :: string

definition retryDelayOnGitHubAPIRateLimitError :: duration where "retryDelayOnGitHubAPIRateLimitError = 30 * Second"
definition EnvVarEphemeral :: string where "EnvVarEphemeral = ''RUNNER_EPHEMERAL''"

subsection \<open>What the state of a pod says\<close>

definition runnerPodReady :: "Pod \<Rightarrow> bool" where
  "runnerPodReady pod =
     (case List.find (\<lambda>c. pc_Type c = ''Ready'') (pst_Conditions (pod_Status pod)) of
        None \<Rightarrow> False
      | Some c \<Rightarrow> pc_Status c = ''True'')"

fun exitCode :: "ContainerStatus list \<Rightarrow> int option" where
  "exitCode [] = None"
| "exitCode (s # ss) =
     (if cs_Name s \<noteq> containerName then exitCode ss
      else if cs_Terminated s \<noteq> None then cs_Terminated s
      else exitCode ss)"

definition runnerContainerExitCode :: "Pod \<Rightarrow> int option" where
  "runnerContainerExitCode pod = exitCode (pst_ContainerStatuses (pod_Status pod))"

definition runnerPodOrContainerIsStopped :: "Pod \<Rightarrow> bool" where
  "runnerPodOrContainerIsStopped pod =
     (let phase = pst_Phase (pod_Status pod); stopped = (phase = Succeeded \<or> phase = Failed)
      in if \<not> stopped then
           (if phase = Running then
              fold (\<lambda>s st. if cs_Name s \<noteq> containerName then st else if cs_Terminated s \<noteq> None then True else st)
                (pst_ContainerStatuses (pod_Status pod)) stopped
            else stopped)
         else stopped)"

definition podConditionTransitionTime :: "Pod \<Rightarrow> string \<Rightarrow> string \<Rightarrow> time option" where
  "podConditionTransitionTime pod tpe v =
     map_option pc_LastTransitionTime (List.find (\<lambda>c. pc_Type c = tpe \<and> pc_Status c = v) (pst_Conditions (pod_Status pod)))"

definition podConditionTransitionTimeAfter :: "time \<Rightarrow> Pod \<Rightarrow> string \<Rightarrow> duration \<Rightarrow> bool" where
  "podConditionTransitionTimeAfter now pod tpe d =
     (case podConditionTransitionTime pod tpe ''True'' of None \<Rightarrow> False | Some c \<Rightarrow> c + d < now)"

definition podRunnerID :: "Pod \<Rightarrow> string" where
  "podRunnerID pod = (case getAnnotation (pod_Meta pod) AnnotationKeyRunnerID of None \<Rightarrow> [] | Some i \<Rightarrow> i)"

text \<open>The value of an environment variable of the runner container: the first match in the first container that has it.\<close>

fun getEnvIn :: "Container list \<Rightarrow> string \<Rightarrow> string" where
  "getEnvIn [] key = []"
| "getEnvIn (c # cs) key =
     (if c_Name c = containerName then
        (case List.find (\<lambda>e. ev_Name e = key) (c_Env c) of Some e \<Rightarrow> ev_Value e | None \<Rightarrow> getEnvIn cs key)
      else getEnvIn cs key)"

definition getRunnerEnv :: "Pod \<Rightarrow> string \<Rightarrow> string" where
  "getRunnerEnv pod key = getEnvIn (ps_Containers (pod_Spec pod)) key"

fun setEnv :: "EnvVar list \<Rightarrow> string \<Rightarrow> string \<Rightarrow> EnvVar list option" where
  "setEnv [] key val = None"
| "setEnv (e # es) key val =
     (if ev_Name e = key then Some (e\<lparr>ev_Value := val\<rparr> # es) else map_option ((#) e) (setEnv es key val))"

fun setEnvIn :: "Container list \<Rightarrow> string \<Rightarrow> string \<Rightarrow> Container list" where
  "setEnvIn [] key val = []"
| "setEnvIn (c # cs) key val =
     (if c_Name c = containerName then
        (case setEnv (c_Env c) key val of
           Some env \<Rightarrow> c\<lparr>c_Env := env\<rparr> # cs
         | None \<Rightarrow> c\<lparr>c_Env := c_Env c @ [\<lparr>ev_Name = key, ev_Value = val\<rparr>]\<rparr> # setEnvIn cs key val)
      else c # setEnvIn cs key val)"

definition setRunnerEnv :: "Pod \<Rightarrow> string \<Rightarrow> string \<Rightarrow> Pod" where
  "setRunnerEnv pod key val = pod\<lparr>pod_Spec := (pod_Spec pod)\<lparr>ps_Containers := setEnvIn (ps_Containers (pod_Spec pod)) key val\<rparr>\<rparr>"

subsection \<open>GitHub\<close>

text \<open>\<open>unregisterRunner\<close> returns true when GitHub removed the runner; it never returns false without an error.\<close>

definition unregisterRunner :: "GitHub \<Rightarrow> string \<Rightarrow> string \<Rightarrow> string \<Rightarrow> int \<Rightarrow> (kubeCall, bool) eff" where
  "unregisterRunner gh enterprise org repo i =
     elog (RemoveGitHubRunner enterprise org repo i)
       (ebind (elift (RemoveRunner gh enterprise org repo i)) (\<lambda>_. eret True))"

definition getRunner :: "GitHub \<Rightarrow> string \<Rightarrow> string \<Rightarrow> string \<Rightarrow> string \<Rightarrow> GhRunner option go" where
  "getRunner gh enterprise org repo name =
     go_bind (ListRunners gh enterprise org repo) (\<lambda>runners. Ret (List.find (\<lambda>r. GetName r = name) runners))"

subsection \<open>The tick\<close>

definition annotatePodOnce :: "kubeCall api \<Rightarrow> Pod option \<Rightarrow> string \<Rightarrow> string \<Rightarrow> (kubeCall, Pod option) eff" where
  "annotatePodOnce api pod k v =
     (case pod of
        None \<Rightarrow> eret None
      | Some p \<Rightarrow>
          if getAnnotation (pod_Meta p) k \<noteq> None then eret (Some p)
          else (let updated = p\<lparr>pod_Meta := setAnnotation (pod_Meta p) k v\<rparr>
                in ebind (ewrite api (PatchPod updated)) (\<lambda>_. eret (Some updated))))"

definition annotationNonEmpty :: "Pod \<Rightarrow> string \<Rightarrow> bool" where
  "annotationNonEmpty p k = (case getAnnotation (pod_Meta p) k of None \<Rightarrow> False | Some v \<Rightarrow> v \<noteq> [])"

text \<open>The runner's id: from the pod's annotation, else from GitHub's list of runners.\<close>

definition runnerIDOf :: "GitHub \<Rightarrow> string \<Rightarrow> string \<Rightarrow> string \<Rightarrow> string \<Rightarrow> Pod \<Rightarrow> (kubeCall, int option step) eff" where
  "runnerIDOf gh enterprise organization repository runner p =
     (case getAnnotation (pod_Meta p) AnnotationKeyRunnerID of
        Some i \<Rightarrow> (case ParseInt10 i of None \<Rightarrow> sstop emptyResult (Some (Errorf ''strconv.ParseInt'')) | Some v \<Rightarrow> sdone (Some v))
      | None \<Rightarrow>
          sbind (sorElse emptyResult (elift (getRunner gh enterprise organization repository runner)))
            (\<lambda>r. sdone (Option.bind r ghr_ID)))"

text \<open>What follows a failed attempt to remove the runner from GitHub.\<close>

definition unregistrationFailed ::
  "StopEnv \<Rightarrow> kubeCall api \<Rightarrow> duration \<Rightarrow> string \<Rightarrow> string \<Rightarrow> string \<Rightarrow> string \<Rightarrow> Pod \<Rightarrow> goerr \<Rightarrow> (kubeCall, unit step) eff" where
  "unregistrationFailed env api retryDelay enterprise organization repository runner p err =
     (if se_IsRateLimit env err then sstop (requeueAfter retryDelayOnGitHubAPIRateLimitError) (Some err)
      else
        (let code = runnerContainerExitCode p;
             busy = (asErrorResponse err = Some 422);
             goOn = (if busy then
                 (if getRunnerEnv p EnvVarEphemeral = ''true'' then
                    sbind (sorElse emptyResult (annotatePodOnce api (Some p) AnnotationKeyRunnerCompletionWaitStartTimestamp (se_Stamp env)))
                      (\<lambda>_. sstop emptyResult None)
                  else sstop (requeueAfter retryDelay) None)
               else sstop emptyResult (Some err))
         in case asErrorResponse err of
              None \<Rightarrow> goOn
            | Some status \<Rightarrow>
                if status = 403 then sdone ()
                else ebind (ecatch (elift (getRunner (se_GitHub env) enterprise organization repository runner)) (\<lambda>e. eret None))
                  (\<lambda>_. if busy \<and> code \<noteq> None then sdone () else goOn)))"

definition ensureRunnerUnregistration ::
  "StopEnv \<Rightarrow> kubeCall api \<Rightarrow> duration \<Rightarrow> string \<Rightarrow> string \<Rightarrow> string \<Rightarrow> string \<Rightarrow> Pod option \<Rightarrow> (kubeCall, unit step) eff" where
  "ensureRunnerUnregistration env api retryDelay enterprise organization repository runner pod =
     (case pod of
        None \<Rightarrow> epanic ''nil pointer dereference''
      | Some p \<Rightarrow>
          sbind (runnerIDOf (se_GitHub env) enterprise organization repository runner p)
            (\<lambda>runnerID.
              if annotationNonEmpty p AnnotationKeyUnregistrationCompleteTimestamp then sdone ()
              else case runnerID of
                  None \<Rightarrow> sdone ()
                | Some i \<Rightarrow>
                    if runnerPodOrContainerIsStopped p then sdone ()
                    else if annotationNonEmpty p AnnotationKeyRunnerCompletionWaitStartTimestamp then sstop (requeueAfter retryDelay) None
                    else ebind (ecatch (ebind (unregisterRunner (se_GitHub env) enterprise organization repository i) (\<lambda>ok. eret (Inr ok)))
                                 (\<lambda>e. eret (Inl e)))
                      (\<lambda>r. case r of
                           Inl err \<Rightarrow> unregistrationFailed env api retryDelay enterprise organization repository runner p err
                         | Inr ok \<Rightarrow> if ok then sdone () else sstop (requeueAfter retryDelay) None)))"

definition tickRunnerGracefulStop ::
  "StopEnv \<Rightarrow> kubeCall api \<Rightarrow> duration \<Rightarrow> string \<Rightarrow> string \<Rightarrow> string \<Rightarrow> string \<Rightarrow> Pod option \<Rightarrow> (kubeCall, Pod option step) eff" where
  "tickRunnerGracefulStop env api retryDelay enterprise organization repository runner pod =
     sbind (sorElse emptyResult (annotatePodOnce api pod AnnotationKeyUnregistrationStartTimestamp (se_Stamp env)))
       (\<lambda>pod. sbind (ensureRunnerUnregistration env api retryDelay enterprise organization repository runner pod)
         (\<lambda>_. sorElse emptyResult (annotatePodOnce api pod AnnotationKeyUnregistrationCompleteTimestamp (se_Stamp env))))"

definition ensureRunnerPodRegistered ::
  "GitHub \<Rightarrow> kubeCall api \<Rightarrow> string \<Rightarrow> string \<Rightarrow> string \<Rightarrow> string \<Rightarrow> Pod \<Rightarrow> (kubeCall, Pod step) eff" where
  "ensureRunnerPodRegistered gh api enterprise organization repository runner p =
     (if runnerPodOrContainerIsStopped p \<or> getAnnotation (pod_Meta p) AnnotationKeyRunnerID \<noteq> None then sdone p
      else sbind (sorElse (requeueAfter (10 * Second)) (elift (getRunner gh enterprise organization repository runner)))
        (\<lambda>r. case Option.bind r ghr_ID of
             None \<Rightarrow> sstop (requeueAfter (10 * Second)) None
           | Some i \<Rightarrow>
               sbind (sorElse (requeueAfter (10 * Second))
                   (annotatePodOnce api (Some p) AnnotationKeyRunnerID (Sprintd i)))
                 (\<lambda>po. case po of Some u \<Rightarrow> sdone u | None \<Rightarrow> epanic ''nil pointer dereference'')))"

subsection \<open>Environment variables\<close>

definition hasRunnerContainer :: "Pod \<Rightarrow> bool" where
  "hasRunnerContainer pod \<longleftrightarrow> (\<exists>c \<in> set (ps_Containers (pod_Spec pod)). c_Name c = containerName)"

lemma find_append_None: "List.find P xs = None \<Longrightarrow> List.find P (xs @ ys) = List.find P ys"
  by (induction xs) (auto split: if_splits)

lemma setEnv_find:
  "setEnv es k v = Some es' \<Longrightarrow> \<exists>e. List.find (\<lambda>e. ev_Name e = k) es' = Some e \<and> ev_Value e = v"
  by (induction es arbitrary: es') (auto split: if_splits)

lemma setEnv_None: "setEnv es k v = None \<Longrightarrow> List.find (\<lambda>e. ev_Name e = k) es = None"
  by (induction es) (auto split: if_splits)

lemma setEnvIn_get:
  "\<exists>c \<in> set cs. c_Name c = containerName \<Longrightarrow> getEnvIn (setEnvIn cs k v) k = v"
proof (induction cs)
  case (Cons c cs)
  show ?case
  proof (cases "c_Name c = containerName")
    case True
    show ?thesis
    proof (cases "setEnv (c_Env c) k v")
      case None
      with True setEnv_None [OF None] show ?thesis by (simp add: find_append_None)
    next
      case (Some es')
      with True setEnv_find [OF Some] show ?thesis by auto
    qed
  qed (use Cons in auto)
qed simp

lemma setEnv_other:
  "setEnv es k v = Some es' \<Longrightarrow> k' \<noteq> k \<Longrightarrow>
    map_option ev_Value (List.find (\<lambda>e. ev_Name e = k') es') = map_option ev_Value (List.find (\<lambda>e. ev_Name e = k') es)"
  by (induction es arbitrary: es') (auto split: if_splits)

lemma case_find: "(case List.find P es of Some e \<Rightarrow> ev_Value e | None \<Rightarrow> d) = (case map_option ev_Value (List.find P es) of Some v \<Rightarrow> v | None \<Rightarrow> d)"
  by (cases "List.find P es") simp_all

lemma find_snoc_other: "k' \<noteq> k \<Longrightarrow> List.find (\<lambda>e. ev_Name e = k') (es @ [\<lparr>ev_Name = k, ev_Value = v\<rparr>]) = List.find (\<lambda>e. ev_Name e = k') es"
  by (induction es) auto

lemma setEnvIn_other: "k' \<noteq> k \<Longrightarrow> getEnvIn (setEnvIn cs k v) k' = getEnvIn cs k'"
proof (induction cs)
  case (Cons c cs)
  show ?case
  proof (cases "c_Name c = containerName")
    case True
    show ?thesis
    proof (cases "setEnv (c_Env c) k v")
      case None
      with True Cons show ?thesis by (simp add: find_snoc_other split: option.splits)
    next
      case (Some es')
      with True setEnv_other [OF Some Cons.prems] show ?thesis by (simp add: case_find)
    qed
  qed (use Cons in simp)
qed simp

text \<open>
  Setting a variable of the runner container and reading it back gives the value set, and no other variable changes; a pod needs a container named runner for that.
\<close>

theorem setRunnerEnv_getRunnerEnv:
  assumes "hasRunnerContainer pod"
  shows "getRunnerEnv (setRunnerEnv pod key val) key' = (if key' = key then val else getRunnerEnv pod key')"
  using assms by (simp add: getRunnerEnv_def setRunnerEnv_def hasRunnerContainer_def setEnvIn_get setEnvIn_other)

definition examplePod :: Pod where
  "examplePod = emptyPod\<lparr>pod_Spec := emptyPodSpec\<lparr>ps_Containers := [emptyContainer ''docker'', emptyContainer ''runner'']\<rparr>,
     pod_Status := emptyPodStatus\<lparr>pst_Phase := Running\<rparr>,
     pod_Meta := setAnnotation (emptyMeta\<lparr>om_Name := ''a''\<rparr>) AnnotationKeyRunnerID ''47''\<rparr>"

theorem setRunnerEnv_getRunnerEnv_witness:
  "getRunnerEnv (setRunnerEnv examplePod ''A'' ''b'') ''A'' = ''b'' \<and> hasRunnerContainer examplePod"
proof -
  have "hasRunnerContainer examplePod"
    by (simp add: hasRunnerContainer_def examplePod_def emptyContainer_def containerName_def)
  then show ?thesis using setRunnerEnv_getRunnerEnv [of examplePod "''A''" "''b''" "''A''"] by simp
qed

subsection \<open>When a pod counts as safe to delete\<close>

text \<open>The runner's id as the stop procedure learns it.\<close>

definition knownRunnerID :: "GitHub \<Rightarrow> string \<Rightarrow> string \<Rightarrow> string \<Rightarrow> string \<Rightarrow> Pod \<Rightarrow> int option go" where
  "knownRunnerID gh enterprise org repo name p =
     (case getAnnotation (pod_Meta p) AnnotationKeyRunnerID of
        Some i \<Rightarrow> (case ParseInt10 i of None \<Rightarrow> Err (Errorf ''strconv.ParseInt'') | Some v \<Rightarrow> Ret (Some v))
      | None \<Rightarrow> go_bind (getRunner gh enterprise org repo name) (\<lambda>r. Ret (Option.bind r ghr_ID)))"

text \<open>
  What makes it safe: the pod was marked as unregistered before; GitHub never knew the runner; the pod or the runner container has stopped; GitHub has removed the runner just now; GitHub forbids
  the removal (403); or GitHub takes the runner for busy (422) though its container has exited.
\<close>

definition safeToDelete :: "StopEnv \<Rightarrow> string \<Rightarrow> string \<Rightarrow> string \<Rightarrow> string \<Rightarrow> Pod \<Rightarrow> bool" where
  "safeToDelete env enterprise org repo name p \<longleftrightarrow>
     annotationNonEmpty p AnnotationKeyUnregistrationCompleteTimestamp \<or>
     knownRunnerID (se_GitHub env) enterprise org repo name p = Ret None \<or>
     runnerPodOrContainerIsStopped p \<or>
     (\<exists>i. knownRunnerID (se_GitHub env) enterprise org repo name p = Ret (Some i) \<and>
        (RemoveRunner (se_GitHub env) enterprise org repo i = Ret () \<or>
         (\<exists>err. RemoveRunner (se_GitHub env) enterprise org repo i = Err err \<and>
            (asErrorResponse err = Some 403 \<or> asErrorResponse err = Some 422 \<and> runnerContainerExitCode p \<noteq> None))))"

lemma runnerIDOf_Done:
  "runnerIDOf gh e og r n p l = (l', Ret (Done x)) \<Longrightarrow> l' = l \<and> knownRunnerID gh e og r n p = Ret x"
  by (auto simp: runnerIDOf_def knownRunnerID_def go_simps split: option.splits go.splits)

lemma unregistrationFailed_Done:
  assumes "unregistrationFailed env api d e og r n p err l = (l', Ret (Done u))"
  shows "asErrorResponse err = Some 403 \<or> asErrorResponse err = Some 422 \<and> runnerContainerExitCode p \<noteq> None"
  using assms
  by (auto simp: unregistrationFailed_def Let_def go_simps split: if_splits option.splits go.splits prod.splits step.splits)

lemma sbind_Done:
  "sbind m f l = (l', Ret (Done y)) \<longleftrightarrow> (\<exists>l1 x. m l = (l1, Ret (Done x)) \<and> f x l1 = (l', Ret (Done y)))"
  by (auto simp: sbind_def ebind_def eret_def split: prod.splits go.splits step.splits)

lemma sorElse_Done: "sorElse r m l = (l', Ret (Done x)) \<longleftrightarrow> m l = (l', Ret x)"
  by (auto simp: sorElse_def ecatch_def ebind_def eret_def split: prod.splits go.splits)

lemma annotatePodOnce_Ret:
  assumes "annotatePodOnce api (Some p) k v l = (l', Ret q)"
  shows "\<exists>p'. q = Some p' \<and> getAnnotation (pod_Meta p') k \<noteq> None \<and> pod_Status p' = pod_Status p \<and> pod_Spec p' = pod_Spec p \<and>
    (\<forall>k'. k' \<noteq> k \<longrightarrow> getAnnotation (pod_Meta p') k' = getAnnotation (pod_Meta p) k')"
  using assms by (auto simp: annotatePodOnce_def Let_def go_simps split: if_splits option.splits)

lemma ensureRunnerUnregistration_Done:
  assumes "ensureRunnerUnregistration env api d e og r n (Some p) l = (l', Ret (Done u))"
  shows "safeToDelete env e og r n p"
proof -
  from assms obtain l1 x where x: "runnerIDOf (se_GitHub env) e og r n p l = (l1, Ret (Done x))"
    by (auto simp: ensureRunnerUnregistration_def sbind_Done)
  note k = conjunct2 [OF runnerIDOf_Done [OF x]]
  show ?thesis
  proof (cases "annotationNonEmpty p AnnotationKeyUnregistrationCompleteTimestamp \<or> x = None \<or> runnerPodOrContainerIsStopped p")
    case True
    with k show ?thesis by (auto simp: safeToDelete_def)
  next
    case False
    then obtain i where i: "x = Some i" by auto
    from assms False x i have "\<not> annotationNonEmpty p AnnotationKeyRunnerCompletionWaitStartTimestamp"
      by (auto simp: ensureRunnerUnregistration_def sbind_Done go_simps)
    with assms False x i k show ?thesis
      by (cases "RemoveRunner (se_GitHub env) e og r i")
        (auto simp: ensureRunnerUnregistration_def sbind_Done unregisterRunner_def go_simps safeToDelete_def
          dest!: unregistrationFailed_Done)
  qed
qed

lemma tickRunnerGracefulStop_Done:
  assumes "tickRunnerGracefulStop env api d enterprise org repo name (Some p) l = (l', Ret (Done q))"
  shows "safeToDelete env enterprise org repo name p \<and>
    (\<exists>p'. q = Some p' \<and> getAnnotation (pod_Meta p') AnnotationKeyUnregistrationCompleteTimestamp \<noteq> None)"
proof -
  from assms obtain l1 l2 p1 where a: "annotatePodOnce api (Some p) AnnotationKeyUnregistrationStartTimestamp (se_Stamp env) l = (l1, Ret p1)"
    and e: "ensureRunnerUnregistration env api d enterprise org repo name p1 l1 = (l2, Ret (Done ()))"
    and b: "annotatePodOnce api p1 AnnotationKeyUnregistrationCompleteTimestamp (se_Stamp env) l2 = (l', Ret q)"
    by (auto simp: tickRunnerGracefulStop_def sbind_Done sorElse_Done)
  obtain p' where p': "p1 = Some p'" "pod_Status p' = pod_Status p" "pod_Spec p' = pod_Spec p"
    "\<forall>k'. k' \<noteq> AnnotationKeyUnregistrationStartTimestamp \<longrightarrow> getAnnotation (pod_Meta p') k' = getAnnotation (pod_Meta p) k'"
    using annotatePodOnce_Ret [OF a] by blast
  have "safeToDelete env enterprise org repo name p'" using ensureRunnerUnregistration_Done e p'(1) by blast
  moreover have "getAnnotation (pod_Meta p') AnnotationKeyRunnerID = getAnnotation (pod_Meta p) AnnotationKeyRunnerID"
    "getAnnotation (pod_Meta p') AnnotationKeyUnregistrationCompleteTimestamp = getAnnotation (pod_Meta p) AnnotationKeyUnregistrationCompleteTimestamp"
    using p'(4) by (simp_all add: annotation_keys)
  then have "annotationNonEmpty p' AnnotationKeyUnregistrationCompleteTimestamp = annotationNonEmpty p AnnotationKeyUnregistrationCompleteTimestamp"
    "knownRunnerID g enterprise org repo name p' = knownRunnerID g enterprise org repo name p" for g
    by (simp_all only: annotationNonEmpty_def knownRunnerID_def)
  moreover have "runnerPodOrContainerIsStopped p' = runnerPodOrContainerIsStopped p" "runnerContainerExitCode p' = runnerContainerExitCode p"
    by (simp_all only: runnerPodOrContainerIsStopped_def runnerContainerExitCode_def p'(2))
  ultimately have "safeToDelete env enterprise org repo name p"
    by (simp only: safeToDelete_def)
  with annotatePodOnce_Ret [OF b [unfolded p'(1)]] show ?thesis by auto
qed

text \<open>
  C5. The graceful stop declares a pod stopped only when that is safe, judged by the pod's state and by GitHub's answer in the same tick; and the pod it returns is marked as unregistered. In particular a runner that GitHub
  reports busy (422) is not stopped while its container runs.
\<close>

theorem tickRunnerGracefulStop_safe:
  assumes "tickRunnerGracefulStop env api d enterprise org repo name (Some p) l = (l', Ret (Done q))"
  shows "safeToDelete env enterprise org repo name p \<and>
    (\<exists>p'. q = Some p' \<and> getAnnotation (pod_Meta p') AnnotationKeyUnregistrationCompleteTimestamp \<noteq> None)"
  using assms by (rule tickRunnerGracefulStop_Done)

definition exampleStopEnv :: StopEnv where
  "exampleStopEnv = \<lparr>se_GitHub = exampleGitHub, se_IsRateLimit = \<lambda>e. False, se_Stamp = ''2022-04-01T00:00:00Z''\<rparr>"

lemma ParseInt10_47: "ParseInt10 ''47'' = Some 47"
  by (simp add: ParseInt10_def digitsVal_def isDigitC_def)

theorem tickRunnerGracefulStop_safe_witness:
  "\<exists>l' q. tickRunnerGracefulStop exampleStopEnv acceptAll Minute [] ''o'' [] ''a'' (Some examplePod) [] = (l', Ret (Done q)) \<and>
    safeToDelete exampleStopEnv [] ''o'' [] ''a'' examplePod"
proof -
  let ?p = "examplePod\<lparr>pod_Meta := setAnnotation (pod_Meta examplePod) AnnotationKeyUnregistrationStartTimestamp (se_Stamp exampleStopEnv)\<rparr>"
  let ?q = "?p\<lparr>pod_Meta := setAnnotation (pod_Meta ?p) AnnotationKeyUnregistrationCompleteTimestamp (se_Stamp exampleStopEnv)\<rparr>"
  have id: "getAnnotation (pod_Meta examplePod) k = (if k = AnnotationKeyRunnerID then Some ''47'' else None)" for k
    by (simp add: examplePod_def) (simp add: emptyMeta_def getAnnotation_def)
  have s: "\<not> runnerPodOrContainerIsStopped ?p"
    by (simp add: runnerPodOrContainerIsStopped_def examplePod_def emptyPodStatus_def)
  have a: "annotatePodOnce acceptAll (Some examplePod) AnnotationKeyUnregistrationStartTimestamp (se_Stamp exampleStopEnv) [] = ([PatchPod ?p], Ret (Some ?p))"
    by (simp add: annotatePodOnce_def id annotation_keys Let_def go_simps)
  have r: "RemoveRunner (se_GitHub exampleStopEnv) [] ''o'' [] i = Ret ()" for i
    by (simp add: exampleStopEnv_def exampleGitHub_def RemoveRunner_def getEnterpriseOrganizationAndRepo_def removeRunner_def)
  have e: "ensureRunnerUnregistration exampleStopEnv acceptAll Minute [] ''o'' [] ''a'' (Some ?p) [PatchPod ?p] =
      ([PatchPod ?p, RemoveGitHubRunner [] ''o'' [] 47], Ret (Done ()))"
    using s r by (simp add: ensureRunnerUnregistration_def runnerIDOf_def annotationNonEmpty_def id annotation_keys ParseInt10_47 unregisterRunner_def go_simps)
  have b: "annotatePodOnce acceptAll (Some ?p) AnnotationKeyUnregistrationCompleteTimestamp (se_Stamp exampleStopEnv) l = (l @ [PatchPod ?q], Ret (Some ?q))" for l
    by (simp add: annotatePodOnce_def id annotation_keys Let_def go_simps)
  have t: "tickRunnerGracefulStop exampleStopEnv acceptAll Minute [] ''o'' [] ''a'' (Some examplePod) [] =
      ([PatchPod ?p, RemoveGitHubRunner [] ''o'' [] 47, PatchPod ?q], Ret (Done (Some ?q)))"
    unfolding tickRunnerGracefulStop_def sbind_Done sorElse_Done using a b e by fastforce
  with tickRunnerGracefulStop_safe [OF t] show ?thesis by blast
qed

text \<open>
  Once a pod is annotated to wait for the completion of its job, the tick no longer asks GitHub to remove the runner: no call to GitHub's removal is made and the tick asks to be retried after the delay,
  until the pod stops.
\<close>

theorem waiting_pod_not_removed:
  assumes "annotationNonEmpty p AnnotationKeyRunnerCompletionWaitStartTimestamp"
    and "getAnnotation (pod_Meta p) AnnotationKeyUnregistrationStartTimestamp \<noteq> None"
    and "\<not> annotationNonEmpty p AnnotationKeyUnregistrationCompleteTimestamp"
    and "getAnnotation (pod_Meta p) AnnotationKeyRunnerID = Some s" and "ParseInt10 s = Some i"
    and "\<not> runnerPodOrContainerIsStopped p"
  shows "writes (tickRunnerGracefulStop env api d enterprise org repo name (Some p)) = [] \<and>
    outcome (tickRunnerGracefulStop env api d enterprise org repo name (Some p)) = Ret (Stop (requeueAfter d) None)"
  using assms by (auto simp: tickRunnerGracefulStop_def annotatePodOnce_def ensureRunnerUnregistration_def runnerIDOf_def go_simps)

theorem waiting_pod_not_removed_witness:
  "\<exists>p. writes (tickRunnerGracefulStop exampleStopEnv acceptAll Minute [] ''o'' [] ''a'' (Some p)) = []"
proof -
  let ?p = "examplePod\<lparr>pod_Meta := setAnnotation (setAnnotation (pod_Meta examplePod) AnnotationKeyRunnerCompletionWaitStartTimestamp ''t'')
      AnnotationKeyUnregistrationStartTimestamp ''t''\<rparr>"
  have "writes (tickRunnerGracefulStop exampleStopEnv acceptAll Minute [] ''o'' [] ''a'' (Some ?p)) = []"
    by (rule conjunct1 [OF waiting_pod_not_removed [where s = "''47''" and i = 47]])
      (simp_all add: examplePod_def ParseInt10_47 annotationNonEmpty_def runnerPodOrContainerIsStopped_def emptyPodStatus_def emptyMeta_def annotation_keys
        getAnnotation_def setAnnotation_def)
  then show ?thesis by blast
qed

end
