(* ===== verification/Run_Logic.thy ===== *)
theory Run_Logic
  imports Kube_Calls
begin

section \<open>A program logic for runs\<close>

text \<open>
  \<open>run_ok P Q N m\<close>: whatever the calls before and whatever the answers of the server, a run of \<open>m\<close> only issues calls that satisfy \<open>P\<close>, returns only values that satisfy \<open>Q\<close> and
  panics only with a message in \<open>N\<close>. There is one rule per combinator of the model, in the style of a Hoare logic, collected in \<open>run_rules\<close>.
\<close>

named_theorems run_rules \<open>introduction rules for runs\<close>

definition run_ok :: "('c \<Rightarrow> bool) \<Rightarrow> ('a \<Rightarrow> bool) \<Rightarrow> (string \<Rightarrow> bool) \<Rightarrow> ('c, 'a) eff \<Rightarrow> bool" where
  "run_ok P Q N m \<longleftrightarrow>
     (\<forall>l. \<exists>w r. m l = (l @ w, r) \<and> list_all P w \<and> (\<forall>x. r = Ret x \<longrightarrow> Q x) \<and> (\<forall>s. r = Panic s \<longrightarrow> N s))"

lemma run_okD:
  assumes "run_ok P Q N m" and "m l = (l', r)"
  shows "\<exists>w. l' = l @ w \<and> list_all P w" and "r = Ret x \<Longrightarrow> Q x" and "r = Panic s \<Longrightarrow> N s"
  using assms unfolding run_ok_def by (metis Pair_inject)+

lemma run_ok_writes: "run_ok P Q N m \<Longrightarrow> c \<in> set (writes m) \<Longrightarrow> P c"
  unfolding run_ok_def writes_def by (metis append_Nil fst_conv list_all_iff)

lemma run_ok_outcome: "run_ok P Q N m \<Longrightarrow> outcome m = Ret x \<Longrightarrow> Q x"
  unfolding run_ok_def outcome_def by (metis snd_conv)

lemma run_ok_panic: "run_ok P Q N m \<Longrightarrow> outcome m = Panic s \<Longrightarrow> N s"
  unfolding run_ok_def outcome_def by (metis snd_conv)

lemma run_ok_weaken:
  assumes "run_ok P Q N m" and "\<And>c. P c \<Longrightarrow> P' c" and "\<And>x. Q x \<Longrightarrow> Q' x" and "\<And>s. N s \<Longrightarrow> N' s"
  shows "run_ok P' Q' N' m"
  unfolding run_ok_def
proof
  fix l
  obtain w r where "m l = (l @ w, r)" "list_all P w" "\<And>x. r = Ret x \<Longrightarrow> Q x" "\<And>s. r = Panic s \<Longrightarrow> N s"
    using assms(1) unfolding run_ok_def by metis
  with assms(2-4) show "\<exists>w r. m l = (l @ w, r) \<and> list_all P' w \<and> (\<forall>x. r = Ret x \<longrightarrow> Q' x) \<and> (\<forall>s. r = Panic s \<longrightarrow> N' s)"
    by (intro exI [of _ w] exI [of _ r]) (simp add: list_all_iff)
qed

lemma run_ok_result:
  assumes "run_ok P Q N m" and "\<And>l l' x. m l = (l', Ret x) \<Longrightarrow> Q' x"
  shows "run_ok P Q' N m"
  unfolding run_ok_def
proof
  fix l
  obtain w r where m: "m l = (l @ w, r)" "list_all P w" "\<And>s. r = Panic s \<Longrightarrow> N s"
    using assms(1) unfolding run_ok_def by metis
  with assms(2) show "\<exists>w r. m l = (l @ w, r) \<and> list_all P w \<and> (\<forall>x. r = Ret x \<longrightarrow> Q' x) \<and> (\<forall>s. r = Panic s \<longrightarrow> N s)"
    by blast
qed

lemma run_eret [run_rules]: "Q x \<Longrightarrow> run_ok P Q N (eret x)"
  by (simp add: run_ok_def eret_def)

lemma run_eerr [run_rules]: "run_ok P Q N (eerr e)"
  by (simp add: run_ok_def eerr_def)

lemma run_epanic [run_rules]: "N s \<Longrightarrow> run_ok P Q N (epanic s)"
  by (simp add: run_ok_def epanic_def)

lemma run_elift [run_rules]:
  "(\<And>x. m = Ret x \<Longrightarrow> Q x) \<Longrightarrow> (\<And>s. m = Panic s \<Longrightarrow> N s) \<Longrightarrow> run_ok P Q N (elift m)"
  by (simp add: run_ok_def elift_def)

lemma run_ebind:
  assumes "run_ok P R N m" and "\<And>x. R x \<Longrightarrow> run_ok P Q N (f x)"
  shows "run_ok P Q N (ebind m f)"
  unfolding run_ok_def
proof
  fix l
  obtain w r where m: "m l = (l @ w, r)" "list_all P w" "\<And>x. r = Ret x \<Longrightarrow> R x" "\<And>s. r = Panic s \<Longrightarrow> N s"
    using assms(1) unfolding run_ok_def by metis
  show "\<exists>w r. ebind m f l = (l @ w, r) \<and> list_all P w \<and> (\<forall>x. r = Ret x \<longrightarrow> Q x) \<and> (\<forall>s. r = Panic s \<longrightarrow> N s)"
  proof (cases r)
    case (Ret x)
    obtain w' r' where "f x (l @ w) = ((l @ w) @ w', r')" "list_all P w'" "\<And>y. r' = Ret y \<Longrightarrow> Q y" "\<And>s. r' = Panic s \<Longrightarrow> N s"
      using assms(2) [OF m(3) [OF Ret]] unfolding run_ok_def by metis
    with m Ret show ?thesis by (intro exI [of _ "w @ w'"] exI [of _ r']) (simp add: ebind_def)
  qed (use m in \<open>simp_all add: ebind_def\<close>)
qed

lemma run_ecall [run_rules]:
  assumes "P c" and "\<And>e. run_ok P Q N (k e)"
  shows "run_ok P Q N (ecall api c k)"
  unfolding run_ok_def
proof
  fix l
  obtain w r where "k (api l c) (l @ [c]) = ((l @ [c]) @ w, r)" "list_all P w" "\<And>x. r = Ret x \<Longrightarrow> Q x" "\<And>s. r = Panic s \<Longrightarrow> N s"
    using assms(2) unfolding run_ok_def by metis
  with assms(1) show "\<exists>w r. ecall api c k l = (l @ w, r) \<and> list_all P w \<and> (\<forall>x. r = Ret x \<longrightarrow> Q x) \<and> (\<forall>s. r = Panic s \<longrightarrow> N s)"
    by (intro exI [of _ "c # w"] exI [of _ r]) (simp add: ecall_def)
qed

lemma run_elog [run_rules]: "P c \<Longrightarrow> run_ok P Q N m \<Longrightarrow> run_ok P Q N (elog c m)"
  using run_ecall [of P c Q N "\<lambda>_. m" "\<lambda>l c. None"] by (simp add: ecall_def [abs_def] elog_def [abs_def])

lemma run_ewrite [run_rules]: "P c \<Longrightarrow> Q () \<Longrightarrow> run_ok P Q N (ewrite api c)"
  unfolding ewrite_def by (rule run_ecall) (simp_all split: option.split add: run_eret run_eerr)

lemma run_write_then [run_rules]: "P c \<Longrightarrow> run_ok P Q N m \<Longrightarrow> run_ok P Q N (ebind (ewrite api c) (\<lambda>_. m))"
  by (rule run_ebind [where R = "\<lambda>_. True"]) (simp_all add: run_ewrite)

lemma run_if [run_rules]:
  "(b \<Longrightarrow> run_ok P Q N m) \<Longrightarrow> (\<not> b \<Longrightarrow> run_ok P Q N m') \<Longrightarrow> run_ok P Q N (if b then m else m')"
  by simp

lemma run_option [run_rules]:
  "(x = None \<Longrightarrow> run_ok P Q N m) \<Longrightarrow> (\<And>y. x = Some y \<Longrightarrow> run_ok P Q N (f y)) \<Longrightarrow>
    run_ok P Q N (case x of None \<Rightarrow> m | Some y \<Rightarrow> f y)"
  by (cases x) simp_all

lemma run_ecatch:
  assumes "run_ok P Q N m" and "\<And>e. run_ok P Q N (h e)"
  shows "run_ok P Q N (ecatch m h)"
  unfolding run_ok_def
proof
  fix l
  obtain w r where m: "m l = (l @ w, r)" "list_all P w" "\<And>x. r = Ret x \<Longrightarrow> Q x" "\<And>s. r = Panic s \<Longrightarrow> N s"
    using assms(1) unfolding run_ok_def by metis
  show "\<exists>w r. ecatch m h l = (l @ w, r) \<and> list_all P w \<and> (\<forall>x. r = Ret x \<longrightarrow> Q x) \<and> (\<forall>s. r = Panic s \<longrightarrow> N s)"
  proof (cases r)
    case (Err e)
    obtain w' r' where "h e (l @ w) = ((l @ w) @ w', r')" "list_all P w'" "\<And>y. r' = Ret y \<Longrightarrow> Q y" "\<And>s. r' = Panic s \<Longrightarrow> N s"
      using assms(2) [of e] unfolding run_ok_def by metis
    with m Err show ?thesis by (intro exI [of _ "w @ w'"] exI [of _ r']) (simp add: ecatch_def)
  qed (use m in \<open>simp_all add: ecatch_def\<close>)
qed

text \<open>Steps: \<open>doneOk Q\<close> asks of a step that its value, if it is done, satisfies \<open>Q\<close>.\<close>

definition doneOk :: "('a \<Rightarrow> bool) \<Rightarrow> 'a step \<Rightarrow> bool" where
  "doneOk Q s = (case s of Done x \<Rightarrow> Q x | Stop r e \<Rightarrow> True)"

lemma doneOk_simps [simp]: "doneOk Q (Done x) = Q x" "doneOk Q (Stop r e)"
  by (simp_all add: doneOk_def)

lemma run_sdone [run_rules]: "Q x \<Longrightarrow> run_ok P (doneOk Q) N (sdone x)"
  by (simp add: sdone_def run_eret)

lemma run_sstop [run_rules]: "run_ok P (doneOk Q) N (sstop r e)"
  by (simp add: sstop_def run_eret)

lemma run_sbind:
  assumes "run_ok P (doneOk R) N m" and "\<And>x. R x \<Longrightarrow> run_ok P (doneOk Q) N (f x)"
  shows "run_ok P (doneOk Q) N (sbind m f)"
  unfolding sbind_def by (rule run_ebind [OF assms(1)]) (auto simp: assms(2) run_eret split: step.split)

lemma run_sorElse: "run_ok P Q N m \<Longrightarrow> run_ok P (doneOk Q) N (sorElse r m)"
  unfolding sorElse_def by (rule run_ecatch, rule run_ebind, assumption) (simp_all add: run_eret)

lemma run_finish: "run_ok P (doneOk Q) N m \<Longrightarrow> run_ok P (\<lambda>_. True) N (finish m)"
  unfolding finish_def by (rule run_ebind, assumption) (simp split: step.split option.split add: run_eret run_eerr)

end
