(* ===== verification/Pod_Owner.thy ===== *)
theory Pod_Owner
  imports Graceful_Stop Run_Logic
begin

section \<open>Keeping the owners of runner pods in sync\<close>

text \<open>
  Model of \<open>src/controllers/runner_pod_owner.go\<close>, shared by the controllers of runner replica sets (whose owners are runners) and runner sets (whose owners are
  stateful sets): collect the owners with their pods, create missing replicas, mark redundant owners for unregistration, delete outdated ones. The map from template
  hashes to owners is an association list; the order in which Go ranges over it is a parameter \<open>iter\<close>.
\<close>

subsection \<open>The interface of owners\<close>

datatype ownerObject = OwnerRunner Runner | OwnerStatefulSet StatefulSet | OwnerOther ObjectMeta

record OwnerReads =
  ow_GetPod :: "string \<Rightarrow> string \<Rightarrow> Pod go"
  ow_ListPods :: "strmap \<Rightarrow> Pod list go"

definition ownerRunner_pods :: "OwnerReads \<Rightarrow> Runner \<Rightarrow> Pod list go" where
  "ownerRunner_pods k r =
     (case ow_GetPod k (om_Namespace (r_Meta r)) (om_Name (r_Meta r)) of
        Ret pod \<Rightarrow> Ret [pod]
      | Err e \<Rightarrow> if e = Kube NotFound then Ret [] else Err e
      | Panic s \<Rightarrow> Panic s
      | Hang \<Rightarrow> Hang)"

definition ownerRunner_templateHash :: "Runner \<Rightarrow> string option" where
  "ownerRunner_templateHash r = getRunnerTemplateHash (r_Meta r)"

definition ownerRunner_withAnnotation :: "string \<Rightarrow> string \<Rightarrow> Runner \<Rightarrow> Runner" where
  "ownerRunner_withAnnotation k v r = r\<lparr>r_Meta := setAnnotation (r_Meta r) k v\<rparr>"

definition ownerRunner_synced :: "Runner \<Rightarrow> bool" where
  "ownerRunner_synced r \<longleftrightarrow> rst_Phase (r_Status r) \<noteq> []"

definition ownerStatefulSet_pods :: "OwnerReads \<Rightarrow> StatefulSet \<Rightarrow> Pod list go" where
  "ownerStatefulSet_pods k s =
     go_bind (ow_ListPods k (om_Labels (ss_TemplateMeta s)))
       (\<lambda>pods. Ret (filter (\<lambda>pod. case GetControllerOf (pod_Meta pod) of
            None \<Rightarrow> False
          | Some ref \<Rightarrow> or_Kind ref = ''StatefulSet'' \<and> or_Name ref = om_Name (ss_Meta s)) pods))"

definition ownerStatefulSet_templateHash :: "StatefulSet \<Rightarrow> string option" where
  "ownerStatefulSet_templateHash s = getRunnerTemplateHash (ss_Meta s)"

definition ownerStatefulSet_withAnnotation :: "string \<Rightarrow> string \<Rightarrow> StatefulSet \<Rightarrow> StatefulSet" where
  "ownerStatefulSet_withAnnotation k v s = s\<lparr>ss_Meta := setAnnotation (ss_Meta s) k v\<rparr>"

definition ownerStatefulSet_synced :: "StatefulSet \<Rightarrow> bool" where
  "ownerStatefulSet_synced s \<longleftrightarrow> ss_StatusReplicas s = (case ss_Replicas s of None \<Rightarrow> 1 | Some r \<Rightarrow> r)"

text \<open>
  What the code relies on in the interface: an annotation that is set can be read back, and setting it changes no other annotation, nor the group of owners the owner belongs to, nor whether it is being deleted.
\<close>

locale pod_owner =
  fixes meta :: "'o \<Rightarrow> ObjectMeta"
    and templateHash :: "'o \<Rightarrow> string option"
    and withAnnotation :: "string \<Rightarrow> string \<Rightarrow> 'o \<Rightarrow> 'o"
  assumes with_get: "getAnnotation (meta (withAnnotation k v x)) k' = (if k' = k then Some v else getAnnotation (meta x) k')"
    and with_hash: "templateHash (withAnnotation k v x) = templateHash x"
    and with_deletion: "om_DeletionTimestamp (meta (withAnnotation k v x)) = om_DeletionTimestamp (meta x)"
begin

text \<open>The two marks of the termination process do not disturb each other.\<close>

lemma marks_independent:
  "getAnnotation (meta (withAnnotation AnnotationKeyUnregistrationCompleteTimestamp v
      (withAnnotation AnnotationKeyUnregistrationRequestTimestamp u x))) AnnotationKeyUnregistrationRequestTimestamp = Some u"
  by (simp add: with_get annotation_keys)

lemma marked_in_group:
  "templateHash x = Some h \<Longrightarrow> templateHash (withAnnotation k v (withAnnotation k' v' x)) = Some h"
  by (simp add: with_hash)

end

interpretation owner_runner: pod_owner r_Meta ownerRunner_templateHash ownerRunner_withAnnotation
  by unfold_locales (simp_all add: ownerRunner_templateHash_def ownerRunner_withAnnotation_def getRunnerTemplateHash_def)

interpretation owner_statefulset: pod_owner ss_Meta ownerStatefulSet_templateHash ownerStatefulSet_withAnnotation
  by unfold_locales (simp_all add: ownerStatefulSet_templateHash_def ownerStatefulSet_withAnnotation_def getRunnerTemplateHash_def)

text \<open>Dispatch on the dynamic type.\<close>

fun ownerMeta :: "ownerObject \<Rightarrow> ObjectMeta" where
  "ownerMeta (OwnerRunner r) = r_Meta r"
| "ownerMeta (OwnerStatefulSet s) = ss_Meta s"
| "ownerMeta (OwnerOther m) = m"

fun owner_pods :: "OwnerReads \<Rightarrow> ownerObject \<Rightarrow> Pod list go" where
  "owner_pods k (OwnerRunner r) = ownerRunner_pods k r"
| "owner_pods k (OwnerStatefulSet s) = ownerStatefulSet_pods k s"
| "owner_pods k (OwnerOther m) = Err (Errorf ''BUG: Unsupported runner pods owner'')"

fun owner_templateHash :: "ownerObject \<Rightarrow> string option" where
  "owner_templateHash (OwnerRunner r) = ownerRunner_templateHash r"
| "owner_templateHash (OwnerStatefulSet s) = ownerStatefulSet_templateHash s"
| "owner_templateHash (OwnerOther m) = getRunnerTemplateHash m"

fun owner_withAnnotation :: "string \<Rightarrow> string \<Rightarrow> ownerObject \<Rightarrow> ownerObject" where
  "owner_withAnnotation k v (OwnerRunner r) = OwnerRunner (ownerRunner_withAnnotation k v r)"
| "owner_withAnnotation k v (OwnerStatefulSet s) = OwnerStatefulSet (ownerStatefulSet_withAnnotation k v s)"
| "owner_withAnnotation k v (OwnerOther m) = OwnerOther (setAnnotation m k v)"

fun owner_synced :: "ownerObject \<Rightarrow> bool" where
  "owner_synced (OwnerRunner r) = ownerRunner_synced r"
| "owner_synced (OwnerStatefulSet s) = ownerStatefulSet_synced s"
| "owner_synced (OwnerOther m) = False"

interpretation owner_object: pod_owner ownerMeta owner_templateHash owner_withAnnotation
proof
  fix k v x k'
  show "getAnnotation (ownerMeta (owner_withAnnotation k v x)) k' = (if k' = k then Some v else getAnnotation (ownerMeta x) k')"
    by (cases x) (simp_all add: owner_runner.with_get owner_statefulset.with_get)
  show "owner_templateHash (owner_withAnnotation k v x) = owner_templateHash x"
    by (cases x) (simp_all add: owner_runner.with_hash owner_statefulset.with_hash getRunnerTemplateHash_def)
  show "om_DeletionTimestamp (ownerMeta (owner_withAnnotation k v x)) = om_DeletionTimestamp (ownerMeta x)"
    by (cases x) (simp_all add: owner_runner.with_deletion owner_statefulset.with_deletion)
qed

text \<open>
  The calls on an owner. An object of another type never gets that far: \<open>getPodsForOwner\<close> refuses it, and both callers create runners or stateful sets.
\<close>

fun createOwner :: "ownerObject \<Rightarrow> kubeCall" where
  "createOwner (OwnerRunner r) = CreateRunner r"
| "createOwner (OwnerStatefulSet s) = CreateStatefulSet s"
| "createOwner (OwnerOther m) = Event ''create''"

fun patchOwner :: "ownerObject \<Rightarrow> kubeCall" where
  "patchOwner (OwnerRunner r) = PatchRunner r"
| "patchOwner (OwnerStatefulSet s) = PatchStatefulSet s"
| "patchOwner (OwnerOther m) = Event ''patch''"

fun deleteOwner :: "ownerObject \<Rightarrow> kubeCall" where
  "deleteOwner (OwnerRunner r) = DeleteRunner r"
| "deleteOwner (OwnerStatefulSet s) = DeleteStatefulSet s"
| "deleteOwner (OwnerOther m) = Event ''delete''"

subsection \<open>The pods of an owner\<close>

record podsForOwner =
  po_total :: int
  po_completed :: int
  po_running :: int
  po_terminating :: int
  po_regTimeout :: int
  po_pending :: int
  po_templateHash :: string
  po_owner :: ownerObject
  po_synced :: bool
  po_pods :: "Pod list"

definition countPod :: "time \<Rightarrow> Pod \<Rightarrow> podsForOwner \<Rightarrow> podsForOwner" where
  "countPod now pod c =
     (let c1 = c\<lparr>po_total := po_total c + 1\<rparr>
      in if runnerPodOrContainerIsStopped pod then c1\<lparr>po_completed := po_completed c1 + 1\<rparr>
         else if pst_Phase (pod_Status pod) = Running then
           (if podRunnerID pod = [] \<and> podConditionTransitionTimeAfter now pod ''Ready'' registrationTimeout
            then c1\<lparr>po_regTimeout := po_regTimeout c1 + 1\<rparr>
            else c1\<lparr>po_running := po_running c1 + 1\<rparr>)
         else if \<not> IsZero (om_DeletionTimestamp (pod_Meta pod)) then c1\<lparr>po_terminating := po_terminating c1 + 1\<rparr>
         else c1\<lparr>po_pending := po_pending c1 + 1\<rparr>)"

definition getPodsForOwner :: "OwnerReads \<Rightarrow> time \<Rightarrow> ownerObject \<Rightarrow> podsForOwner option go" where
  "getPodsForOwner k now x =
     go_bind (owner_pods k x)
       (\<lambda>pods. case owner_templateHash x of
            None \<Rightarrow> Ret None
          | Some templateHash \<Rightarrow>
              Ret (Some (fold (countPod now) pods
                \<lparr>po_total = 0, po_completed = 0, po_running = 0, po_terminating = 0, po_regTimeout = 0, po_pending = 0,
                  po_templateHash = templateHash, po_owner = x, po_synced = owner_synced x, po_pods = pods\<rparr>)))"

subsection \<open>Collecting\<close>

type_synonym podsForOwners = "(string \<times> podsForOwner list) list"

record ownersState =
  os_podsForOwners :: podsForOwners
  os_lastSyncTime :: "time option"

definition ownersOf :: "podsForOwners \<Rightarrow> string \<Rightarrow> podsForOwner list" where
  "ownersOf m h = (case map_of m h of None \<Rightarrow> [] | Some xs \<Rightarrow> xs)"

definition addPodsForOwner :: "podsForOwner \<Rightarrow> podsForOwners \<Rightarrow> podsForOwners" where
  "addPodsForOwner res m = AList.update (po_templateHash res) (ownersOf m (po_templateHash res) @ [res]) m"

definition deletionSafe :: "Pod \<Rightarrow> bool" where
  "deletionSafe pod \<longleftrightarrow> getAnnotation (pod_Meta pod) AnnotationKeyUnregistrationCompleteTimestamp \<noteq> None \<or>
     \<not> IsZero (om_DeletionTimestamp (pod_Meta pod))"

definition laterSync :: "time option \<Rightarrow> ownerObject \<Rightarrow> time option" where
  "laterSync lastSyncTime x =
     (case Option.bind (getAnnotation (ownerMeta x) SyncTimeAnnotationKey) ParseRFC3339 of
        None \<Rightarrow> lastSyncTime
      | Some t \<Rightarrow> if (case lastSyncTime of None \<Rightarrow> True | Some u \<Rightarrow> u < t) then Some t else lastSyncTime)"

text \<open>The second half of the loop body, for an owner that is neither terminating nor done with its unregistration.\<close>

definition collectActive ::
  "kubeCall api \<Rightarrow> podsForOwner \<Rightarrow> ownersState \<Rightarrow> (ownersState \<Rightarrow> (kubeCall, ownersState option) eff) \<Rightarrow> (kubeCall, ownersState option) eff" where
  "collectActive api res st k =
     (let st1 = st\<lparr>os_lastSyncTime := laterSync (os_lastSyncTime st) (po_owner res)\<rparr>
      in if po_total res > 0 \<and> po_total res = po_completed res then
           ebind (ewrite api (deleteOwner (po_owner res))) (\<lambda>_. eret None)
         else if \<not> po_synced res then eret None
         else k (st1\<lparr>os_podsForOwners := addPodsForOwner res (os_podsForOwners st1)\<rparr>))"

fun collectLoop ::
  "OwnerReads \<Rightarrow> kubeCall api \<Rightarrow> time \<Rightarrow> string \<Rightarrow> ownerObject list \<Rightarrow> ownersState \<Rightarrow> (kubeCall, ownersState option) eff" where
  "collectLoop k api now stamp [] st = eret (Some st)"
| "collectLoop k api now stamp (x # xs) st =
     ebind (elift (getPodsForOwner k now x))
       (\<lambda>r. case r of
            None \<Rightarrow> epanic ''nil pointer dereference''
          | Some res \<Rightarrow>
              if po_templateHash res = [] then eret None
              else if \<not> IsZero (om_DeletionTimestamp (ownerMeta x)) then collectLoop k api now stamp xs st
              else if getAnnotation (ownerMeta x) AnnotationKeyUnregistrationCompleteTimestamp \<noteq> None then
                ebind (ewrite api (deleteOwner x)) (\<lambda>_. collectLoop k api now stamp xs st)
              else if getAnnotation (ownerMeta x) AnnotationKeyUnregistrationRequestTimestamp \<noteq> None \<and>
                      int (length (filter deletionSafe (po_pods res))) = po_total res then
                ebind (ewrite api (patchOwner (owner_withAnnotation AnnotationKeyUnregistrationCompleteTimestamp stamp x)))
                  (\<lambda>_. collectLoop k api now stamp xs st)
              else collectActive api res st (collectLoop k api now stamp xs))"

definition collectPodsForOwners ::
  "OwnerReads \<Rightarrow> kubeCall api \<Rightarrow> time \<Rightarrow> string \<Rightarrow> ownerObject list \<Rightarrow> (kubeCall, ownersState option) eff" where
  "collectPodsForOwners k api now stamp owners =
     collectLoop k api now stamp owners \<lparr>os_podsForOwners = [], os_lastSyncTime = None\<rparr>"

subsection \<open>Synchronising\<close>

fun createReplicas :: "kubeCall api \<Rightarrow> ownerObject \<Rightarrow> nat \<Rightarrow> (kubeCall, unit) eff" where
  "createReplicas api create 0 = eret ()"
| "createReplicas api create (Suc n) = ebind (ewrite api (createOwner create)) (\<lambda>_. createReplicas api create n)"

text \<open>The loop from the newest to the oldest owner: the replicas retained and the owners to delete.\<close>

fun retainLoop :: "int \<Rightarrow> podsForOwner list \<Rightarrow> int \<Rightarrow> podsForOwner list \<Rightarrow> int \<times> podsForOwner list" where
  "retainLoop desired [] retained del = (retained, del)"
| "retainLoop desired (ss # sss) retained del =
     (if po_running ss = 0 \<or> retained \<ge> desired then retainLoop desired sss retained (del @ [ss])
      else retainLoop desired sss (retained + po_running ss) del)"

fun annotatePods :: "kubeCall api \<Rightarrow> string \<Rightarrow> Pod list \<Rightarrow> (kubeCall, unit) eff" where
  "annotatePods api stamp [] = eret ()"
| "annotatePods api stamp (p # ps) =
     ebind (annotatePodOnce api (Some p) AnnotationKeyUnregistrationRequestTimestamp stamp) (\<lambda>_. annotatePods api stamp ps)"

fun requestUnregistration :: "kubeCall api \<Rightarrow> string \<Rightarrow> podsForOwner list \<Rightarrow> (kubeCall, unit) eff" where
  "requestUnregistration api stamp [] = eret ()"
| "requestUnregistration api stamp (ss # sss) =
     (if getAnnotation (ownerMeta (po_owner ss)) AnnotationKeyUnregistrationRequestTimestamp \<noteq> None
      then requestUnregistration api stamp sss
      else ebind (annotatePods api stamp (po_pods ss))
        (\<lambda>_. ebind (ewrite api (patchOwner (owner_withAnnotation AnnotationKeyUnregistrationRequestTimestamp stamp (po_owner ss))))
          (\<lambda>_. requestUnregistration api stamp sss)))"

text \<open>The last loop: the first owner found with another template hash ends the reconciliation.\<close>

definition deleteOutdated :: "kubeCall api \<Rightarrow> string \<Rightarrow> podsForOwner list \<Rightarrow> podsForOwner list \<Rightarrow> (kubeCall, podsForOwner list option) eff" where
  "deleteOutdated api desiredTemplateHash currentObjects all =
     (case List.find (\<lambda>ss. po_templateHash ss \<noteq> desiredTemplateHash) all of
        None \<Rightarrow> eret (Some currentObjects)
      | Some ss \<Rightarrow>
          if IsZero (om_DeletionTimestamp (ownerMeta (po_owner ss)))
          then ebind (ewrite api (deleteOwner (po_owner ss))) (\<lambda>_. eret None)
          else eret None)"

definition maybeRunning :: "podsForOwner list \<Rightarrow> int" where
  "maybeRunning objs = (\<Sum>ss \<leftarrow> objs. po_pending ss) + (\<Sum>ss \<leftarrow> objs. po_running ss)"

definition runningPods :: "podsForOwner list \<Rightarrow> int" where
  "runningPods objs = (\<Sum>ss \<leftarrow> objs. po_running ss)"

definition alreadySyncedAfterEffectiveTime :: "bool \<Rightarrow> time option \<Rightarrow> time option \<Rightarrow> bool" where
  "alreadySyncedAfterEffectiveTime ephemeral lastSyncTime effectiveTime \<longleftrightarrow> ephemeral \<and>
     (case (lastSyncTime, effectiveTime) of (Some l, Some e) \<Rightarrow> l > e | _ \<Rightarrow> False)"

definition recreationDelayed :: "time \<Rightarrow> time option \<Rightarrow> bool" where
  "recreationDelayed now lastSyncTime =
     (case lastSyncTime of None \<Rightarrow> False | Some l \<Rightarrow> now < l + DefaultRunnerPodRecreationDelayAfterWebhookScale)"

definition syncCollected ::
  "kubeCall api \<Rightarrow> ((string \<times> podsForOwner list) list \<Rightarrow> (string \<times> podsForOwner list) list) \<Rightarrow> time \<Rightarrow> string \<Rightarrow> time option \<Rightarrow> int \<Rightarrow>
    ownerObject \<Rightarrow> bool \<Rightarrow> ownersState \<Rightarrow> (kubeCall, podsForOwner list option) eff" where
  "syncCollected api iter now stamp effectiveTime newDesiredReplicas create ephemeral st =
     (case owner_templateHash create of
        None \<Rightarrow> eret None
      | Some desiredTemplateHash \<Rightarrow>
          (let currentObjects = sort_key (\<lambda>ss. om_CreationTimestamp (ownerMeta (po_owner ss))) (ownersOf (os_podsForOwners st) desiredTemplateHash);
               running = runningPods currentObjects;
               wantMoreRunners = newDesiredReplicas > maybeRunning currentObjects;
               alreadySynced = alreadySyncedAfterEffectiveTime ephemeral (os_lastSyncTime st) effectiveTime;
               delayed = recreationDelayed now (os_lastSyncTime st);
               rest = deleteOutdated api desiredTemplateHash currentObjects (concat (map snd (iter (os_podsForOwners st))))
           in if wantMoreRunners \<and> alreadySynced \<and> delayed then rest
              else if wantMoreRunners then
                ebind (createReplicas api create (nat (newDesiredReplicas - maybeRunning currentObjects))) (\<lambda>_. eret None)
              else if newDesiredReplicas \<le> running then
                (let (retained, del) = retainLoop newDesiredReplicas (rev currentObjects) 0 []
                 in if retained = newDesiredReplicas then ebind (requestUnregistration api stamp del) (\<lambda>_. rest)
                    else if retained > newDesiredReplicas then eret None
                    else epanic ''crashed due to invalid state'')
              else rest))"

definition syncRunnerPodsOwners ::
  "OwnerReads \<Rightarrow> kubeCall api \<Rightarrow> ((string \<times> podsForOwner list) list \<Rightarrow> (string \<times> podsForOwner list) list) \<Rightarrow> time \<Rightarrow> string \<Rightarrow> time option \<Rightarrow> int \<Rightarrow>
    ownerObject \<Rightarrow> bool \<Rightarrow> ownerObject list \<Rightarrow> (kubeCall, podsForOwner list option) eff" where
  "syncRunnerPodsOwners k api iter now stamp effectiveTime newDesiredReplicas create ephemeral owners =
     ebind (collectPodsForOwners k api now stamp owners)
       (\<lambda>st. case st of
            None \<Rightarrow> eret None
          | Some s \<Rightarrow> syncCollected api iter now stamp effectiveTime newDesiredReplicas create ephemeral s)"

text \<open>The arguments of a synchronisation.\<close>

record OwnersSync =
  oy_Reads :: OwnerReads
  oy_Iter :: "podsForOwners \<Rightarrow> podsForOwners"
  oy_Now :: time
  oy_Stamp :: string
  oy_EffectiveTime :: "time option"
  oy_Replicas :: int
  oy_Create :: ownerObject
  oy_Ephemeral :: bool
  oy_Owners :: "ownerObject list"

definition runSync :: "kubeCall api \<Rightarrow> OwnersSync \<Rightarrow> (kubeCall, podsForOwner list option) eff" where
  "runSync api q = syncRunnerPodsOwners (oy_Reads q) api (oy_Iter q) (oy_Now q) (oy_Stamp q) (oy_EffectiveTime q) (oy_Replicas q)
     (oy_Create q) (oy_Ephemeral q) (oy_Owners q)"

subsection \<open>The counters\<close>

definition countsOk :: "podsForOwner \<Rightarrow> bool" where
  "countsOk c \<longleftrightarrow> po_total c = po_completed c + po_running c + po_terminating c + po_regTimeout c + po_pending c \<and>
     0 \<le> po_completed c \<and> 0 \<le> po_running c \<and> 0 \<le> po_terminating c \<and> 0 \<le> po_regTimeout c \<and> 0 \<le> po_pending c"

lemma countPod_ok: "countsOk c \<Longrightarrow> countsOk (countPod now pod c)"
  by (auto simp: countsOk_def countPod_def Let_def)

lemma countPod_frame:
  "po_total (countPod now pod c) = po_total c + 1" "po_templateHash (countPod now pod c) = po_templateHash c"
  "po_owner (countPod now pod c) = po_owner c" "po_synced (countPod now pod c) = po_synced c" "po_pods (countPod now pod c) = po_pods c"
  by (simp_all add: countPod_def Let_def)

lemma fold_countPod:
  "countsOk c \<Longrightarrow> countsOk (fold (countPod now) pods c)"
  "po_total (fold (countPod now) pods c) = po_total c + int (length pods)"
  "po_templateHash (fold (countPod now) pods c) = po_templateHash c"
  "po_owner (fold (countPod now) pods c) = po_owner c" "po_pods (fold (countPod now) pods c) = po_pods c"
  by (induction pods arbitrary: c) (simp_all add: countPod_ok countPod_frame)

lemma fold_countPod_completed:
  "po_completed (fold (countPod now) pods c) = po_completed c + int (length (filter runnerPodOrContainerIsStopped pods))"
  by (induction pods arbitrary: c) (simp_all add: countPod_def Let_def)

lemma getPodsForOwner_Some:
  assumes "getPodsForOwner k now x = Ret (Some res)"
  shows "countsOk res \<and> po_total res = int (length (po_pods res)) \<and> owner_pods k x = Ret (po_pods res) \<and> po_owner res = x \<and>
    owner_templateHash x = Some (po_templateHash res) \<and>
    po_completed res = int (length (filter runnerPodOrContainerIsStopped (po_pods res)))"
proof -
  from assms obtain pods h where p: "owner_pods k x = Ret pods" and h: "owner_templateHash x = Some h"
    and r: "res = fold (countPod now) pods \<lparr>po_total = 0, po_completed = 0, po_running = 0, po_terminating = 0, po_regTimeout = 0, po_pending = 0,
                  po_templateHash = h, po_owner = x, po_synced = owner_synced x, po_pods = pods\<rparr>"
    by (auto simp: getPodsForOwner_def go_bind_Ret_iff split: option.splits)
  have "countsOk res" unfolding r by (rule fold_countPod(1)) (simp add: countsOk_def)
  with p h show ?thesis unfolding r by (simp add: fold_countPod(2-5) fold_countPod_completed)
qed

subsection \<open>Collected owners\<close>

lemma ownersOf_add:
  "ownersOf (addPodsForOwner res m) h = ownersOf m h @ (if h = po_templateHash res then [res] else [])"
  by (simp add: ownersOf_def addPodsForOwner_def)

text \<open>The collected owners are among the owners given, each with the counters of its pods.\<close>

definition collectedFrom :: "OwnerReads \<Rightarrow> time \<Rightarrow> ownerObject list \<Rightarrow> podsForOwners \<Rightarrow> bool" where
  "collectedFrom k now owners m \<longleftrightarrow>
     (\<forall>hr \<in> set m. \<forall>res \<in> set (snd hr).
        po_owner res \<in> set owners \<and> getPodsForOwner k now (po_owner res) = Ret (Some res) \<and> po_templateHash res = fst hr)"

lemma collectedFrom_ownersOf:
  assumes "collectedFrom k now owners m" and "res \<in> set (ownersOf m h)"
  shows "po_owner res \<in> set owners \<and> getPodsForOwner k now (po_owner res) = Ret (Some res) \<and> po_templateHash res = h"
proof -
  from assms(2) obtain rs where "(h, rs) \<in> set m" "res \<in> set rs"
    by (cases "map_of m h") (auto simp: ownersOf_def dest: map_of_SomeD)
  with assms(1) show ?thesis unfolding collectedFrom_def by force
qed

lemma collectedFrom_add:
  assumes "collectedFrom k now owners m" and "x \<in> set owners" and "getPodsForOwner k now x = Ret (Some res)"
  shows "collectedFrom k now owners (addPodsForOwner res m)"
proof -
  have "po_owner res = x" using getPodsForOwner_Some [OF assms(3)] by simp
  with assms(2,3) have r: "\<forall>res' \<in> set (ownersOf m (po_templateHash res) @ [res]).
      po_owner res' \<in> set owners \<and> getPodsForOwner k now (po_owner res') = Ret (Some res') \<and> po_templateHash res' = po_templateHash res"
    using collectedFrom_ownersOf [OF assms(1)] by auto
  show ?thesis unfolding collectedFrom_def
  proof
    fix hr assume "hr \<in> set (addPodsForOwner res m)"
    then have "hr = (po_templateHash res, ownersOf m (po_templateHash res) @ [res]) \<or> hr \<in> set m"
      using set_update_subset by (fastforce simp: addPodsForOwner_def)
    with r assms(1) show "\<forall>res' \<in> set (snd hr). po_owner res' \<in> set owners \<and> getPodsForOwner k now (po_owner res') = Ret (Some res') \<and>
        po_templateHash res' = fst hr"
      unfolding collectedFrom_def by auto
  qed
qed

text \<open>
  The owners that count: those that are neither being deleted nor done with their unregistration, with their counters; among them, oldest first, the current ones with the desired template; and the time of the last synchronisation they tell of.
\<close>

definition activeOwner :: "podsForOwner \<Rightarrow> bool" where
  "activeOwner res \<longleftrightarrow> (let m = ownerMeta (po_owner res) in IsZero (om_DeletionTimestamp m) \<and> getAnnotation m AnnotationKeyUnregistrationCompleteTimestamp = None \<and>
     \<not> (getAnnotation m AnnotationKeyUnregistrationRequestTimestamp \<noteq> None \<and> list_all deletionSafe (po_pods res)))"

definition activeOwners :: "OwnerReads \<Rightarrow> time \<Rightarrow> ownerObject list \<Rightarrow> podsForOwner list" where
  "activeOwners k now xs = concat (map (\<lambda>x. case getPodsForOwner k now x of Ret (Some res) \<Rightarrow> if activeOwner res then [res] else [] | _ \<Rightarrow> []) xs)"

definition lastSync :: "podsForOwner list \<Rightarrow> time option" where
  "lastSync rs = fold (\<lambda>res t. laterSync t (po_owner res)) rs None"

abbreviation activeOf :: "OwnersSync \<Rightarrow> podsForOwner list" where
  "activeOf y \<equiv> activeOwners (oy_Reads y) (oy_Now y) (oy_Owners y)"

definition currentOwners :: "OwnersSync \<Rightarrow> podsForOwner list" where
  "currentOwners y = sort_key (\<lambda>ss. om_CreationTimestamp (ownerMeta (po_owner ss)))
     (filter (\<lambda>res. Some (po_templateHash res) = owner_templateHash (oy_Create y)) (activeOf y))"

text \<open>An owner that can be given up: as many replicas as desired are running, and it has no running pod, or as many as desired are running on owners that come after it.\<close>

definition surplus :: "OwnersSync \<Rightarrow> podsForOwner \<Rightarrow> bool" where
  "surplus y ss \<longleftrightarrow> oy_Replicas y \<le> runningPods (currentOwners y) \<and>
     (\<exists>older newer. currentOwners y = older @ ss # newer \<and> (po_running ss = 0 \<or> oy_Replicas y \<le> runningPods newer))"

definition creationHeld :: "OwnersSync \<Rightarrow> bool" where
  "creationHeld y \<longleftrightarrow> alreadySyncedAfterEffectiveTime (oy_Ephemeral y) (lastSync (activeOf y)) (oy_EffectiveTime y) \<and> recreationDelayed (oy_Now y) (lastSync (activeOf y))"

text \<open>
  The calls a synchronisation may make, each with its justification. An owner is created when every active owner is synced and fewer pods are pending or running than desired, unless that is held back after a synchronisation. An owner is deleted when its
  unregistration is complete, when all its pods have completed, or when it has another template hash than the desired one; its unregistration counts as complete when it has been requested and every pod is unregistered or being deleted; and it is requested, of
  the owner and its pods, when the owner can be given up.
\<close>

inductive syncCall :: "OwnersSync \<Rightarrow> kubeCall \<Rightarrow> bool" for y :: OwnersSync where
  created: "\<forall>res \<in> set (activeOf y). po_synced res \<Longrightarrow> maybeRunning (currentOwners y) < oy_Replicas y \<Longrightarrow> \<not> creationHeld y \<Longrightarrow> syncCall y (createOwner (oy_Create y))"
| unregistered: "x \<in> set (oy_Owners y) \<Longrightarrow> getAnnotation (ownerMeta x) AnnotationKeyUnregistrationCompleteTimestamp \<noteq> None \<Longrightarrow>
    syncCall y (deleteOwner x)"
| completed: "x \<in> set (oy_Owners y) \<Longrightarrow> owner_pods (oy_Reads y) x = Ret pods \<Longrightarrow> pods \<noteq> [] \<Longrightarrow> list_all runnerPodOrContainerIsStopped pods \<Longrightarrow>
    syncCall y (deleteOwner x)"
| outdated: "x \<in> set (oy_Owners y) \<Longrightarrow> owner_templateHash x \<noteq> owner_templateHash (oy_Create y) \<Longrightarrow> syncCall y (deleteOwner x)"
| unregistration_complete: "x \<in> set (oy_Owners y) \<Longrightarrow> getAnnotation (ownerMeta x) AnnotationKeyUnregistrationRequestTimestamp \<noteq> None \<Longrightarrow>
    owner_pods (oy_Reads y) x = Ret pods \<Longrightarrow> list_all deletionSafe pods \<Longrightarrow>
    syncCall y (patchOwner (owner_withAnnotation AnnotationKeyUnregistrationCompleteTimestamp (oy_Stamp y) x))"
| unregistration_requested: "surplus y ss \<Longrightarrow> getAnnotation (ownerMeta (po_owner ss)) AnnotationKeyUnregistrationRequestTimestamp = None \<Longrightarrow>
    syncCall y (patchOwner (owner_withAnnotation AnnotationKeyUnregistrationRequestTimestamp (oy_Stamp y) (po_owner ss)))"
| pod_requested: "surplus y ss \<Longrightarrow> getAnnotation (ownerMeta (po_owner ss)) AnnotationKeyUnregistrationRequestTimestamp = None \<Longrightarrow> pod \<in> set (po_pods ss) \<Longrightarrow>
    syncCall y (PatchPod (pod\<lparr>pod_Meta := setAnnotation (pod_Meta pod) AnnotationKeyUnregistrationRequestTimestamp (oy_Stamp y)\<rparr>))"

lemma activeOwners_in:
  assumes "res \<in> set (activeOwners k now xs)"
  shows "po_owner res \<in> set xs" and "getPodsForOwner k now (po_owner res) = Ret (Some res)"
proof -
  obtain x where "x \<in> set xs" "getPodsForOwner k now x = Ret (Some res)"
    using assms by (auto simp: activeOwners_def split: go.splits option.splits if_splits)
  then show "po_owner res \<in> set xs" "getPodsForOwner k now (po_owner res) = Ret (Some res)" using getPodsForOwner_Some by metis+
qed

lemma surplus_owner:
  assumes "surplus y ss"
  shows "po_owner ss \<in> set (oy_Owners y)" and "owner_pods (oy_Reads y) (po_owner ss) = Ret (po_pods ss)" and "owner_templateHash (po_owner ss) = owner_templateHash (oy_Create y)"
proof -
  have "ss \<in> set (currentOwners y)" using assms by (auto simp: surplus_def)
  then have "ss \<in> set (activeOf y)" "Some (po_templateHash ss) = owner_templateHash (oy_Create y)" by (simp_all add: currentOwners_def)
  with activeOwners_in [OF this(1)] getPodsForOwner_Some
  show "po_owner ss \<in> set (oy_Owners y)" "owner_pods (oy_Reads y) (po_owner ss) = Ret (po_pods ss)" "owner_templateHash (po_owner ss) = owner_templateHash (oy_Create y)"
    by metis+
qed

text \<open>What the loop has collected after the owners \<open>ds\<close>: the active ones among them, all of them synced.\<close>

definition collectedUpTo :: "OwnersSync \<Rightarrow> ownerObject list \<Rightarrow> ownersState \<Rightarrow> bool" where
  "collectedUpTo y ds st \<longleftrightarrow> collectedFrom (oy_Reads y) (oy_Now y) (oy_Owners y) (os_podsForOwners st) \<and>
     (\<forall>h. ownersOf (os_podsForOwners st) h = filter (\<lambda>res. po_templateHash res = h) (activeOwners (oy_Reads y) (oy_Now y) ds)) \<and>
     os_lastSyncTime st = lastSync (activeOwners (oy_Reads y) (oy_Now y) ds) \<and> (\<forall>res \<in> set (activeOwners (oy_Reads y) (oy_Now y) ds). po_synced res)"

lemma activeOwners_snoc:
  assumes "getPodsForOwner k now x = Ret (Some res)"
  shows "activeOwners k now (ds @ [x]) = activeOwners k now ds @ (if activeOwner res then [res] else [])"
  using assms by (simp add: activeOwners_def)

lemma collectedUpTo_skip:
  "collectedUpTo y ds st \<Longrightarrow> getPodsForOwner (oy_Reads y) (oy_Now y) x = Ret (Some res) \<Longrightarrow> \<not> activeOwner res \<Longrightarrow> collectedUpTo y (ds @ [x]) st"
  by (simp add: collectedUpTo_def activeOwners_snoc)

lemma collectedUpTo_add:
  assumes "collectedUpTo y ds st" and "x \<in> set (oy_Owners y)" and "getPodsForOwner (oy_Reads y) (oy_Now y) x = Ret (Some res)" and "activeOwner res" and "po_synced res"
  shows "collectedUpTo y (ds @ [x]) (st\<lparr>os_lastSyncTime := laterSync (os_lastSyncTime st) (po_owner res), os_podsForOwners := addPodsForOwner res (os_podsForOwners st)\<rparr>)"
  using assms collectedFrom_add [OF _ assms(2,3)] by (auto simp: collectedUpTo_def activeOwners_snoc ownersOf_add lastSync_def)

lemma collectedUpTo_current:
  assumes "collectedUpTo y (oy_Owners y) st" and "owner_templateHash (oy_Create y) = Some h"
  shows "sort_key (\<lambda>ss. om_CreationTimestamp (ownerMeta (po_owner ss))) (ownersOf (os_podsForOwners st) h) = currentOwners y"
  using assms by (simp add: collectedUpTo_def currentOwners_def)

lemma length_filter_all: "length (filter P xs) = length xs \<longleftrightarrow> list_all P xs"
  by (metis filter_True length_filter_less less_irrefl list_all_iff)

lemma getPodsForOwner_panic: "getPodsForOwner k now x = Panic s \<Longrightarrow> owner_pods k x = Panic s"
  by (cases "owner_pods k x") (auto simp: getPodsForOwner_def split: option.splits)

text \<open>What may be wrong with the owners given: an owner without a template hash, or a read that panics.\<close>

definition panicsAllowed :: "OwnerReads \<Rightarrow> ownerObject list \<Rightarrow> (string \<Rightarrow> bool) \<Rightarrow> bool" where
  "panicsAllowed k owners N \<longleftrightarrow>
     (\<forall>x \<in> set owners. (owner_templateHash x = None \<longrightarrow> N ''nil pointer dereference'') \<and> (\<forall>s. owner_pods k x = Panic s \<longrightarrow> N s))"

lemma run_collectActive:
  assumes x: "x \<in> set (oy_Owners y)" and g: "getPodsForOwner (oy_Reads y) (oy_Now y) x = Ret (Some res)" and c: "collectedUpTo y ds st" and a: "activeOwner res"
    and more: "\<And>st1. collectedUpTo y (ds @ [x]) st1 \<Longrightarrow> run_ok (syncCall y) Q N (next st1)"
    and ret: "Q None"
  shows "run_ok (syncCall y) Q N (collectActive api res st next)"
  unfolding collectActive_def Let_def
proof (intro run_if run_write_then)
  assume "po_total res > 0 \<and> po_total res = po_completed res"
  with getPodsForOwner_Some [OF g] have "po_pods res \<noteq> []" "list_all runnerPodOrContainerIsStopped (po_pods res)"
    using length_filter_all [of runnerPodOrContainerIsStopped "po_pods res"] by auto
  with x getPodsForOwner_Some [OF g] show "syncCall y (deleteOwner (po_owner res))" by (auto intro: completed)
next
  assume "\<not> \<not> po_synced res"
  then show "run_ok (syncCall y) Q N (next (st\<lparr>os_lastSyncTime := laterSync (os_lastSyncTime st) (po_owner res),
      os_podsForOwners := addPodsForOwner res (os_podsForOwners (st\<lparr>os_lastSyncTime := laterSync (os_lastSyncTime st) (po_owner res)\<rparr>))\<rparr>))"
    using more [OF collectedUpTo_add [OF c x g a]] by simp
qed (auto intro!: run_eret simp: ret)

lemma run_collectOwner:
  assumes "panicsAllowed (oy_Reads y) (oy_Owners y) N" and x: "x \<in> set (oy_Owners y)" and c: "collectedUpTo y ds st"
    and more: "\<And>st1. collectedUpTo y (ds @ [x]) st1 \<Longrightarrow> run_ok (syncCall y) Q N (rest st1)"
    and ret: "Q None" and r: "getPodsForOwner (oy_Reads y) (oy_Now y) x = Ret r"
  shows "run_ok (syncCall y) Q N (case r of None \<Rightarrow> epanic ''nil pointer dereference'' | Some res \<Rightarrow>
      if po_templateHash res = [] then eret None
      else if \<not> IsZero (om_DeletionTimestamp (ownerMeta x)) then rest st
      else if getAnnotation (ownerMeta x) AnnotationKeyUnregistrationCompleteTimestamp \<noteq> None then ebind (ewrite api (deleteOwner x)) (\<lambda>_. rest st)
      else if getAnnotation (ownerMeta x) AnnotationKeyUnregistrationRequestTimestamp \<noteq> None \<and>
              int (length (filter deletionSafe (po_pods res))) = po_total res then
        ebind (ewrite api (patchOwner (owner_withAnnotation AnnotationKeyUnregistrationCompleteTimestamp (oy_Stamp y) x))) (\<lambda>_. rest st)
      else collectActive api res st rest)"
proof (cases r)
  case None
  with r have "owner_templateHash x = None"
    by (auto simp: getPodsForOwner_def go_bind_Ret_iff split: option.splits)
  with None assms(1) x show ?thesis by (simp add: run_epanic panicsAllowed_def)
next
  case (Some res)
  note g = r [unfolded Some]
  have res: "po_owner res = x" "po_total res = int (length (po_pods res))" "owner_pods (oy_Reads y) x = Ret (po_pods res)" using getPodsForOwner_Some [OF g] by simp_all
  have skip: "\<not> activeOwner res \<Longrightarrow> run_ok (syncCall y) Q N (rest st)" using more collectedUpTo_skip [OF c g] by blast
  have active: "activeOwner res" if "\<not> \<not> IsZero (om_DeletionTimestamp (ownerMeta x))" "\<not> getAnnotation (ownerMeta x) AnnotationKeyUnregistrationCompleteTimestamp \<noteq> None"
    "\<not> (getAnnotation (ownerMeta x) AnnotationKeyUnregistrationRequestTimestamp \<noteq> None \<and> int (length (filter deletionSafe (po_pods res))) = po_total res)"
    using that by (auto simp: activeOwner_def res Let_def length_filter_all)
  show ?thesis unfolding Some option.case
    by (intro run_if run_write_then run_eret ret run_collectActive [OF x g c active more])
      (use x ret res in \<open>auto intro: unregistered unregistration_complete intro!: skip simp: length_filter_all activeOwner_def Let_def\<close>)
qed

lemma run_collectLoop:
  assumes "panicsAllowed (oy_Reads y) (oy_Owners y) N" and "oy_Owners y = ds @ xs" and "collectedUpTo y ds st"
  shows "run_ok (syncCall y) (\<lambda>r. \<forall>st'. r = Some st' \<longrightarrow> collectedUpTo y (oy_Owners y) st') N (collectLoop (oy_Reads y) api (oy_Now y) (oy_Stamp y) xs st)"
  using assms(2,3)
proof (induction xs arbitrary: ds st)
  case Nil
  then show ?case by (simp add: run_eret)
next
  case (Cons x xs)
  have x: "x \<in> set (oy_Owners y)" using Cons.prems(1) by simp
  show ?case unfolding collectLoop.simps
  proof (rule run_ebind [where R = "\<lambda>r. getPodsForOwner (oy_Reads y) (oy_Now y) x = Ret r"], rule run_elift)
    fix s assume "getPodsForOwner (oy_Reads y) (oy_Now y) x = Panic s"
    then show "N s" using assms(1) x getPodsForOwner_panic unfolding panicsAllowed_def by blast
  next
    fix r assume "getPodsForOwner (oy_Reads y) (oy_Now y) x = Ret r"
    then show "getPodsForOwner (oy_Reads y) (oy_Now y) x = Ret r" .
  qed (rule run_collectOwner [OF assms(1) x Cons.prems(2)], use Cons.IH Cons.prems(1) in simp_all)
qed

lemma run_collectPodsForOwners:
  assumes "panicsAllowed (oy_Reads y) (oy_Owners y) N"
  shows "run_ok (syncCall y) (\<lambda>r. \<forall>st'. r = Some st' \<longrightarrow> collectedUpTo y (oy_Owners y) st') N (collectPodsForOwners (oy_Reads y) api (oy_Now y) (oy_Stamp y) (oy_Owners y))"
  unfolding collectPodsForOwners_def
  by (rule run_collectLoop [OF assms, of "[]"]) (simp_all add: collectedUpTo_def collectedFrom_def activeOwners_def lastSync_def ownersOf_def)

subsection \<open>Scaling down\<close>

text \<open>The loop goes through owners as long as replicas are wanted, and gives up every owner after that: the owners it goes through are the fewest that have the desired number of running pods.\<close>

lemma retainLoop_split:
  assumes "retainLoop desired objs r0 d0 = (retained, del)"
  shows "\<exists>ys xs. objs = ys @ xs \<and> retained = r0 + runningPods ys \<and> del = d0 @ filter (\<lambda>ss. po_running ss = 0) ys @ xs \<and>
    (retained \<ge> desired \<or> xs = []) \<and> (\<forall>k < length ys. r0 + runningPods (take k ys) < desired)"
  using assms
proof (induction objs arbitrary: r0 d0)
  case (Cons ss sss)
  show ?case
  proof (cases "r0 \<ge> desired")
    case True
    have "retainLoop desired zs r0 d = (r0, d @ zs)" for zs d using True by (induction zs arbitrary: d) auto
    with Cons.prems have "retained = r0" "del = d0 @ ss # sss" by (simp_all del: retainLoop.simps)
    with True show ?thesis by (intro exI [of _ "[]"] exI [of _ "ss # sss"]) (simp add: runningPods_def)
  next
    case False
    let ?r = "r0 + po_running ss" and ?d = "if po_running ss = 0 then d0 @ [ss] else d0"
    have "retainLoop desired sss ?r ?d = (retained, del)" using Cons.prems False by (auto split: if_splits)
    from Cons.IH [OF this] obtain ys xs where s: "sss = ys @ xs" "retained = ?r + runningPods ys"
      "del = ?d @ filter (\<lambda>ss. po_running ss = 0) ys @ xs" "retained \<ge> desired \<or> xs = []" "\<forall>k < length ys. ?r + runningPods (take k ys) < desired" by auto
    have "r0 + runningPods (take k (ss # ys)) < desired" if "k < length (ss # ys)" for k
      using that s(5) False by (cases k) (auto simp: runningPods_def)
    with s(1-4) show ?thesis by (intro exI [of _ "ss # ys"] exI [of _ xs]) (simp add: runningPods_def)
  qed
qed (auto simp: runningPods_def)

lemma runningPods_append: "runningPods (xs @ ys) = runningPods xs + runningPods ys"
  by (simp add: runningPods_def)

lemma runningPods_rev: "runningPods (rev xs) = runningPods xs"
  by (simp add: runningPods_def rev_map [symmetric] sum_list_rev)

lemma runningPods_sort: "runningPods (sort_key f xs) = runningPods xs"
proof -
  have "mset (map po_running (sort_key f xs)) = mset (map po_running xs)" by simp
  then show ?thesis unfolding runningPods_def by (metis sum_mset_sum_list)
qed

text \<open>The same from the oldest to the newest, when at least the desired number is running: the owners kept are the newest ones, and no more of them than needed.\<close>

definition splitsAt :: "int \<Rightarrow> podsForOwner list \<Rightarrow> podsForOwner list \<Rightarrow> podsForOwner list \<Rightarrow> bool" where
  "splitsAt desired objs older newer \<longleftrightarrow> objs = older @ newer \<and> desired \<le> runningPods newer \<and> (\<forall>k. 0 < k \<longrightarrow> k \<le> length newer \<longrightarrow> runningPods (drop k newer) < desired)"

lemma retainLoop_newest:
  assumes "desired \<le> runningPods objs" and "retainLoop desired (rev objs) 0 [] = (retained, del)"
  shows "\<exists>older newer. splitsAt desired objs older newer \<and> retained = runningPods newer \<and> del = filter (\<lambda>ss. po_running ss = 0) (rev newer) @ rev older"
proof -
  obtain ys xs where s: "rev objs = ys @ xs" "retained = runningPods ys" "del = filter (\<lambda>ss. po_running ss = 0) ys @ xs" "retained \<ge> desired \<or> xs = []"
    "\<forall>k < length ys. runningPods (take k ys) < desired"
    using retainLoop_split [OF assms(2)] by auto
  have o: "objs = rev xs @ rev ys" using arg_cong [OF s(1), of rev] by simp
  have "desired \<le> runningPods (rev ys)" using s(2,4) assms(1) o by (auto simp: runningPods_rev)
  moreover have "runningPods (drop k (rev ys)) < desired" if "0 < k" "k \<le> length ys" for k
    using s(5) that runningPods_rev [of "take (length ys - k) ys"] by (simp add: rev_take)
  ultimately show ?thesis using s(2,3) o
    by (intro exI [of _ "rev xs"] exI [of _ "rev ys"]) (simp add: splitsAt_def runningPods_rev)
qed

text \<open>The "invalid state" is none: with as many replicas running as desired, at least that many are retained.\<close>

lemma retained_enough:
  assumes "desired \<le> runningPods objs" and "retainLoop desired (rev objs) 0 [] = (retained, del)"
  shows "desired \<le> retained"
  using retainLoop_newest [OF assms] by (auto simp: splitsAt_def)

lemma retainLoop_surplus:
  assumes "retainLoop (oy_Replicas y) (rev (currentOwners y)) 0 [] = (retained, del)" and "oy_Replicas y \<le> runningPods (currentOwners y)" and "ss \<in> set del"
    and "\<forall>ss \<in> set (currentOwners y). 0 \<le> po_running ss"
  shows "surplus y ss"
proof -
  obtain older newer where s: "splitsAt (oy_Replicas y) (currentOwners y) older newer" "del = filter (\<lambda>ss. po_running ss = 0) (rev newer) @ rev older"
    using retainLoop_newest [OF assms(2,1)] by blast
  show ?thesis
  proof (cases "ss \<in> set older")
    case True
    then obtain o1 o2 where o: "older = o1 @ ss # o2" by (meson split_list)
    with s(1) assms(4) have "0 \<le> runningPods o2" by (auto simp: splitsAt_def runningPods_def intro!: sum_list_nonneg)
    then have "oy_Replicas y \<le> runningPods (o2 @ newer)" using s(1) by (simp add: splitsAt_def runningPods_append)
    with s(1) o assms(2) show ?thesis unfolding surplus_def splitsAt_def by (intro conjI exI [of _ o1] exI [of _ "o2 @ newer"]) auto
  next
    case False
    with s(2) assms(3) have z: "ss \<in> set newer" "po_running ss = 0" by auto
    then obtain n1 n2 where "newer = n1 @ ss # n2" by (meson split_list)
    with s(1) z(2) assms(2) show ?thesis unfolding surplus_def splitsAt_def by (intro conjI exI [of _ "older @ n1"] exI [of _ n2]) auto
  qed
qed

subsection \<open>The calls of a synchronisation\<close>

lemma run_createReplicas:
  "P (createOwner create) \<Longrightarrow> run_ok P (\<lambda>_. True) N (createReplicas api create n)"
  by (induction n) (simp_all add: run_eret run_write_then)

lemma run_annotatePods:
  assumes "\<And>p. p \<in> set pods \<Longrightarrow> P (PatchPod (p\<lparr>pod_Meta := setAnnotation (pod_Meta p) AnnotationKeyUnregistrationRequestTimestamp stamp\<rparr>))"
  shows "run_ok P (\<lambda>_. True) N (annotatePods api stamp pods)"
  using assms
proof (induction pods)
  case (Cons p ps)
  have "run_ok P (\<lambda>_. True) N (annotatePodOnce api (Some p) AnnotationKeyUnregistrationRequestTimestamp stamp)"
    using Cons.prems [of p] by (simp add: annotatePodOnce_def Let_def run_eret run_write_then)
  with Cons show ?case by (simp add: run_ebind)
qed (simp add: run_eret)

lemma run_requestUnregistration:
  assumes "\<And>ss p. ss \<in> set del \<Longrightarrow> p \<in> set (po_pods ss) \<Longrightarrow> getAnnotation (ownerMeta (po_owner ss)) AnnotationKeyUnregistrationRequestTimestamp = None \<Longrightarrow>
      P (PatchPod (p\<lparr>pod_Meta := setAnnotation (pod_Meta p) AnnotationKeyUnregistrationRequestTimestamp stamp\<rparr>))"
    and "\<And>ss. ss \<in> set del \<Longrightarrow> getAnnotation (ownerMeta (po_owner ss)) AnnotationKeyUnregistrationRequestTimestamp = None \<Longrightarrow> P (patchOwner (owner_withAnnotation AnnotationKeyUnregistrationRequestTimestamp stamp (po_owner ss)))"
  shows "run_ok P (\<lambda>_. True) N (requestUnregistration api stamp del)"
  using assms
proof (induction del)
  case (Cons ss sss)
  let ?new = "getAnnotation (ownerMeta (po_owner ss)) AnnotationKeyUnregistrationRequestTimestamp = None"
  have "run_ok P (\<lambda>_. True) N (annotatePods api stamp (po_pods ss))" if ?new by (rule run_annotatePods, rule Cons.prems(1) [of ss]) (simp_all add: that)
  moreover have "run_ok P (\<lambda>_. True) N (requestUnregistration api stamp sss)"
    by (rule Cons.IH; rule Cons.prems; simp)
  moreover have "P (patchOwner (owner_withAnnotation AnnotationKeyUnregistrationRequestTimestamp stamp (po_owner ss)))" if ?new
    by (rule Cons.prems) (simp_all add: that)
  ultimately show ?case
    unfolding requestUnregistration.simps by (intro run_if run_ebind [where R = "\<lambda>_. True"] run_write_then) simp_all
qed (simp add: run_eret)

lemma find_Some_set: "List.find P xs = Some x \<Longrightarrow> x \<in> set xs \<and> P x"
  by (auto simp: find_Some_iff)

lemma run_deleteOutdated:
  assumes "collectedFrom (oy_Reads y) (oy_Now y) (oy_Owners y) m" and "\<And>hr. hr \<in> set m' \<Longrightarrow> hr \<in> set m" and "owner_templateHash (oy_Create y) = Some h"
  shows "run_ok (syncCall y) (\<lambda>_. True) N (deleteOutdated api h objs (concat (map snd m')))"
proof -
  have "syncCall y (deleteOwner (po_owner ss))"
    if f: "List.find (\<lambda>ss. po_templateHash ss \<noteq> h) (concat (map snd m')) = Some ss" for ss
  proof -
    obtain hr where "hr \<in> set m" "ss \<in> set (snd hr)" "po_templateHash ss \<noteq> h"
      using assms(2) find_Some_set [OF f] by auto
    then show ?thesis using assms(1,3) getPodsForOwner_Some unfolding collectedFrom_def by (metis option.inject outdated)
  qed
  then show ?thesis unfolding deleteOutdated_def by (intro run_option run_if run_write_then run_eret TrueI) simp_all
qed

text \<open>A range over a Go map visits the entries of the map, in some order.\<close>

definition rangesOver :: "(podsForOwners \<Rightarrow> podsForOwners) \<Rightarrow> bool" where
  "rangesOver iter \<longleftrightarrow> (\<forall>m. mset (iter m) = mset m)"

lemma rangesOver_set: "rangesOver iter \<Longrightarrow> set (iter m) = set m"
  by (metis rangesOver_def set_mset_mset)

lemma countsOk_current: "ss \<in> set (currentOwners y) \<Longrightarrow> countsOk ss"
  using activeOwners_in(2) getPodsForOwner_Some by (fastforce simp: currentOwners_def)

lemma run_syncCollected:
  assumes c: "collectedUpTo y (oy_Owners y) st" and i: "rangesOver iter" and r: "oy_Replicas y = desired"
  shows "run_ok (syncCall y) (\<lambda>_. True) N
    (syncCollected api iter (oy_Now y) (oy_Stamp y) (oy_EffectiveTime y) desired (oy_Create y) (oy_Ephemeral y) st)"
proof (cases "owner_templateHash (oy_Create y)")
  case None
  then show ?thesis by (simp add: syncCollected_def run_eret)
next
  case (Some h)
  let ?objs = "currentOwners y"
  have objs: "sort_key (\<lambda>ss. om_CreationTimestamp (ownerMeta (po_owner ss))) (ownersOf (os_podsForOwners st) h) = ?objs"
    using collectedUpTo_current [OF c Some] .
  obtain retained del where rl: "retainLoop desired (rev ?objs) 0 [] = (retained, del)" by fastforce
  have nonneg: "\<forall>ss \<in> set ?objs. 0 \<le> po_running ss" using countsOk_current by (auto simp: countsOk_def)
  have request: "run_ok (syncCall y) (\<lambda>_. True) N (requestUnregistration api (oy_Stamp y) del)" if "desired \<le> runningPods ?objs"
    by (rule run_requestUnregistration)
      (use retainLoop_surplus [of y retained del, OF _ _ _ nonneg] rl that r in \<open>blast intro: pod_requested unregistration_requested\<close>)+
  have rest: "run_ok (syncCall y) (\<lambda>_. True) N (deleteOutdated api h ?objs (concat (map snd (iter (os_podsForOwners st)))))"
    by (rule run_deleteOutdated [OF _ _ Some]) (use c in \<open>auto simp: collectedUpTo_def rangesOver_set [OF i]\<close>)
  have create: "syncCall y (createOwner (oy_Create y))" if "maybeRunning ?objs < desired"
    "\<not> (maybeRunning ?objs < desired \<and> alreadySyncedAfterEffectiveTime (oy_Ephemeral y) (os_lastSyncTime st) (oy_EffectiveTime y) \<and> recreationDelayed (oy_Now y) (os_lastSyncTime st))"
    using that c r by (intro created) (auto simp: collectedUpTo_def creationHeld_def)
  have enough: "desired \<le> runningPods ?objs \<Longrightarrow> \<not> retained > desired \<Longrightarrow> retained = desired" using retained_enough [OF _ rl] by fastforce
  show ?thesis unfolding syncCollected_def Some option.case objs Let_def rl prod.case
    by (intro run_if rest run_eret run_ebind [where R = "\<lambda>_. True"] run_createReplicas create request TrueI)
      (use enough in auto)
qed

lemma run_runSync:
  assumes "panicsAllowed (oy_Reads y) (oy_Owners y) N" and "rangesOver (oy_Iter y)"
  shows "run_ok (syncCall y) (\<lambda>_. True) N (runSync api y)"
  unfolding runSync_def syncRunnerPodsOwners_def
proof (rule run_ebind, rule run_collectPodsForOwners [OF assms(1)])
  fix r :: "ownersState option"
  assume "\<forall>st'. r = Some st' \<longrightarrow> collectedUpTo y (oy_Owners y) st'"
  then show "run_ok (syncCall y) (\<lambda>_. True) N (case r of None \<Rightarrow> eret None
      | Some s \<Rightarrow> syncCollected api (oy_Iter y) (oy_Now y) (oy_Stamp y) (oy_EffectiveTime y) (oy_Replicas y) (oy_Create y) (oy_Ephemeral y) s)"
    by (intro run_option run_eret run_syncCollected assms(2)) simp_all
qed

text \<open>
  C3. Every write of a synchronisation has its justification. An owner is created only when every active owner is synced and fewer pods are pending or running on the owners with the desired template than are desired, and not while the recreation is held back. The unregistration of an owner is
  requested, of it and of its pods, only when it has the desired template and is not needed: as many pods as desired are running, and none of them on this owner, or at least as many as desired on owners created no earlier. It is declared complete only after it was requested and when every one of
  its pods is unregistered or being deleted. An owner is deleted only when its unregistration is complete, when all its pods have completed, or when it has another template than the desired one. No other call is made.
\<close>

theorem sync_calls_justified:
  assumes "rangesOver (oy_Iter y)" and "call \<in> set (writes (runSync api y))"
  shows "syncCall y call"
proof -
  have "panicsAllowed (oy_Reads y) (oy_Owners y) (\<lambda>_. True)" by (simp add: panicsAllowed_def)
  from run_ok_writes [OF run_runSync [OF this assms(1)] assms(2)] show ?thesis .
qed

subsection \<open>Which owners are given up\<close>

text \<open>The calls that request the unregistration of owners: those of the owners it was not yet requested of, first on their pods.\<close>

definition unregistrationRequests :: "string \<Rightarrow> podsForOwner list \<Rightarrow> kubeCall list" where
  "unregistrationRequests stamp del = concat (map (\<lambda>ss.
     map (\<lambda>p. PatchPod (p\<lparr>pod_Meta := setAnnotation (pod_Meta p) AnnotationKeyUnregistrationRequestTimestamp stamp\<rparr>))
       (filter (\<lambda>p. getAnnotation (pod_Meta p) AnnotationKeyUnregistrationRequestTimestamp = None) (po_pods ss)) @
     [patchOwner (owner_withAnnotation AnnotationKeyUnregistrationRequestTimestamp stamp (po_owner ss))])
     (filter (\<lambda>ss. getAnnotation (ownerMeta (po_owner ss)) AnnotationKeyUnregistrationRequestTimestamp = None) del))"

lemma requestUnregistration_accepted:
  "requestUnregistration acceptAll stamp del l = (l @ unregistrationRequests stamp del, Ret ())"
proof -
  have "annotatePods acceptAll stamp ps l = (l @ map (\<lambda>p. PatchPod (p\<lparr>pod_Meta := setAnnotation (pod_Meta p) AnnotationKeyUnregistrationRequestTimestamp stamp\<rparr>))
      (filter (\<lambda>p. getAnnotation (pod_Meta p) AnnotationKeyUnregistrationRequestTimestamp = None) ps), Ret ())" for ps l
    by (induction ps arbitrary: l) (auto simp: annotatePodOnce_def Let_def go_simps)
  then show ?thesis by (induction del arbitrary: l) (auto simp: unregistrationRequests_def go_simps)
qed

lemma deleteOutdated_accepted: "fst (deleteOutdated acceptAll h objs all l) = l @ writes (deleteOutdated acceptAll h objs all)"
  by (simp add: deleteOutdated_def go_simps split: option.split)

lemma collect_result:
  assumes "collectPodsForOwners (oy_Reads y) api (oy_Now y) (oy_Stamp y) (oy_Owners y) [] = (l, Ret (Some st))"
  shows "collectedUpTo y (oy_Owners y) st"
proof -
  have "panicsAllowed (oy_Reads y) (oy_Owners y) (\<lambda>_. True)" by (simp add: panicsAllowed_def)
  from run_ok_outcome [OF run_collectPodsForOwners [OF this]] assms show ?thesis unfolding outcome_def by (metis snd_conv)
qed


text \<open>
  C15. The synchronisation does not crash: the branch "crashed due to invalid state" is dead whatever the desired number of replicas, and the only panics left are an owner without a template hash (whose result is dereferenced
  though it is nil) and a panic of a read.
\<close>

theorem sync_does_not_panic:
  assumes "\<forall>x \<in> set owners. owner_templateHash x \<noteq> None \<and> \<not> panics (owner_pods k x)" and "rangesOver iter"
  shows "\<not> panics (outcome (syncRunnerPodsOwners k api iter now stamp effectiveTime desired create ephemeral owners))"
proof -
  let ?y = "\<lparr>oy_Reads = k, oy_Iter = iter, oy_Now = now, oy_Stamp = stamp, oy_EffectiveTime = effectiveTime, oy_Replicas = desired, oy_Create = create,
    oy_Ephemeral = ephemeral, oy_Owners = owners\<rparr>"
  have "panicsAllowed k owners (\<lambda>_. False)" using assms(1) by (auto simp: panicsAllowed_def panics_iff)
  with run_ok_panic [OF run_runSync [of ?y "\<lambda>_. False" api]] assms(2) show ?thesis by (auto simp: panics_iff runSync_def)
qed

subsection \<open>Scaling up\<close>

lemma createReplicas_accepted:
  "createReplicas acceptAll create n l = (l @ replicate n (createOwner create), Ret ())"
  by (induction n arbitrary: l) (simp_all add: go_simps)

lemma sync_creates_missing_run:
  assumes "collectPodsForOwners k acceptAll now stamp owners [] = ([], Ret (Some st))"
    and "owner_templateHash create = Some h" and "maybeRunning (ownersOf (os_podsForOwners st) h) < desired"
    and "\<not> (alreadySyncedAfterEffectiveTime ephemeral (os_lastSyncTime st) effectiveTime \<and> recreationDelayed now (os_lastSyncTime st))"
  shows "syncRunnerPodsOwners k acceptAll iter now stamp effectiveTime desired create ephemeral owners [] =
    (replicate (nat (desired - maybeRunning (ownersOf (os_podsForOwners st) h))) (createOwner create), Ret None)"
proof -
  let ?f = "\<lambda>ss. om_CreationTimestamp (ownerMeta (po_owner ss))"
  have m: "maybeRunning (sort_key ?f xs) = maybeRunning xs" for xs
  proof -
    have "mset (map g (sort_key ?f xs)) = mset (map g xs)" for g by simp
    then show ?thesis unfolding maybeRunning_def by (metis sum_mset_sum_list)
  qed
  have "syncCollected acceptAll iter now stamp effectiveTime desired create ephemeral st [] =
      (replicate (nat (desired - maybeRunning (ownersOf (os_podsForOwners st) h))) (createOwner create), Ret None)"
    using assms(3,4) unfolding syncCollected_def assms(2) option.case Let_def m
    by (auto simp: ebind_def createReplicas_accepted eret_def)
  then show ?thesis by (simp add: syncRunnerPodsOwners_def ebind_def assms(1))
qed

text \<open>
  Scaling up: with nothing to clean up, a server that accepts every write and fewer pods pending or running than desired, exactly the missing number of owners is created and nothing else is written; no owner is
  created while a synchronisation of ephemeral runners is younger than the recreation delay and newer than the effective time.
\<close>

theorem sync_scales_up:
  assumes "collectPodsForOwners k acceptAll now stamp owners [] = ([], Ret (Some st))"
    and "owner_templateHash create = Some h" and "maybeRunning (ownersOf (os_podsForOwners st) h) < desired"
    and "\<not> (alreadySyncedAfterEffectiveTime ephemeral (os_lastSyncTime st) effectiveTime \<and> recreationDelayed now (os_lastSyncTime st))"
  shows "writes (syncRunnerPodsOwners k acceptAll iter now stamp effectiveTime desired create ephemeral owners) =
    replicate (nat (desired - maybeRunning (ownersOf (os_podsForOwners st) h))) (createOwner create)"
  using sync_creates_missing_run [OF assms] by (simp add: writes_def)

subsection \<open>Waiting for owners to sync\<close>

text \<open>An owner the controller has to wait for: it is not synced, and neither being deleted nor done with its unregistration.\<close>

definition awaited :: "OwnerReads \<Rightarrow> ownerObject \<Rightarrow> bool" where
  "awaited k x \<longleftrightarrow> owner_templateHash x \<noteq> None \<and> \<not> owner_synced x \<and> IsZero (om_DeletionTimestamp (ownerMeta x)) \<and>
     getAnnotation (ownerMeta x) AnnotationKeyUnregistrationCompleteTimestamp = None \<and>
     (case owner_pods k x of Ret pods \<Rightarrow> getAnnotation (ownerMeta x) AnnotationKeyUnregistrationRequestTimestamp = None \<or> \<not> list_all deletionSafe pods | _ \<Rightarrow> False)"

lemma fold_countPod_synced: "po_synced (fold (countPod now) pods c) = po_synced c"
  by (induction pods arbitrary: c) (simp_all add: countPod_frame)

lemma awaited_active:
  assumes "awaited k x" and "x \<in> set xs"
  shows "\<exists>res \<in> set (activeOwners k now xs). \<not> po_synced res"
proof -
  obtain pods h where p: "owner_pods k x = Ret pods" "owner_templateHash x = Some h" using assms(1) by (auto simp: awaited_def split: go.splits)
  then obtain res where g: "getPodsForOwner k now x = Ret (Some res)" "po_synced res = owner_synced x" by (simp add: getPodsForOwner_def fold_countPod_synced)
  have "activeOwner res" using assms(1) p getPodsForOwner_Some [OF g(1)] by (auto simp: awaited_def activeOwner_def Let_def)
  then have "res \<in> set (activeOwners k now xs)" using assms(2) g(1) by (force simp: activeOwners_def)
  with g(2) assms(1) show ?thesis by (auto simp: awaited_def)
qed

text \<open>No other rule allows a creation.\<close>

lemma syncCall_creation:
  assumes "syncCall y c" and "c \<in> range CreateRunner \<union> range CreateStatefulSet"
  shows "(\<forall>res \<in> set (activeOf y). po_synced res) \<and> maybeRunning (currentOwners y) < oy_Replicas y \<and> \<not> creationHeld y"
  using assms(1)
proof cases
  case (unregistered x)
  with assms(2) show ?thesis by (cases x) auto
next
  case (completed x pods)
  with assms(2) show ?thesis by (cases x) auto
next
  case (outdated x)
  with assms(2) show ?thesis by (cases x) auto
next
  case (unregistration_complete x pods)
  with assms(2) show ?thesis by (cases x) auto
next
  case (unregistration_requested ss)
  with assms(2) show ?thesis by (cases "po_owner ss") auto
qed (use assms(2) in auto)

lemma awaited_no_creation:
  assumes "syncCall y c" and "awaited (oy_Reads y) x" and "x \<in> set (oy_Owners y)"
  shows "c \<notin> range CreateRunner \<union> range CreateStatefulSet"
  using syncCall_creation [OF assms(1)] awaited_active [OF assms(2,3), of "oy_Now y"] by blast

subsection \<open>The controllers that use it\<close>

text \<open>
  Both controllers that keep owners of pods end in the same way: synchronise, and where that gets to the end, report the status in one more call, whose failure only asks for another reconciliation.
\<close>

locale pods_owner_controller =
  fixes resume :: "kubeCall api \<Rightarrow> 'q \<Rightarrow> OwnersSync \<Rightarrow> (kubeCall, Result) eff"
    and status :: "'q \<Rightarrow> OwnersSync \<Rightarrow> podsForOwner list \<Rightarrow> kubeCall option"
  assumes resume_eq: "resume api q y = ebind (runSync api y) (\<lambda>r. case r of
      None \<Rightarrow> eret emptyResult
    | Some objs \<Rightarrow> (case status q y objs of
          None \<Rightarrow> eret emptyResult
        | Some c \<Rightarrow> ecall api c (\<lambda>e. case e of None \<Rightarrow> eret emptyResult | Some err \<Rightarrow> eret requeue)))"
    and status_reports: "status q y objs = Some c \<Longrightarrow> c \<in> range PatchReplicaSetStatus \<union> range PatchRunnerSetStatus"
begin

lemma resume_calls:
  assumes "rangesOver (oy_Iter y)" and "panicsAllowed (oy_Reads y) (oy_Owners y) N"
  shows "run_ok (\<lambda>c. syncCall y c \<or> c \<in> range PatchReplicaSetStatus \<union> range PatchRunnerSetStatus)
    (\<lambda>_. True) N (resume api q y)"
  unfolding resume_eq
  by (rule run_ebind [where R = "\<lambda>_. True"], rule run_ok_weaken [OF run_runSync [OF assms(2,1)]])
    (auto intro!: run_option run_eret run_ecall dest: status_reports)

lemma resume_creates_missing:
  assumes "collectPodsForOwners (oy_Reads y) acceptAll (oy_Now y) (oy_Stamp y) (oy_Owners y) [] = ([], Ret (Some st))"
    and "owner_templateHash (oy_Create y) = Some h" and "maybeRunning (ownersOf (os_podsForOwners st) h) < oy_Replicas y"
    and "\<not> (alreadySyncedAfterEffectiveTime (oy_Ephemeral y) (os_lastSyncTime st) (oy_EffectiveTime y) \<and> recreationDelayed (oy_Now y) (os_lastSyncTime st))"
  shows "writes (resume acceptAll q y) = replicate (nat (oy_Replicas y - maybeRunning (ownersOf (os_podsForOwners st) h))) (createOwner (oy_Create y))"
  unfolding resume_eq runSync_def using sync_creates_missing_run [OF assms] by (simp add: writes_def ebind_def eret_def)

lemma resume_held:
  assumes "rangesOver (oy_Iter y)" and "creationHeld y" and "c \<in> set (writes (resume api q y))"
  shows "c \<notin> range CreateRunner \<union> range CreateStatefulSet"
proof -
  have "panicsAllowed (oy_Reads y) (oy_Owners y) (\<lambda>_. True)" by (simp add: panicsAllowed_def)
  from run_ok_writes [OF resume_calls [OF assms(1) this] assms(3)] syncCall_creation [of y c] assms(2) show ?thesis by blast
qed

lemma resume_waits:
  assumes "rangesOver (oy_Iter y)" and "awaited (oy_Reads y) x" and "x \<in> set (oy_Owners y)" and "c \<in> set (writes (resume api q y))"
  shows "c \<notin> range CreateRunner \<union> range CreateStatefulSet"
proof -
  have "panicsAllowed (oy_Reads y) (oy_Owners y) (\<lambda>_. True)" by (simp add: panicsAllowed_def)
  from run_ok_writes [OF resume_calls [OF assms(1) this] assms(4)] awaited_no_creation [OF _ assms(2,3)] show ?thesis by blast
qed

end

subsection \<open>An example\<close>

text \<open>A stateful set with one pod, in the given state.\<close>

definition exampleStatefulSet :: StatefulSet where
  "exampleStatefulSet = \<lparr>ss_Meta = emptyMeta\<lparr>om_Name := ''a'', om_Labels := [(LabelKeyRunnerTemplateHash, ''h'')]\<rparr>, ss_Replicas = Some 1,
     ss_Selector = None, ss_TemplateMeta = emptyMeta, ss_TemplateSpec = emptyPodSpec, ss_SpecRest = [], ss_StatusReplicas = 1,
     ss_StatusReadyReplicas = 1, ss_StatusCurrentReplicas = 1, ss_StatusUpdatedReplicas = 1\<rparr>"

definition examplePodOf :: "PodPhase \<Rightarrow> Pod" where
  "examplePodOf phase = examplePod\<lparr>pod_Meta := (pod_Meta examplePod)\<lparr>om_OwnerReferences := [\<lparr>or_APIVersion = ''apps/v1'', or_Kind = ''StatefulSet'',
     or_Name = ''a'', or_Controller = True\<rparr>]\<rparr>, pod_Status := emptyPodStatus\<lparr>pst_Phase := phase\<rparr>\<rparr>"

definition exampleReads :: "PodPhase \<Rightarrow> OwnerReads" where
  "exampleReads phase = \<lparr>ow_GetPod = \<lambda>ns n. Err (Kube NotFound), ow_ListPods = \<lambda>ls. Ret [examplePodOf phase]\<rparr>"

lemmas example_owner_defs = exampleStatefulSet_def examplePodOf_def exampleReads_def examplePod_def ownerStatefulSet_templateHash_def
  getRunnerTemplateHash_def ownerStatefulSet_synced_def ownerStatefulSet_pods_def GetControllerOf_def runnerPodOrContainerIsStopped_def
  empty_defs label_keys

lemma example_hash: "ownerStatefulSet_templateHash exampleStatefulSet = Some ''h''"
  by (simp add: example_owner_defs)

lemma example_pods: "ownerStatefulSet_pods (exampleReads phase) exampleStatefulSet = Ret [examplePodOf phase]"
  by (simp add: example_owner_defs setAnnotation_def)

lemma example_owner:
  "ownerStatefulSet_synced exampleStatefulSet" "getAnnotation (ss_Meta exampleStatefulSet) key = None"
  "om_DeletionTimestamp (ss_Meta exampleStatefulSet) = None"
  "pst_Phase (pod_Status (examplePodOf phase)) = phase" "runnerPodOrContainerIsStopped (examplePodOf Succeeded)"
  "\<not> runnerPodOrContainerIsStopped (examplePodOf Running)" "podRunnerID (examplePodOf phase) = ''47''"
  by (simp_all add: example_owner_defs getAnnotation_def podRunnerID_def setAnnotation_def annotation_keys)

lemma rangesOver_rev: "rangesOver rev"
  by (simp add: rangesOver_def)

lemmas example_run_defs = collectPodsForOwners_def getPodsForOwner_def example_hash example_pods example_owner countPod_def collectActive_def go_simps
  addPodsForOwner_def ownersOf_def maybeRunning_def laterSync_def

lemma example_collect:
  "collectPodsForOwners (exampleReads Succeeded) acceptAll 0 ''t'' [OwnerStatefulSet exampleStatefulSet] [] =
     ([DeleteStatefulSet exampleStatefulSet], Ret None)"
  "\<exists>st. collectPodsForOwners (exampleReads Running) acceptAll 0 ''t'' [OwnerStatefulSet exampleStatefulSet] [] = ([], Ret (Some st)) \<and>
     maybeRunning (ownersOf (os_podsForOwners st) ''h'') = 1 \<and> os_lastSyncTime st = None"
  by (simp_all add: example_run_defs)

definition exampleSync :: "PodPhase \<Rightarrow> int \<Rightarrow> OwnersSync" where
  "exampleSync phase n = \<lparr>oy_Reads = exampleReads phase, oy_Iter = rev, oy_Now = 0, oy_Stamp = ''t'', oy_EffectiveTime = None, oy_Replicas = n,
     oy_Create = OwnerStatefulSet exampleStatefulSet, oy_Ephemeral = True, oy_Owners = [OwnerStatefulSet exampleStatefulSet]\<rparr>"

theorem sync_calls_justified_witness:
  "rangesOver (oy_Iter (exampleSync Succeeded 1)) \<and> syncCall (exampleSync Succeeded 1) (DeleteStatefulSet exampleStatefulSet)"
proof -
  have r: "rangesOver (oy_Iter (exampleSync Succeeded 1))" by (simp add: exampleSync_def rangesOver_rev)
  have "DeleteStatefulSet exampleStatefulSet \<in> set (writes (runSync acceptAll (exampleSync Succeeded 1)))"
    by (simp add: exampleSync_def runSync_def syncRunnerPodsOwners_def writes_def ebind_def example_collect eret_def)
  from r sync_calls_justified [OF r this] show ?thesis ..
qed


theorem sync_does_not_panic_witness:
  "\<not> panics (outcome (syncRunnerPodsOwners (exampleReads Running) acceptAll rev 0 ''t'' None 0 (OwnerStatefulSet exampleStatefulSet) True
     [OwnerStatefulSet exampleStatefulSet]))"
  by (rule sync_does_not_panic) (simp_all add: example_hash example_pods rangesOver_rev)

theorem sync_scales_up_witness:
  "writes (syncRunnerPodsOwners (exampleReads Running) acceptAll rev 0 ''t'' None 3 (OwnerStatefulSet exampleStatefulSet) True
     [OwnerStatefulSet exampleStatefulSet]) = [CreateStatefulSet exampleStatefulSet, CreateStatefulSet exampleStatefulSet]"
proof -
  obtain st where st: "collectPodsForOwners (exampleReads Running) acceptAll 0 ''t'' [OwnerStatefulSet exampleStatefulSet] [] = ([], Ret (Some st))"
    "maybeRunning (ownersOf (os_podsForOwners st) ''h'') = 1" "os_lastSyncTime st = None"
    using example_collect(2) by blast
  have "writes (syncRunnerPodsOwners (exampleReads Running) acceptAll rev 0 ''t'' None 3 (OwnerStatefulSet exampleStatefulSet) True
      [OwnerStatefulSet exampleStatefulSet]) = replicate (nat (3 - maybeRunning (ownersOf (os_podsForOwners st) ''h''))) (createOwner (OwnerStatefulSet exampleStatefulSet))"
    by (rule sync_scales_up [OF st(1)]) (simp_all add: example_hash st recreationDelayed_def)
  then show ?thesis by (simp add: st(2) numeral_2_eq_2)
qed

end
