(* ===== verification/Deployment_Controller.thy ===== *)
theory Deployment_Controller
  imports Fnv_Hash Run_Logic "HOL-Library.Multiset"
begin

section \<open>The controller of runner deployments\<close>

text \<open>
  Model of \<open>src/controllers/runnerdeployment_controller.go\<close>: a deployment keeps one replica set per template hash, scales the newest one and retires the older ones once the newest is ready. The replica sets are sorted from the newest to the
  oldest by their creation time; Go's \<open>sort.Slice\<close> is not stable, so the order in which it leaves replica sets of the same age is open: it is a parameter that is given the comparison, like the printer of objects, the encoder of hashes and \<open>ctrl.SetControllerReference\<close>. The metric the controller exports is in theory \<open>Telemetry\<close>.
\<close>

record DeploymentEnv =
  de_Spew :: "RunnerTemplate \<Rightarrow> string"
  de_SafeEncode :: "string \<Rightarrow> string"
  de_SetControllerReference :: "RunnerDeployment \<Rightarrow> RunnerReplicaSet \<Rightarrow> RunnerReplicaSet go"
  de_SortSlice :: "(RunnerReplicaSet \<Rightarrow> RunnerReplicaSet \<Rightarrow> bool) \<Rightarrow> RunnerReplicaSet list \<Rightarrow> RunnerReplicaSet list"
  de_CommonRunnerLabels :: "string list"

record DeploymentReads =
  dr_GetDeployment :: "RunnerDeployment go"
  dr_ListReplicaSets :: "RunnerReplicaSet list go"

subsection \<open>The desired replica set\<close>

definition getTemplateHash :: "RunnerReplicaSet \<Rightarrow> string option" where
  "getTemplateHash rs = map_of (om_Labels (rrs_Meta rs)) LabelKeyRunnerTemplateHash"

definition labelledTemplate :: "DeploymentEnv \<Rightarrow> RunnerDeployment \<Rightarrow> RunnerTemplate" where
  "labelledTemplate env rd =
     (let t = rds_Template (rd_Spec rd); spec = rt_Spec t; c = rs_Config spec
      in t\<lparr>rt_Spec := spec\<lparr>rs_Config := c\<lparr>rc_Labels := rc_Labels c @ de_CommonRunnerLabels env\<rparr>\<rparr>\<rparr>)"

definition templateHashOf :: "DeploymentEnv \<Rightarrow> RunnerDeployment \<Rightarrow> string" where
  "templateHashOf env rd = ComputeHash (de_Spew env) (de_SafeEncode env) (labelledTemplate env rd)"

definition replicaSetLabels :: "DeploymentEnv \<Rightarrow> RunnerDeployment \<Rightarrow> strmap" where
  "replicaSetLabels env rd =
     CloneAndAddLabel (CloneAndAddLabel (om_Labels (rt_Meta (labelledTemplate env rd))) LabelKeyRunnerTemplateHash (templateHashOf env rd))
       LabelKeyRunnerDeploymentName (om_Name (rd_Meta rd))"

definition desiredReplicaSet :: "DeploymentEnv \<Rightarrow> RunnerDeployment \<Rightarrow> RunnerReplicaSet" where
  "desiredReplicaSet env rd =
     (let t = labelledTemplate env rd; labels = replicaSetLabels env rd
      in \<lparr>rrs_Meta = emptyMeta\<lparr>om_GenerateName := om_Name (rd_Meta rd) @ ''-'', om_Namespace := om_Namespace (rd_Meta rd), om_Labels := labels\<rparr>,
          rrs_Spec = \<lparr>rrss_Replicas = rds_Replicas (rd_Spec rd), rrss_EffectiveTime = rds_EffectiveTime (rd_Spec rd),
            rrss_Selector = Some (CloneSelectorAndAddLabel (getSelector rd) LabelKeyRunnerTemplateHash (templateHashOf env rd)),
            rrss_Template = t\<lparr>rt_Meta := (rt_Meta t)\<lparr>om_Labels := labels\<rparr>\<rparr>\<rparr>,
          rrs_Status = \<lparr>rrst_Replicas = None, rrst_ReadyReplicas = None, rrst_AvailableReplicas = None\<rparr>\<rparr>)"

definition newRunnerReplicaSet :: "DeploymentEnv \<Rightarrow> RunnerDeployment \<Rightarrow> RunnerReplicaSet go" where
  "newRunnerReplicaSet env rd = de_SetControllerReference env rd (desiredReplicaSet env rd)"

text \<open>The field index by which the controller lists its replica sets.\<close>

definition replicaSetOwner :: "RunnerReplicaSet \<Rightarrow> string list" where
  "replicaSetOwner rs =
     (case GetControllerOf (rrs_Meta rs) of
        None \<Rightarrow> []
      | Some owner \<Rightarrow> if or_APIVersion owner \<noteq> ''actions.summerwind.dev/v1alpha1'' \<or> or_Kind owner \<noteq> ''RunnerDeployment'' then [] else [or_Name owner])"

subsection \<open>Reconciliation\<close>

definition sameSelectorOption :: "LabelSelector option \<Rightarrow> LabelSelector option \<Rightarrow> bool" where
  "sameSelectorOption s t = (case (s, t) of (None, None) \<Rightarrow> True | (Some a, Some b) \<Rightarrow> sameSelector a b | _ \<Rightarrow> False)"

definition orZero :: "int option \<Rightarrow> int" where "orZero v = (case v of None \<Rightarrow> 0 | Some n \<Rightarrow> n)"

definition withReplicas :: "int \<Rightarrow> RunnerReplicaSet \<Rightarrow> RunnerReplicaSet" where
  "withReplicas n rs = rs\<lparr>rrs_Spec := (rrs_Spec rs)\<lparr>rrss_Replicas := Some n\<rparr>\<rparr>"

fun retireOldSets :: "kubeCall api \<Rightarrow> RunnerReplicaSet list \<Rightarrow> (kubeCall, unit) eff" where
  "retireOldSets api [] = eret ()"
| "retireOldSets api (rs # oldSets) =
     (if orZero (rrst_Replicas (rrs_Status rs)) > 0 then
        (if rrss_Replicas (rrs_Spec rs) = Some 0 then retireOldSets api oldSets
         else ebind (ewrite api (UpdateReplicaSet (withReplicas 0 rs))) (\<lambda>_. retireOldSets api oldSets))
      else ebind (ewrite api (DeleteReplicaSet rs)) (\<lambda>_. elog (Event ''RunnerReplicaSetDeleted'') (retireOldSets api oldSets)))"

definition deploymentStatus :: "int \<Rightarrow> RunnerReplicaSet \<Rightarrow> RunnerReplicaSet list \<Rightarrow> RunnerDeploymentStatus" where
  "deploymentStatus newDesiredReplicas newestSet oldSets =
     (let current = (\<Sum>rs \<leftarrow> newestSet # oldSets. orZero (rrst_Replicas (rrs_Status rs)));
          available = (\<Sum>rs \<leftarrow> newestSet # oldSets. orZero (rrst_AvailableReplicas (rrs_Status rs)))
      in \<lparr>rdst_AvailableReplicas = Some available, rdst_ReadyReplicas = Some available,
          rdst_UpdatedReplicas = Some (orZero (rrst_Replicas (rrs_Status newestSet))),
          rdst_DesiredReplicas = Some newDesiredReplicas, rdst_Replicas = Some current\<rparr>)"

definition patchDeploymentStatus :: "kubeCall api \<Rightarrow> RunnerDeployment \<Rightarrow> RunnerDeploymentStatus \<Rightarrow> (kubeCall, Result) eff" where
  "patchDeploymentStatus api rd status =
     (if rd_Status rd \<noteq> status then
        ecall api (PatchDeploymentStatus (rd\<lparr>rd_Status := status\<rparr>)) (\<lambda>e. case e of Some err \<Rightarrow> eret requeue | None \<Rightarrow> eret emptyResult)
      else eret emptyResult)"

definition syncReplicaSets ::
  "kubeCall api \<Rightarrow> RunnerDeployment \<Rightarrow> RunnerReplicaSet \<Rightarrow> RunnerReplicaSet \<Rightarrow> RunnerReplicaSet list \<Rightarrow> (kubeCall, Result) eff" where
  "syncReplicaSets api rd desiredRS newestSet oldSets =
     (case (getTemplateHash newestSet, getTemplateHash desiredRS) of
        (Some newestTemplateHash, Some desiredTemplateHash) \<Rightarrow>
          if newestTemplateHash \<noteq> desiredTemplateHash then
            ebind (ewrite api (CreateReplicaSet desiredRS)) (\<lambda>_. eret (requeueAfter (5 * Second)))
          else if \<not> sameSelectorOption (rrss_Selector (rrs_Spec newestSet)) (rrss_Selector (rrs_Spec desiredRS)) then
            ebind (ewrite api (UpdateReplicaSet (newestSet\<lparr>rrs_Spec := rrs_Spec desiredRS\<rparr>))) (\<lambda>_. eret (requeueAfter (5 * Second)))
          else
            (let currentDesiredReplicas = getIntOrDefault (rrss_Replicas (rrs_Spec newestSet)) 1;
                 newDesiredReplicas = getIntOrDefault (rrss_Replicas (rrs_Spec desiredRS)) 1
             in if currentDesiredReplicas \<noteq> newDesiredReplicas then
                  ebind (ewrite api (UpdateReplicaSet (newestSet\<lparr>rrs_Spec := (rrs_Spec newestSet)\<lparr>rrss_Replicas := Some newDesiredReplicas,
                      rrss_EffectiveTime := rds_EffectiveTime (rd_Spec rd)\<rparr>\<rparr>))) (\<lambda>_. eret emptyResult)
                else if oldSets \<noteq> [] \<and> orZero (rrst_ReadyReplicas (rrs_Status newestSet)) < currentDesiredReplicas then eret emptyResult
                else ebind (retireOldSets api oldSets)
                  (\<lambda>_. patchDeploymentStatus api rd (deploymentStatus newDesiredReplicas newestSet oldSets)))
      | _ \<Rightarrow> eret emptyResult)"

text \<open>From the newest to the oldest.\<close>

definition createdAfter :: "RunnerReplicaSet \<Rightarrow> RunnerReplicaSet \<Rightarrow> bool" where
  "createdAfter a b \<longleftrightarrow> om_CreationTimestamp (rrs_Meta a) > om_CreationTimestamp (rrs_Meta b)"

definition sortReplicaSets :: "DeploymentEnv \<Rightarrow> RunnerReplicaSet list \<Rightarrow> RunnerReplicaSet list" where
  "sortReplicaSets env items = de_SortSlice env createdAfter items"

definition Reconcile_RunnerDeployment :: "DeploymentEnv \<Rightarrow> kubeCall api \<Rightarrow> DeploymentReads \<Rightarrow> (kubeCall, Result) eff" where
  "Reconcile_RunnerDeployment env api k =
     (case dr_GetDeployment k of
        Err e \<Rightarrow> (case IgnoreNotFound e of None \<Rightarrow> eret emptyResult | Some e' \<Rightarrow> eerr e')
      | Panic s \<Rightarrow> epanic s
      | Hang \<Rightarrow> elift Hang
      | Ret rd \<Rightarrow>
          if \<not> IsZero (om_DeletionTimestamp (rd_Meta rd)) then eret emptyResult
          else ebind (elift (dr_ListReplicaSets k))
            (\<lambda>items. ebind (ecatch (elift (newRunnerReplicaSet env rd)) (\<lambda>e. elog (Event ''RunnerAutoscalingFailure'') (eerr e)))
              (\<lambda>desiredRS. case sortReplicaSets env items of
                   [] \<Rightarrow> ebind (ewrite api (CreateReplicaSet desiredRS)) (\<lambda>_. eret emptyResult)
                 | newestSet # oldSets \<Rightarrow> syncReplicaSets api rd desiredRS newestSet oldSets)))"

subsection \<open>Selectors\<close>

text \<open>What the code relies on in \<open>ctrl.SetControllerReference\<close>: it changes nothing but the owner references.\<close>

definition setsOnlyOwner :: "DeploymentEnv \<Rightarrow> bool" where
  "setsOnlyOwner env \<longleftrightarrow> (\<forall>rd rs rs'. de_SetControllerReference env rd rs = Ret rs' \<longrightarrow>
     (\<exists>refs. rs' = rs\<lparr>rrs_Meta := (rrs_Meta rs)\<lparr>om_OwnerReferences := refs\<rparr>\<rparr>))"

lemma newRunnerReplicaSet_Ret:
  assumes "setsOnlyOwner env" and "newRunnerReplicaSet env rd = Ret rs"
  shows "\<exists>refs. rs = (desiredReplicaSet env rd)\<lparr>rrs_Meta := (rrs_Meta (desiredReplicaSet env rd))\<lparr>om_OwnerReferences := refs\<rparr>\<rparr>"
  using assms unfolding newRunnerReplicaSet_def setsOnlyOwner_def by blast

lemma replicaSetLabels_lookup:
  "map_of (replicaSetLabels env rd) key =
    (if key = LabelKeyRunnerDeploymentName then Some (om_Name (rd_Meta rd))
     else if key = LabelKeyRunnerTemplateHash then Some (templateHashOf env rd)
     else map_of (om_Labels (rt_Meta (rds_Template (rd_Spec rd)))) key)"
  by (simp add: replicaSetLabels_def map_of_CloneAndAddLabel label_keys labelledTemplate_def Let_def)

lemma desiredReplicaSet_fields:
  "om_Labels (rrs_Meta (desiredReplicaSet env rd)) = replicaSetLabels env rd"
  "om_Labels (rt_Meta (rrss_Template (rrs_Spec (desiredReplicaSet env rd)))) = replicaSetLabels env rd"
  "rrss_Selector (rrs_Spec (desiredReplicaSet env rd)) = Some (CloneSelectorAndAddLabel (getSelector rd) LabelKeyRunnerTemplateHash (templateHashOf env rd))"
  "rrss_Replicas (rrs_Spec (desiredReplicaSet env rd)) = rds_Replicas (rd_Spec rd)"
  "rrss_EffectiveTime (rrs_Spec (desiredReplicaSet env rd)) = rds_EffectiveTime (rd_Spec rd)"
  by (simp_all add: desiredReplicaSet_def Let_def)

lemma desiredReplicaSet_selects:
  assumes "rds_Selector (rd_Spec rd) = None \<or>
    (\<exists>s. rds_Selector (rd_Spec rd) = Some s \<and> matchesLabels s (om_Labels (rt_Meta (rds_Template (rd_Spec rd)))) \<and>
      LabelKeyRunnerDeploymentName \<notin> set (map fst (ls_MatchLabels s)))"
  shows "matchesLabels (CloneSelectorAndAddLabel (getSelector rd) LabelKeyRunnerTemplateHash (templateHashOf env rd)) (replicaSetLabels env rd)"
proof -
  have n: "LabelKeyRunnerTemplateHash \<noteq> []" "LabelKeyRunnerTemplateHash \<noteq> LabelKeyRunnerDeploymentName" by (simp_all add: label_keys)
  show ?thesis
  proof (cases "rds_Selector (rd_Spec rd)")
    case None
    with n show ?thesis by (auto simp: matchesLabels_iff map_of_CloneSelectorAndAddLabel replicaSetLabels_lookup getSelector_def split: if_splits)
  next
    case (Some s)
    with assms have m: "\<forall>k v. map_of (ls_MatchLabels s) k = Some v \<longrightarrow> map_of (om_Labels (rt_Meta (rds_Template (rd_Spec rd)))) k = Some v"
      and d: "map_of (ls_MatchLabels s) LabelKeyRunnerDeploymentName = None"
      by (auto simp: matchesLabels_iff map_of_eq_None_iff)
    with n Some show ?thesis
      by (auto simp: matchesLabels_iff map_of_CloneSelectorAndAddLabel replicaSetLabels_lookup getSelector_def split: if_splits)
  qed
qed

text \<open>
  The replica set of a deployment finds its own runners: it and its runner template carry the hash of the template, and the labels of the template satisfy its selector, where the deployment has no selector or one that its template satisfies.
\<close>

theorem replica_set_selects_its_runners:
  assumes "setsOnlyOwner env" and "newRunnerReplicaSet env rd = Ret rs"
    and "rds_Selector (rd_Spec rd) = None \<or>
      (\<exists>s. rds_Selector (rd_Spec rd) = Some s \<and> matchesLabels s (om_Labels (rt_Meta (rds_Template (rd_Spec rd)))) \<and>
        LabelKeyRunnerDeploymentName \<notin> set (map fst (ls_MatchLabels s)))"
  shows "getTemplateHash rs = Some (templateHashOf env rd) \<and>
    map_of (om_Labels (rt_Meta (rrss_Template (rrs_Spec rs)))) LabelKeyRunnerTemplateHash = Some (templateHashOf env rd) \<and>
    (\<exists>s. rrss_Selector (rrs_Spec rs) = Some s \<and> matchesLabels s (om_Labels (rt_Meta (rrss_Template (rrs_Spec rs)))))"
proof -
  obtain refs where "rs = (desiredReplicaSet env rd)\<lparr>rrs_Meta := (rrs_Meta (desiredReplicaSet env rd))\<lparr>om_OwnerReferences := refs\<rparr>\<rparr>"
    using newRunnerReplicaSet_Ret [OF assms(1,2)] by blast
  then show ?thesis using desiredReplicaSet_selects [OF assms(3), of env]
    by (simp add: desiredReplicaSet_fields getTemplateHash_def replicaSetLabels_lookup label_keys)
qed

subsection \<open>Rolling out\<close>

text \<open>The calls the controller may make. An old replica set is scaled to zero before it is deleted, and neither happens before the newest set has the desired template and is ready.\<close>

inductive deploymentCall :: "RunnerDeployment \<Rightarrow> RunnerReplicaSet \<Rightarrow> RunnerReplicaSet list \<Rightarrow> kubeCall \<Rightarrow> bool" for rd desiredRS sets where
  event: "deploymentCall rd desiredRS sets (Event s)"
| create: "sets = [] \<or> getTemplateHash (hd sets) \<noteq> getTemplateHash desiredRS \<Longrightarrow> deploymentCall rd desiredRS sets (CreateReplicaSet desiredRS)"
| update_newest: "sets = newest # old \<Longrightarrow> getTemplateHash newest = getTemplateHash desiredRS \<Longrightarrow>
    deploymentCall rd desiredRS sets (UpdateReplicaSet (newest\<lparr>rrs_Spec := spec\<rparr>))"
| scale_down_old: "sets = newest # old \<Longrightarrow> getTemplateHash newest = getTemplateHash desiredRS \<Longrightarrow> rs \<in> set old \<Longrightarrow>
    orZero (rrst_ReadyReplicas (rrs_Status newest)) \<ge> getIntOrDefault (rrss_Replicas (rrs_Spec desiredRS)) 1 \<Longrightarrow>
    deploymentCall rd desiredRS sets (UpdateReplicaSet (withReplicas 0 rs))"
| delete_old: "sets = newest # old \<Longrightarrow> getTemplateHash newest = getTemplateHash desiredRS \<Longrightarrow> rs \<in> set old \<Longrightarrow>
    orZero (rrst_ReadyReplicas (rrs_Status newest)) \<ge> getIntOrDefault (rrss_Replicas (rrs_Spec desiredRS)) 1 \<Longrightarrow>
    orZero (rrst_Replicas (rrs_Status rs)) \<le> 0 \<Longrightarrow> deploymentCall rd desiredRS sets (DeleteReplicaSet rs)"
| status: "deploymentCall rd desiredRS sets (PatchDeploymentStatus (rd\<lparr>rd_Status := st\<rparr>))"

lemma run_retireOldSets:
  assumes "\<And>rs. rs \<in> set old \<Longrightarrow> P (UpdateReplicaSet (withReplicas 0 rs))"
    and "\<And>rs. rs \<in> set old \<Longrightarrow> orZero (rrst_Replicas (rrs_Status rs)) \<le> 0 \<Longrightarrow> P (DeleteReplicaSet rs)"
    and "\<And>s. P (Event s)"
  shows "run_ok P (\<lambda>_. True) N (retireOldSets api old)"
  using assms(1,2)
proof (induction old)
  case (Cons rs old)
  have rest: "run_ok P (\<lambda>_. True) N (retireOldSets api old)" by (rule Cons.IH) (use Cons.prems in auto)
  show ?case unfolding retireOldSets.simps
    by (intro run_if run_write_then run_elog rest assms(3)) (use Cons.prems in auto)
qed (simp add: run_eret)

lemma run_patchDeploymentStatus: "run_ok (deploymentCall rd desiredRS sets) (\<lambda>_. True) N (patchDeploymentStatus api rd st)"
  unfolding patchDeploymentStatus_def by (intro run_if run_ecall run_option run_eret status TrueI)

lemma run_syncReplicaSets:
  assumes "sets = newest # old"
  shows "run_ok (deploymentCall rd desiredRS sets) (\<lambda>_. True) N (syncReplicaSets api rd desiredRS newest old)"
proof (cases "getTemplateHash newest = None \<or> getTemplateHash desiredRS = None")
  case True
  then show ?thesis by (auto simp: syncReplicaSets_def run_eret split: option.splits)
next
  case False
  then obtain h h' where h: "getTemplateHash newest = Some h" "getTemplateHash desiredRS = Some h'" by auto
  let ?cur = "getIntOrDefault (rrss_Replicas (rrs_Spec newest)) 1" and ?new = "getIntOrDefault (rrss_Replicas (rrs_Spec desiredRS)) 1"
  have retire: "run_ok (deploymentCall rd desiredRS sets) (\<lambda>_. True) N (retireOldSets api old)"
    if "h = h'" "\<not> ?cur \<noteq> ?new" "\<not> (old \<noteq> [] \<and> orZero (rrst_ReadyReplicas (rrs_Status newest)) < ?cur)"
    by (rule run_retireOldSets) (use that assms h in \<open>auto intro: deploymentCall.intros\<close>)
  show ?thesis unfolding syncReplicaSets_def h prod.case option.case Let_def
    by (intro run_if run_write_then run_eret run_ebind [OF retire] run_patchDeploymentStatus TrueI)
      (use assms h in \<open>auto intro: deploymentCall.intros\<close>)
qed

lemma run_Reconcile_RunnerDeployment:
  assumes "dr_GetDeployment k = Ret rd" and "dr_ListReplicaSets k = Ret items" and "newRunnerReplicaSet env rd = Ret desiredRS"
  shows "run_ok (deploymentCall rd desiredRS (sortReplicaSets env items)) (\<lambda>_. True) (\<lambda>_. True) (Reconcile_RunnerDeployment env api k)"
proof -
  have "run_ok (deploymentCall rd desiredRS (sortReplicaSets env items)) (\<lambda>_. True) (\<lambda>_. True) (case sortReplicaSets env items of
      [] \<Rightarrow> ebind (ewrite api (CreateReplicaSet desiredRS)) (\<lambda>_. eret emptyResult)
    | newestSet # oldSets \<Rightarrow> syncReplicaSets api rd desiredRS newestSet oldSets)"
    by (cases "sortReplicaSets env items") (auto intro!: run_write_then run_eret create run_syncReplicaSets)
  then show ?thesis
    by (cases "IsZero (om_DeletionTimestamp (rd_Meta rd))")
      (simp_all add: Reconcile_RunnerDeployment_def assms run_eret ebind_def elift_def ecatch_def run_ok_def eret_def)
qed

text \<open>
  What the code relies on in \<open>sort.Slice\<close>: given a strict weak order, it permutes the slice so that no element is less than one before it.
\<close>

definition strictWeak :: "('a \<Rightarrow> 'a \<Rightarrow> bool) \<Rightarrow> bool" where
  "strictWeak lt \<longleftrightarrow> (\<forall>a. \<not> lt a a) \<and> (\<forall>a b c. lt a b \<longrightarrow> lt b c \<longrightarrow> lt a c) \<and> (\<forall>a b c. \<not> lt a b \<longrightarrow> \<not> lt b c \<longrightarrow> \<not> lt a c)"

definition sortsSlice :: "(('a \<Rightarrow> 'a \<Rightarrow> bool) \<Rightarrow> 'a list \<Rightarrow> 'a list) \<Rightarrow> bool" where
  "sortsSlice srt \<longleftrightarrow> (\<forall>lt xs. strictWeak lt \<longrightarrow> mset (srt lt xs) = mset xs \<and> sorted_wrt (\<lambda>a b. \<not> lt b a) (srt lt xs))"

lemma sortReplicaSets_newest_first:
  assumes "sortsSlice (de_SortSlice env)" and "sortReplicaSets env items = newest # old"
  shows "mset items = mset (newest # old)" and "\<forall>x \<in> set items. om_CreationTimestamp (rrs_Meta x) \<le> om_CreationTimestamp (rrs_Meta newest)"
proof -
  have "strictWeak createdAfter" by (auto simp: strictWeak_def createdAfter_def)
  with assms(1) have s: "mset (sortReplicaSets env items) = mset items" "sorted_wrt (\<lambda>a b. \<not> createdAfter b a) (sortReplicaSets env items)"
    unfolding sortsSlice_def sortReplicaSets_def by blast+
  then show m: "mset items = mset (newest # old)" unfolding assms(2) by simp
  have "set items = set (newest # old)" using m by (metis set_mset_mset)
  with s(2) show "\<forall>x \<in> set items. om_CreationTimestamp (rrs_Meta x) \<le> om_CreationTimestamp (rrs_Meta newest)"
    unfolding assms(2) by (auto simp: createdAfter_def)
qed

text \<open>
  C12. A rolling update is safe: a replica set is deleted only if it is one of those listed and not the one taken for the newest, it reports no replicas, and the newest one has the desired template and as many ready replicas as desired. The newest one is a replica set listed that was created no
  earlier than any other, where \<open>sort.Slice\<close> sorts by the comparison it is given.
\<close>

theorem old_replica_set_deleted_when_empty:
  assumes "dr_GetDeployment k = Ret rd" and "dr_ListReplicaSets k = Ret items" and "newRunnerReplicaSet env rd = Ret desiredRS"
    and "sortsSlice (de_SortSlice env)" and "DeleteReplicaSet rs \<in> set (writes (Reconcile_RunnerDeployment env api k))"
  shows "\<exists>newest old. mset items = mset (newest # old) \<and> (\<forall>x \<in> set items. om_CreationTimestamp (rrs_Meta x) \<le> om_CreationTimestamp (rrs_Meta newest)) \<and>
    rs \<in> set old \<and> orZero (rrst_Replicas (rrs_Status rs)) \<le> 0 \<and> getTemplateHash newest = getTemplateHash desiredRS \<and>
    getIntOrDefault (rrss_Replicas (rrs_Spec desiredRS)) 1 \<le> orZero (rrst_ReadyReplicas (rrs_Status newest))"
proof -
  obtain newest old where s: "sortReplicaSets env items = newest # old" and r: "rs \<in> set old" "orZero (rrst_Replicas (rrs_Status rs)) \<le> 0"
    "getTemplateHash newest = getTemplateHash desiredRS" "getIntOrDefault (rrss_Replicas (rrs_Spec desiredRS)) 1 \<le> orZero (rrst_ReadyReplicas (rrs_Status newest))"
    using run_ok_writes [OF run_Reconcile_RunnerDeployment [OF assms(1-3)] assms(5)] by cases auto
  from sortReplicaSets_newest_first [OF assms(4) s] r show ?thesis by blast
qed

subsection \<open>The effective time\<close>

text \<open>
  A change of the deployment's effective time alone does not reach the replica set: as long as the template, the selector and the number of replicas stay as they are and there is no old replica set, the controller writes nothing but the status of the deployment.
\<close>

theorem effective_time_not_propagated:
  assumes "dr_GetDeployment k = Ret rd" and "dr_ListReplicaSets k = Ret [newest]" and "sortReplicaSets env [newest] = [newest]"
    and "newRunnerReplicaSet env rd = Ret desiredRS" and "getTemplateHash newest = Some h" and "getTemplateHash desiredRS = Some h"
    and "sameSelectorOption (rrss_Selector (rrs_Spec newest)) (rrss_Selector (rrs_Spec desiredRS))"
    and "getIntOrDefault (rrss_Replicas (rrs_Spec newest)) 1 = getIntOrDefault (rrss_Replicas (rrs_Spec desiredRS)) 1"
  shows "set (writes (Reconcile_RunnerDeployment env api k)) \<subseteq>
    {PatchDeploymentStatus (rd\<lparr>rd_Status := deploymentStatus (getIntOrDefault (rrss_Replicas (rrs_Spec desiredRS)) 1) newest []\<rparr>)}"
  using assms
  by (auto simp: Reconcile_RunnerDeployment_def syncReplicaSets_def patchDeploymentStatus_def go_simps Let_def split: if_splits option.splits)

subsection \<open>An example\<close>

text \<open>An insertion sort satisfies what is asked of \<open>sort.Slice\<close>.\<close>

fun insertBy :: "('a \<Rightarrow> 'a \<Rightarrow> bool) \<Rightarrow> 'a \<Rightarrow> 'a list \<Rightarrow> 'a list" where
  "insertBy lt x [] = [x]"
| "insertBy lt x (y # ys) = (if lt y x then y # insertBy lt x ys else x # y # ys)"

definition insertionSort :: "('a \<Rightarrow> 'a \<Rightarrow> bool) \<Rightarrow> 'a list \<Rightarrow> 'a list" where
  "insertionSort lt xs = foldr (insertBy lt) xs []"

lemma insertionSort_sorts: "sortsSlice insertionSort"
proof -
  have m: "mset (insertBy lt x ys) = add_mset x (mset ys)" for lt :: "'a \<Rightarrow> 'a \<Rightarrow> bool" and x ys by (induction ys) auto
  then have st: "set (insertBy lt x ys) = insert x (set ys)" for lt :: "'a \<Rightarrow> 'a \<Rightarrow> bool" and x ys by (metis set_mset_add_mset_insert set_mset_mset)
  have s: "sorted_wrt (\<lambda>a b. \<not> lt b a) (insertBy lt x ys)" if "strictWeak lt" "sorted_wrt (\<lambda>a b. \<not> lt b a) ys" for lt :: "'a \<Rightarrow> 'a \<Rightarrow> bool" and x ys
    using that(2)
  proof (induction ys)
    case (Cons y ys)
    have asym: "lt a b \<Longrightarrow> \<not> lt b a" and neg: "\<not> lt a b \<Longrightarrow> \<not> lt b c \<Longrightarrow> \<not> lt a c" for a b c using that(1) unfolding strictWeak_def by blast+
    have y: "\<not> lt z y" if "z \<in> set ys" for z using Cons.prems that by simp
    show ?case
    proof (cases "lt y x")
      case True
      with Cons asym y show ?thesis by (simp add: st)
    next
      case False
      then have "\<not> lt z x" if "z \<in> set ys" for z using neg y that by blast
      with False Cons.prems show ?thesis by simp
    qed
  qed simp
  have "mset (insertionSort lt xs) = mset xs" for lt :: "'a \<Rightarrow> 'a \<Rightarrow> bool" and xs by (induction xs) (simp_all add: insertionSort_def m)
  moreover have "strictWeak lt \<Longrightarrow> sorted_wrt (\<lambda>a b. \<not> lt b a) (insertionSort lt xs)" for lt :: "'a \<Rightarrow> 'a \<Rightarrow> bool" and xs
    by (induction xs) (simp_all add: insertionSort_def s)
  ultimately show ?thesis by (simp add: sortsSlice_def)
qed

definition exampleDeploymentEnv :: DeploymentEnv where
  "exampleDeploymentEnv = \<lparr>de_Spew = \<lambda>t. om_Name (rt_Meta t), de_SafeEncode = \<lambda>s. s,
     de_SetControllerReference = \<lambda>rd rs. Ret (rs\<lparr>rrs_Meta := (rrs_Meta rs)\<lparr>om_OwnerReferences := [\<lparr>or_APIVersion = ''actions.summerwind.dev/v1alpha1'',
       or_Kind = ''RunnerDeployment'', or_Name = om_Name (rd_Meta rd), or_Controller = True\<rparr>]\<rparr>\<rparr>),
     de_SortSlice = insertionSort, de_CommonRunnerLabels = []\<rparr>"

lemma example_setsOnlyOwner: "setsOnlyOwner exampleDeploymentEnv"
  unfolding setsOnlyOwner_def exampleDeploymentEnv_def by auto

lemma example_newReplicaSet: "\<exists>rs. newRunnerReplicaSet exampleDeploymentEnv rd = Ret rs"
  by (simp add: newRunnerReplicaSet_def exampleDeploymentEnv_def)

definition exampleDesired :: RunnerReplicaSet where
  "exampleDesired = (case newRunnerReplicaSet exampleDeploymentEnv exampleRD of Ret rs \<Rightarrow> rs)"

lemma exampleDesired: "newRunnerReplicaSet exampleDeploymentEnv exampleRD = Ret exampleDesired"
  using example_newReplicaSet [of exampleRD] by (auto simp: exampleDesired_def)

lemma exampleDesired_fields:
  "getTemplateHash exampleDesired = Some (templateHashOf exampleDeploymentEnv exampleRD)" "rrss_Replicas (rrs_Spec exampleDesired) = Some 4"
proof -
  obtain refs where e: "exampleDesired = (desiredReplicaSet exampleDeploymentEnv exampleRD)\<lparr>rrs_Meta :=
      (rrs_Meta (desiredReplicaSet exampleDeploymentEnv exampleRD))\<lparr>om_OwnerReferences := refs\<rparr>\<rparr>"
    using newRunnerReplicaSet_Ret [OF example_setsOnlyOwner exampleDesired] by blast
  show "getTemplateHash exampleDesired = Some (templateHashOf exampleDeploymentEnv exampleRD)"
    unfolding e by (simp add: getTemplateHash_def desiredReplicaSet_fields replicaSetLabels_lookup label_keys)
  show "rrss_Replicas (rrs_Spec exampleDesired) = Some 4"
    unfolding e by (simp add: desiredReplicaSet_fields) (simp add: exampleRD_def)
qed

theorem replica_set_selects_its_runners_witness:
  "\<exists>s. rrss_Selector (rrs_Spec exampleDesired) = Some s \<and> matchesLabels s (om_Labels (rt_Meta (rrss_Template (rrs_Spec exampleDesired))))"
  using replica_set_selects_its_runners [OF example_setsOnlyOwner exampleDesired] by (simp add: exampleRD_def)

text \<open>The replica set as it is some time later: created at the given time, with that many replicas, ready or not.\<close>

definition exampleSet :: "time \<Rightarrow> int \<Rightarrow> RunnerReplicaSet" where
  "exampleSet t n = exampleDesired\<lparr>rrs_Meta := (rrs_Meta exampleDesired)\<lparr>om_CreationTimestamp := t\<rparr>,
     rrs_Status := \<lparr>rrst_Replicas = Some n, rrst_ReadyReplicas = Some n, rrst_AvailableReplicas = Some n\<rparr>\<rparr>"

lemma exampleSet_fields: "getTemplateHash (exampleSet t n) = Some (templateHashOf exampleDeploymentEnv exampleRD)"
  "rrs_Spec (exampleSet t n) = rrs_Spec exampleDesired" "rrst_Replicas (rrs_Status (exampleSet t n)) = Some n"
  "rrst_ReadyReplicas (rrs_Status (exampleSet t n)) = Some n"
  using exampleDesired_fields(1) by (simp_all add: exampleSet_def getTemplateHash_def)

lemma exampleSort: "sortReplicaSets exampleDeploymentEnv [exampleSet 1 0, exampleSet 2 4] = [exampleSet 2 4, exampleSet 1 0]"
  "sortReplicaSets exampleDeploymentEnv [exampleSet 2 4] = [exampleSet 2 4]"
  by (simp_all add: exampleDeploymentEnv_def exampleSet_def sortReplicaSets_def insertionSort_def createdAfter_def)

lemma sameSelectorOption_refl: "sameSelectorOption s s"
  by (cases s) (simp_all add: sameSelectorOption_def sameSelector_def)

theorem old_replica_set_deleted_when_empty_witness:
  "DeleteReplicaSet (exampleSet 1 0) \<in> set (writes (Reconcile_RunnerDeployment exampleDeploymentEnv acceptAll
      \<lparr>dr_GetDeployment = Ret exampleRD, dr_ListReplicaSets = Ret [exampleSet 1 0, exampleSet 2 4]\<rparr>)) \<and>
    orZero (rrst_Replicas (rrs_Status (exampleSet 1 0))) \<le> 0"
proof -
  let ?k = "\<lparr>dr_GetDeployment = Ret exampleRD, dr_ListReplicaSets = Ret [exampleSet 1 0, exampleSet 2 4]\<rparr>"
  have "IsZero (om_DeletionTimestamp (rd_Meta exampleRD))" by (simp add: exampleRD_def emptyMeta_def)
  then have "writes (Reconcile_RunnerDeployment exampleDeploymentEnv acceptAll ?k) = writes (syncReplicaSets acceptAll exampleRD exampleDesired (exampleSet 2 4) [exampleSet 1 0])"
    by (simp add: Reconcile_RunnerDeployment_def exampleDesired exampleSort writes_def ebind_def elift_def ecatch_def)
  moreover have "DeleteReplicaSet (exampleSet 1 0) \<in> set (writes (syncReplicaSets acceptAll exampleRD exampleDesired (exampleSet 2 4) [exampleSet 1 0]))"
    by (simp add: syncReplicaSets_def exampleSet_fields exampleDesired_fields sameSelectorOption_refl getIntOrDefault_def orZero_def
        patchDeploymentStatus_def go_simps)
  ultimately have w: "DeleteReplicaSet (exampleSet 1 0) \<in> set (writes (Reconcile_RunnerDeployment exampleDeploymentEnv acceptAll ?k))" by simp
  have "sortsSlice (de_SortSlice exampleDeploymentEnv)" by (simp add: exampleDeploymentEnv_def insertionSort_sorts)
  with w old_replica_set_deleted_when_empty [OF _ _ exampleDesired _ w] show ?thesis by auto
qed

theorem effective_time_not_propagated_witness:
  "set (writes (Reconcile_RunnerDeployment exampleDeploymentEnv acceptAll \<lparr>dr_GetDeployment = Ret exampleRD, dr_ListReplicaSets = Ret [exampleSet 2 4]\<rparr>)) \<subseteq>
    {PatchDeploymentStatus (exampleRD\<lparr>rd_Status := deploymentStatus 4 (exampleSet 2 4) []\<rparr>)}"
  using effective_time_not_propagated [OF _ _ exampleSort(2) exampleDesired exampleSet_fields(1) exampleDesired_fields(1),
      of "\<lparr>dr_GetDeployment = Ret exampleRD, dr_ListReplicaSets = Ret [exampleSet 2 4]\<rparr>" acceptAll]
  by (simp add: exampleSet_fields sameSelectorOption_refl exampleDesired_fields getIntOrDefault_def)

end
