(* ===== verification/Replica_Set_Controller.thy ===== *)
theory Replica_Set_Controller
  imports Pod_Owner Deployment_Controller
begin

section \<open>The controller of runner replica sets\<close>

text \<open>
  Model of \<open>src/controllers/runnerreplicaset_controller.go\<close>: find the runners of a replica set by its selector, keep as many as desired (theory \<open>Pod_Owner\<close>), and report how many there are. \<open>stamp\<close> is the current time in
  RFC 3339. \<open>metav1.LabelSelectorAsSelector\<close> gives a predicate on labels.
\<close>

record ReplicaSetEnv =
  rse_Spew :: "RunnerReplicaSetSpec \<Rightarrow> string"
  rse_SafeEncode :: "string \<Rightarrow> string"
  rse_SetControllerReference :: "RunnerReplicaSet \<Rightarrow> Runner \<Rightarrow> Runner go"
  rse_Iter :: "podsForOwners \<Rightarrow> podsForOwners"

record ReplicaSetReads =
  rsr_Get :: "RunnerReplicaSet go"
  rsr_AsSelector :: "LabelSelector option \<Rightarrow> (strmap \<Rightarrow> bool) go"
  rsr_ListRunners :: "(strmap \<Rightarrow> bool) \<Rightarrow> Runner list go"
  rsr_Owners :: OwnerReads

subsection \<open>The code\<close>

definition withTemplateHash :: "ReplicaSetEnv \<Rightarrow> RunnerReplicaSet \<Rightarrow> RunnerReplicaSet" where
  "withTemplateHash env rs =
     (if (case map_of (om_Labels (rrs_Meta rs)) LabelKeyRunnerTemplateHash of None \<Rightarrow> True | Some h \<Rightarrow> h = []) then
        (let templateHash = ComputeHash (rse_Spew env) (rse_SafeEncode env) ((rrs_Spec rs)\<lparr>rrss_Replicas := None, rrss_EffectiveTime := None\<rparr>);
             t = rrss_Template (rrs_Spec rs)
         in rs\<lparr>rrs_Meta := (rrs_Meta rs)\<lparr>om_Labels := CloneAndAddLabel (om_Labels (rrs_Meta rs)) LabelKeyRunnerTemplateHash templateHash\<rparr>,
               rrs_Spec := (rrs_Spec rs)\<lparr>rrss_Template := t\<lparr>rt_Meta := (rt_Meta t)\<lparr>om_Labels :=
                 CloneAndAddLabel (om_Labels (rt_Meta t)) LabelKeyRunnerTemplateHash templateHash\<rparr>\<rparr>\<rparr>\<rparr>)
      else rs)"

definition emptyRunnerStatus :: RunnerStatus where
  "emptyRunnerStatus = \<lparr>rst_Ready = False,
     rst_Registration = \<lparr>reg_Enterprise = [], reg_Organization = [], reg_Repository = [], reg_Labels = [], reg_Token = [], reg_ExpiresAt = zeroTime\<rparr>,
     rst_Phase = [], rst_Reason = [], rst_Message = [], rst_LastRegistrationCheckTime = None\<rparr>"

definition desiredRunner :: "string \<Rightarrow> RunnerReplicaSet \<Rightarrow> Runner" where
  "desiredRunner stamp rs =
     (let t = rrss_Template (rrs_Spec rs)
      in \<lparr>r_Meta = (rt_Meta t)\<lparr>om_GenerateName := om_Name (rrs_Meta rs) @ ''-'', om_Namespace := om_Namespace (rrs_Meta rs),
             om_Annotations := AList.update SyncTimeAnnotationKey stamp (om_Annotations (rt_Meta t))\<rparr>,
           r_Spec = rt_Spec t, r_Status = emptyRunnerStatus\<rparr>)"

definition newRunner :: "ReplicaSetEnv \<Rightarrow> string \<Rightarrow> RunnerReplicaSet \<Rightarrow> Runner go" where
  "newRunner env stamp rs = rse_SetControllerReference env rs (desiredRunner stamp rs)"

definition replicaSetStatus :: "podsForOwner list \<Rightarrow> RunnerReplicaSetStatus" where
  "replicaSetStatus objs =
     \<lparr>rrst_Replicas = Some (\<Sum>o' \<leftarrow> objs. po_total o'), rrst_ReadyReplicas = Some (\<Sum>o' \<leftarrow> objs. po_running o'),
      rrst_AvailableReplicas = Some (\<Sum>o' \<leftarrow> objs. po_running o')\<rparr>"

definition replicaSetStatusCall :: "RunnerReplicaSet \<Rightarrow> OwnersSync \<Rightarrow> podsForOwner list \<Rightarrow> kubeCall option" where
  "replicaSetStatusCall rs y objs =
     (if rrs_Status rs \<noteq> replicaSetStatus objs then Some (PatchReplicaSetStatus (rs\<lparr>rrs_Status := replicaSetStatus objs\<rparr>)) else None)"

definition syncReplicaSet :: "kubeCall api \<Rightarrow> RunnerReplicaSet \<Rightarrow> OwnersSync \<Rightarrow> (kubeCall, Result) eff" where
  "syncReplicaSet api rs y =
     ebind (runSync api y)
       (\<lambda>res. case res of
           None \<Rightarrow> eret emptyResult
         | Some objs \<Rightarrow> (case replicaSetStatusCall rs y objs of
               None \<Rightarrow> eret emptyResult
             | Some c \<Rightarrow> ecall api c (\<lambda>e. case e of None \<Rightarrow> eret emptyResult | Some err \<Rightarrow> eret requeue)))"

definition ownersOfReplicaSet ::
  "ReplicaSetEnv \<Rightarrow> time \<Rightarrow> string \<Rightarrow> OwnerReads \<Rightarrow> RunnerReplicaSet \<Rightarrow> Runner \<Rightarrow> Runner list \<Rightarrow> OwnersSync" where
  "ownersOfReplicaSet env now stamp reads rs desired runners =
     \<lparr>oy_Reads = reads, oy_Iter = rse_Iter env, oy_Now = now, oy_Stamp = stamp, oy_EffectiveTime = rrss_EffectiveTime (rrs_Spec rs),
      oy_Replicas = (case rrss_Replicas (rrs_Spec rs) of None \<Rightarrow> 1 | Some n \<Rightarrow> n), oy_Create = OwnerRunner desired,
      oy_Ephemeral = (case rc_Ephemeral (rs_Config (rt_Spec (rrss_Template (rrs_Spec rs)))) of None \<Rightarrow> True | Some b \<Rightarrow> b),
      oy_Owners = map OwnerRunner runners\<rparr>"

definition Reconcile_RunnerReplicaSet ::
  "ReplicaSetEnv \<Rightarrow> kubeCall api \<Rightarrow> time \<Rightarrow> string \<Rightarrow> ReplicaSetReads \<Rightarrow> (kubeCall, Result) eff" where
  "Reconcile_RunnerReplicaSet env api now stamp k =
     (case rsr_Get k of
        Err e \<Rightarrow> (case IgnoreNotFound e of None \<Rightarrow> eret emptyResult | Some e' \<Rightarrow> eerr e')
      | Panic s \<Rightarrow> epanic s
      | Hang \<Rightarrow> elift Hang
      | Ret rs0 \<Rightarrow>
          if \<not> IsZero (om_DeletionTimestamp (rrs_Meta rs0)) then eret emptyResult
          else
            (let rs = withTemplateHash env rs0
             in ebind (elift (rsr_AsSelector k (rrss_Selector (rrs_Spec rs))))
               (\<lambda>selector. ebind (ecatch (elift (rsr_ListRunners k selector)) (\<lambda>e. if e \<noteq> Kube NotFound then eerr e else eret []))
                 (\<lambda>runners. ebind (elift (newRunner env stamp rs))
                   (\<lambda>desired. syncReplicaSet api rs (ownersOfReplicaSet env now stamp (rsr_Owners k) rs desired runners))))))"

interpretation replica_set: pods_owner_controller syncReplicaSet replicaSetStatusCall
  by unfold_locales (auto simp: syncReplicaSet_def replicaSetStatusCall_def split: if_splits)

subsection \<open>Runners of a replica set\<close>

definition setsOnlyRunnerOwner :: "ReplicaSetEnv \<Rightarrow> bool" where
  "setsOnlyRunnerOwner env \<longleftrightarrow> (\<forall>rs r r'. rse_SetControllerReference env rs r = Ret r' \<longrightarrow>
     (\<exists>refs. r' = r\<lparr>r_Meta := (r_Meta r)\<lparr>om_OwnerReferences := refs\<rparr>\<rparr>))"

lemma newRunner_Ret:
  assumes "setsOnlyRunnerOwner env" and "newRunner env stamp rs = Ret r"
  shows "om_Labels (r_Meta r) = om_Labels (rt_Meta (rrss_Template (rrs_Spec rs)))" and "r_Status r = emptyRunnerStatus"
    and "getAnnotation (r_Meta r) SyncTimeAnnotationKey = Some stamp"
    and "k \<noteq> SyncTimeAnnotationKey \<Longrightarrow> getAnnotation (r_Meta r) k = getAnnotation (rt_Meta (rrss_Template (rrs_Spec rs))) k"
proof -
  obtain refs where "r = (desiredRunner stamp rs)\<lparr>r_Meta := (r_Meta (desiredRunner stamp rs))\<lparr>om_OwnerReferences := refs\<rparr>\<rparr>"
    using assms unfolding newRunner_def setsOnlyRunnerOwner_def by blast
  then show "om_Labels (r_Meta r) = om_Labels (rt_Meta (rrss_Template (rrs_Spec rs)))" and "r_Status r = emptyRunnerStatus"
    and "getAnnotation (r_Meta r) SyncTimeAnnotationKey = Some stamp"
    and "k \<noteq> SyncTimeAnnotationKey \<Longrightarrow> getAnnotation (r_Meta r) k = getAnnotation (rt_Meta (rrss_Template (rrs_Spec rs))) k"
    by (simp_all add: desiredRunner_def Let_def getAnnotation_def)
qed

lemma withTemplateHash_id:
  "map_of (om_Labels (rrs_Meta rs)) LabelKeyRunnerTemplateHash = Some h \<Longrightarrow> h \<noteq> [] \<Longrightarrow> withTemplateHash env rs = rs"
  by (simp add: withTemplateHash_def)

text \<open>A reconciliation whose reads succeed is a synchronisation.\<close>

lemma Reconcile_RunnerReplicaSet_sync:
  assumes "rsr_Get k = Ret rs" and "IsZero (om_DeletionTimestamp (rrs_Meta rs))"
    and "rsr_AsSelector k (rrss_Selector (rrs_Spec (withTemplateHash env rs))) = Ret sel" and "rsr_ListRunners k sel = Ret runners"
    and "newRunner env stamp (withTemplateHash env rs) = Ret desired"
  shows "Reconcile_RunnerReplicaSet env api now stamp k =
    syncReplicaSet api (withTemplateHash env rs) (ownersOfReplicaSet env now stamp (rsr_Owners k) (withTemplateHash env rs) desired runners)"
proof
  fix l
  show "Reconcile_RunnerReplicaSet env api now stamp k l =
    syncReplicaSet api (withTemplateHash env rs) (ownersOfReplicaSet env now stamp (rsr_Owners k) (withTemplateHash env rs) desired runners) l"
    using assms by (simp add: Reconcile_RunnerReplicaSet_def ebind_def elift_def ecatch_def Let_def)
qed

subsection \<open>From a deployment to its runners\<close>

text \<open>The replica set a deployment creates, with the name and the time of creation that the API server gives it.\<close>

definition stored :: "string \<Rightarrow> time \<Rightarrow> RunnerReplicaSet \<Rightarrow> RunnerReplicaSet" where
  "stored name t rs = rs\<lparr>rrs_Meta := (rrs_Meta rs)\<lparr>om_Name := name, om_CreationTimestamp := t\<rparr>\<rparr>"

lemma stored_deployment_set:
  assumes "setsOnlyOwner denv" and "newRunnerReplicaSet denv rd = Ret rs" and "templateHashOf denv rd \<noteq> []"
  shows "withTemplateHash env (stored name t rs) = stored name t rs" and "IsZero (om_DeletionTimestamp (rrs_Meta (stored name t rs)))"
    and "rrs_Spec (stored name t rs) = rrs_Spec (desiredReplicaSet denv rd)"
proof -
  obtain refs where rs: "rs = (desiredReplicaSet denv rd)\<lparr>rrs_Meta := (rrs_Meta (desiredReplicaSet denv rd))\<lparr>om_OwnerReferences := refs\<rparr>\<rparr>"
    using newRunnerReplicaSet_Ret [OF assms(1,2)] by blast
  show "withTemplateHash env (stored name t rs) = stored name t rs"
    by (rule withTemplateHash_id [OF _ assms(3)]) (simp add: rs stored_def desiredReplicaSet_fields replicaSetLabels_lookup label_keys)
  show "IsZero (om_DeletionTimestamp (rrs_Meta (stored name t rs)))"
    by (simp add: rs stored_def desiredReplicaSet_def Let_def emptyMeta_def)
  show "rrs_Spec (stored name t rs) = rrs_Spec (desiredReplicaSet denv rd)" by (simp add: rs stored_def)
qed

text \<open>The reads of an API server that has the replica set and the given runners.\<close>

definition replicaSetStore :: "RunnerReplicaSet \<Rightarrow> Runner list \<Rightarrow> OwnerReads \<Rightarrow> ReplicaSetReads" where
  "replicaSetStore rs runners reads =
     \<lparr>rsr_Get = Ret rs, rsr_AsSelector = (\<lambda>s. Ret (\<lambda>ls. case s of None \<Rightarrow> False | Some s' \<Rightarrow> matchesLabels s' ls)),
      rsr_ListRunners = (\<lambda>p. Ret (filter (\<lambda>r. p (om_Labels (r_Meta r))) runners)), rsr_Owners = reads\<rparr>"

lemma Reconcile_stored:
  assumes "setsOnlyOwner denv" and "newRunnerReplicaSet denv rd = Ret rs" and "templateHashOf denv rd \<noteq> []"
    and "newRunner env stamp (stored name t rs) = Ret r"
  shows "Reconcile_RunnerReplicaSet env api now stamp (replicaSetStore (stored name t rs) runners reads) =
    syncReplicaSet api (stored name t rs) (ownersOfReplicaSet env now stamp reads (stored name t rs) r
      (filter (\<lambda>r. matchesLabels (CloneSelectorAndAddLabel (getSelector rd) LabelKeyRunnerTemplateHash (templateHashOf denv rd)) (om_Labels (r_Meta r))) runners))"
  using Reconcile_RunnerReplicaSet_sync [of "replicaSetStore (stored name t rs) runners reads" "stored name t rs" env] assms(4)
    stored_deployment_set [OF assms(1-3)]
  by (simp add: replicaSetStore_def desiredReplicaSet_fields)

text \<open>A replica set without runners creates all of them.\<close>

lemma empty_set_creates:
  assumes "map_of (om_Labels (rrs_Meta rs)) LabelKeyRunnerTemplateHash = Some h" and "h \<noteq> []" and "IsZero (om_DeletionTimestamp (rrs_Meta rs))"
    and "map_of (om_Labels (rt_Meta (rrss_Template (rrs_Spec rs)))) LabelKeyRunnerTemplateHash = Some h"
    and "setsOnlyRunnerOwner env" and "newRunner env stamp rs = Ret r" and "0 < getIntOrDefault (rrss_Replicas (rrs_Spec rs)) 1"
  shows "writes (Reconcile_RunnerReplicaSet env acceptAll now stamp (replicaSetStore rs [] reads)) =
    replicate (nat (getIntOrDefault (rrss_Replicas (rrs_Spec rs)) 1)) (CreateRunner r)"
proof -
  let ?y = "ownersOfReplicaSet env now stamp reads rs r []"
  have w: "withTemplateHash env rs = rs" by (rule withTemplateHash_id [OF assms(1,2)])
  have "owner_templateHash (oy_Create ?y) = Some h"
    using newRunner_Ret(1) [OF assms(5,6)] assms(4) by (simp add: ownersOfReplicaSet_def ownerRunner_templateHash_def getRunnerTemplateHash_def)
  moreover have "collectPodsForOwners (oy_Reads ?y) acceptAll (oy_Now ?y) (oy_Stamp ?y) (oy_Owners ?y) [] = ([], Ret (Some \<lparr>os_podsForOwners = [], os_lastSyncTime = None\<rparr>))"
    by (simp add: ownersOfReplicaSet_def collectPodsForOwners_def eret_def)
  moreover have "oy_Replicas ?y = getIntOrDefault (rrss_Replicas (rrs_Spec rs)) 1" by (simp add: ownersOfReplicaSet_def getIntOrDefault_def)
  ultimately have "writes (syncReplicaSet acceptAll rs ?y) = replicate (nat (getIntOrDefault (rrss_Replicas (rrs_Spec rs)) 1)) (CreateRunner r)"
    using replica_set.resume_creates_missing [of ?y _ h rs] assms(7)
    by (simp add: ownersOf_def maybeRunning_def recreationDelayed_def) (simp add: ownersOfReplicaSet_def)
  then show ?thesis
    using Reconcile_RunnerReplicaSet_sync [of "replicaSetStore rs [] reads" rs env _ "[]" stamp r acceptAll now] assms(3,6) w by (simp add: replicaSetStore_def)
qed

text \<open>
  C9. From a deployment to its runners. Let a deployment ask for a positive number of runners (one if it does not say) and have no selector of its own, or one that the labels of its template satisfy and that does not mention the label the controller adds for the deployment's name. The replica set it
  creates, reconciled while there are no runners and with an API server that accepts every call, creates exactly as many runners as asked for and does nothing else; each carries the template hash and the labels by which the replica set will find it.
\<close>

theorem deployment_gets_its_runners:
  assumes "setsOnlyOwner denv" and "newRunnerReplicaSet denv rd = Ret rs" and "templateHashOf denv rd \<noteq> []"
    and "setsOnlyRunnerOwner env" and "newRunner env stamp (stored name t rs) = Ret r"
    and "rds_Selector (rd_Spec rd) = None \<or> (\<exists>s. rds_Selector (rd_Spec rd) = Some s \<and> matchesLabels s (om_Labels (rt_Meta (rds_Template (rd_Spec rd)))) \<and>
      LabelKeyRunnerDeploymentName \<notin> set (map fst (ls_MatchLabels s)))"
    and "0 < getIntOrDefault (rds_Replicas (rd_Spec rd)) 1"
  shows "writes (Reconcile_RunnerReplicaSet env acceptAll now stamp (replicaSetStore (stored name t rs) [] reads)) =
      replicate (nat (getIntOrDefault (rds_Replicas (rd_Spec rd)) 1)) (CreateRunner r) \<and>
    map_of (om_Labels (r_Meta r)) LabelKeyRunnerTemplateHash = Some (templateHashOf denv rd) \<and>
    (\<exists>s. rrss_Selector (rrs_Spec rs) = Some s \<and> matchesLabels s (om_Labels (r_Meta r)))"
proof -
  let ?rs = "stored name t rs"
  note st = stored_deployment_set [OF assms(1-3)]
  have hash: "map_of (om_Labels (rrs_Meta ?rs)) LabelKeyRunnerTemplateHash = Some (templateHashOf denv rd)"
    using newRunnerReplicaSet_Ret [OF assms(1,2)] by (auto simp: stored_def desiredReplicaSet_fields replicaSetLabels_lookup label_keys)
  have labels: "om_Labels (r_Meta r) = replicaSetLabels denv rd"
    using newRunner_Ret(1) [OF assms(4,5)] st(3) by (simp add: desiredReplicaSet_fields)
  have "\<exists>s. rrss_Selector (rrs_Spec rs) = Some s \<and> matchesLabels s (om_Labels (r_Meta r))"
    using desiredReplicaSet_selects [OF assms(6), of denv] st(3) by (simp add: labels desiredReplicaSet_fields stored_def)
  then show ?thesis
    using empty_set_creates [OF hash assms(3) st(2) _ assms(4,5), of now reads] assms(7) st(3)
    by (simp add: labels replicaSetLabels_lookup label_keys desiredReplicaSet_fields)
qed

text \<open>
  C13. No replica is created twice: when one of the runners that a replica set lists has not been picked up by the runner controller yet (it has no phase), its pods can be read and it is neither being deleted nor done with its unregistration, then reconciling the replica set creates no runner. This
  holds wherever it stands in the list, whatever the other runners, the number of replicas and the answers of the API server are.
\<close>

theorem no_double_creation:
  assumes "rsr_Get k = Ret rs" and "rsr_AsSelector k (rrss_Selector (rrs_Spec (withTemplateHash env rs))) = Ret sel" and "rsr_ListRunners k sel = Ret runners"
    and "x \<in> set runners" and "rst_Phase (r_Status x) = []" and "getRunnerTemplateHash (r_Meta x) \<noteq> None" and "IsZero (om_DeletionTimestamp (r_Meta x))"
    and "getAnnotation (r_Meta x) AnnotationKeyUnregistrationCompleteTimestamp = None" and "ownerRunner_pods (rsr_Owners k) x = Ret pods"
    and "getAnnotation (r_Meta x) AnnotationKeyUnregistrationRequestTimestamp = None \<or> \<not> list_all deletionSafe pods" and "rangesOver (rse_Iter env)"
  shows "CreateRunner r \<notin> set (writes (Reconcile_RunnerReplicaSet env api now stamp k))"
proof (cases "\<exists>d. newRunner env stamp (withTemplateHash env rs) = Ret d \<and> IsZero (om_DeletionTimestamp (rrs_Meta rs))")
  case True
  then obtain d where d: "newRunner env stamp (withTemplateHash env rs) = Ret d" "IsZero (om_DeletionTimestamp (rrs_Meta rs))" by blast
  let ?y = "ownersOfReplicaSet env now stamp (rsr_Owners k) (withTemplateHash env rs) d runners"
  have "awaited (oy_Reads ?y) (OwnerRunner x)" "OwnerRunner x \<in> set (oy_Owners ?y)" "rangesOver (oy_Iter ?y)"
    using assms(4-11) by (auto simp: awaited_def ownersOfReplicaSet_def ownerRunner_synced_def ownerRunner_templateHash_def)
  from replica_set.resume_waits [OF this(3,1,2)] show ?thesis unfolding Reconcile_RunnerReplicaSet_sync [OF assms(1) d(2) assms(2,3) d(1)] by blast
next
  case False
  then have "writes (Reconcile_RunnerReplicaSet env api now stamp k) = []"
    using assms(1-3) by (cases "newRunner env stamp (withTemplateHash env rs)") (auto simp: Reconcile_RunnerReplicaSet_def Let_def go_simps)
  then show ?thesis by simp
qed

definition exampleReplicaSetEnv :: ReplicaSetEnv where
  "exampleReplicaSetEnv = \<lparr>rse_Spew = \<lambda>s. [], rse_SafeEncode = \<lambda>s. s, rse_SetControllerReference = \<lambda>rs r.
     Ret (r\<lparr>r_Meta := (r_Meta r)\<lparr>om_OwnerReferences := [\<lparr>or_APIVersion = ''actions.summerwind.dev/v1alpha1'', or_Kind = ''RunnerReplicaSet'',
       or_Name = om_Name (rrs_Meta rs), or_Controller = True\<rparr>]\<rparr>\<rparr>), rse_Iter = \<lambda>m. m\<rparr>"

definition exampleNewRunner :: Runner where
  "exampleNewRunner = (case newRunner exampleReplicaSetEnv ''t'' (stored ''rs'' 0 exampleDesired) of Ret r \<Rightarrow> r)"

definition noPods :: OwnerReads where
  "noPods = \<lparr>ow_GetPod = \<lambda>ns n. Err (Kube NotFound), ow_ListPods = \<lambda>ls. Ret []\<rparr>"

lemma example_setsOnlyRunnerOwner: "setsOnlyRunnerOwner exampleReplicaSetEnv"
  unfolding setsOnlyRunnerOwner_def exampleReplicaSetEnv_def by auto

lemma exampleNewRunner: "newRunner exampleReplicaSetEnv ''t'' (stored ''rs'' 0 exampleDesired) = Ret exampleNewRunner"
  by (simp add: exampleNewRunner_def newRunner_def exampleReplicaSetEnv_def)

lemma Itoa_nonempty: "Itoa n \<noteq> []"
  by (subst Itoa.simps) simp

lemma example_hash_nonempty: "templateHashOf exampleDeploymentEnv exampleRD \<noteq> []"
  by (simp add: templateHashOf_def ComputeHash_def exampleDeploymentEnv_def Itoa_nonempty Let_def)

lemma example_selector: "rds_Selector (rd_Spec exampleRD) = None" "rds_Replicas (rd_Spec exampleRD) = Some 4"
  "getAnnotation (rt_Meta (rds_Template (rd_Spec exampleRD))) k = None"
  by (simp_all add: exampleRD_def emptyMeta_def getAnnotation_def)

theorem deployment_gets_its_runners_witness:
  "writes (Reconcile_RunnerReplicaSet exampleReplicaSetEnv acceptAll 0 ''t'' (replicaSetStore (stored ''rs'' 0 exampleDesired) [] noPods)) =
    replicate 4 (CreateRunner exampleNewRunner)"
  using deployment_gets_its_runners [OF example_setsOnlyOwner exampleDesired example_hash_nonempty example_setsOnlyRunnerOwner exampleNewRunner
      disjI1 [OF example_selector(1)], of 0 noPods]
  by (simp add: example_selector getIntOrDefault_def)

abbreviation exampleCreatedRunner :: "string \<Rightarrow> Runner" where
  "exampleCreatedRunner n \<equiv> exampleNewRunner\<lparr>r_Meta := (r_Meta exampleNewRunner)\<lparr>om_Name := n\<rparr>\<rparr>"

theorem no_double_creation_witness:
  "CreateRunner exampleNewRunner \<notin> set (writes (Reconcile_RunnerReplicaSet exampleReplicaSetEnv acceptAll 0 ''t'' (replicaSetStore (stored ''rs'' 0 exampleDesired)
    [(exampleCreatedRunner ''r1'')\<lparr>r_Status := emptyRunnerStatus\<lparr>rst_Phase := ''Running''\<rparr>\<rparr>, exampleCreatedRunner ''r2''] noPods)))"
proof -
  let ?rs = "stored ''rs'' 0 exampleDesired" and ?x = "exampleCreatedRunner ''r2''"
  let ?all = "[(exampleCreatedRunner ''r1'')\<lparr>r_Status := emptyRunnerStatus\<lparr>rst_Phase := ''Running''\<rparr>\<rparr>, ?x]"
  note st = stored_deployment_set [OF example_setsOnlyOwner exampleDesired example_hash_nonempty] and nr = newRunner_Ret [OF example_setsOnlyRunnerOwner exampleNewRunner]
  have labels: "om_Labels (r_Meta exampleNewRunner) = replicaSetLabels exampleDeploymentEnv exampleRD" using nr(1) st(3) by (simp add: desiredReplicaSet_fields)
  have m: "matchesLabels (CloneSelectorAndAddLabel (getSelector exampleRD) LabelKeyRunnerTemplateHash (templateHashOf exampleDeploymentEnv exampleRD)) (om_Labels (r_Meta exampleNewRunner))"
    using desiredReplicaSet_selects [OF disjI1 [OF example_selector(1)], of exampleDeploymentEnv] by (simp add: labels)
  let ?sel = "\<lambda>ls. matchesLabels (CloneSelectorAndAddLabel (getSelector exampleRD) LabelKeyRunnerTemplateHash (templateHashOf exampleDeploymentEnv exampleRD)) ls"
  have k: "rsr_Get (replicaSetStore ?rs ?all noPods) = Ret ?rs" "rsr_AsSelector (replicaSetStore ?rs ?all noPods) (rrss_Selector (rrs_Spec (withTemplateHash exampleReplicaSetEnv ?rs))) = Ret ?sel"
    "rsr_ListRunners (replicaSetStore ?rs ?all noPods) ?sel = Ret ?all"
    using m st by (simp_all add: replicaSetStore_def desiredReplicaSet_fields)
  have a: "getAnnotation (r_Meta exampleNewRunner) a = None" if "a \<noteq> SyncTimeAnnotationKey" for a
    using nr(4) [OF that] st(3) by (simp add: desiredReplicaSet_def labelledTemplate_def Let_def exampleRD_def emptyMeta_def getAnnotation_def)
  have d: "om_DeletionTimestamp (r_Meta exampleNewRunner) = None"
    by (simp add: exampleNewRunner_def newRunner_def exampleReplicaSetEnv_def desiredRunner_def exampleDesired_def newRunnerReplicaSet_def
        exampleDeploymentEnv_def stored_def desiredReplicaSet_def labelledTemplate_def exampleRD_def Let_def emptyMeta_def)
  show ?thesis
    by (rule no_double_creation [OF k, where x = ?x and pods = "[]"])
      (use nr(2) a [of AnnotationKeyUnregistrationCompleteTimestamp] a [of AnnotationKeyUnregistrationRequestTimestamp] d in
        \<open>simp_all add: replicaSetStore_def noPods_def ownerRunner_pods_def getRunnerTemplateHash_def labels replicaSetLabels_lookup label_keys annotation_keys emptyRunnerStatus_def
          getAnnotation_def exampleReplicaSetEnv_def rangesOver_def\<close>)
qed

end
