(* ===== verification/Runner_Pod.thy ===== *)
theory Runner_Pod
  imports Graceful_Stop
begin

section \<open>The pod of a runner\<close>

text \<open>
  Model of \<open>newPod\<close>, \<open>newRunnerPod\<close>, \<open>mutatePod\<close> and of the helpers on finalizers and volumes in \<open>src/controllers/runner_controller.go\<close>. \<open>newRunnerPod\<close> is split into the runner container, the docker
  container, the volumes and their placement in the pod. A resource quantity is an integer. The printer of objects and the encoder of hashes are the parameters of \<open>Fnv_Hash\<close>;
  \<open>ctrl.SetControllerReference\<close> is a parameter too.
\<close>

subsection \<open>Names\<close>

definition EnvVarOrg :: string where "EnvVarOrg = ''RUNNER_ORG''"
definition EnvVarRepo :: string where "EnvVarRepo = ''RUNNER_REPO''"
definition EnvVarEnterprise :: string where "EnvVarEnterprise = ''RUNNER_ENTERPRISE''"
definition EnvVarRunnerFeatureFlagEphemeral :: string where "EnvVarRunnerFeatureFlagEphemeral = ''RUNNER_FEATURE_FLAG_EPHEMERAL''"
definition EnvVarTrue :: string where "EnvVarTrue = ''true''"
definition EnvVarRunnerName :: string where "EnvVarRunnerName = ''RUNNER_NAME''"
definition EnvVarRunnerToken :: string where "EnvVarRunnerToken = ''RUNNER_TOKEN''"
definition annotationKeyRegistrationOnly :: string where
  "annotationKeyRegistrationOnly = ''actions-runner-controller/registration-only''"

lemmas env_names = EnvVarOrg_def EnvVarRepo_def EnvVarEnterprise_def EnvVarEphemeral_def EnvVarRunnerFeatureFlagEphemeral_def
  EnvVarTrue_def EnvVarRunnerName_def EnvVarRunnerToken_def

record RunnerReconciler =
  rr_RunnerImage :: string
  rr_RunnerImagePullSecrets :: "string list"
  rr_DockerImage :: string
  rr_DockerRegistryMirror :: string
  rr_GithubBaseURL :: string
  rr_UnregistrationRetryDelay :: duration

subsection \<open>Finalizers and work volumes\<close>

definition addFinalizer :: "string list \<Rightarrow> string \<Rightarrow> string list \<times> bool" where
  "addFinalizer finalizers name =
     (if fold (\<lambda>n exists. if n = name then True else exists) finalizers False then (finalizers, False)
      else (finalizers @ [name], True))"

definition removeFinalizer :: "string list \<Rightarrow> string \<Rightarrow> string list \<times> bool" where
  "removeFinalizer finalizers name =
     fold (\<lambda>n (result, removed). if n = name then (result, True) else (result @ [n], removed)) finalizers ([], False)"

fun presentAt :: "('a \<Rightarrow> string) \<Rightarrow> 'a list \<Rightarrow> nat \<Rightarrow> bool \<times> nat" where
  "presentAt nm [] index = (False, 0)"
| "presentAt nm (item # items) index = (if nm item = ''work'' then (True, index) else presentAt nm items (index + 1))"

definition workVolumePresent :: "Volume list \<Rightarrow> bool \<times> nat" where
  "workVolumePresent items = presentAt vol_Name items 0"

definition workVolumeMountPresent :: "VolumeMount list \<Rightarrow> bool \<times> nat" where
  "workVolumeMountPresent items = presentAt vm_Name items 0"

text \<open>\<open>append(xs[:i], xs[i+1:]...)\<close>\<close>

definition removeIndex :: "nat \<Rightarrow> 'a list \<Rightarrow> 'a list go" where
  "removeIndex i xs = (if i + 1 \<le> length xs then Ret (take i xs @ drop (i + 1) xs) else Panic ''slice bounds out of range'')"

subsection \<open>What a runner configuration asks for\<close>

definition dockerdInRunner :: "RunnerConfig \<Rightarrow> bool" where
  "dockerdInRunner c \<longleftrightarrow> (case rc_DockerdWithinRunnerContainer c of None \<Rightarrow> False | Some b \<Rightarrow> b)"

definition dockerEnabled :: "RunnerConfig \<Rightarrow> bool" where
  "dockerEnabled c \<longleftrightarrow> (case rc_DockerEnabled c of None \<Rightarrow> True | Some b \<Rightarrow> b)"

definition ephemeralRunner :: "RunnerConfig \<Rightarrow> bool" where
  "ephemeralRunner c \<longleftrightarrow> (case rc_Ephemeral c of None \<Rightarrow> True | Some b \<Rightarrow> b)"

definition dockerSidecar :: "RunnerConfig \<Rightarrow> bool" where
  "dockerSidecar c \<longleftrightarrow> \<not> dockerdInRunner c \<and> dockerEnabled c"

definition workDirOf :: "RunnerConfig \<Rightarrow> string" where
  "workDirOf c = (if rc_WorkDir c = [] then ''/runner/_work'' else rc_WorkDir c)"

definition registryMirror :: "string \<Rightarrow> RunnerConfig \<Rightarrow> string" where
  "registryMirror defaultMirror c = (case rc_DockerRegistryMirror c of None \<Rightarrow> defaultMirror | Some m \<Rightarrow> m)"

definition showBool :: "bool \<Rightarrow> string" where "showBool b = (if b then ''true'' else ''false'')"

definition envVar :: "string \<Rightarrow> string \<Rightarrow> EnvVar" where "envVar n v = \<lparr>ev_Name = n, ev_Value = v\<rparr>"

definition runnerEnv :: "RunnerConfig \<Rightarrow> string \<Rightarrow> bool \<Rightarrow> EnvVar list" where
  "runnerEnv c githubBaseURL registrationOnly =
     [envVar EnvVarOrg (rc_Organization c), envVar EnvVarRepo (rc_Repository c), envVar EnvVarEnterprise (rc_Enterprise c),
      envVar ''RUNNER_LABELS'' (Join (rc_Labels c) '',''), envVar ''RUNNER_GROUP'' (rc_Group c),
      envVar ''DOCKER_ENABLED'' (showBool (dockerEnabled c \<or> dockerdInRunner c)),
      envVar ''DOCKERD_IN_RUNNER'' (showBool (dockerdInRunner c)), envVar ''GITHUB_URL'' githubBaseURL,
      envVar ''RUNNER_WORKDIR'' (workDirOf c), envVar EnvVarEphemeral (showBool (ephemeralRunner c))] @
     (if registrationOnly then [envVar ''RUNNER_REGISTRATION_ONLY'' ''true''] else [])"

definition seLinuxOptions :: "Pod \<Rightarrow> opaque option" where
  "seLinuxOptions template = Option.bind (ps_SecurityContext (pod_Spec template)) psc_SELinuxOptions"

text \<open>The last container with the given name.\<close>

definition containerIndex :: "string \<Rightarrow> Container list \<Rightarrow> nat option" where
  "containerIndex name cs = fold (\<lambda>(i, c) found. if c_Name c = name then Some i else found) (enumerate 0 cs) None"

definition emptySecurityContext :: SecurityContext where
  "emptySecurityContext = \<lparr>sc_Privileged = None, sc_SELinuxOptions = None, sc_Rest = []\<rparr>"

definition emptyDirVolume :: "string \<Rightarrow> Volume" where
  "emptyDirVolume name = \<lparr>vol_Name = name, vol_Source = EmptyDirSource \<lparr>ed_Medium = [], ed_SizeLimit = None\<rparr>\<rparr>"

definition mount :: "string \<Rightarrow> string \<Rightarrow> bool \<Rightarrow> VolumeMount" where
  "mount name path ro = \<lparr>vm_Name = name, vm_MountPath = path, vm_ReadOnly = ro\<rparr>"

definition runnerVolume :: "RunnerConfig \<Rightarrow> Volume" where
  "runnerVolume c = \<lparr>vol_Name = ''runner'', vol_Source = EmptyDirSource
     \<lparr>ed_Medium = (case rc_VolumeStorageMedium c of None \<Rightarrow> [] | Some m \<Rightarrow> m), ed_SizeLimit = rc_VolumeSizeLimit c\<rparr>\<rparr>"

text \<open>A size limit of zero disables the volume.\<close>

definition runnerVolumeEnabled :: "RunnerConfig \<Rightarrow> bool" where
  "runnerVolumeEnabled c \<longleftrightarrow> (case rc_VolumeSizeLimit c of None \<Rightarrow> True | Some l \<Rightarrow> l \<noteq> 0)"

subsection \<open>The two containers\<close>

definition runnerContainerOf :: "Pod \<Rightarrow> bool \<Rightarrow> Container" where
  "runnerContainerOf template privileged =
     (case containerIndex containerName (ps_Containers (pod_Spec template)) of
        None \<Rightarrow> (emptyContainer containerName)\<lparr>c_SecurityContext := Some (emptySecurityContext\<lparr>sc_Privileged := Some privileged\<rparr>)\<rparr>
      | Some i \<Rightarrow> ps_Containers (pod_Spec template) ! i)"

definition dockerdContainerOf :: "Pod \<Rightarrow> Container" where
  "dockerdContainerOf template =
     (case containerIndex ''docker'' (ps_Containers (pod_Spec template)) of
        None \<Rightarrow> emptyContainer ''docker''
      | Some i \<Rightarrow> ps_Containers (pod_Spec template) ! i)"

definition runnerContainer :: "RunnerReconciler \<Rightarrow> Pod \<Rightarrow> RunnerConfig \<Rightarrow> bool \<Rightarrow> Container" where
  "runnerContainer r template c registrationOnly =
     (let privileged = (dockerdInRunner c \<and> seLinuxOptions template = None);
          c0 = runnerContainerOf template privileged;
          mirror = registryMirror (rr_DockerRegistryMirror r) c;
          image = (if rc_Image c \<noteq> [] then rc_Image c else c_Image c0)
      in c0\<lparr>c_Image := (if image = [] then rr_RunnerImage r else image),
            c_ImagePullPolicy := (if c_ImagePullPolicy c0 = [] then ''Always'' else c_ImagePullPolicy c0),
            c_Env := c_Env c0 @ runnerEnv c (rr_GithubBaseURL r) registrationOnly @
              (case rc_DockerMTU c of Some mtu \<Rightarrow> if dockerdInRunner c then [envVar ''MTU'' (Sprintd mtu)] else [] | None \<Rightarrow> []) @
              (if mirror \<noteq> [] \<and> dockerdInRunner c then [envVar ''DOCKER_REGISTRY_MIRROR'' mirror] else []) @
              (if dockerSidecar c then [envVar ''DOCKER_HOST'' ''tcp://localhost:2376'', envVar ''DOCKER_TLS_VERIFY'' ''1'',
                 envVar ''DOCKER_CERT_PATH'' ''/certs/client''] else []),
            c_SecurityContext := Some ((case c_SecurityContext c0 of None \<Rightarrow> emptySecurityContext | Some s \<Rightarrow> s)\<lparr>sc_Privileged := Some privileged\<rparr>),
            c_VolumeMounts := c_VolumeMounts c0 @
              (if runnerVolumeEnabled c then [mount ''runner'' ''/runner'' False] else []) @
              (if dockerSidecar c then [mount ''work'' (workDirOf c) False, mount ''certs-client'' ''/certs/client'' True] else [])\<rparr>)"

definition dockerdContainer :: "RunnerReconciler \<Rightarrow> Pod \<Rightarrow> RunnerConfig \<Rightarrow> Container" where
  "dockerdContainer r template c =
     (let privileged = (seLinuxOptions template = None);
          c0 = dockerdContainerOf template;
          mirror = registryMirror (rr_DockerRegistryMirror r) c
      in c0\<lparr>c_Image := (if c_Image c0 = [] then rr_DockerImage r else c_Image c0),
            c_Env := c_Env c0 @ [envVar ''DOCKER_TLS_CERTDIR'' ''/certs''] @
              (case rc_DockerMTU c of Some mtu \<Rightarrow> [envVar ''DOCKERD_ROOTLESS_ROOTLESSKIT_MTU'' (Sprintd mtu)] | None \<Rightarrow> []),
            c_SecurityContext := (case c_SecurityContext c0 of
                None \<Rightarrow> Some (emptySecurityContext\<lparr>sc_Privileged := Some privileged, sc_SELinuxOptions := seLinuxOptions template\<rparr>)
              | Some s \<Rightarrow> Some s),
            c_VolumeMounts := c_VolumeMounts c0 @ [mount ''runner'' ''/runner'' False, mount ''certs-client'' ''/certs/client'' False] @
              (if fst (workVolumeMountPresent (c_VolumeMounts c0)) then [] else [mount ''work'' (workDirOf c) False]),
            c_Args := c_Args c0 @ (case rc_DockerMTU c of Some mtu \<Rightarrow> [''--mtu'', Sprintd mtu] | None \<Rightarrow> []) @
              (if mirror \<noteq> [] then [''--registry-mirror='' @ mirror] else [])\<rparr>)"

text \<open>The containers of the pod: the runner container replaces its template or comes first, the docker container replaces its template or comes last.\<close>

definition placeContainers :: "Container list \<Rightarrow> Container \<Rightarrow> Container option \<Rightarrow> Container list" where
  "placeContainers cs runner docker =
     (let ri = containerIndex containerName cs; di = containerIndex ''docker'' cs;
          cs1 = (case ri of None \<Rightarrow> runner # cs | Some i \<Rightarrow> cs[i := runner]);
          di1 = (if ri = None then map_option Suc di else di)
      in case docker of
           None \<Rightarrow> cs1
         | Some d \<Rightarrow> (case di1 of None \<Rightarrow> cs1 @ [d] | Some j \<Rightarrow> cs1[j := d]))"

subsection \<open>The pod\<close>

definition assemblePod :: "RunnerReconciler \<Rightarrow> string \<Rightarrow> Pod \<Rightarrow> RunnerConfig \<Rightarrow> bool \<Rightarrow> Pod" where
  "assemblePod r runnerName template c registrationOnly =
     (let labels = CloneAndAddLabel (CloneAndAddLabel (om_Labels (pod_Meta template)) LabelKeyRunnerSetName runnerName)
            LabelKeyPodMutation LabelValuePodMutation;
          spec = pod_Spec template
      in template\<lparr>pod_Meta := (pod_Meta template)\<lparr>om_Labels := labels\<rparr>,
           pod_Spec := spec\<lparr>
             ps_RestartPolicy := (if ps_RestartPolicy spec = [] then ''OnFailure'' else ps_RestartPolicy spec),
             ps_ImagePullSecrets := (if length (ps_ImagePullSecrets spec) = 0 then rr_RunnerImagePullSecrets r else ps_ImagePullSecrets spec),
             ps_Volumes := ps_Volumes spec @ (if runnerVolumeEnabled c then [runnerVolume c] else []) @
               (if dockerSidecar c then [emptyDirVolume ''work'', emptyDirVolume ''certs-client''] else []),
             ps_Containers := placeContainers (ps_Containers spec) (runnerContainer r template c registrationOnly)
               (if dockerSidecar c then Some (dockerdContainer r template c) else None)\<rparr>\<rparr>)"

definition newRunnerPod :: "RunnerReconciler \<Rightarrow> string \<Rightarrow> Pod \<Rightarrow> RunnerConfig \<Rightarrow> bool \<Rightarrow> Pod go" where
  "newRunnerPod r runnerName template c registrationOnly =
     (if dockerSidecar c \<and> \<not> runnerVolumeEnabled c then
        Err (Errorf ''runner volume can't be disabled because it is required to share the working directory between the runner and the dockerd containers'')
      else
        (let pod = assemblePod r runnerName template c registrationOnly
         in Ret (if getRunnerEnv pod EnvVarRunnerFeatureFlagEphemeral = [] then setRunnerEnv pod EnvVarRunnerFeatureFlagEphemeral EnvVarTrue
                 else pod)))"

definition mutatePod :: "Pod \<Rightarrow> string \<Rightarrow> Pod" where
  "mutatePod pod token =
     (let updated = (if getRunnerEnv pod EnvVarRunnerName = [] then setRunnerEnv pod EnvVarRunnerName (om_Name (pod_Meta pod)) else pod)
      in if getRunnerEnv pod EnvVarRunnerToken = [] then setRunnerEnv updated EnvVarRunnerToken token else updated)"

text \<open>The objects that go into the hash of the pod template.\<close>

datatype hashObject = HashMap strmap | HashSpec RunnerSpec | HashString string

record PodEnv =
  pe_Spew :: "hashObject \<Rightarrow> string"
  pe_SafeEncode :: "string \<Rightarrow> string"
  pe_SetControllerReference :: "Runner \<Rightarrow> Pod \<Rightarrow> Pod go"

definition podTemplateHash :: "PodEnv \<Rightarrow> RunnerReconciler \<Rightarrow> Runner \<Rightarrow> string" where
  "podTemplateHash env r runner =
     FNVHashStringObjects (pe_Spew env) (pe_SafeEncode env)
       [HashMap (filterLabels (om_Labels (r_Meta runner)) LabelKeyRunnerTemplateHash), HashMap (om_Annotations (r_Meta runner)),
        HashSpec (r_Spec runner), HashString (rr_GithubBaseURL r), HashString (reg_Token (rst_Registration (r_Status runner)))]"

definition podTemplate :: "PodEnv \<Rightarrow> RunnerReconciler \<Rightarrow> Runner \<Rightarrow> Pod" where
  "podTemplate env r runner =
     (let meta = r_Meta runner; c = rs_Config (r_Spec runner); rp = rs_PodSpec (r_Spec runner)
      in emptyPod\<lparr>
        pod_Meta := emptyMeta\<lparr>om_Name := om_Name meta, om_Namespace := om_Namespace meta,
          om_Labels := AList.update LabelKeyPodTemplateHash (podTemplateHash env r runner) (om_Labels meta),
          om_Annotations := om_Annotations meta\<rparr>,
        pod_Spec := emptyPodSpec\<lparr>
          ps_Containers :=
            (if length (rp_Containers rp) = 0 then
               [(emptyContainer ''runner'')\<lparr>c_ImagePullPolicy := rp_ImagePullPolicy rp, c_EnvFrom := rp_EnvFrom rp, c_Env := rp_Env rp,
                  c_Resources := rp_Resources rp\<rparr>] @
               (if dockerEnabled c \<and> \<not> dockerdInRunner c then
                  [(emptyContainer ''docker'')\<lparr>c_VolumeMounts := rp_DockerVolumeMounts rp, c_Resources := rp_DockerdContainerResources rp,
                     c_Env := rp_DockerEnv rp\<rparr>]
                else [])
             else rp_Containers rp),
          ps_SecurityContext := rp_SecurityContext rp,
          ps_EnableServiceLinks := rp_EnableServiceLinks rp\<rparr>\<rparr>)"

definition addVolumeMounts :: "VolumeMount list \<Rightarrow> PodSpec \<Rightarrow> PodSpec go" where
  "addVolumeMounts mounts spec =
     (if length mounts = 0 then Ret spec
      else case ps_Containers spec of
          [] \<Rightarrow> Panic ''index out of range''
        | c0 # cs \<Rightarrow>
            go_bind (if fst (workVolumeMountPresent mounts) then removeIndex (snd (workVolumeMountPresent (c_VolumeMounts c0))) (c_VolumeMounts c0)
                     else Ret (c_VolumeMounts c0))
              (\<lambda>ms. Ret (spec\<lparr>ps_Containers := c0\<lparr>c_VolumeMounts := ms @ mounts\<rparr> # cs\<rparr>)))"

definition addVolumes :: "Volume list \<Rightarrow> PodSpec \<Rightarrow> PodSpec go" where
  "addVolumes volumes spec =
     (if length volumes = 0 then Ret spec
      else go_bind (if fst (workVolumePresent volumes) then removeIndex (snd (workVolumePresent (ps_Volumes spec))) (ps_Volumes spec)
                    else Ret (ps_Volumes spec))
        (\<lambda>vs. Ret (spec\<lparr>ps_Volumes := vs @ volumes\<rparr>)))"

text \<open>The fields of the pod that the runner's specification overrides.\<close>

definition overrideSpec :: "RunnerPodSpec \<Rightarrow> PodSpec \<Rightarrow> PodSpec" where
  "overrideSpec rp spec = spec\<lparr>
     ps_InitContainers := ps_InitContainers spec @ rp_InitContainers rp,
     ps_NodeSelector := (if rp_NodeSelector rp \<noteq> None then rp_NodeSelector rp else ps_NodeSelector spec),
     ps_ServiceAccountName := (if rp_ServiceAccountName rp \<noteq> [] then rp_ServiceAccountName rp else ps_ServiceAccountName spec),
     ps_AutomountServiceAccountToken :=
       (if rp_AutomountServiceAccountToken rp \<noteq> None then rp_AutomountServiceAccountToken rp else ps_AutomountServiceAccountToken spec),
     ps_Containers := ps_Containers spec @ rp_SidecarContainers rp,
     ps_ImagePullSecrets := (if length (rp_ImagePullSecrets rp) \<noteq> 0 then rp_ImagePullSecrets rp else ps_ImagePullSecrets spec),
     ps_Affinity := (if rp_Affinity rp \<noteq> None then rp_Affinity rp else ps_Affinity spec),
     ps_Tolerations := (if length (rp_Tolerations rp) \<noteq> 0 then rp_Tolerations rp else ps_Tolerations spec),
     ps_TopologySpreadConstraints :=
       (if length (rp_TopologySpreadConstraints rp) \<noteq> 0 then rp_TopologySpreadConstraints rp else ps_TopologySpreadConstraints spec),
     ps_EphemeralContainers := (if length (rp_EphemeralContainers rp) \<noteq> 0 then rp_EphemeralContainers rp else ps_EphemeralContainers spec),
     ps_TerminationGracePeriodSeconds :=
       (if rp_TerminationGracePeriodSeconds rp \<noteq> None then rp_TerminationGracePeriodSeconds rp else ps_TerminationGracePeriodSeconds spec),
     ps_HostAliases := (if length (rp_HostAliases rp) \<noteq> 0 then rp_HostAliases rp else ps_HostAliases spec),
     ps_DNSConfig := (if rp_DnsConfig rp \<noteq> None then rp_DnsConfig rp else ps_DNSConfig spec),
     ps_RuntimeClassName := (if rp_RuntimeClassName rp \<noteq> None then rp_RuntimeClassName rp else ps_RuntimeClassName spec)\<rparr>"

definition newPod :: "PodEnv \<Rightarrow> RunnerReconciler \<Rightarrow> Runner \<Rightarrow> Pod go" where
  "newPod env r runner =
     (let rp = rs_PodSpec (r_Spec runner);
          registrationOnly = (getAnnotation (r_Meta runner) annotationKeyRegistrationOnly \<noteq> None)
      in go_bind (newRunnerPod r (om_Name (r_Meta runner)) (podTemplate env r runner) (rs_Config (r_Spec runner)) registrationOnly)
        (\<lambda>pod. go_bind (addVolumeMounts (rp_VolumeMounts rp) (pod_Spec pod))
          (\<lambda>spec. go_bind (addVolumes (rp_Volumes rp) spec)
            (\<lambda>spec. pe_SetControllerReference env runner
               (mutatePod (pod\<lparr>pod_Spec := overrideSpec rp spec, pod_Meta := (pod_Meta pod)\<lparr>om_Name := om_Name (r_Meta runner)\<rparr>\<rparr>)
                  (reg_Token (rst_Registration (r_Status runner))))))))"

subsection \<open>Finalizers\<close>

lemma addFinalizer_eq: "addFinalizer fs n = (if n \<in> set fs then (fs, False) else (fs @ [n], True))"
proof -
  have "fold (\<lambda>m ex. if m = n then True else ex) fs b \<longleftrightarrow> b \<or> n \<in> set fs" for b
    by (induction fs arbitrary: b) auto
  then show ?thesis by (simp add: addFinalizer_def)
qed

lemma removeFinalizer_eq: "removeFinalizer fs n = (filter (\<lambda>m. m \<noteq> n) fs, n \<in> set fs)"
proof -
  have "fold (\<lambda>m (result, removed). if m = n then (result, True) else (result @ [m], removed)) fs (acc, b) =
      (acc @ filter (\<lambda>m. m \<noteq> n) fs, b \<or> n \<in> set fs)" for acc b
    by (induction fs arbitrary: acc b) auto
  then show ?thesis by (simp add: removeFinalizer_def)
qed

text \<open>
  Finalizers: adding one is idempotent and tells whether it was missing, and removing it gives back the finalizers there were before.
\<close>

theorem finalizer_roundtrip:
  "name \<notin> set finalizers \<Longrightarrow> addFinalizer finalizers name = (finalizers @ [name], True) \<and>
    removeFinalizer (fst (addFinalizer finalizers name)) name = (finalizers, True) \<and>
    addFinalizer (fst (addFinalizer finalizers name)) name = (fst (addFinalizer finalizers name), False)"
  by (auto simp: addFinalizer_eq removeFinalizer_eq filter_id_conv)

theorem finalizer_roundtrip_witness: "removeFinalizer (fst (addFinalizer [''x''] finalizerName)) finalizerName = ([''x''], True)"
proof -
  have "finalizerName \<notin> set [''x'']" by (simp add: finalizerName_def)
  from finalizer_roundtrip [OF this] show ?thesis by blast
qed

subsection \<open>The registration token\<close>

lemma hasRunnerContainer_setEnv: "hasRunnerContainer (setRunnerEnv pod k v) = hasRunnerContainer pod"
proof -
  have "(\<exists>c \<in> set (setEnvIn cs k v). c_Name c = containerName) = (\<exists>c \<in> set cs. c_Name c = containerName)" for cs
    by (induction cs) (auto split: option.splits)
  then show ?thesis by (simp add: hasRunnerContainer_def setRunnerEnv_def)
qed

lemmas env_read = getRunnerEnv_def setRunnerEnv_def hasRunnerContainer_def

lemma setRunnerEnv_read:
  "hasRunnerContainer pod \<Longrightarrow> getRunnerEnv (setRunnerEnv pod key val) key' = (if key' = key then val else getRunnerEnv pod key')"
  by (simp add: env_read setEnvIn_get setEnvIn_other)

text \<open>
  Injection: \<open>mutatePod\<close> gives the runner container its name and the registration token where they are missing, and changes no other variable; doing it again, also with another token, changes nothing more once the first token is not empty.
\<close>

theorem mutatePod_env:
  assumes "hasRunnerContainer pod"
  shows "getRunnerEnv (mutatePod pod token) key =
    (if key = EnvVarRunnerName \<and> getRunnerEnv pod key = [] then om_Name (pod_Meta pod)
     else if key = EnvVarRunnerToken \<and> getRunnerEnv pod key = [] then token
     else getRunnerEnv pod key) \<and>
    (token \<noteq> [] \<longrightarrow> om_Name (pod_Meta pod) \<noteq> [] \<longrightarrow> mutatePod (mutatePod pod token) token' = mutatePod pod token)"
proof -
  have k: "EnvVarRunnerToken \<noteq> EnvVarRunnerName" by (simp add: env_names)
  have r: "getRunnerEnv (mutatePod pod token) key' =
    (if key' = EnvVarRunnerName \<and> getRunnerEnv pod key' = [] then om_Name (pod_Meta pod)
     else if key' = EnvVarRunnerToken \<and> getRunnerEnv pod key' = [] then token
     else getRunnerEnv pod key')" for key'
    using assms k by (auto simp: mutatePod_def Let_def setRunnerEnv_read hasRunnerContainer_setEnv)
  have "mutatePod (mutatePod pod token) token' = mutatePod pod token" if "token \<noteq> []" "om_Name (pod_Meta pod) \<noteq> []"
    using that k by (subst mutatePod_def) (simp add: r)
  with r show ?thesis by simp
qed

theorem mutatePod_env_witness:
  "getRunnerEnv (mutatePod examplePod ''token'') EnvVarRunnerToken = ''token''"
proof -
  have "hasRunnerContainer examplePod"
    by (simp add: hasRunnerContainer_def examplePod_def emptyContainer_def containerName_def)
  moreover have "getRunnerEnv examplePod EnvVarRunnerToken = []"
    by (simp add: getRunnerEnv_def examplePod_def emptyContainer_def containerName_def)
  ultimately show ?thesis using mutatePod_env [of examplePod "''token''" EnvVarRunnerToken] by (simp add: env_names)
qed

subsection \<open>Containers, volumes and mounts\<close>

lemma containerIndex_snoc [simp]:
  "containerIndex n [] = None"
  "containerIndex n (cs @ [c]) = (if c_Name c = n then Some (length cs) else containerIndex n cs)"
  by (simp_all add: containerIndex_def enumerate_append_eq)

lemma containerIndex_Some: "containerIndex n cs = Some i \<Longrightarrow> i < length cs \<and> c_Name (cs ! i) = n"
proof (induction cs arbitrary: i rule: rev_induct)
  case (snoc c cs)
  then show ?case by (cases "c_Name c = n") (auto simp: nth_append less_SucI)
qed simp

lemma containerIndex_None: "containerIndex n cs = None \<Longrightarrow> c \<in> set cs \<Longrightarrow> c_Name c \<noteq> n"
  by (induction cs rule: rev_induct) (auto split: if_splits)

lemma runnerContainerOf_cases:
  "runnerContainerOf template p \<in> set (ps_Containers (pod_Spec template)) \<or> c_VolumeMounts (runnerContainerOf template p) = []"
  "c_Name (runnerContainerOf template p) = containerName"
  by (auto simp: runnerContainerOf_def emptyContainer_def split: option.splits dest!: containerIndex_Some)

lemma dockerdContainerOf_cases:
  "dockerdContainerOf template \<in> set (ps_Containers (pod_Spec template)) \<or> c_VolumeMounts (dockerdContainerOf template) = []"
  "c_Name (dockerdContainerOf template) = ''docker''"
  by (auto simp: dockerdContainerOf_def emptyContainer_def split: option.splits dest!: containerIndex_Some)

lemma runnerContainer_name: "c_Name (runnerContainer r template c ro) = containerName"
  by (simp add: runnerContainer_def Let_def runnerContainerOf_cases(2))

lemma dockerdContainer_name: "c_Name (dockerdContainer r template c) = ''docker''"
  by (simp add: dockerdContainer_def Let_def dockerdContainerOf_cases(2))

lemma placeContainers_set:
  "set (placeContainers cs runner docker) \<subseteq> insert runner (set_option docker \<union> set cs)"
  using set_update_subset_insert
  by (fastforce simp: placeContainers_def Let_def split: option.splits dest!: subsetD [OF set_update_subset_insert])

text \<open>The docker container does not end up in the place of the runner container.\<close>

lemma placeContainers_in:
  assumes "\<And>d. docker = Some d \<Longrightarrow> c_Name d = ''docker''"
  shows "runner \<in> set (placeContainers cs runner docker)" and "docker = Some d \<Longrightarrow> d \<in> set (placeContainers cs runner docker)"
proof -
  let ?ri = "containerIndex containerName cs" and ?di = "containerIndex ''docker'' cs"
  have ne: "?ri = Some i \<Longrightarrow> ?di = Some j \<Longrightarrow> i \<noteq> j" for i j
    by (auto dest!: containerIndex_Some simp: containerName_def)
  have ln: "?ri = Some i \<Longrightarrow> i < length cs" "?di = Some j \<Longrightarrow> j < length cs" for i j
    by (simp_all add: containerIndex_Some)
  have up: "i < length xs \<Longrightarrow> x \<in> set (xs[i := x])" "i < length xs \<Longrightarrow> i \<noteq> j \<Longrightarrow> x \<in> set (xs[i := x, j := y])" for x y i j and xs :: "Container list"
    by (simp_all add: set_update_memI in_set_conv_nth) (metis length_list_update nth_list_update_eq nth_list_update_neq)+
  show "runner \<in> set (placeContainers cs runner docker)"
    using ne ln up by (cases ?ri; cases ?di; cases docker) (auto simp: placeContainers_def)
  show "docker = Some d \<Longrightarrow> d \<in> set (placeContainers cs runner docker)"
    using ln up(1) [of _ "cs[_ := _]"] up(1) by (cases ?ri; cases ?di) (auto simp: placeContainers_def)
qed

definition mountsOk :: "PodSpec \<Rightarrow> bool" where
  "mountsOk spec \<longleftrightarrow> (\<forall>c \<in> set (ps_Containers spec). \<forall>m \<in> set (c_VolumeMounts c). vm_Name m \<in> vol_Name ` set (ps_Volumes spec))"

lemma setEnvIn_mounts: "c \<in> set (setEnvIn cs k v) \<Longrightarrow> \<exists>c' \<in> set cs. c_VolumeMounts c = c_VolumeMounts c' \<and> c_Name c = c_Name c'"
  by (induction cs) (auto split: if_splits option.splits)

lemma mountsOk_setRunnerEnv: "mountsOk (pod_Spec pod) \<Longrightarrow> mountsOk (pod_Spec (setRunnerEnv pod k v))"
  by (fastforce simp: mountsOk_def setRunnerEnv_def dest!: setEnvIn_mounts)

lemma newRunnerPod_Ret:
  assumes "newRunnerPod r name template c ro = Ret pod"
  shows "dockerSidecar c \<Longrightarrow> runnerVolumeEnabled c"
    and "pod = assemblePod r name template c ro \<or> pod = setRunnerEnv (assemblePod r name template c ro) EnvVarRunnerFeatureFlagEphemeral EnvVarTrue"
  using assms by (auto simp: newRunnerPod_def Let_def split: if_splits)

lemma assemblePod_spec:
  "ps_Containers (pod_Spec (assemblePod r name template c ro)) = placeContainers (ps_Containers (pod_Spec template)) (runnerContainer r template c ro)
    (if dockerSidecar c then Some (dockerdContainer r template c) else None)"
  "ps_Volumes (pod_Spec (assemblePod r name template c ro)) = ps_Volumes (pod_Spec template) @ (if runnerVolumeEnabled c then [runnerVolume c] else []) @
    (if dockerSidecar c then [emptyDirVolume ''work'', emptyDirVolume ''certs-client''] else [])"
  by (simp_all add: assemblePod_def Let_def)

lemma containers_mounts:
  "m \<in> set (c_VolumeMounts (runnerContainer r template c ro)) \<Longrightarrow>
    m \<in> set (c_VolumeMounts (runnerContainerOf template (dockerdInRunner c \<and> seLinuxOptions template = None))) \<or>
    runnerVolumeEnabled c \<and> vm_Name m = ''runner'' \<or> dockerSidecar c \<and> vm_Name m \<in> {''work'', ''certs-client''}"
  "m \<in> set (c_VolumeMounts (dockerdContainer r template c)) \<Longrightarrow>
    m \<in> set (c_VolumeMounts (dockerdContainerOf template)) \<or> vm_Name m \<in> {''runner'', ''work'', ''certs-client''}"
  by (auto simp: runnerContainer_def dockerdContainer_def Let_def mount_def split: if_splits)

lemma assemblePod_runner: "hasRunnerContainer (assemblePod r name template c ro)"
proof -
  have "runnerContainer r template c ro \<in> set (ps_Containers (pod_Spec (assemblePod r name template c ro)))"
    unfolding assemblePod_spec by (rule placeContainers_in(1)) (auto simp: dockerdContainer_name split: if_splits)
  then show ?thesis unfolding hasRunnerContainer_def by (rule bexI [rotated]) (rule runnerContainer_name)
qed

lemma assemblePod_mounts:
  assumes "mountsOk (pod_Spec template)" and "dockerSidecar c \<Longrightarrow> runnerVolumeEnabled c"
  shows "mountsOk (pod_Spec (assemblePod r name template c ro))"
  unfolding mountsOk_def
proof (intro ballI)
  let ?vols = "vol_Name ` set (ps_Volumes (pod_Spec (assemblePod r name template c ro)))"
  fix x m assume x: "x \<in> set (ps_Containers (pod_Spec (assemblePod r name template c ro)))" and m: "m \<in> set (c_VolumeMounts x)"
  have vols: "vol_Name ` set (ps_Volumes (pod_Spec template)) \<subseteq> ?vols" "runnerVolumeEnabled c \<Longrightarrow> ''runner'' \<in> ?vols"
    "dockerSidecar c \<Longrightarrow> {''work'', ''certs-client''} \<subseteq> ?vols"
    by (auto simp: assemblePod_spec runnerVolume_def emptyDirVolume_def)
  have old: "y \<in> set (ps_Containers (pod_Spec template)) \<or> c_VolumeMounts y = [] \<Longrightarrow> m \<in> set (c_VolumeMounts y) \<Longrightarrow> vm_Name m \<in> ?vols" for y
    using assms(1) vols(1) unfolding mountsOk_def by auto
  have "x = runnerContainer r template c ro \<or> dockerSidecar c \<and> x = dockerdContainer r template c \<or> x \<in> set (ps_Containers (pod_Spec template))"
    using subsetD [OF placeContainers_set x [unfolded assemblePod_spec]] by (auto split: if_splits)
  then consider "x = runnerContainer r template c ro" | "dockerSidecar c" "x = dockerdContainer r template c" | "x \<in> set (ps_Containers (pod_Spec template))"
    by blast
  then show "vm_Name m \<in> ?vols"
  proof cases
    case 1
    from containers_mounts(1) [OF m [unfolded 1]] consider
        "m \<in> set (c_VolumeMounts (runnerContainerOf template (dockerdInRunner c \<and> seLinuxOptions template = None)))"
      | "runnerVolumeEnabled c" "vm_Name m = ''runner''" | "dockerSidecar c" "vm_Name m \<in> {''work'', ''certs-client''}" by metis
    then show ?thesis by cases (use vols(2,3) in \<open>auto dest: old [OF runnerContainerOf_cases(1)]\<close>)
  next
    case 2
    from containers_mounts(2) [OF m [unfolded 2(2)]] consider
        "m \<in> set (c_VolumeMounts (dockerdContainerOf template))" | "vm_Name m \<in> {''runner'', ''work'', ''certs-client''}" by metis
    then show ?thesis by cases (use vols(2,3) assms(2) 2(1) in \<open>auto dest: old [OF dockerdContainerOf_cases(1)]\<close>)
  qed (use old m in blast)
qed

text \<open>
  C21. The pod that \<open>newRunnerPod\<close> builds is well formed: it is refused exactly when the docker sidecar is wanted and the runner volume is disabled; otherwise it has a runner container, and every volume that
  any container mounts is a volume of the pod, provided that held of the template.
\<close>

theorem newRunnerPod_well_formed:
  assumes "mountsOk (pod_Spec template)"
  shows "if dockerSidecar c \<and> \<not> runnerVolumeEnabled c then \<exists>msg. newRunnerPod r name template c ro = Err (Errorf msg)
    else \<exists>pod. newRunnerPod r name template c ro = Ret pod \<and> mountsOk (pod_Spec pod) \<and> hasRunnerContainer pod"
proof (cases "dockerSidecar c \<and> \<not> runnerVolumeEnabled c")
  case True
  then show ?thesis by (simp add: newRunnerPod_def)
next
  case False
  then obtain pod where pod: "newRunnerPod r name template c ro = Ret pod" by (auto simp: newRunnerPod_def Let_def)
  from newRunnerPod_Ret [OF pod] assemblePod_mounts [OF assms, of c r name ro] assemblePod_runner [of r name template c ro]
  have "mountsOk (pod_Spec pod) \<and> hasRunnerContainer pod"
    by (auto simp: mountsOk_setRunnerEnv hasRunnerContainer_setEnv)
  with False pod show ?thesis by simp
qed

definition exampleReconciler :: RunnerReconciler where
  "exampleReconciler = \<lparr>rr_RunnerImage = ''runner:latest'', rr_RunnerImagePullSecrets = [], rr_DockerImage = ''docker:dind'',
     rr_DockerRegistryMirror = [], rr_GithubBaseURL = ''https://github.com/'', rr_UnregistrationRetryDelay = 0\<rparr>"

lemmas config_defs = dockerSidecar_def dockerdInRunner_def dockerEnabled_def runnerVolumeEnabled_def ephemeralRunner_def exampleConfig_def

theorem newRunnerPod_well_formed_witness:
  "\<exists>pod. newRunnerPod exampleReconciler ''a'' emptyPod exampleConfig False = Ret pod \<and> mountsOk (pod_Spec pod)"
proof -
  have "mountsOk (pod_Spec emptyPod)" by (simp add: mountsOk_def empty_defs)
  from newRunnerPod_well_formed [OF this, of exampleConfig exampleReconciler "''a''" False] show ?thesis
    by (auto simp: config_defs)
qed

subsection \<open>A work volume of the operator's own\<close>

lemma setEnvIn_keeps_mounts: "c \<in> set cs \<Longrightarrow> \<exists>c' \<in> set (setEnvIn cs k v). c_VolumeMounts c' = c_VolumeMounts c"
  by (induction cs) (auto split: option.splits)

definition mountsVolume :: "PodSpec \<Rightarrow> string \<Rightarrow> bool" where
  "mountsVolume spec name \<longleftrightarrow> (\<exists>c \<in> set (ps_Containers spec). \<exists>m \<in> set (c_VolumeMounts c). vm_Name m = name)"

lemma mountsVolume_setRunnerEnv: "mountsVolume (pod_Spec pod) name \<Longrightarrow> mountsVolume (pod_Spec (setRunnerEnv pod k v)) name"
  unfolding mountsVolume_def setRunnerEnv_def by simp (metis setEnvIn_keeps_mounts)

lemma setRunnerEnv_frame [simp]: "ps_Volumes (pod_Spec (setRunnerEnv pod k v)) = ps_Volumes (pod_Spec pod)"
  "pod_Meta (setRunnerEnv pod k v) = pod_Meta pod" "ps_RestartPolicy (pod_Spec (setRunnerEnv pod k v)) = ps_RestartPolicy (pod_Spec pod)"
  by (simp_all add: setRunnerEnv_def)

lemma mutatePod_mounts:
  "mountsVolume (pod_Spec pod) name \<Longrightarrow> mountsVolume (pod_Spec (mutatePod pod t)) name"
  "ps_Volumes (pod_Spec (mutatePod pod t)) = ps_Volumes (pod_Spec pod)"
  by (simp_all add: mutatePod_def Let_def mountsVolume_setRunnerEnv)

text \<open>What the code relies on in \<open>ctrl.SetControllerReference\<close>: it changes nothing but the owner references.\<close>

definition setsOnlyReference :: "PodEnv \<Rightarrow> bool" where
  "setsOnlyReference env \<longleftrightarrow> (\<forall>runner pod pod'. pe_SetControllerReference env runner pod = Ret pod' \<longrightarrow>
     (\<exists>refs. pod' = pod\<lparr>pod_Meta := (pod_Meta pod)\<lparr>om_OwnerReferences := refs\<rparr>\<rparr>))"

text \<open>
  Where the operator brings a work volume of his own and there is no docker sidecar, the pod has no work volume to be replaced, and \<open>newPod\<close> drops the first volume instead: the runner volume. The runner container still mounts it, so
  that the pod is not well formed.
\<close>

theorem newPod_drops_runner_volume:
  assumes "newPod env r runner = Ret pod" and "setsOnlyReference env"
    and "\<not> dockerSidecar (rs_Config (r_Spec runner))" and "runnerVolumeEnabled (rs_Config (r_Spec runner))"
    and "fst (workVolumePresent (rp_Volumes (rs_PodSpec (r_Spec runner))))" and "rp_VolumeMounts (rs_PodSpec (r_Spec runner)) = []"
    and "''runner'' \<notin> vol_Name ` set (rp_Volumes (rs_PodSpec (r_Spec runner)))"
  shows "ps_Volumes (pod_Spec pod) = rp_Volumes (rs_PodSpec (r_Spec runner)) \<and> \<not> mountsOk (pod_Spec pod)"
proof -
  let ?c = "rs_Config (r_Spec runner)" and ?rp = "rs_PodSpec (r_Spec runner)" and ?t = "podTemplate env r runner"
  let ?ro = "getAnnotation (r_Meta runner) annotationKeyRegistrationOnly \<noteq> None"
  obtain p spec q where p: "newRunnerPod r (om_Name (r_Meta runner)) ?t ?c ?ro = Ret p"
    and spec: "addVolumes (rp_Volumes ?rp) (pod_Spec p) = Ret spec"
    and q: "q = p\<lparr>pod_Spec := overrideSpec ?rp spec, pod_Meta := (pod_Meta p)\<lparr>om_Name := om_Name (r_Meta runner)\<rparr>\<rparr>"
    and pod: "pe_SetControllerReference env runner (mutatePod q (reg_Token (rst_Registration (r_Status runner)))) = Ret pod"
    using assms(1,6) by (auto simp: newPod_def Let_def go_bind_Ret_iff addVolumeMounts_def)
  let ?a = "assemblePod r (om_Name (r_Meta runner)) ?t ?c ?ro"
  have vols: "ps_Volumes (pod_Spec p) = [runnerVolume ?c]"
    using newRunnerPod_Ret(2) [OF p] assms(3,4) by (auto simp: assemblePod_spec podTemplate_def Let_def emptyPodSpec_def emptyPod_def)
  have "runnerContainer r ?t ?c ?ro \<in> set (ps_Containers (pod_Spec ?a))"
    unfolding assemblePod_spec by (rule placeContainers_in(1)) (use assms(3) in simp)
  moreover have "mount ''runner'' ''/runner'' False \<in> set (c_VolumeMounts (runnerContainer r ?t ?c ?ro))"
    using assms(4) by (simp add: runnerContainer_def Let_def)
  ultimately have "mountsVolume (pod_Spec ?a) ''runner''" unfolding mountsVolume_def by (force simp: mount_def)
  with newRunnerPod_Ret(2) [OF p] have m: "mountsVolume (pod_Spec p) ''runner''" by (auto intro: mountsVolume_setRunnerEnv)
  have sp: "spec = (pod_Spec p)\<lparr>ps_Volumes := rp_Volumes ?rp\<rparr>"
    using spec assms(5) vols by (auto simp: addVolumes_def workVolumePresent_def runnerVolume_def removeIndex_def split: if_splits)
  have "mountsVolume (pod_Spec q) ''runner''" "ps_Volumes (pod_Spec q) = rp_Volumes ?rp"
    using m by (auto simp: q sp overrideSpec_def mountsVolume_def)
  moreover obtain refs where "pod = (mutatePod q (reg_Token (rst_Registration (r_Status runner))))\<lparr>pod_Meta :=
      (pod_Meta (mutatePod q (reg_Token (rst_Registration (r_Status runner)))))\<lparr>om_OwnerReferences := refs\<rparr>\<rparr>"
    using assms(2) pod unfolding setsOnlyReference_def by blast
  ultimately have "mountsVolume (pod_Spec pod) ''runner''" "ps_Volumes (pod_Spec pod) = rp_Volumes ?rp"
    by (simp_all add: mutatePod_mounts)
  with assms(7) show ?thesis unfolding mountsVolume_def mountsOk_def by metis
qed

definition exampleRunnerObject :: Runner where
  "exampleRunnerObject = \<lparr>r_Meta = emptyMeta\<lparr>om_Name := ''a'', om_Namespace := ''n'', om_Labels := [(LabelKeyRunnerTemplateHash, ''h'')]\<rparr>,
     r_Spec = \<lparr>rs_Config = exampleConfig, rs_PodSpec = exampleRunnerPodSpec\<rparr>,
     r_Status = \<lparr>rst_Ready = False, rst_Registration = \<lparr>reg_Enterprise = [], reg_Organization = [], reg_Repository = [], reg_Labels = [], reg_Token = [],
       reg_ExpiresAt = zeroTime\<rparr>, rst_Phase = [], rst_Reason = [], rst_Message = [], rst_LastRegistrationCheckTime = None\<rparr>\<rparr>"

definition examplePodEnv :: PodEnv where
  "examplePodEnv = \<lparr>pe_Spew = \<lambda>x. case x of HashString s \<Rightarrow> s | _ \<Rightarrow> [], pe_SafeEncode = \<lambda>s. s, pe_SetControllerReference = \<lambda>runner pod.
     Ret (pod\<lparr>pod_Meta := (pod_Meta pod)\<lparr>om_OwnerReferences := [\<lparr>or_APIVersion = ''actions.summerwind.dev/v1alpha1'', or_Kind = ''Runner'',
       or_Name = om_Name (r_Meta runner), or_Controller = True\<rparr>]\<rparr>\<rparr>)\<rparr>"

theorem newPod_drops_runner_volume_witness:
  "\<exists>runner pod. newPod examplePodEnv exampleReconciler runner = Ret pod \<and> \<not> mountsOk (pod_Spec pod)"
proof -
  let ?runner = "exampleRunnerObject\<lparr>r_Spec := \<lparr>rs_Config = exampleConfig\<lparr>rc_DockerEnabled := Some False\<rparr>,
      rs_PodSpec = exampleRunnerPodSpec\<lparr>rp_Volumes := [emptyDirVolume ''work'']\<rparr>\<rparr>\<rparr>"
  have c: "\<not> dockerSidecar (rs_Config (r_Spec ?runner))" "runnerVolumeEnabled (rs_Config (r_Spec ?runner))" by (simp_all add: config_defs)
  have "\<exists>pod. newPod examplePodEnv exampleReconciler ?runner = Ret pod"
    using c by (simp add: newPod_def newRunnerPod_def addVolumeMounts_def addVolumes_def workVolumePresent_def removeIndex_def assemblePod_spec
        exampleRunnerPodSpec_def emptyDirVolume_def podTemplate_def Let_def empty_defs runnerVolume_def examplePodEnv_def)
  then obtain pod where pod: "newPod examplePodEnv exampleReconciler ?runner = Ret pod" by blast
  have "setsOnlyReference examplePodEnv" unfolding setsOnlyReference_def examplePodEnv_def by auto
  from newPod_drops_runner_volume [OF pod this c] pod show ?thesis
    by (auto simp: workVolumePresent_def emptyDirVolume_def exampleRunnerPodSpec_def)
qed

end
