(* ===== verification/Runner_Controller.thy ===== *)
theory Runner_Controller
  imports Runner_Pod Run_Logic
begin

section \<open>The controller of runners\<close>

text \<open>
  Model of \<open>Reconcile\<close> and its helpers in \<open>src/controllers/runner_controller.go\<close>: a runner gets a finalizer, then a registration token, then its pod; after that its status follows the pod, and on deletion the finalizer goes.
  The token cache of the GitHub client is threaded through. Every path on which it may change returns a result, so that a result carries the new cache; \<open>now\<close> is the clock reading.
\<close>

record RunnerReads =
  rn_GetRunner :: "Runner go"
  rn_GetPod :: "Pod go"

record RunnerEnv =
  re_Reconciler :: RunnerReconciler
  re_PodEnv :: PodEnv
  re_GitHub :: GitHub

definition processRunnerDeletion :: "kubeCall api \<Rightarrow> Runner \<Rightarrow> (kubeCall, Result) eff" where
  "processRunnerDeletion api runner =
     (let (finalizers, removed) = removeFinalizer (om_Finalizers (r_Meta runner)) finalizerName
      in if removed then
           ebind (ewrite api (PatchRunner (runner\<lparr>r_Meta := (r_Meta runner)\<lparr>om_Finalizers := finalizers\<rparr>\<rparr>))) (\<lambda>_. eret emptyResult)
         else eret emptyResult)"

definition withRegistration :: "Runner \<Rightarrow> RegistrationToken \<Rightarrow> Runner" where
  "withRegistration runner rt =
     runner\<lparr>r_Status := (r_Status runner)\<lparr>rst_Registration :=
       \<lparr>reg_Enterprise = [], reg_Organization = rc_Organization (rs_Config (r_Spec runner)), reg_Repository = rc_Repository (rs_Config (r_Spec runner)),
         reg_Labels = rc_Labels (rs_Config (r_Spec runner)), reg_Token = rgt_Token rt, reg_ExpiresAt = rgt_ExpiresAt rt\<rparr>\<rparr>\<rparr>"

definition updateRegistrationToken ::
  "GitHub \<Rightarrow> kubeCall api \<Rightarrow> time \<Rightarrow> regTokens \<Rightarrow> Runner \<Rightarrow> (kubeCall, regTokens \<times> (goerr + bool)) eff" where
  "updateRegistrationToken gh api now cache runner =
     (if IsRegisterable now runner then eret (cache, Inr False)
      else
        (let c = rs_Config (r_Spec runner)
         in case GetRegistrationToken gh now cache (rc_Enterprise c) (rc_Organization c) (rc_Repository c) of
              (cache', Err e) \<Rightarrow> elog (Event ''FailedUpdateRegistrationToken'') (eret (cache', Inl e))
            | (cache', Ret rt) \<Rightarrow>
                ecall api (PatchRunnerStatus (withRegistration runner rt))
                  (\<lambda>e. case e of
                      Some err \<Rightarrow> eret (cache', Inl err)
                    | None \<Rightarrow> elog (Event ''RegistrationTokenUpdated'') (eret (cache', Inr True)))
            | (cache', Panic s) \<Rightarrow> epanic s
            | (cache', Hang) \<Rightarrow> elift Hang))"

definition processRunnerCreation ::
  "RunnerEnv \<Rightarrow> kubeCall api \<Rightarrow> time \<Rightarrow> regTokens \<Rightarrow> Runner \<Rightarrow> (kubeCall, regTokens \<times> Result) eff" where
  "processRunnerCreation env api now cache runner =
     ebind (updateRegistrationToken (re_GitHub env) api now cache runner)
       (\<lambda>(cache', updated). case updated of
            Inl e \<Rightarrow> eret (cache', requeueAfter RetryDelayOnCreateRegistrationError)
          | Inr True \<Rightarrow> eret (cache', requeue)
          | Inr False \<Rightarrow>
              ebind (elift (newPod (re_PodEnv env) (re_Reconciler env) runner))
                (\<lambda>pod. ecall api (CreatePod pod)
                  (\<lambda>e. case e of
                      Some err \<Rightarrow> if err = Kube AlreadyExists then eret (cache', emptyResult) else eerr err
                    | None \<Rightarrow> elog (Event ''PodCreated'') (eret (cache', emptyResult)))))"

definition podPhaseOf :: "Pod \<Rightarrow> string" where
  "podPhaseOf pod = (if pst_Phase (pod_Status pod) = NoPhase then ''Created'' else phaseString (pst_Phase (pod_Status pod)))"

definition withPodStatus :: "Runner \<Rightarrow> Pod \<Rightarrow> Runner" where
  "withPodStatus runner pod =
     runner\<lparr>r_Status := (r_Status runner)\<lparr>rst_Phase := podPhaseOf pod, rst_Ready := runnerPodReady pod,
       rst_Reason := pst_Reason (pod_Status pod), rst_Message := pst_Message (pod_Status pod)\<rparr>\<rparr>"

definition Reconcile_Runner ::
  "RunnerEnv \<Rightarrow> kubeCall api \<Rightarrow> time \<Rightarrow> regTokens \<Rightarrow> RunnerReads \<Rightarrow> (kubeCall, regTokens \<times> Result) eff" where
  "Reconcile_Runner env api now cache k =
     (let keep = (\<lambda>m. ebind m (\<lambda>res. eret (cache, res)))
      in case rn_GetRunner k of
           Err e \<Rightarrow> (case IgnoreNotFound e of None \<Rightarrow> eret (cache, emptyResult) | Some e' \<Rightarrow> eerr e')
         | Panic s \<Rightarrow> epanic s
         | Hang \<Rightarrow> elift Hang
         | Ret runner \<Rightarrow>
             if IsZero (om_DeletionTimestamp (r_Meta runner)) then
               (let (finalizers, added) = addFinalizer (om_Finalizers (r_Meta runner)) finalizerName
                in if added then
                     keep (ebind (ewrite api (UpdateRunner (runner\<lparr>r_Meta := (r_Meta runner)\<lparr>om_Finalizers := finalizers\<rparr>\<rparr>))) (\<lambda>_. eret emptyResult))
                   else case rn_GetPod k of
                       Err e \<Rightarrow> if e \<noteq> Kube NotFound then eerr e else processRunnerCreation env api now cache runner
                     | Panic s \<Rightarrow> epanic s
                     | Hang \<Rightarrow> elift Hang
                     | Ret pod \<Rightarrow>
                         if rst_Phase (r_Status runner) \<noteq> podPhaseOf pod \<or> rst_Ready (r_Status runner) \<noteq> runnerPodReady pod then
                           keep (ebind (ewrite api (PatchRunnerStatus (withPodStatus runner pod))) (\<lambda>_. eret emptyResult))
                         else eret (cache, emptyResult))
             else (case rn_GetPod k of
                 Err e \<Rightarrow> if e \<noteq> Kube NotFound then eret (cache, requeue) else keep (processRunnerDeletion api runner)
               | Panic s \<Rightarrow> epanic s
               | Hang \<Rightarrow> elift Hang
               | Ret pod \<Rightarrow> keep (processRunnerDeletion api runner)))"

subsection \<open>When a pod is created\<close>

text \<open>
  The calls the controller makes for a runner. A pod is created only for a runner that is not being deleted, has the finalizer, has no pod and holds a token for its repository that is not expired; the pod is the one \<open>newPod\<close> builds.
\<close>

inductive runnerCall :: "RunnerEnv \<Rightarrow> time \<Rightarrow> Runner \<Rightarrow> Pod go \<Rightarrow> kubeCall \<Rightarrow> bool" for env now runner pod where
  event: "runnerCall env now runner pod (Event s)"
| add_finalizer: "IsZero (om_DeletionTimestamp (r_Meta runner)) \<Longrightarrow> finalizerName \<notin> set (om_Finalizers (r_Meta runner)) \<Longrightarrow>
    runnerCall env now runner pod (UpdateRunner (runner\<lparr>r_Meta := (r_Meta runner)\<lparr>om_Finalizers := om_Finalizers (r_Meta runner) @ [finalizerName]\<rparr>\<rparr>))"
| remove_finalizer: "\<not> IsZero (om_DeletionTimestamp (r_Meta runner)) \<Longrightarrow>
    runnerCall env now runner pod (PatchRunner (runner\<lparr>r_Meta := (r_Meta runner)\<lparr>om_Finalizers := filter (\<lambda>n. n \<noteq> finalizerName) (om_Finalizers (r_Meta runner))\<rparr>\<rparr>))"
| register: "IsZero (om_DeletionTimestamp (r_Meta runner)) \<Longrightarrow> finalizerName \<in> set (om_Finalizers (r_Meta runner)) \<Longrightarrow> pod = Err (Kube NotFound) \<Longrightarrow>
    \<not> IsRegisterable now runner \<Longrightarrow> runnerCall env now runner pod (PatchRunnerStatus (withRegistration runner rt))"
| create_pod: "IsZero (om_DeletionTimestamp (r_Meta runner)) \<Longrightarrow> finalizerName \<in> set (om_Finalizers (r_Meta runner)) \<Longrightarrow> pod = Err (Kube NotFound) \<Longrightarrow>
    IsRegisterable now runner \<Longrightarrow> newPod (re_PodEnv env) (re_Reconciler env) runner = Ret p \<Longrightarrow> runnerCall env now runner pod (CreatePod p)"
| follow_pod: "pod = Ret p \<Longrightarrow> runnerCall env now runner pod (PatchRunnerStatus (withPodStatus runner p))"

inductive_cases create_podE: "runnerCall env now runner pod (CreatePod p)"

lemma run_processRunnerDeletion:
  "\<not> IsZero (om_DeletionTimestamp (r_Meta runner)) \<Longrightarrow>
    run_ok (runnerCall env now runner pod) (\<lambda>_. True) N (processRunnerDeletion api runner)"
  by (auto simp: processRunnerDeletion_def removeFinalizer_eq intro!: run_write_then run_eret intro: runnerCall.intros)

lemma run_updateRegistrationToken:
  assumes "IsZero (om_DeletionTimestamp (r_Meta runner))" and "finalizerName \<in> set (om_Finalizers (r_Meta runner))" and "pod = Err (Kube NotFound)"
  shows "run_ok (runnerCall env now runner pod) (\<lambda>(c, u). u = Inr False \<longrightarrow> IsRegisterable now runner) (\<lambda>_. True)
    (updateRegistrationToken gh api now cache runner)"
proof (cases "IsRegisterable now runner")
  case False
  let ?c = "rs_Config (r_Spec runner)"
  show ?thesis
  proof (cases "GetRegistrationToken gh now cache (rc_Enterprise ?c) (rc_Organization ?c) (rc_Repository ?c)")
    case (Pair c g)
    with False show ?thesis
      by (cases g) (auto simp: updateRegistrationToken_def intro!: run_ecall run_elog run_eret run_epanic run_elift run_option register [OF assms] event)
  qed
qed (simp add: updateRegistrationToken_def run_eret)

lemma run_processRunnerCreation:
  assumes "IsZero (om_DeletionTimestamp (r_Meta runner))" and "finalizerName \<in> set (om_Finalizers (r_Meta runner))" and "pod = Err (Kube NotFound)"
  shows "run_ok (runnerCall env now runner pod) (\<lambda>_. True) (\<lambda>_. True) (processRunnerCreation env api now cache runner)"
  unfolding processRunnerCreation_def
proof (rule run_ebind [OF run_updateRegistrationToken [OF assms]], clarify)
  fix c u assume u: "u = Inr False \<longrightarrow> IsRegisterable now runner"
  let ?np = "newPod (re_PodEnv env) (re_Reconciler env) runner"
  have "run_ok (runnerCall env now runner pod) (\<lambda>_. True) (\<lambda>_. True)
      (ebind (elift ?np) (\<lambda>p. ecall api (CreatePod p) (\<lambda>e. case e of
          Some err \<Rightarrow> if err = Kube AlreadyExists then eret (c, emptyResult) else eerr err
        | None \<Rightarrow> elog (Event ''PodCreated'') (eret (c, emptyResult)))))" if "IsRegisterable now runner"
    by (rule run_ebind [where R = "\<lambda>p. ?np = Ret p"])
      (auto intro!: run_elift run_ecall run_option run_if run_elog run_eret run_eerr create_pod [OF assms that] event)
  with u show "run_ok (runnerCall env now runner pod) (\<lambda>_. True) (\<lambda>_. True)
    (case u of Inl e \<Rightarrow> eret (c, requeueAfter RetryDelayOnCreateRegistrationError) | Inr True \<Rightarrow> eret (c, requeue)
     | Inr False \<Rightarrow> ebind (elift ?np) (\<lambda>p. ecall api (CreatePod p) (\<lambda>e. case e of
          Some err \<Rightarrow> if err = Kube AlreadyExists then eret (c, emptyResult) else eerr err
        | None \<Rightarrow> elog (Event ''PodCreated'') (eret (c, emptyResult)))))"
    by (cases u) (auto simp: run_eret split: bool.splits)
qed

lemma run_Reconcile_Runner:
  assumes "rn_GetRunner k = Ret runner"
  shows "run_ok (runnerCall env now runner (rn_GetPod k)) (\<lambda>_. True) (\<lambda>_. True) (Reconcile_Runner env api now cache k)"
proof (cases "IsZero (om_DeletionTimestamp (r_Meta runner))")
  case True
  show ?thesis
  proof (cases "finalizerName \<in> set (om_Finalizers (r_Meta runner))")
    case in_set: True
    with True assms show ?thesis
      by (cases "rn_GetPod k")
        (auto simp: Reconcile_Runner_def addFinalizer_eq intro!: run_ebind [where R = "\<lambda>_. True"] run_ewrite run_eret run_eerr run_epanic run_elift
          run_processRunnerCreation follow_pod)
  next
    case False
    with True assms show ?thesis
      by (auto simp: Reconcile_Runner_def addFinalizer_eq intro!: run_ebind [where R = "\<lambda>_. True"] run_ewrite run_eret add_finalizer)
  qed
next
  case False
  with assms show ?thesis
    by (cases "rn_GetPod k")
      (auto simp: Reconcile_Runner_def intro!: run_ebind [where R = "\<lambda>_. True"] run_eret run_epanic run_elift run_processRunnerDeletion)
qed

text \<open>
  C20. A pod is created only for a runner that is not being deleted, that carries the controller's finalizer, that has no pod yet and that holds a registration token for its repository which has not expired; and it is the pod built from the runner's specification.
\<close>

theorem pod_created_only_when_registered:
  assumes "rn_GetRunner k = Ret runner" and "CreatePod p \<in> set (writes (Reconcile_Runner env api now cache k))"
  shows "IsZero (om_DeletionTimestamp (r_Meta runner)) \<and> finalizerName \<in> set (om_Finalizers (r_Meta runner)) \<and>
    rn_GetPod k = Err (Kube NotFound) \<and> IsRegisterable now runner \<and> newPod (re_PodEnv env) (re_Reconciler env) runner = Ret p"
  using run_ok_writes [OF run_Reconcile_Runner [OF assms(1)] assms(2)] by (rule create_podE) simp

subsection \<open>The controller and the API server together\<close>

text \<open>The runner, its pod and the token cache; a tick runs one reconciliation against them and applies its writes.\<close>

record Cluster =
  cl_Runner :: "Runner option"
  cl_Pod :: "Pod option"
  cl_Tokens :: regTokens

fun applyCall :: "kubeCall \<Rightarrow> Cluster \<Rightarrow> Cluster" where
  "applyCall (UpdateRunner r) cl = cl\<lparr>cl_Runner := Some r\<rparr>"
| "applyCall (PatchRunner r) cl = cl\<lparr>cl_Runner := Some r\<rparr>"
| "applyCall (PatchRunnerStatus r) cl = cl\<lparr>cl_Runner := Some r\<rparr>"
| "applyCall (CreatePod p) cl = cl\<lparr>cl_Pod := Some p\<rparr>"
| "applyCall c cl = cl"

definition clusterReads :: "Cluster \<Rightarrow> RunnerReads" where
  "clusterReads cl = \<lparr>rn_GetRunner = (case cl_Runner cl of None \<Rightarrow> Err (Kube NotFound) | Some r \<Rightarrow> Ret r),
     rn_GetPod = (case cl_Pod cl of None \<Rightarrow> Err (Kube NotFound) | Some p \<Rightarrow> Ret p)\<rparr>"

definition tick :: "RunnerEnv \<Rightarrow> time \<Rightarrow> Cluster \<Rightarrow> Cluster" where
  "tick env now cl =
     (case Reconcile_Runner env acceptAll now (cl_Tokens cl) (clusterReads cl) [] of
        (w, Ret (tokens, res)) \<Rightarrow> fold applyCall w (cl\<lparr>cl_Tokens := tokens\<rparr>)
      | (w, r) \<Rightarrow> fold applyCall w cl)"

definition withFinalizer :: "Runner \<Rightarrow> Runner" where
  "withFinalizer runner = runner\<lparr>r_Meta := (r_Meta runner)\<lparr>om_Finalizers := om_Finalizers (r_Meta runner) @ [finalizerName]\<rparr>\<rparr>"

lemma tick_finalizer:
  assumes "IsZero (om_DeletionTimestamp (r_Meta runner))" and "finalizerName \<notin> set (om_Finalizers (r_Meta runner))"
  shows "tick env now \<lparr>cl_Runner = Some runner, cl_Pod = pod, cl_Tokens = cache\<rparr> =
    \<lparr>cl_Runner = Some (withFinalizer runner), cl_Pod = pod, cl_Tokens = cache\<rparr>"
  using assms by (simp add: tick_def clusterReads_def Reconcile_Runner_def addFinalizer_eq withFinalizer_def go_simps)

lemma tick_register:
  assumes "IsZero (om_DeletionTimestamp (r_Meta runner))" and "finalizerName \<in> set (om_Finalizers (r_Meta runner))"
    and "\<not> IsRegisterable now runner"
    and "GetRegistrationToken (re_GitHub env) now cache (rc_Enterprise (rs_Config (r_Spec runner))) (rc_Organization (rs_Config (r_Spec runner)))
      (rc_Repository (rs_Config (r_Spec runner))) = (cache', Ret rt)"
  shows "tick env now \<lparr>cl_Runner = Some runner, cl_Pod = None, cl_Tokens = cache\<rparr> =
    \<lparr>cl_Runner = Some (withRegistration runner rt), cl_Pod = None, cl_Tokens = cache'\<rparr>"
  using assms
  by (simp add: tick_def clusterReads_def Reconcile_Runner_def addFinalizer_eq processRunnerCreation_def updateRegistrationToken_def Let_def go_simps)

lemma tick_create:
  assumes "IsZero (om_DeletionTimestamp (r_Meta runner))" and "finalizerName \<in> set (om_Finalizers (r_Meta runner))"
    and "IsRegisterable now runner" and "newPod (re_PodEnv env) (re_Reconciler env) runner = Ret pod"
  shows "tick env now \<lparr>cl_Runner = Some runner, cl_Pod = None, cl_Tokens = cache\<rparr> = \<lparr>cl_Runner = Some runner, cl_Pod = Some pod, cl_Tokens = cache\<rparr>"
  using assms
  by (simp add: tick_def clusterReads_def Reconcile_Runner_def addFinalizer_eq processRunnerCreation_def updateRegistrationToken_def go_simps)

lemma tick_status:
  assumes "IsZero (om_DeletionTimestamp (r_Meta runner))" and "finalizerName \<in> set (om_Finalizers (r_Meta runner))"
  shows "tick env now \<lparr>cl_Runner = Some runner, cl_Pod = Some pod, cl_Tokens = cache\<rparr> =
    \<lparr>cl_Runner = Some (if rst_Phase (r_Status runner) \<noteq> podPhaseOf pod \<or> rst_Ready (r_Status runner) \<noteq> runnerPodReady pod
       then withPodStatus runner pod else runner), cl_Pod = Some pod, cl_Tokens = cache\<rparr>"
  using assms by (simp add: tick_def clusterReads_def Reconcile_Runner_def addFinalizer_eq go_simps)

lemma IsRegisterable_withRegistration:
  "rgt_Token rt \<noteq> [] \<Longrightarrow> now \<le> rgt_ExpiresAt rt \<Longrightarrow> IsRegisterable now (withRegistration runner rt)"
  by (simp add: IsRegisterable_def withRegistration_def Let_def)

text \<open>Three reconciliations of a new runner: finalizer, token, pod.\<close>

lemma three_ticks:
  assumes "IsZero (om_DeletionTimestamp (r_Meta runner))" and "finalizerName \<notin> set (om_Finalizers (r_Meta runner))"
    and "\<not> IsRegisterable now runner"
    and "GetRegistrationToken (re_GitHub env) now cache (rc_Enterprise (rs_Config (r_Spec runner))) (rc_Organization (rs_Config (r_Spec runner)))
      (rc_Repository (rs_Config (r_Spec runner))) = (cache', Ret rt)"
    and "rgt_Token rt \<noteq> []" and "now \<le> rgt_ExpiresAt rt"
    and "newPod (re_PodEnv env) (re_Reconciler env) (withRegistration (withFinalizer runner) rt) = Ret pod"
  shows "(tick env now ^^ 3) \<lparr>cl_Runner = Some runner, cl_Pod = None, cl_Tokens = cache\<rparr> =
    \<lparr>cl_Runner = Some (withRegistration (withFinalizer runner) rt), cl_Pod = Some pod, cl_Tokens = cache'\<rparr>"
proof -
  let ?f = "withFinalizer runner" and ?r = "withRegistration (withFinalizer runner) rt"
  have f: "IsZero (om_DeletionTimestamp (r_Meta ?f))" "finalizerName \<in> set (om_Finalizers (r_Meta ?f))" "r_Spec ?f = r_Spec runner" "r_Status ?f = r_Status runner"
    using assms(1) by (simp_all add: withFinalizer_def)
  then have r: "r_Meta ?r = r_Meta ?f" "\<not> IsRegisterable now ?f"
    using assms(3) by (simp_all add: withRegistration_def IsRegisterable_def)
  have t2: "tick env now \<lparr>cl_Runner = Some ?f, cl_Pod = None, cl_Tokens = cache\<rparr> = \<lparr>cl_Runner = Some ?r, cl_Pod = None, cl_Tokens = cache'\<rparr>"
    by (rule tick_register [OF f(1,2) r(2)]) (simp add: f(3) assms(4))
  have t3: "tick env now \<lparr>cl_Runner = Some ?r, cl_Pod = None, cl_Tokens = cache'\<rparr> = \<lparr>cl_Runner = Some ?r, cl_Pod = Some pod, cl_Tokens = cache'\<rparr>"
    using f(1,2) by (intro tick_create) (simp_all add: r(1) assms(7) IsRegisterable_withRegistration [OF assms(5,6)])
  show ?thesis by (simp add: eval_nat_numeral tick_finalizer [OF assms(1,2)] t2 t3)
qed

text \<open>
  C8. A new runner gets its pod: with an API server that accepts the writes, a GitHub that grants a token which outlives the reconciliations and a specification a pod can be built from, the first reconciliation adds the finalizer, the second registers the
  runner, the third creates the pod, the fourth brings the status up to date, and after that nothing changes any more.
\<close>

theorem runner_gets_its_pod:
  assumes "IsZero (om_DeletionTimestamp (r_Meta runner))" and "finalizerName \<notin> set (om_Finalizers (r_Meta runner))"
    and "\<not> IsRegisterable now runner"
    and "GetRegistrationToken (re_GitHub env) now cache (rc_Enterprise (rs_Config (r_Spec runner))) (rc_Organization (rs_Config (r_Spec runner)))
      (rc_Repository (rs_Config (r_Spec runner))) = (cache', Ret rt)"
    and "rgt_Token rt \<noteq> []" and "now \<le> rgt_ExpiresAt rt"
    and "newPod (re_PodEnv env) (re_Reconciler env) (withRegistration (withFinalizer runner) rt) = Ret pod"
    and "start = \<lparr>cl_Runner = Some runner, cl_Pod = None, cl_Tokens = cache\<rparr>"
  shows "(tick env now ^^ 3) start = \<lparr>cl_Runner = Some (withRegistration (withFinalizer runner) rt), cl_Pod = Some pod, cl_Tokens = cache'\<rparr> \<and>
    (\<exists>r. (tick env now ^^ 4) start = \<lparr>cl_Runner = Some r, cl_Pod = Some pod, cl_Tokens = cache'\<rparr> \<and>
      rst_Phase (r_Status r) = podPhaseOf pod \<and> rst_Ready (r_Status r) = runnerPodReady pod \<and> (tick env now ^^ 5) start = (tick env now ^^ 4) start)"
proof -
  let ?r = "withRegistration (withFinalizer runner) rt"
  have r: "IsZero (om_DeletionTimestamp (r_Meta ?r))" "finalizerName \<in> set (om_Finalizers (r_Meta ?r))"
    using assms(1) by (simp_all add: withFinalizer_def withRegistration_def)
  define r4 where "r4 = (if rst_Phase (r_Status ?r) \<noteq> podPhaseOf pod \<or> rst_Ready (r_Status ?r) \<noteq> runnerPodReady pod then withPodStatus ?r pod else ?r)"
  have r4: "r_Meta r4 = r_Meta ?r" "rst_Phase (r_Status r4) = podPhaseOf pod" "rst_Ready (r_Status r4) = runnerPodReady pod"
    by (simp_all add: r4_def withPodStatus_def)
  have t3: "(tick env now ^^ 3) start = \<lparr>cl_Runner = Some ?r, cl_Pod = Some pod, cl_Tokens = cache'\<rparr>"
    unfolding assms(8) by (rule three_ticks [OF assms(1-7)])
  have t4: "tick env now \<lparr>cl_Runner = Some ?r, cl_Pod = Some pod, cl_Tokens = cache'\<rparr> = \<lparr>cl_Runner = Some r4, cl_Pod = Some pod, cl_Tokens = cache'\<rparr>"
    using tick_status [of ?r env now pod cache'] r unfolding r4_def by simp
  have t5: "tick env now \<lparr>cl_Runner = Some r4, cl_Pod = Some pod, cl_Tokens = cache'\<rparr> = \<lparr>cl_Runner = Some r4, cl_Pod = Some pod, cl_Tokens = cache'\<rparr>"
    using tick_status [of r4 env now pod cache'] r r4 by simp
  have n: "(tick env now ^^ 4) start = tick env now ((tick env now ^^ 3) start)" "(tick env now ^^ 5) start = tick env now ((tick env now ^^ 4) start)"
    by (simp_all add: eval_nat_numeral)
  show ?thesis using r4(2,3) t3 unfolding n t3 t4 t5 by simp
qed

subsection \<open>An example\<close>

definition exampleRunnerEnv :: RunnerEnv where
  "exampleRunnerEnv = \<lparr>re_Reconciler = exampleReconciler, re_PodEnv = examplePodEnv, re_GitHub = exampleGitHub\<rparr>"

definition exampleToken :: RegistrationToken where "exampleToken = \<lparr>rgt_Token = ''r'', rgt_ExpiresAt = 60 * Minute\<rparr>"

definition exampleRegistered :: Runner where "exampleRegistered = withRegistration (withFinalizer exampleRunnerObject) exampleToken"

lemma example_newPod: "\<exists>pod. newPod (re_PodEnv exampleRunnerEnv) (re_Reconciler exampleRunnerEnv) exampleRegistered = Ret pod"
  by (simp add: newPod_def newRunnerPod_def addVolumeMounts_def addVolumes_def config_defs exampleRunnerPodSpec_def exampleRunnerObject_def
      exampleRunnerEnv_def examplePodEnv_def exampleRegistered_def withRegistration_def withFinalizer_def Let_def)

lemma example_token:
  "GetRegistrationToken (re_GitHub exampleRunnerEnv) 0 [] (rc_Enterprise (rs_Config (r_Spec exampleRunnerObject)))
     (rc_Organization (rs_Config (r_Spec exampleRunnerObject))) (rc_Repository (rs_Config (r_Spec exampleRunnerObject))) =
   ([(getRegistrationKey [] ''o/r'' [], exampleToken)], Ret exampleToken)"
  by (simp add: GetRegistrationToken_def freshRegistrationToken_def getEnterpriseOrganizationAndRepo_def createRegistrationToken_def exampleGitHub_def
      exampleRunnerEnv_def exampleRunnerObject_def exampleConfig_def splitOwnerAndRepo_def exampleToken_def Let_def)

lemma example_meta: "IsZero (om_DeletionTimestamp (r_Meta exampleRunnerObject))" "om_Finalizers (r_Meta exampleRunnerObject) = []"
  "\<not> IsRegisterable 0 exampleRunnerObject"
  by (simp_all add: exampleRunnerObject_def emptyMeta_def IsRegisterable_def exampleConfig_def)

lemma example_registered: "IsZero (om_DeletionTimestamp (r_Meta exampleRegistered))" "finalizerName \<in> set (om_Finalizers (r_Meta exampleRegistered))"
  "IsRegisterable 0 exampleRegistered"
  using example_meta(1) by (simp_all add: exampleRegistered_def IsRegisterable_withRegistration exampleToken_def)
    (simp_all add: withRegistration_def withFinalizer_def)

theorem pod_created_only_when_registered_witness:
  "\<exists>p. CreatePod p \<in> set (writes (Reconcile_Runner exampleRunnerEnv acceptAll 0 [] \<lparr>rn_GetRunner = Ret exampleRegistered, rn_GetPod = Err (Kube NotFound)\<rparr>)) \<and>
    newPod (re_PodEnv exampleRunnerEnv) (re_Reconciler exampleRunnerEnv) exampleRegistered = Ret p"
proof -
  let ?k = "\<lparr>rn_GetRunner = Ret exampleRegistered, rn_GetPod = Err (Kube NotFound)\<rparr>"
  obtain p where p: "newPod (re_PodEnv exampleRunnerEnv) (re_Reconciler exampleRunnerEnv) exampleRegistered = Ret p" using example_newPod by blast
  have w: "CreatePod p \<in> set (writes (Reconcile_Runner exampleRunnerEnv acceptAll 0 [] ?k))"
    using p example_registered by (simp add: Reconcile_Runner_def addFinalizer_eq processRunnerCreation_def updateRegistrationToken_def go_simps)
  with pod_created_only_when_registered [OF _ w, of exampleRegistered] show ?thesis by auto
qed

theorem runner_gets_its_pod_witness:
  "\<exists>pod. cl_Pod ((tick exampleRunnerEnv 0 ^^ 3) \<lparr>cl_Runner = Some exampleRunnerObject, cl_Pod = None, cl_Tokens = []\<rparr>) = Some pod"
proof -
  obtain pod where pod: "newPod (re_PodEnv exampleRunnerEnv) (re_Reconciler exampleRunnerEnv) exampleRegistered = Ret pod" using example_newPod by blast
  have "finalizerName \<notin> set (om_Finalizers (r_Meta exampleRunnerObject))" "rgt_Token exampleToken \<noteq> []" "0 \<le> rgt_ExpiresAt exampleToken"
    by (simp_all add: example_meta exampleToken_def)
  from runner_gets_its_pod [OF example_meta(1) this(1) example_meta(3) example_token this(2,3) pod [unfolded exampleRegistered_def] refl]
  show ?thesis by simp
qed

end
