(* ===== verification/Scale_Up.thy ===== *)
theory Scale_Up
  imports HRA_Webhook Replica_Set_Controller Runner_Controller
begin

section \<open>From a queued job to a runner\<close>

text \<open>
  The way up, through the webhook server and four controllers: a queued job makes the webhook server reserve a replica on an autoscaler; the autoscaler's controller raises the deployment, the deployment's controller raises its replica set, the replica set's
  controller creates runners, and the runner controller gives each its pod. The stages are the reconciliations of the component theories; between them stands an API server that accepts the writes, and what a stage reads is what the stage before has
  written.
\<close>

lemma minReplicasOf_withReservations [simp]: "minReplicasOf (withReservations rs hra) = minReplicasOf hra"
  by (simp add: minReplicasOf_def withReservations_def)

lemma withReservations_fields [simp]:
  "hra_Meta (withReservations rs hra) = hra_Meta hra"
  "hra_Status (withReservations rs hra) = hra_Status hra"
  "hs_MaxReplicas (hra_Spec (withReservations rs hra)) = hs_MaxReplicas (hra_Spec hra)"
  "hs_ScaleTargetRef (hra_Spec (withReservations rs hra)) = hs_ScaleTargetRef (hra_Spec hra)"
  "hs_ScheduledOverrides (hra_Spec (withReservations rs hra)) = hs_ScheduledOverrides (hra_Spec hra)"
  "suggestDesiredReplicas gh st (withReservations rs hra) = suggestDesiredReplicas gh st hra"
  by (simp_all add: withReservations_def suggestDesiredReplicas_def)

lemma afterScale_fields:
  "hra_Meta (afterScale now now' amount d hra) = hra_Meta hra"
  "hra_Status (afterScale now now' amount d hra) = hra_Status hra"
  "hs_MaxReplicas (hra_Spec (afterScale now now' amount d hra)) = hs_MaxReplicas (hra_Spec hra)"
  "hs_ScaleTargetRef (hra_Spec (afterScale now now' amount d hra)) = hs_ScaleTargetRef (hra_Spec hra)"
  "getMinReplicas nr loc t (afterScale now now' amount d hra) = getMinReplicas nr loc t hra"
  "suggestDesiredReplicas gh st (afterScale now now' amount d hra) = suggestDesiredReplicas gh st hra"
  by (simp_all add: afterScale_eq getMinReplicas_def matchScheduledOverrides_def cong: option.case_cong)

subsection \<open>The stages\<close>

text \<open>The deployment after a reconciliation of its autoscaler; the replica set after one of the deployment, which has no other; the runners that a replica set without runners creates.\<close>

definition reconciledDeployment :: "HraEnv \<Rightarrow> time \<Rightarrow> time \<Rightarrow> string \<Rightarrow> string \<Rightarrow> RunnerDeployment \<Rightarrow> RunnerDeployment" where
  "reconciledDeployment env t t' namespace name rd = targetAfter deploymentPatch (writes (Reconcile_HRA env acceptAll t t' namespace name)) rd"

fun updatedSet :: "kubeCall \<Rightarrow> RunnerReplicaSet \<Rightarrow> RunnerReplicaSet" where
  "updatedSet (UpdateReplicaSet rs') rs = rs'"
| "updatedSet _ rs = rs"

definition reconciledSet :: "DeploymentEnv \<Rightarrow> RunnerDeployment \<Rightarrow> RunnerReplicaSet \<Rightarrow> RunnerReplicaSet" where
  "reconciledSet denv rd rs =
     fold updatedSet (writes (Reconcile_RunnerDeployment denv acceptAll \<lparr>dr_GetDeployment = Ret rd, dr_ListReplicaSets = Ret [rs]\<rparr>)) rs"

fun createdRunner :: "kubeCall \<Rightarrow> Runner list" where
  "createdRunner (CreateRunner r) = [r]"
| "createdRunner _ = []"

definition createdRunners :: "ReplicaSetEnv \<Rightarrow> time \<Rightarrow> string \<Rightarrow> OwnerReads \<Rightarrow> RunnerReplicaSet \<Rightarrow> Runner list" where
  "createdRunners env now stamp reads rs = concat (map createdRunner (writes (Reconcile_RunnerReplicaSet env acceptAll now stamp (replicaSetStore rs [] reads))))"

definition named :: "string \<Rightarrow> Runner \<Rightarrow> Runner" where
  "named n r = r\<lparr>r_Meta := (r_Meta r)\<lparr>om_Name := n\<rparr>\<rparr>"

subsection \<open>The autoscaler's controller only rescales\<close>

definition rescaled :: "RunnerDeployment \<Rightarrow> RunnerDeployment \<Rightarrow> bool" where
  "rescaled rd rd' \<longleftrightarrow> (\<exists>n e. rd' = rd\<lparr>rd_Spec := (rd_Spec rd)\<lparr>rds_Replicas := n, rds_EffectiveTime := e\<rparr>\<rparr>)"

lemma rescaled_intros:
  "rescaled rd rd" "rescaled rd (rd\<lparr>rd_Spec := (rd_Spec rd)\<lparr>rds_Replicas := n, rds_EffectiveTime := e\<rparr>\<rparr>)" "rescaled rd (rd\<lparr>rd_Spec := (rd_Spec rd)\<lparr>rds_EffectiveTime := e\<rparr>\<rparr>)"
  "rescaled rd (rd\<lparr>rd_Spec := (rd_Spec rd)\<lparr>rds_Replicas := n\<rparr>\<rparr>)"
proof -
  have "rd = rd\<lparr>rd_Spec := (rd_Spec rd)\<lparr>rds_Replicas := rds_Replicas (rd_Spec rd), rds_EffectiveTime := rds_EffectiveTime (rd_Spec rd)\<rparr>\<rparr>" by simp
  then show "rescaled rd rd" unfolding rescaled_def by blast
  have "rd\<lparr>rd_Spec := (rd_Spec rd)\<lparr>rds_EffectiveTime := e\<rparr>\<rparr> = rd\<lparr>rd_Spec := (rd_Spec rd)\<lparr>rds_Replicas := rds_Replicas (rd_Spec rd), rds_EffectiveTime := e\<rparr>\<rparr>" by simp
  then show "rescaled rd (rd\<lparr>rd_Spec := (rd_Spec rd)\<lparr>rds_EffectiveTime := e\<rparr>\<rparr>)" unfolding rescaled_def by blast
  have "rd\<lparr>rd_Spec := (rd_Spec rd)\<lparr>rds_Replicas := n\<rparr>\<rparr> = rd\<lparr>rd_Spec := (rd_Spec rd)\<lparr>rds_Replicas := n, rds_EffectiveTime := rds_EffectiveTime (rd_Spec rd)\<rparr>\<rparr>" by simp
  then show "rescaled rd (rd\<lparr>rd_Spec := (rd_Spec rd)\<lparr>rds_Replicas := n\<rparr>\<rparr>)" unfolding rescaled_def by blast
qed (auto simp: rescaled_def)

lemma rescaled_fields:
  assumes "rescaled rd rd'"
  shows "rd_Meta rd' = rd_Meta rd" "rds_Template (rd_Spec rd') = rds_Template (rd_Spec rd)" "rds_Selector (rd_Spec rd') = rds_Selector (rd_Spec rd)"
  using assms by (auto simp: rescaled_def)

lemma rescaled_template:
  assumes "rescaled rd rd'"
  shows "templateHashOf env rd' = templateHashOf env rd" "labelledTemplate env rd' = labelledTemplate env rd" "replicaSetLabels env rd' = replicaSetLabels env rd"
    "getSelector rd' = getSelector rd"
  using rescaled_fields [OF assms] by (simp_all add: templateHashOf_def labelledTemplate_def replicaSetLabels_def getSelector_def Let_def cong: option.case_cong)

lemma targetAfter_keeps:
  "(\<And>c t'. c \<in> set cs \<Longrightarrow> target c = Some t' \<Longrightarrow> Q t') \<Longrightarrow> Q t \<Longrightarrow> Q (targetAfter target cs t)"
  by (induction cs arbitrary: t) (auto simp: targetAfter_def split: option.splits)

definition rescales :: "RunnerDeployment \<Rightarrow> hraCall \<Rightarrow> bool" where
  "rescales rd c \<longleftrightarrow> (\<forall>rd'. deploymentPatch c = Some rd' \<longrightarrow> rescaled rd rd')"

lemma run_updateRunnerDeployment: "run_ok (rescales rd) (\<lambda>_. True) (\<lambda>_. True) (updateRunnerDeployment api hra rd n)"
  unfolding updateRunnerDeployment_def Let_def by (intro run_rules) (auto simp: rescales_def intro: rescaled_intros)

lemma run_reconcileHRA: "run_ok (rescales rd) (\<lambda>_. True) (\<lambda>_. True) (reconcileHRA env api now now' hra st (updateRunnerDeployment api hra rd))"
  unfolding reconcileHRA_def Let_def
  by (auto simp: rescales_def intro!: run_ebind [where R = "\<lambda>_. True"] run_updateRunnerDeployment run_rules split: go.split)

lemma reconciledDeployment_rescaled:
  assumes "k_GetHRA (he_Reads env) namespace name = Ret hra" and "IsZero (om_DeletionTimestamp (hra_Meta hra))"
    and "str_Kind (hs_ScaleTargetRef (hra_Spec hra)) \<in> {[], ''RunnerDeployment''}"
    and "k_GetRD (he_Reads env) namespace (str_Name (hs_ScaleTargetRef (hra_Spec hra))) = Ret rd"
    and "IsZero (om_DeletionTimestamp (rd_Meta rd))"
  shows "rescaled rd (reconciledDeployment env t t' namespace name rd)"
proof -
  have "Reconcile_HRA env acceptAll t t' namespace name [] =
      reconcileHRA env acceptAll t t' hra (scaleTargetFromRD (he_Reads env) rd) (updateRunnerDeployment acceptAll hra rd) []"
    using assms by (auto simp: Reconcile_HRA_def ifFound_def Let_def)
  then have eq: "writes (Reconcile_HRA env acceptAll t t' namespace name) =
      writes (reconcileHRA env acceptAll t t' hra (scaleTargetFromRD (he_Reads env) rd) (updateRunnerDeployment acceptAll hra rd))"
    by (simp only: writes_def)
  have r: "rescales rd c" if "c \<in> set (writes (Reconcile_HRA env acceptAll t t' namespace name))" for c
    by (rule run_ok_writes [OF run_reconcileHRA that [unfolded eq]])
  show ?thesis unfolding reconciledDeployment_def
    by (rule targetAfter_keeps [where Q = "rescaled rd", OF _ rescaled_intros(1)]) (use r in \<open>auto simp: rescales_def\<close>)
qed

subsection \<open>The deployment's controller passes the number on\<close>

lemma reconciledSet_rescaled:
  assumes "setsOnlyOwner denv" and "newRunnerReplicaSet denv rd0 = Ret rs0" and "rs = (stored name tc rs0)\<lparr>rrs_Status := st\<rparr>"
    and "rescaled rd0 rd" and "newRunnerReplicaSet denv rd = Ret desired" and "IsZero (om_DeletionTimestamp (rd_Meta rd))" and "sortReplicaSets denv [rs] = [rs]"
    and "getIntOrDefault (rds_Replicas (rd_Spec rd0)) 1 \<noteq> getIntOrDefault (rds_Replicas (rd_Spec rd)) 1"
  shows "reconciledSet denv rd rs = rs\<lparr>rrs_Spec := (rrs_Spec rs)\<lparr>rrss_Replicas := Some (getIntOrDefault (rds_Replicas (rd_Spec rd)) 1),
    rrss_EffectiveTime := rds_EffectiveTime (rd_Spec rd)\<rparr>\<rparr>"
proof -
  obtain refs where rs0: "rs0 = (desiredReplicaSet denv rd0)\<lparr>rrs_Meta := (rrs_Meta (desiredReplicaSet denv rd0))\<lparr>om_OwnerReferences := refs\<rparr>\<rparr>"
    using newRunnerReplicaSet_Ret [OF assms(1,2)] by blast
  obtain refs' where d: "desired = (desiredReplicaSet denv rd)\<lparr>rrs_Meta := (rrs_Meta (desiredReplicaSet denv rd))\<lparr>om_OwnerReferences := refs'\<rparr>\<rparr>"
    using newRunnerReplicaSet_Ret [OF assms(1,5)] by blast
  note t = rescaled_template [OF assms(4)]
  have f: "getTemplateHash rs = Some (templateHashOf denv rd0)" "getTemplateHash desired = Some (templateHashOf denv rd0)"
      "rrss_Selector (rrs_Spec rs) = rrss_Selector (rrs_Spec desired)" "rrss_Replicas (rrs_Spec rs) = rds_Replicas (rd_Spec rd0)"
      "rrss_Replicas (rrs_Spec desired) = rds_Replicas (rd_Spec rd)"
    by (simp_all add: assms(3) stored_def rs0 d getTemplateHash_def desiredReplicaSet_fields replicaSetLabels_lookup label_keys t)
  show ?thesis
    using assms(5-8) by (simp add: reconciledSet_def Reconcile_RunnerDeployment_def syncReplicaSets_def f sameSelectorOption_refl go_simps Let_def)
qed

subsection \<open>The webhook's reservation raises the deployment\<close>

lemma queued_patch:
  assumes "\<not> wq_IsGet req" and "readEvent a req = Ret (WorkflowJobEvent repo ''queued'' (Some (labels, conclusion)), slug)"
    and "writes (Handle a acceptAll w w' req) = [PatchHRA h]"
  shows "\<exists>hra trigger ls. h = afterScale w w' 1 (jobDuration trigger) hra \<and> IsZero (om_DeletionTimestamp (hra_Meta h)) \<and> jobTrigger h = Some trigger \<and>
    targetLabels (wh_Reads a) h = Ret ls \<and> set labels \<subseteq> insert ''self-hosted'' (set ls)"
proof -
  from Handle_queued_patch [OF assms(1,2), of acceptAll w w'] assms(3) obtain t trigger ls
    where h: "h = (tgt_HRA t)\<lparr>hra_Spec := (hra_Spec (tgt_HRA t))\<lparr>hs_CapacityReservations := scaledReservations w w' (setAmount 1 t)\<rparr>\<rparr>"
      and d: "sut_Duration (tgt_Trigger t) = jobDuration trigger"
      and t: "IsZero (om_DeletionTimestamp (hra_Meta (tgt_HRA t)))" "jobTrigger (tgt_HRA t) = Some trigger" "targetLabels (wh_Reads a) (tgt_HRA t) = Ret ls"
        "set labels \<subseteq> insert ''self-hosted'' (set ls)"
    by fastforce
  have "IsZero (om_DeletionTimestamp (hra_Meta h))" "jobTrigger h = Some trigger" "targetLabels (wh_Reads a) h = Ret ls"
    using t(1-3) by (simp_all add: h jobTrigger_def targetLabels_def Let_def)
  moreover have "h = afterScale w w' 1 (jobDuration trigger) (tgt_HRA t)"
    by (simp add: h afterScale_eq withReservations_def scaledReservations_def setAmount_def d Let_def)
  ultimately show ?thesis using t(4) by blast
qed

lemma delayed_at_least:
  "n \<le> (case (desired, lastScaleOut) of (Some d, Some u) \<Rightarrow> if (now :: time) < u + delay then max d n else n | _ \<Rightarrow> (n :: int))"
  by (simp split: option.split)

lemma reservation_raises:
  assumes "h = afterScale w w' 1 d hra" and "w \<le> t" and "t < w' + d" and "\<forall>r \<in> set (hs_CapacityReservations (hra_Spec h)). 0 \<le> cr_Replicas r"
    and "suggestDesiredReplicas gh st h = Ret v" and "0 \<le> (case v of None \<Rightarrow> minReplicas | Some s \<Rightarrow> s)"
    and "hs_MaxReplicas (hra_Spec h) = Some M" and "minReplicas \<le> M" and "1 \<le> M"
    and "computeReplicasWithCache gh delay t st h minReplicas = Ret n"
  shows "1 \<le> n"
proof -
  obtain r where r: "r \<in> set (hs_CapacityReservations (hra_Spec h))" "t < cr_ExpirationTime r" "cr_Replicas r = 1"
    using scaledReservations_up [of 1 w t w' d hra] assms(1-3) by auto
  let ?base = "case v of None \<Rightarrow> minReplicas | Some s \<Rightarrow> s"
  let ?reserved = "\<Sum>r \<leftarrow> filter (\<lambda>r. t < cr_ExpirationTime r) (hs_CapacityReservations (hra_Spec h)). cr_Replicas r"
  have "cr_Replicas r \<le> (\<Sum>r \<leftarrow> filter (\<lambda>r. t < cr_ExpirationTime r) (hs_CapacityReservations (hra_Spec h)). cr_Replicas r)"
    by (rule member_le_sum_list) (use r assms(4) in auto)
  then have "1 \<le> max minReplicas (min M (?base + ?reserved))" using assms(6,9) r(3) by linarith
  moreover have "max minReplicas (min M (?base + ?reserved)) \<le> n"
    using computeReplicas_value [OF assms(5,7,8), of delay t] unfolding assms(10) go.inject by (metis delayed_at_least)
  ultimately show ?thesis by linarith
qed

subsection \<open>A queued job gets a runner\<close>

text \<open>The runners of a raised replica set: as many as it asks for, with the labels and the settings of the template and nothing of their own.\<close>

lemma raised_set_creates:
  assumes "setsOnlyOwner denv" and "newRunnerReplicaSet denv rd = Ret rs0" and "templateHashOf denv rd \<noteq> []" and "setsOnlyRunnerOwner rsenv"
    and "rs' = (stored name tc rs0)\<lparr>rrs_Status := st, rrs_Spec := (rrs_Spec rs0)\<lparr>rrss_Replicas := Some n, rrss_EffectiveTime := e\<rparr>\<rparr>" and "0 < n"
    and "newRunner rsenv stamp rs' = Ret r"
  shows "createdRunners rsenv now stamp reads rs' = replicate (nat n) r" and "r_Spec r = rt_Spec (labelledTemplate denv rd)" and "r_Status r = emptyRunnerStatus"
    and "om_DeletionTimestamp (r_Meta r) = om_DeletionTimestamp (rt_Meta (rds_Template (rd_Spec rd)))"
    and "om_Finalizers (r_Meta r) = om_Finalizers (rt_Meta (rds_Template (rd_Spec rd)))"
proof -
  obtain refs where rs0: "rs0 = (desiredReplicaSet denv rd)\<lparr>rrs_Meta := (rrs_Meta (desiredReplicaSet denv rd))\<lparr>om_OwnerReferences := refs\<rparr>\<rparr>"
    using newRunnerReplicaSet_Ret [OF assms(1,2)] by blast
  have h: "map_of (om_Labels (rrs_Meta rs')) LabelKeyRunnerTemplateHash = Some (templateHashOf denv rd)" "IsZero (om_DeletionTimestamp (rrs_Meta rs'))"
      "map_of (om_Labels (rt_Meta (rrss_Template (rrs_Spec rs')))) LabelKeyRunnerTemplateHash = Some (templateHashOf denv rd)"
    by (simp_all add: assms(5) stored_def rs0 desiredReplicaSet_fields replicaSetLabels_lookup label_keys) (simp add: desiredReplicaSet_def emptyMeta_def Let_def)
  from empty_set_creates [OF h(1) assms(3) h(2,3) assms(4,7), of now reads] assms(5,6)
  have "writes (Reconcile_RunnerReplicaSet rsenv acceptAll now stamp (replicaSetStore rs' [] reads)) = replicate (nat n) (CreateRunner r)"
    by (simp add: getIntOrDefault_def)
  moreover have "concat (map createdRunner (replicate k (CreateRunner r))) = replicate k r" for k by (induction k) simp_all
  ultimately show "createdRunners rsenv now stamp reads rs' = replicate (nat n) r" by (simp add: createdRunners_def)
  obtain refs' where r: "r = (desiredRunner stamp rs')\<lparr>r_Meta := (r_Meta (desiredRunner stamp rs'))\<lparr>om_OwnerReferences := refs'\<rparr>\<rparr>"
    using assms(4,7) unfolding newRunner_def setsOnlyRunnerOwner_def by blast
  show "r_Spec r = rt_Spec (labelledTemplate denv rd)" "r_Status r = emptyRunnerStatus"
    "om_DeletionTimestamp (r_Meta r) = om_DeletionTimestamp (rt_Meta (rds_Template (rd_Spec rd)))"
    "om_Finalizers (r_Meta r) = om_Finalizers (rt_Meta (rds_Template (rd_Spec rd)))"
    by (simp_all add: r desiredRunner_def assms(5) rs0 desiredReplicaSet_def labelledTemplate_def Let_def)
qed

lemma new_runner_pod:
  assumes "r_Status r = emptyRunnerStatus" and "om_DeletionTimestamp (r_Meta r) = None" and "om_Finalizers (r_Meta r) = []"
    and "GetRegistrationToken (re_GitHub renv) now cache (rc_Enterprise (rs_Config (r_Spec r))) (rc_Organization (rs_Config (r_Spec r)))
      (rc_Repository (rs_Config (r_Spec r))) = (cache', Ret rt)"
    and "rgt_Token rt \<noteq> []" and "now \<le> rgt_ExpiresAt rt"
    and "newPod (re_PodEnv renv) (re_Reconciler renv) (withRegistration (withFinalizer (named n r)) rt) = Ret pod"
  shows "cl_Pod ((tick renv now ^^ 3) \<lparr>cl_Runner = Some (named n r), cl_Pod = None, cl_Tokens = cache\<rparr>) = Some pod"
proof -
  have "IsZero (om_DeletionTimestamp (r_Meta (named n r)))" "finalizerName \<notin> set (om_Finalizers (r_Meta (named n r)))" "\<not> IsRegisterable now (named n r)"
    using assms(1-3) by (simp_all add: named_def IsRegisterable_def emptyRunnerStatus_def Let_def)
  from three_ticks [OF this _ assms(5-7)] assms(4) show ?thesis by (simp add: named_def)
qed

text \<open>
  C4. A queued job gets a runner that can run it, from zero. The webhook server has answered the event of a queued job by reserving a replica on an autoscaler, whose deployment is at zero replicas with its replica set. As long as the reservation lasts and the autoscaler's maximum
  allows a runner, one reconciliation each of the autoscaler, the deployment and the replica set creates runners, at least one and exactly as many as the deployment now asks for; each has every label that the job asks for (self-hosted apart), and as soon as the API server has named it and
  GitHub grants a token, three reconciliations of the runner create its pod.
\<close>

theorem queued_job_gets_a_runner:
  fixes now t w :: time and reads :: OwnerReads
  assumes request: "\<not> wq_IsGet req" "readEvent a req = Ret (WorkflowJobEvent repo ''queued'' (Some (labels, conclusion)), slug)"
      "writes (Handle a acceptAll w w' req) = [PatchHRA h]"
    and time: "w \<le> t" "\<forall>trigger. jobTrigger h = Some trigger \<longrightarrow> t < w' + jobDuration trigger"
    and autoscaler: "k_GetHRA (he_Reads env) namespace name = Ret h" "hs_MaxReplicas (hra_Spec h) = Some M" "minReplicas \<le> M" "1 \<le> M"
      "getMinReplicas (he_NewRRule env) (he_Loc env) t h = Ret (minReplicas, active, upcoming)"
      "\<forall>r \<in> set (hs_CapacityReservations (hra_Spec h)). 0 \<le> cr_Replicas r" "outcome (Reconcile_HRA env acceptAll t t' namespace name) = Ret ()"
    and metric: "suggestDesiredReplicas (he_GitHub env) (scaleTargetFromRD (he_Reads env) rd) h = Ret v" "0 \<le> (case v of None \<Rightarrow> minReplicas | Some s \<Rightarrow> s)"
    and deployment: "str_Kind (hs_ScaleTargetRef (hra_Spec h)) \<in> {[], ''RunnerDeployment''}"
      "k_GetRD (he_Reads env) namespace (str_Name (hs_ScaleTargetRef (hra_Spec h))) = Ret rd"
      "w_GetRD (wh_Reads a) (om_Namespace (hra_Meta h)) (str_Name (hs_ScaleTargetRef (hra_Spec h))) = Ret rd"
      "IsZero (om_DeletionTimestamp (rd_Meta rd))" "rds_Replicas (rd_Spec rd) = Some 0" "templateHashOf denv rd \<noteq> []"
      "om_DeletionTimestamp (rt_Meta (rds_Template (rd_Spec rd))) = None" "om_Finalizers (rt_Meta (rds_Template (rd_Spec rd))) = []"
    and controllers: "setsOnlyOwner denv" "\<forall>x. \<exists>y. newRunnerReplicaSet denv x = Ret y" "\<forall>x. sortReplicaSets denv [x] = [x]"
      "setsOnlyRunnerOwner rsenv" "\<forall>x. \<exists>r. newRunner rsenv stamp x = Ret r"
    and replica_set: "newRunnerReplicaSet denv rd = Ret rs0" "rs = (stored sname tc rs0)\<lparr>rrs_Status := st\<rparr>"
  defines "rd' \<equiv> reconciledDeployment env t t' namespace name rd"
  defines "runners \<equiv> createdRunners rsenv now stamp reads (reconciledSet denv rd' rs)"
  shows "1 \<le> deploymentReplicas rd' \<and> length runners = nat (deploymentReplicas rd') \<and>
    (\<forall>r \<in> set runners. set labels \<subseteq> insert ''self-hosted'' (set (rc_Labels (rs_Config (r_Spec r)))) \<and>
      (\<forall>n cache cache' rt pod.
        GetRegistrationToken (re_GitHub renv) now cache (rc_Enterprise (rs_Config (r_Spec r))) (rc_Organization (rs_Config (r_Spec r)))
          (rc_Repository (rs_Config (r_Spec r))) = (cache', Ret rt) \<longrightarrow> rgt_Token rt \<noteq> [] \<longrightarrow> now \<le> rgt_ExpiresAt rt \<longrightarrow>
        newPod (re_PodEnv renv) (re_Reconciler renv) (withRegistration (withFinalizer (named n r)) rt) = Ret pod \<longrightarrow>
        cl_Pod ((tick renv now ^^ 3) \<lparr>cl_Runner = Some (named n r), cl_Pod = None, cl_Tokens = cache\<rparr>) = Some pod))"
proof -
  obtain hra trigger ls where h: "h = afterScale w w' 1 (jobDuration trigger) hra" "IsZero (om_DeletionTimestamp (hra_Meta h))" "jobTrigger h = Some trigger"
      "targetLabels (wh_Reads a) h = Ret ls" "set labels \<subseteq> insert ''self-hosted'' (set ls)"
    using queued_patch [OF request] by blast
  have ls: "ls = rc_Labels (rs_Config (rt_Spec (rds_Template (rd_Spec rd))))"
    using h(4) deployment(1,3) by (auto simp: targetLabels_def Let_def)
  obtain n where n: "deploymentReplicas rd' = n" "1 \<le> n"
    using Reconcile_HRA_deployment [OF autoscaler(1) h(2) deployment(1,2,4) autoscaler(7)] autoscaler(5)
      reservation_raises [OF h(1) time(1) _ autoscaler(6) metric autoscaler(2-4)] time(2) h(3)
    unfolding rd'_def reconciledDeployment_def by auto
  have res: "rescaled rd rd'" unfolding rd'_def by (rule reconciledDeployment_rescaled [OF autoscaler(1) h(2) deployment(1,2,4)])
  obtain desired where d: "newRunnerReplicaSet denv rd' = Ret desired" using controllers(2) by blast
  let ?rs = "(stored sname tc rs0)\<lparr>rrs_Status := st, rrs_Spec := (rrs_Spec rs0)\<lparr>rrss_Replicas := Some n, rrss_EffectiveTime := rds_EffectiveTime (rd_Spec rd')\<rparr>\<rparr>"
  have "reconciledSet denv rd' rs = ?rs"
    using reconciledSet_rescaled [OF controllers(1) replica_set res d] deployment(4,5) controllers(3) n rescaled_fields(1) [OF res]
    by (auto simp: deploymentReplicas_def getIntOrDefault_def defaultReplicas_def replica_set(2) stored_def)
  moreover obtain r where r: "newRunner rsenv stamp ?rs = Ret r" using controllers(5) by blast
  note c = raised_set_creates [OF controllers(1) replica_set(1) deployment(6) controllers(4) refl _ r]
  ultimately have runners: "runners = replicate (nat n) r" using c(1) n(2) by (simp add: runners_def)
  have "set labels \<subseteq> insert ''self-hosted'' (set (rc_Labels (rs_Config (r_Spec r))))"
    using h(5) c(2) n(2) by (auto simp: ls labelledTemplate_def Let_def)
  then show ?thesis using n new_runner_pod [of r renv now] c(3-5) deployment(7,8) by (auto simp: runners)
qed

subsection \<open>An example\<close>

definition zeroRD :: RunnerDeployment where
  "zeroRD = exampleRD\<lparr>rd_Spec := (rd_Spec exampleRD)\<lparr>rds_Replicas := Some 0\<rparr>\<rparr>"

definition zeroWebhook :: HorizontalRunnerAutoscalerGitHubWebhook where
  "zeroWebhook = exampleWebhook\<lparr>wh_Reads := (wh_Reads exampleWebhook)\<lparr>w_GetRD := \<lambda>ns n. Ret zeroRD\<rparr>\<rparr>"

definition reservedHRA :: HorizontalRunnerAutoscaler where
  "reservedHRA = jobHRA\<lparr>hra_Spec := (hra_Spec jobHRA)\<lparr>hs_CapacityReservations := scaledReservations 5 6 (setAmount 1 jobTarget)\<rparr>\<rparr>"

definition zeroEnv :: HraEnv where
  "zeroEnv = exampleEnv\<lparr>he_Reads := (he_Reads exampleEnv)\<lparr>k_GetHRA := \<lambda>ns n. Ret reservedHRA, k_GetRD := \<lambda>ns n. Ret zeroRD\<rparr>\<rparr>"

lemma zero_found:
  "getJobScaleTarget zeroWebhook [''self-hosted''] ''o/r'' = Ret None"
  "getJobScaleTarget zeroWebhook [''self-hosted''] ''o'' = Ret (Some jobTarget)"
  by (simp_all add: getJobScaleTarget_def findHRAsByKey_def zeroWebhook_def exampleWebhook_def jobHRA_def exampleHRA_def emptyMeta_def jobTrigger_def
      targetLabels_def hasLabels_def jobDuration_def jobTarget_def)

lemma zero_groups: "getManagedRunnerGroupsFromHRAs zeroWebhook [] ''o'' = Ret [newRunnerGroup Organization []]"
  by (simp add: getManagedRunnerGroupsFromHRAs_def zeroWebhook_def exampleWebhook_def jobHRA_def exampleHRA_def zeroRD_def exampleRD_def exampleSpec_def exampleConfig_def
      NewRunnerGroupFromProperties_def Add_eq_insertAfter) (simp add: NewVisibleRunnerGroups_def)

lemma zero_target: "getScaleUpTargetWithFunction zeroWebhook ''r'' ''o'' ''Organization'' [] (getJobScaleTarget zeroWebhook [''self-hosted'']) = Ret (Some jobTarget)"
  using zero_found zero_groups
  by (simp add: getScaleUpTargetWithFunction_def Let_def visibleGroupsFor_def newRunnerGroup_def groupKey_def) (simp add: zeroWebhook_def exampleWebhook_def)

lemma zero_handled: "writes (Handle zeroWebhook acceptAll 5 6 exampleRequest) = [PatchHRA reservedHRA]"
  using zero_target
  by (simp add: readEvent_def zeroWebhook_def exampleWebhook_def Handle_def exampleRequest_def decideEvent_def decideJob_def withRepo_def exampleRepo_def
      getJobScaleUpTargetForRepoOrOrg_def tryScale_def writes_def ecall_def eret_def reservedHRA_def setAmount_def Let_def) (simp add: jobTarget_def)

definition zeroDesired :: RunnerReplicaSet where
  "zeroDesired = (case newRunnerReplicaSet exampleDeploymentEnv zeroRD of Ret rs \<Rightarrow> rs)"

lemma zeroDesired: "newRunnerReplicaSet exampleDeploymentEnv zeroRD = Ret zeroDesired"
  using example_newReplicaSet [of zeroRD] by (auto simp: zeroDesired_def)

definition zeroSet :: RunnerReplicaSet where
  "zeroSet = (stored ''rs'' 0 zeroDesired)\<lparr>rrs_Status := \<lparr>rrst_Replicas = Some 0, rrst_ReadyReplicas = Some 0, rrst_AvailableReplicas = Some 0\<rparr>\<rparr>"

lemma zero_reservations:
  "hs_CapacityReservations (hra_Spec reservedHRA) =
    [\<lparr>cr_Name = [], cr_ExpirationTime = 10, cr_Replicas = 2, cr_EffectiveTime = 1\<rparr>, \<lparr>cr_Name = [], cr_ExpirationTime = 6 + 10 * Minute, cr_Replicas = 1, cr_EffectiveTime = 6\<rparr>]"
  by (simp add: reservedHRA_def scaledReservations_def setAmount_def jobTarget_def getValidCapacityReservations_def jobHRA_def exampleHRA_def Let_def)

lemma reservedHRA_fields:
  "hra_Meta reservedHRA = emptyMeta" "hs_ScaleTargetRef (hra_Spec reservedHRA) = \<lparr>str_Kind = [], str_Name = ''rd''\<rparr>" "hs_MaxReplicas (hra_Spec reservedHRA) = Some 5"
  "hs_MinReplicas (hra_Spec reservedHRA) = Some 1" "hs_Metrics (hra_Spec reservedHRA) = []" "hs_ScheduledOverrides (hra_Spec reservedHRA) = []"
  "hs_ScaleUpTriggers (hra_Spec reservedHRA) = hs_ScaleUpTriggers (hra_Spec jobHRA)" "hra_Status reservedHRA = hra_Status exampleHRA"
  "hs_ScaleDownDelaySecondsAfterScaleUp (hra_Spec reservedHRA) = None"
  by (simp_all add: reservedHRA_def jobHRA_def exampleHRA_def)

lemma zero_min: "getMinReplicas onceRule 0 7 reservedHRA = Ret (1, None, None)"
  by (simp add: getMinReplicas_def matchScheduledOverrides_def minReplicasOf_def reservedHRA_fields)

lemma zero_suggest: "suggestDesiredReplicas exampleGitHub st reservedHRA = Ret None"
  by (simp add: suggestDesiredReplicas_def reservedHRA_fields)

lemma zero_ok: "outcome (Reconcile_HRA zeroEnv acceptAll 7 8 [] ''h'') = Ret ()"
  by (simp add: outcome_def Reconcile_HRA_def zeroEnv_def exampleEnv_def ifFound_def reservedHRA_fields zeroRD_def exampleRD_def emptyMeta_def reconcileHRA_def zero_min
      computeReplicasWithCache_def zero_suggest updateRunnerDeployment_def ebind_def ecall_def eret_def elift_def Let_def split: option.splits)

theorem queued_job_gets_a_runner_witness:
  "createdRunners exampleReplicaSetEnv 9 ''t'' noPods (reconciledSet exampleDeploymentEnv (reconciledDeployment zeroEnv 7 8 [] ''h'' zeroRD) zeroSet) \<noteq> []"
proof -
  have e: "\<not> wq_IsGet exampleRequest" "readEvent zeroWebhook exampleRequest = Ret (WorkflowJobEvent (Some exampleRepo) ''queued'' (Some ([''self-hosted''], [])), [])"
    by (simp_all add: readEvent_def zeroWebhook_def exampleWebhook_def exampleRequest_def)
  have t: "(5::time) \<le> 7" "\<forall>trigger. jobTrigger reservedHRA = Some trigger \<longrightarrow> 7 < 6 + jobDuration trigger"
    by (auto simp: jobTrigger_def reservedHRA_fields jobHRA_def jobDuration_def)
  have h: "k_GetHRA (he_Reads zeroEnv) [] ''h'' = Ret reservedHRA" "hs_MaxReplicas (hra_Spec reservedHRA) = Some 5" "(1::int) \<le> 5" "(1::int) \<le> 5"
      "getMinReplicas (he_NewRRule zeroEnv) (he_Loc zeroEnv) 7 reservedHRA = Ret (1, None, None)"
      "\<forall>r \<in> set (hs_CapacityReservations (hra_Spec reservedHRA)). 0 \<le> cr_Replicas r"
    by (simp_all add: zeroEnv_def exampleEnv_def reservedHRA_fields zero_min zero_reservations)
  have m: "suggestDesiredReplicas (he_GitHub zeroEnv) (scaleTargetFromRD (he_Reads zeroEnv) zeroRD) reservedHRA = Ret None" "0 \<le> (case None of None \<Rightarrow> 1 :: int | Some s \<Rightarrow> s)"
    by (simp_all add: zeroEnv_def exampleEnv_def zero_suggest)
  have d: "str_Kind (hs_ScaleTargetRef (hra_Spec reservedHRA)) \<in> {[], ''RunnerDeployment''}" "k_GetRD (he_Reads zeroEnv) [] (str_Name (hs_ScaleTargetRef (hra_Spec reservedHRA))) = Ret zeroRD"
      "w_GetRD (wh_Reads zeroWebhook) (om_Namespace (hra_Meta reservedHRA)) (str_Name (hs_ScaleTargetRef (hra_Spec reservedHRA))) = Ret zeroRD"
      "IsZero (om_DeletionTimestamp (rd_Meta zeroRD))" "rds_Replicas (rd_Spec zeroRD) = Some 0" "templateHashOf exampleDeploymentEnv zeroRD \<noteq> []"
      "om_DeletionTimestamp (rt_Meta (rds_Template (rd_Spec zeroRD))) = None" "om_Finalizers (rt_Meta (rds_Template (rd_Spec zeroRD))) = []"
    by (simp_all add: reservedHRA_fields zeroEnv_def zeroWebhook_def zeroRD_def exampleRD_def emptyMeta_def templateHashOf_def ComputeHash_def exampleDeploymentEnv_def Itoa_nonempty Let_def)
  have c: "\<forall>x. \<exists>y. newRunnerReplicaSet exampleDeploymentEnv x = Ret y" "\<forall>x. sortReplicaSets exampleDeploymentEnv [x] = [x]" "\<forall>x. \<exists>r. newRunner exampleReplicaSetEnv ''t'' x = Ret r"
    by (simp_all add: example_newReplicaSet) (simp_all add: exampleDeploymentEnv_def newRunner_def exampleReplicaSetEnv_def sortReplicaSets_def insertionSort_def)
  from queued_job_gets_a_runner [where sname = "''rs''" and tc = 0 and now = 9 and reads = noPods and renv = exampleRunnerEnv, OF e zero_handled t h zero_ok m d example_setsOnlyOwner c(1,2) example_setsOnlyRunnerOwner c(3) zeroDesired zeroSet_def]
  show ?thesis by force
qed

end
