(* ===== verification/Runner_Pod_Controller.thy ===== *)
theory Runner_Pod_Controller
  imports Runner_Pod Run_Logic
begin

section \<open>The controller of runner pods, and token injection\<close>

text \<open>
  Model of \<open>src/controllers/runner_pod_controller.go\<close>, which registers, unregisters and finalizes the pods of runner sets, and of \<open>src/controllers/pod_runner_token_injector.go\<close>, the admission webhook that gives
  them their registration token. The payload of the admission request, decoded, is a parameter; the answer is the patched pod.
\<close>

subsection \<open>The scope of a pod\<close>

definition runnerEnvVars :: "Pod \<Rightarrow> EnvVar list" where
  "runnerEnvVars pod = fold (\<lambda>c envvars. if c_Name c = ''runner'' then c_Env c else envvars) (ps_Containers (pod_Spec pod)) []"

definition scopeOf :: "EnvVar list \<Rightarrow> string \<times> string \<times> string" where
  "scopeOf envvars =
     fold (\<lambda>e (enterprise, org, repo).
        if ev_Name e = EnvVarEnterprise then (ev_Value e, org, repo)
        else if ev_Name e = EnvVarOrg then (enterprise, ev_Value e, repo)
        else if ev_Name e = EnvVarRepo then (enterprise, org, ev_Value e)
        else (enterprise, org, repo)) envvars ([], [], [])"

subsection \<open>Reconciliation\<close>

definition unregistrationRetryDelay :: "duration \<Rightarrow> duration" where
  "unregistrationRetryDelay configured = (if configured > 0 then configured else DefaultUnregistrationRetryDelay)"

definition deletionDidTimeout :: "time \<Rightarrow> time \<Rightarrow> bool" where
  "deletionDidTimeout now deletionTimestamp \<longleftrightarrow> timeSub now (deletionTimestamp + Minute) > 0"

definition forceDelete :: "kubeCall api \<Rightarrow> Pod \<Rightarrow> (kubeCall, Result) eff" where
  "forceDelete api pod =
     ecall api (DeletePod pod True)
       (\<lambda>e. case e of
           Some err \<Rightarrow> if err \<noteq> Kube NotFound then eerr err else eret requeue
         | None \<Rightarrow> elog (Event ''PodDeleted'') (eret (requeueAfter (3 * Second))))"

definition finalizePod ::
  "StopEnv \<Rightarrow> kubeCall api \<Rightarrow> duration \<Rightarrow> string \<times> string \<times> string \<Rightarrow> Pod \<Rightarrow> string list \<Rightarrow> (kubeCall, Result) eff" where
  "finalizePod env api delay scope pod finalizers =
     (let (enterprise, org, repo) = scope
      in finish (sbind (tickRunnerGracefulStop env api delay enterprise org repo (om_Name (pod_Meta pod)) (Some pod))
           (\<lambda>updated. case updated of
               None \<Rightarrow> epanic ''nil pointer dereference''
             | Some u \<Rightarrow> sorElse emptyResult
                 (ebind (ewrite api (PatchPod (u\<lparr>pod_Meta := (pod_Meta u)\<lparr>om_Finalizers := finalizers\<rparr>\<rparr>))) (\<lambda>_. eret emptyResult)))))"

definition Reconcile_RunnerPod :: "StopEnv \<Rightarrow> kubeCall api \<Rightarrow> duration \<Rightarrow> time \<Rightarrow> Pod go \<Rightarrow> (kubeCall, Result) eff" where
  "Reconcile_RunnerPod env api retryDelay now getPod =
     (case getPod of
        Err e \<Rightarrow> (case IgnoreNotFound e of None \<Rightarrow> eret emptyResult | Some e' \<Rightarrow> eerr e')
      | Panic s \<Rightarrow> epanic s
      | Hang \<Rightarrow> elift Hang
      | Ret pod \<Rightarrow>
          if map_of (om_Labels (pod_Meta pod)) LabelKeyRunnerSetName = None then eret emptyResult
          else if length (runnerEnvVars pod) = 0 then eerr (Errorf ''Could not determine env vars for runner Pod'')
          else
            (let (enterprise, org, repo) = scopeOf (runnerEnvVars pod);
                 delay = unregistrationRetryDelay retryDelay;
                 name = om_Name (pod_Meta pod)
             in if IsZero (om_DeletionTimestamp (pod_Meta pod)) then
                  (let (finalizers, added) = addFinalizer (om_Finalizers (pod_Meta pod)) runnerPodFinalizerName
                   in if added then
                        ebind (ewrite api (PatchPod (pod\<lparr>pod_Meta := (pod_Meta pod)\<lparr>om_Finalizers := finalizers\<rparr>\<rparr>))) (\<lambda>_. eret emptyResult)
                      else finish (sbind (ensureRunnerPodRegistered (se_GitHub env) api enterprise org repo name pod)
                        (\<lambda>po. if getAnnotation (pod_Meta po) AnnotationKeyUnregistrationRequestTimestamp \<noteq> None then
                                 sbind (tickRunnerGracefulStop env api delay enterprise org repo (om_Name (pod_Meta po)) (Some po))
                                   (\<lambda>_. sdone emptyResult)
                               else sdone emptyResult)))
                else
                  (let (finalizers, removed) = removeFinalizer (om_Finalizers (pod_Meta pod)) runnerPodFinalizerName
                   in if removed then finalizePod env api delay (enterprise, org, repo) pod finalizers
                      else case om_DeletionTimestamp (pod_Meta pod) of
                          None \<Rightarrow> epanic ''nil pointer dereference''
                        | Some d \<Rightarrow> if deletionDidTimeout now d then forceDelete api pod else eret emptyResult)))"

subsection \<open>Token injection\<close>

definition AnnotationKeyTokenExpirationDate :: string where
  "AnnotationKeyTokenExpirationDate = ''actions-runner-controller/token-expires-at''"

datatype admission = Errored int | Unchanged | Patched Pod

definition getEnv :: "Container \<Rightarrow> string \<Rightarrow> string option" where
  "getEnv c key = map_option ev_Value (List.find (\<lambda>e. ev_Name e = key) (c_Env c))"

definition newEmptyResponse :: admission where "newEmptyResponse = Unchanged"

definition injectToken :: "Pod \<Rightarrow> RegistrationToken \<Rightarrow> (time \<Rightarrow> string) \<Rightarrow> Pod" where
  "injectToken pod rt showTime =
     (let updated = mutatePod pod (rgt_Token rt);
          meta = (pod_Meta updated)\<lparr>om_Annotations := AList.update AnnotationKeyTokenExpirationDate (showTime (rgt_ExpiresAt rt)) (om_Annotations (pod_Meta updated))\<rparr>
      in updated\<lparr>pod_Meta := meta, pod_Spec := (pod_Spec updated)\<lparr>ps_RestartPolicy := ''OnFailure''\<rparr>\<rparr>)"

definition Handle_injector ::
  "GitHub \<Rightarrow> (time \<Rightarrow> string) \<Rightarrow> time \<Rightarrow> regTokens \<Rightarrow> Pod go \<Rightarrow> regTokens \<times> admission go" where
  "Handle_injector gh showTime now cache decoded =
     (case decoded of
        Err e \<Rightarrow> (cache, Ret (Errored 400))
      | Panic s \<Rightarrow> (cache, Panic s)
      | Hang \<Rightarrow> (cache, Hang)
      | Ret pod \<Rightarrow>
          (case containerIndex ''runner'' (ps_Containers (pod_Spec pod)) of
             None \<Rightarrow> (cache, Ret newEmptyResponse)
           | Some i \<Rightarrow>
               (let c = ps_Containers (pod_Spec pod) ! i
                in case (getEnv c EnvVarEnterprise, getEnv c EnvVarRepo, getEnv c EnvVarOrg) of
                     (Some enterprise, Some repo, Some org) \<Rightarrow>
                       (case GetRegistrationToken gh now cache enterprise org repo of
                          (cache', Ret rt) \<Rightarrow> (cache', Ret (Patched (injectToken pod rt showTime)))
                        | (cache', Err e) \<Rightarrow> (cache', Ret (Errored 500))
                        | (cache', Panic s) \<Rightarrow> (cache', Panic s)
                        | (cache', Hang) \<Rightarrow> (cache', Hang))
                   | _ \<Rightarrow> (cache, Ret newEmptyResponse))))"

subsection \<open>The scope survives\<close>

text \<open>What ends up in the last runner container's environment.\<close>

lemma runnerEnvVars_last:
  "runnerEnvVars pod = (case containerIndex containerName (ps_Containers (pod_Spec pod)) of None \<Rightarrow> [] | Some i \<Rightarrow> c_Env (ps_Containers (pod_Spec pod) ! i))"
proof -
  have "fold (\<lambda>c envvars. if c_Name c = ''runner'' then c_Env c else envvars) cs [] =
      (case containerIndex containerName cs of None \<Rightarrow> [] | Some i \<Rightarrow> c_Env (cs ! i))" for cs
    by (induction cs rule: rev_induct)
      (auto simp: containerName_def nth_append split: option.splits dest: containerIndex_Some)
  then show ?thesis by (simp add: runnerEnvVars_def)
qed

lemma scopeOf_append:
  "scopeOf (xs @ ys) = fold (\<lambda>e (enterprise, org, repo).
        if ev_Name e = EnvVarEnterprise then (ev_Value e, org, repo)
        else if ev_Name e = EnvVarOrg then (enterprise, ev_Value e, repo)
        else if ev_Name e = EnvVarRepo then (enterprise, org, ev_Value e)
        else (enterprise, org, repo)) ys (scopeOf xs)"
  by (simp add: scopeOf_def)

lemma scopeOf_neutral:
  "\<forall>e \<in> set ys. ev_Name e \<notin> {EnvVarEnterprise, EnvVarOrg, EnvVarRepo} \<Longrightarrow> scopeOf (xs @ ys) = scopeOf xs"
  by (induction ys rule: rev_induct) (simp_all add: scopeOf_append)

lemma scopeOf_runnerEnv: "scopeOf (xs @ runnerEnv c url ro) = (rc_Enterprise c, rc_Organization c, rc_Repository c)"
  by (cases "scopeOf xs") (simp add: scopeOf_append runnerEnv_def envVar_def env_names)

lemma containerIndex_SomeI:
  "i < length cs \<Longrightarrow> c_Name (cs ! i) = n \<Longrightarrow> (\<And>j. i < j \<Longrightarrow> j < length cs \<Longrightarrow> c_Name (cs ! j) \<noteq> n) \<Longrightarrow> containerIndex n cs = Some i"
proof (induction cs arbitrary: i rule: rev_induct)
  case (snoc c cs)
  show ?case
  proof (cases "i = length cs")
    case False
    then have "i < length cs" using snoc.prems(1) by simp
    moreover have "c_Name c \<noteq> n" using snoc.prems(3) [of "length cs"] calculation by simp
    moreover have "c_Name (cs ! j) \<noteq> n" if "i < j" "j < length cs" for j using snoc.prems(3) [of j] that by (simp add: nth_append)
    ultimately show ?thesis using snoc.IH [of i] snoc.prems(2) by (simp add: nth_append)
  qed (use snoc.prems in simp)
qed simp

lemma containerIndex_after: "containerIndex n cs = Some i \<Longrightarrow> i < j \<Longrightarrow> j < length cs \<Longrightarrow> c_Name (cs ! j) \<noteq> n"
proof (induction cs arbitrary: i rule: rev_induct)
  case (snoc c cs)
  then show ?case by (cases "j = length cs") (auto simp: nth_append split: if_splits)
qed simp

text \<open>The runner container is the last one of its name in the pod.\<close>

lemma placeContainers_index:
  assumes "c_Name runner = containerName" and "\<And>d. docker = Some d \<Longrightarrow> c_Name d = ''docker''"
  shows "\<exists>i. containerIndex containerName (placeContainers cs runner docker) = Some i \<and> placeContainers cs runner docker ! i = runner \<and>
    i < length (placeContainers cs runner docker)"
proof -
  let ?ri = "containerIndex containerName cs" and ?di = "containerIndex ''docker'' cs"
  define cs1 where "cs1 = (case ?ri of None \<Rightarrow> runner # cs | Some i \<Rightarrow> cs[i := runner])"
  define i1 where "i1 = (case ?ri of None \<Rightarrow> 0 | Some i \<Rightarrow> i)"
  define di1 where "di1 = (if ?ri = None then map_option Suc ?di else ?di)"
  have i1: "i1 < length cs1" "cs1 ! i1 = runner" and after: "j > i1 \<Longrightarrow> j < length cs1 \<Longrightarrow> c_Name (cs1 ! j) \<noteq> containerName" for j
    using containerIndex_Some [of containerName cs] containerIndex_None [of containerName cs] containerIndex_after [of containerName cs]
    by (auto simp: cs1_def i1_def nth_Cons' split: option.splits)
  have di: "di1 = Some j \<Longrightarrow> j < length cs1 \<and> j \<noteq> i1" for j
    using containerIndex_Some [of "''docker''" cs] containerIndex_Some [of containerName cs]
    by (auto simp: cs1_def i1_def di1_def containerName_def split: option.splits if_splits)
  have p: "placeContainers cs runner docker = (case docker of None \<Rightarrow> cs1 | Some d \<Rightarrow> (case di1 of None \<Rightarrow> cs1 @ [d] | Some j \<Rightarrow> cs1[j := d]))"
    unfolding placeContainers_def Let_def cs1_def [symmetric] di1_def [symmetric] ..
  have d: "docker = Some d \<Longrightarrow> c_Name d \<noteq> containerName" for d using assms(2) by (simp add: containerName_def)
  have *: "i1 < length (placeContainers cs runner docker) \<and> placeContainers cs runner docker ! i1 = runner \<and>
    (\<forall>j. i1 < j \<longrightarrow> j < length (placeContainers cs runner docker) \<longrightarrow> c_Name (placeContainers cs runner docker ! j) \<noteq> containerName)"
  proof (cases docker)
    case None
    with i1 after show ?thesis unfolding p by simp
  next
    case (Some y)
    show ?thesis
    proof (cases di1)
      case None
      with Some i1 after d show ?thesis unfolding p by (auto simp: nth_append)
    next
      case j: (Some j)
      have "placeContainers cs runner docker = cs1[j := y]" by (subst p) (simp only: Some j option.case)
      then show ?thesis using i1 after di [OF j] d [OF Some] by (simp add: nth_list_update)
    qed
  qed
  then have "containerIndex containerName (placeContainers cs runner docker) = Some i1"
    by (intro containerIndex_SomeI) (auto simp: assms(1))
  with * show ?thesis by blast
qed

lemma setEnvIn_nth:
  assumes "k \<notin> S" and "i < length cs"
  shows "filter (\<lambda>e. ev_Name e \<in> S) (c_Env (setEnvIn cs k v ! i)) = filter (\<lambda>e. ev_Name e \<in> S) (c_Env (cs ! i))"
    and "map c_Name (setEnvIn cs k v) = map c_Name cs"
proof -
  have s: "setEnv es k v = Some es' \<Longrightarrow> filter (\<lambda>e. ev_Name e \<in> S) es' = filter (\<lambda>e. ev_Name e \<in> S) es" for es es'
    using assms(1) by (induction es arbitrary: es') (auto split: if_splits)
  show "filter (\<lambda>e. ev_Name e \<in> S) (c_Env (setEnvIn cs k v ! i)) = filter (\<lambda>e. ev_Name e \<in> S) (c_Env (cs ! i))"
    using assms(2)
  proof (induction cs arbitrary: i)
    case (Cons c cs)
    with s assms(1) show ?case by (cases i) (auto split: option.splits)
  qed simp
  show "map c_Name (setEnvIn cs k v) = map c_Name cs" by (induction cs) (auto split: option.splits)
qed

lemma scopeOf_filter: "scopeOf es = scopeOf (filter (\<lambda>e. ev_Name e \<in> {EnvVarEnterprise, EnvVarOrg, EnvVarRepo}) es)"
  by (induction es rule: rev_induct) (simp_all add: scopeOf_append split: prod.splits)

lemma containerIndex_names: "map c_Name cs = map c_Name cs' \<Longrightarrow> containerIndex n cs = containerIndex n cs'"
proof (induction cs arbitrary: cs' rule: rev_induct)
  case (snoc c cs)
  then obtain cs1 c1 where "cs' = cs1 @ [c1]" by (cases cs' rule: rev_cases) auto
  with snoc show ?case by (auto dest: map_eq_imp_length_eq)
qed simp

lemma scopeOf_setRunnerEnv:
  assumes "k \<notin> {EnvVarEnterprise, EnvVarOrg, EnvVarRepo}"
  shows "scopeOf (runnerEnvVars (setRunnerEnv pod k v)) = scopeOf (runnerEnvVars pod)"
proof (cases "containerIndex containerName (ps_Containers (pod_Spec pod))")
  case (Some i)
  let ?cs = "ps_Containers (pod_Spec pod)"
  have i: "i < length ?cs" using containerIndex_Some Some by blast
  have "containerIndex containerName (setEnvIn ?cs k v) = Some i"
    using containerIndex_names [OF setEnvIn_nth(2) [OF assms i]] Some by metis
  with Some show ?thesis
    by (simp add: runnerEnvVars_last setRunnerEnv_def) (metis scopeOf_filter setEnvIn_nth(1) [OF assms i])
next
  case None
  have "map c_Name (setEnvIn cs k v) = map c_Name cs" for cs by (induction cs) (auto split: option.splits)
  from containerIndex_names [OF this] None have "containerIndex containerName (setEnvIn (ps_Containers (pod_Spec pod)) k v) = None" by metis
  with None show ?thesis by (simp add: runnerEnvVars_last setRunnerEnv_def)
qed

lemma scopeOf_assemblePod:
  "scopeOf (runnerEnvVars (assemblePod r name template c ro)) = (rc_Enterprise c, rc_Organization c, rc_Repository c)"
proof -
  let ?docker = "if dockerSidecar c then Some (dockerdContainer r template c) else None"
  have "?docker = Some d \<Longrightarrow> c_Name d = ''docker''" for d by (auto simp: dockerdContainer_name split: if_splits)
  from placeContainers_index [of "runnerContainer r template c ro" ?docker "ps_Containers (pod_Spec template)", OF runnerContainer_name this]
  have "\<exists>i. containerIndex containerName (ps_Containers (pod_Spec (assemblePod r name template c ro))) = Some i \<and>
      ps_Containers (pod_Spec (assemblePod r name template c ro)) ! i = runnerContainer r template c ro"
    unfolding assemblePod_spec by blast
  then have "runnerEnvVars (assemblePod r name template c ro) = c_Env (runnerContainer r template c ro)"
    by (auto simp: runnerEnvVars_last)
  moreover obtain xs ys where "c_Env (runnerContainer r template c ro) = (xs @ runnerEnv c (rr_GithubBaseURL r) ro) @ ys"
    "\<forall>e \<in> set ys. ev_Name e \<notin> {EnvVarEnterprise, EnvVarOrg, EnvVarRepo}"
    by (rule that [of "c_Env (runnerContainerOf template (dockerdInRunner c \<and> seLinuxOptions template = None))"])
      (auto simp: runnerContainer_def Let_def envVar_def env_names split: option.splits if_splits)
  ultimately show ?thesis by (simp only: scopeOf_neutral scopeOf_runnerEnv)
qed

text \<open>
  The scope of a runner survives its way through the environment of the pod: whatever variables the user's template brings along, the pod controller reads from a pod that \<open>newRunnerPod\<close> built and the injector completed the enterprise, organization and
  repository of the runner's configuration.
\<close>

theorem pod_scope_roundtrip:
  assumes "newRunnerPod r name template c ro = Ret pod"
  shows "scopeOf (runnerEnvVars (injectToken pod rt showTime)) = (rc_Enterprise c, rc_Organization c, rc_Repository c)"
proof -
  have k: "EnvVarRunnerName \<notin> {EnvVarEnterprise, EnvVarOrg, EnvVarRepo}" "EnvVarRunnerToken \<notin> {EnvVarEnterprise, EnvVarOrg, EnvVarRepo}"
    "EnvVarRunnerFeatureFlagEphemeral \<notin> {EnvVarEnterprise, EnvVarOrg, EnvVarRepo}"
    by (simp_all add: env_names)
  have "scopeOf (runnerEnvVars pod) = (rc_Enterprise c, rc_Organization c, rc_Repository c)"
    using newRunnerPod_Ret(2) [OF assms] scopeOf_setRunnerEnv [OF k(3)] scopeOf_assemblePod by metis
  moreover have "scopeOf (runnerEnvVars (mutatePod pod token)) = scopeOf (runnerEnvVars pod)" for token
    by (simp add: mutatePod_def Let_def scopeOf_setRunnerEnv [OF k(1)] scopeOf_setRunnerEnv [OF k(2)])
  moreover have "runnerEnvVars (injectToken pod rt showTime) = runnerEnvVars (mutatePod pod (rgt_Token rt))"
    by (simp add: injectToken_def Let_def runnerEnvVars_def)
  ultimately show ?thesis by simp
qed

theorem pod_scope_roundtrip_witness:
  "\<exists>pod. newRunnerPod exampleReconciler ''a'' emptyPod exampleConfig False = Ret pod \<and>
    scopeOf (runnerEnvVars (injectToken pod \<lparr>rgt_Token = ''t'', rgt_ExpiresAt = 0\<rparr> (\<lambda>t. ''2022''))) = ([], [], ''o/r'')"
proof -
  obtain pod where p: "newRunnerPod exampleReconciler ''a'' emptyPod exampleConfig False = Ret pod"
    by (auto simp: newRunnerPod_def Let_def config_defs)
  from p pod_scope_roundtrip [OF p, of "\<lparr>rgt_Token = ''t'', rgt_ExpiresAt = 0\<rparr>" "\<lambda>t. ''2022''"] show ?thesis by (simp add: exampleConfig_def)
qed

subsection \<open>When a pod may go\<close>

text \<open>The stop procedure does not touch the finalizers of the pod.\<close>

definition keepsFinalizers :: "Pod \<Rightarrow> (kubeCall \<Rightarrow> bool) \<Rightarrow> bool" where
  "keepsFinalizers p P \<longleftrightarrow> (\<forall>p'. om_Finalizers (pod_Meta p') = om_Finalizers (pod_Meta p) \<longrightarrow> P (PatchPod p')) \<and>
     (\<forall>e og r i. P (RemoveGitHubRunner e og r i))"

lemma run_annotatePodOnce:
  "keepsFinalizers p P \<Longrightarrow> run_ok P (\<lambda>q. \<exists>p'. q = Some p' \<and> om_Finalizers (pod_Meta p') = om_Finalizers (pod_Meta p)) N (annotatePodOnce api (Some p) k v)"
  by (auto simp: annotatePodOnce_def Let_def keepsFinalizers_def intro!: run_write_then run_eret)

lemma run_any_elift: "run_ok P (\<lambda>_. True) (\<lambda>_. True) (elift m)"
  by (rule run_elift) simp_all

lemma run_unregistrationFailed:
  assumes "keepsFinalizers p P"
  shows "run_ok P (doneOk (\<lambda>_. True)) (\<lambda>_. True) (unregistrationFailed env api d e og r n p err)"
proof -
  let ?T = "\<lambda>_. True" and ?k = AnnotationKeyRunnerCompletionWaitStartTimestamp
  have w: "run_ok P (doneOk ?T) ?T (sbind (sorElse emptyResult (annotatePodOnce api (Some p) ?k (se_Stamp env))) (\<lambda>_. sstop emptyResult None))"
    by (rule run_sbind [OF run_sorElse [OF run_annotatePodOnce [OF assms]]]) (rule run_sstop)
  have g: "run_ok P ?T ?T (ecatch (elift (getRunner (se_GitHub env) e og r n)) (\<lambda>e. eret None))"
    by (rule run_ecatch [OF run_any_elift]) (simp add: run_eret)
  show ?thesis unfolding unregistrationFailed_def Let_def
    by (intro run_if run_sstop run_option run_ebind [OF g] run_sdone w TrueI)
qed

lemma run_ensureRunnerUnregistration:
  assumes "keepsFinalizers p P"
  shows "run_ok P (doneOk (\<lambda>_. True)) (\<lambda>_. True) (ensureRunnerUnregistration env api d e og r n (Some p))"
proof -
  let ?T = "\<lambda>_. True"
  have i: "run_ok P (doneOk ?T) ?T (runnerIDOf gh e og r n p)" for gh
    unfolding runnerIDOf_def
    by (intro run_option run_sstop run_sdone TrueI run_sbind [OF run_sorElse [OF run_any_elift]])
  have u: "run_ok P ?T ?T (unregisterRunner gh e og r j)" for gh j
    using assms unfolding unregisterRunner_def keepsFinalizers_def
    by (intro run_elog run_ebind [OF run_any_elift] run_eret) simp_all
  have c: "run_ok P ?T ?T (ecatch (ebind (unregisterRunner gh e og r j) (\<lambda>ok. eret (Inr ok))) (\<lambda>e. eret (Inl e)))" for gh j
    by (rule run_ecatch [OF run_ebind [OF u]]) (simp_all add: run_eret)
  have "run_ok P (doneOk ?T) ?T (case x of Inl err \<Rightarrow> unregistrationFailed env api d e og r n p err
      | Inr ok \<Rightarrow> if ok then sdone () else sstop (requeueAfter d) None)" for x
    by (cases x) (auto intro!: run_unregistrationFailed [OF assms] run_sdone run_sstop)
  then show ?thesis unfolding ensureRunnerUnregistration_def option.case
    by (intro run_sbind [OF i] run_if run_option run_sdone run_sstop run_ebind [OF c] TrueI)
qed

lemma run_tickRunnerGracefulStop:
  assumes "keepsFinalizers p P"
  shows "run_ok P (doneOk (\<lambda>q. safeToDelete env e og r n p)) (\<lambda>_. True) (tickRunnerGracefulStop env api d e og r n (Some p))"
proof (rule run_ok_result [where Q = "doneOk (\<lambda>_. True)"])
  have k: "keepsFinalizers p' P" if "om_Finalizers (pod_Meta p') = om_Finalizers (pod_Meta p)" for p'
    using assms that by (simp add: keepsFinalizers_def)
  show "run_ok P (doneOk (\<lambda>_. True)) (\<lambda>_. True) (tickRunnerGracefulStop env api d e og r n (Some p))"
    unfolding tickRunnerGracefulStop_def
  proof (rule run_sbind [OF run_sorElse [OF run_annotatePodOnce [OF assms]]], clarify)
    fix p' :: Pod
    assume "om_Finalizers (pod_Meta p') = om_Finalizers (pod_Meta p)"
    note k' = k [OF this]
    have "run_ok P (doneOk (\<lambda>_. True)) (\<lambda>_. True) (sorElse emptyResult (annotatePodOnce api (Some p') AnnotationKeyUnregistrationCompleteTimestamp (se_Stamp env)))"
      by (rule run_sorElse, rule run_ok_weaken [OF run_annotatePodOnce [OF k']]) simp_all
    then show "run_ok P (doneOk (\<lambda>_. True)) (\<lambda>_. True) (sbind (ensureRunnerUnregistration env api d e og r n (Some p'))
        (\<lambda>_. sorElse emptyResult (annotatePodOnce api (Some p') AnnotationKeyUnregistrationCompleteTimestamp (se_Stamp env))))"
      by (rule run_sbind [OF run_ensureRunnerUnregistration [OF k']])
  qed
next
  fix l l' x assume "tickRunnerGracefulStop env api d e og r n (Some p) l = (l', Ret x)"
  then show "doneOk (\<lambda>q. safeToDelete env e og r n p) x" using tickRunnerGracefulStop_Done by (cases x) auto
qed

text \<open>What the controller may do to a pod: every patch keeps the finalizer, unless the pod is being deleted and safe to delete; a pod is deleted by force only when it has no finalizer and its deletion is more than a minute old.\<close>

definition podCallOk :: "StopEnv \<Rightarrow> time \<Rightarrow> Pod \<Rightarrow> kubeCall \<Rightarrow> bool" where
  "podCallOk env now pod call =
     (case call of
        PatchPod p' \<Rightarrow> runnerPodFinalizerName \<in> set (om_Finalizers (pod_Meta p')) \<or>
          (\<not> IsZero (om_DeletionTimestamp (pod_Meta pod)) \<and>
           (case scopeOf (runnerEnvVars pod) of (e, og, r) \<Rightarrow> safeToDelete env e og r (om_Name (pod_Meta pod)) pod))
      | DeletePod p force \<Rightarrow> p = pod \<and> runnerPodFinalizerName \<notin> set (om_Finalizers (pod_Meta pod)) \<and>
          (\<exists>d. om_DeletionTimestamp (pod_Meta pod) = Some d \<and> now > d + Minute)
      | RemoveGitHubRunner e og r i \<Rightarrow> True
      | Event s \<Rightarrow> True
      | _ \<Rightarrow> False)"

lemma run_finalizePod:
  assumes "runnerPodFinalizerName \<in> set (om_Finalizers (pod_Meta pod))" and "\<not> IsZero (om_DeletionTimestamp (pod_Meta pod))"
    and "scopeOf (runnerEnvVars pod) = scope"
  shows "run_ok (podCallOk env now pod) (\<lambda>_. True) (\<lambda>_. True) (finalizePod env api d scope pod fs)"
proof -
  obtain e og r where sc: "scope = (e, og, r)" by (cases scope) auto
  have k: "keepsFinalizers pod (podCallOk env now pod)" using assms(1) by (simp add: keepsFinalizers_def podCallOk_def)
  show ?thesis unfolding finalizePod_def sc Let_def prod.case
  proof (rule run_finish, rule run_sbind [OF run_tickRunnerGracefulStop [OF k]])
    fix q assume s: "safeToDelete env e og r (om_Name (pod_Meta pod)) pod"
    have "podCallOk env now pod (PatchPod u)" for u using s assms(2,3) by (simp add: podCallOk_def sc)
    then show "run_ok (podCallOk env now pod) (doneOk (\<lambda>_. True)) (\<lambda>_. True)
      (case q of None \<Rightarrow> epanic ''nil pointer dereference'' | Some u \<Rightarrow> sorElse emptyResult
         (ebind (ewrite api (PatchPod (u\<lparr>pod_Meta := (pod_Meta u)\<lparr>om_Finalizers := fs\<rparr>\<rparr>))) (\<lambda>_. eret emptyResult)))"
      by (intro run_option run_epanic run_sorElse run_write_then run_eret TrueI)
  qed
qed

lemma run_ensureRunnerPodRegistered:
  assumes "keepsFinalizers p P"
  shows "run_ok P (doneOk (\<lambda>q. om_Finalizers (pod_Meta q) = om_Finalizers (pod_Meta p))) (\<lambda>_. True) (ensureRunnerPodRegistered gh api e og r n p)"
  unfolding ensureRunnerPodRegistered_def
  by (intro run_if run_sdone refl run_option run_sstop run_sbind [OF run_sorElse [OF run_any_elift]] run_sbind [OF run_sorElse [OF run_annotatePodOnce [OF assms]]])
    (auto simp: run_sdone)

lemma deletionDidTimeout_after: "deletionDidTimeout now d \<Longrightarrow> now > d + Minute"
  by (auto simp: deletionDidTimeout_def timeSub_def minDuration_def)

lemma run_forceDelete:
  "P (DeletePod pod True) \<Longrightarrow> P (Event ''PodDeleted'') \<Longrightarrow> run_ok P (\<lambda>_. True) N (forceDelete api pod)"
  unfolding forceDelete_def by (intro run_ecall run_option run_if run_eerr run_eret run_elog TrueI)

lemma run_Reconcile_RunnerPod:
  "run_ok (podCallOk env now pod) (\<lambda>_. True) (\<lambda>_. True) (Reconcile_RunnerPod env api d now (Ret pod))"
proof -
  obtain e og r where sc: "scopeOf (runnerEnvVars pod) = (e, og, r)" by (cases "scopeOf (runnerEnvVars pod)") auto
  let ?fs = "om_Finalizers (pod_Meta pod)" and ?P = "podCallOk env now pod" and ?T = "\<lambda>_. True" and ?d = "unregistrationRetryDelay d"
  have alive: "run_ok ?P ?T ?T (finish (sbind (ensureRunnerPodRegistered (se_GitHub env) api e og r (om_Name (pod_Meta pod)) pod)
      (\<lambda>po. if getAnnotation (pod_Meta po) AnnotationKeyUnregistrationRequestTimestamp \<noteq> None
        then sbind (tickRunnerGracefulStop env api ?d e og r (om_Name (pod_Meta po)) (Some po)) (\<lambda>_. sdone emptyResult) else sdone emptyResult)))"
    if "runnerPodFinalizerName \<in> set ?fs"
  proof -
    have k: "keepsFinalizers po ?P" if "om_Finalizers (pod_Meta po) = ?fs" for po
      using that \<open>runnerPodFinalizerName \<in> set ?fs\<close> by (simp add: keepsFinalizers_def podCallOk_def)
    show ?thesis
      by (intro run_finish [where Q = ?T] run_sbind [OF run_ensureRunnerPodRegistered [OF k [OF refl]]] run_if run_sdone run_sbind [OF run_tickRunnerGracefulStop [OF k]] TrueI)
  qed
  show ?thesis
  proof (cases "IsZero (om_DeletionTimestamp (pod_Meta pod))")
    case True
    then show ?thesis using alive
      by (auto simp: Reconcile_RunnerPod_def sc addFinalizer_eq podCallOk_def intro!: run_eret run_eerr run_write_then)
  next
    case False
    then obtain t where t: "om_DeletionTimestamp (pod_Meta pod) = Some t" by (cases "om_DeletionTimestamp (pod_Meta pod)") auto
    have "run_ok ?P ?T ?T (forceDelete api pod)" if "runnerPodFinalizerName \<notin> set ?fs" "deletionDidTimeout now t"
      using that t deletionDidTimeout_after by (intro run_forceDelete) (auto simp: podCallOk_def)
    with False t show ?thesis
      by (auto simp: Reconcile_RunnerPod_def sc removeFinalizer_eq intro!: run_eret run_eerr run_finalizePod)
  qed
qed

text \<open>
  C11. When the pod controller lets a pod go. A patch takes the finalizer off only when the pod is being deleted and one of these holds: it was marked as unregistered before; GitHub lists no runner of its name (or one without an id); the pod or its runner container has stopped; GitHub has confirmed
  the removal of the runner; GitHub has answered it with 403, in which case the runner may still be registered and even busy; or with 422 though the runner container has exited. The pod is deleted, by force, only when the finalizer is gone and the deletion was requested more than a minute ago. The
  only other calls are requests to GitHub to remove a runner, and events.
\<close>

theorem runner_pod_finalized_safely:
  assumes "call \<in> set (writes (Reconcile_RunnerPod env api retryDelay now (Ret pod)))"
  shows "podCallOk env now pod call"
  using assms by (rule run_ok_writes [OF run_Reconcile_RunnerPod])

definition exampleTerminating :: Pod where
  "exampleTerminating = examplePod\<lparr>
     pod_Meta := (pod_Meta examplePod)\<lparr>om_Labels := [(LabelKeyRunnerSetName, ''a'')], om_DeletionTimestamp := Some 0\<rparr>,
     pod_Spec := emptyPodSpec\<lparr>ps_Containers := [(emptyContainer ''runner'')\<lparr>c_Env := [envVar EnvVarOrg ''o'']\<rparr>]\<rparr>\<rparr>"

theorem runner_pod_finalized_safely_witness:
  "DeletePod exampleTerminating True \<in> set (writes (Reconcile_RunnerPod exampleStopEnv acceptAll 0 (2 * Minute) (Ret exampleTerminating))) \<and>
    podCallOk exampleStopEnv (2 * Minute) exampleTerminating (DeletePod exampleTerminating True)"
proof -
  have "runnerEnvVars exampleTerminating = [envVar EnvVarOrg ''o'']"
    by (simp add: runnerEnvVars_def exampleTerminating_def empty_defs)
  moreover have "om_Finalizers (pod_Meta exampleTerminating) = []" "om_DeletionTimestamp (pod_Meta exampleTerminating) = Some 0"
    "map_of (om_Labels (pod_Meta exampleTerminating)) LabelKeyRunnerSetName = Some ''a''"
    by (simp_all add: exampleTerminating_def examplePod_def emptyMeta_def)
  ultimately have w: "DeletePod exampleTerminating True \<in> set (writes (Reconcile_RunnerPod exampleStopEnv acceptAll 0 (2 * Minute) (Ret exampleTerminating)))"
    by (simp add: Reconcile_RunnerPod_def scopeOf_def envVar_def env_names removeFinalizer_eq IsZero_def zeroTime_def deletionDidTimeout_def timeSub_def
        minDuration_def maxDuration_def forceDelete_def go_simps)
  with runner_pod_finalized_safely [OF w] show ?thesis by simp
qed

end
