(* ===== verification/Runner_Set_Controller.thy ===== *)
theory Runner_Set_Controller
  imports Pod_Owner Runner_Pod
begin

section \<open>The controller of runner sets\<close>

text \<open>
  Model of \<open>src/controllers/runnerset_controller.go\<close>: a runner set keeps one stateful set of a single pod per replica, with the shared synchronisation of theory \<open>Pod_Owner\<close>. The metric the controller exports is in theory \<open>Telemetry\<close>.
\<close>

record RunnerSetEnv =
  rve_Reconciler :: RunnerReconciler
  rve_CommonRunnerLabels :: "string list"
  rve_Spew :: "PodSpec \<Rightarrow> string"
  rve_SafeEncode :: "string \<Rightarrow> string"
  rve_SetControllerReference :: "RunnerSet \<Rightarrow> StatefulSet \<Rightarrow> StatefulSet go"
  rve_Iter :: "podsForOwners \<Rightarrow> podsForOwners"

record RunnerSetReads =
  rvr_Get :: "RunnerSet go"
  rvr_ListStatefulSets :: "StatefulSet list go"
  rvr_Owners :: OwnerReads

subsection \<open>The desired stateful set\<close>

definition getRunnerSetSelector :: "RunnerSet \<Rightarrow> LabelSelector" where
  "getRunnerSetSelector rs =
     (case rss_Selector (rset_Spec rs) of
        None \<Rightarrow> \<lparr>ls_MatchLabels = [(LabelKeyRunnerSetName, om_Name (rset_Meta rs))], ls_MatchExpressions = None\<rparr>
      | Some selector \<Rightarrow> selector)"

definition runnerSetWithOverrides :: "RunnerSetEnv \<Rightarrow> RunnerSet \<Rightarrow> RunnerSetSpec" where
  "runnerSetWithOverrides env rs =
     (let spec = rset_Spec rs; c = rss_Config spec
      in spec\<lparr>rss_Config := c\<lparr>rc_Labels := rc_Labels c @ rve_CommonRunnerLabels env\<rparr>\<rparr>)"

definition statefulSetSelector :: "RunnerSet \<Rightarrow> string \<Rightarrow> LabelSelector" where
  "statefulSetSelector rs templateHash =
     CloneSelectorAndAddLabel
       (CloneSelectorAndAddLabel (CloneSelectorAndAddLabel (getRunnerSetSelector rs) LabelKeyRunnerTemplateHash templateHash)
          LabelKeyRunnerSetName (om_Name (rset_Meta rs)))
       LabelKeyPodMutation LabelValuePodMutation"

definition statefulSetOf :: "RunnerSet \<Rightarrow> RunnerSetSpec \<Rightarrow> Pod \<Rightarrow> string \<Rightarrow> string \<Rightarrow> StatefulSet" where
  "statefulSetOf rs spec pod templateHash stamp =
     \<lparr>ss_Meta = emptyMeta\<lparr>om_GenerateName := om_Name (rset_Meta rs) @ ''-'', om_Namespace := om_Namespace (rset_Meta rs),
        om_Labels := CloneAndAddLabel (om_Labels (rset_Meta rs)) LabelKeyRunnerTemplateHash templateHash,
        om_Annotations := [(SyncTimeAnnotationKey, stamp)]\<rparr>,
      ss_Replicas = rss_Replicas spec, ss_Selector = Some (statefulSetSelector rs templateHash),
      ss_TemplateMeta = (pod_Meta pod)\<lparr>om_Labels := CloneAndAddLabel (om_Labels (pod_Meta pod)) LabelKeyRunnerTemplateHash templateHash\<rparr>,
      ss_TemplateSpec = (pod_Spec pod)\<lparr>ps_RestartPolicy := ''Always''\<rparr>, ss_SpecRest = rss_StatefulSetRest spec,
      ss_StatusReplicas = 0, ss_StatusReadyReplicas = 0, ss_StatusCurrentReplicas = 0, ss_StatusUpdatedReplicas = 0\<rparr>"

definition newStatefulSet :: "RunnerSetEnv \<Rightarrow> string \<Rightarrow> RunnerSet \<Rightarrow> StatefulSet go" where
  "newStatefulSet env stamp rs =
     (let spec = runnerSetWithOverrides env rs;
          template = emptyPod\<lparr>pod_Meta := rss_TemplateMeta spec, pod_Spec := rss_TemplateSpec spec\<rparr>
      in go_bind (newRunnerPod (rve_Reconciler env) (om_Name (rset_Meta rs)) template (rss_Config (rset_Spec rs)) False)
           (\<lambda>pod. rve_SetControllerReference env rs
              (statefulSetOf rs spec pod (ComputeHash (rve_Spew env) (rve_SafeEncode env) (pod_Spec pod)) stamp)))"

text \<open>The field index by which the controller lists its stateful sets.\<close>

definition statefulSetOwner :: "StatefulSet \<Rightarrow> string list" where
  "statefulSetOwner s =
     (case GetControllerOf (ss_Meta s) of
        None \<Rightarrow> []
      | Some owner \<Rightarrow> if or_APIVersion owner \<noteq> ''actions.summerwind.dev/v1alpha1'' \<or> or_Kind owner \<noteq> ''RunnerSet'' then [] else [or_Name owner])"

subsection \<open>Reconciliation\<close>

text \<open>A field of the status of an object's stateful set; every owner the controller passes on is one.\<close>

definition statusField :: "(StatefulSet \<Rightarrow> int) \<Rightarrow> podsForOwner \<Rightarrow> int" where
  "statusField f ob = (case po_owner ob of OwnerStatefulSet s \<Rightarrow> f s | _ \<Rightarrow> 0)"

definition runnerSetStatus :: "int \<Rightarrow> podsForOwner list \<Rightarrow> RunnerSetStatus" where
  "runnerSetStatus newDesiredReplicas objs =
     \<lparr>rsst_CurrentReplicas = Some (\<Sum>ob \<leftarrow> objs. statusField ss_StatusCurrentReplicas ob),
      rsst_ReadyReplicas = Some (\<Sum>ob \<leftarrow> objs. statusField ss_StatusReadyReplicas ob),
      rsst_UpdatedReplicas = Some (\<Sum>ob \<leftarrow> objs. statusField ss_StatusUpdatedReplicas ob),
      rsst_DesiredReplicas = Some newDesiredReplicas,
      rsst_Replicas = Some (\<Sum>ob \<leftarrow> objs. statusField ss_StatusReplicas ob)\<rparr>"

text \<open>
  The code compares the status, a struct, with a pointer to a struct: \<open>reflect.DeepEqual\<close> is false on values of different types, so that the status is always patched.
\<close>

definition runnerSetStatusCall :: "RunnerSet \<Rightarrow> OwnersSync \<Rightarrow> podsForOwner list \<Rightarrow> kubeCall option" where
  "runnerSetStatusCall rs y objs = Some (PatchRunnerSetStatus (rs\<lparr>rset_Status := runnerSetStatus (oy_Replicas y) objs\<rparr>))"

definition syncRunnerSet :: "kubeCall api \<Rightarrow> RunnerSet \<Rightarrow> OwnersSync \<Rightarrow> (kubeCall, Result) eff" where
  "syncRunnerSet api rs y =
     ebind (runSync api y)
       (\<lambda>res. case res of
           None \<Rightarrow> eret emptyResult
         | Some objs \<Rightarrow> ecall api (PatchRunnerSetStatus (rs\<lparr>rset_Status := runnerSetStatus (oy_Replicas y) objs\<rparr>))
             (\<lambda>e. case e of None \<Rightarrow> eret emptyResult | Some err \<Rightarrow> eret requeue))"

definition ownersOfRunnerSet ::
  "RunnerSetEnv \<Rightarrow> time \<Rightarrow> string \<Rightarrow> OwnerReads \<Rightarrow> RunnerSet \<Rightarrow> StatefulSet \<Rightarrow> StatefulSet list \<Rightarrow> OwnersSync" where
  "ownersOfRunnerSet env now stamp reads rs desired statefulsets =
     \<lparr>oy_Reads = reads, oy_Iter = rve_Iter env, oy_Now = now, oy_Stamp = stamp, oy_EffectiveTime = rss_EffectiveTime (rset_Spec rs),
      oy_Replicas = getIntOrDefault (ss_Replicas desired) 1, oy_Create = OwnerStatefulSet (desired\<lparr>ss_Replicas := Some 1\<rparr>),
      oy_Ephemeral = (case rc_Ephemeral (rss_Config (rset_Spec rs)) of None \<Rightarrow> True | Some b \<Rightarrow> b),
      oy_Owners = map OwnerStatefulSet statefulsets\<rparr>"

definition Reconcile_RunnerSet :: "RunnerSetEnv \<Rightarrow> kubeCall api \<Rightarrow> time \<Rightarrow> string \<Rightarrow> RunnerSetReads \<Rightarrow> (kubeCall, Result) eff" where
  "Reconcile_RunnerSet env api now stamp k =
     (case rvr_Get k of
        Err e \<Rightarrow> (case IgnoreNotFound e of None \<Rightarrow> eret emptyResult | Some e' \<Rightarrow> eerr e')
      | Panic s \<Rightarrow> epanic s
      | Hang \<Rightarrow> elift Hang
      | Ret rs \<Rightarrow>
          if \<not> IsZero (om_DeletionTimestamp (rset_Meta rs)) then eret emptyResult
          else ebind (elift (rvr_ListStatefulSets k))
            (\<lambda>statefulsets.
              if length statefulsets > 1000 then eret emptyResult
              else ebind (ecatch (elift (newStatefulSet env stamp rs)) (\<lambda>e. elog (Event ''RunnerAutoscalingFailure'') (eerr e)))
                (\<lambda>desired. syncRunnerSet api rs (ownersOfRunnerSet env now stamp (rvr_Owners k) rs desired statefulsets))))"

interpretation runner_set: pods_owner_controller syncRunnerSet runnerSetStatusCall
  by unfold_locales (unfold syncRunnerSet_def runnerSetStatusCall_def option.case, auto)

subsection \<open>Stateful sets of a runner set\<close>

definition setsOnlyStatefulSetOwner :: "RunnerSetEnv \<Rightarrow> bool" where
  "setsOnlyStatefulSetOwner env \<longleftrightarrow> (\<forall>rs s s'. rve_SetControllerReference env rs s = Ret s' \<longrightarrow>
     (\<exists>refs. s' = s\<lparr>ss_Meta := (ss_Meta s)\<lparr>om_OwnerReferences := refs\<rparr>\<rparr>))"

lemma newRunnerPod_labels:
  assumes "newRunnerPod r name template c ro = Ret pod"
  shows "map_of (om_Labels (pod_Meta pod)) key =
    (if key = LabelKeyPodMutation then Some LabelValuePodMutation else if key = LabelKeyRunnerSetName then Some name
     else map_of (om_Labels (pod_Meta template)) key)"
proof -
  have "pod_Meta pod = pod_Meta (assemblePod r name template c ro)" using newRunnerPod_Ret(2) [OF assms] by auto
  then show ?thesis by (simp add: assemblePod_def Let_def map_of_CloneAndAddLabel label_keys)
qed

lemma statefulSetSelector_lookup:
  "map_of (ls_MatchLabels (statefulSetSelector rs h)) key =
    (if key = LabelKeyPodMutation then Some LabelValuePodMutation
     else if key = LabelKeyRunnerSetName then Some (om_Name (rset_Meta rs))
     else if key = LabelKeyRunnerTemplateHash then Some h else map_of (ls_MatchLabels (getRunnerSetSelector rs)) key)"
  by (simp add: statefulSetSelector_def map_of_CloneSelectorAndAddLabel label_keys)

text \<open>
  The stateful set of a runner set is one Kubernetes accepts and the controller can work with: the labels of its pods satisfy its selector, where the runner set has no selector or one that its pod template satisfies; it and its pods carry the same
  template hash, it is stamped with the time of creation, and its pods are restarted always.
\<close>

theorem stateful_set_selects_its_pods:
  assumes "newStatefulSet env stamp rs = Ret s" and "setsOnlyStatefulSetOwner env"
    and "rss_Selector (rset_Spec rs) = None \<or>
      (\<exists>sel. rss_Selector (rset_Spec rs) = Some sel \<and> matchesLabels sel (om_Labels (rss_TemplateMeta (rset_Spec rs))) \<and>
        LabelKeyRunnerTemplateHash \<notin> fst ` set (ls_MatchLabels sel))"
  shows "(\<exists>sel. ss_Selector s = Some sel \<and> matchesLabels sel (om_Labels (ss_TemplateMeta s))) \<and>
    (\<exists>h. ownerStatefulSet_templateHash s = Some h \<and> map_of (om_Labels (ss_TemplateMeta s)) LabelKeyRunnerTemplateHash = Some h) \<and>
    getAnnotation (ss_Meta s) SyncTimeAnnotationKey = Some stamp \<and> ps_RestartPolicy (ss_TemplateSpec s) = ''Always''"
proof -
  let ?spec = "runnerSetWithOverrides env rs"
  let ?t = "emptyPod\<lparr>pod_Meta := rss_TemplateMeta ?spec, pod_Spec := rss_TemplateSpec ?spec\<rparr>"
  obtain pod where pod: "newRunnerPod (rve_Reconciler env) (om_Name (rset_Meta rs)) ?t (rss_Config (rset_Spec rs)) False = Ret pod"
    and c: "rve_SetControllerReference env rs (statefulSetOf rs ?spec pod (ComputeHash (rve_Spew env) (rve_SafeEncode env) (pod_Spec pod)) stamp) = Ret s"
    using assms(1) by (auto simp: newStatefulSet_def Let_def go_bind_Ret_iff)
  let ?h = "ComputeHash (rve_Spew env) (rve_SafeEncode env) (pod_Spec pod)"
  obtain refs where s: "s = (statefulSetOf rs ?spec pod ?h stamp)\<lparr>ss_Meta := (ss_Meta (statefulSetOf rs ?spec pod ?h stamp))\<lparr>om_OwnerReferences := refs\<rparr>\<rparr>"
    using assms(2) c unfolding setsOnlyStatefulSetOwner_def by blast
  have sel: "map_of (ls_MatchLabels (getRunnerSetSelector rs)) key = Some v \<Longrightarrow> key \<notin> {LabelKeyPodMutation, LabelKeyRunnerSetName, LabelKeyRunnerTemplateHash} \<Longrightarrow>
      map_of (om_Labels (rss_TemplateMeta (rset_Spec rs))) key = Some v" for key v
    using assms(3) by (auto simp: getRunnerSetSelector_def matchesLabels_iff split: if_splits)
  have "matchesLabels (statefulSetSelector rs ?h) (CloneAndAddLabel (om_Labels (pod_Meta pod)) LabelKeyRunnerTemplateHash ?h)"
    unfolding matchesLabels_iff statefulSetSelector_lookup
    using sel by (auto simp: map_of_CloneAndAddLabel newRunnerPod_labels [OF pod] label_keys runnerSetWithOverrides_def Let_def split: if_splits)
  then show ?thesis
    unfolding s by (simp add: statefulSetOf_def ownerStatefulSet_templateHash_def getRunnerTemplateHash_def map_of_CloneAndAddLabel label_keys getAnnotation_def)
qed

text \<open>
  The runner labels common to all runners, which the controller is started with, do not reach the runners of runner sets: the stateful set is the same whatever they are.
\<close>

theorem common_labels_ignored:
  "newStatefulSet (env\<lparr>rve_CommonRunnerLabels := labels\<rparr>) stamp rs = newStatefulSet env stamp rs"
  by (simp add: newStatefulSet_def runnerSetWithOverrides_def statefulSetOf_def Let_def)


definition exampleRunnerSetEnv :: RunnerSetEnv where
  "exampleRunnerSetEnv = \<lparr>rve_Reconciler = exampleReconciler, rve_CommonRunnerLabels = [], rve_Spew = \<lambda>s. [], rve_SafeEncode = \<lambda>s. s,
     rve_SetControllerReference = \<lambda>rs s. Ret (s\<lparr>ss_Meta := (ss_Meta s)\<lparr>om_OwnerReferences := [\<lparr>or_APIVersion = ''actions.summerwind.dev/v1alpha1'',
       or_Kind = ''RunnerSet'', or_Name = om_Name (rset_Meta rs), or_Controller = True\<rparr>]\<rparr>\<rparr>), rve_Iter = \<lambda>m. m\<rparr>"

definition exampleRunnerSet :: RunnerSet where
  "exampleRunnerSet = \<lparr>rset_Meta = emptyMeta\<lparr>om_Name := ''a''\<rparr>,
     rset_Spec = \<lparr>rss_Config = exampleConfig, rss_EffectiveTime = None, rss_Replicas = Some 2, rss_Selector = None, rss_TemplateMeta = emptyMeta,
       rss_TemplateSpec = emptyPodSpec, rss_StatefulSetRest = []\<rparr>,
     rset_Status = \<lparr>rsst_CurrentReplicas = None, rsst_ReadyReplicas = None, rsst_UpdatedReplicas = None, rsst_DesiredReplicas = None, rsst_Replicas = None\<rparr>\<rparr>"

lemma example_setsOnlyStatefulSetOwner: "setsOnlyStatefulSetOwner exampleRunnerSetEnv"
  unfolding setsOnlyStatefulSetOwner_def exampleRunnerSetEnv_def by auto

lemma example_newStatefulSet: "\<exists>s h. newStatefulSet exampleRunnerSetEnv ''t'' exampleRunnerSet = Ret s \<and> ownerStatefulSet_templateHash s = Some h \<and> ss_Replicas s = Some 2"
  by (simp add: newStatefulSet_def newRunnerPod_def config_defs exampleRunnerSet_def exampleRunnerSetEnv_def statefulSetOf_def runnerSetWithOverrides_def
      ownerStatefulSet_templateHash_def getRunnerTemplateHash_def map_of_CloneAndAddLabel label_keys Let_def)

theorem stateful_set_selects_its_pods_witness:
  "\<exists>s sel. newStatefulSet exampleRunnerSetEnv ''t'' exampleRunnerSet = Ret s \<and> ss_Selector s = Some sel \<and> matchesLabels sel (om_Labels (ss_TemplateMeta s))"
proof -
  obtain s where s: "newStatefulSet exampleRunnerSetEnv ''t'' exampleRunnerSet = Ret s" using example_newStatefulSet by blast
  from stateful_set_selects_its_pods [OF s example_setsOnlyStatefulSetOwner] s show ?thesis by (auto simp: exampleRunnerSet_def)
qed


end
