(* ===== verification/Run_History.thy ===== *)
theory Run_History
  imports Run_Logic
begin

section \<open>Runs and the calls before\<close>

text \<open>
  The program logic of \<open>Run_Logic\<close> judges each call by itself. Here a call and a result are judged together with the calls made before: \<open>hist P Q m l\<close> says of the run of \<open>m\<close> after the calls \<open>l\<close>
  that every further call satisfies \<open>P\<close> with the calls before it, and that a value it returns satisfies \<open>Q\<close> with all the calls. \<open>applyCalls\<close> is the other half: the effect of the calls of a run on a state, call by
  call, where a server may refuse any of them; an invariant of the calls carries over to the state.
\<close>

fun traceOk :: "('c list \<Rightarrow> 'c \<Rightarrow> bool) \<Rightarrow> 'c list \<Rightarrow> 'c list \<Rightarrow> bool" where
  "traceOk P l [] = True"
| "traceOk P l (c # cs) = (P l c \<and> traceOk P (l @ [c]) cs)"

lemma traceOk_append: "traceOk P l (cs @ ds) \<longleftrightarrow> traceOk P l cs \<and> traceOk P (l @ cs) ds"
  by (induction cs arbitrary: l) simp_all

lemma traceOk_mono: "traceOk P l cs \<Longrightarrow> (\<And>l c. P l c \<Longrightarrow> P' l c) \<Longrightarrow> traceOk P' l cs"
  by (induction cs arbitrary: l) simp_all

lemma traceOk_all: "list_all P cs \<Longrightarrow> traceOk (\<lambda>_. P) l cs"
  by (induction cs arbitrary: l) simp_all

definition hist :: "('c list \<Rightarrow> 'c \<Rightarrow> bool) \<Rightarrow> ('c list \<Rightarrow> 'a \<Rightarrow> bool) \<Rightarrow> ('c, 'a) eff \<Rightarrow> 'c list \<Rightarrow> bool" where
  "hist P Q m l \<longleftrightarrow> (\<exists>w r. m l = (l @ w, r) \<and> traceOk P l w \<and> (\<forall>x. r = Ret x \<longrightarrow> Q (l @ w) x))"

lemma histE:
  assumes "hist P Q m l"
  obtains w r where "m l = (l @ w, r)" and "traceOk P l w" and "\<And>x. r = Ret x \<Longrightarrow> Q (l @ w) x"
  using assms unfolding hist_def by blast

lemma histI: "m l = (l @ w, r) \<Longrightarrow> traceOk P l w \<Longrightarrow> (\<And>x. r = Ret x \<Longrightarrow> Q (l @ w) x) \<Longrightarrow> hist P Q m l"
  unfolding hist_def by blast

lemma hist_writes: "hist P Q m [] \<Longrightarrow> traceOk P [] (writes m)"
  by (erule histE) (simp add: writes_def)

lemma hist_weaken: "hist P Q m l \<Longrightarrow> (\<And>l c. P l c \<Longrightarrow> P' l c) \<Longrightarrow> (\<And>l x. Q l x \<Longrightarrow> Q' l x) \<Longrightarrow> hist P' Q' m l"
  by (erule histE, rule histI) (auto elim: traceOk_mono)

lemma run_ok_hist: "run_ok P Q N m \<Longrightarrow> hist (\<lambda>_. P) (\<lambda>_. Q) m l"
  unfolding run_ok_def hist_def using traceOk_all by metis

subsection \<open>Rules\<close>

lemma hist_eret: "Q l x \<Longrightarrow> hist P Q (eret x) l"
  by (simp add: hist_def eret_def)

lemma hist_eerr: "hist P Q (eerr e) l"
  by (simp add: hist_def eerr_def)

lemma hist_epanic: "hist P Q (epanic s) l"
  by (simp add: hist_def epanic_def)

lemma hist_elift: "(\<And>x. m = Ret x \<Longrightarrow> Q l x) \<Longrightarrow> hist P Q (elift m) l"
  by (simp add: hist_def elift_def)

lemma hist_ebind:
  assumes "hist P R m l" and "\<And>l' x. R l' x \<Longrightarrow> hist P Q (f x) l'"
  shows "hist P Q (ebind m f) l"
  using assms(1)
proof (rule histE)
  fix w r assume m: "m l = (l @ w, r)" "traceOk P l w" "\<And>x. r = Ret x \<Longrightarrow> R (l @ w) x"
  show ?thesis
  proof (cases r)
    case (Ret x)
    from assms(2) [OF m(3) [OF Ret]] show ?thesis
      by (rule histE) (rule histI [where w = "w @ _"], auto simp: ebind_def m(1,2) Ret traceOk_append)
  qed (use m in \<open>auto intro!: histI [where w = w] simp: ebind_def\<close>)
qed

lemma hist_ecall: "P l c \<Longrightarrow> (\<And>e. hist P Q (k e) (l @ [c])) \<Longrightarrow> hist P Q (ecall api c k) l"
proof -
  assume c: "P l c" and k: "\<And>e. hist P Q (k e) (l @ [c])"
  from k [of "api l c"] show ?thesis
    by (rule histE) (rule histI [where w = "c # _"], auto simp: ecall_def c)
qed

lemma hist_elog: "P l c \<Longrightarrow> hist P Q m (l @ [c]) \<Longrightarrow> hist P Q (elog c m) l"
  by (erule histE) (rule histI [where w = "c # _"], auto simp: elog_def)

lemma hist_ewrite: "P l c \<Longrightarrow> Q (l @ [c]) () \<Longrightarrow> hist P Q (ewrite api c) l"
  unfolding ewrite_def by (rule hist_ecall) (simp_all split: option.split add: hist_eret hist_eerr)

lemma hist_write_then: "P l c \<Longrightarrow> hist P Q m (l @ [c]) \<Longrightarrow> hist P Q (ebind (ewrite api c) (\<lambda>_. m)) l"
  by (rule hist_ebind [where R = "\<lambda>l' _. l' = l @ [c]"]) (simp_all add: hist_ewrite)

lemma hist_if: "(b \<Longrightarrow> hist P Q m l) \<Longrightarrow> (\<not> b \<Longrightarrow> hist P Q m' l) \<Longrightarrow> hist P Q (if b then m else m') l"
  by simp

lemma hist_option:
  "(x = None \<Longrightarrow> hist P Q m l) \<Longrightarrow> (\<And>y. x = Some y \<Longrightarrow> hist P Q (f y) l) \<Longrightarrow> hist P Q (case x of None \<Rightarrow> m | Some y \<Rightarrow> f y) l"
  by (cases x) simp_all

lemma hist_ecatch:
  assumes "hist P Q m l" and "\<And>l' e. hist P Q (h e) l'"
  shows "hist P Q (ecatch m h) l"
  using assms(1)
proof (rule histE)
  fix w r assume m: "m l = (l @ w, r)" "traceOk P l w" "\<And>x. r = Ret x \<Longrightarrow> Q (l @ w) x"
  show ?thesis
  proof (cases r)
    case (Err e)
    from assms(2) [of e "l @ w"] show ?thesis
      by (rule histE) (rule histI [where w = "w @ _"], auto simp: ecatch_def m(1,2) Err traceOk_append)
  qed (use m in \<open>auto intro!: histI [where w = w] simp: ecatch_def\<close>)
qed

subsubsection \<open>Steps\<close>

lemma hist_sdone: "Q l x \<Longrightarrow> hist P (\<lambda>l. doneOk (Q l)) (sdone x) l"
  by (simp add: sdone_def hist_eret)

lemma hist_sstop: "hist P (\<lambda>l. doneOk (Q l)) (sstop r e) l"
  by (simp add: sstop_def hist_eret)

lemma hist_sbind:
  assumes "hist P (\<lambda>l. doneOk (R l)) m l" and "\<And>l' x. R l' x \<Longrightarrow> hist P (\<lambda>l. doneOk (Q l)) (f x) l'"
  shows "hist P (\<lambda>l. doneOk (Q l)) (sbind m f) l"
  unfolding sbind_def by (rule hist_ebind [OF assms(1)]) (auto simp: assms(2) hist_eret split: step.split)

lemma hist_sorElse: "hist P Q m l \<Longrightarrow> hist P (\<lambda>l. doneOk (Q l)) (sorElse r m) l"
  unfolding sorElse_def by (rule hist_ecatch, rule hist_ebind, assumption) (simp_all add: hist_eret)

lemma hist_finish: "hist P (\<lambda>l. doneOk (Q l)) m l \<Longrightarrow> hist P (\<lambda>_ _. True) (finish m) l"
  unfolding finish_def by (rule hist_ebind, assumption) (simp split: step.split option.split add: hist_eret hist_eerr)

subsection \<open>The effect of a run on a state\<close>

text \<open>\<open>ans l c\<close>: whether the call \<open>c\<close>, made after the calls \<open>l\<close>, takes effect; \<open>eff l c\<close> is the effect.\<close>

fun applyCalls :: "('c list \<Rightarrow> 'c \<Rightarrow> bool) \<Rightarrow> ('c list \<Rightarrow> 'c \<Rightarrow> 's \<Rightarrow> 's) \<Rightarrow> 'c list \<Rightarrow> 'c list \<Rightarrow> 's \<Rightarrow> 's" where
  "applyCalls ans eff l [] s = s"
| "applyCalls ans eff l (c # cs) s = applyCalls ans eff (l @ [c]) cs (if ans l c then eff l c s else s)"

text \<open>A property \<open>J\<close> of the calls made so far and the state they led to is kept by a run when every call keeps it, refused or not.\<close>

lemma applyCalls_invariant:
  assumes "traceOk P l cs" and "J l s"
    and "\<And>l c s. P l c \<Longrightarrow> J l s \<Longrightarrow> ans l c \<Longrightarrow> J (l @ [c]) (eff l c s)"
    and "\<And>l c s. P l c \<Longrightarrow> J l s \<Longrightarrow> \<not> ans l c \<Longrightarrow> J (l @ [c]) s"
  shows "J (l @ cs) (applyCalls ans eff l cs s)"
  using assms(1,2)
proof (induction cs arbitrary: l s)
  case (Cons c cs)
  then have "J (l @ [c]) (if ans l c then eff l c s else s)" using assms(3,4) by simp
  with Cons.IH [of "l @ [c]"] Cons.prems(1) show ?case by simp
qed simp

text \<open>A call knows of no calls but those of the run.\<close>

lemma traceOk_within: "traceOk P l cs \<Longrightarrow> traceOk (\<lambda>k c. P k c \<and> set k \<subseteq> set (l @ cs)) l cs"
proof -
  have "traceOk P k ds \<Longrightarrow> set (k @ ds) \<subseteq> S \<Longrightarrow> traceOk (\<lambda>k c. P k c \<and> set k \<subseteq> S) k ds" for k ds S
    by (induction ds arbitrary: k) auto
  then show "traceOk P l cs \<Longrightarrow> traceOk (\<lambda>k c. P k c \<and> set k \<subseteq> set (l @ cs)) l cs" by blast
qed

end
