(* ===== verification/Pod_Unregistration.thy ===== *)
theory Pod_Unregistration
  imports Runner_Pod_Controller Run_History
begin

section \<open>What a reconciliation of a runner pod may leave behind\<close>

text \<open>
  The calls of \<open>Reconcile_RunnerPod\<close> (\<open>src/controllers/runner_pod_controller.go\<close>) and of the stop procedure it runs, each judged with the calls before it: a pod is patched to be unregistered only when it was already, when it has
  stopped, when GitHub does not know the runner, or when the runner has been removed from GitHub earlier in the same run. The theory of scaling down rests on these lemmas.
\<close>

subsection \<open>The stop procedure\<close>

abbreviation unregistered :: "ObjectMeta \<Rightarrow> bool" where
  "unregistered m \<equiv> getAnnotation m AnnotationKeyUnregistrationCompleteTimestamp \<noteq> None"

text \<open>What a patch keeps of a pod.\<close>

definition samePod :: "Pod \<Rightarrow> Pod \<Rightarrow> bool" where
  "samePod p p' \<longleftrightarrow> pod_Status p' = pod_Status p \<and> pod_Spec p' = pod_Spec p \<and> om_Name (pod_Meta p') = om_Name (pod_Meta p) \<and>
     om_DeletionTimestamp (pod_Meta p') = om_DeletionTimestamp (pod_Meta p) \<and> (unregistered (pod_Meta p) \<longrightarrow> unregistered (pod_Meta p'))"

definition sameMarks :: "Pod \<Rightarrow> Pod \<Rightarrow> bool" where
  "sameMarks p p' \<longleftrightarrow> samePod p p' \<and> om_Finalizers (pod_Meta p') = om_Finalizers (pod_Meta p) \<and>
     getAnnotation (pod_Meta p') AnnotationKeyRunnerID = getAnnotation (pod_Meta p) AnnotationKeyRunnerID"

lemma samePod_refl [simp]: "samePod p p" "sameMarks p p"
  by (simp_all add: samePod_def sameMarks_def)

lemma samePod_trans: "samePod p q \<Longrightarrow> samePod q s \<Longrightarrow> samePod p s"
  by (auto simp: samePod_def)

lemma sameMarks_trans: "sameMarks p q \<Longrightarrow> sameMarks q s \<Longrightarrow> sameMarks p s"
  by (auto simp: sameMarks_def intro: samePod_trans)

lemma sameMarks_setAnnotation:
  "k \<noteq> AnnotationKeyRunnerID \<Longrightarrow> sameMarks p (p\<lparr>pod_Meta := setAnnotation (pod_Meta p) k v\<rparr>)"
  by (simp add: sameMarks_def samePod_def)

text \<open>What the pod's state depends on is kept by a patch.\<close>

definition canRun :: "Pod \<Rightarrow> bool" where
  "canRun p \<longleftrightarrow> \<not> runnerPodOrContainerIsStopped p \<and> runnerContainerExitCode p = None"

lemma samePod_canRun: "samePod p p' \<Longrightarrow> canRun p' = canRun p"
  by (simp add: canRun_def samePod_def runnerPodOrContainerIsStopped_def runnerContainerExitCode_def)

text \<open>
  When the unregistration of a pod may be declared complete after the calls \<open>l\<close>. The disjuncts are those of \<open>safeToDelete\<close>, but here the removal of the runner is a call that has been made.
\<close>

definition unregisteredBy :: "GitHub \<Rightarrow> string \<times> string \<times> string \<Rightarrow> string \<Rightarrow> Pod \<Rightarrow> kubeCall list \<Rightarrow> bool" where
  "unregisteredBy gh scope n p l = (case scope of (e, og, r) \<Rightarrow>
     unregistered (pod_Meta p) \<or> \<not> canRun p \<or> knownRunnerID gh e og r n p = Ret None \<or>
     (\<exists>i. knownRunnerID gh e og r n p = Ret (Some i) \<and> RemoveGitHubRunner e og r i \<in> set l \<and>
        (RemoveRunner gh e og r i = Ret () \<or> (\<exists>err. RemoveRunner gh e og r i = Err err \<and> asErrorResponse err = Some 403))))"

lemma unregisteredBy_cong:
  assumes "sameMarks p p'" and "unregistered (pod_Meta p') = unregistered (pod_Meta p)"
  shows "unregisteredBy gh sc n p' l = unregisteredBy gh sc n p l"
proof -
  have "knownRunnerID gh e og r n p' = knownRunnerID gh e og r n p" for e og r
    using assms(1) by (simp only: knownRunnerID_def sameMarks_def)
  moreover have "canRun p' = canRun p" using assms(1) samePod_canRun by (simp add: sameMarks_def)
  ultimately show ?thesis using assms(2) by (simp only: unregisteredBy_def)
qed

lemma unregisteredBy_mono: "unregisteredBy gh sc n p l \<Longrightarrow> set l \<subseteq> set l' \<Longrightarrow> unregisteredBy gh sc n p l'"
  unfolding unregisteredBy_def by (auto split: prod.splits)

text \<open>The calls of the stop procedure on a pod.\<close>

definition stopCall :: "GitHub \<Rightarrow> string \<times> string \<times> string \<Rightarrow> string \<Rightarrow> Pod \<Rightarrow> kubeCall list \<Rightarrow> kubeCall \<Rightarrow> bool" where
  "stopCall gh scope n p l call =
     (case call of
        PatchPod p' \<Rightarrow> sameMarks p p' \<and> (unregistered (pod_Meta p') \<longrightarrow> unregisteredBy gh scope n p l)
      | RemoveGitHubRunner e og r i \<Rightarrow> scope = (e, og, r)
      | _ \<Rightarrow> False)"

lemma stopCall_cong:
  assumes "sameMarks p p'" and "unregistered (pod_Meta p') = unregistered (pod_Meta p)" and "stopCall gh sc n p' l c"
  shows "stopCall gh sc n p l c"
  using assms unregisteredBy_cong [OF assms(1,2)] by (auto simp: stopCall_def intro: sameMarks_trans split: kubeCall.splits)

lemma hist_annotatePodOnce:
  assumes "k \<noteq> AnnotationKeyRunnerID" and "k = AnnotationKeyUnregistrationCompleteTimestamp \<Longrightarrow> unregisteredBy gh sc n p l"
  shows "hist (stopCall gh sc n p)
    (\<lambda>l' q. set l \<subseteq> set l' \<and> (\<exists>p'. q = Some p' \<and> sameMarks p p' \<and> getAnnotation (pod_Meta p') k \<noteq> None \<and>
       (k \<noteq> AnnotationKeyUnregistrationCompleteTimestamp \<longrightarrow> unregistered (pod_Meta p') = unregistered (pod_Meta p))))
    (annotatePodOnce api (Some p) k v) l"
proof -
  let ?u = "p\<lparr>pod_Meta := setAnnotation (pod_Meta p) k v\<rparr>"
  have "stopCall gh sc n p l (PatchPod ?u)"
    using assms sameMarks_setAnnotation [OF assms(1)] by (auto simp: stopCall_def unregisteredBy_def split: prod.splits)
  then show ?thesis
    by (auto simp: annotatePodOnce_def Let_def sameMarks_setAnnotation [OF assms(1)] intro!: hist_eret hist_write_then)
qed

lemma hist_unregistrationFailed:
  assumes "asErrorResponse err = Some 403 \<or> \<not> canRun p \<Longrightarrow> unregisteredBy gh sc n p l"
  shows "hist (stopCall gh sc n p) (\<lambda>l'. doneOk (\<lambda>_. unregisteredBy gh sc n p l')) (unregistrationFailed env api d e og r name p err) l"
proof -
  let ?k = AnnotationKeyRunnerCompletionWaitStartTimestamp
  have w: "hist (stopCall gh sc n p) (\<lambda>l'. doneOk (\<lambda>_. unregisteredBy gh sc n p l'))
      (sbind (sorElse emptyResult (annotatePodOnce api (Some p) ?k (se_Stamp env))) (\<lambda>_. sstop emptyResult None)) l"
    by (rule hist_sbind [OF hist_sorElse [OF hist_annotatePodOnce]]) (simp_all add: annotation_keys hist_sstop)
  have g: "hist (stopCall gh sc n p) (\<lambda>l' _. l' = l) (ecatch (elift (getRunner (se_GitHub env) e og r name)) (\<lambda>e. eret None)) l"
    by (cases "getRunner (se_GitHub env) e og r name") (auto simp: hist_def go_simps)
  have "runnerContainerExitCode p \<noteq> None \<Longrightarrow> \<not> canRun p" by (simp add: canRun_def)
  with assms show ?thesis unfolding unregistrationFailed_def Let_def
    by (intro hist_if hist_sstop hist_option hist_ebind [OF g]) (auto intro!: hist_sdone hist_sstop w)
qed

lemma hist_ensureRunnerUnregistration:
  assumes "sc = (e, og, r)" and "gh = se_GitHub env"
  shows "hist (stopCall gh sc n p) (\<lambda>l'. doneOk (\<lambda>_. unregisteredBy gh sc n p l')) (ensureRunnerUnregistration env api d e og r n (Some p)) l"
proof -
  let ?P = "stopCall gh sc n p" and ?U = "unregisteredBy gh sc n p"
  have i: "hist ?P (\<lambda>l'. doneOk (\<lambda>x. l' = l \<and> knownRunnerID gh e og r n p = Ret x)) (runnerIDOf gh e og r n p) l"
    by (auto simp: hist_def runnerIDOf_def knownRunnerID_def go_simps split: option.splits go.splits)
  have u: "hist ?P (\<lambda>l' x. (\<forall>err. x = Inl err \<longrightarrow> RemoveRunner gh e og r j = Err err \<and> RemoveGitHubRunner e og r j \<in> set l') \<and> (x = Inr True \<longrightarrow> ?U l'))
      (ecatch (ebind (unregisterRunner gh e og r j) (\<lambda>ok. eret (Inr ok))) (\<lambda>e. eret (Inl e))) l"
    if "knownRunnerID gh e og r n p = Ret (Some j)" for j
    using that by (cases "RemoveRunner gh e og r j") (auto simp: hist_def unregisterRunner_def go_simps stopCall_def assms unregisteredBy_def)
  have f: "hist ?P (\<lambda>l'. doneOk (\<lambda>_. ?U l')) (unregistrationFailed env api d e og r n p err) l'"
    if "knownRunnerID gh e og r n p = Ret (Some j)" "RemoveRunner gh e og r j = Err err \<and> RemoveGitHubRunner e og r j \<in> set l'" for j err l'
    using that by (intro hist_unregistrationFailed) (auto simp: unregisteredBy_def assms(1))
  show ?thesis unfolding ensureRunnerUnregistration_def option.case assms(2) [symmetric]
  proof (rule hist_sbind [OF i], elim conjE, intro hist_if hist_option)
    fix l' x j
    assume "l' = l" and "knownRunnerID gh e og r n p = Ret x" and "x = Some j"
    then have k: "knownRunnerID gh e og r n p = Ret (Some j)" and l: "l' = l" by simp_all
    show "hist ?P (\<lambda>l'. doneOk (\<lambda>_. ?U l'))
      (ebind (ecatch (ebind (unregisterRunner gh e og r j) (\<lambda>ok. eret (Inr ok))) (\<lambda>e. eret (Inl e)))
        (\<lambda>r'. case r' of Inl err \<Rightarrow> unregistrationFailed env api d e og r n p err | Inr ok \<Rightarrow> if ok then sdone () else sstop (requeueAfter d) None)) l'"
      unfolding l by (rule hist_ebind [OF u [OF k]]) (auto split: sum.split intro!: f [OF k] hist_sdone hist_sstop)
  qed (auto intro!: hist_sdone hist_sstop simp: unregisteredBy_def annotationNonEmpty_def canRun_def assms(1) split: option.splits)
qed

lemma hist_tickRunnerGracefulStop:
  assumes "sc = (e, og, r)" and "gh = se_GitHub env"
  shows "hist (stopCall gh sc n p) (\<lambda>l'. doneOk (\<lambda>q. \<exists>p'. q = Some p' \<and> sameMarks p p' \<and> unregistered (pod_Meta p') \<and> unregisteredBy gh sc n p l'))
    (tickRunnerGracefulStop env api d e og r n (Some p)) l"
  unfolding tickRunnerGracefulStop_def
proof (rule hist_sbind [OF hist_sorElse [OF hist_annotatePodOnce]], goal_cases)
  case (3 l' q)
  then obtain p' where q: "q = Some p'" and p': "sameMarks p p'" "unregistered (pod_Meta p') = unregistered (pod_Meta p)"
    by (auto simp: annotation_keys)
  note weak = hist_weaken [OF _ stopCall_cong [OF p']]
  show ?case unfolding q
  proof (rule weak)
    let ?Q = "\<lambda>l' q. \<exists>p''. q = Some p'' \<and> sameMarks p' p'' \<and> unregistered (pod_Meta p'') \<and> unregisteredBy gh sc n p' l'"
    show "hist (stopCall gh sc n p') (\<lambda>l'. doneOk (?Q l')) (sbind (ensureRunnerUnregistration env api d e og r n (Some p'))
        (\<lambda>_. sorElse emptyResult (annotatePodOnce api (Some p') AnnotationKeyUnregistrationCompleteTimestamp (se_Stamp env)))) l'"
    proof (rule hist_sbind [OF hist_ensureRunnerUnregistration [OF assms]], rule hist_sorElse)
      fix l1 :: "kubeCall list" assume u: "unregisteredBy gh sc n p' l1"
      show "hist (stopCall gh sc n p') ?Q (annotatePodOnce api (Some p') AnnotationKeyUnregistrationCompleteTimestamp (se_Stamp env)) l1"
        by (rule hist_weaken [OF hist_annotatePodOnce]) (auto simp: annotation_keys u intro: unregisteredBy_mono [OF u])
    qed
    show "doneOk (?Q l1) x \<Longrightarrow> doneOk (\<lambda>q. \<exists>p''. q = Some p'' \<and> sameMarks p p'' \<and> unregistered (pod_Meta p'') \<and> unregisteredBy gh sc n p l1) x" for l1 x
      using unregisteredBy_cong [OF p'] sameMarks_trans [OF p'(1)] by (cases x) auto
  qed
qed (simp_all add: annotation_keys)

subsection \<open>The reconciliation\<close>

text \<open>The pod as \<open>ensureRunnerPodRegistered\<close> hands it on: as it was, or with the id that GitHub lists for its name.\<close>

definition learnedID :: "GitHub \<Rightarrow> string \<times> string \<times> string \<Rightarrow> Pod \<Rightarrow> Pod \<Rightarrow> bool" where
  "learnedID gh scope pod po \<longleftrightarrow> po = pod \<or>
     (case scope of (e, og, r) \<Rightarrow> getAnnotation (pod_Meta pod) AnnotationKeyRunnerID = None \<and>
        (\<exists>x i. getRunner gh e og r (om_Name (pod_Meta pod)) = Ret (Some x) \<and> ghr_ID x = Some i \<and>
           po = pod\<lparr>pod_Meta := setAnnotation (pod_Meta pod) AnnotationKeyRunnerID (Sprintd i)\<rparr>))"

lemma learnedID_same:
  assumes "learnedID gh sc pod po"
  shows "samePod pod po" and "om_Finalizers (pod_Meta po) = om_Finalizers (pod_Meta pod)" and "unregistered (pod_Meta po) = unregistered (pod_Meta pod)"
  using assms by (auto simp: learnedID_def samePod_def annotation_keys split: prod.splits)

text \<open>
  The calls of a reconciliation. A patch keeps what \<open>samePod\<close> says and the runner's id, unless it was just learned; it keeps the finalizer, unless the pod is unregistered; and a pod that is not being deleted is not declared unregistered before its id
  is known.
\<close>

definition podCall :: "GitHub \<Rightarrow> string \<times> string \<times> string \<Rightarrow> Pod \<Rightarrow> kubeCall list \<Rightarrow> kubeCall \<Rightarrow> bool" where
  "podCall gh scope pod l call =
     (case call of
        PatchPod p' \<Rightarrow> (\<exists>po. learnedID gh scope pod po \<and> samePod po p' \<and>
          getAnnotation (pod_Meta p') AnnotationKeyRunnerID = getAnnotation (pod_Meta po) AnnotationKeyRunnerID \<and>
          (runnerPodFinalizerName \<in> set (om_Finalizers (pod_Meta p')) \<or> unregistered (pod_Meta p')) \<and>
          (unregistered (pod_Meta p') \<longrightarrow> unregisteredBy gh scope (om_Name (pod_Meta pod)) po l \<and>
             (unregistered (pod_Meta po) \<or> \<not> canRun po \<or> getAnnotation (pod_Meta po) AnnotationKeyRunnerID \<noteq> None \<or>
              \<not> IsZero (om_DeletionTimestamp (pod_Meta po)))))
      | DeletePod p force \<Rightarrow> p = pod \<and> runnerPodFinalizerName \<notin> set (om_Finalizers (pod_Meta pod)) \<and> \<not> IsZero (om_DeletionTimestamp (pod_Meta pod))
      | RemoveGitHubRunner e og r i \<Rightarrow> scope = (e, og, r)
      | Event s \<Rightarrow> True
      | _ \<Rightarrow> False)"

lemma stopCall_podCall:
  assumes "learnedID gh sc pod po" and "runnerPodFinalizerName \<in> set (om_Finalizers (pod_Meta pod))"
    and "\<not> canRun po \<or> getAnnotation (pod_Meta po) AnnotationKeyRunnerID \<noteq> None \<or> \<not> IsZero (om_DeletionTimestamp (pod_Meta po))"
    and "stopCall gh sc (om_Name (pod_Meta pod)) po l c"
  shows "podCall gh sc pod l c"
  using assms learnedID_same(2) [OF assms(1)]
  by (auto simp: stopCall_def podCall_def sameMarks_def split: kubeCall.splits)

lemma hist_ensureRunnerPodRegistered:
  assumes "sc = (e, og, r)" and "runnerPodFinalizerName \<in> set (om_Finalizers (pod_Meta pod))"
  shows "hist (podCall gh sc pod) (\<lambda>l. doneOk (\<lambda>po. learnedID gh sc pod po \<and>
      (\<not> canRun po \<or> getAnnotation (pod_Meta po) AnnotationKeyRunnerID \<noteq> None)))
    (ensureRunnerPodRegistered gh api e og r (om_Name (pod_Meta pod)) pod) l"
proof (cases "runnerPodOrContainerIsStopped pod \<or> getAnnotation (pod_Meta pod) AnnotationKeyRunnerID \<noteq> None")
  case True
  then show ?thesis by (auto simp: ensureRunnerPodRegistered_def learnedID_def canRun_def intro!: hist_sdone)
next
  case False
  let ?u = "\<lambda>i. pod\<lparr>pod_Meta := setAnnotation (pod_Meta pod) AnnotationKeyRunnerID (Sprintd i)\<rparr>"
  let ?P = "podCall gh sc pod" and ?g = "getRunner gh e og r (om_Name (pod_Meta pod))"
  have learned: "learnedID gh sc pod (?u i)" if "?g = Ret (Some x)" "ghr_ID x = Some i" for x i
    using that False by (auto simp: learnedID_def assms(1))
  have call: "?P l (PatchPod (?u i))" if "learnedID gh sc pod (?u i)" for l i
    using that assms(2) by (auto simp: podCall_def unregisteredBy_def annotation_keys assms(1) intro!: exI [of _ "?u i"])
  have a: "hist ?P (\<lambda>l q. q = Some (?u i)) (annotatePodOnce api (Some pod) AnnotationKeyRunnerID (Sprintd i)) l"
    if "learnedID gh sc pod (?u i)" for l i
    using that False by (auto simp: annotatePodOnce_def Let_def intro!: hist_write_then hist_eret call)
  have g: "hist ?P (\<lambda>l. doneOk (\<lambda>x. ?g = Ret x)) (sorElse (requeueAfter (10 * Second)) (elift ?g)) l"
    by (rule hist_sorElse, rule hist_elift) simp
  show ?thesis unfolding ensureRunnerPodRegistered_def if_not_P [OF False]
  proof (rule hist_sbind [OF g], intro hist_option hist_sstop)
    fix l' x i assume "?g = Ret x" and "Option.bind x ghr_ID = Some i"
    then have l: "learnedID gh sc pod (?u i)" using learned by (auto simp: bind_eq_Some_conv)
    show "hist ?P (\<lambda>l. doneOk (\<lambda>po. learnedID gh sc pod po \<and> (\<not> canRun po \<or> getAnnotation (pod_Meta po) AnnotationKeyRunnerID \<noteq> None)))
      (sbind (sorElse (requeueAfter (10 * Second)) (annotatePodOnce api (Some pod) AnnotationKeyRunnerID (Sprintd i)))
        (\<lambda>po. case po of Some u \<Rightarrow> sdone u | None \<Rightarrow> epanic ''nil pointer dereference'')) l'"
      by (rule hist_sbind [OF hist_sorElse [OF a [OF l]]]) (use l in \<open>auto intro!: hist_sdone\<close>)
  qed
qed

lemma hist_finalizePod:
  assumes "scopeOf (runnerEnvVars pod) = (e, og, r)" and "gh = se_GitHub env"
    and "runnerPodFinalizerName \<in> set (om_Finalizers (pod_Meta pod))" and "\<not> IsZero (om_DeletionTimestamp (pod_Meta pod))"
  shows "hist (podCall gh (e, og, r) pod) (\<lambda>_ _. True) (finalizePod env api d (e, og, r) pod fs) l"
  unfolding finalizePod_def Let_def prod.case
proof (rule hist_finish [where Q = "\<lambda>_ _. True"], rule hist_sbind [OF hist_weaken [OF hist_tickRunnerGracefulStop [OF refl assms(2)] _ asm_rl]])
  have po: "learnedID gh (e, og, r) pod pod" by (simp add: learnedID_def)
  show "stopCall gh (e, og, r) (om_Name (pod_Meta pod)) pod l c \<Longrightarrow> podCall gh (e, og, r) pod l c" for l c
    by (rule stopCall_podCall [OF po assms(3)]) (simp_all add: assms(4))
  fix l' q
  assume "\<exists>p'. q = Some p' \<and> sameMarks pod p' \<and> unregistered (pod_Meta p') \<and> unregisteredBy gh (e, og, r) (om_Name (pod_Meta pod)) pod l'"
  then obtain u where u: "q = Some u" "sameMarks pod u" "unregistered (pod_Meta u)" "unregisteredBy gh (e, og, r) (om_Name (pod_Meta pod)) pod l'" by blast
  have "podCall gh (e, og, r) pod l' (PatchPod (u\<lparr>pod_Meta := (pod_Meta u)\<lparr>om_Finalizers := fs\<rparr>\<rparr>))"
    using u(2-4) assms(4) by (auto simp: podCall_def sameMarks_def samePod_def getAnnotation_def intro!: exI [of _ pod] po)
  then show "hist (podCall gh (e, og, r) pod) (\<lambda>l. doneOk (\<lambda>_. True)) (case q of None \<Rightarrow> epanic ''nil pointer dereference'' | Some u \<Rightarrow>
      sorElse emptyResult (ebind (ewrite api (PatchPod (u\<lparr>pod_Meta := (pod_Meta u)\<lparr>om_Finalizers := fs\<rparr>\<rparr>))) (\<lambda>_. eret emptyResult))) l'"
    unfolding u(1) option.case by (intro hist_sorElse hist_write_then hist_eret TrueI)
qed

lemma hist_forceDelete:
  "podCall gh sc pod l (DeletePod pod True) \<Longrightarrow> hist (podCall gh sc pod) (\<lambda>_ _. True) (forceDelete api pod) l"
  unfolding forceDelete_def
  by (intro hist_ecall hist_option hist_if hist_eerr hist_eret hist_elog TrueI) (simp_all add: podCall_def)

lemma hist_Reconcile_RunnerPod:
  "hist (podCall (se_GitHub env) (scopeOf (runnerEnvVars pod)) pod) (\<lambda>_ _. True) (Reconcile_RunnerPod env api d now (Ret pod)) l"
proof -
  obtain e og r where sc: "scopeOf (runnerEnvVars pod) = (e, og, r)" by (cases "scopeOf (runnerEnvVars pod)") auto
  let ?fs = "om_Finalizers (pod_Meta pod)" and ?d = "unregistrationRetryDelay d" and ?gh = "se_GitHub env"
  let ?P = "podCall ?gh (e, og, r) pod" and ?T = "\<lambda>_ _. True"
  have alive: "hist ?P ?T (finish (sbind (ensureRunnerPodRegistered ?gh api e og r (om_Name (pod_Meta pod)) pod)
      (\<lambda>po. if getAnnotation (pod_Meta po) AnnotationKeyUnregistrationRequestTimestamp \<noteq> None
        then sbind (tickRunnerGracefulStop env api ?d e og r (om_Name (pod_Meta po)) (Some po)) (\<lambda>_. sdone emptyResult) else sdone emptyResult))) l"
    if "runnerPodFinalizerName \<in> set ?fs"
  proof (rule hist_finish [where Q = ?T], rule hist_sbind [OF hist_ensureRunnerPodRegistered [OF refl that]], elim conjE, intro hist_if hist_sdone TrueI)
    fix l' po
    assume po: "learnedID ?gh (e, og, r) pod po" and i: "\<not> canRun po \<or> getAnnotation (pod_Meta po) AnnotationKeyRunnerID \<noteq> None"
    have n: "om_Name (pod_Meta po) = om_Name (pod_Meta pod)" using learnedID_same(1) [OF po] by (simp add: samePod_def)
    show "hist ?P (\<lambda>l. doneOk (\<lambda>_. True)) (sbind (tickRunnerGracefulStop env api ?d e og r (om_Name (pod_Meta po)) (Some po)) (\<lambda>_. sdone emptyResult)) l'"
      unfolding n
    proof (rule hist_sbind [where R = ?T])
      show "hist ?P (\<lambda>l. doneOk (\<lambda>_. True)) (tickRunnerGracefulStop env api ?d e og r (om_Name (pod_Meta pod)) (Some po)) l'"
        by (rule hist_weaken [OF hist_tickRunnerGracefulStop [OF refl refl]])
          (use i in \<open>auto intro: stopCall_podCall [OF po that] simp: doneOk_def split: step.splits\<close>)
    qed (simp add: hist_sdone)
  qed
  show ?thesis
  proof (cases "IsZero (om_DeletionTimestamp (pod_Meta pod))")
    case True
    have "?P l (PatchPod (pod\<lparr>pod_Meta := (pod_Meta pod)\<lparr>om_Finalizers := ?fs @ [runnerPodFinalizerName]\<rparr>\<rparr>))"
      by (auto simp: podCall_def learnedID_def samePod_def getAnnotation_def unregisteredBy_def intro!: exI [of _ pod])
    with True alive show ?thesis
      by (auto simp: Reconcile_RunnerPod_def sc addFinalizer_eq intro!: hist_eret hist_eerr hist_write_then)
  next
    case False
    then obtain t where "om_DeletionTimestamp (pod_Meta pod) = Some t" by (cases "om_DeletionTimestamp (pod_Meta pod)") auto
    with False show ?thesis unfolding sc
      by (auto simp: Reconcile_RunnerPod_def sc removeFinalizer_eq podCall_def intro!: hist_eret hist_eerr hist_finalizePod [OF sc refl] hist_forceDelete)
  qed
qed

end
