(* ===== verification/Scale_Down.thy ===== *)
theory Scale_Down
  imports Pod_Unregistration Pod_Owner Runner_Controller
begin

section \<open>Scaling down, across the controllers\<close>

text \<open>
  The runners of one scope, their pods and GitHub, with the three controllers that bring a runner down: the synchronisation of owners marks a runner for unregistration, later as unregistered, and deletes it
  (\<open>src/controllers/runner_pod_owner.go\<close>); the pod controller removes the runner from GitHub and lets go of the pod (\<open>runner_pod_controller.go\<close>, \<open>runner_graceful_stop.go\<close>); the runner controller creates the pod of a runner that has none
  (\<open>runner_controller.go\<close>). Each reconciliation is one step, made of the definitions of the other theories: it reads the objects as they are, and those of its writes that the API server accepts take effect. Between reconciliations anything
  else may happen: runners register, take jobs and leave, containers stop and start again, pods and runners are deleted.

  GitHub is a parameter: every reconciliation has a client of its own, which may give any answers but one, that a runner with a job was removed. What the protocol depends on and does not control is recorded as \<open>race\<close>s of a pod, among them a
  listing out of the client's cache that is out of date about the pod, and a removal refused with 403; the theorem of safety is about pods without a race. The locale \<open>true_answers\<close> is what a reconciliation without a race may count on.
\<close>

subsection \<open>GitHub\<close>

text \<open>The self-hosted runners of the scope, by name and id, and the names of those that have a job.\<close>

record GitHubState =
  g_Runners :: "(string \<times> int) list"
  g_Busy :: "string set"

text \<open>
  What the code relies on: GitHub removes no runner that has a job. Beyond that a client may get any answer: \<open>ListRunners\<close> may come from the cache and be out of date, and a removal may fail in any way.
\<close>

definition removesOnlyIdle :: "GitHub \<Rightarrow> string \<times> string \<times> string \<Rightarrow> GitHubState \<Rightarrow> bool" where
  "removesOnlyIdle gh scope s \<longleftrightarrow> (case scope of (e, og, r) \<Rightarrow> \<forall>(n, i) \<in> set (g_Runners s). RemoveRunner gh e og r i = Ret () \<longrightarrow> n \<notin> g_Busy s)"

text \<open>What a listing says of the name \<open>n\<close> is what GitHub knows of it, \<open>g\<close>.\<close>

definition upToDate :: "GhRunner list \<Rightarrow> (string \<times> int) list \<Rightarrow> string \<Rightarrow> bool" where
  "upToDate xs g n \<longleftrightarrow> (\<forall>x \<in> set xs. GetName x = n \<longrightarrow> (case ghr_ID x of None \<Rightarrow> False | Some i \<Rightarrow> (n, i) \<in> set g)) \<and>
     (n \<in> fst ` set g \<longrightarrow> n \<in> GetName ` set xs)"

text \<open>The client has no permission for a removal: the code takes the runner for unregistered then (\<open>runner_graceful_stop.go\<close>, \<open>ensureRunnerUnregistration\<close>).\<close>

fun forbidden :: "GitHub \<Rightarrow> kubeCall \<Rightarrow> bool" where
  "forbidden gh (RemoveGitHubRunner e og r i) = (case RemoveRunner gh e og r i of Err err \<Rightarrow> asErrorResponse err = Some 403 | _ \<Rightarrow> False)"
| "forbidden gh _ = False"

subsection \<open>The world\<close>

text \<open>
  What may come in the way of a pod: its runner was marked as unregistered before the pod was created; GitHub listed a runner of its name before it was created; its deletion was requested before the runner had registered or before the pod had the
  finalizer; its container was seen to stop and came back; it registered more than once; before its runner's id was known, the pod controller was given a listing that is out of date about it, from the cache of the client; or GitHub answered the
  attempt to remove its runner with 403.
\<close>

datatype race = BornUnregistered | StaleRegistration | DeletedEarly | Restarted | Reregistered | OutdatedListing | RemovalForbidden

record World =
  w_Runners :: "string \<Rightarrow> Runner option"
  w_Pods :: "string \<Rightarrow> Pod option"
  w_GitHub :: GitHubState
  w_Known :: "string set" \<comment> \<open>the names whose present pod has registered\<close>
  w_Races :: "string \<Rightarrow> race set" \<comment> \<open>of the present pod of a name\<close>

abbreviation deleting :: "ObjectMeta \<Rightarrow> bool" where "deleting m \<equiv> \<not> IsZero (om_DeletionTimestamp m)"

definition ownerReads :: "World \<Rightarrow> OwnerReads" where
  "ownerReads w = \<lparr>ow_GetPod = \<lambda>ns n. (case w_Pods w n of None \<Rightarrow> Err (Kube NotFound) | Some p \<Rightarrow> Ret p), ow_ListPods = \<lambda>ls. Ret []\<rparr>"

definition runnerReads :: "World \<Rightarrow> string \<Rightarrow> RunnerReads" where
  "runnerReads w n = \<lparr>rn_GetRunner = (case w_Runners w n of None \<Rightarrow> Err (Kube NotFound) | Some r \<Rightarrow> Ret r),
     rn_GetPod = (case w_Pods w n of None \<Rightarrow> Err (Kube NotFound) | Some p \<Rightarrow> Ret p)\<rparr>"

subsubsection \<open>The API server\<close>

definition putRunner :: "Runner \<Rightarrow> World \<Rightarrow> World" where
  "putRunner r w = (let n = om_Name (r_Meta r)
     in if w_Runners w n = None then w
        else w\<lparr>w_Runners := (w_Runners w)(n := if deleting (r_Meta r) \<and> om_Finalizers (r_Meta r) = [] then None else Some r)\<rparr>)"

definition deleteRunner :: "time \<Rightarrow> Runner \<Rightarrow> World \<Rightarrow> World" where
  "deleteRunner t r w = putRunner (r\<lparr>r_Meta := (r_Meta r)\<lparr>om_DeletionTimestamp := Some t\<rparr>\<rparr>) w"

definition putPod :: "Pod \<Rightarrow> World \<Rightarrow> World" where
  "putPod p w = (let n = om_Name (pod_Meta p) in if w_Pods w n = None then w else w\<lparr>w_Pods := (w_Pods w)(n \<mapsto> p)\<rparr>)"

definition createPod :: "Pod \<Rightarrow> World \<Rightarrow> World" where
  "createPod p w =
     (let n = om_Name (pod_Meta p)
      in if w_Pods w n \<noteq> None then w
         else w\<lparr>w_Pods := (w_Pods w)(n \<mapsto> p), w_Known := w_Known w - {n},
           w_Races := (w_Races w)(n := (if unregistered (pod_Meta p) then {BornUnregistered} else {}) \<union>
             (if n \<in> fst ` set (g_Runners (w_GitHub w)) then {StaleRegistration} else {}))\<rparr>)"

definition unregisterID :: "int \<Rightarrow> World \<Rightarrow> World" where
  "unregisterID i w = w\<lparr>w_GitHub := (w_GitHub w)\<lparr>g_Runners := filter (\<lambda>(n, j). j \<noteq> i) (g_Runners (w_GitHub w))\<rparr>\<rparr>"

definition createRunner :: "string \<Rightarrow> Runner \<Rightarrow> World \<Rightarrow> World" where
  "createRunner n r w =
     (if w_Runners w n \<noteq> None then w else w\<lparr>w_Runners := (w_Runners w)(n \<mapsto> r\<lparr>r_Meta := (r_Meta r)\<lparr>om_Name := n\<rparr>\<rparr>)\<rparr>)"

text \<open>
  The effect of a call. \<open>gh\<close> is GitHub as the run sees it, \<open>now\<close> the server's clock and \<open>name k\<close> the name it generates for an object created by the call number \<open>k\<close>.
\<close>

fun effect :: "GitHub \<Rightarrow> time \<Rightarrow> (nat \<Rightarrow> string) \<Rightarrow> kubeCall list \<Rightarrow> kubeCall \<Rightarrow> World \<Rightarrow> World" where
  "effect gh now name l (CreateRunner r) w = createRunner (name (length l)) r w"
| "effect gh now name l (UpdateRunner r) w = putRunner r w"
| "effect gh now name l (PatchRunner r) w = putRunner r w"
| "effect gh now name l (PatchRunnerStatus r) w =
     (case w_Runners w (om_Name (r_Meta r)) of None \<Rightarrow> w | Some q \<Rightarrow> putRunner (q\<lparr>r_Status := r_Status r\<rparr>) w)"
| "effect gh now name l (DeleteRunner r) w = deleteRunner now r w"
| "effect gh now name l (CreatePod p) w = createPod p w"
| "effect gh now name l (PatchPod p) w = putPod p w"
| "effect gh now name l (DeletePod p force) w = w\<lparr>w_Pods := (w_Pods w)(om_Name (pod_Meta p) := None)\<rparr>"
| "effect gh now name l (RemoveGitHubRunner e og r i) w = unregisterID i w"
| "effect gh now name l c w = w"

text \<open>A call takes effect when the API server accepts it; a removal on GitHub, when GitHub confirms it.\<close>

fun takesEffect :: "GitHub \<Rightarrow> kubeCall api \<Rightarrow> kubeCall list \<Rightarrow> kubeCall \<Rightarrow> bool" where
  "takesEffect gh api l (RemoveGitHubRunner e og r i) = (RemoveRunner gh e og r i = Ret ())"
| "takesEffect gh api l c = (api l c = None)"

definition runOn :: "GitHub \<Rightarrow> kubeCall api \<Rightarrow> time \<Rightarrow> (nat \<Rightarrow> string) \<Rightarrow> (kubeCall, 'a) eff \<Rightarrow> World \<Rightarrow> World" where
  "runOn gh api now name m w = applyCalls (takesEffect gh api) (effect gh now name) [] (writes m) w"

subsubsection \<open>Steps\<close>

text \<open>A new runner carries none of the marks of the protocol.\<close>

definition unmarked :: "ObjectMeta \<Rightarrow> bool" where
  "unmarked m \<longleftrightarrow> getAnnotation m AnnotationKeyRunnerID = None \<and> \<not> unregistered m"

text \<open>A runner registers: GitHub replaces an older registration of the name.\<close>

definition registerRunner :: "string \<Rightarrow> int \<Rightarrow> World \<Rightarrow> World" where
  "registerRunner n i w = w\<lparr>
     w_GitHub := \<lparr>g_Runners = (n, i) # filter (\<lambda>(m, j). m \<noteq> n) (g_Runners (w_GitHub w)), g_Busy = g_Busy (w_GitHub w) - {n}\<rparr>,
     w_Known := insert n (w_Known w),
     w_Races := (w_Races w)(n := w_Races w n \<union> (if n \<in> w_Known w then {Reregistered} else {}))\<rparr>"

definition leaveGitHub :: "string \<Rightarrow> World \<Rightarrow> World" where
  "leaveGitHub n w = w\<lparr>w_GitHub := \<lparr>g_Runners = filter (\<lambda>(m, j). m \<noteq> n) (g_Runners (w_GitHub w)), g_Busy = g_Busy (w_GitHub w) - {n}\<rparr>\<rparr>"

definition setBusy :: "string set \<Rightarrow> World \<Rightarrow> World" where
  "setBusy ns w = w\<lparr>w_GitHub := (w_GitHub w)\<lparr>g_Busy := ns\<rparr>\<rparr>"

definition setStatus :: "Pod \<Rightarrow> PodStatus \<Rightarrow> World \<Rightarrow> World" where
  "setStatus p st w =
     (let n = om_Name (pod_Meta p); p' = p\<lparr>pod_Status := st\<rparr>
      in w\<lparr>w_Pods := (w_Pods w)(n \<mapsto> p'), w_Races := (w_Races w)(n := w_Races w n \<union> (if \<not> canRun p \<and> canRun p' then {Restarted} else {}))\<rparr>)"

definition requestPodDeletion :: "time \<Rightarrow> Pod \<Rightarrow> World \<Rightarrow> World" where
  "requestPodDeletion t p w =
     (let n = om_Name (pod_Meta p)
      in w\<lparr>w_Pods := (w_Pods w)(n \<mapsto> p\<lparr>pod_Meta := (pod_Meta p)\<lparr>om_DeletionTimestamp := Some t\<rparr>\<rparr>),
           w_Races := (w_Races w)(n := w_Races w n \<union>
             (if n \<notin> w_Known w \<or> runnerPodFinalizerName \<notin> set (om_Finalizers (pod_Meta p)) then {DeletedEarly} else {}))\<rparr>)"

text \<open>The races of a reconciliation of \<open>pod\<close> that makes the calls \<open>l\<close> while GitHub knows the runners \<open>g\<close> and the client answers with \<open>gh\<close>.\<close>

definition githubRaces :: "GitHub \<Rightarrow> string \<times> string \<times> string \<Rightarrow> (string \<times> int) list \<Rightarrow> Pod \<Rightarrow> kubeCall list \<Rightarrow> race set" where
  "githubRaces gh scope g pod l = (case scope of (e, og, r) \<Rightarrow>
     (if getAnnotation (pod_Meta pod) AnnotationKeyRunnerID = None \<and>
         (case ListRunners gh e og r of Ret xs \<Rightarrow> \<not> upToDate xs g (om_Name (pod_Meta pod)) | _ \<Rightarrow> False) then {OutdatedListing} else {}) \<union>
     (if \<exists>c \<in> set l. forbidden gh c then {RemovalForbidden} else {}))"

definition addRaces :: "string \<Rightarrow> race set \<Rightarrow> World \<Rightarrow> World" where
  "addRaces n R w = w\<lparr>w_Races := (w_Races w)(n := w_Races w n \<union> R)\<rparr>"

definition podStep :: "StopEnv \<Rightarrow> kubeCall api \<Rightarrow> time \<Rightarrow> (nat \<Rightarrow> string) \<Rightarrow> duration \<Rightarrow> string \<Rightarrow> Pod \<Rightarrow> World \<Rightarrow> World" where
  "podStep env api now name retryDelay n pod w =
     (let m = Reconcile_RunnerPod env api retryDelay now (Ret pod); gh = se_GitHub env
      in runOn gh api now name m (addRaces n (githubRaces gh (scopeOf (runnerEnvVars pod)) (g_Runners (w_GitHub w)) pod (writes m)) w))"

inductive step :: "string \<times> string \<times> string \<Rightarrow> World \<Rightarrow> World \<Rightarrow> bool" for scope where
  sync: "rangesOver iter \<Longrightarrow> \<forall>r \<in> set rs. w_Runners w (om_Name (r_Meta r)) = Some r \<Longrightarrow> unmarked (r_Meta create) \<Longrightarrow>
    step scope w (runOn gh api now name
      (syncRunnerPodsOwners (ownerReads w) api iter now stamp effectiveTime desired (OwnerRunner create) ephemeral (map OwnerRunner rs)) w)"
| reconcile_pod: "w_Pods w n = Some pod \<Longrightarrow> scopeOf (runnerEnvVars pod) = scope \<Longrightarrow> removesOnlyIdle (se_GitHub env) scope (w_GitHub w) \<Longrightarrow>
    step scope w (podStep env api now name retryDelay n pod w)"
| reconcile_runner: "setsOnlyReference (re_PodEnv env) \<Longrightarrow> w_Runners w n = Some r \<Longrightarrow>
    step scope w (runOn gh api now name (Reconcile_Runner env api now cache (runnerReads w n)) w)"
| register: "w_Pods w n = Some p \<Longrightarrow> canRun p \<Longrightarrow> step scope w (registerRunner n i w)"
| leave: "step scope w (leaveGitHub n w)"
| job_start: "w_Pods w n = Some p \<Longrightarrow> canRun p \<Longrightarrow> n \<in> w_Known w \<Longrightarrow> n \<in> fst ` set (g_Runners (w_GitHub w)) \<Longrightarrow>
    step scope w (setBusy (insert n (g_Busy (w_GitHub w))) w)"
| job_end: "step scope w (setBusy (g_Busy (w_GitHub w) - {n}) w)"
| status: "w_Pods w n = Some p \<Longrightarrow> step scope w (setStatus p st w)"
| delete_pod: "w_Pods w n = Some p \<Longrightarrow> \<not> deleting (pod_Meta p) \<Longrightarrow> t \<noteq> zeroTime \<Longrightarrow> step scope w (requestPodDeletion t p w)"
| pod_gone: "w_Pods w n = Some p \<Longrightarrow> deleting (pod_Meta p) \<Longrightarrow> runnerPodFinalizerName \<notin> set (om_Finalizers (pod_Meta p)) \<Longrightarrow>
    step scope w (w\<lparr>w_Pods := (w_Pods w)(n := None)\<rparr>)"
| create_runner: "unmarked (r_Meta r) \<Longrightarrow> step scope w (createRunner n r w)"
| delete_runner: "w_Runners w n = Some r \<Longrightarrow> step scope w (deleteRunner t r w)"

text \<open>At the beginning there are no pods, and no runner is marked; GitHub may know any runners, none of which has a job.\<close>

definition initial :: "World \<Rightarrow> bool" where
  "initial w \<longleftrightarrow> w_Pods w = (\<lambda>n. None) \<and> (\<forall>n r. w_Runners w n = Some r \<longrightarrow> om_Name (r_Meta r) = n \<and> unmarked (r_Meta r)) \<and>
     g_Busy (w_GitHub w) = {} \<and> distinct (map fst (g_Runners (w_GitHub w))) \<and> w_Known w = {}"

definition reachable :: "string \<times> string \<times> string \<Rightarrow> World \<Rightarrow> bool" where
  "reachable scope w \<longleftrightarrow> (\<exists>w0. initial w0 \<and> (step scope)\<^sup>*\<^sup>* w0 w)"

text \<open>A job is running on the pod of a name.\<close>

definition jobRunning :: "World \<Rightarrow> string \<Rightarrow> bool" where
  "jobRunning w n \<longleftrightarrow> n \<in> g_Busy (w_GitHub w) \<and> (\<exists>p. w_Pods w n = Some p \<and> canRun p)"

subsection \<open>The invariant\<close>

text \<open>The pod of a name is out of service for good: it cannot run any more, or it has been registered and is not any more.\<close>

definition retired :: "(string \<times> int) list \<Rightarrow> string set \<Rightarrow> string \<Rightarrow> Pod \<Rightarrow> bool" where
  "retired g K n p \<longleftrightarrow> \<not> canRun p \<or> n \<in> K \<and> n \<notin> fst ` set g"

text \<open>
  What holds of a pod without a race: GitHub lists its name only if it has registered; the id it carries is the one GitHub lists; its deletion was requested after it had registered; it is marked as unregistered only when it is out of
  service; and it keeps its finalizer until then.
\<close>

definition podInv :: "(string \<times> int) list \<Rightarrow> string set \<Rightarrow> race set \<Rightarrow> string \<Rightarrow> Pod \<Rightarrow> bool" where
  "podInv g K R n p \<longleftrightarrow> om_Name (pod_Meta p) = n \<and>
     (R = {} \<longrightarrow> (n \<in> fst ` set g \<longrightarrow> n \<in> K) \<and>
       (\<forall>s i. getAnnotation (pod_Meta p) AnnotationKeyRunnerID = Some s \<longrightarrow> ParseInt10 s = Some i \<longrightarrow> n \<in> K \<and> (\<forall>j. (n, j) \<in> set g \<longrightarrow> j = i)) \<and>
       (deleting (pod_Meta p) \<longrightarrow> n \<in> K) \<and>
       (unregistered (pod_Meta p) \<longrightarrow> retired g K n p) \<and>
       (deleting (pod_Meta p) \<longrightarrow> runnerPodFinalizerName \<in> set (om_Finalizers (pod_Meta p)) \<or> unregistered (pod_Meta p)))"

abbreviation podSafe :: "Pod \<Rightarrow> bool" where "podSafe p \<equiv> unregistered (pod_Meta p) \<or> deleting (pod_Meta p)"

text \<open>A runner that is marked as unregistered has no pod, or one that is marked as well or being deleted.\<close>

definition runnerInv :: "(string \<Rightarrow> Pod option) \<Rightarrow> string \<Rightarrow> Runner \<Rightarrow> bool" where
  "runnerInv pods n r \<longleftrightarrow> om_Name (r_Meta r) = n \<and> getAnnotation (r_Meta r) AnnotationKeyRunnerID = None \<and>
     (unregistered (r_Meta r) \<longrightarrow> (\<forall>p. pods n = Some p \<longrightarrow> podSafe p))"

definition worldInv :: "World \<Rightarrow> bool" where
  "worldInv w \<longleftrightarrow>
     (\<forall>n p. w_Pods w n = Some p \<longrightarrow> podInv (g_Runners (w_GitHub w)) (w_Known w) (w_Races w n) n p) \<and>
     (\<forall>n r. w_Runners w n = Some r \<longrightarrow> runnerInv (w_Pods w) n r) \<and>
     g_Busy (w_GitHub w) \<subseteq> fst ` set (g_Runners (w_GitHub w)) \<and> distinct (map fst (g_Runners (w_GitHub w)))"

lemma worldInvD:
  assumes "worldInv w"
  shows "w_Pods w n = Some p \<Longrightarrow> podInv (g_Runners (w_GitHub w)) (w_Known w) (w_Races w n) n p"
    and "w_Runners w n = Some r \<Longrightarrow> runnerInv (w_Pods w) n r"
    and "g_Busy (w_GitHub w) \<subseteq> fst ` set (g_Runners (w_GitHub w))" and "distinct (map fst (g_Runners (w_GitHub w)))"
  using assms by (simp_all add: worldInv_def)

lemma podInv_name: "podInv g K R n p \<Longrightarrow> om_Name (pod_Meta p) = n"
  by (simp add: podInv_def)

lemma runnerInv_name: "runnerInv pods n r \<Longrightarrow> om_Name (r_Meta r) = n"
  by (simp add: runnerInv_def)

lemma worldInv_initial: "initial w \<Longrightarrow> worldInv w"
  by (simp add: initial_def worldInv_def runnerInv_def unmarked_def)

text \<open>Runners that leave GitHub disturb no pod.\<close>

lemma in_fst: "n \<in> fst ` set g \<longleftrightarrow> (\<exists>j. (n, j) \<in> set g)"
  by force

lemma podInv_cong: "(\<And>j. (n, j) \<in> set g' \<longleftrightarrow> (n, j) \<in> set g) \<Longrightarrow> (n \<in> K' \<longleftrightarrow> n \<in> K) \<Longrightarrow> podInv g' K' R n p = podInv g K R n p"
  unfolding podInv_def retired_def in_fst by simp

lemma podInv_shrink: "podInv g K R n p \<Longrightarrow> set g' \<subseteq> set g \<Longrightarrow> podInv g' K R n p"
  unfolding podInv_def retired_def in_fst by blast

lemma podInv_races: "R' \<noteq> {} \<Longrightarrow> om_Name (pod_Meta p) = n \<Longrightarrow> podInv g K R' n p"
  by (simp add: podInv_def)

subsubsection \<open>The writes of the controllers\<close>

lemma worldInv_putPod:
  assumes "worldInv w" and "podInv (g_Runners (w_GitHub w)) (w_Known w) (w_Races w n) n p"
    and "\<And>q. w_Pods w n = Some q \<Longrightarrow> podSafe q \<Longrightarrow> podSafe p"
  shows "worldInv (putPod p w)"
  using assms podInv_name [OF assms(2)] unfolding worldInv_def putPod_def Let_def by (auto simp: runnerInv_def)

lemma worldInv_putRunner: "worldInv w \<Longrightarrow> runnerInv (w_Pods w) (om_Name (r_Meta r)) r \<Longrightarrow> worldInv (putRunner r w)"
  unfolding worldInv_def putRunner_def Let_def by auto

lemma worldInv_deleteRunner: "worldInv w \<Longrightarrow> runnerInv (w_Pods w) (om_Name (r_Meta r)) r \<Longrightarrow> worldInv (deleteRunner t r w)"
  unfolding deleteRunner_def by (rule worldInv_putRunner) (simp_all add: runnerInv_def getAnnotation_def)

lemma worldInv_createRunner: "worldInv w \<Longrightarrow> unmarked (r_Meta r) \<Longrightarrow> worldInv (createRunner n r w)"
  unfolding worldInv_def createRunner_def by (auto simp: runnerInv_def unmarked_def getAnnotation_def)

lemma worldInv_removePod: "worldInv w \<Longrightarrow> worldInv (w\<lparr>w_Pods := (w_Pods w)(n := None)\<rparr>)"
  unfolding worldInv_def by (auto simp: runnerInv_def)

lemma worldInv_createPod:
  assumes "worldInv w" and "getAnnotation (pod_Meta p) AnnotationKeyRunnerID = None" and "\<not> deleting (pod_Meta p)"
    and "\<And>r. w_Runners w (om_Name (pod_Meta p)) = Some r \<Longrightarrow> unregistered (r_Meta r) \<Longrightarrow> unregistered (pod_Meta p)"
  shows "worldInv (createPod p w)"
proof -
  let ?n = "om_Name (pod_Meta p)" and ?g = "g_Runners (w_GitHub w)"
  define R where "R = (if unregistered (pod_Meta p) then {BornUnregistered} else {}) \<union> (if ?n \<in> fst ` set ?g then {StaleRegistration} else {})"
  have new: "podInv ?g (w_Known w - {?n}) R ?n p" using assms(2,3) by (auto simp: podInv_def R_def)
  have old: "podInv ?g (w_Known w - {?n}) (w_Races w m) m q" if "w_Pods w m = Some q" "m \<noteq> ?n" for m q
    using worldInvD(1) [OF assms(1) that(1)] that(2) podInv_cong [of m ?g ?g "w_Known w - {?n}" "w_Known w"] by simp
  have "runnerInv ((w_Pods w)(?n \<mapsto> p)) m r" if "w_Runners w m = Some r" for m r
    using worldInvD(2) [OF assms(1) that] assms(4) that by (auto simp: runnerInv_def)
  with new old worldInvD(3,4) [OF assms(1)] assms(1) show ?thesis
    unfolding createPod_def Let_def R_def [symmetric] by (simp add: worldInv_def)
qed

lemma worldInv_unregisterID:
  assumes "worldInv w" and "\<And>n. (n, i) \<in> set (g_Runners (w_GitHub w)) \<Longrightarrow> n \<notin> g_Busy (w_GitHub w)"
  shows "worldInv (unregisterID i w)"
proof -
  let ?g = "g_Runners (w_GitHub w)" and ?h = "filter (\<lambda>(n, j). j \<noteq> i) (g_Runners (w_GitHub w))"
  have "g_Busy (w_GitHub w) \<subseteq> fst ` set ?h" using worldInvD(3) [OF assms(1)] assms(2) unfolding subset_iff in_fst by auto
  moreover have "distinct (map fst ?h)" using worldInvD(4) [OF assms(1)] by (rule distinct_map_filter)
  moreover have "podInv ?h (w_Known w) (w_Races w n) n p" if "w_Pods w n = Some p" for n p
    using worldInvD(1) [OF assms(1) that] by (rule podInv_shrink) auto
  ultimately show ?thesis using worldInvD(2) [OF assms(1)] by (simp add: worldInv_def unregisterID_def)
qed

subsubsection \<open>The environment\<close>

lemma distinct_fst_unique: "distinct (map fst g) \<Longrightarrow> (n, i) \<in> set g \<Longrightarrow> (n, j) \<in> set g \<Longrightarrow> i = j"
  by (metis eq_key_imp_eq_value)

lemma worldInv_register:
  assumes "worldInv w" and "w_Pods w n = Some p" and "canRun p"
  shows "worldInv (registerRunner n i w)"
proof -
  let ?g = "g_Runners (w_GitHub w)" and ?K = "w_Known w"
  let ?h = "(n, i) # filter (\<lambda>(m, j). m \<noteq> n) ?g" and ?R = "w_Races w n \<union> (if n \<in> ?K then {Reregistered} else {})"
  have p: "podInv ?g ?K (w_Races w n) n p" using worldInvD(1) [OF assms(1,2)] .
  then have new: "podInv ?h (insert n ?K) ?R n p" using assms(3) by (cases "n \<in> ?K") (auto simp: podInv_def retired_def)
  have old: "podInv ?h (insert n ?K) (w_Races w m) m q" if "w_Pods w m = Some q" "m \<noteq> n" for m q
    using worldInvD(1) [OF assms(1) that(1)] that(2) podInv_cong [of m ?h ?g "insert n ?K" ?K] by auto
  define R where "R = (w_Races w)(n := ?R)"
  have "podInv ?h (insert n ?K) (R m) m q" if "w_Pods w m = Some q" for m q
    using new old that assms(2) by (cases "m = n") (simp_all add: R_def)
  moreover have "g_Busy (w_GitHub w) - {n} \<subseteq> fst ` set ?h" using worldInvD(3) [OF assms(1)] unfolding subset_iff in_fst by auto
  moreover have "distinct (map fst ?h)" using distinct_map_filter [OF worldInvD(4) [OF assms(1)]] by auto
  ultimately show ?thesis using worldInvD(2) [OF assms(1)]
    by (simp add: worldInv_def registerRunner_def R_def [symmetric])
qed

lemma worldInv_leave: "worldInv w \<Longrightarrow> worldInv (leaveGitHub n w)"
proof -
  assume w: "worldInv w"
  let ?g = "g_Runners (w_GitHub w)" and ?h = "filter (\<lambda>(m, j). m \<noteq> n) (g_Runners (w_GitHub w))"
  have "g_Busy (w_GitHub w) - {n} \<subseteq> fst ` set ?h" using worldInvD(3) [OF w] unfolding subset_iff in_fst by auto
  moreover have "podInv ?h (w_Known w) (w_Races w m) m q" if "w_Pods w m = Some q" for m q
    using worldInvD(1) [OF w that] by (rule podInv_shrink) auto
  ultimately show ?thesis using worldInvD(2) [OF w] distinct_map_filter [OF worldInvD(4) [OF w]] by (simp add: worldInv_def leaveGitHub_def)
qed

lemma worldInv_setBusy: "worldInv w \<Longrightarrow> ns \<subseteq> fst ` set (g_Runners (w_GitHub w)) \<Longrightarrow> worldInv (setBusy ns w)"
  by (simp add: worldInv_def setBusy_def)

text \<open>A pod of the world is replaced and perhaps gains races.\<close>

lemma worldInv_repod:
  assumes "worldInv w" and "w_Pods w n = Some p" and "podInv (g_Runners (w_GitHub w)) (w_Known w) (w_Races w n \<union> R) n p'" and "podSafe p \<Longrightarrow> podSafe p'"
  shows "worldInv (w\<lparr>w_Pods := (w_Pods w)(n \<mapsto> p'), w_Races := (w_Races w)(n := w_Races w n \<union> R)\<rparr>)"
  using assms unfolding worldInv_def by (auto simp: runnerInv_def)

lemma worldInv_setStatus:
  assumes "worldInv w" and "w_Pods w n = Some p"
  shows "worldInv (setStatus p st w)"
proof -
  have p: "podInv (g_Runners (w_GitHub w)) (w_Known w) (w_Races w n) n p" using worldInvD(1) [OF assms] .
  show ?thesis unfolding setStatus_def Let_def podInv_name [OF p]
    by (rule worldInv_repod [OF assms]) (use p in \<open>auto simp: podInv_def retired_def\<close>)
qed

lemma worldInv_requestPodDeletion:
  assumes "worldInv w" and "w_Pods w n = Some p" and "t \<noteq> zeroTime"
  shows "worldInv (requestPodDeletion t p w)"
proof -
  have p: "podInv (g_Runners (w_GitHub w)) (w_Known w) (w_Races w n) n p" using worldInvD(1) [OF assms(1,2)] .
  let ?p = "p\<lparr>pod_Meta := (pod_Meta p)\<lparr>om_DeletionTimestamp := Some t\<rparr>\<rparr>" and ?early = "n \<notin> w_Known w \<or> runnerPodFinalizerName \<notin> set (om_Finalizers (pod_Meta p))"
  have a: "getAnnotation (pod_Meta ?p) = getAnnotation (pod_Meta p)" by (simp add: getAnnotation_def fun_eq_iff)
  have c: "canRun ?p = canRun p" by (simp add: canRun_def runnerPodOrContainerIsStopped_def runnerContainerExitCode_def)
  have "podInv (g_Runners (w_GitHub w)) (w_Known w) (w_Races w n \<union> (if ?early then {DeletedEarly} else {})) n ?p"
  proof (cases ?early)
    case False
    with p show ?thesis unfolding podInv_def retired_def a c by auto
  qed (use podInv_name [OF p] in \<open>simp add: podInv_races\<close>)
  then show ?thesis unfolding requestPodDeletion_def Let_def podInv_name [OF p]
    by (rule worldInv_repod [OF assms(1,2)]) (simp add: IsZero_def assms(3))
qed

subsubsection \<open>The synchronisation of owners\<close>

text \<open>What the writes of a run leave of the world \<open>w0\<close> it started in.\<close>

definition syncedFrom :: "World \<Rightarrow> World \<Rightarrow> bool" where
  "syncedFrom w0 w \<longleftrightarrow> worldInv w \<and> w_GitHub w = w_GitHub w0 \<and> w_Known w = w_Known w0 \<and> w_Races w = w_Races w0 \<and>
     (\<forall>n q. w_Pods w n = Some q \<longrightarrow> (\<exists>p. w_Pods w0 n = Some p \<and> (podSafe p = podSafe q)))"

lemma owner_pods_world:
  "owner_pods (ownerReads w) (OwnerRunner r) = Ret (case w_Pods w (om_Name (r_Meta r)) of None \<Rightarrow> [] | Some p \<Rightarrow> [p])"
  by (simp add: ownerRunner_pods_def ownerReads_def split: option.splits)

lemma syncedFrom_putRunner:
  assumes "syncedFrom w0 w" and "getAnnotation (r_Meta r) AnnotationKeyRunnerID = None"
    and "\<And>p. unregistered (r_Meta r) \<Longrightarrow> w_Pods w0 (om_Name (r_Meta r)) = Some p \<Longrightarrow> podSafe p"
  shows "syncedFrom w0 (putRunner r w)"
proof -
  have "runnerInv (w_Pods w) (om_Name (r_Meta r)) r" using assms unfolding runnerInv_def syncedFrom_def by blast
  moreover have "w_Pods (putRunner r w) = w_Pods w" "w_GitHub (putRunner r w) = w_GitHub w" "w_Known (putRunner r w) = w_Known w" "w_Races (putRunner r w) = w_Races w"
    by (simp_all add: putRunner_def Let_def)
  ultimately show ?thesis using assms(1) worldInv_putRunner unfolding syncedFrom_def by simp
qed

lemma syncedFrom_call:
  assumes w0: "worldInv w0" and rs: "\<forall>r \<in> set rs. w_Runners w0 (om_Name (r_Meta r)) = Some r" and new: "unmarked (r_Meta create)"
    and y: "oy_Reads y = ownerReads w0" "oy_Create y = OwnerRunner create" "oy_Owners y = map OwnerRunner rs" and call: "syncCall y c" and w: "syncedFrom w0 w"
  shows "syncedFrom w0 (effect gh now name l c w)"
proof -
  have inv: "runnerInv (w_Pods w0) (om_Name (r_Meta r)) r" if "r \<in> set rs" for r using worldInvD(2) [OF w0] rs that by blast
  have put: "syncedFrom w0 (putRunner r' w)" if "r \<in> set rs" "r_Meta r' = m" "om_Name m = om_Name (r_Meta r)"
    "getAnnotation m AnnotationKeyRunnerID = getAnnotation (r_Meta r) AnnotationKeyRunnerID"
    "unregistered m \<Longrightarrow> unregistered (r_Meta r) \<or> (\<forall>p. w_Pods w0 (om_Name (r_Meta r)) = Some p \<longrightarrow> podSafe p)" for r r' m
    using inv [OF that(1)] that(2-5) by (intro syncedFrom_putRunner [OF w]) (auto simp: runnerInv_def)
  have del: "syncedFrom w0 (effect gh now name l (deleteOwner x) w)" if "x \<in> set (map OwnerRunner rs)" for x
    using that by (auto simp: deleteRunner_def intro!: put simp: getAnnotation_def)
  from call show ?thesis
  proof cases
    case created
    have "worldInv (createRunner n create w)" for n using worldInv_createRunner w new by (simp add: syncedFrom_def)
    with w created show ?thesis unfolding syncedFrom_def by (simp add: createRunner_def y(2))
  next
    case (unregistration_complete x pods)
    then obtain r where r: "r \<in> set rs" "x = OwnerRunner r" by (auto simp: y)
    have "podSafe p" if "w_Pods w0 (om_Name (r_Meta r)) = Some p" for p
      using unregistration_complete(4,5) that unfolding r(2) y(1) owner_pods_world by (auto simp: deletionSafe_def)
    with r unregistration_complete(1) show ?thesis by (auto simp: ownerRunner_withAnnotation_def annotation_keys intro!: put)
  next
    case (unregistration_requested ss)
    obtain r where "r \<in> set rs" "po_owner ss = OwnerRunner r" using surplus_owner(1) [OF unregistration_requested(2)] by (auto simp: y)
    with unregistration_requested(1) show ?thesis by (auto simp: ownerRunner_withAnnotation_def annotation_keys intro!: put)
  next
    case (pod_requested ss pod)
    obtain r where r: "r \<in> set rs" "po_owner ss = OwnerRunner r" using surplus_owner(1) [OF pod_requested(2)] by (auto simp: y)
    let ?n = "om_Name (r_Meta r)" and ?p = "pod\<lparr>pod_Meta := setAnnotation (pod_Meta pod) AnnotationKeyUnregistrationRequestTimestamp (oy_Stamp y)\<rparr>"
    have pod: "w_Pods w0 ?n = Some pod" using surplus_owner(2) [OF pod_requested(2), symmetric] pod_requested(4) unfolding r(2) y(1) owner_pods_world by (auto split: option.splits)
    have i: "podInv (g_Runners (w_GitHub w0)) (w_Known w0) (w_Races w0 ?n) ?n pod" using worldInvD(1) [OF w0 pod] .
    have "canRun ?p = canRun pod" by (simp add: canRun_def runnerPodOrContainerIsStopped_def runnerContainerExitCode_def)
    with i have "podInv (g_Runners (w_GitHub w)) (w_Known w) (w_Races w ?n) ?n ?p"
      using w unfolding syncedFrom_def by (simp add: podInv_def retired_def annotation_keys)
    moreover have safe: "podSafe ?p = podSafe pod" by (simp add: annotation_keys)
    then have q: "podSafe ?p = podSafe q" if "w_Pods w ?n = Some q" for q
      using w pod that unfolding syncedFrom_def by (metis option.inject)
    ultimately have "worldInv (putPod ?p w)" using w worldInv_putPod unfolding syncedFrom_def by blast
    with w pod podInv_name [OF i] pod_requested(1) safe show ?thesis
      unfolding syncedFrom_def by (auto simp: putPod_def Let_def)
  qed (use del in \<open>auto simp: y\<close>)
qed

lemma worldInv_sync:
  assumes "worldInv w" and "rangesOver iter" and "\<forall>r \<in> set rs. w_Runners w (om_Name (r_Meta r)) = Some r" and "unmarked (r_Meta create)"
  shows "worldInv (runOn gh api now name
      (syncRunnerPodsOwners (ownerReads w) api iter now stamp effectiveTime desired (OwnerRunner create) ephemeral (map OwnerRunner rs)) w)"
proof -
  let ?m = "syncRunnerPodsOwners (ownerReads w) api iter now stamp effectiveTime desired (OwnerRunner create) ephemeral (map OwnerRunner rs)"
  let ?y = "\<lparr>oy_Reads = ownerReads w, oy_Iter = iter, oy_Now = now, oy_Stamp = stamp, oy_EffectiveTime = effectiveTime, oy_Replicas = desired,
    oy_Create = OwnerRunner create, oy_Ephemeral = ephemeral, oy_Owners = map OwnerRunner rs\<rparr>"
  have "panicsAllowed (oy_Reads ?y) (oy_Owners ?y) (\<lambda>_. True)" by (simp add: panicsAllowed_def)
  from hist_writes [OF run_ok_hist [OF run_runSync [OF this, of api]]] assms(2)
  have t: "traceOk (\<lambda>_. syncCall ?y) [] (writes ?m)" by (simp add: runSync_def)
  have s: "syncedFrom w w" using assms(1) by (auto simp: syncedFrom_def)
  have "syncedFrom w (applyCalls (takesEffect gh api) (effect gh now name) [] (writes ?m) w)"
    by (rule applyCalls_invariant [where J = "\<lambda>_. syncedFrom w", OF t s]) (auto intro: syncedFrom_call [OF assms(1,3,4), where y = ?y])
  then show ?thesis by (simp add: runOn_def syncedFrom_def)
qed

subsubsection \<open>The runner controller\<close>

text \<open>A new pod takes over the runner's annotations, the marks of the protocol included.\<close>

lemma setRunnerEnv_meta [simp]: "pod_Meta (setRunnerEnv pod k v) = pod_Meta pod"
  by (simp add: setRunnerEnv_def)

lemma newPod_meta:
  assumes "newPod env r runner = Ret p" and "setsOnlyReference env"
  shows "om_Name (pod_Meta p) = om_Name (r_Meta runner)" and "getAnnotation (pod_Meta p) = getAnnotation (r_Meta runner)"
    and "om_DeletionTimestamp (pod_Meta p) = None" and "pod_Status p = emptyPodStatus"
proof -
  let ?n = "om_Name (r_Meta runner)" and ?t = "podTemplate env r runner" and ?c = "rs_Config (r_Spec runner)"
  let ?ro = "getAnnotation (r_Meta runner) annotationKeyRegistrationOnly \<noteq> None"
  obtain q spec refs where q: "newRunnerPod r ?n ?t ?c ?ro = Ret q"
    and p: "p = (mutatePod (q\<lparr>pod_Spec := spec, pod_Meta := (pod_Meta q)\<lparr>om_Name := ?n\<rparr>\<rparr>) (reg_Token (rst_Registration (r_Status runner))))\<lparr>pod_Meta :=
      (pod_Meta (mutatePod (q\<lparr>pod_Spec := spec, pod_Meta := (pod_Meta q)\<lparr>om_Name := ?n\<rparr>\<rparr>) (reg_Token (rst_Registration (r_Status runner)))))\<lparr>om_OwnerReferences := refs\<rparr>\<rparr>"
    using assms unfolding newPod_def Let_def go_bind_Ret_iff setsOnlyReference_def by blast
  have s: "pod_Status (setRunnerEnv pod k v) = pod_Status pod" for pod k v by (simp add: setRunnerEnv_def)
  have "q = assemblePod r ?n ?t ?c ?ro \<or> (\<exists>k v. q = setRunnerEnv (assemblePod r ?n ?t ?c ?ro) k v)" using newRunnerPod_Ret(2) [OF q] by blast
  then have "om_Annotations (pod_Meta q) = om_Annotations (r_Meta runner) \<and> om_DeletionTimestamp (pod_Meta q) = None \<and> pod_Status q = emptyPodStatus"
    by (auto simp: assemblePod_def podTemplate_def Let_def emptyMeta_def emptyPod_def s)
  then show "om_Name (pod_Meta p) = ?n" "getAnnotation (pod_Meta p) = getAnnotation (r_Meta runner)" "om_DeletionTimestamp (pod_Meta p) = None"
    "pod_Status p = emptyPodStatus"
    by (auto simp: p mutatePod_def Let_def getAnnotation_def fun_eq_iff s)
qed

definition followedBy :: "Runner \<Rightarrow> World \<Rightarrow> bool" where
  "followedBy r w \<longleftrightarrow> worldInv w \<and> (unregistered (r_Meta r) \<longrightarrow> (\<forall>p. w_Pods w (om_Name (r_Meta r)) = Some p \<longrightarrow> podSafe p)) \<and>
     (\<forall>q. w_Runners w (om_Name (r_Meta r)) = Some q \<longrightarrow> getAnnotation (r_Meta q) = getAnnotation (r_Meta r))"

lemma followedBy_putRunner:
  assumes "followedBy r w" and "getAnnotation (r_Meta r) AnnotationKeyRunnerID = None"
    and "om_Name (r_Meta r') = om_Name (r_Meta r)" and "getAnnotation (r_Meta r') = getAnnotation (r_Meta r)"
  shows "followedBy r (putRunner r' w)"
proof -
  have "runnerInv (w_Pods w) (om_Name (r_Meta r')) r'" using assms unfolding followedBy_def runnerInv_def by simp
  then have "worldInv (putRunner r' w)" using assms(1) worldInv_putRunner unfolding followedBy_def by blast
  moreover have "w_Pods (putRunner r' w) = w_Pods w" by (simp add: putRunner_def Let_def)
  moreover have "q = r' \<or> w_Runners w n = Some q" if "w_Runners (putRunner r' w) n = Some q" for n q
    using that by (auto simp: putRunner_def Let_def split: if_splits)
  ultimately show ?thesis using assms(1,4) unfolding followedBy_def by metis
qed

lemma followedBy_status:
  assumes "followedBy r w" and "getAnnotation (r_Meta r) AnnotationKeyRunnerID = None" and "om_Name (r_Meta r') = om_Name (r_Meta r)"
  shows "followedBy r (effect gh now name l (PatchRunnerStatus r') w)"
proof (cases "w_Runners w (om_Name (r_Meta r))")
  case (Some q)
  then have "om_Name (r_Meta q) = om_Name (r_Meta r)" "getAnnotation (r_Meta q) = getAnnotation (r_Meta r)"
    using assms(1) worldInvD(2) runnerInv_name unfolding followedBy_def by blast+
  with Some assms(3) show ?thesis using followedBy_putRunner [OF assms(1,2)] by simp
qed (use assms in simp)

lemma followedBy_call:
  assumes env: "setsOnlyReference (re_PodEnv env)" and id: "getAnnotation (r_Meta r) AnnotationKeyRunnerID = None"
    and call: "runnerCall env now r pod c" and w: "followedBy r w"
  shows "followedBy r (effect gh now' name l c w)"
  using call
proof cases
  case (create_pod p)
  note p = newPod_meta [OF create_pod(6) env]
  have "worldInv (createPod p w)" using w id by (intro worldInv_createPod) (auto simp: followedBy_def p)
  with w create_pod(1) show ?thesis by (auto simp: followedBy_def createPod_def Let_def p)
next
  case (register rt)
  show ?thesis unfolding register(1) by (rule followedBy_status [OF w id]) (simp add: withRegistration_def)
next
  case (follow_pod p)
  show ?thesis unfolding follow_pod(1) by (rule followedBy_status [OF w id]) (simp add: withPodStatus_def)
qed (auto simp: w getAnnotation_def fun_eq_iff intro!: followedBy_putRunner [OF w id])

lemma worldInv_reconcile_runner:
  assumes "worldInv w" and "setsOnlyReference (re_PodEnv env)" and "w_Runners w n = Some r"
  shows "worldInv (runOn gh api now name (Reconcile_Runner env api now cache (runnerReads w n)) w)"
proof -
  have r: "runnerInv (w_Pods w) n r" using worldInvD(2) [OF assms(1,3)] .
  have k: "rn_GetRunner (runnerReads w n) = Ret r" by (simp add: runnerReads_def assms(3))
  have f: "followedBy r w" using r assms(1,3) by (auto simp: followedBy_def runnerInv_def)
  have id: "getAnnotation (r_Meta r) AnnotationKeyRunnerID = None" using r by (simp add: runnerInv_def)
  have "followedBy r (applyCalls (takesEffect gh api) (effect gh now name) [] (writes (Reconcile_Runner env api now cache (runnerReads w n))) w)"
    by (rule applyCalls_invariant [where J = "\<lambda>_. followedBy r", OF hist_writes [OF run_ok_hist [OF run_Reconcile_Runner [OF k]]] f])
      (auto intro: followedBy_call [OF assms(2) id])
  then show ?thesis by (simp add: runOn_def followedBy_def)
qed

subsubsection \<open>The pod controller\<close>

text \<open>What the calls \<open>l\<close> of a run leave of the world \<open>w0\<close> it started in: the runners it removed are gone from GitHub.\<close>

definition stoppedFrom :: "GitHub \<Rightarrow> string \<times> string \<times> string \<Rightarrow> World \<Rightarrow> kubeCall list \<Rightarrow> World \<Rightarrow> bool" where
  "stoppedFrom gh scope w0 l w \<longleftrightarrow> worldInv w \<and> w_Runners w = w_Runners w0 \<and> w_Known w = w_Known w0 \<and> w_Races w = w_Races w0 \<and>
     g_Busy (w_GitHub w) = g_Busy (w_GitHub w0) \<and> set (g_Runners (w_GitHub w)) \<subseteq> set (g_Runners (w_GitHub w0)) \<and>
     (case scope of (e, og, r) \<Rightarrow> \<forall>i n. RemoveGitHubRunner e og r i \<in> set l \<longrightarrow> RemoveRunner gh e og r i = Ret () \<longrightarrow> (n, i) \<notin> set (g_Runners (w_GitHub w)))"

lemma podCall_patch:
  assumes "podCall gh scope pod l (PatchPod p')"
  shows "om_Name (pod_Meta p') = om_Name (pod_Meta pod)" and "podSafe pod \<Longrightarrow> podSafe p'"
proof -
  obtain po where "learnedID gh scope pod po" "samePod po p'" using assms unfolding podCall_def kubeCall.case by blast
  then show "om_Name (pod_Meta p') = om_Name (pod_Meta pod)" and "podSafe pod \<Longrightarrow> podSafe p'"
    using learnedID_same [of gh scope pod po] by (auto simp: samePod_def)
qed

text \<open>
  What a reconciliation of \<open>pod\<close> without a race may count on: as long as the runner's id is not known, a listing is true of the pod's name; and no removal that was tried is answered with 403. \<open>g\<close> are the runners GitHub knows, \<open>tried\<close> the calls of the
  reconciliation.
\<close>

locale true_answers =
  fixes gh :: GitHub and scope :: "string \<times> string \<times> string" and g :: "(string \<times> int) list" and pod :: Pod and tried :: "kubeCall list"
  assumes lists: "getAnnotation (pod_Meta pod) AnnotationKeyRunnerID = None \<Longrightarrow> ListRunners gh (fst scope) (fst (snd scope)) (snd (snd scope)) = Ret xs \<Longrightarrow>
      upToDate xs g (om_Name (pod_Meta pod))"
    and permitted: "RemoveGitHubRunner e og r i \<in> set tried \<Longrightarrow> RemoveRunner gh e og r i = Err err \<Longrightarrow> asErrorResponse err \<noteq> Some 403"
begin

lemma getRunner_listed:
  assumes "scope = (e, og, r)" and "getAnnotation (pod_Meta pod) AnnotationKeyRunnerID = None" and "getRunner gh e og r (om_Name (pod_Meta pod)) = Ret (Some x)"
  shows "\<exists>i. ghr_ID x = Some i \<and> (om_Name (pod_Meta pod), i) \<in> set g"
proof -
  obtain xs where l: "ListRunners gh e og r = Ret xs" and f: "List.find (\<lambda>x. GetName x = om_Name (pod_Meta pod)) xs = Some x"
    using assms(3) by (auto simp: getRunner_def go_bind_Ret_iff)
  have "upToDate xs g (om_Name (pod_Meta pod))" using lists [OF assms(2), of xs] l assms(1) by simp
  moreover have "x \<in> set xs" "GetName x = om_Name (pod_Meta pod)" using f by (auto simp: find_Some_iff)
  ultimately show ?thesis by (auto simp: upToDate_def split: option.splits)
qed

lemma getRunner_unlisted:
  assumes "scope = (e, og, r)" and "getAnnotation (pod_Meta pod) AnnotationKeyRunnerID = None" and "getRunner gh e og r (om_Name (pod_Meta pod)) = Ret None"
  shows "(om_Name (pod_Meta pod), i) \<notin> set g"
proof -
  obtain xs where l: "ListRunners gh e og r = Ret xs" and f: "List.find (\<lambda>x. GetName x = om_Name (pod_Meta pod)) xs = None"
    using assms(3) by (auto simp: getRunner_def go_bind_Ret_iff)
  have "upToDate xs g (om_Name (pod_Meta pod))" using lists [OF assms(2), of xs] l assms(1) by simp
  with f show ?thesis by (force simp: upToDate_def find_None_iff)
qed

lemma podInv_learned:
  assumes "podInv g K R n pod" and "learnedID gh scope pod po" and "distinct (map fst g)"
  shows "podInv g K R n po"
proof (cases "po = pod")
  case False
  obtain e og r where sc: "scope = (e, og, r)" by (cases scope) auto
  have n: "om_Name (pod_Meta pod) = n" using podInv_name [OF assms(1)] .
  from False assms(2) obtain x i where x: "getAnnotation (pod_Meta pod) AnnotationKeyRunnerID = None" "getRunner gh e og r n = Ret (Some x)" "ghr_ID x = Some i"
    and po: "po = pod\<lparr>pod_Meta := setAnnotation (pod_Meta pod) AnnotationKeyRunnerID (Sprintd i)\<rparr>"
    by (auto simp: learnedID_def sc n)
  have i: "(n, i) \<in> set g" using getRunner_listed [OF sc x(1)] x(2,3) by (auto simp: n)
  then have "n \<in> fst ` set g" by (auto simp: in_fst)
  moreover have "j = k" if "ParseInt10 (Sprintd i) = Some k" "(n, j) \<in> set g" for j k
    using that distinct_fst_unique [OF assms(3) i that(2)] by (simp add: ParseInt10_Sprintd split: if_splits)
  moreover have "canRun po = canRun pod" using learnedID_same(1) [OF assms(2)] by (rule samePod_canRun)
  ultimately show ?thesis using assms(1) unfolding podInv_def retired_def
    by (simp add: po annotation_keys)
qed (use assms(1) in simp)

text \<open>The heart of the matter: a pod that a reconciliation declares unregistered is out of service. \<open>h\<close> are the runners GitHub knows after the calls \<open>l\<close>.\<close>

lemma unregisteredBy_retired:
  assumes "podInv g K {} n po" and "scope = (e, og, r)" and "distinct (map fst g)" and n: "om_Name (pod_Meta pod) = n"
    and noID: "getAnnotation (pod_Meta po) AnnotationKeyRunnerID = None \<Longrightarrow> getAnnotation (pod_Meta pod) AnnotationKeyRunnerID = None"
    and "unregisteredBy gh scope n po l"
    and "unregistered (pod_Meta po) \<or> \<not> canRun po \<or> getAnnotation (pod_Meta po) AnnotationKeyRunnerID \<noteq> None \<or> deleting (pod_Meta po)"
    and "set h \<subseteq> set g" and "set l \<subseteq> set tried"
    and gone: "\<And>i n. RemoveGitHubRunner e og r i \<in> set l \<Longrightarrow> RemoveRunner gh e og r i = Ret () \<Longrightarrow> (n, i) \<notin> set h"
  shows "retired h K n po"
proof (cases "unregistered (pod_Meta po) \<or> \<not> canRun po")
  case True
  then show ?thesis using podInv_shrink [OF assms(1,8)] by (auto simp: podInv_def retired_def)
next
  case False
  have known: "n \<in> K" if "(n, i) \<in> set g" for i using assms(1) that unfolding podInv_def in_fst by blast
  have rem: "RemoveRunner gh e og r i = Ret ()" "RemoveGitHubRunner e og r i \<in> set l" if "knownRunnerID gh e og r n po = Ret (Some i)" for i
    using that assms(6,9) False permitted [of e og r i] unfolding unregisteredBy_def assms(2) by auto
  have id: "(\<exists>i. knownRunnerID gh e og r n po = Ret (Some i)) \<or> knownRunnerID gh e og r n po = Ret None"
    using assms(6) False unfolding unregisteredBy_def assms(2) by auto
  consider (unlisted) "\<And>i. (n, i) \<notin> set g" "deleting (pod_Meta po)" | (removed) i where "\<And>m. (m, i) \<notin> set h" "n \<in> K" "\<And>j. (n, j) \<in> set g \<Longrightarrow> j = i"
  proof (cases "getAnnotation (pod_Meta po) AnnotationKeyRunnerID")
    case None
    note pod = noID [OF None]
    from id obtain x where x: "getRunner gh e og r n = Ret x" and k: "knownRunnerID gh e og r n po = Ret (Option.bind x ghr_ID)"
      by (auto simp: knownRunnerID_def None go_bind_Ret_iff)
    show thesis
    proof (cases x)
      case None
      with x getRunner_unlisted [OF assms(2) pod] \<open>getAnnotation (pod_Meta po) _ = None\<close> False assms(7) show thesis by (intro unlisted) (auto simp: n)
    next
      case (Some y)
      obtain i where i: "ghr_ID y = Some i" "(n, i) \<in> set g" using getRunner_listed [OF assms(2) pod] x Some by (auto simp: n)
      then have "knownRunnerID gh e og r n po = Ret (Some i)" using k Some by simp
      then show thesis using gone rem known [OF i(2)] distinct_fst_unique [OF assms(3) i(2)] by (intro removed [of i]) auto
    qed
  next
    case (Some t)
    with id obtain i where i: "ParseInt10 t = Some i" "knownRunnerID gh e og r n po = Ret (Some i)" by (auto simp: knownRunnerID_def split: option.splits)
    then have "n \<in> K" "\<And>j. (n, j) \<in> set g \<Longrightarrow> j = i" using assms(1) Some unfolding podInv_def by blast+
    with rem [OF i(2)] gone show thesis by (intro removed [of i]) auto
  qed
  then show ?thesis
  proof cases
    case unlisted
    then show ?thesis using assms(1,8) unfolding retired_def podInv_def in_fst by blast
  next
    case (removed i)
    then show ?thesis using assms(8) unfolding retired_def in_fst by blast
  qed
qed

lemma podInv_patched:
  assumes "podInv g K {} n pod" and "distinct (map fst g)" and "scope = (e, og, r)"
    and "podCall gh scope pod l (PatchPod p')" and "set h \<subseteq> set g" and "set l \<subseteq> set tried"
    and "\<And>i n. RemoveGitHubRunner e og r i \<in> set l \<Longrightarrow> RemoveRunner gh e og r i = Ret () \<Longrightarrow> (n, i) \<notin> set h"
  shows "podInv h K {} n p'"
proof -
  have n: "om_Name (pod_Meta pod) = n" using podInv_name [OF assms(1)] .
  from assms(4) obtain po where po: "learnedID gh scope pod po" and same: "samePod po p'"
    and id: "getAnnotation (pod_Meta p') AnnotationKeyRunnerID = getAnnotation (pod_Meta po) AnnotationKeyRunnerID"
    and fin: "runnerPodFinalizerName \<in> set (om_Finalizers (pod_Meta p')) \<or> unregistered (pod_Meta p')"
    and un: "unregistered (pod_Meta p') \<Longrightarrow> unregisteredBy gh scope n po l \<and> (unregistered (pod_Meta po) \<or> \<not> canRun po \<or>
      getAnnotation (pod_Meta po) AnnotationKeyRunnerID \<noteq> None \<or> deleting (pod_Meta po))"
    unfolding podCall_def kubeCall.case n by blast
  note i = podInv_learned [OF assms(1) po assms(2)]
  have noID: "getAnnotation (pod_Meta pod) AnnotationKeyRunnerID = None" if "getAnnotation (pod_Meta po) AnnotationKeyRunnerID = None"
    using po that by (auto simp: learnedID_def split: prod.splits)
  have r: "retired h K n p'" if u: "unregistered (pod_Meta p')"
  proof -
    have "retired h K n po"
      by (rule unregisteredBy_retired [OF i assms(3,2) n noID conjunct1 [OF un [OF u]] conjunct2 [OF un [OF u]] assms(5,6)]) (assumption | rule assms(7), assumption+)+
    then show ?thesis using samePod_canRun [OF same] by (simp add: retired_def)
  qed
  have s: "om_DeletionTimestamp (pod_Meta p') = om_DeletionTimestamp (pod_Meta po)" "om_Name (pod_Meta p') = om_Name (pod_Meta po)"
    using same by (auto simp: samePod_def)
  have d: "deleting (pod_Meta p') \<Longrightarrow> runnerPodFinalizerName \<in> set (om_Finalizers (pod_Meta p')) \<or> unregistered (pod_Meta p')" using fin by blast
  show ?thesis using podInv_shrink [OF i assms(5)] r d unfolding podInv_def s id by simp
qed

end

lemma true_answersI:
  assumes "githubRaces gh scope g pod tried = {}"
  shows "true_answers gh scope g pod tried"
proof
  fix xs
  assume "getAnnotation (pod_Meta pod) AnnotationKeyRunnerID = None" and "ListRunners gh (fst scope) (fst (snd scope)) (snd (snd scope)) = Ret xs"
  with assms show "upToDate xs g (om_Name (pod_Meta pod))" by (auto simp: githubRaces_def split_beta split: if_splits)
next
  fix e og r i err
  assume c: "RemoveGitHubRunner e og r i \<in> set tried" and e: "RemoveRunner gh e og r i = Err err"
  have "\<not> forbidden gh (RemoveGitHubRunner e og r i)" using assms c by (auto simp: githubRaces_def split: prod.splits if_splits)
  then show "asErrorResponse err \<noteq> Some 403" by (simp add: e)
qed

lemma true_answers_no_races:
  assumes "true_answers gh scope g pod tried"
  shows "githubRaces gh scope g pod tried = {}"
proof -
  have "\<not> forbidden gh c" if "c \<in> set tried" for c
    using that true_answers.permitted [OF assms] by (cases "(gh, c)" rule: forbidden.cases) (auto split: go.splits)
  with true_answers.lists [OF assms] show ?thesis by (auto simp: githubRaces_def split: prod.splits go.splits)
qed

lemma worldInv_addRaces: "worldInv w \<Longrightarrow> w_Pods w n = Some p \<Longrightarrow> worldInv (addRaces n R w)"
  using worldInv_repod [of w n p R p] worldInvD(1) [of w n p] by (auto simp: addRaces_def podInv_def fun_upd_idem)

lemma stoppedFrom_call:
  assumes w0: "worldInv w0" and pod: "w_Pods w0 n = Some pod" and call: "podCall gh scope pod l c" and t: "takesEffect gh api l c" and w: "stoppedFrom gh scope w0 l w"
    and idle: "removesOnlyIdle gh scope (w_GitHub w0)" and l: "set l \<subseteq> set tried"
    and gh: "w_Races w0 n = {} \<Longrightarrow> true_answers gh scope (g_Runners (w_GitHub w0)) pod tried"
  shows "stoppedFrom gh scope w0 (l @ [c]) (effect gh now name l c w)"
proof -
  obtain e og r where sc: "scope = (e, og, r)" by (cases scope) auto
  note inv = worldInvD(1) [OF w0 pod] worldInvD(4) [OF w0]
  show ?thesis
  proof (cases c)
    case (PatchPod p')
    let ?g = "g_Runners (w_GitHub w)"
    note safe = podCall_patch [OF call [unfolded PatchPod]]
    have i: "podInv ?g (w_Known w0) (w_Races w0 n) n p'"
    proof (cases "w_Races w0 n = {}")
      case True
      have "podInv ?g (w_Known w0) {} n p'"
        by (rule true_answers.podInv_patched [OF gh [OF True] _ inv(2) sc call [unfolded PatchPod] _ l]) (use w inv(1) True in \<open>auto simp: stoppedFrom_def sc\<close>)
      with True show ?thesis by simp
    qed (use safe(1) podInv_name [OF inv(1)] in \<open>simp add: podInv_races\<close>)
    moreover have "podSafe p'" if "w_Runners w n = Some q" "unregistered (r_Meta q)" for q
      using that worldInvD(2) [OF w0, of n q] safe(2) pod w unfolding runnerInv_def stoppedFrom_def by auto
    ultimately have "worldInv (putPod p' w)"
      using w podInv_name [of _ _ _ n p'] unfolding stoppedFrom_def worldInv_def putPod_def Let_def by (auto simp: runnerInv_def)
    with w show ?thesis by (auto simp: PatchPod stoppedFrom_def putPod_def Let_def)
  next
    case (DeletePod p force)
    with w worldInv_removePod show ?thesis by (auto simp: stoppedFrom_def)
  next
    case (RemoveGitHubRunner e' og' r' i)
    with call have sc': "e' = e" "og' = og" "r' = r" by (simp_all add: podCall_def sc)
    with t have rem: "RemoveRunner gh e og r i = Ret ()" by (simp add: RemoveGitHubRunner)
    have "m \<notin> g_Busy (w_GitHub w)" if "(m, i) \<in> set (g_Runners (w_GitHub w))" for m
      using that w idle rem by (auto simp: stoppedFrom_def sc removesOnlyIdle_def)
    then have "worldInv (unregisterID i w)" using w by (intro worldInv_unregisterID) (auto simp: stoppedFrom_def)
    with w show ?thesis by (auto simp: RemoveGitHubRunner stoppedFrom_def unregisterID_def sc)
  qed (use call w in \<open>auto simp: podCall_def stoppedFrom_def sc\<close>)
qed

lemma worldInv_podStep:
  assumes "worldInv w" and "w_Pods w n = Some pod" and "scopeOf (runnerEnvVars pod) = scope" and "removesOnlyIdle (se_GitHub env) scope (w_GitHub w)"
  shows "worldInv (podStep env api now name d n pod w)"
proof -
  let ?gh = "se_GitHub env" and ?m = "Reconcile_RunnerPod env api d now (Ret pod)"
  let ?R = "githubRaces ?gh scope (g_Runners (w_GitHub w)) pod (writes ?m)" and ?P = "\<lambda>l c. podCall ?gh scope pod l c \<and> set l \<subseteq> set (writes ?m)"
  define w0 where "w0 = addRaces n ?R w"
  have t: "traceOk ?P [] (writes ?m)" using traceOk_within [OF hist_writes [OF hist_Reconcile_RunnerPod [of env pod api d now]]] unfolding assms(3) by simp
  have w0: "worldInv w0" "w_Pods w0 n = Some pod" "w_GitHub w0 = w_GitHub w" "w_Races w0 n = {} \<Longrightarrow> ?R = {}"
    using worldInv_addRaces [OF assms(1,2)] assms(2) by (simp_all add: w0_def addRaces_def)
  have s: "stoppedFrom ?gh scope w0 [] w0" using w0(1) by (simp add: stoppedFrom_def split: prod.split)
  have "stoppedFrom ?gh scope w0 ([] @ writes ?m) (applyCalls (takesEffect ?gh api) (effect ?gh now name) [] (writes ?m) w0)"
  proof (rule applyCalls_invariant [where J = "stoppedFrom ?gh scope w0", OF t s], goal_cases)
    case (1 l c w')
    then show ?case using assms(4) by (intro stoppedFrom_call [OF w0(1,2), where tried = "writes ?m"]) (auto simp: w0(3) true_answersI [OF w0(4)])
  next
    case (2 l c w')
    then show ?case by (cases c) (auto simp: stoppedFrom_def split: prod.splits)
  qed
  then show ?thesis by (simp add: podStep_def runOn_def stoppedFrom_def Let_def w0_def assms(3))
qed

lemma worldInv_step: "step scope w w' \<Longrightarrow> worldInv w \<Longrightarrow> worldInv w'"
proof (induction rule: step.induct)
  case (job_start w n p)
  then show ?case by (intro worldInv_setBusy) (auto dest: worldInvD(3))
next
  case (job_end w n)
  then show ?case by (intro worldInv_setBusy) (auto dest: worldInvD(3))
next
  case (delete_runner w n r t)
  then show ?case by (metis worldInv_deleteRunner worldInvD(2) runnerInv_name)
next
  case sync
  then show ?case by (intro worldInv_sync)
next
  case reconcile_pod
  then show ?case by (intro worldInv_podStep)
next
  case reconcile_runner
  then show ?case by (intro worldInv_reconcile_runner)
next
  case register
  then show ?case by (intro worldInv_register)
next
  case status
  then show ?case by (intro worldInv_setStatus)
next
  case delete_pod
  then show ?case by (intro worldInv_requestPodDeletion)
qed (simp_all add: worldInv_leave worldInv_removePod worldInv_createRunner)

lemma worldInv_reachable: "reachable scope w \<Longrightarrow> worldInv w"
proof -
  assume "reachable scope w"
  then obtain w0 where "initial w0" "(step scope)\<^sup>*\<^sup>* w0 w" unfolding reachable_def by blast
  from this(2) show ?thesis by induction (use worldInv_initial [OF \<open>initial w0\<close>] worldInv_step in blast)+
qed

end
