(* ===== verification/Scale_Down_Runs.thy ===== *)
theory Scale_Down_Runs
  imports Scale_Down
begin

section \<open>Scaling down: safety, progress, and a race\<close>

text \<open>
  The theorems on the steps of \<open>Scale_Down\<close>: no job is interrupted on a pod without a race, four reconciliations bring an idle runner down, and a pod that the runner controller creates anew for a runner that is already marked as unregistered
  is not protected. A GitHub that always answers truly is given first: it satisfies the laws of the locale \<open>true_answers\<close>.
\<close>

subsection \<open>A GitHub\<close>

text \<open>It lists its runners on one page, refuses to remove a busy runner (422) and one it does not know (404), for every scope.\<close>

definition removal :: "GitHubState \<Rightarrow> int \<Rightarrow> int go" where
  "removal s i = (if \<exists>n \<in> g_Busy s. (n, i) \<in> set (g_Runners s) then Err (ErrorResponse 422)
     else if i \<in> snd ` set (g_Runners s) then Ret 204 else Err (ErrorResponse 404))"

definition listing :: "GitHubState \<Rightarrow> GhRunner list" where
  "listing s = map (\<lambda>(n, i). \<lparr>ghr_ID = Some i, ghr_Name = Some n, ghr_Status = ''online'', ghr_Busy = (n \<in> g_Busy s)\<rparr>) (g_Runners s)"

definition referenceGitHub :: "GitHubState \<Rightarrow> GitHub" where
  "referenceGitHub s = exampleGitHub\<lparr>
     gh_RemoveRunner := \<lambda>og r i. removal s i, gh_RemoveOrganizationRunner := \<lambda>og i. removal s i, gh_RemoveEnterpriseRunner := \<lambda>e i. removal s i,
     gh_ListRunners := \<lambda>og r p. Ret (listing s, 0), gh_ListOrganizationRunners := \<lambda>og p. Ret (listing s, 0),
     gh_ListEnterpriseRunners := \<lambda>e p. Ret (listing s, 0)\<rparr>"

lemma listAll_one_page: "listAll wrap (\<lambda>p. Ret (xs, 0)) = Ret xs"
  using listAll_concat [of "\<lambda>p. Ret (xs, 0)" "[xs]" wrap] by (simp add: servesPages_def)

lemma ListRunners_reference:
  "ListRunners (referenceGitHub s) e og r = go_bind (getEnterpriseOrganizationAndRepo e og r) (\<lambda>_. Ret (listing s))"
  unfolding ListRunners_def
  by (cases "getEnterpriseOrganizationAndRepo e og r") (auto simp: listRunners_def referenceGitHub_def listAll_one_page)

lemma RemoveRunner_reference:
  "RemoveRunner (referenceGitHub s) e og r i = go_bind (getEnterpriseOrganizationAndRepo e og r)
     (\<lambda>_. if \<exists>n \<in> g_Busy s. (n, i) \<in> set (g_Runners s) then Err (Wrapped ''failed to remove runner'' (ErrorResponse 422))
       else if i \<in> snd ` set (g_Runners s) then Ret () else Err (Wrapped ''failed to remove runner'' (ErrorResponse 404)))"
  unfolding RemoveRunner_def
  by (cases "getEnterpriseOrganizationAndRepo e og r") (simp_all add: removeRunner_def referenceGitHub_def removal_def split_beta)

lemma getEnterprise_error: "getEnterpriseOrganizationAndRepo e og r = Err err \<Longrightarrow> asErrorResponse err = None"
  by (auto simp: getEnterpriseOrganizationAndRepo_def splitOwnerAndRepo_def Let_def split: if_splits)

lemma listing_upToDate: "upToDate (listing s) (g_Runners s) n"
  by (force simp: upToDate_def listing_def GetName_def)

interpretation reference: true_answers "referenceGitHub s" scope "g_Runners s" pod tried for s scope pod tried
proof
  show "ListRunners (referenceGitHub s) (fst scope) (fst (snd scope)) (snd (snd scope)) = Ret xs \<Longrightarrow> upToDate xs (g_Runners s) (om_Name (pod_Meta pod))" for xs
    by (auto simp: ListRunners_reference go_bind_Ret_iff listing_upToDate)
  show "RemoveRunner (referenceGitHub s) e og r i = Err err \<Longrightarrow> asErrorResponse err \<noteq> Some 403" for e og r i err
    by (cases "getEnterpriseOrganizationAndRepo e og r") (auto simp: RemoveRunner_reference dest: getEnterprise_error split: if_splits)
qed

lemma reference_removes_idle: "removesOnlyIdle (referenceGitHub s) scope s"
  by (auto simp: removesOnlyIdle_def RemoveRunner_reference go_bind_Ret_iff split: if_splits)

subsection \<open>Safety\<close>

lemma reachable_retired:
  assumes "reachable scope w" and "w_Pods w n = Some p" and "w_Races w n = {}"
    and "w_Runners w n = Some r \<and> unregistered (r_Meta r) \<and> \<not> deleting (pod_Meta p) \<or>
      deleting (pod_Meta p) \<and> runnerPodFinalizerName \<notin> set (om_Finalizers (pod_Meta p))"
  shows "retired (g_Runners (w_GitHub w)) (w_Known w) n p \<and> \<not> jobRunning w n"
proof -
  have w: "worldInv w" using worldInv_reachable [OF assms(1)] .
  have p: "podInv (g_Runners (w_GitHub w)) (w_Known w) {} n p" using worldInvD(1) [OF w assms(2)] assms(3) by simp
  have "unregistered (pod_Meta p)"
    using assms(4) p worldInvD(2) [OF w, of n r] assms(2) unfolding podInv_def runnerInv_def by blast
  then have "retired (g_Runners (w_GitHub w)) (w_Known w) n p" using p by (simp add: podInv_def)
  with worldInvD(3) [OF w] assms(2) show ?thesis by (auto simp: jobRunning_def retired_def)
qed

text \<open>
  C1. Scaling down interrupts no job. Whatever the controllers, the API server, the runners and the users do and in whatever order, and whatever GitHub's API answers as long as GitHub removes no runner that has a job: when a runner carries the mark that lets the synchronisation delete it while
  its pod is not being deleted, or when a pod that is being deleted has lost the finalizer that holds it, then that pod is out of service for good, and no job is running on it. This holds of every pod without a race: created from a runner not yet marked as unregistered and while GitHub knew no
  runner of its name; deleted by others only after it had registered and got its finalizer; whose runner container did not come back after it was seen to stop; which registered only once; about which no listing out of the client's cache was out of date in a reconciliation of the pod before the
  runner's id was known; and the removal of whose runner GitHub did not answer with 403, which the code takes for unregistered.
\<close>

theorem scale_down_interrupts_no_job:
  assumes "reachable scope w" and "w_Pods w n = Some p" and "w_Races w n = {}"
    and "w_Runners w n = Some r \<and> unregistered (r_Meta r) \<and> \<not> deleting (pod_Meta p) \<or>
      deleting (pod_Meta p) \<and> runnerPodFinalizerName \<notin> set (om_Finalizers (pod_Meta p))"
  shows "retired (g_Runners (w_GitHub w)) (w_Known w) n p \<and> \<not> jobRunning w n"
  using assms by (rule reachable_retired)

subsection \<open>The reconciliations of one runner\<close>

text \<open>A runner that the synchronisation sees as part of the current generation, and a pod of it that is running.\<close>

definition currentRunner :: "string \<Rightarrow> Runner \<Rightarrow> bool" where
  "currentRunner h r \<longleftrightarrow> h \<noteq> [] \<and> ownerRunner_templateHash r = Some h \<and> \<not> deleting (r_Meta r) \<and> \<not> unregistered (r_Meta r) \<and> ownerRunner_synced r"

definition runningPod :: "time \<Rightarrow> Pod \<Rightarrow> bool" where
  "runningPod now p \<longleftrightarrow> pst_Phase (pod_Status p) = Running \<and> canRun p \<and> \<not> podSafe p \<and>
     (podRunnerID p \<noteq> [] \<or> \<not> podConditionTransitionTimeAfter now p ''Ready'' registrationTimeout)"

abbreviation withRunnerMark :: "string \<Rightarrow> string \<Rightarrow> Runner \<Rightarrow> Runner" where
  "withRunnerMark k t r \<equiv> ownerRunner_withAnnotation k t r"

abbreviation withPodMark :: "string \<Rightarrow> string \<Rightarrow> Pod \<Rightarrow> Pod" where
  "withPodMark k t p \<equiv> p\<lparr>pod_Meta := setAnnotation (pod_Meta p) k t\<rparr>"

lemmas sync_run = syncRunnerPodsOwners_def collectPodsForOwners_def getPodsForOwner_def countPod_def collectActive_def addPodsForOwner_def
  ownersOf_def maybeRunning_def runningPods_def laterSync_def syncCollected_def deleteOutdated_def annotatePodOnce_def Let_def go_simps

text \<open>Scaling to zero requests the unregistration of the pod and of the runner.\<close>

lemma collect_current:
  assumes "currentRunner h r" and "getAnnotation (r_Meta r) AnnotationKeyUnregistrationRequestTimestamp = None"
    and "owner_pods k (OwnerRunner r) = Ret ps" and "ps = [] \<or> (\<exists>p. ps = [p] \<and> runningPod now p)"
  shows "\<exists>st res. collectPodsForOwners k acceptAll now t [OwnerRunner r] [] = ([], Ret (Some st)) \<and> os_podsForOwners st = [(h, [res])] \<and>
    po_owner res = OwnerRunner r \<and> po_pods res = ps \<and> po_templateHash res = h \<and> 0 \<le> po_running res \<and> po_pending res = 0"
  using assms(4)
proof
  assume "ps = []"
  with assms(1-3) show ?thesis
    by (simp add: currentRunner_def collectPodsForOwners_def getPodsForOwner_def collectActive_def addPodsForOwner_def ownersOf_def Let_def go_simps)
next
  assume "\<exists>p. ps = [p] \<and> runningPod now p"
  then obtain p where p: "ps = [p]" "pst_Phase (pod_Status p) = Running" "\<not> runnerPodOrContainerIsStopped p"
    "\<not> (podRunnerID p = [] \<and> podConditionTransitionTimeAfter now p ''Ready'' registrationTimeout)"
    by (auto simp: runningPod_def canRun_def)
  show ?thesis using assms(1-3)
    by (simp add: currentRunner_def collectPodsForOwners_def getPodsForOwner_def collectActive_def addPodsForOwner_def ownersOf_def p countPod_def Let_def go_simps
        del: de_Morgan_conj)
qed

lemma rangesOver_few: "rangesOver iter \<Longrightarrow> iter [] = []" "rangesOver iter \<Longrightarrow> iter [x] = [x]"
  unfolding rangesOver_def by (metis mset_zero_iff) (metis mset_single_iff_right mset.simps add_mset_eq_single)

lemma sync_requests:
  assumes iter: "rangesOver iter" and "currentRunner h r" and "getAnnotation (r_Meta r) AnnotationKeyUnregistrationRequestTimestamp = None"
    and "owner_pods k (OwnerRunner r) = Ret ps" and "ps = [] \<or> (\<exists>p. ps = [p] \<and> runningPod now p)" and "ownerRunner_templateHash create = Some h"
    and "\<And>p. p \<in> set ps \<Longrightarrow> getAnnotation (pod_Meta p) AnnotationKeyUnregistrationRequestTimestamp = None"
  shows "writes (syncRunnerPodsOwners k acceptAll iter now t et 0 (OwnerRunner create) eph [OwnerRunner r]) =
    map (\<lambda>p. PatchPod (withPodMark AnnotationKeyUnregistrationRequestTimestamp t p)) ps @ [PatchRunner (withRunnerMark AnnotationKeyUnregistrationRequestTimestamp t r)]"
proof -
  obtain st res where st: "collectPodsForOwners k acceptAll now t [OwnerRunner r] [] = ([], Ret (Some st))" "os_podsForOwners st = [(h, [res])]"
    and res: "po_owner res = OwnerRunner r" "po_pods res = ps" "po_templateHash res = h" "0 \<le> po_running res" "po_pending res = 0"
    using collect_current [OF assms(2-5), of t] by blast
  have a: "annotatePods acceptAll t ps l = (l @ map (\<lambda>p. PatchPod (withPodMark AnnotationKeyUnregistrationRequestTimestamp t p)) ps, Ret ())" for l
    using assms(7) by (induction ps arbitrary: l) (simp_all add: annotatePodOnce_def Let_def go_simps)
  have rq: "requestUnregistration acceptAll t [res] [] =
      (map (\<lambda>p. PatchPod (withPodMark AnnotationKeyUnregistrationRequestTimestamp t p)) ps @ [PatchRunner (withRunnerMark AnnotationKeyUnregistrationRequestTimestamp t r)], Ret ())"
    using assms(3) by (simp add: res a go_simps)
  have "\<not> po_running res < 0" using res(4) by simp
  then show ?thesis
    by (simp add: syncRunnerPodsOwners_def writes_def ebind_def st syncCollected_def ownersOf_def assms(6) rangesOver_few [OF iter] maybeRunning_def runningPods_def res(1-3,5)
        deleteOutdated_def eret_def Let_def rq del: requestUnregistration.simps)
qed

text \<open>When the pod is unregistered, or gone, the runner is marked as unregistered too, and then deleted.\<close>

lemma sync_completes:
  assumes iter: "rangesOver iter" and "currentRunner h r" and "getAnnotation (r_Meta r) AnnotationKeyUnregistrationRequestTimestamp \<noteq> None"
    and "owner_pods k (OwnerRunner r) = Ret ps" and "list_all deletionSafe ps" and "length ps \<le> 1"
    and "ownerRunner_templateHash create = Some h'"
  shows "writes (syncRunnerPodsOwners k acceptAll iter now t et 0 (OwnerRunner create) eph [OwnerRunner r]) =
    [PatchRunner (withRunnerMark AnnotationKeyUnregistrationCompleteTimestamp t r)]"
  using assms(2-) by (cases ps) (auto simp: currentRunner_def sync_run rangesOver_few [OF iter])

lemma sync_deletes:
  assumes iter: "rangesOver iter" and "ownerRunner_templateHash r = Some h" and "h \<noteq> []" and "\<not> deleting (r_Meta r)" and "unregistered (r_Meta r)"
    and "owner_pods k (OwnerRunner r) = Ret ps" and "length ps \<le> 1" and "ownerRunner_templateHash create = Some h'"
  shows "writes (syncRunnerPodsOwners k acceptAll iter now t et 0 (OwnerRunner create) eph [OwnerRunner r]) = [DeleteRunner r]"
  using assms(2-) by (cases ps) (auto simp: sync_run rangesOver_few [OF iter])

text \<open>The pod controller learns the runner's id, removes the runner from GitHub and marks the pod, in one reconciliation.\<close>

definition stopEnv :: "GitHub \<Rightarrow> string \<Rightarrow> StopEnv" where
  "stopEnv gh t = \<lparr>se_GitHub = gh, se_IsRateLimit = \<lambda>e. False, se_Stamp = t\<rparr>"

definition stoppedPod :: "int \<Rightarrow> string \<Rightarrow> Pod \<Rightarrow> Pod" where
  "stoppedPod i t p = withPodMark AnnotationKeyUnregistrationCompleteTimestamp t
     (withPodMark AnnotationKeyUnregistrationStartTimestamp t (withPodMark AnnotationKeyRunnerID (Sprintd i) p))"

text \<open>An idle pod whose unregistration has been requested: nothing of the stop procedure has happened yet.\<close>

definition requestedPod :: "string \<times> string \<times> string \<Rightarrow> Pod \<Rightarrow> bool" where
  "requestedPod scope p \<longleftrightarrow> map_of (om_Labels (pod_Meta p)) LabelKeyRunnerSetName \<noteq> None \<and> runnerEnvVars p \<noteq> [] \<and> scopeOf (runnerEnvVars p) = scope \<and>
     runnerPodFinalizerName \<in> set (om_Finalizers (pod_Meta p)) \<and> \<not> podSafe p \<and> canRun p \<and>
     getAnnotation (pod_Meta p) AnnotationKeyRunnerID = None \<and> getAnnotation (pod_Meta p) AnnotationKeyUnregistrationStartTimestamp = None \<and>
     getAnnotation (pod_Meta p) AnnotationKeyRunnerCompletionWaitStartTimestamp = None \<and>
     getAnnotation (pod_Meta p) AnnotationKeyUnregistrationRequestTimestamp \<noteq> None"

lemma stopped_meta [simp]:
  "runnerPodOrContainerIsStopped (p\<lparr>pod_Meta := m\<rparr>) = runnerPodOrContainerIsStopped p" "runnerContainerExitCode (p\<lparr>pod_Meta := m\<rparr>) = runnerContainerExitCode p"
  "canRun (p\<lparr>pod_Meta := m\<rparr>) = canRun p"
  by (simp_all add: canRun_def runnerPodOrContainerIsStopped_def runnerContainerExitCode_def)

lemma pod_controller_stops:
  assumes "requestedPod (e, og, r) p" and "getRunner gh e og r (om_Name (pod_Meta p)) = Ret (Some x)" and "ghr_ID x = Some i"
    and "RemoveRunner gh e og r i = Ret ()" and "- (2 ^ 63) \<le> i" and "i < 2 ^ 63"
  shows "writes (Reconcile_RunnerPod (stopEnv gh t) acceptAll d now (Ret p)) =
    [PatchPod (withPodMark AnnotationKeyRunnerID (Sprintd i) p),
     PatchPod (withPodMark AnnotationKeyUnregistrationStartTimestamp t (withPodMark AnnotationKeyRunnerID (Sprintd i) p)),
     RemoveGitHubRunner e og r i, PatchPod (stoppedPod i t p)]"
proof -
  let ?p1 = "withPodMark AnnotationKeyRunnerID (Sprintd i) p"
  let ?p2 = "withPodMark AnnotationKeyUnregistrationStartTimestamp t ?p1" and ?env = "stopEnv gh t" and ?d = "unregistrationRetryDelay d"
  have p: "\<not> runnerPodOrContainerIsStopped p" "\<not> deleting (pod_Meta p)" "\<not> unregistered (pod_Meta p)" using assms(1) by (simp_all add: requestedPod_def canRun_def)
  have reg: "ensureRunnerPodRegistered gh acceptAll e og r (om_Name (pod_Meta p)) p l = (l @ [PatchPod ?p1], Ret (Done ?p1))" for l
    using assms(1-3) p by (simp add: requestedPod_def ensureRunnerPodRegistered_def annotatePodOnce_def Let_def go_simps)
  have start: "annotatePodOnce acceptAll (Some ?p1) AnnotationKeyUnregistrationStartTimestamp t l = (l @ [PatchPod ?p2], Ret (Some ?p2))" for l
    using assms(1) by (simp add: requestedPod_def annotatePodOnce_def Let_def go_simps annotation_keys)
  have stop: "ensureRunnerUnregistration ?env acceptAll ?d e og r n (Some ?p2) l = (l @ [RemoveGitHubRunner e og r i], Ret (Done ()))" for l n
    using assms(1,4-6) p
    by (simp add: requestedPod_def ensureRunnerUnregistration_def runnerIDOf_def ParseInt10_Sprintd annotationNonEmpty_def unregisterRunner_def stopEnv_def go_simps annotation_keys)
  have mark: "annotatePodOnce acceptAll (Some ?p2) AnnotationKeyUnregistrationCompleteTimestamp t l = (l @ [PatchPod (stoppedPod i t p)], Ret (Some (stoppedPod i t p)))" for l
    using p by (simp add: annotatePodOnce_def Let_def go_simps annotation_keys stoppedPod_def)
  have gh: "se_GitHub ?env = gh" "se_Stamp ?env = t" by (simp_all add: stopEnv_def)
  have "tickRunnerGracefulStop ?env acceptAll ?d e og r n (Some ?p1) l =
      (l @ [PatchPod ?p2, RemoveGitHubRunner e og r i, PatchPod (stoppedPod i t p)], Ret (Done (Some (stoppedPod i t p))))" for n l
    unfolding tickRunnerGracefulStop_def sbind_Done sorElse_Done gh using start [of l] stop [of n "l @ [PatchPod ?p2]"] mark
    by (auto simp: sbind_def sorElse_def ebind_def ecatch_def eret_def)
  with reg assms(1) p show ?thesis
    by (simp add: requestedPod_def Reconcile_RunnerPod_def addFinalizer_eq gh writes_def finish_def sbind_def ebind_def sdone_def eret_def annotation_keys)
qed

subsection \<open>The reconciliations on the world\<close>

text \<open>
  The reconciliations as functions of the world, with the API server accepting every call: \<open>syncToZero\<close> is the synchronisation of a replica set without replicas whose only runner is \<open>n\<close>, \<open>reconcilePod\<close> the pod controller's reconciliation of the pod \<open>n\<close>,
  \<open>reconcileRunner\<close> the runner controller's of the runner \<open>n\<close>. \<open>gh\<close> is the GitHub client, \<open>now\<close> the time and \<open>t\<close> the time as it is written into annotations.
\<close>

record SyncEnv =
  sy_Iter :: "podsForOwners \<Rightarrow> podsForOwners"
  sy_Effective :: "time option"
  sy_Create :: Runner
  sy_Ephemeral :: bool

definition syncToZero :: "SyncEnv \<Rightarrow> GitHub \<Rightarrow> time \<Rightarrow> string \<Rightarrow> string \<Rightarrow> World \<Rightarrow> World" where
  "syncToZero s gh now t n w = (case w_Runners w n of None \<Rightarrow> w | Some r \<Rightarrow>
     runOn gh acceptAll now (\<lambda>_. []) (syncRunnerPodsOwners (ownerReads w) acceptAll (sy_Iter s) now t (sy_Effective s) 0 (OwnerRunner (sy_Create s)) (sy_Ephemeral s)
       [OwnerRunner r]) w)"

definition reconcilePod :: "GitHub \<Rightarrow> time \<Rightarrow> string \<Rightarrow> duration \<Rightarrow> string \<Rightarrow> World \<Rightarrow> World" where
  "reconcilePod gh now t d n w = (case w_Pods w n of None \<Rightarrow> w | Some p \<Rightarrow> podStep (stopEnv gh t) acceptAll now (\<lambda>_. []) d n p w)"

definition reconcileRunner :: "RunnerEnv \<Rightarrow> GitHub \<Rightarrow> time \<Rightarrow> string \<Rightarrow> World \<Rightarrow> World" where
  "reconcileRunner env gh now n w = runOn gh acceptAll now (\<lambda>_. []) (Reconcile_Runner env acceptAll now [] (runnerReads w n)) w"

text \<open>They are steps.\<close>

lemma step_syncToZero:
  assumes "w_Runners w n = Some r" and "om_Name (r_Meta r) = n" and "rangesOver (sy_Iter s)" and "unmarked (r_Meta (sy_Create s))"
  shows "step scope w (syncToZero s gh now t n w)"
  using step.sync [OF assms(3), of "[r]" w "sy_Create s" scope gh acceptAll now "\<lambda>_. []" t "sy_Effective s" 0 "sy_Ephemeral s"] assms(1,2,4) by (simp add: syncToZero_def)

lemma step_reconcilePod:
  assumes "w_Pods w n = Some p" and "scopeOf (runnerEnvVars p) = scope" and "removesOnlyIdle gh scope (w_GitHub w)"
  shows "step scope w (reconcilePod gh now t d n w)"
  using step.reconcile_pod [OF assms(1,2), of "stopEnv gh t" acceptAll now "\<lambda>_. []" d] assms(1,3) by (simp add: reconcilePod_def stopEnv_def)

lemma step_reconcileRunner:
  assumes "w_Runners w n = Some r" and "setsOnlyReference (re_PodEnv env)"
  shows "step scope w (reconcileRunner env gh now n w)"
  unfolding reconcileRunner_def by (rule step.reconcile_runner [OF assms(2,1)])

lemma withRunnerMark_meta [simp]: "r_Meta (withRunnerMark k t r) = setAnnotation (r_Meta r) k t"
  by (simp add: ownerRunner_withAnnotation_def)

lemma marked_runner [simp]: "ownerRunner_templateHash (withRunnerMark k t r) = ownerRunner_templateHash r" "ownerRunner_synced (withRunnerMark k t r) = ownerRunner_synced r"
  by (simp_all add: ownerRunner_templateHash_def getRunnerTemplateHash_def ownerRunner_synced_def ownerRunner_withAnnotation_def)

lemma syncToZero_writes:
  assumes "w_Runners w n = Some r"
    and "writes (syncRunnerPodsOwners (ownerReads w) acceptAll (sy_Iter s) now t (sy_Effective s) 0 (OwnerRunner (sy_Create s)) (sy_Ephemeral s) [OwnerRunner r]) = cs"
  shows "syncToZero s gh now t n w = applyCalls (takesEffect gh acceptAll) (effect gh now (\<lambda>_. [])) [] cs w"
  using assms by (simp add: syncToZero_def runOn_def)

text \<open>The runner's pods as the synchronisation reads them.\<close>

abbreviation podsOf :: "World \<Rightarrow> string \<Rightarrow> Pod list" where "podsOf w n \<equiv> case w_Pods w n of None \<Rightarrow> [] | Some p \<Rightarrow> [p]"

lemma owner_pods_named: "om_Name (r_Meta r) = n \<Longrightarrow> owner_pods (ownerReads w) (OwnerRunner r) = Ret (podsOf w n)"
  unfolding owner_pods_world by simp

lemma syncToZero_requests:
  assumes "rangesOver (sy_Iter s)" and "w_Runners w n = Some r" and "om_Name (r_Meta r) = n" and "currentRunner h r" and "ownerRunner_templateHash (sy_Create s) = Some h"
    and "getAnnotation (r_Meta r) AnnotationKeyUnregistrationRequestTimestamp = None"
    and "\<And>p. w_Pods w n = Some p \<Longrightarrow> om_Name (pod_Meta p) = n \<and> runningPod now p \<and> getAnnotation (pod_Meta p) AnnotationKeyUnregistrationRequestTimestamp = None"
  shows "syncToZero s gh now t n w = w\<lparr>w_Pods := (w_Pods w)(n := map_option (withPodMark AnnotationKeyUnregistrationRequestTimestamp t) (w_Pods w n)),
    w_Runners := (w_Runners w)(n \<mapsto> withRunnerMark AnnotationKeyUnregistrationRequestTimestamp t r)\<rparr>"
proof -
  have h: "\<not> deleting (r_Meta r)" using assms(4) by (simp add: currentRunner_def)
  have wr: "writes (syncRunnerPodsOwners (ownerReads w) acceptAll (sy_Iter s) now t (sy_Effective s) 0 (OwnerRunner (sy_Create s)) (sy_Ephemeral s) [OwnerRunner r]) =
      map (\<lambda>p. PatchPod (withPodMark AnnotationKeyUnregistrationRequestTimestamp t p)) (podsOf w n) @ [PatchRunner (withRunnerMark AnnotationKeyUnregistrationRequestTimestamp t r)]"
    by (rule sync_requests [OF assms(1,4,6) owner_pods_named [OF assms(3)] _ assms(5)]) (use assms(7) in \<open>auto split: option.splits\<close>)
  show ?thesis unfolding syncToZero_writes [OF assms(2) wr] using assms(2,3,7) h
    by (cases "w_Pods w n") (simp_all add: putPod_def putRunner_def Let_def fun_upd_idem)
qed

lemma syncToZero_completes:
  assumes "rangesOver (sy_Iter s)" and "w_Runners w n = Some r" and "om_Name (r_Meta r) = n" and "currentRunner h r" and "ownerRunner_templateHash (sy_Create s) = Some h'"
    and "getAnnotation (r_Meta r) AnnotationKeyUnregistrationRequestTimestamp \<noteq> None" and "\<And>p. w_Pods w n = Some p \<Longrightarrow> unregistered (pod_Meta p)"
  shows "syncToZero s gh now t n w = w\<lparr>w_Runners := (w_Runners w)(n \<mapsto> withRunnerMark AnnotationKeyUnregistrationCompleteTimestamp t r)\<rparr>"
proof -
  have h: "\<not> deleting (r_Meta r)" using assms(4) by (simp add: currentRunner_def)
  have ps: "list_all deletionSafe (podsOf w n)" "length (podsOf w n) \<le> 1" using assms(7) by (auto simp: deletionSafe_def split: option.splits)
  show ?thesis
    unfolding syncToZero_writes [OF assms(2) sync_completes [OF assms(1,4,6) owner_pods_named [OF assms(3)] ps assms(5)]]
    using assms(2,3) h by (simp add: putRunner_def Let_def)
qed

lemma syncToZero_deletes:
  assumes "rangesOver (sy_Iter s)" and "w_Runners w n = Some r" and "om_Name (r_Meta r) = n" and "unregistered (r_Meta r)" and "\<not> deleting (r_Meta r)" and "om_Finalizers (r_Meta r) \<noteq> []"
    and "ownerRunner_templateHash r = Some h" and "h \<noteq> []" and "ownerRunner_templateHash (sy_Create s) = Some h'"
  shows "syncToZero s gh now t n w = w\<lparr>w_Runners := (w_Runners w)(n \<mapsto> r\<lparr>r_Meta := (r_Meta r)\<lparr>om_DeletionTimestamp := Some now\<rparr>\<rparr>)\<rparr>"
proof -
  have ps: "length (podsOf w n) \<le> 1" by (simp split: option.split)
  show ?thesis
    unfolding syncToZero_writes [OF assms(2) sync_deletes [OF assms(1,7,8,5,4) owner_pods_named [OF assms(3)] ps assms(9)]]
    using assms(2,3,6) by (simp add: deleteRunner_def putRunner_def Let_def)
qed

text \<open>What a reconciliation of the pod leaves when it stops the runner, up to the races it adds.\<close>

definition stoppedWorld :: "string \<Rightarrow> string \<Rightarrow> int \<Rightarrow> Pod \<Rightarrow> race set \<Rightarrow> World \<Rightarrow> World" where
  "stoppedWorld t n i p R w = (unregisterID i (addRaces n R w))\<lparr>w_Pods := (w_Pods w)(n \<mapsto> stoppedPod i t p)\<rparr>"

lemma reconcilePod_stops:
  assumes "w_Pods w n = Some p" and "om_Name (pod_Meta p) = n" and "requestedPod scope p" and "scope = (e, og, r)"
    and "getRunner gh e og r n = Ret (Some x)" and "ghr_ID x = Some i" and "RemoveRunner gh e og r i = Ret ()" and "- (2 ^ 63) \<le> i" and "i < 2 ^ 63"
  shows "\<exists>l. reconcilePod gh now t d n w = stoppedWorld t n i p (githubRaces gh scope (g_Runners (w_GitHub w)) p l) w"
proof -
  note wr = pod_controller_stops [OF assms(3) [unfolded assms(4)] _ assms(6-9), unfolded assms(2), OF assms(5)]
  have sc: "scopeOf (runnerEnvVars p) = scope" using assms(3) by (simp add: requestedPod_def)
  have "reconcilePod gh now t d n w = stoppedWorld t n i p (githubRaces gh scope (g_Runners (w_GitHub w)) p (writes (Reconcile_RunnerPod (stopEnv gh t) acceptAll d now (Ret p)))) w"
    using assms(1,2,7) by (simp add: reconcilePod_def podStep_def sc stopEnv_def [of gh t] runOn_def wr [unfolded stopEnv_def] putPod_def Let_def unregisterID_def stoppedPod_def
        stoppedWorld_def addRaces_def)
  then show ?thesis by blast
qed

subsection \<open>Progress\<close>

text \<open>An idle runner with its pod, as it is before scaling down, whose id GitHub lists and whose removal GitHub will confirm.\<close>

definition idle :: "GitHub \<Rightarrow> string \<times> string \<times> string \<Rightarrow> time \<Rightarrow> World \<Rightarrow> string \<Rightarrow> Runner \<Rightarrow> Pod \<Rightarrow> int \<Rightarrow> bool" where
  "idle gh scope now w n r p i \<longleftrightarrow>
     w_Runners w n = Some r \<and> om_Name (r_Meta r) = n \<and> (\<exists>h. currentRunner h r) \<and> om_Finalizers (r_Meta r) \<noteq> [] \<and>
     getAnnotation (r_Meta r) AnnotationKeyUnregistrationRequestTimestamp = None \<and>
     w_Pods w n = Some p \<and> om_Name (pod_Meta p) = n \<and> runningPod now p \<and>
     getAnnotation (pod_Meta p) AnnotationKeyUnregistrationRequestTimestamp = None \<and>
     requestedPod scope (withPodMark AnnotationKeyUnregistrationRequestTimestamp [] p) \<and>
     (case scope of (e, og, q) \<Rightarrow> (\<exists>x. getRunner gh e og q n = Ret (Some x) \<and> ghr_ID x = Some i) \<and> RemoveRunner gh e og q i = Ret ()) \<and>
     - (2 ^ 63) \<le> i \<and> i < 2 ^ 63"

lemma requestedPod_stamp:
  "requestedPod scope (withPodMark AnnotationKeyUnregistrationRequestTimestamp [] p) \<Longrightarrow> requestedPod scope (withPodMark AnnotationKeyUnregistrationRequestTimestamp t p)"
  by (simp add: requestedPod_def annotation_keys runnerEnvVars_def)

text \<open>The world after the first three reconciliations, up to the races.\<close>

definition broughtDown :: "string \<Rightarrow> string \<Rightarrow> string \<Rightarrow> string \<Rightarrow> Runner \<Rightarrow> Pod \<Rightarrow> int \<Rightarrow> race set \<Rightarrow> World \<Rightarrow> World" where
  "broughtDown t1 t2 t3 n r p i R w = (stoppedWorld t2 n i (withPodMark AnnotationKeyUnregistrationRequestTimestamp t1 p) R w)\<lparr>
     w_Runners := (w_Runners w)(n \<mapsto> withRunnerMark AnnotationKeyUnregistrationCompleteTimestamp t3 (withRunnerMark AnnotationKeyUnregistrationRequestTimestamp t1 r))\<rparr>"

lemma requested_then_stopped:
  assumes "idle gh scope now w n r p i" and "rangesOver (sy_Iter s)" and "ownerRunner_templateHash (sy_Create s) = ownerRunner_templateHash r"
    and "w1 = syncToZero s gh now t n w"
  shows "w1 = w\<lparr>w_Pods := (w_Pods w)(n \<mapsto> withPodMark AnnotationKeyUnregistrationRequestTimestamp t p),
      w_Runners := (w_Runners w)(n \<mapsto> withRunnerMark AnnotationKeyUnregistrationRequestTimestamp t r)\<rparr>"
    and "\<exists>l. reconcilePod gh now' t' d n w1 =
      stoppedWorld t' n i (withPodMark AnnotationKeyUnregistrationRequestTimestamp t p)
        (githubRaces gh scope (g_Runners (w_GitHub w)) (withPodMark AnnotationKeyUnregistrationRequestTimestamp t p) l) w1"
proof -
  obtain e og q where sc: "scope = (e, og, q)" by (cases scope) auto
  from assms(1) obtain h x where r: "w_Runners w n = Some r" "om_Name (r_Meta r) = n" "currentRunner h r" "getAnnotation (r_Meta r) AnnotationKeyUnregistrationRequestTimestamp = None"
    and p: "w_Pods w n = Some p" "om_Name (pod_Meta p) = n" "runningPod now p" "getAnnotation (pod_Meta p) AnnotationKeyUnregistrationRequestTimestamp = None"
      "requestedPod scope (withPodMark AnnotationKeyUnregistrationRequestTimestamp [] p)"
    and g: "getRunner gh e og q n = Ret (Some x)" "ghr_ID x = Some i" "RemoveRunner gh e og q i = Ret ()" "- (2 ^ 63) \<le> i" "i < 2 ^ 63"
    unfolding idle_def sc prod.case by blast
  have h: "ownerRunner_templateHash (sy_Create s) = Some h" using r(3) assms(3) by (simp add: currentRunner_def)
  show w1: "w1 = w\<lparr>w_Pods := (w_Pods w)(n \<mapsto> withPodMark AnnotationKeyUnregistrationRequestTimestamp t p),
      w_Runners := (w_Runners w)(n \<mapsto> withRunnerMark AnnotationKeyUnregistrationRequestTimestamp t r)\<rparr>"
    unfolding assms(4) using syncToZero_requests [OF assms(2) r(1-3) h r(4)] p by auto
  have "w_GitHub w1 = w_GitHub w" "w_Pods w1 n = Some (withPodMark AnnotationKeyUnregistrationRequestTimestamp t p)" by (simp_all add: w1)
  with reconcilePod_stops [OF this(2) _ requestedPod_stamp [OF p(5)] sc g(1,2,3,4,5), of now' t' d] p(2)
  show "\<exists>l. reconcilePod gh now' t' d n w1 =
      stoppedWorld t' n i (withPodMark AnnotationKeyUnregistrationRequestTimestamp t p)
        (githubRaces gh scope (g_Runners (w_GitHub w)) (withPodMark AnnotationKeyUnregistrationRequestTimestamp t p) l) w1"
    by simp
qed

lemma idle_down:
  assumes "idle gh scope now w n r p i" and "rangesOver (sy_Iter s)" and "ownerRunner_templateHash (sy_Create s) = ownerRunner_templateHash r"
  shows "\<exists>l. syncToZero s gh3 now3 t3 n (reconcilePod gh now2 t2 d n (syncToZero s gh now t1 n w)) =
    broughtDown t1 t2 t3 n r p i (githubRaces gh scope (g_Runners (w_GitHub w)) (withPodMark AnnotationKeyUnregistrationRequestTimestamp t1 p) l) w"
proof -
  define w1 where "w1 = syncToZero s gh now t1 n w"
  note two = requested_then_stopped [OF assms w1_def]
  obtain l where w2: "reconcilePod gh now2 t2 d n w1 = stoppedWorld t2 n i (withPodMark AnnotationKeyUnregistrationRequestTimestamp t1 p)
      (githubRaces gh scope (g_Runners (w_GitHub w)) (withPodMark AnnotationKeyUnregistrationRequestTimestamp t1 p) l) w1" (is "_ = ?w2")
    using two(2) by blast
  let ?r = "withRunnerMark AnnotationKeyUnregistrationRequestTimestamp t1 r"
  obtain h where r: "om_Name (r_Meta r) = n" "currentRunner h r" using assms(1) unfolding idle_def by blast
  then have c: "om_Name (r_Meta ?r) = n" "currentRunner h ?r" "getAnnotation (r_Meta ?r) AnnotationKeyUnregistrationRequestTimestamp \<noteq> None"
    by (simp_all add: currentRunner_def annotation_keys)
  have h: "ownerRunner_templateHash (sy_Create s) = Some h" using r(2) assms(3) by (simp add: currentRunner_def)
  have "w_Runners ?w2 n = Some ?r" "\<And>q. w_Pods ?w2 n = Some q \<Longrightarrow> unregistered (pod_Meta q)"
    by (auto simp: stoppedWorld_def unregisterID_def addRaces_def two(1) stoppedPod_def)
  from syncToZero_completes [OF assms(2) this(1) c(1,2) h c(3) this(2)] show ?thesis
    unfolding w1_def [symmetric] w2 by (intro exI [of _ l]) (simp add: broughtDown_def stoppedWorld_def unregisterID_def addRaces_def two(1))
qed


subsection \<open>An example\<close>

text \<open>More reconciliations: the runner controller creates the pod; the pod controller adds its finalizer, and lets go of a pod that is marked as unregistered without asking GitHub to remove the runner.\<close>

lemma reconcileRunner_creates:
  assumes "w_Runners w n = Some r" and "om_Name (r_Meta r) = n" and "w_Pods w n = None" and "\<not> deleting (r_Meta r)" and "finalizerName \<in> set (om_Finalizers (r_Meta r))"
    and "IsRegisterable now r" and "newPod (re_PodEnv env) (re_Reconciler env) r = Ret p"
  shows "reconcileRunner env gh now n w = createPod p w"
proof -
  have "writes (Reconcile_Runner env acceptAll now [] (runnerReads w n)) = [CreatePod p, Event ''PodCreated'']"
    using assms by (simp add: runnerReads_def Reconcile_Runner_def addFinalizer_eq processRunnerCreation_def updateRegistrationToken_def go_simps)
  then show ?thesis by (simp add: reconcileRunner_def runOn_def)
qed

lemma reconcilePod_writes:
  assumes "w_Pods w n = Some p" and "gh = referenceGitHub (w_GitHub w)" and "writes (Reconcile_RunnerPod (stopEnv gh t) acceptAll d now (Ret p)) = cs"
  shows "reconcilePod gh now t d n w = applyCalls (takesEffect gh acceptAll) (effect gh now (\<lambda>_. [])) [] cs w"
proof -
  have "se_GitHub (stopEnv gh t) = gh" by (simp add: stopEnv_def)
  moreover have "githubRaces gh scope (g_Runners (w_GitHub w)) p cs = {}" for scope
    unfolding assms(2) by (rule true_answers_no_races [OF reference.true_answers_axioms])
  ultimately show ?thesis using assms(1,3) by (simp add: reconcilePod_def podStep_def runOn_def Let_def addRaces_def)
qed

lemma reconcilePod_adds_finalizer:
  assumes "w_Pods w n = Some p" and "om_Name (pod_Meta p) = n" and "map_of (om_Labels (pod_Meta p)) LabelKeyRunnerSetName \<noteq> None" and "runnerEnvVars p \<noteq> []"
    and "\<not> deleting (pod_Meta p)" and "runnerPodFinalizerName \<notin> set (om_Finalizers (pod_Meta p))" and "gh = referenceGitHub (w_GitHub w)"
  shows "reconcilePod gh now t d n w = w\<lparr>w_Pods := (w_Pods w)(n \<mapsto> p\<lparr>pod_Meta := (pod_Meta p)\<lparr>om_Finalizers := om_Finalizers (pod_Meta p) @ [runnerPodFinalizerName]\<rparr>\<rparr>)\<rparr>"
proof -
  have wr: "writes (Reconcile_RunnerPod (stopEnv gh t) acceptAll d now (Ret p)) =
      [PatchPod (p\<lparr>pod_Meta := (pod_Meta p)\<lparr>om_Finalizers := om_Finalizers (pod_Meta p) @ [runnerPodFinalizerName]\<rparr>\<rparr>)]"
    using assms(3-6) by (simp add: Reconcile_RunnerPod_def addFinalizer_eq go_simps split: prod.split)
  show ?thesis unfolding reconcilePod_writes [OF assms(1,7) wr] using assms(1,2) by (simp add: putPod_def Let_def)
qed

lemma reconcilePod_lets_go:
  assumes "w_Pods w n = Some p" and "om_Name (pod_Meta p) = n" and "map_of (om_Labels (pod_Meta p)) LabelKeyRunnerSetName \<noteq> None" and "runnerEnvVars p \<noteq> []"
    and "scopeOf (runnerEnvVars p) = (e, og, r)" and "deleting (pod_Meta p)" and "om_Finalizers (pod_Meta p) = [runnerPodFinalizerName]"
    and "annotationNonEmpty p AnnotationKeyUnregistrationCompleteTimestamp" and "getAnnotation (pod_Meta p) AnnotationKeyRunnerID = None"
    and "getAnnotation (pod_Meta p) AnnotationKeyUnregistrationStartTimestamp = None"
    and "getRunner gh e og r n = Ret x" and "gh = referenceGitHub (w_GitHub w)"
  shows "reconcilePod gh now t d n w =
    w\<lparr>w_Pods := (w_Pods w)(n \<mapsto> (let q = withPodMark AnnotationKeyUnregistrationStartTimestamp t p in q\<lparr>pod_Meta := (pod_Meta q)\<lparr>om_Finalizers := []\<rparr>\<rparr>))\<rparr>"
proof -
  let ?q = "withPodMark AnnotationKeyUnregistrationStartTimestamp t p" and ?env = "stopEnv gh t" and ?d = "unregistrationRetryDelay d"
  have u: "unregistered (pod_Meta p)" using assms(8) by (auto simp: annotationNonEmpty_def split: option.splits)
  have gh: "se_GitHub ?env = gh" "se_Stamp ?env = t" by (simp_all add: stopEnv_def)
  have start: "annotatePodOnce acceptAll (Some p) AnnotationKeyUnregistrationStartTimestamp t l = (l @ [PatchPod ?q], Ret (Some ?q))" for l
    using assms(10) by (simp add: annotatePodOnce_def Let_def go_simps)
  have stop: "ensureRunnerUnregistration ?env acceptAll ?d e og r n (Some ?q) l = (l, Ret (Done ()))" for l
    using assms(8,9,11) by (simp add: ensureRunnerUnregistration_def runnerIDOf_def annotationNonEmpty_def gh go_simps annotation_keys)
  have mark: "annotatePodOnce acceptAll (Some ?q) AnnotationKeyUnregistrationCompleteTimestamp t l = (l, Ret (Some ?q))" for l
    using u by (auto simp: annotatePodOnce_def Let_def go_simps annotation_keys)
  have "tickRunnerGracefulStop ?env acceptAll ?d e og r n (Some p) l = (l @ [PatchPod ?q], Ret (Done (Some ?q)))" for l
    unfolding tickRunnerGracefulStop_def gh using start [of l] stop mark by (simp add: sbind_def sorElse_def ebind_def ecatch_def eret_def)
  then have wr: "writes (Reconcile_RunnerPod ?env acceptAll d now (Ret p)) = [PatchPod ?q, PatchPod (?q\<lparr>pod_Meta := (pod_Meta ?q)\<lparr>om_Finalizers := []\<rparr>\<rparr>)]"
    using assms(2-7) by (simp add: Reconcile_RunnerPod_def removeFinalizer_eq finalizePod_def writes_def finish_def sbind_def sorElse_def ebind_def ecatch_def sdone_def eret_def
        ewrite_def ecall_def Let_def)
  show ?thesis unfolding reconcilePod_writes [OF assms(1,12) wr] using assms(1,2) by (simp add: putPod_def Let_def)
qed

abbreviation exampleScope :: "string \<times> string \<times> string" where "exampleScope \<equiv> ([], [], ''o/r'')"

lemma example_pod:
  assumes "r_Spec r = r_Spec exampleRunnerObject"
  shows "\<exists>p. newPod (re_PodEnv exampleRunnerEnv) (re_Reconciler exampleRunnerEnv) r = Ret p \<and> map_of (om_Labels (pod_Meta p)) LabelKeyRunnerSetName \<noteq> None \<and>
    scopeOf (runnerEnvVars p) = exampleScope \<and> runnerEnvVars p \<noteq> [] \<and> om_Finalizers (pod_Meta p) = []"
proof -
  let ?n = "om_Name (r_Meta r)" and ?t = "podTemplate examplePodEnv exampleReconciler r" and ?c = "rs_Config (r_Spec r)" and ?rp = "rs_PodSpec (r_Spec r)"
  let ?ro = "getAnnotation (r_Meta r) annotationKeyRegistrationOnly \<noteq> None" and ?tok = "reg_Token (rst_Registration (r_Status r))"
  have c: "?c = exampleConfig" "?rp = exampleRunnerPodSpec" using assms by (simp_all add: exampleRunnerObject_def)
  obtain q where q: "newRunnerPod exampleReconciler ?n ?t ?c ?ro = Ret q" by (auto simp: newRunnerPod_def Let_def c config_defs)
  let ?q = "q\<lparr>pod_Spec := overrideSpec ?rp (pod_Spec q), pod_Meta := (pod_Meta q)\<lparr>om_Name := ?n\<rparr>\<rparr>"
  have k: "EnvVarRunnerName \<notin> {EnvVarEnterprise, EnvVarOrg, EnvVarRepo}" "EnvVarRunnerToken \<notin> {EnvVarEnterprise, EnvVarOrg, EnvVarRepo}"
    "EnvVarRunnerFeatureFlagEphemeral \<notin> {EnvVarEnterprise, EnvVarOrg, EnvVarRepo}"
    by (simp_all add: env_names)
  have "scopeOf (runnerEnvVars q) = exampleScope"
    using newRunnerPod_Ret(2) [OF q] scopeOf_setRunnerEnv [OF k(3)] scopeOf_assemblePod [of exampleReconciler ?n ?t ?c ?ro] c(1) by (auto simp: exampleConfig_def)
  moreover have "runnerEnvVars ?q = runnerEnvVars q" by (simp add: runnerEnvVars_def overrideSpec_def c(2) exampleRunnerPodSpec_def)
  ultimately have sc: "scopeOf (runnerEnvVars (mutatePod ?q ?tok)) = exampleScope"
    by (simp add: mutatePod_def Let_def scopeOf_setRunnerEnv [OF k(1)] scopeOf_setRunnerEnv [OF k(2)])
  have np: "\<exists>refs. newPod examplePodEnv exampleReconciler r = Ret ((mutatePod ?q ?tok)\<lparr>pod_Meta := (pod_Meta (mutatePod ?q ?tok))\<lparr>om_OwnerReferences := refs\<rparr>\<rparr>)"
    unfolding newPod_def Let_def q go_bind.simps
    by (simp add: c(2) exampleRunnerPodSpec_def addVolumeMounts_def addVolumes_def examplePodEnv_def) blast
  have m: "pod_Meta (mutatePod ?q ?tok) = (pod_Meta q)\<lparr>om_Name := ?n\<rparr>" by (simp add: mutatePod_def Let_def)
  have "map_of (om_Labels (pod_Meta q)) LabelKeyRunnerSetName \<noteq> None \<and> om_Finalizers (pod_Meta q) = []"
    using newRunnerPod_Ret(2) [OF q]
    by (auto simp: assemblePod_def Let_def map_of_CloneAndAddLabel label_keys podTemplate_def empty_defs)
  with np sc m show ?thesis by (fastforce simp: exampleRunnerEnv_def runnerEnvVars_def scopeOf_def)
qed

text \<open>A runner of the current generation with a valid token, whose pod is gone.\<close>

definition demoRunner :: Runner where
  "demoRunner = exampleRegistered\<lparr>r_Status := (r_Status exampleRegistered)\<lparr>rst_Phase := ''Running''\<rparr>\<rparr>"

definition demoWorld :: World where
  "demoWorld = \<lparr>w_Runners = [''a'' \<mapsto> demoRunner], w_Pods = \<lambda>n. None, w_GitHub = \<lparr>g_Runners = [], g_Busy = {}\<rparr>, w_Known = {}, w_Races = \<lambda>n. {}\<rparr>"

abbreviation runningStatus :: PodStatus where "runningStatus \<equiv> emptyPodStatus\<lparr>pst_Phase := Running\<rparr>"

lemma demo_runner:
  "om_Name (r_Meta demoRunner) = ''a''" "currentRunner ''h'' demoRunner" "getAnnotation (r_Meta demoRunner) k = None" "om_Finalizers (r_Meta demoRunner) = [finalizerName]"
  "r_Spec demoRunner = r_Spec exampleRunnerObject" "IsRegisterable 0 demoRunner" "\<not> deleting (r_Meta demoRunner)"
  by (simp_all add: demoRunner_def exampleRegistered_def withRegistration_def withFinalizer_def exampleRunnerObject_def emptyMeta_def currentRunner_def exampleToken_def
      ownerRunner_templateHash_def getRunnerTemplateHash_def getAnnotation_def ownerRunner_synced_def IsRegisterable_def label_keys Let_def)

lemma demo_initial: "initial demoWorld"
  by (simp add: initial_def demoWorld_def unmarked_def demo_runner)

lemma example_reference: "setsOnlyReference (re_PodEnv exampleRunnerEnv)"
  by (auto simp: setsOnlyReference_def exampleRunnerEnv_def examplePodEnv_def)

lemma status_canRun: "pod_Status p = emptyPodStatus \<Longrightarrow> canRun p" "canRun (p\<lparr>pod_Status := runningStatus\<rparr>)"
  by (simp_all add: canRun_def runnerPodOrContainerIsStopped_def runnerContainerExitCode_def emptyPodStatus_def)

definition demoSync :: SyncEnv where
  "demoSync = \<lparr>sy_Iter = rev, sy_Effective = None, sy_Create = demoRunner, sy_Ephemeral = True\<rparr>"

definition demoGitHub :: GitHubState where "demoGitHub = \<lparr>g_Runners = [(''a'', 7)], g_Busy = {}\<rparr>"

lemma demo_sync: "rangesOver (sy_Iter demoSync)" "ownerRunner_templateHash (sy_Create demoSync) = ownerRunner_templateHash demoRunner" "unmarked (r_Meta (sy_Create demoSync))"
  by (simp_all add: demoSync_def rangesOver_rev unmarked_def demo_runner)

lemma demo_scope: "getEnterpriseOrganizationAndRepo [] [] ''o/r'' = Ret ([], ''o'', ''r'')"
  by (simp add: getEnterpriseOrganizationAndRepo_def splitOwnerAndRepo_def)

lemma demo_idle:
  "\<exists>w p. reachable exampleScope w \<and> w_Races w ''a'' = {} \<and> w_GitHub w = demoGitHub \<and> idle (referenceGitHub demoGitHub) exampleScope 0 w ''a'' demoRunner p 7"
proof -
  let ?S = "step exampleScope"
  obtain P where P: "newPod (re_PodEnv exampleRunnerEnv) (re_Reconciler exampleRunnerEnv) demoRunner = Ret P"
    "map_of (om_Labels (pod_Meta P)) LabelKeyRunnerSetName \<noteq> None" "scopeOf (runnerEnvVars P) = exampleScope" "runnerEnvVars P \<noteq> []" "om_Finalizers (pod_Meta P) = []"
    using example_pod [OF demo_runner(5)] by blast
  note m = newPod_meta [OF P(1) example_reference, unfolded demo_runner(1)]
  define P2 where "P2 = P\<lparr>pod_Status := runningStatus\<rparr>"
  define P4 where "P4 = P2\<lparr>pod_Meta := (pod_Meta P)\<lparr>om_Finalizers := [runnerPodFinalizerName]\<rparr>\<rparr>"
  let ?w1 = "demoWorld\<lparr>w_Pods := [''a'' \<mapsto> P]\<rparr>" and ?w2 = "demoWorld\<lparr>w_Pods := [''a'' \<mapsto> P2]\<rparr>"
  let ?w3 = "demoWorld\<lparr>w_Pods := [''a'' \<mapsto> P2], w_GitHub := demoGitHub, w_Known := {''a''}\<rparr>"
  let ?w4 = "demoWorld\<lparr>w_Pods := [''a'' \<mapsto> P4], w_GitHub := demoGitHub, w_Known := {''a''}\<rparr>"
  have a: "getAnnotation (pod_Meta P) k = None" for k using m(2) by (simp add: demo_runner)
  have r: "w_Runners demoWorld ''a'' = Some demoRunner" "w_Pods demoWorld ''a'' = None" by (simp_all add: demoWorld_def)
  have "createPod P demoWorld = ?w1" by (simp add: createPod_def demoWorld_def m(1) a Let_def fun_upd_def)
  then have s1: "?S demoWorld ?w1"
    using reconcileRunner_creates [OF r(1) demo_runner(1) r(2) demo_runner(7) _ demo_runner(6) P(1)] step_reconcileRunner [OF r(1) example_reference, of exampleScope "referenceGitHub demoGitHub" 0]
    by (simp add: demo_runner)
  have "setStatus P runningStatus ?w1 = ?w2" using status_canRun(1) [OF m(4)] by (simp add: setStatus_def demoWorld_def m P2_def Let_def fun_eq_iff)
  with status [of ?w1 "''a''" P exampleScope runningStatus] have s2: "?S ?w1 ?w2" by simp
  have "registerRunner ''a'' 7 ?w2 = ?w3" by (simp add: registerRunner_def demoWorld_def demoGitHub_def fun_upd_def)
  with register [of ?w2 "''a''" P2 exampleScope 7] have s3: "?S ?w2 ?w3" by (simp add: P2_def status_canRun)
  have e: "runnerEnvVars P2 = runnerEnvVars P" "pod_Meta P2 = pod_Meta P" by (simp_all add: P2_def runnerEnvVars_def)
  have "reconcilePod (referenceGitHub demoGitHub) 0 [] 0 ''a'' ?w3 = ?w4"
    using reconcilePod_adds_finalizer [of ?w3 "''a''" P2 "referenceGitHub demoGitHub"] P(2-5) by (simp add: e m P4_def demoWorld_def)
  with step_reconcilePod [of ?w3 "''a''" P2 exampleScope "referenceGitHub demoGitHub" 0 "[]" 0] have s4: "?S ?w3 ?w4"
    using P(3) reference_removes_idle by (simp add: e)
  have "(?S)\<^sup>*\<^sup>* demoWorld ?w4" using s1 s2 s3 s4 by (meson converse_rtranclp_into_rtranclp r_into_rtranclp)
  then have r: "reachable exampleScope ?w4" using demo_initial unfolding reachable_def by blast
  have e4: "runnerEnvVars (P4\<lparr>pod_Meta := x\<rparr>) = runnerEnvVars P" "canRun P4" "pst_Phase (pod_Status P4) = Running" "podConditionTransitionTimeAfter 0 P4 y z = False" for x y z
    using status_canRun(2) [of P] by (simp_all add: P4_def P2_def runnerEnvVars_def podConditionTransitionTimeAfter_def podConditionTransitionTime_def emptyPodStatus_def)
  have a4: "getAnnotation (pod_Meta P4) k = None" "om_Name (pod_Meta P4) = ''a''" "om_DeletionTimestamp (pod_Meta P4) = None" "om_Finalizers (pod_Meta P4) = [runnerPodFinalizerName]"
    "om_Labels (pod_Meta P4) = om_Labels (pod_Meta P)" for k
    using a [of k] m(1,3) by (simp_all add: P4_def getAnnotation_def)
  have gr: "\<exists>x. getRunner (referenceGitHub demoGitHub) [] [] ''o/r'' ''a'' = Ret (Some x) \<and> ghr_ID x = Some 7" "RemoveRunner (referenceGitHub demoGitHub) [] [] ''o/r'' 7 = Ret ()"
    by (simp_all add: getRunner_def ListRunners_reference RemoveRunner_reference demo_scope listing_def demoGitHub_def GetName_def)
  have "idle (referenceGitHub demoGitHub) exampleScope 0 ?w4 ''a'' demoRunner P4 7"
    unfolding idle_def using gr demo_runner(2)
    by (auto simp: demoWorld_def demo_runner(1,3,4) runningPod_def requestedPod_def e4 a4 P annotation_keys)
  with r show ?thesis by (intro exI [of _ ?w4] exI [of _ P4]) (simp add: demoWorld_def)
qed


theorem scale_down_interrupts_no_job_witness:
  "\<exists>w p r. reachable exampleScope w \<and> w_Pods w ''a'' = Some p \<and> w_Runners w ''a'' = Some r \<and> unregistered (r_Meta r) \<and> \<not> deleting (pod_Meta p) \<and> w_Races w ''a'' = {} \<and> \<not> jobRunning w ''a''"
proof -
  let ?gh = "referenceGitHub demoGitHub"
  obtain w p where w: "reachable exampleScope w" "w_Races w ''a'' = {}" "w_GitHub w = demoGitHub" and i: "idle ?gh exampleScope 0 w ''a'' demoRunner p 7"
    using demo_idle by blast
  define w1 where "w1 = syncToZero demoSync ?gh 0 ''t'' ''a'' w"
  define w2 where "w2 = reconcilePod ?gh 0 ''t'' 0 ''a'' w1"
  define w3 where "w3 = syncToZero demoSync ?gh 0 ''t'' ''a'' w2"
  let ?p = "withPodMark AnnotationKeyUnregistrationRequestTimestamp ''t'' p" and ?r = "withRunnerMark AnnotationKeyUnregistrationRequestTimestamp ''t'' demoRunner"
  note two = requested_then_stopped [OF i demo_sync(1,2) w1_def]
  obtain l where l: "w2 = stoppedWorld ''t'' ''a'' 7 ?p (githubRaces ?gh exampleScope (g_Runners (w_GitHub w)) ?p l) w1" using two(2) unfolding w2_def by blast
  have v2: "w2 = stoppedWorld ''t'' ''a'' 7 ?p {} w1" unfolding l w(3) by (simp only: true_answers_no_races [OF reference.true_answers_axioms])
  obtain l' where "w3 = broughtDown ''t'' ''t'' ''t'' ''a'' demoRunner p 7 (githubRaces ?gh exampleScope (g_Runners (w_GitHub w)) ?p l') w"
    using idle_down [OF i demo_sync(1,2)] unfolding w1_def w2_def w3_def by blast
  then have v3: "w3 = broughtDown ''t'' ''t'' ''t'' ''a'' demoRunner p 7 {} w" unfolding w(3) by (simp only: true_answers_no_races [OF reference.true_answers_axioms])
  have r: "w_Runners w ''a'' = Some demoRunner" "w_Runners w1 ''a'' = Some ?r" "w_Runners w2 ''a'' = Some ?r" "w_Pods w1 ''a'' = Some ?p" "w_GitHub w1 = demoGitHub"
    using i w(3) by (simp_all add: idle_def two(1) v2 stoppedWorld_def unregisterID_def addRaces_def)
  have sc: "scopeOf (runnerEnvVars ?p) = exampleScope" using i by (simp add: idle_def requestedPod_def runnerEnvVars_def)
  have "step exampleScope w w1" unfolding w1_def by (rule step_syncToZero [OF r(1) _ demo_sync(1,3)]) (simp add: demo_runner)
  moreover have "step exampleScope w1 w2" unfolding w2_def by (rule step_reconcilePod [OF r(4) sc]) (simp add: r(5) reference_removes_idle)
  moreover have "step exampleScope w2 w3" unfolding w3_def by (rule step_syncToZero [OF r(3) _ demo_sync(1,3)]) (simp add: demo_runner)
  ultimately have "(step exampleScope)\<^sup>*\<^sup>* w w3" by (meson converse_rtranclp_into_rtranclp r_into_rtranclp)
  with w(1) have re: "reachable exampleScope w3" unfolding reachable_def by (meson rtranclp_trans)
  have p: "w_Pods w3 ''a'' = Some (stoppedPod 7 ''t'' ?p)" "w_Races w3 ''a'' = {}" "\<not> deleting (pod_Meta (stoppedPod 7 ''t'' ?p))"
    using w(2) i by (auto simp: v3 broughtDown_def stoppedWorld_def addRaces_def unregisterID_def idle_def runningPod_def stoppedPod_def)
  obtain q where q: "w_Runners w3 ''a'' = Some q" "unregistered (r_Meta q)" by (simp add: v3 broughtDown_def)
  with p(3) have "\<not> jobRunning w3 ''a''" using scale_down_interrupts_no_job [OF re p(1,2), of q] by blast
  with re p q show ?thesis by blast
qed

subsection \<open>A race\<close>

text \<open>
  The run of the race, from a world with a runner whose pod is gone: two synchronisations with no replicas wanted, a reconciliation of the runner, one of its pod, the runner of that pod registers and takes a job, another synchronisation, the deletion of the pod, as Kubernetes requests it when the
  runner goes, and another reconciliation of the pod. GitHub answers truly at every step.
\<close>

definition unregisteredWorld :: World where
  "unregisteredWorld = (let gh = referenceGitHub (w_GitHub demoWorld) in syncToZero demoSync gh 0 ''t'' ''a'' (syncToZero demoSync gh 0 ''t'' ''a'' demoWorld))"

definition recreatedWorld :: World where
  "recreatedWorld = (let gh = referenceGitHub (w_GitHub demoWorld) in reconcilePod gh 0 ''t'' 0 ''a'' (reconcileRunner exampleRunnerEnv gh 0 ''a'' unregisteredWorld))"

definition busyWorld :: World where
  "busyWorld = (let w = registerRunner ''a'' 7 recreatedWorld in setBusy (insert ''a'' (g_Busy (w_GitHub w))) w)"

definition interruptedWorld :: World where
  "interruptedWorld = (let gh = referenceGitHub (w_GitHub busyWorld); w = syncToZero demoSync gh 0 ''t'' ''a'' busyWorld
     in reconcilePod gh 0 ''t'' 0 ''a'' (case w_Pods w ''a'' of None \<Rightarrow> w | Some p \<Rightarrow> requestPodDeletion 0 p w))"

abbreviation demoRequested :: Runner where
  "demoRequested \<equiv> withRunnerMark AnnotationKeyUnregistrationRequestTimestamp ''t'' demoRunner"

abbreviation demoUnregistered :: Runner where
  "demoUnregistered \<equiv> withRunnerMark AnnotationKeyUnregistrationCompleteTimestamp ''t'' demoRequested"

abbreviation demoDeleting :: Runner where
  "demoDeleting \<equiv> demoUnregistered\<lparr>r_Meta := (r_Meta demoUnregistered)\<lparr>om_DeletionTimestamp := Some 0\<rparr>\<rparr>"

lemma demo_hash: "ownerRunner_templateHash demoRunner = Some ''h''" "ownerRunner_templateHash (sy_Create demoSync) = Some ''h''"
  using demo_runner(2) by (simp_all add: currentRunner_def demoSync_def)

lemma unregisteredWorld_eq: "unregisteredWorld = demoWorld\<lparr>w_Runners := [''a'' \<mapsto> demoUnregistered]\<rparr>"
proof -
  have c: "currentRunner ''h'' demoRequested" "getAnnotation (r_Meta demoRequested) AnnotationKeyUnregistrationRequestTimestamp \<noteq> None" "om_Name (r_Meta demoRequested) = ''a''"
    using demo_runner(2) by (simp_all add: currentRunner_def demo_runner annotation_keys)
  have v1: "syncToZero demoSync gh 0 ''t'' ''a'' demoWorld = demoWorld\<lparr>w_Runners := [''a'' \<mapsto> demoRequested]\<rparr>" for gh
    using syncToZero_requests [OF demo_sync(1) _ demo_runner(1,2) demo_hash(2), of demoWorld 0 gh "''t''"] by (simp add: demoWorld_def demo_runner)
  show ?thesis
    using syncToZero_completes [OF demo_sync(1) _ c(3,1) demo_hash(2) c(2), of "demoWorld\<lparr>w_Runners := [''a'' \<mapsto> demoRequested]\<rparr>" _ 0 "''t''"]
    by (simp add: unregisteredWorld_def v1 Let_def) (simp add: demoWorld_def)
qed

text \<open>A pod that is marked as unregistered before anything else happened to it.\<close>

definition bornUnregistered :: "Pod \<Rightarrow> bool" where
  "bornUnregistered p \<longleftrightarrow> om_Name (pod_Meta p) = ''a'' \<and> map_of (om_Labels (pod_Meta p)) LabelKeyRunnerSetName \<noteq> None \<and> scopeOf (runnerEnvVars p) = exampleScope \<and>
     runnerEnvVars p \<noteq> [] \<and> om_Finalizers (pod_Meta p) = [runnerPodFinalizerName] \<and> canRun p \<and>
     getAnnotation (pod_Meta p) AnnotationKeyUnregistrationCompleteTimestamp = Some ''t'' \<and> getAnnotation (pod_Meta p) AnnotationKeyRunnerID = None \<and>
     getAnnotation (pod_Meta p) AnnotationKeyUnregistrationStartTimestamp = None"

lemma recreatedWorld_eq:
  "\<exists>p. recreatedWorld = unregisteredWorld\<lparr>w_Pods := [''a'' \<mapsto> p], w_Races := (\<lambda>n. {})(''a'' := {BornUnregistered})\<rparr> \<and> bornUnregistered p \<and>
    om_DeletionTimestamp (pod_Meta p) = None"
proof -
  have sp: "r_Spec demoUnregistered = r_Spec exampleRunnerObject" "IsRegisterable 0 demoUnregistered"
    using demo_runner(5,6) by (simp_all add: ownerRunner_withAnnotation_def IsRegisterable_def)
  obtain P where P: "newPod (re_PodEnv exampleRunnerEnv) (re_Reconciler exampleRunnerEnv) demoUnregistered = Ret P"
    "map_of (om_Labels (pod_Meta P)) LabelKeyRunnerSetName \<noteq> None" "scopeOf (runnerEnvVars P) = exampleScope" "runnerEnvVars P \<noteq> []" "om_Finalizers (pod_Meta P) = []"
    using example_pod [OF sp(1)] by blast
  note m = newPod_meta [OF P(1) example_reference]
  define P1 where "P1 = P\<lparr>pod_Meta := (pod_Meta P)\<lparr>om_Finalizers := [runnerPodFinalizerName]\<rparr>\<rparr>"
  have n: "om_Name (pod_Meta P) = ''a''" "unregistered (pod_Meta P)" "canRun P" "om_DeletionTimestamp (pod_Meta P) = None"
    using status_canRun(1) [OF m(4)] by (simp_all add: m demo_runner)
  have "getAnnotation (pod_Meta P) AnnotationKeyUnregistrationCompleteTimestamp = Some ''t''" "getAnnotation (pod_Meta P) AnnotationKeyRunnerID = None"
    "getAnnotation (pod_Meta P) AnnotationKeyUnregistrationStartTimestamp = None"
    unfolding m(2) by (simp_all add: demo_runner annotation_keys)
  moreover have "getAnnotation (pod_Meta P1) = getAnnotation (pod_Meta P)" by (simp add: P1_def getAnnotation_def fun_eq_iff)
  ultimately have "bornUnregistered P1" using P n by (simp add: bornUnregistered_def P1_def runnerEnvVars_def)
  moreover have "reconcileRunner exampleRunnerEnv gh 0 ''a'' unregisteredWorld = createPod P unregisteredWorld" for gh
    by (rule reconcileRunner_creates [OF _ _ _ _ _ sp(2) P(1)]) (simp_all add: unregisteredWorld_eq demoWorld_def demo_runner)
  moreover have "createPod P unregisteredWorld = unregisteredWorld\<lparr>w_Pods := [''a'' \<mapsto> P], w_Races := (\<lambda>n. {})(''a'' := {BornUnregistered})\<rparr>"
    using n(2) by (auto simp: createPod_def unregisteredWorld_eq demoWorld_def n(1) Let_def fun_eq_iff)
  ultimately show ?thesis
    using reconcilePod_adds_finalizer [of "unregisteredWorld\<lparr>w_Pods := [''a'' \<mapsto> P], w_Races := (\<lambda>n. {})(''a'' := {BornUnregistered})\<rparr>" "''a''" P] P(2-5) n(1,4)
    by (intro exI [of _ P1]) (simp add: recreatedWorld_def Let_def P1_def unregisteredWorld_eq)
qed

abbreviation busyGitHub :: GitHubState where "busyGitHub \<equiv> \<lparr>g_Runners = [(''a'', 7)], g_Busy = {''a''}\<rparr>"

lemma bornUnregistered_let_go:
  assumes "bornUnregistered p" and "w_Pods w ''a'' = Some p" and "w_GitHub w = busyGitHub" and "deleting (pod_Meta p)"
  shows "\<exists>q. reconcilePod (referenceGitHub busyGitHub) 0 ''t'' 0 ''a'' w = w\<lparr>w_Pods := (w_Pods w)(''a'' \<mapsto> q)\<rparr> \<and>
    om_Finalizers (pod_Meta q) = [] \<and> om_DeletionTimestamp (pod_Meta q) = om_DeletionTimestamp (pod_Meta p) \<and> canRun q"
proof -
  let ?q = "let q = withPodMark AnnotationKeyUnregistrationStartTimestamp ''t'' p in q\<lparr>pod_Meta := (pod_Meta q)\<lparr>om_Finalizers := []\<rparr>\<rparr>"
  obtain x where x: "getRunner (referenceGitHub busyGitHub) [] [] ''o/r'' ''a'' = Ret x" by (auto simp: getRunner_def ListRunners_reference demo_scope)
  have "reconcilePod (referenceGitHub busyGitHub) 0 ''t'' 0 ''a'' w = w\<lparr>w_Pods := (w_Pods w)(''a'' \<mapsto> ?q)\<rparr>"
    by (rule reconcilePod_lets_go [OF assms(2) _ _ _ _ assms(4) _ _ _ _ x]) (use assms(1,3) in \<open>simp_all add: bornUnregistered_def annotationNonEmpty_def\<close>)
  moreover have "canRun ?q" using assms(1) by (simp add: bornUnregistered_def Let_def)
  ultimately show ?thesis by (intro exI [of _ ?q]) (simp add: Let_def)
qed


end
