(* ===== verification/GitHub_Config.thy ===== *)
theory GitHub_Config
  imports GitHub_Client
begin

section \<open>Configuration of the GitHub client\<close>

text \<open>
  Model of \<open>Config.NewClient\<close> in \<open>src/github/github.go\<close>: the choice of the authentication and of the URLs. The packages that build transports and clients, \<open>url.Parse\<close> and \<open>os.Stat\<close> are the parameter
  \<open>ClientLibs\<close>; the caching, logging and metrics transports that wrap the chosen one are in theory \<open>Telemetry\<close>. A URL is its scheme, host and path.
\<close>

type_synonym url = "string \<times> string \<times> string"

record GitHubConfig =
  gc_EnterpriseURL :: string
  gc_AppID :: int
  gc_AppInstallationID :: int
  gc_AppPrivateKey :: string
  gc_Token :: string
  gc_URL :: string
  gc_UploadURL :: string
  gc_BasicauthUsername :: string
  gc_BasicauthPassword :: string
  gc_RunnerGitHubURL :: string

datatype transport =
    BasicAuthTransport string string
  | OAuth2 string
  | Installation int int string "string option"

record ClientLibs =
  cl_StatOk :: "string \<Rightarrow> bool"
  cl_NewKeyFromFile :: "int \<Rightarrow> int \<Rightarrow> string \<Rightarrow> unit go"
  cl_NewInstallation :: "int \<Rightarrow> int \<Rightarrow> string \<Rightarrow> unit go"
  cl_UrlParse :: "string \<Rightarrow> url go"
  cl_NewEnterpriseClient :: "string \<Rightarrow> string \<Rightarrow> (url \<times> url) go"
  cl_DefaultBaseURL :: url
  cl_DefaultUploadURL :: url

record GhClient =
  cli_Transport :: transport
  cli_BaseURL :: url
  cli_UploadURL :: url
  cli_UserAgent :: string
  cli_regTokens :: regTokens
  cli_GithubBaseURL :: string

text \<open>\<open>fmt.Errorf\<close> with \<open>%v\<close>: the cause becomes text.\<close>

definition orErrorf :: "string \<Rightarrow> 'a go \<Rightarrow> 'a go" where
  "orErrorf msg m = (case m of Err e \<Rightarrow> Err (Errorf msg) | r \<Rightarrow> r)"

definition withSlash :: "string \<Rightarrow> string" where
  "withSlash s = (if \<not> HasSuffix s ''/'' then s @ ''/'' else s)"

definition withPathSlash :: "url \<Rightarrow> url" where
  "withPathSlash u = (case u of (scheme, host, path) \<Rightarrow> (scheme, host, withSlash path))"

definition newTransport :: "ClientLibs \<Rightarrow> GitHubConfig \<Rightarrow> transport go" where
  "newTransport lib c =
     (if length (gc_BasicauthUsername c) > 0 \<and> length (gc_BasicauthPassword c) > 0 then
        Ret (BasicAuthTransport (gc_BasicauthUsername c) (gc_BasicauthPassword c))
      else if length (gc_Token c) > 0 then Ret (OAuth2 (gc_Token c))
      else
        go_bind (orErrorf ''authentication failed''
            (if cl_StatOk lib (gc_AppPrivateKey c) then cl_NewKeyFromFile lib (gc_AppID c) (gc_AppInstallationID c) (gc_AppPrivateKey c)
             else cl_NewInstallation lib (gc_AppID c) (gc_AppInstallationID c) (gc_AppPrivateKey c)))
          (\<lambda>_. if length (gc_EnterpriseURL c) > 0 then
                go_bind (orErrorf ''enterprise url incorrect'' (getEnterpriseApiUrl (cl_UrlParse lib) (gc_EnterpriseURL c)))
                  (\<lambda>base. Ret (Installation (gc_AppID c) (gc_AppInstallationID c) (gc_AppPrivateKey c) (Some base)))
              else Ret (Installation (gc_AppID c) (gc_AppInstallationID c) (gc_AppPrivateKey c) None)))"

definition parsedOr :: "ClientLibs \<Rightarrow> string \<Rightarrow> url \<Rightarrow> url go" where
  "parsedOr lib s d =
     (if length s > 0 then go_bind (orErrorf ''github client creation failed'' (cl_UrlParse lib s)) (\<lambda>u. Ret (withPathSlash u)) else Ret d)"

definition clientURLs :: "ClientLibs \<Rightarrow> GitHubConfig \<Rightarrow> (url \<times> url \<times> string) go" where
  "clientURLs lib c =
     (if length (gc_EnterpriseURL c) > 0 then
        go_bind (orErrorf ''enterprise client creation failed'' (cl_NewEnterpriseClient lib (gc_EnterpriseURL c) (gc_EnterpriseURL c)))
          (\<lambda>(base, upload). (case base of (scheme, host, path) \<Rightarrow>
             Ret (base, upload, scheme @ ''://'' @ host @ TrimSuffix path ''api/v3/'')))
      else
        go_bind (parsedOr lib (gc_URL c) (cl_DefaultBaseURL lib))
          (\<lambda>base. go_bind (parsedOr lib (gc_UploadURL c) (cl_DefaultUploadURL lib))
            (\<lambda>upload. Ret (base, upload,
               if length (gc_RunnerGitHubURL c) > 0 then withSlash (gc_RunnerGitHubURL c) else ''https://github.com/''))))"

definition NewClient :: "ClientLibs \<Rightarrow> GitHubConfig \<Rightarrow> GhClient go" where
  "NewClient lib c =
     go_bind (newTransport lib c)
       (\<lambda>tr. go_bind (clientURLs lib c)
         (\<lambda>(base, upload, githubBaseURL).
           Ret \<lparr>cli_Transport = tr, cli_BaseURL = base, cli_UploadURL = upload, cli_UserAgent = ''actions-runner-controller'',
             cli_regTokens = [], cli_GithubBaseURL = githubBaseURL\<rparr>))"

subsection \<open>URLs end with a slash\<close>

definition pathOf :: "url \<Rightarrow> string" where "pathOf u = snd (snd u)"

lemma withSlash_suffix: "HasSuffix (withSlash s) ''/''"
  by (simp add: withSlash_def HasSuffix_def)

lemma withPathSlash_suffix: "HasSuffix (pathOf (withPathSlash u)) ''/''"
  by (cases u) (simp add: withPathSlash_def pathOf_def withSlash_suffix)

lemma parsedOr_suffix: "parsedOr lib s d = Ret u \<Longrightarrow> HasSuffix (pathOf d) ''/'' \<Longrightarrow> HasSuffix (pathOf u) ''/''"
  by (auto simp: parsedOr_def go_bind_Ret_iff withPathSlash_suffix split: if_splits)

text \<open>
  Without an enterprise URL, every URL of a client ends with a slash, however the operator wrote it: go-github refuses a base URL that does not, and the runner's entry point appends to the URL of GitHub.
\<close>

theorem NewClient_urls_end_with_slash:
  assumes "NewClient lib c = Ret client" and "gc_EnterpriseURL c = []"
    and "HasSuffix (pathOf (cl_DefaultBaseURL lib)) ''/''" and "HasSuffix (pathOf (cl_DefaultUploadURL lib)) ''/''"
  shows "HasSuffix (pathOf (cli_BaseURL client)) ''/'' \<and> HasSuffix (pathOf (cli_UploadURL client)) ''/'' \<and> HasSuffix (cli_GithubBaseURL client) ''/''"
proof -
  obtain base upload where b: "parsedOr lib (gc_URL c) (cl_DefaultBaseURL lib) = Ret base"
    and u: "parsedOr lib (gc_UploadURL c) (cl_DefaultUploadURL lib) = Ret upload"
    and c: "cli_BaseURL client = base" "cli_UploadURL client = upload"
      "cli_GithubBaseURL client = (if length (gc_RunnerGitHubURL c) > 0 then withSlash (gc_RunnerGitHubURL c) else ''https://github.com/'')"
    using assms(1,2) by (auto simp: NewClient_def clientURLs_def go_bind_Ret_iff)
  have "HasSuffix ''https://github.com/'' ''/''" by (simp add: HasSuffix_def suffix_def)
  with parsedOr_suffix [OF b assms(3)] parsedOr_suffix [OF u assms(4)] c show ?thesis by (simp add: withSlash_suffix)
qed

text \<open>The authentication: basic authentication before a token, a token before a GitHub App; only the App can fail.\<close>

theorem newTransport_precedence:
  assumes "newTransport lib c = Ret tr"
  shows "tr = (if gc_BasicauthUsername c \<noteq> [] \<and> gc_BasicauthPassword c \<noteq> [] then BasicAuthTransport (gc_BasicauthUsername c) (gc_BasicauthPassword c)
      else if gc_Token c \<noteq> [] then OAuth2 (gc_Token c)
      else Installation (gc_AppID c) (gc_AppInstallationID c) (gc_AppPrivateKey c)
        (if gc_EnterpriseURL c = [] then None else case getEnterpriseApiUrl (cl_UrlParse lib) (gc_EnterpriseURL c) of Ret u \<Rightarrow> Some u | _ \<Rightarrow> None))"
  using assms by (auto simp: newTransport_def go_bind_Ret_iff orErrorf_def split: if_splits go.splits)

end
