(* ===== verification/Telemetry.thy ===== *)
theory Telemetry
  imports Go_Float Graceful_Stop
begin

section \<open>Metrics and logging\<close>

text \<open>
  Model of \<open>src/controllers/metrics\<close>, \<open>src/github/metrics/transport.go\<close> and \<open>src/logging\<close>: the gauges that the controllers set, and the two transports between the GitHub client and the cache, one that reads the rate limit from the headers and one that logs. Both
  are wrappers of a transport; what a wrapper promises its client is the locale \<open>transparent\<close>, and the order in which \<open>Config.NewClient\<close> nests them is \<open>clientTransport\<close>.

  A gauge is known by its name and the values of its labels. The registry exposes the gauges of the collectors registered in the \<open>init\<close> functions.
\<close>

subsection \<open>Gauges of the custom resources\<close>

type_synonym gauges = "string \<times> string list \<Rightarrow> float64 option"

definition setGauge :: "string \<Rightarrow> string list \<Rightarrow> int option \<Rightarrow> gauges \<Rightarrow> gauges" where
  "setGauge name labels v g = (case v of None \<Rightarrow> g | Some i \<Rightarrow> g((name, labels) \<mapsto> ofInt i))"

definition objectLabels :: "ObjectMeta \<Rightarrow> string list" where
  "objectLabels o' = [om_Name o', om_Namespace o']"

definition horizontalRunnerAutoscalerMinReplicas :: string where
  "horizontalRunnerAutoscalerMinReplicas = ''horizontalrunnerautoscaler_spec_min_replicas''"
definition horizontalRunnerAutoscalerMaxReplicas :: string where
  "horizontalRunnerAutoscalerMaxReplicas = ''horizontalrunnerautoscaler_spec_max_replicas''"
definition horizontalRunnerAutoscalerDesiredReplicas :: string where
  "horizontalRunnerAutoscalerDesiredReplicas = ''horizontalrunnerautoscaler_status_desired_replicas''"
definition runnerDeploymentReplicas :: string where "runnerDeploymentReplicas = ''runnerdeployment_spec_replicas''"
definition runnerSetReplicas :: string where "runnerSetReplicas = ''runnerset_spec_replicas''"

definition horizontalRunnerAutoscalerMetrics :: "string list" where
  "horizontalRunnerAutoscalerMetrics = [horizontalRunnerAutoscalerMinReplicas, horizontalRunnerAutoscalerMaxReplicas, horizontalRunnerAutoscalerDesiredReplicas]"
definition runnerDeploymentMetrics :: "string list" where "runnerDeploymentMetrics = [runnerDeploymentReplicas]"
definition runnerSetMetrics :: "string list" where "runnerSetMetrics = [runnerSetReplicas]"

lemmas gauge_names = horizontalRunnerAutoscalerMinReplicas_def horizontalRunnerAutoscalerMaxReplicas_def horizontalRunnerAutoscalerDesiredReplicas_def
  runnerDeploymentReplicas_def runnerSetReplicas_def

definition SetHorizontalRunnerAutoscalerSpec :: "ObjectMeta \<Rightarrow> HorizontalRunnerAutoscalerSpec \<Rightarrow> gauges \<Rightarrow> gauges" where
  "SetHorizontalRunnerAutoscalerSpec o' spec g =
     setGauge horizontalRunnerAutoscalerMinReplicas (objectLabels o') (hs_MinReplicas spec)
       (setGauge horizontalRunnerAutoscalerMaxReplicas (objectLabels o') (hs_MaxReplicas spec) g)"

definition SetHorizontalRunnerAutoscalerStatus :: "ObjectMeta \<Rightarrow> HorizontalRunnerAutoscalerStatus \<Rightarrow> gauges \<Rightarrow> gauges" where
  "SetHorizontalRunnerAutoscalerStatus o' status g = setGauge horizontalRunnerAutoscalerDesiredReplicas (objectLabels o') (hst_DesiredReplicas status) g"

definition SetRunnerDeployment :: "RunnerDeployment \<Rightarrow> gauges \<Rightarrow> gauges" where
  "SetRunnerDeployment rd g = setGauge runnerDeploymentReplicas (objectLabels (rd_Meta rd)) (rds_Replicas (rd_Spec rd)) g"

definition SetRunnerSet :: "RunnerSet \<Rightarrow> gauges \<Rightarrow> gauges" where
  "SetRunnerSet rs g = setGauge runnerSetReplicas (objectLabels (rset_Meta rs)) (rss_Replicas (rset_Spec rs)) g"

subsection \<open>Loggers\<close>

text \<open>\<open>NewLogger\<close>: the level of zap, an \<open>int8\<close>, or \<open>None\<close> where the program exits. \<open>V(n)\<close> of logr is enabled when the level is at most \<open>-n\<close>.\<close>

definition NewLogger :: "string \<Rightarrow> int option" where
  "NewLogger logLevel =
     (if logLevel = ''debug'' then Some (- 1)
      else if logLevel = ''info'' then Some 0
      else if logLevel = ''warn'' then Some 1
      else if logLevel = ''error'' then Some 2
      else case ParseInt10 logLevel of
          None \<Rightarrow> None
        | Some v \<Rightarrow> if - 128 \<le> v \<and> v \<le> 127 then Some v else None)"

definition logEnabled :: "int \<Rightarrow> nat \<Rightarrow> bool" where "logEnabled level v \<longleftrightarrow> level \<le> - int v"

subsection \<open>The transports\<close>

text \<open>
  A body is what its reader gets: the bytes, and the error with which reading ends, if it does not end at the end of the body. Header names are compared without regard to case, and \<open>Get\<close> gives the first value or the empty string. A round trip
  gives a response or none, and an error or none.
\<close>

record HttpRequest =
  hq_Method :: string
  hq_URL :: string

record HttpAnswer =
  ht_StatusCode :: int
  ht_Header :: "(string \<times> string) list"
  ht_Body :: "string \<times> goerr option"

type_synonym roundTrip = "HttpRequest \<Rightarrow> HttpAnswer option \<times> goerr option"

definition Header_Get :: "(string \<times> string) list \<Rightarrow> string \<Rightarrow> string" where
  "Header_Get h k = (case filter (\<lambda>p. map lower (fst p) = map lower k) h of [] \<Rightarrow> [] | p # _ \<Rightarrow> snd p)"

definition headerRateLimit :: string where "headerRateLimit = ''X-RateLimit-Limit''"
definition headerRateLimitRemaining :: string where "headerRateLimitRemaining = ''X-RateLimit-Remaining''"

text \<open>A line of the log: its verbosity, its message, and the values that depend on the exchange.\<close>

datatype logLine =
    UnableToCopy goerr
  | HTTPRoundTrip string int "(string \<times> string) list" string
  | SeenHTTPResponse bool string string "string option"

record Observed =
  ob_Gauges :: gauges
  ob_Log :: "logLine list"

text \<open>\<open>parseResponse\<close>, and \<open>RoundTrip\<close> of the metrics transport.\<close>

definition metricRateLimit :: string where "metricRateLimit = ''github_rate_limit''"
definition metricRateLimitRemaining :: string where "metricRateLimitRemaining = ''github_rate_limit_remaining''"

definition parseResponse :: "HttpAnswer \<Rightarrow> Observed \<Rightarrow> Observed" where
  "parseResponse resp t = t\<lparr>ob_Gauges :=
     setGauge metricRateLimitRemaining [] (ParseInt10 (Header_Get (ht_Header resp) headerRateLimitRemaining))
       (setGauge metricRateLimit [] (ParseInt10 (Header_Get (ht_Header resp) headerRateLimit)) (ob_Gauges t))\<rparr>"

definition metrics_RoundTrip :: "(HttpRequest \<Rightarrow> Observed \<Rightarrow> (HttpAnswer option \<times> goerr option) \<times> Observed) \<Rightarrow>
    HttpRequest \<Rightarrow> Observed \<Rightarrow> (HttpAnswer option \<times> goerr option) \<times> Observed" where
  "metrics_RoundTrip rt req t =
     (case rt req t of ((resp, err), t') \<Rightarrow> ((resp, err), case resp of None \<Rightarrow> t' | Some r \<Rightarrow> parseResponse r t'))"

text \<open>\<open>log\<close>, and \<open>RoundTrip\<close> of the logging transport: \<open>Log\<close> is the level of the logger, if there is one.\<close>

definition logV :: "int \<Rightarrow> nat \<Rightarrow> logLine \<Rightarrow> Observed \<Rightarrow> Observed" where
  "logV level v line t = (if logEnabled level v then t\<lparr>ob_Log := ob_Log t @ [line]\<rparr> else t)"

definition transport_log :: "int option \<Rightarrow> HttpRequest \<Rightarrow> HttpAnswer \<Rightarrow> Observed \<Rightarrow> HttpAnswer \<times> Observed" where
  "transport_log Log req resp t =
     (case Log of
        None \<Rightarrow> (resp, t)
      | Some level \<Rightarrow>
          (let marked = (Header_Get (ht_Header resp) ''X-From-Cache'' = ''1'');
               remaining = (if \<not> marked then Some (Header_Get (ht_Header resp) headerRateLimitRemaining) else None);
               (resp', t') =
                 (if logEnabled level 4 then
                    (let (buf, err) = ht_Body resp;
                         t1 = (case err of None \<Rightarrow> t | Some e \<Rightarrow> logV level 3 (UnableToCopy e) t);
                         t2 = logV level 4 (HTTPRoundTrip (hq_Method req) (ht_StatusCode resp) (ht_Header resp) buf) t1
                     in (resp\<lparr>ht_Body := (buf, None)\<rparr>, t2))
                  else (resp, t))
           in (resp', logV level 3 (SeenHTTPResponse marked (hq_Method req) (hq_URL req) remaining) t')))"

definition logging_RoundTrip :: "int option \<Rightarrow> (HttpRequest \<Rightarrow> Observed \<Rightarrow> (HttpAnswer option \<times> goerr option) \<times> Observed) \<Rightarrow>
    HttpRequest \<Rightarrow> Observed \<Rightarrow> (HttpAnswer option \<times> goerr option) \<times> Observed" where
  "logging_RoundTrip Log rt req t =
     (case rt req t of ((resp, err), t') \<Rightarrow>
        (case resp of
           None \<Rightarrow> ((None, err), t')
         | Some r \<Rightarrow> (let (r', t'') = transport_log Log req r t' in ((Some r', err), t''))))"

text \<open>The transport of the GitHub client: metrics around logging around the cache, whose round trip is a parameter.\<close>

definition quietly :: "roundTrip \<Rightarrow> HttpRequest \<Rightarrow> Observed \<Rightarrow> (HttpAnswer option \<times> goerr option) \<times> Observed" where
  "quietly rt req t = (rt req, t)"

definition clientTransport :: "int option \<Rightarrow> roundTrip \<Rightarrow> HttpRequest \<Rightarrow> Observed \<Rightarrow> (HttpAnswer option \<times> goerr option) \<times> Observed" where
  "clientTransport Log cached = metrics_RoundTrip (logging_RoundTrip Log (quietly cached))"

subsection \<open>The contract of a wrapper\<close>

text \<open>
  A wrapper hands on what the transport inside answers, but for a change \<open>seen\<close> of the response which leaves the status, the header and the bytes of the body alone.
\<close>

locale transparent =
  fixes wrap :: "(HttpRequest \<Rightarrow> Observed \<Rightarrow> (HttpAnswer option \<times> goerr option) \<times> Observed) \<Rightarrow>
      HttpRequest \<Rightarrow> Observed \<Rightarrow> (HttpAnswer option \<times> goerr option) \<times> Observed"
    and seen :: "HttpAnswer \<Rightarrow> HttpAnswer"
  assumes hands_on: "fst (wrap rt req t) = apfst (map_option seen) (fst (rt req t))"
    and same_head: "ht_StatusCode (seen r) = ht_StatusCode r" "ht_Header (seen r) = ht_Header r" "fst (ht_Body (seen r)) = fst (ht_Body r)"
begin

lemma answer: "rt req t = ((resp, err), t') \<Longrightarrow> \<exists>u. wrap rt req t = ((map_option seen resp, err), u)"
  using hands_on [of rt req t] by (cases "wrap rt req t") simp

lemma error_kept: "snd (fst (wrap rt req t)) = snd (fst (rt req t))"
  by (simp add: hands_on)

end

locale transparent_pair = outer: transparent wrap1 seen1 + inner: transparent wrap2 seen2
  for wrap1 seen1 wrap2 seen2
begin

lemma pair_transparent: "transparent (\<lambda>rt. wrap1 (wrap2 rt)) (\<lambda>r. seen1 (seen2 r))"
  by unfold_locales
    (simp_all add: outer.hands_on inner.hands_on outer.same_head inner.same_head prod_eq_iff apfst_def map_prod_def split_beta option.map_comp comp_def)

end

sublocale transparent_pair \<subseteq> both: transparent "\<lambda>rt. wrap1 (wrap2 rt)" "\<lambda>r. seen1 (seen2 r)"
  by (rule pair_transparent)

text \<open>What the logging transport makes of a response: at verbosity 4 the body is a copy, whose reading never fails.\<close>

definition logged :: "int option \<Rightarrow> HttpAnswer \<Rightarrow> HttpAnswer" where
  "logged Log r = (case Log of
      Some level \<Rightarrow> if logEnabled level 4 then r\<lparr>ht_Body := (fst (ht_Body r), None)\<rparr> else r
    | None \<Rightarrow> r)"

lemma transport_log_answer: "fst (transport_log Log req r t) = logged Log r"
  by (cases "ht_Body r") (simp add: transport_log_def logged_def Let_def split: option.split)

lemma transport_log_gauges: "ob_Gauges (snd (transport_log Log req r t)) = ob_Gauges t"
  by (cases "ht_Body r") (simp add: transport_log_def logV_def Let_def split: option.split)

interpretation metrics: transparent metrics_RoundTrip id
  by unfold_locales (simp_all add: metrics_RoundTrip_def prod_eq_iff option.map_id split: prod.split option.split)

interpretation logging: transparent "logging_RoundTrip Log" "logged Log" for Log
proof
  show "fst (logging_RoundTrip Log rt req t) = apfst (map_option (logged Log)) (fst (rt req t))" for rt req t
    using transport_log_answer [of Log req] by (cases "rt req t") (auto simp: logging_RoundTrip_def split_beta prod_eq_iff split: option.split)
qed (simp_all add: logged_def split: option.split)

interpretation client: transparent_pair metrics_RoundTrip id "logging_RoundTrip Log" "logged Log" for Log
  by unfold_locales

text \<open>
  The GitHub client's transport hands on what the cache answers: the error, the status, the header and the bytes of the body are those of the cached round trip, with a logger or without. What may change is how reading the body ends: with a logger of verbosity 4 or more, and only then, an
  error in the middle of the body is lost, and the client takes the truncated body for the whole.
\<close>

theorem client_transport_answer:
  "fst (clientTransport Log cached req t) = (map_option (logged Log) (fst (cached req)), snd (cached req)) \<and>
   ht_StatusCode (logged Log r) = ht_StatusCode r \<and> ht_Header (logged Log r) = ht_Header r \<and>
   ht_Body (logged Log r) = (fst (ht_Body r), if \<exists>level. Log = Some level \<and> logEnabled level 4 then None else snd (ht_Body r))"
proof -
  have "fst (clientTransport Log cached req t) = (map_option (logged Log) (fst (cached req)), snd (cached req))"
    unfolding clientTransport_def using client.both.hands_on [of Log "quietly cached" req t] by (simp add: quietly_def prod_eq_iff)
  then show ?thesis using logging.same_head [of Log r] by (cases "ht_Body r") (simp add: logged_def split: option.split)
qed

subsection \<open>What the gauges show\<close>

lemma setGauge_same [simp]: "setGauge name labels v g (name, labels) = (case v of None \<Rightarrow> g (name, labels) | Some i \<Rightarrow> Some (ofInt i))"
  by (simp add: setGauge_def split: option.split)

lemma setGauge_other [simp]: "k \<noteq> (name, labels) \<Longrightarrow> setGauge name labels v g k = g k"
  by (simp add: setGauge_def split: option.split)

lemma client_gauges:
  "ob_Gauges (snd (clientTransport Log cached req t)) =
     (case fst (cached req) of None \<Rightarrow> ob_Gauges t | Some r \<Rightarrow> ob_Gauges (parseResponse r t))"
proof (cases "fst (cached req)")
  case None
  then show ?thesis by (cases "cached req") (simp add: clientTransport_def metrics_RoundTrip_def logging_RoundTrip_def quietly_def)
next
  case (Some r)
  have "ht_Header (fst (transport_log Log req r t)) = ht_Header r" by (simp add: transport_log_answer logging.same_head)
  with Some show ?thesis
    by (cases "cached req") (simp add: clientTransport_def metrics_RoundTrip_def logging_RoundTrip_def quietly_def split_beta parseResponse_def transport_log_gauges)
qed

text \<open>The registry: the collectors that the \<open>init\<close> functions register, and what it exposes.\<close>

definition registered :: "string list" where
  "registered = runnerDeploymentMetrics @ horizontalRunnerAutoscalerMetrics @ [metricRateLimit, metricRateLimitRemaining]"

definition exposed :: "gauges \<Rightarrow> gauges" where
  "exposed g k = (if fst k \<in> set registered then g k else None)"

text \<open>The occasions on which a gauge is set, and what each says of a gauge.\<close>

datatype occasion =
    SeenAutoscaler ObjectMeta HorizontalRunnerAutoscalerSpec
  | SeenAutoscalerStatus ObjectMeta HorizontalRunnerAutoscalerStatus
  | SeenDeployment RunnerDeployment
  | SeenRunnerSet RunnerSet
  | SeenAnswer HttpAnswer

fun observe :: "occasion \<Rightarrow> Observed \<Rightarrow> Observed" where
  "observe (SeenAutoscaler o' spec) t = t\<lparr>ob_Gauges := SetHorizontalRunnerAutoscalerSpec o' spec (ob_Gauges t)\<rparr>"
| "observe (SeenAutoscalerStatus o' status) t = t\<lparr>ob_Gauges := SetHorizontalRunnerAutoscalerStatus o' status (ob_Gauges t)\<rparr>"
| "observe (SeenDeployment rd) t = t\<lparr>ob_Gauges := SetRunnerDeployment rd (ob_Gauges t)\<rparr>"
| "observe (SeenRunnerSet rs) t = t\<lparr>ob_Gauges := SetRunnerSet rs (ob_Gauges t)\<rparr>"
| "observe (SeenAnswer resp) t = parseResponse resp t"

fun reading :: "string \<times> string list \<Rightarrow> occasion \<Rightarrow> int option" where
  "reading k (SeenAutoscaler o' spec) =
     (if k = (horizontalRunnerAutoscalerMinReplicas, objectLabels o') then hs_MinReplicas spec
      else if k = (horizontalRunnerAutoscalerMaxReplicas, objectLabels o') then hs_MaxReplicas spec else None)"
| "reading k (SeenAutoscalerStatus o' status) =
     (if k = (horizontalRunnerAutoscalerDesiredReplicas, objectLabels o') then hst_DesiredReplicas status else None)"
| "reading k (SeenDeployment rd) = (if k = (runnerDeploymentReplicas, objectLabels (rd_Meta rd)) then rds_Replicas (rd_Spec rd) else None)"
| "reading k (SeenRunnerSet rs) = (if k = (runnerSetReplicas, objectLabels (rset_Meta rs)) then rss_Replicas (rset_Spec rs) else None)"
| "reading k (SeenAnswer resp) =
     (if k = (metricRateLimit, []) then ParseInt10 (Header_Get (ht_Header resp) headerRateLimit)
      else if k = (metricRateLimitRemaining, []) then ParseInt10 (Header_Get (ht_Header resp) headerRateLimitRemaining) else None)"

lemma observe_reading: "ob_Gauges (observe e t) k = (case reading k e of None \<Rightarrow> ob_Gauges t k | Some n \<Rightarrow> Some (ofInt n))"
  by (cases e) (auto simp: setGauge_def gauge_names metricRateLimit_def metricRateLimitRemaining_def parseResponse_def
      SetRunnerDeployment_def SetHorizontalRunnerAutoscalerSpec_def SetHorizontalRunnerAutoscalerStatus_def SetRunnerSet_def split: option.split)

text \<open>The latest number that was read.\<close>

definition latest :: "'a option list \<Rightarrow> 'a option" where
  "latest xs = (case dropWhile (\<lambda>x. x = None) (rev xs) of [] \<Rightarrow> None | x # _ \<Rightarrow> x)"

lemma latest_Nil [simp]: "latest [] = None"
  by (simp add: latest_def)

lemma latest_snoc [simp]: "latest (xs @ [x]) = (case x of None \<Rightarrow> latest xs | Some y \<Rightarrow> Some y)"
  by (simp add: latest_def split: option.split)

definition unobserved :: Observed where "unobserved = \<lparr>ob_Gauges = \<lambda>_. None, ob_Log = []\<rparr>"

lemma observed_latest: "ob_Gauges (fold observe es unobserved) k = map_option ofInt (latest (map (reading k) es))"
  by (induction es rule: rev_induct) (simp_all add: unobserved_def observe_reading split: option.split)

text \<open>
  What the metrics endpoint shows: after any sequence of reconciliations and of answers of GitHub, a registered gauge has the latest number that an object of its labels, or a readable rate limit header, has given, and is absent if there was none. So a number that an object
  no longer has goes on being shown, and so does that of an object that is gone. The replicas of a runner set are recorded but never shown: its collector is not registered.
\<close>

theorem exposed_metrics:
  "exposed (ob_Gauges (fold observe es unobserved)) k =
     (if fst k \<in> {runnerDeploymentReplicas, horizontalRunnerAutoscalerMinReplicas, horizontalRunnerAutoscalerMaxReplicas,
         horizontalRunnerAutoscalerDesiredReplicas, metricRateLimit, metricRateLimitRemaining}
      then map_option ofInt (latest (map (reading k) es)) else None) \<and>
   exposed (ob_Gauges (fold observe es unobserved)) (runnerSetReplicas, labels) = None"
  by (auto simp: exposed_def registered_def runnerDeploymentMetrics_def horizontalRunnerAutoscalerMetrics_def observed_latest)
    (simp_all add: gauge_names metricRateLimit_def metricRateLimitRemaining_def)

text \<open>
  The metrics transport reads the headers of answers from the cache too, which the logging transport takes care not to log: an old answer puts the gauge back to the number it came with.
\<close>

theorem cached_answer_sets_gauge:
  assumes "fst (cached req) = Some r" and "Header_Get (ht_Header r) ''X-From-Cache'' = ''1''" and "ParseInt10 (Header_Get (ht_Header r) headerRateLimitRemaining) = Some n"
  shows "ob_Gauges (snd (clientTransport Log cached req t)) (metricRateLimitRemaining, []) = Some (ofInt n) \<and>
    (\<forall>l \<in> set (ob_Log (snd (transport_log Log req r t))). l \<in> set (ob_Log t) \<or> (\<forall>m u v. l \<noteq> SeenHTTPResponse m (hq_Method req) u (Some v)))"
proof
  show "ob_Gauges (snd (clientTransport Log cached req t)) (metricRateLimitRemaining, []) = Some (ofInt n)"
    using assms(1,3) by (simp add: client_gauges parseResponse_def)
qed (use assms(2) in \<open>cases "ht_Body r"; auto simp: transport_log_def logV_def Let_def split: option.splits if_splits\<close>)

end
