(* ===== verification/Processes.thy ===== *)
theory Processes
  imports GitHub_Config Runner_Set_Controller HRA_Webhook Telemetry
begin

section \<open>How the programs start\<close>

text \<open>
  Model of \<open>src/main.go\<close> and \<open>src/cmd/githubwebhookserver/main.go\<close> up to the point where the managers run: from the values of the flags to the controllers, with every way the program may give up. The result of a program is its
  exit status; the calls that set things up are logged and the manager's answers are a parameter. The parsed flags are a record; the parsing itself is the \<open>flag\<close> package's, but for the two flag types of the program's own.
\<close>

subsection \<open>Flags\<close>

definition stringSlice_Set :: "string list \<Rightarrow> string \<Rightarrow> string list" where
  "stringSlice_Set i value = i @ [value]"

definition commaSeparatedStringSlice_Set :: "string list \<Rightarrow> string \<Rightarrow> string list" where
  "commaSeparatedStringSlice_Set s value = fold (\<lambda>v s. if v = [] then s else s @ [v]) (Split value CHR '','') s"

lemma commaSeparated_filter: "commaSeparatedStringSlice_Set s value = s @ filter (\<lambda>v. v \<noteq> []) (Split value CHR '','')"
proof -
  have "fold (\<lambda>v s. if v = [] then s else s @ [v]) xs s = s @ filter (\<lambda>v. v \<noteq> []) xs" for xs :: "string list" and s
    by (induction xs arbitrary: s) simp_all
  then show ?thesis by (simp add: commaSeparatedStringSlice_Set_def)
qed

lemma Split_Join: "xs \<noteq> [] \<Longrightarrow> \<forall>x \<in> set xs. c \<notin> set x \<Longrightarrow> Split (Join xs [c]) c = xs"
proof (induction xs)
  case (Cons x xs)
  then show ?case by (cases xs) (simp_all add: Split_notin Split_append)
qed simp

text \<open>
  The flag for the labels common to all runners: labels without a comma, joined with commas, come out as they are, in order and after those of earlier occurrences of the flag, and empty entries are left out, whatever the operator writes.
\<close>

theorem common_labels_flag:
  "(labels \<noteq> [] \<longrightarrow> (\<forall>l \<in> set labels. CHR '','' \<notin> set l) \<longrightarrow>
      commaSeparatedStringSlice_Set s (Join labels '','') = s @ filter (\<lambda>l. l \<noteq> []) labels) \<and>
   (\<forall>l \<in> set (commaSeparatedStringSlice_Set [] v). l \<noteq> [] \<and> CHR '','' \<notin> set l)"
  using Split_Join [of labels "CHR '',''"] Split_parts [of _ v "CHR '',''"] by (auto simp: commaSeparated_filter)

subsection \<open>The controller manager\<close>

record ManagerOptions =
  mo_MetricsBindAddress :: string
  mo_LeaderElection :: bool
  mo_LeaderElectionID :: string
  mo_Port :: int
  mo_SyncPeriod :: duration
  mo_Namespace :: string

record ManagerFlags =
  mf_MetricsAddr :: string
  mf_EnableLeaderElection :: bool
  mf_LeaderElectionId :: string
  mf_RunnerImage :: string
  mf_DockerImage :: string
  mf_RunnerImagePullSecrets :: "string list"
  mf_DockerRegistryMirror :: string
  mf_GitHubAPICacheDuration :: duration
  mf_DefaultScaleDownDelay :: duration
  mf_SyncPeriod :: duration
  mf_CommonRunnerLabels :: "string list"
  mf_Namespace :: string
  mf_LogLevel :: string

definition defaultManagerFlags :: ManagerFlags where
  "defaultManagerFlags = \<lparr>mf_MetricsAddr = '':8080'', mf_EnableLeaderElection = False, mf_LeaderElectionId = ''actions-runner-controller'',
     mf_RunnerImage = ''summerwind/actions-runner:latest'', mf_DockerImage = ''docker:dind'', mf_RunnerImagePullSecrets = [], mf_DockerRegistryMirror = [],
     mf_GitHubAPICacheDuration = 0, mf_DefaultScaleDownDelay = 10 * Minute, mf_SyncPeriod = Minute, mf_CommonRunnerLabels = [], mf_Namespace = [],
     mf_LogLevel = ''debug''\<rparr>"

datatype setupCall =
    NewManager ManagerOptions
  | SetupRunner RunnerReconciler
  | SetupRunnerReplicaSet
  | SetupRunnerDeployment "string list"
  | SetupRunnerSet RunnerReconciler "string list"
  | SetupRunnerPod
  | SetupHorizontalRunnerAutoscaler duration duration
  | SetupRunnerWebhook
  | SetupRunnerDeploymentWebhook
  | SetupRunnerReplicaSetWebhook
  | SetupInjector
  | SetupWebhookAutoscaler HorizontalRunnerAutoscalerGitHubWebhook
  | StartManager

text \<open>A call whose error ends the program with status 1.\<close>

definition must :: "setupCall api \<Rightarrow> setupCall \<Rightarrow> (setupCall, int) eff \<Rightarrow> (setupCall, int) eff" where
  "must api c k = ecall api c (\<lambda>e. case e of None \<Rightarrow> k | Some err \<Rightarrow> eret 1)"

definition cacheDuration :: "ManagerFlags \<Rightarrow> duration" where
  "cacheDuration f =
     (let d = (if mf_GitHubAPICacheDuration f = 0 then mf_SyncPeriod f - 10 * Second else mf_GitHubAPICacheDuration f)
      in if d < 0 then 0 else d)"

definition managerOptions :: "ManagerFlags \<Rightarrow> ManagerOptions" where
  "managerOptions f = \<lparr>mo_MetricsBindAddress = mf_MetricsAddr f, mo_LeaderElection = mf_EnableLeaderElection f, mo_LeaderElectionID = mf_LeaderElectionId f,
     mo_Port = 9443, mo_SyncPeriod = mf_SyncPeriod f, mo_Namespace = mf_Namespace f\<rparr>"

definition runnerReconciler :: "GhClient \<Rightarrow> ManagerFlags \<Rightarrow> RunnerReconciler" where
  "runnerReconciler client f = \<lparr>rr_RunnerImage = mf_RunnerImage f, rr_RunnerImagePullSecrets = mf_RunnerImagePullSecrets f, rr_DockerImage = mf_DockerImage f,
     rr_DockerRegistryMirror = mf_DockerRegistryMirror f, rr_GithubBaseURL = cli_GithubBaseURL client, rr_UnregistrationRetryDelay = 0\<rparr>"

definition managerCalls :: "GhClient \<Rightarrow> ManagerFlags \<Rightarrow> setupCall list" where
  "managerCalls client f =
     [NewManager (managerOptions f), SetupRunner (runnerReconciler client f), SetupRunnerReplicaSet, SetupRunnerDeployment (mf_CommonRunnerLabels f),
      SetupRunnerSet (runnerReconciler client f) (mf_CommonRunnerLabels f), SetupRunnerPod, SetupHorizontalRunnerAutoscaler (cacheDuration f) (mf_DefaultScaleDownDelay f),
      SetupRunnerWebhook, SetupRunnerDeploymentWebhook, SetupRunnerReplicaSetWebhook, SetupInjector, StartManager]"

definition manager_main :: "ClientLibs \<Rightarrow> setupCall api \<Rightarrow> GitHubConfig go \<Rightarrow> ManagerFlags \<Rightarrow> (setupCall, int) eff" where
  "manager_main lib api envconfig f =
     (case go_bind envconfig (\<lambda>c. if NewLogger (mf_LogLevel f) = None then Err (Errorf ''Failed to parse --log-level'') else NewClient lib c) of
        Err e \<Rightarrow> eret 1
      | Panic s \<Rightarrow> epanic s
      | Hang \<Rightarrow> elift Hang
      | Ret client \<Rightarrow> foldr (must api) (managerCalls client f) (eret 0))"

subsection \<open>The webhook server\<close>

record WebhookFlags =
  wf_WebhookAddr :: string \<comment> \<open>the address of the HTTP server\<close>
  wf_MetricsAddr :: string
  wf_WatchNamespace :: string
  wf_EnableLeaderElection :: bool
  wf_SyncPeriod :: duration
  wf_LogLevel :: string
  wf_SecretToken :: string
  wf_SecretTokenEnv :: string \<comment> \<open>the environment variable \<open>GITHUB_WEBHOOK_SECRET_TOKEN\<close>\<close>

definition defaultWebhookFlags :: "string \<Rightarrow> WebhookFlags" where
  "defaultWebhookFlags secretTokenEnv = \<lparr>wf_WebhookAddr = '':8000'', wf_MetricsAddr = '':8080'', wf_WatchNamespace = [], wf_EnableLeaderElection = False,
     wf_SyncPeriod = 10 * Minute, wf_LogLevel = ''debug'', wf_SecretToken = [], wf_SecretTokenEnv = secretTokenEnv\<rparr>"

definition webhookSecretToken :: "WebhookFlags \<Rightarrow> string" where
  "webhookSecretToken f = (if wf_SecretToken f = [] \<and> wf_SecretTokenEnv f \<noteq> [] then wf_SecretTokenEnv f else wf_SecretToken f)"

definition wantsGitHubClient :: "GitHubConfig \<Rightarrow> bool" where
  "wantsGitHubClient c \<longleftrightarrow> length (gc_Token c) > 0 \<or> (gc_AppID c > 0 \<and> gc_AppInstallationID c > 0 \<and> gc_AppPrivateKey c \<noteq> []) \<or>
     (length (gc_BasicauthUsername c) > 0 \<and> length (gc_BasicauthPassword c) > 0)"

definition webhookManagerOptions :: "WebhookFlags \<Rightarrow> ManagerOptions" where
  "webhookManagerOptions f = \<lparr>mo_MetricsBindAddress = wf_MetricsAddr f, mo_LeaderElection = wf_EnableLeaderElection f, mo_LeaderElectionID = [], mo_Port = 9443,
     mo_SyncPeriod = wf_SyncPeriod f, mo_Namespace = wf_WatchNamespace f\<rparr>"

text \<open>
  The manager runs beside the HTTP server; how the process goes on from there and ends is in theory \<open>Shutdown\<close>, so that status 0 means here that the manager was started. \<open>reads\<close> and \<open>gh\<close> are what the manager's client and the GitHub client answer.\<close>

definition hraGitHubWebhook :: "WebhookReads \<Rightarrow> (GhClient \<Rightarrow> GitHub) \<Rightarrow> GhClient option \<Rightarrow> WebhookFlags \<Rightarrow> HorizontalRunnerAutoscalerGitHubWebhook" where
  "hraGitHubWebhook reads gh client f = \<lparr>wh_Reads = reads, wh_SecretKeyBytes = webhookSecretToken f,
     wh_GitHubClient = map_option (\<lambda>cl. (gh cl, cli_GithubBaseURL cl)) client, wh_Namespace = wf_WatchNamespace f\<rparr>"

definition webhook_main ::
  "ClientLibs \<Rightarrow> setupCall api \<Rightarrow> WebhookReads \<Rightarrow> (GhClient \<Rightarrow> GitHub) \<Rightarrow> GitHubConfig go \<Rightarrow> WebhookFlags \<Rightarrow> (setupCall, int) eff" where
  "webhook_main lib api reads gh envconfig f =
     (case go_bind envconfig (\<lambda>c. if NewLogger (wf_LogLevel f) = None then Err (Errorf ''Failed to parse --log-level'')
          else if wantsGitHubClient c then go_bind (NewClient lib c) (\<lambda>cl. Ret (Some cl)) else Ret None) of
        Err e \<Rightarrow> eret 1
      | Panic s \<Rightarrow> epanic s
      | Hang \<Rightarrow> elift Hang
      | Ret client \<Rightarrow> foldr (must api) [NewManager (webhookManagerOptions f), SetupWebhookAutoscaler (hraGitHubWebhook reads gh client f), StartManager] (eret 0))"

subsection \<open>Starting up\<close>

text \<open>A chain of calls that must succeed stops at the first that fails.\<close>

lemma must_run: "must api c k l = (case api l c of None \<Rightarrow> k (l @ [c]) | Some err \<Rightarrow> (l @ [c], Ret 1))"
  by (simp add: must_def ecall_def eret_def split: option.split)

lemma must_chain_accepted:
  "\<forall>i < length cs. api (l @ take i cs) (cs ! i) = None \<Longrightarrow> foldr (must api) cs (eret 0) l = (l @ cs, Ret 0)"
proof (induction cs arbitrary: l)
  case (Cons c cs)
  have "api l c = None" using spec [OF Cons.prems, of 0] by simp
  moreover have "\<forall>i < length cs. api ((l @ [c]) @ take i cs) (cs ! i) = None" using Cons.prems [rule_format, of "Suc _"] by simp
  ultimately show ?case using Cons.IH [of "l @ [c]"] by (simp add: must_run)
qed (simp add: eret_def)

lemma must_chain_fails:
  "n < length cs \<Longrightarrow> \<forall>i < n. api (l @ take i cs) (cs ! i) = None \<Longrightarrow> api (l @ take n cs) (cs ! n) = Some e \<Longrightarrow>
    foldr (must api) cs (eret 0) l = (l @ take (Suc n) cs, Ret 1)"
proof (induction cs arbitrary: l n)
  case (Cons c cs)
  show ?case
  proof (cases n)
    case 0
    with Cons.prems show ?thesis by (simp add: must_run)
  next
    case (Suc m)
    have "api l c = None" using spec [OF Cons.prems(2), of 0] Suc by simp
    moreover have "\<forall>i < m. api ((l @ [c]) @ take i cs) (cs ! i) = None" using Cons.prems(2) [rule_format, of "Suc _"] Suc by simp
    ultimately show ?thesis using Cons.IH [of m "l @ [c]"] Cons.prems(1,3) Suc by (simp add: must_run)
  qed
qed simp

lemma manager_main_ran:
  "NewLogger (mf_LogLevel f) \<noteq> None \<Longrightarrow> NewClient lib c = Ret client \<Longrightarrow> manager_main lib api (Ret c) f = foldr (must api) (managerCalls client f) (eret 0)"
  by (cases "NewLogger (mf_LogLevel f)") (simp_all add: manager_main_def)


definition exampleClientLibs :: ClientLibs where
  "exampleClientLibs = \<lparr>cl_StatOk = \<lambda>s. False, cl_NewKeyFromFile = \<lambda>a i k. Ret (), cl_NewInstallation = \<lambda>a i k. Ret (),
     cl_UrlParse = \<lambda>s. Ret (''https'', ''github.com'', ''/''), cl_NewEnterpriseClient = \<lambda>b u. Err (GitHubErr ''no''),
     cl_DefaultBaseURL = (''https'', ''api.github.com'', ''/''), cl_DefaultUploadURL = (''https'', ''uploads.github.com'', ''/'')\<rparr>"

definition exampleGitHubConfig :: GitHubConfig where
  "exampleGitHubConfig = \<lparr>gc_EnterpriseURL = [], gc_AppID = 0, gc_AppInstallationID = 0, gc_AppPrivateKey = [], gc_Token = ''t'', gc_URL = [], gc_UploadURL = [],
     gc_BasicauthUsername = [], gc_BasicauthPassword = [], gc_RunnerGitHubURL = []\<rparr>"

lemma example_client: "\<exists>client. NewClient exampleClientLibs exampleGitHubConfig = Ret client"
  by (simp add: NewClient_def newTransport_def clientURLs_def parsedOr_def exampleGitHubConfig_def)


theorem common_labels_flag_witness:
  "commaSeparatedStringSlice_Set [''x''] ''a,,b'' = [''x'', ''a'', ''b'']"
  using common_labels_flag [of "[''a'', [], ''b'']" "[''x'']"] by simp

text \<open>The webhook server checks signatures when it is given a secret, by flag or by environment; without one it reads what it is sent.\<close>

theorem webhook_secret_is_used:
  "readEvent (hraGitHubWebhook reads gh client f) r =
     go_bind (if wf_SecretToken f = [] \<and> wf_SecretTokenEnv f = [] then wq_ReadAll r
       else wq_ValidatePayload r (if wf_SecretToken f \<noteq> [] then wf_SecretToken f else wf_SecretTokenEnv f))
       (\<lambda>payload. go_bind (wq_ParseWebHook r payload) (\<lambda>event. Ret (event, wq_EnterpriseSlug r payload)))"
  by (simp add: readEvent_def hraGitHubWebhook_def webhookSecretToken_def)

end
