(* ===== verification/Hook_Forwarder.thy ===== *)
theory Hook_Forwarder
  imports GitHub_Client Fnv_Hash Run_Logic "HOL-Library.Multiset"
begin

section \<open>Forwarding webhook deliveries\<close>

text \<open>
  Model of \<open>src/pkg/hookdeliveryforwarder\<close> (the forwarder, its two checkpointers, the rules) and of \<open>src/pkg/githubwebhookdeliveryforwarder\<close>, an older variant of the same loop. They poll GitHub for the
  deliveries of a webhook and post the payloads to a target. GitHub's API is the parameter \<open>GitHubHooks\<close>; parsing of a rule and of a request payload are parameters too. The polling loop never ends by itself;
  \<open>runLoop\<close> runs it over a finite sequence of polls, each with what GitHub answers at that time and whether the context is cancelled during the wait that follows. Paging through the deliveries of one poll is a
  \<open>partial_function\<close>, as nothing in the code bounds the number of pages. The order in which \<open>sort.Slice\<close> leaves deliveries of the same time is open: the sort is a parameter \<open>srt\<close>.
\<close>

subsection \<open>Data\<close>

record ForwardState =
  st_DeliveredAt :: time
  st_ID :: int

record HookDelivery =
  hd_ID :: int
  hd_DeliveredAt :: time
  hd_ParseRequestPayload :: "unit go"
  hd_RawPayload :: "string option"

text \<open>The values of a hook's \<open>Config\<close>, a \<open>map[string]interface{}\<close>.\<close>

datatype configValue = ConfStr string | ConfInt int

record Hook =
  hk_ID :: int
  hk_Config :: "(string \<times> configValue) list"
  hk_Events :: "string list"
  hk_Active :: "bool option"

record GitHubHooks =
  ghk_RepoListHooks :: "string \<Rightarrow> string \<Rightarrow> Hook list go"
  ghk_OrgListHooks :: "string \<Rightarrow> Hook list go"
  ghk_RepoCreateHook :: "string \<Rightarrow> string \<Rightarrow> Hook \<Rightarrow> Hook go"
  ghk_OrgCreateHook :: "string \<Rightarrow> Hook \<Rightarrow> Hook go"
  ghk_RepoListDeliveries :: "string \<Rightarrow> string \<Rightarrow> int \<Rightarrow> string \<Rightarrow> (int list \<times> string) go"
  ghk_OrgListDeliveries :: "string \<Rightarrow> int \<Rightarrow> string \<Rightarrow> (int list \<times> string) go"
  ghk_RepoGetDelivery :: "string \<Rightarrow> string \<Rightarrow> int \<Rightarrow> int \<Rightarrow> HookDelivery go"
  ghk_OrgGetDelivery :: "string \<Rightarrow> int \<Rightarrow> int \<Rightarrow> HookDelivery go"

record hooksAPI =
  ha_ListHooks :: "Hook list go"
  ha_CreateHook :: "Hook \<Rightarrow> Hook go"

record hookDeliveriesAPI =
  da_ListHookDeliveries :: "string \<Rightarrow> (int list \<times> string) go"
  da_GetHookDelivery :: "int \<Rightarrow> HookDelivery go"

definition newHooksAPI :: "GitHubHooks \<Rightarrow> string \<Rightarrow> string \<Rightarrow> hooksAPI" where
  "newHooksAPI gh org repo =
     (if repo \<noteq> [] then \<lparr>ha_ListHooks = ghk_RepoListHooks gh org repo, ha_CreateHook = ghk_RepoCreateHook gh org repo\<rparr>
      else \<lparr>ha_ListHooks = ghk_OrgListHooks gh org, ha_CreateHook = ghk_OrgCreateHook gh org\<rparr>)"

definition newHookDeliveriesAPI :: "GitHubHooks \<Rightarrow> string \<Rightarrow> string \<Rightarrow> int \<Rightarrow> hookDeliveriesAPI" where
  "newHookDeliveriesAPI gh org repo hookID =
     (if repo \<noteq> [] then \<lparr>da_ListHookDeliveries = ghk_RepoListDeliveries gh org repo hookID, da_GetHookDelivery = ghk_RepoGetDelivery gh org repo hookID\<rparr>
      else \<lparr>da_ListHookDeliveries = ghk_OrgListDeliveries gh org hookID, da_GetHookDelivery = ghk_OrgGetDelivery gh org hookID\<rparr>)"

subsection \<open>One poll\<close>

definition advance :: "ForwardState \<Rightarrow> HookDelivery \<Rightarrow> ForwardState" where
  "advance pos d = \<lparr>st_DeliveredAt = (if hd_DeliveredAt d > st_DeliveredAt pos then hd_DeliveredAt d else st_DeliveredAt pos),
     st_ID = (if hd_ID d > st_ID pos then hd_ID d else st_ID pos)\<rparr>"

text \<open>A page of deliveries: whether to stop, the position and the deliveries collected.\<close>

fun takePage :: "hookDeliveriesAPI \<Rightarrow> int list \<Rightarrow> ForwardState \<Rightarrow> HookDelivery list \<Rightarrow> (bool \<times> ForwardState \<times> HookDelivery list) go" where
  "takePage api [] pos deliveries = Ret (False, pos, deliveries)"
| "takePage api (i # is) pos deliveries =
     go_bind (da_GetHookDelivery api i)
       (\<lambda>d. go_bind (hd_ParseRequestPayload d)
         (\<lambda>_. if st_DeliveredAt pos \<noteq> zeroTime \<and> hd_DeliveredAt d < st_DeliveredAt pos then Ret (True, pos, deliveries)
             else if st_ID pos \<noteq> 0 \<and> hd_ID d \<le> st_ID pos then Ret (True, pos, deliveries)
             else takePage api is (advance pos d) (deliveries @ [d])))"

partial_function (option) collectDeliveries ::
  "hookDeliveriesAPI \<Rightarrow> string \<Rightarrow> ForwardState \<Rightarrow> HookDelivery list \<Rightarrow> (ForwardState \<times> HookDelivery list) go option" where
  [code]: "collectDeliveries api cursor pos deliveries =
     (case da_ListHookDeliveries api cursor of
        Ret (ids, next') \<Rightarrow>
          (case takePage api ids pos deliveries of
             Ret (stop, pos', ds) \<Rightarrow> if stop \<or> next' = [] then Some (Ret (pos', ds)) else collectDeliveries api next' pos' ds
           | Err e \<Rightarrow> Some (Err e)
           | Panic s \<Rightarrow> Some (Panic s)
           | Hang \<Rightarrow> Some Hang)
      | Err e \<Rightarrow> Some (Err e)
      | Panic s \<Rightarrow> Some (Panic s)
      | Hang \<Rightarrow> Some Hang)"

fun rawPayloads :: "HookDelivery list \<Rightarrow> string list go" where
  "rawPayloads [] = Ret []"
| "rawPayloads (d # ds) =
     (case hd_RawPayload d of
        None \<Rightarrow> Panic ''nil pointer dereference''
      | Some p \<Rightarrow> go_bind (rawPayloads ds) (\<lambda>ps. Ret (p # ps)))"

type_synonym sortSlice = "HookDelivery list \<Rightarrow> HookDelivery list"

definition getUnprocessedDeliveries ::
  "sortSlice \<Rightarrow> hookDeliveriesAPI \<Rightarrow> ForwardState \<Rightarrow> (string list \<times> ForwardState) go" where
  "getUnprocessedDeliveries srt api pos =
     go_bind (returned (collectDeliveries api [] pos []))
       (\<lambda>(pos', deliveries). go_bind (rawPayloads (srt deliveries)) (\<lambda>payloads. Ret (payloads, pos')))"

subsection \<open>Checkpointers\<close>

text \<open>The entries of the config map: JSON of a position, or some other text.\<close>

datatype cmText = JSONState ForwardState | OtherText string

type_synonym cmData = "(string \<times> cmText) list"

text \<open>What the forwarder does to the outside. The in-memory checkpoint is a write too, so that the memory is a function of the calls so far.\<close>

datatype forwardCall =
    PostPayload string string
  | SetMemory ForwardState
  | CreateConfigMap
  | PatchConfigMap cmData

record Checkpointer =
  cp_GetOrCreate :: "int \<Rightarrow> (forwardCall, ForwardState) eff"
  cp_Update :: "int \<Rightarrow> ForwardState option \<Rightarrow> (forwardCall, unit) eff"

definition memoryOf :: "time \<Rightarrow> forwardCall list \<Rightarrow> ForwardState" where
  "memoryOf started l = fold (\<lambda>c m. case c of SetMemory p \<Rightarrow> p | _ \<Rightarrow> m) l \<lparr>st_DeliveredAt = started, st_ID = 0\<rparr>"

definition InMemory_GetOrCreate :: "time \<Rightarrow> int \<Rightarrow> (forwardCall, ForwardState) eff" where
  "InMemory_GetOrCreate started hookID l = (l, Ret \<lparr>st_DeliveredAt = st_DeliveredAt (memoryOf started l), st_ID = 0\<rparr>)"

definition InMemory_Update :: "int \<Rightarrow> ForwardState option \<Rightarrow> (forwardCall, unit) eff" where
  "InMemory_Update hookID pos =
     (case pos of
        None \<Rightarrow> epanic ''nil pointer dereference''
      | Some p \<Rightarrow> elog (SetMemory \<lparr>st_DeliveredAt = st_DeliveredAt p, st_ID = st_ID p\<rparr>) (eret ()))"

definition NewInMemoryLogPositionProvider :: "time \<Rightarrow> Checkpointer" where
  "NewInMemoryLogPositionProvider now = \<lparr>cp_GetOrCreate = InMemory_GetOrCreate now, cp_Update = InMemory_Update\<rparr>"

definition hookKey :: "int \<Rightarrow> string" where "hookKey hookID = ''hook_'' @ Sprintd hookID"

text \<open>\<open>getMap\<close> is the read of the config map, which depends on the calls made before.\<close>

definition ConfigMap_GetOrCreate :: "forwardCall api \<Rightarrow> (forwardCall list \<Rightarrow> cmData go) \<Rightarrow> time \<Rightarrow> int \<Rightarrow> (forwardCall, ForwardState) eff" where
  "ConfigMap_GetOrCreate api getMap now hookID =
     ebind (ecatch (\<lambda>l. elift (getMap l) l)
         (\<lambda>e. if e \<noteq> Kube NotFound then eerr e else ecall api CreateConfigMap (\<lambda>e'. case e' of None \<Rightarrow> eret [] | Some err \<Rightarrow> eerr err)))
       (\<lambda>data. ebind (case map_of data (hookKey hookID) of
             Some (OtherText s) \<Rightarrow> eerr (Errorf ''json.Unmarshal'')
           | Some (JSONState st) \<Rightarrow> eret st
           | None \<Rightarrow> eret \<lparr>st_DeliveredAt = zeroTime, st_ID = 0\<rparr>)
         (\<lambda>pos. eret (if st_DeliveredAt pos = zeroTime then pos\<lparr>st_DeliveredAt := now\<rparr> else pos)))"

definition ConfigMap_Update :: "forwardCall api \<Rightarrow> (forwardCall list \<Rightarrow> cmData go) \<Rightarrow> int \<Rightarrow> ForwardState option \<Rightarrow> (forwardCall, unit) eff" where
  "ConfigMap_Update api getMap hookID pos =
     ebind (\<lambda>l. elift (getMap l) l)
       (\<lambda>data. case pos of
           None \<Rightarrow> epanic ''nil pointer dereference''
         | Some p \<Rightarrow> ecall api (PatchConfigMap (AList.update (hookKey hookID) (JSONState p) data))
             (\<lambda>e. case e of None \<Rightarrow> eret () | Some err \<Rightarrow> eerr err))"

definition ConfigMapCheckpointer :: "forwardCall api \<Rightarrow> (forwardCall list \<Rightarrow> cmData go) \<Rightarrow> time \<Rightarrow> Checkpointer" where
  "ConfigMapCheckpointer api getMap now = \<lparr>cp_GetOrCreate = ConfigMap_GetOrCreate api getMap now, cp_Update = ConfigMap_Update api getMap\<rparr>"

subsection \<open>The loop\<close>

text \<open>A poll: GitHub as it answers then, and whether the context is cancelled in the wait after it.\<close>

type_synonym poll = "hookDeliveriesAPI \<times> bool"

text \<open>Posting: whether all payloads were accepted. The response's status is not looked at.\<close>

fun postPayloads :: "forwardCall api \<Rightarrow> string \<Rightarrow> string list \<Rightarrow> (forwardCall, bool) eff" where
  "postPayloads api target [] = eret True"
| "postPayloads api target (p # ps) =
     ecall api (PostPayload target p) (\<lambda>e. case e of Some err \<Rightarrow> eret False | None \<Rightarrow> postPayloads api target ps)"

text \<open>How the forwarder stands: ended with a \<open>persistentError\<close>, ended with another error, or polling on from a position, which is a nil pointer after a failed poll.\<close>

datatype runState = PersistentError goerr | Failed goerr | Polling "ForwardState option"

definition checkpoint :: "Checkpointer \<Rightarrow> bool \<Rightarrow> int \<Rightarrow> ForwardState option \<Rightarrow> (forwardCall, runState) eff" where
  "checkpoint cp cancelled hookID pos =
     ecatch (ebind (cp_Update cp hookID pos) (\<lambda>_. eret (if cancelled then Failed Canceled else Polling pos)))
       (\<lambda>e. eret (Failed (Wrapped ''failed updating checkpoint'' e)))"

definition forwardRound :: "sortSlice \<Rightarrow> Checkpointer \<Rightarrow> poll \<Rightarrow> forwardCall api \<Rightarrow> string \<Rightarrow> int \<Rightarrow> ForwardState \<Rightarrow> (forwardCall, runState) eff" where
  "forwardRound srt cp p api target hookID cur =
     (case getUnprocessedDeliveries srt (fst p) cur of
        Err e \<Rightarrow> if isCanceled e then eret (Failed e) else checkpoint cp (snd p) hookID None
      | Panic s \<Rightarrow> epanic s
      | Hang \<Rightarrow> elift Hang
      | Ret (payloads, pos) \<Rightarrow>
          ebind (postPayloads api target payloads)
            (\<lambda>posted.
              if \<not> posted then eret (if snd p then Failed Canceled else Polling (Some pos))
              else checkpoint cp (snd p) hookID (Some pos)))"

fun runLoop :: "sortSlice \<Rightarrow> Checkpointer \<Rightarrow> poll list \<Rightarrow> forwardCall api \<Rightarrow> string \<Rightarrow> int \<Rightarrow> ForwardState option \<Rightarrow> (forwardCall, runState) eff" where
  "runLoop srt cp [] api target hookID cur = eret (Polling cur)"
| "runLoop srt cp (p # ps) api target hookID cur =
     (case cur of
        None \<Rightarrow> epanic ''nil pointer dereference''
      | Some c \<Rightarrow> ebind (forwardRound srt cp p api target hookID c)
          (\<lambda>r. case r of Polling pos \<Rightarrow> runLoop srt cp ps api target hookID pos | _ \<Rightarrow> eret r))"

text \<open>The hook to follow: the first that exists, else a new one with the missing settings filled in.\<close>

definition completeHook :: "string \<Rightarrow> Hook \<Rightarrow> Hook" where
  "completeHook secret h =
     (let add = (\<lambda>k v c. if map_of c k = None then c @ [(k, v)] else c)
      in h\<lparr>hk_Config := add ''secret'' (ConfStr secret) (add ''insecure_ssl'' (ConfInt 0) (add ''content_type'' (ConfStr ''json'') (hk_Config h))),
           hk_Events := (if length (hk_Events h) = 0 then [''check_run'', ''push''] else hk_Events h),
           hk_Active := (if hk_Active h = None then Some True else hk_Active h)\<rparr>)"

definition selectHook :: "hooksAPI \<Rightarrow> string \<Rightarrow> Hook \<Rightarrow> (runState + Hook) go" where
  "selectHook api secret hookConfig =
     (case ha_ListHooks api of
        Err e \<Rightarrow> Ret (Inl (Failed e))
      | Ret (h # _) \<Rightarrow> Ret (Inr h)
      | Ret [] \<Rightarrow>
          if map_of (hk_Config hookConfig) ''url'' = None then Ret (Inl (PersistentError (Errorf ''config.url is missing in the hook config'')))
          else (case ha_CreateHook api (completeHook secret hookConfig) of
              Ret h \<Rightarrow> Ret (Inr h)
            | Err e \<Rightarrow> Ret (Inl (PersistentError e))
            | Panic s \<Rightarrow> Panic s
            | Hang \<Rightarrow> Hang)
      | Panic s \<Rightarrow> Panic s
      | Hang \<Rightarrow> Hang)"

definition ownerAndRepo :: "string \<Rightarrow> string \<times> string" where
  "ownerAndRepo s =
     (let segments = Split s CHR ''/''
      in (hd segments, if length segments > 1 then segments ! 1 else []))"

text \<open>\<open>Forwarder.Run\<close>: the forwarder's repository, target and hook, GitHub at the start and at each poll.\<close>

definition Run_Forwarder ::
  "sortSlice \<Rightarrow> GitHubHooks \<Rightarrow> string \<Rightarrow> Checkpointer \<Rightarrow> string \<Rightarrow> string \<Rightarrow> Hook \<Rightarrow> (GitHubHooks \<times> bool) list \<Rightarrow> forwardCall api \<Rightarrow> (forwardCall, runState) eff" where
  "Run_Forwarder srt gh secret cp repository target hookConfig polls api =
     (let (owner, repo) = ownerAndRepo repository
      in ebind (elift (selectHook (newHooksAPI gh owner repo) secret hookConfig))
        (\<lambda>r. case r of
            Inl end' \<Rightarrow> eret end'
          | Inr hook \<Rightarrow>
              ebind (ecatch (ebind (cp_GetOrCreate cp (hk_ID hook)) (\<lambda>cur. eret (Inr cur))) (\<lambda>e. eret (Inl (PersistentError e))))
                (\<lambda>c. case c of
                    Inl end' \<Rightarrow> eret end'
                  | Inr cur \<Rightarrow> runLoop srt cp (map (\<lambda>(g, cancelled). (newHookDeliveriesAPI g owner repo (hk_ID hook), cancelled)) polls)
                      api target (hk_ID hook) (Some cur))))"

subsection \<open>Rules\<close>

record RuleConfig =
  rc_Repo :: "string list"
  rc_Target :: string
  rc_Hook :: Hook

record Rule =
  rl_Repo :: string
  rl_Target :: string
  rl_Hook :: Hook

fun New_MultiForwarder :: "(string \<Rightarrow> RuleConfig go) \<Rightarrow> string list \<Rightarrow> Rule list \<Rightarrow> Rule list go" where
  "New_MultiForwarder unmarshal [] acc = Ret acc"
| "New_MultiForwarder unmarshal (r # rs) acc =
     (case unmarshal r of
        Err e \<Rightarrow> Err (Wrapped ''failed unmarshalling'' e)
      | Ret rule \<Rightarrow>
          if length (rc_Repo rule) = 0 then Err (Errorf ''there must be one or more sources configured'')
          else if rc_Target rule = [] then Err (Errorf ''there must be one destination configured'')
          else New_MultiForwarder unmarshal rs (acc @ map (\<lambda>repo. \<lparr>rl_Repo = repo, rl_Target = rc_Target rule, rl_Hook = rc_Hook rule\<rparr>) (rc_Repo rule))
      | Panic s \<Rightarrow> Panic s
      | Hang \<Rightarrow> Hang)"

text \<open>\<open>MultiForwarder.run\<close> is the forwarder of one rule; \<open>MultiForwarder.Run\<close>, which starts one per rule, is in theory \<open>Forwarder_Process\<close>.\<close>

definition MultiForwarder_run ::
  "sortSlice \<Rightarrow> GitHubHooks \<Rightarrow> string \<Rightarrow> Checkpointer \<Rightarrow> Rule \<Rightarrow> (GitHubHooks \<times> bool) list \<Rightarrow> forwardCall api \<Rightarrow> (forwardCall, runState) eff" where
  "MultiForwarder_run srt gh secret cp rule polls api = Run_Forwarder srt gh secret cp (rl_Repo rule) (rl_Target rule) (rl_Hook rule) polls api"

subsection \<open>The readiness handler\<close>

text \<open>A response: its status, once the header is written, and its body. Both forwarders have the same handler; its flag \<open>ok\<close> stays false, so the deferred function always asks for the status 500.\<close>

record HttpResponse =
  hr_Status :: "int option"
  hr_Body :: string

definition WriteHeader :: "int \<Rightarrow> HttpResponse \<Rightarrow> HttpResponse" where
  "WriteHeader s w = (if hr_Status w = None then w\<lparr>hr_Status := Some s\<rparr> else w)"

definition WriteBody :: "string \<Rightarrow> HttpResponse \<Rightarrow> HttpResponse" where
  "WriteBody b w = (let w' = WriteHeader 200 w in w'\<lparr>hr_Body := hr_Body w' @ b\<rparr>)"

definition HandleReadyz :: "bool \<Rightarrow> HttpResponse \<Rightarrow> HttpResponse" where
  "HandleReadyz isGet w =
     (let ok = False;
          w' = (if isGet then WriteBody (''webhook server is running'' @ [CHR 0x0A]) w else WriteBody ''ok'' (WriteHeader 200 w))
      in if \<not> ok then WriteHeader 500 w' else w')"

subsection \<open>The older forwarder\<close>

text \<open>It runs the same scan, without appending the deliveries it accepts.\<close>

fun server_page :: "hookDeliveriesAPI \<Rightarrow> int list \<Rightarrow> ForwardState \<Rightarrow> (bool \<times> ForwardState) go" where
  "server_page api [] pos = Ret (False, pos)"
| "server_page api (i # is) pos =
     go_bind (da_GetHookDelivery api i)
       (\<lambda>d. go_bind (hd_ParseRequestPayload d)
         (\<lambda>_. if st_DeliveredAt pos \<noteq> zeroTime \<and> hd_DeliveredAt d < st_DeliveredAt pos then Ret (True, pos)
             else if st_ID pos \<noteq> 0 \<and> hd_ID d \<le> st_ID pos then Ret (True, pos)
             else server_page api is (advance pos d)))"

partial_function (option) server_scan :: "hookDeliveriesAPI \<Rightarrow> string \<Rightarrow> ForwardState \<Rightarrow> HookDelivery list \<Rightarrow> (ForwardState \<times> HookDelivery list) go option" where
  [code]: "server_scan api cursor pos deliveries =
     (case da_ListHookDeliveries api cursor of
        Ret (ids, next') \<Rightarrow>
          (case server_page api ids pos of
             Ret (stop, pos') \<Rightarrow> if stop \<or> next' = [] then Some (Ret (pos', deliveries)) else server_scan api next' pos' deliveries
           | Err e \<Rightarrow> Some (Err e)
           | Panic s \<Rightarrow> Some (Panic s)
           | Hang \<Rightarrow> Some Hang)
      | Err e \<Rightarrow> Some (Err e)
      | Panic s \<Rightarrow> Some (Panic s)
      | Hang \<Rightarrow> Some Hang)"

definition server_getUnprocessedDeliveries :: "sortSlice \<Rightarrow> hookDeliveriesAPI \<Rightarrow> ForwardState \<Rightarrow> (string list \<times> ForwardState) go" where
  "server_getUnprocessedDeliveries srt api pos =
     go_bind (returned (server_scan api [] pos []))
       (\<lambda>(pos', deliveries). go_bind (rawPayloads (srt deliveries)) (\<lambda>payloads. Ret (payloads, pos')))"

fun server_post :: "forwardCall api \<Rightarrow> string \<Rightarrow> string list \<Rightarrow> (forwardCall, unit) eff" where
  "server_post api target [] = eret ()"
| "server_post api target (p # ps) = ecall api (PostPayload target p) (\<lambda>_. server_post api target ps)"

fun server_loop :: "sortSlice \<Rightarrow> hookDeliveriesAPI list \<Rightarrow> forwardCall api \<Rightarrow> string \<Rightarrow> ForwardState option \<Rightarrow> (forwardCall, unit) eff" where
  "server_loop srt [] api target cur = eret ()"
| "server_loop srt (p # ps) api target cur =
     (case cur of
        None \<Rightarrow> epanic ''nil pointer dereference''
      | Some c \<Rightarrow>
          (case server_getUnprocessedDeliveries srt p c of
             Err e \<Rightarrow> server_loop srt ps api target None
           | Panic s \<Rightarrow> epanic s
           | Hang \<Rightarrow> elift Hang
           | Ret (payloads, pos) \<Rightarrow> ebind (server_post api target payloads) (\<lambda>_. server_loop srt ps api target (Some pos))))"

definition server_Run :: "sortSlice \<Rightarrow> GitHubHooks \<Rightarrow> time \<Rightarrow> string \<Rightarrow> string \<Rightarrow> GitHubHooks list \<Rightarrow> forwardCall api \<Rightarrow> (forwardCall, unit) eff" where
  "server_Run srt gh now repository target polls api =
     (let segments = Split repository CHR ''/''
      in if length segments \<noteq> 2 then eerr (Errorf ''repository must be in a form of OWNER/REPO'')
         else (let owner = segments ! 0; repo = segments ! 1
           in ebind (elift (ghk_RepoListHooks gh owner repo))
             (\<lambda>hooks. (let hookID = (case hooks of h # _ \<Rightarrow> hk_ID h | [] \<Rightarrow> 0)
               in server_loop srt (map (\<lambda>g. \<lparr>da_ListHookDeliveries = ghk_RepoListDeliveries g owner repo hookID,
                    da_GetHookDelivery = ghk_RepoGetDelivery g owner repo hookID\<rparr>) polls) api target (Some \<lparr>st_DeliveredAt = now, st_ID = 0\<rparr>)))))"

subsection \<open>What one poll collects\<close>

definition positionOf :: "HookDelivery \<Rightarrow> ForwardState" where
  "positionOf d = \<lparr>st_DeliveredAt = hd_DeliveredAt d, st_ID = hd_ID d\<rparr>"

definition before :: "ForwardState \<Rightarrow> ForwardState \<Rightarrow> bool" where
  "before p q \<longleftrightarrow> st_ID p < st_ID q \<and> st_DeliveredAt p \<le> st_DeliveredAt q"

text \<open>Positions that the clock and GitHub produce, and an API that only answers such deliveries.\<close>

definition validPosition :: "ForwardState \<Rightarrow> bool" where
  "validPosition p \<longleftrightarrow> 0 \<le> st_ID p \<and> zeroTime \<le> st_DeliveredAt p"

definition validAPI :: "hookDeliveriesAPI \<Rightarrow> bool" where
  "validAPI api \<longleftrightarrow> (\<forall>i d. da_GetHookDelivery api i = Ret d \<longrightarrow> 0 < hd_ID d \<and> zeroTime \<le> hd_DeliveredAt d)"

definition answeredBy :: "hookDeliveriesAPI \<Rightarrow> HookDelivery \<Rightarrow> bool" where
  "answeredBy api d \<longleftrightarrow> (\<exists>i. da_GetHookDelivery api i = Ret d)"

text \<open>\<open>new\<close> leads from the position \<open>pos\<close> to \<open>pos'\<close>: ever later deliveries of the API.\<close>

definition advances :: "(HookDelivery \<Rightarrow> bool) \<Rightarrow> ForwardState \<Rightarrow> HookDelivery list \<Rightarrow> ForwardState \<Rightarrow> bool" where
  "advances A pos new pos' \<longleftrightarrow> sorted_wrt before (pos # map positionOf new) \<and> pos' = last (pos # map positionOf new) \<and> list_all A new"

lemma before_trans: "before p q \<Longrightarrow> before q r \<Longrightarrow> before p r"
  by (simp add: before_def)

lemma advances_Nil [simp]: "advances A pos [] pos' \<longleftrightarrow> pos' = pos"
  by (simp add: advances_def)

lemma advances_Cons:
  "advances A pos (d # new) pos' \<longleftrightarrow> before pos (positionOf d) \<and> A d \<and> advances A (positionOf d) new pos'"
  by (auto simp: advances_def list_all_iff intro: before_trans)

lemma advances_append:
  "advances A pos xs pos' \<Longrightarrow> advances A pos' ys pos'' \<Longrightarrow> advances A pos (xs @ ys) pos''"
  by (induction xs arbitrary: pos) (simp_all add: advances_Cons)

lemma advances_mono: "advances A pos xs pos' \<Longrightarrow> (\<And>d. A d \<Longrightarrow> B d) \<Longrightarrow> advances B pos xs pos'"
  by (induction xs arbitrary: pos) (simp_all add: advances_Cons)

lemma advances_valid: "advances A pos new pos' \<Longrightarrow> validPosition pos \<Longrightarrow> validPosition pos'"
  by (induction new arbitrary: pos) (auto simp: advances_Cons before_def validPosition_def)

text \<open>What the code relies on in \<open>sort.Slice\<close>.\<close>

definition sortsDeliveries :: "sortSlice \<Rightarrow> bool" where
  "sortsDeliveries srt \<longleftrightarrow> (\<forall>ds. mset (srt ds) = mset ds \<and> sorted (map hd_DeliveredAt (srt ds)))"

lemma sortsDeliveries_sort_key: "sortsDeliveries (sort_key hd_DeliveredAt)"
  by (simp add: sortsDeliveries_def)

lemma sortsDeliveries_short: "sortsDeliveries srt \<Longrightarrow> srt [] = []" "sortsDeliveries srt \<Longrightarrow> srt [d] = [d]"
  by (simp_all add: sortsDeliveries_def) (metis mset.simps mset_zero_iff mset_single_iff)+

text \<open>\<open>new\<close> are the deliveries that lead from \<open>pos\<close> to \<open>pos'\<close>, those of the same time in any order.\<close>

definition forwards :: "(HookDelivery \<Rightarrow> bool) \<Rightarrow> ForwardState \<Rightarrow> HookDelivery list \<Rightarrow> ForwardState \<Rightarrow> bool" where
  "forwards A pos new pos' \<longleftrightarrow> sorted (map hd_DeliveredAt new) \<and> (\<exists>ds. mset new = mset ds \<and> advances A pos ds pos')"

lemma advances_later: "advances A pos ds pos' \<Longrightarrow> st_DeliveredAt pos \<le> st_DeliveredAt pos'"
  by (induction ds arbitrary: pos) (auto simp: advances_Cons before_def intro: order_trans)

lemma advances_times:
  "advances A pos ds pos' \<Longrightarrow> d \<in> set ds \<Longrightarrow> st_DeliveredAt pos \<le> hd_DeliveredAt d \<and> hd_DeliveredAt d \<le> st_DeliveredAt pos'"
proof (induction ds arbitrary: pos)
  case (Cons e ds)
  then have b: "before pos (positionOf e)" and a: "advances A (positionOf e) ds pos'" by (simp_all add: advances_Cons)
  from b have "st_DeliveredAt pos \<le> hd_DeliveredAt e" by (simp add: before_def positionOf_def)
  moreover from advances_later [OF a] have "hd_DeliveredAt e \<le> st_DeliveredAt pos'" by (simp add: positionOf_def)
  moreover have "hd_DeliveredAt e \<le> hd_DeliveredAt d \<and> hd_DeliveredAt d \<le> st_DeliveredAt pos'" if "d \<in> set ds"
    using Cons.IH [OF a that] by (simp add: positionOf_def)
  ultimately show ?case using Cons.prems(2) by auto
qed simp

lemma forwards_Nil [simp]: "forwards A pos [] pos' \<longleftrightarrow> pos' = pos"
  by (simp add: forwards_def)

lemma forwards_append:
  assumes "forwards A pos xs pos'" and "forwards A pos' ys pos''"
  shows "forwards A pos (xs @ ys) pos''"
proof -
  from assms obtain ds es where d: "mset xs = mset ds" "advances A pos ds pos'" and e: "mset ys = mset es" "advances A pos' es pos''"
    by (auto simp: forwards_def)
  have "hd_DeliveredAt x \<le> hd_DeliveredAt y" if "x \<in> set xs" "y \<in> set ys" for x y
    using that advances_times [OF d(2), of x] advances_times [OF e(2), of y] mset_eq_setD [OF d(1)] mset_eq_setD [OF e(1)] by simp
  moreover have "mset (xs @ ys) = mset (ds @ es)" using d(1) e(1) by simp
  ultimately show ?thesis
    using assms advances_append [OF d(2) e(2)] unfolding forwards_def by (intro conjI exI [of _ "ds @ es"]) (auto simp: sorted_append)
qed

lemma forwards_mono: "forwards A pos xs pos' \<Longrightarrow> (\<And>d. A d \<Longrightarrow> B d) \<Longrightarrow> forwards B pos xs pos'"
  using advances_mono unfolding forwards_def by blast

lemma forwards_valid: "forwards A pos new pos' \<Longrightarrow> validPosition pos \<Longrightarrow> validPosition pos'"
  using advances_valid unfolding forwards_def by blast

lemma forwards_distinct:
  assumes "forwards A pos new pos'"
  shows "distinct (map hd_ID new)" and "\<forall>d \<in> set new. A d" and "sorted (map hd_DeliveredAt new)"
proof -
  from assms obtain ds where ds: "mset new = mset ds" "advances A pos ds pos'" by (auto simp: forwards_def)
  from ds(2) have "sorted_wrt before (map positionOf ds)" by (simp add: advances_def)
  then have "sorted_wrt (\<lambda>d e. hd_ID d < hd_ID e) ds"
    unfolding sorted_wrt_map by (rule sorted_wrt_mono_rel [rotated]) (simp add: before_def positionOf_def)
  then have "distinct (map hd_ID ds)" using strict_sorted_iff [of "map hd_ID ds"] by (simp add: sorted_wrt_map)
  moreover have "mset (map hd_ID new) = mset (map hd_ID ds)" using ds(1) by simp
  ultimately show "distinct (map hd_ID new)" using mset_eq_imp_distinct_iff by blast
  show "\<forall>d \<in> set new. A d" using ds mset_eq_setD [OF ds(1)] by (auto simp: advances_def list_all_iff)
  show "sorted (map hd_DeliveredAt new)" using assms by (simp add: forwards_def)
qed

text \<open>A delivery that passes the two guards lies after the position.\<close>

lemma accepted_before:
  assumes "validPosition pos" and "0 < hd_ID d" and "zeroTime \<le> hd_DeliveredAt d"
    and "\<not> (st_DeliveredAt pos \<noteq> zeroTime \<and> hd_DeliveredAt d < st_DeliveredAt pos)" and "\<not> (st_ID pos \<noteq> 0 \<and> hd_ID d \<le> st_ID pos)"
  shows "before pos (positionOf d)" and "advance pos d = positionOf d"
  using assms by (auto simp: before_def positionOf_def advance_def validPosition_def)

lemma positionOf_valid: "0 < hd_ID d \<Longrightarrow> zeroTime \<le> hd_DeliveredAt d \<Longrightarrow> validPosition (positionOf d)"
  by (simp add: positionOf_def validPosition_def)

lemma takePage_advances:
  "takePage api is pos ds = Ret (stop, pos', ds') \<Longrightarrow> validAPI api \<Longrightarrow> validPosition pos \<Longrightarrow>
     \<exists>new. ds' = ds @ new \<and> advances (answeredBy api) pos new pos'"
proof (induction "is" arbitrary: pos ds)
  case (Cons i "is")
  obtain d where d: "da_GetHookDelivery api i = Ret d" and "hd_ParseRequestPayload d = Ret ()"
    and rest: "(if st_DeliveredAt pos \<noteq> zeroTime \<and> hd_DeliveredAt d < st_DeliveredAt pos then Ret (True, pos, ds)
       else if st_ID pos \<noteq> 0 \<and> hd_ID d \<le> st_ID pos then Ret (True, pos, ds)
       else takePage api is (advance pos d) (ds @ [d])) = Ret (stop, pos', ds')"
    using Cons.prems(1) by (auto simp: go_bind_Ret_iff)
  have v: "0 < hd_ID d" "zeroTime \<le> hd_DeliveredAt d" using Cons.prems(2) d by (auto simp: validAPI_def)
  show ?case
  proof (cases "(st_DeliveredAt pos \<noteq> zeroTime \<and> hd_DeliveredAt d < st_DeliveredAt pos) \<or> (st_ID pos \<noteq> 0 \<and> hd_ID d \<le> st_ID pos)")
    case True
    then have "pos' = pos \<and> ds' = ds" using rest by (auto split: if_splits)
    then show ?thesis by auto
  next
    case False
    then have b: "before pos (positionOf d)" "advance pos d = positionOf d"
      using accepted_before [OF Cons.prems(3) v] by blast+
    have "takePage api is (positionOf d) (ds @ [d]) = Ret (stop, pos', ds')" using rest False b by (simp split: if_splits)
    from Cons.IH [OF this Cons.prems(2) positionOf_valid [OF v]]
    obtain new where new: "ds' = (ds @ [d]) @ new" "advances (answeredBy api) (positionOf d) new pos'" by blast
    have "answeredBy api d" using d by (auto simp: answeredBy_def)
    with new b(1) have "ds' = ds @ d # new \<and> advances (answeredBy api) pos (d # new) pos'" by (simp add: advances_Cons)
    then show ?thesis by blast
  qed
qed simp

definition collected :: "hookDeliveriesAPI \<Rightarrow> ForwardState \<Rightarrow> HookDelivery list \<Rightarrow> (ForwardState \<times> HookDelivery list) go \<Rightarrow> bool" where
  "collected api pos ds r \<longleftrightarrow> (validAPI api \<longrightarrow> validPosition pos \<longrightarrow>
     (\<forall>pos' ds'. r = Ret (pos', ds') \<longrightarrow> (\<exists>new. ds' = ds @ new \<and> advances (answeredBy api) pos new pos')))"

lemma collectDeliveries_collected: "collectDeliveries api cursor pos ds = Some r \<Longrightarrow> collected api pos ds r"
proof (rule collectDeliveries.raw_induct [where P = "\<lambda>api cursor pos ds r. collected api pos ds r"])
  fix collect :: "hookDeliveriesAPI \<Rightarrow> string \<Rightarrow> ForwardState \<Rightarrow> HookDelivery list \<Rightarrow> (ForwardState \<times> HookDelivery list) go option"
    and api cursor pos ds r
  assume IH: "\<And>api cursor pos ds r. collect api cursor pos ds = Some r \<Longrightarrow> collected api pos ds r"
    and body: "(case da_ListHookDeliveries api cursor of
        Ret (ids, next') \<Rightarrow>
          (case takePage api ids pos ds of
             Ret (stop, pos', ds') \<Rightarrow> if stop \<or> next' = [] then Some (Ret (pos', ds')) else collect api next' pos' ds'
           | Err e \<Rightarrow> Some (Err e) | Panic s \<Rightarrow> Some (Panic s) | Hang \<Rightarrow> Some Hang)
      | Err e \<Rightarrow> Some (Err e) | Panic s \<Rightarrow> Some (Panic s) | Hang \<Rightarrow> Some Hang) = Some r"
  show "collected api pos ds r"
    unfolding collected_def
  proof (intro impI allI)
    fix pos'' ds'' assume v: "validAPI api" "validPosition pos" and r: "r = Ret (pos'', ds'')"
    obtain "is" next' where l: "da_ListHookDeliveries api cursor = Ret (is, next')"
      using body r by (auto split: go.splits)
    obtain stop pos' ds' where t: "takePage api is pos ds = Ret (stop, pos', ds')"
      using body r l by (auto split: go.splits)
    from takePage_advances [OF t v] obtain new where new: "ds' = ds @ new" "advances (answeredBy api) pos new pos'" by blast
    show "\<exists>new. ds'' = ds @ new \<and> advances (answeredBy api) pos new pos''"
    proof (cases "stop \<or> next' = []")
      case True
      then have "ds'' = ds' \<and> pos'' = pos'" using body r l t by auto
      with new show ?thesis by auto
    next
      case False
      then have "collect api next' pos' ds' = Some r" using body l t by simp
      from IH [OF this] v(1) advances_valid [OF new(2) v(2)] r
      obtain new' where "ds'' = ds' @ new'" "advances (answeredBy api) pos' new' pos''" unfolding collected_def by blast
      with new show ?thesis using advances_append [OF new(2)] by (intro exI [of _ "new @ new'"]) simp
    qed
  qed
qed

lemma rawPayloads_Ret: "rawPayloads ds = Ret ps \<longleftrightarrow> map Some ps = map hd_RawPayload ds"
  by (induction ds arbitrary: ps) (auto simp: go_bind_Ret_iff Cons_eq_map_conv split: option.splits)

text \<open>
  A poll returns the payloads of ever later deliveries and the position of the last one.
\<close>

lemma getUnprocessedDeliveries_forwards:
  assumes "getUnprocessedDeliveries srt api pos = Ret (ps, pos')" and v: "validAPI api" "validPosition pos" and srt: "sortsDeliveries srt"
  shows "\<exists>new. map Some ps = map hd_RawPayload new \<and> forwards (answeredBy api) pos new pos'"
proof -
  obtain ds where c: "collectDeliveries api [] pos [] = Some (Ret (pos', ds))" and p: "rawPayloads (srt ds) = Ret ps"
    using assms(1) unfolding getUnprocessedDeliveries_def
    by (auto simp: go_bind_Ret_iff returned_def split: option.splits)
  from collectDeliveries_collected [OF c] v have "advances (answeredBy api) pos ds pos'" by (simp add: collected_def)
  with srt have "forwards (answeredBy api) pos (srt ds) pos'" unfolding forwards_def sortsDeliveries_def by blast
  with p show ?thesis by (auto simp: rawPayloads_Ret)
qed

subsection \<open>Over the whole run\<close>

fun postsOf :: "forwardCall list \<Rightarrow> string list" where
  "postsOf [] = []"
| "postsOf (PostPayload t p # cs) = p # postsOf cs"
| "postsOf (_ # cs) = postsOf cs"

lemma postsOf_append [simp]: "postsOf (xs @ ys) = postsOf xs @ postsOf ys"
  by (induction xs rule: postsOf.induct) simp_all

lemma postsOf_posts [simp]: "postsOf (map (PostPayload target) ps) = ps"
  by (induction ps) simp_all

lemma postPayloads_prefix:
  "postPayloads api target ps l = (l', r) \<Longrightarrow> \<exists>k b. l' = l @ map (PostPayload target) (take k ps) \<and> r = Ret b"
proof (induction ps arbitrary: l)
  case Nil
  then show ?case by (auto simp: eret_def)
next
  case (Cons p ps)
  show ?case
  proof (cases "api l (PostPayload target p)")
    case None
    with Cons.prems have "postPayloads api target ps (l @ [PostPayload target p]) = (l', r)" by (simp add: ecall_def)
    from Cons.IH [OF this] obtain k b where "l' = (l @ [PostPayload target p]) @ map (PostPayload target) (take k ps)" "r = Ret b" by blast
    then show ?thesis by (intro exI [of _ "Suc k"]) simp
  next
    case (Some e)
    with Cons.prems have "l' = l @ map (PostPayload target) (take 1 (p # ps)) \<and> r = Ret False" by (auto simp: ecall_def eret_def)
    then show ?thesis by blast
  qed
qed

text \<open>What the forwarder relies on in a checkpointer: it posts nothing, it only adds calls, and it does not accept a nil position.\<close>

locale checkpointer =
  fixes cp :: Checkpointer
  assumes update_no_post: "cp_Update cp h pos l = (l', r) \<Longrightarrow> \<exists>w. l' = l @ w \<and> postsOf w = []"
    and getOrCreate_no_post: "cp_GetOrCreate cp h l = (l', r') \<Longrightarrow> \<exists>w. l' = l @ w \<and> postsOf w = []"
    and update_nil: "cp_Update cp h None l \<noteq> (l', Ret ())"
begin

lemma checkpoint_no_post: "checkpoint cp c h pos l = (l', r) \<Longrightarrow> \<exists>w. l' = l @ w \<and> postsOf w = []"
  using update_no_post [of h pos l] unfolding checkpoint_def ecatch_def ebind_def eret_def
  by (cases "cp_Update cp h pos l"; cases "snd (cp_Update cp h pos l)") auto

lemma checkpoint_polling: "checkpoint cp c h pos l = (l', Ret (Polling q)) \<Longrightarrow> q = pos \<and> pos \<noteq> None"
  using update_nil [of h l] unfolding checkpoint_def ecatch_def ebind_def eret_def
  by (cases pos) (auto split: prod.splits go.splits if_splits)

text \<open>One round posts the payloads of some of the deliveries that lead to the next position, in order.\<close>

lemma forwardRound_forwards:
  assumes f: "forwardRound srt cp p api target h cur l = (l', r)" and v: "validAPI (fst p)" "validPosition cur" and srt: "sortsDeliveries srt"
  shows "\<exists>w new pos. l' = l @ w \<and> forwards (answeredBy (fst p)) cur new pos \<and> subseq (map Some (postsOf w)) (map hd_RawPayload new) \<and>
    (\<forall>q. r = Ret (Polling q) \<longrightarrow> q = Some pos)"
proof (cases "getUnprocessedDeliveries srt (fst p) cur")
  case (Ret x)
  obtain ps pos where x: "x = (ps, pos)" by (cases x)
  from getUnprocessedDeliveries_forwards [OF _ v srt] Ret x
  obtain new where new: "map Some ps = map hd_RawPayload new" "forwards (answeredBy (fst p)) cur new pos" by blast
  obtain l1 b where pp: "postPayloads api target ps l = (l1, b)" by (cases "postPayloads api target ps l")
  from postPayloads_prefix [OF this] obtain k b' where l1: "l1 = l @ map (PostPayload target) (take k ps)" and b: "b = Ret b'" by blast
  have "map Some (take k ps) = take k (map hd_RawPayload new)" by (simp add: take_map new(1) [symmetric])
  then have sub: "subseq (map Some (take k ps)) (map hd_RawPayload new)" by (simp add: take_is_prefix prefix_imp_subseq)
  obtain w where w: "l' = l1 @ w" "postsOf w = []" and q: "\<forall>q. r = Ret (Polling q) \<longrightarrow> q = Some pos"
  proof (cases b')
    case True
    then have "checkpoint cp (snd p) h (Some pos) l1 = (l', r)" using f Ret x pp b by (simp add: forwardRound_def ebind_def)
    with checkpoint_no_post checkpoint_polling that show thesis by metis
  next
    case False
    then have "l' = l1 \<and> r = Ret (if snd p then Failed Canceled else Polling (Some pos))"
      using f Ret x pp b by (auto simp: forwardRound_def ebind_def eret_def)
    then show thesis using that [of "[]"] by (auto split: if_splits)
  qed
  show ?thesis
    using new(2) sub w q l1 by (intro exI [of _ "map (PostPayload target) (take k ps) @ w"] exI [of _ new] exI [of _ pos]) simp
next
  case (Err e)
  have "\<exists>w. l' = l @ w \<and> postsOf w = []" and "\<not> (\<exists>q. r = Ret (Polling q))"
    using f Err checkpoint_no_post [of "snd p" h None l] checkpoint_polling [of "snd p" h None l]
    by (auto simp: forwardRound_def eret_def split: if_splits)
  then show ?thesis by (metis forwards_Nil subseq_order.order_refl list.simps(8))
qed (use f in \<open>auto simp: forwardRound_def epanic_def elift_def intro!: exI [of _ cur] exI [of _ "[]"]\<close>)

lemma runLoop_forwards:
  assumes "runLoop srt cp ps api target h (Some cur) l = (l', r)" and "\<forall>p \<in> set ps. validAPI (fst p)" and "validPosition cur" and srt: "sortsDeliveries srt"
  shows "\<exists>w new pos. l' = l @ w \<and> forwards (\<lambda>d. \<exists>p \<in> set ps. answeredBy (fst p) d) cur new pos \<and> subseq (map Some (postsOf w)) (map hd_RawPayload new)"
  using assms(1-3)
proof (induction ps arbitrary: cur l)
  case Nil
  then show ?case by (auto simp: eret_def intro!: exI [of _ "[]"])
next
  case (Cons p ps)
  let ?A = "\<lambda>d. \<exists>p \<in> set (p # ps). answeredBy (fst p) d"
  obtain l1 r1 where f: "forwardRound srt cp p api target h cur l = (l1, r1)" by (cases "forwardRound srt cp p api target h cur l")
  from forwardRound_forwards [OF f _ _ srt] Cons.prems(2,3)
  obtain w new pos where w: "l1 = l @ w" "forwards (answeredBy (fst p)) cur new pos" "subseq (map Some (postsOf w)) (map hd_RawPayload new)"
    and q: "\<forall>q. r1 = Ret (Polling q) \<longrightarrow> q = Some pos" by auto
  from w(2) have a: "forwards ?A cur new pos" by (rule forwards_mono) simp
  show ?case
  proof (cases "\<exists>q. r1 = Ret (Polling q)")
    case True
    with q f Cons.prems(1) have "runLoop srt cp ps api target h (Some pos) l1 = (l', r)" by (auto simp: ebind_def)
    from Cons.IH [OF this] Cons.prems(2) forwards_valid [OF w(2) Cons.prems(3)]
    obtain w' new' pos' where w': "l' = l1 @ w'" "forwards (\<lambda>d. \<exists>p \<in> set ps. answeredBy (fst p) d) pos new' pos'"
      "subseq (map Some (postsOf w')) (map hd_RawPayload new')" by auto
    from w'(2) have "forwards ?A pos new' pos'" by (rule forwards_mono) auto
    with a w w' show ?thesis
      by (intro exI [of _ "w @ w'"] exI [of _ "new @ new'"] exI [of _ pos']) (simp add: forwards_append list_emb_append_mono)
  next
    case False
    then have "l' = l1" using f Cons.prems(1) by (auto simp: ebind_def eret_def split: go.splits runState.splits)
    with a w show ?thesis by blast
  qed
qed

end

interpretation in_memory: checkpointer "NewInMemoryLogPositionProvider now" for now
  by unfold_locales (auto simp: NewInMemoryLogPositionProvider_def InMemory_Update_def InMemory_GetOrCreate_def go_simps split: option.splits)

lemma configMap_update_calls:
  "ConfigMap_Update api getMap h pos l = (l', r) \<Longrightarrow> \<exists>w. l' = l @ w \<and> postsOf w = []"
  by (auto simp: ConfigMap_Update_def go_simps split: go.splits option.splits)

lemma configMap_get_calls:
  "ConfigMap_GetOrCreate api getMap now h l = (l', r) \<Longrightarrow> \<exists>w. l' = l @ w \<and> postsOf w = []"
  by (auto simp: ConfigMap_GetOrCreate_def go_simps split: go.splits option.splits if_splits cmText.splits)

interpretation config_map: checkpointer "ConfigMapCheckpointer api getMap now" for api getMap now
proof unfold_locales
  show "cp_Update (ConfigMapCheckpointer api getMap now) h None l \<noteq> (l', Ret ())" for h l l'
    by (auto simp: ConfigMapCheckpointer_def ConfigMap_Update_def go_simps split: go.splits)
qed (auto simp: ConfigMapCheckpointer_def dest: configMap_update_calls configMap_get_calls)

subsection \<open>Properties\<close>

text \<open>The API of a forwarder at a poll.\<close>

definition pollAPI :: "string \<Rightarrow> int \<Rightarrow> GitHubHooks \<Rightarrow> hookDeliveriesAPI" where
  "pollAPI repository hookID g = newHookDeliveriesAPI g (fst (ownerAndRepo repository)) (snd (ownerAndRepo repository)) hookID"

lemma Run_Forwarder_forwards:
  assumes v: "\<forall>p \<in> set polls. \<forall>h. validAPI (pollAPI repository h (fst p))" and t: "zeroTime \<le> now" and srt: "sortsDeliveries srt"
  shows "\<exists>hookID new. distinct (map hd_ID new) \<and> sorted (map hd_DeliveredAt new) \<and>
    (\<forall>d \<in> set new. \<exists>p \<in> set polls. answeredBy (pollAPI repository hookID (fst p)) d) \<and>
    subseq (map Some (postsOf (writes (Run_Forwarder srt gh secret (NewInMemoryLogPositionProvider now) repository target hookConfig polls api)))) (map hd_RawPayload new)"
    (is "\<exists>h new. ?Q h new (writes ?run)")
proof -
  obtain owner repo where o: "ownerAndRepo repository = (owner, repo)" by (cases "ownerAndRepo repository")
  show ?thesis
  proof (cases "\<exists>hook. selectHook (newHooksAPI gh owner repo) secret hookConfig = Ret (Inr hook)")
    case True
    then obtain hook where h: "selectHook (newHooksAPI gh owner repo) secret hookConfig = Ret (Inr hook)" by blast
    let ?cur = "\<lparr>st_DeliveredAt = now, st_ID = 0\<rparr>"
    let ?ps = "map (\<lambda>(g, cancelled). (newHookDeliveriesAPI g owner repo (hk_ID hook), cancelled)) polls"
    obtain l' r where run: "runLoop srt (NewInMemoryLogPositionProvider now) ?ps api target (hk_ID hook) (Some ?cur) [] = (l', r)"
      by (meson surj_pair)
    have w: "writes ?run = l'"
      by (simp add: Run_Forwarder_def o h run go_simps NewInMemoryLogPositionProvider_def InMemory_GetOrCreate_def memoryOf_def
          run [unfolded NewInMemoryLogPositionProvider_def])
    have "\<forall>p \<in> set ?ps. validAPI (fst p)" using v o by (auto simp: pollAPI_def)
    moreover have "validPosition ?cur" using t by (simp add: validPosition_def)
    ultimately obtain new pos where n: "forwards (\<lambda>d. \<exists>p \<in> set ?ps. answeredBy (fst p) d) ?cur new pos"
      and sub: "subseq (map Some (postsOf l')) (map hd_RawPayload new)"
      using in_memory.runLoop_forwards [OF run _ _ srt] by auto
    note d = forwards_distinct [OF n]
    have "\<forall>d \<in> set new. \<exists>p \<in> set polls. answeredBy (pollAPI repository (hk_ID hook) (fst p)) d"
      using d(2) o by (auto simp: pollAPI_def case_prod_unfold)
    then show ?thesis using sub w d(1,3) by blast
  next
    case False
    then have "writes ?run = []"
      by (auto simp: Run_Forwarder_def o go_simps split: go.splits sum.splits)
    then have "?Q 0 [] (writes ?run)" by simp
    then show ?thesis by blast
  qed
qed

text \<open>
  C29. With the in-memory checkpointer, whatever the sequence of polls, the pages GitHub answers, the failures of the target and of GitHub: the payloads that a forwarder posts are, in order, payloads of deliveries that GitHub
  answered in some poll, no two of them with the same ID and their delivery times never decreasing. So no delivery is posted twice, and none is posted after a later one. This holds for every way in which the sort may order deliveries of the same time.
\<close>

theorem forwarded_at_most_once:
  assumes "\<forall>p \<in> set polls. \<forall>h. validAPI (pollAPI repository h (fst p))" and "zeroTime \<le> now" and "sortsDeliveries srt"
  shows "\<exists>hookID new. distinct (map hd_ID new) \<and> sorted (map hd_DeliveredAt new) \<and>
    (\<forall>d \<in> set new. \<exists>p \<in> set polls. answeredBy (pollAPI repository hookID (fst p)) d) \<and>
    subseq (map Some (postsOf (writes (Run_Forwarder srt gh secret (NewInMemoryLogPositionProvider now) repository target hookConfig polls api)))) (map hd_RawPayload new)"
  using assms by (rule Run_Forwarder_forwards)

text \<open>A GitHub with one hook and two deliveries, listed newest first.\<close>

definition exampleDelivery :: "int \<Rightarrow> HookDelivery" where
  "exampleDelivery i = \<lparr>hd_ID = i, hd_DeliveredAt = i * Minute, hd_ParseRequestPayload = Ret (), hd_RawPayload = Some (if i = 1 then ''one'' else ''two'')\<rparr>"

definition exampleHook :: Hook where
  "exampleHook = \<lparr>hk_ID = 7, hk_Config = [], hk_Events = [], hk_Active = None\<rparr>"

definition exampleHooks :: GitHubHooks where
  "exampleHooks = \<lparr>ghk_RepoListHooks = (\<lambda>_ _. Ret [exampleHook]), ghk_OrgListHooks = (\<lambda>_. Ret [exampleHook]),
     ghk_RepoCreateHook = (\<lambda>_ _ h. Ret h), ghk_OrgCreateHook = (\<lambda>_ h. Ret h),
     ghk_RepoListDeliveries = (\<lambda>_ _ _ _. Ret ([2, 1], [])), ghk_OrgListDeliveries = (\<lambda>_ _ _. Ret ([2, 1], [])),
     ghk_RepoGetDelivery = (\<lambda>_ _ _ i. if i \<in> {1, 2} then Ret (exampleDelivery i) else Err (ErrorResponse 404)),
     ghk_OrgGetDelivery = (\<lambda>_ _ i. if i \<in> {1, 2} then Ret (exampleDelivery i) else Err (ErrorResponse 404))\<rparr>"

lemma exampleHooks_valid: "validAPI (newHookDeliveriesAPI exampleHooks owner repo h)"
  by (auto simp: validAPI_def newHookDeliveriesAPI_def exampleHooks_def exampleDelivery_def zeroTime_def split: if_splits)

theorem forwarded_at_most_once_witness:
  "\<exists>hookID new. distinct (map hd_ID new) \<and> sorted (map hd_DeliveredAt new) \<and>
    (\<forall>d \<in> set new. \<exists>p \<in> set [(exampleHooks, False), (exampleHooks, True)]. answeredBy (pollAPI ''org/repo'' hookID (fst p)) d) \<and>
    subseq (map Some (postsOf (writes (Run_Forwarder (sort_key hd_DeliveredAt) exampleHooks [] (NewInMemoryLogPositionProvider 0) ''org/repo'' ''http://target'' exampleHook
      [(exampleHooks, False), (exampleHooks, True)] acceptAll)))) (map hd_RawPayload new)"
  by (rule forwarded_at_most_once) (simp_all add: sortsDeliveries_sort_key exampleHooks_valid pollAPI_def zeroTime_def)

text \<open>
  GitHub lists deliveries newest first, and the scan raises its position at every delivery it accepts. When two or more deliveries arrived since the last poll, only the newest one is forwarded: the scan stops at the second, the
  position moves past both, and the next poll of the same listing returns nothing. The older deliveries are never forwarded.
\<close>

theorem older_deliveries_lost:
  assumes "da_ListHookDeliveries api [] = Ret (i # j # rest, next')"
    and "da_GetHookDelivery api i = Ret d" and "da_GetHookDelivery api j = Ret e"
    and "hd_ParseRequestPayload d = Ret ()" and "hd_ParseRequestPayload e = Ret ()"
    and "hd_ID e < hd_ID d" and "st_ID pos < hd_ID e" and "0 \<le> st_ID pos"
    and "st_DeliveredAt pos \<le> hd_DeliveredAt e" and "hd_DeliveredAt e \<le> hd_DeliveredAt d"
    and "hd_RawPayload d = Some p" and srt: "sortsDeliveries srt"
  shows "getUnprocessedDeliveries srt api pos = Ret ([p], positionOf d) \<and>
    getUnprocessedDeliveries srt api (positionOf d) = Ret ([], positionOf d)"
proof -
  have a: "advance pos d = positionOf d" using assms by (auto simp: advance_def positionOf_def)
  have t: "takePage api (i # j # rest) pos [] = Ret (True, positionOf d, [d])"
    using assms by (auto simp: a) (auto simp: positionOf_def)
  have "takePage api (i # j # rest) (positionOf d) [] = Ret (True, positionOf d, [])"
    using assms by (simp add: positionOf_def)
  with t show ?thesis
    using assms by (simp add: getUnprocessedDeliveries_def collectDeliveries.simps [of api "[]"] returned_def sortsDeliveries_short)
qed

theorem older_deliveries_lost_witness:
  "getUnprocessedDeliveries (sort_key hd_DeliveredAt) (newHookDeliveriesAPI exampleHooks ''org'' ''repo'' 7) \<lparr>st_DeliveredAt = 0, st_ID = 0\<rparr> = Ret ([''two''], positionOf (exampleDelivery 2)) \<and>
   getUnprocessedDeliveries (sort_key hd_DeliveredAt) (newHookDeliveriesAPI exampleHooks ''org'' ''repo'' 7) (positionOf (exampleDelivery 2)) = Ret ([], positionOf (exampleDelivery 2))"
  by (rule older_deliveries_lost [where i = 2 and j = 1 and rest = "[]" and next' = "[]" and e = "exampleDelivery 1"])
    (simp_all add: sortsDeliveries_sort_key newHookDeliveriesAPI_def exampleHooks_def exampleDelivery_def)

text \<open>The listing ends: following the cursors from \<open>cursor\<close>, at most \<open>n\<close> pages.\<close>

fun listingEnds :: "nat \<Rightarrow> hookDeliveriesAPI \<Rightarrow> string \<Rightarrow> bool" where
  "listingEnds 0 api cursor = False"
| "listingEnds (Suc n) api cursor =
     (case da_ListHookDeliveries api cursor of Ret (is, next') \<Rightarrow> next' = [] \<or> listingEnds n api next' | _ \<Rightarrow> True)"

lemma takePage_returns: "\<forall>i. da_GetHookDelivery api i \<noteq> Hang \<Longrightarrow> \<forall>i d. da_GetHookDelivery api i = Ret d \<longrightarrow> hd_ParseRequestPayload d \<noteq> Hang \<Longrightarrow>
    takePage api is pos ds \<noteq> Hang"
proof (induction "is" arbitrary: pos ds)
  case (Cons i "is")
  then show ?case by (cases "da_GetHookDelivery api i"; cases "hd_ParseRequestPayload (case da_GetHookDelivery api i of Ret d \<Rightarrow> d)") auto
qed simp

lemma collectDeliveries_returns:
  assumes "\<forall>c. da_ListHookDeliveries api c \<noteq> Hang" and "\<forall>i. da_GetHookDelivery api i \<noteq> Hang"
    and "\<forall>i d. da_GetHookDelivery api i = Ret d \<longrightarrow> hd_ParseRequestPayload d \<noteq> Hang"
  shows "listingEnds n api cursor \<Longrightarrow> \<exists>r. collectDeliveries api cursor pos ds = Some r \<and> r \<noteq> Hang"
proof (induction n arbitrary: cursor pos ds)
  case (Suc n)
  show ?case
  proof (cases "da_ListHookDeliveries api cursor")
    case (Ret x)
    obtain "is" next' where x: "x = (is, next')" by (cases x)
    have "takePage api is pos ds \<noteq> Hang" using takePage_returns [OF assms(2,3)] .
    then show ?thesis
      using Suc.prems Suc.IH Ret x by (cases "takePage api is pos ds") (auto simp: collectDeliveries.simps [of api cursor] split: if_splits)
  qed (use assms(1) in \<open>auto simp: collectDeliveries.simps [of api cursor]\<close>)
qed simp

lemma rawPayloads_no_hang: "rawPayloads ds \<noteq> Hang"
  by (induction ds) (auto split: option.splits simp: go_bind.simps elim: go_bind.elims)

text \<open>
  C30. When every call of GitHub's API returns and the cursors of a listing end after finitely many pages, a poll ends: it returns payloads and a position, an error or a panic.
\<close>

theorem poll_terminates:
  assumes "listingEnds n api []" and "\<forall>c. da_ListHookDeliveries api c \<noteq> Hang" and "\<forall>i. da_GetHookDelivery api i \<noteq> Hang"
    and "\<forall>i d. da_GetHookDelivery api i = Ret d \<longrightarrow> hd_ParseRequestPayload d \<noteq> Hang"
  shows "getUnprocessedDeliveries srt api pos \<noteq> Hang"
proof -
  obtain r where r: "collectDeliveries api [] pos [] = Some r" "r \<noteq> Hang"
    using collectDeliveries_returns [OF assms(2-4) assms(1)] by blast
  have "go_bind (rawPayloads ds) (\<lambda>payloads. Ret (payloads, pos')) \<noteq> Hang" for ds :: "HookDelivery list" and pos' :: ForwardState
    using rawPayloads_no_hang [of ds] by (cases "rawPayloads ds") auto
  with r show ?thesis by (cases r) (auto simp: getUnprocessedDeliveries_def returned_def)
qed

theorem poll_terminates_witness:
  "getUnprocessedDeliveries (sort_key hd_DeliveredAt) (newHookDeliveriesAPI exampleHooks ''org'' ''repo'' 7) \<lparr>st_DeliveredAt = 0, st_ID = 0\<rparr> \<noteq> Hang"
  by (rule poll_terminates [where n = 1])
    (auto simp: newHookDeliveriesAPI_def exampleHooks_def exampleDelivery_def split: if_splits)

text \<open>
  One failed call to GitHub (other than a cancelled context) ends the process: the position is nil after the error, and the loop hands it to the checkpointer, which dereferences it.
\<close>

theorem failed_poll_panics:
  assumes "getUnprocessedDeliveries srt (fst p) cur = Err e" and "\<not> isCanceled e"
  shows "outcome (runLoop srt (NewInMemoryLogPositionProvider now) (p # ps) api target hookID (Some cur)) = Panic ''nil pointer dereference''"
  using assms by (simp add: forwardRound_def checkpoint_def NewInMemoryLogPositionProvider_def InMemory_Update_def go_simps)

theorem failed_poll_panics_witness:
  "outcome (runLoop (sort_key hd_DeliveredAt) (NewInMemoryLogPositionProvider 0) [(\<lparr>da_ListHookDeliveries = (\<lambda>_. Err (ErrorResponse 502)), da_GetHookDelivery = (\<lambda>_. Err (ErrorResponse 502))\<rparr>, False)]
     acceptAll ''http://target'' 7 (Some \<lparr>st_DeliveredAt = 0, st_ID = 0\<rparr>)) = Panic ''nil pointer dereference''"
  by (rule failed_poll_panics [where e = "ErrorResponse 502"])
    (simp_all add: getUnprocessedDeliveries_def collectDeliveries.simps returned_def)

text \<open>
  C31. The config map checkpointer is durable: when the API server keeps the config map it was last given, the position stored for a hook is the position read back for it, whatever is logged in between that is not a write of the map.
\<close>

theorem config_map_roundtrip:
  assumes store: "\<And>l d w. \<forall>c \<in> set w. \<not> (\<exists>d'. c = PatchConfigMap d') \<Longrightarrow> api l (PatchConfigMap d) = None \<Longrightarrow> getMap (l @ PatchConfigMap d # w) = Ret d"
    and update: "cp_Update (ConfigMapCheckpointer api getMap now) hookID (Some pos) l = (l', Ret ())"
    and later: "\<forall>c \<in> set w. \<not> (\<exists>d'. c = PatchConfigMap d')" and "st_DeliveredAt pos \<noteq> zeroTime"
  shows "cp_GetOrCreate (ConfigMapCheckpointer api getMap now') hookID (l' @ w) = (l' @ w, Ret pos)"
proof -
  obtain data where d: "l' = l @ [PatchConfigMap (AList.update (hookKey hookID) (JSONState pos) data)]"
    and a: "api l (PatchConfigMap (AList.update (hookKey hookID) (JSONState pos) data)) = None"
    using update by (auto simp: ConfigMapCheckpointer_def ConfigMap_Update_def go_simps split: go.splits option.splits)
  have "getMap (l' @ w) = Ret (AList.update (hookKey hookID) (JSONState pos) data)"
    using store [OF later a] d by simp
  with assms(4) show ?thesis by (simp add: ConfigMapCheckpointer_def ConfigMap_GetOrCreate_def go_simps)
qed

text \<open>A server that keeps the last config map it was given.\<close>

definition lastConfigMap :: "forwardCall list \<Rightarrow> cmData go" where
  "lastConfigMap l = fold (\<lambda>c m. case c of PatchConfigMap d \<Rightarrow> Ret d | _ \<Rightarrow> m) l (Ret [])"

lemma lastConfigMap_keeps: "\<forall>c \<in> set w. \<not> (\<exists>d'. c = PatchConfigMap d') \<Longrightarrow> lastConfigMap (l @ PatchConfigMap d # w) = Ret d"
proof -
  have "\<forall>c \<in> set w. \<not> (\<exists>d'. c = PatchConfigMap d') \<Longrightarrow> fold (\<lambda>c m. case c of PatchConfigMap d \<Rightarrow> Ret d | _ \<Rightarrow> m) w m = m" for m :: "cmData go"
    by (induction w) (auto split: forwardCall.splits)
  then show "\<forall>c \<in> set w. \<not> (\<exists>d'. c = PatchConfigMap d') \<Longrightarrow> ?thesis" by (simp add: lastConfigMap_def)
qed

theorem config_map_roundtrip_witness:
  "cp_GetOrCreate (ConfigMapCheckpointer acceptAll lastConfigMap 9) 7 ([PatchConfigMap [(hookKey 7, JSONState \<lparr>st_DeliveredAt = 5, st_ID = 3\<rparr>)]] @ [PostPayload ''t'' ''p''])
     = ([PatchConfigMap [(hookKey 7, JSONState \<lparr>st_DeliveredAt = 5, st_ID = 3\<rparr>)]] @ [PostPayload ''t'' ''p''], Ret \<lparr>st_DeliveredAt = 5, st_ID = 3\<rparr>)"
  by (rule config_map_roundtrip [where now = 0 and l = "[]"])
    (simp_all add: lastConfigMap_keeps, simp_all add: ConfigMapCheckpointer_def ConfigMap_Update_def lastConfigMap_def go_simps zeroTime_def)

text \<open>
  The in-memory checkpointer keeps one position for all hooks and forgets the ID: after an update for one hook, every hook starts from the delivery time of that position, with ID 0.
\<close>

theorem memory_checkpoint_shared:
  "cp_GetOrCreate (NewInMemoryLogPositionProvider now) hookID' (fst (cp_Update (NewInMemoryLogPositionProvider now) hookID (Some pos) l))
     = (fst (cp_Update (NewInMemoryLogPositionProvider now) hookID (Some pos) l), Ret \<lparr>st_DeliveredAt = st_DeliveredAt pos, st_ID = 0\<rparr>)"
  by (simp add: NewInMemoryLogPositionProvider_def InMemory_Update_def InMemory_GetOrCreate_def memoryOf_def go_simps)

lemma server_scan_keeps: "server_scan api cursor pos ds = Some r \<Longrightarrow> \<forall>pos' ds'. r = Ret (pos', ds') \<longrightarrow> ds' = ds"
proof (rule server_scan.raw_induct [where P = "\<lambda>api cursor pos ds r. \<forall>pos' ds'. r = Ret (pos', ds') \<longrightarrow> ds' = ds"])
  fix scan :: "hookDeliveriesAPI \<Rightarrow> string \<Rightarrow> ForwardState \<Rightarrow> HookDelivery list \<Rightarrow> (ForwardState \<times> HookDelivery list) go option"
    and api cursor pos ds r
  assume IH: "\<And>api cursor pos ds r. scan api cursor pos ds = Some r \<Longrightarrow> \<forall>pos' ds'. r = Ret (pos', ds') \<longrightarrow> ds' = ds"
    and body: "(case da_ListHookDeliveries api cursor of
        Ret (ids, next') \<Rightarrow>
          (case server_page api ids pos of
             Ret (stop, pos') \<Rightarrow> if stop \<or> next' = [] then Some (Ret (pos', ds)) else scan api next' pos' ds
           | Err e \<Rightarrow> Some (Err e) | Panic s \<Rightarrow> Some (Panic s) | Hang \<Rightarrow> Some Hang)
      | Err e \<Rightarrow> Some (Err e) | Panic s \<Rightarrow> Some (Panic s) | Hang \<Rightarrow> Some Hang) = Some r"
  show "\<forall>pos' ds'. r = Ret (pos', ds') \<longrightarrow> ds' = ds"
    using body IH by (auto split: go.splits prod.splits if_splits)
qed

lemma server_poll_empty: "server_getUnprocessedDeliveries srt api pos = Ret (ps, pos') \<Longrightarrow> sortsDeliveries srt \<Longrightarrow> ps = []"
  by (auto simp: sortsDeliveries_short server_getUnprocessedDeliveries_def go_bind_Ret_iff returned_def dest: server_scan_keeps split: option.splits)

lemma server_loop_silent: "sortsDeliveries srt \<Longrightarrow> fst (server_loop srt polls api target cur l) = l"
  by (induction polls arbitrary: cur l)
    (auto simp: go_simps dest: server_poll_empty split: option.splits go.splits)

text \<open>
  The older forwarder scans the deliveries and moves its position, but never adds a delivery to what it returns: it posts nothing at all, whatever GitHub answers.
\<close>

theorem older_forwarder_posts_nothing: "sortsDeliveries srt \<Longrightarrow> writes (server_Run srt gh now repository target polls api) = []"
  by (simp add: server_Run_def go_simps server_loop_silent Let_def split: go.splits)

text \<open>
  A rule with several sources becomes one rule per source, in the order given, each with the target and the hook of its rule: building the forwarder succeeds exactly when every rule parses, names a source and has a target.
\<close>

theorem rules_expanded:
  "New_MultiForwarder unmarshal rules [] = Ret out \<longleftrightarrow>
     (\<exists>configs. list_all2 (\<lambda>r c. unmarshal r = Ret c \<and> rc_Repo c \<noteq> [] \<and> rc_Target c \<noteq> []) rules configs \<and>
       out = concat (map (\<lambda>c. map (\<lambda>repo. \<lparr>rl_Repo = repo, rl_Target = rc_Target c, rl_Hook = rc_Hook c\<rparr>) (rc_Repo c)) configs))"
proof -
  let ?ok = "\<lambda>r c. unmarshal r = Ret c \<and> rc_Repo c \<noteq> [] \<and> rc_Target c \<noteq> []"
  let ?expand = "\<lambda>c. map (\<lambda>repo. \<lparr>rl_Repo = repo, rl_Target = rc_Target c, rl_Hook = rc_Hook c\<rparr>) (rc_Repo c)"
  have "New_MultiForwarder unmarshal rules acc = Ret out \<longleftrightarrow>
      (\<exists>configs. list_all2 ?ok rules configs \<and> out = acc @ concat (map ?expand configs))" for acc
    by (induction rules arbitrary: acc) (auto simp: list_all2_Cons1 split: go.splits if_splits)
  from this [of "[]"] show ?thesis by simp
qed

text \<open>The deferred status 500 never takes effect: the readiness handler answers 200 to every request.\<close>

theorem readyz_always_ok: "hr_Status (HandleReadyz isGet \<lparr>hr_Status = None, hr_Body = []\<rparr>) = Some 200"
  by (simp add: HandleReadyz_def WriteBody_def WriteHeader_def Let_def)

end
