(* ===== verification/Forwarder_Process.thy ===== *)
theory Forwarder_Process
  imports Hook_Forwarder GitHub_Config
begin

section \<open>The forwarder as a process\<close>

text \<open>
  Model of the start of the webhook delivery forwarders (\<open>src/pkg/hookdeliveryforwarder/config.go\<close>, \<open>cmd/main.go\<close> and \<open>configmap/config.go\<close> below it, and the older \<open>src/pkg/githubwebhookdeliveryforwarder/cmd/main.go\<close>) and of the goroutines of \<open>MultiForwarder.Run\<close>. The way the
  processes end is in theory \<open>Shutdown\<close>. The parsing of rules is the parameter \<open>unmarshal\<close>, and the manager's answer and the config map are parameters as well.
\<close>

subsection \<open>Start\<close>

text \<open>\<open>newZapLogger\<close>: whether it is a development logger, and its level. An unknown level leaves zap's defaults.\<close>

definition newZapLogger :: "string \<Rightarrow> bool \<times> int option" where
  "newZapLogger logLevel =
     (if logLevel = ''debug'' then (True, None)
      else if logLevel = ''info'' then (False, Some 0)
      else if logLevel = ''warn'' then (False, Some 1)
      else if logLevel = ''error'' then (False, Some 2)
      else (False, None))"

definition StringSlice_Set :: "string list \<Rightarrow> string \<Rightarrow> string list" where
  "StringSlice_Set s value = s @ [value]"

record ForwarderConfig =
  fc_Rules :: "string list"
  fc_MetricsAddr :: string
  fc_GitHubConfig :: GitHubConfig
  fc_Checkpointer :: "Checkpointer option"

text \<open>The flags' defaults: the values of the environment, as far as they could be read; a failure to read them is only printed. The flags may replace the credentials.\<close>

definition ForwarderConfig_InitFlags :: "GitHubConfig \<Rightarrow> ForwarderConfig" where
  "ForwarderConfig_InitFlags env = \<lparr>fc_Rules = [], fc_MetricsAddr = '':8000'', fc_GitHubConfig = env, fc_Checkpointer = None\<rparr>"

record MultiForwarder =
  mw_client :: GhClient
  mw_Rules :: "Rule list"
  mw_Checkpointer :: Checkpointer

text \<open>\<open>Run\<close> up to its goroutines: the status with which the program exits, or the forwarder.\<close>

definition Run_start :: "ClientLibs \<Rightarrow> (string \<Rightarrow> RuleConfig go) \<Rightarrow> time \<Rightarrow> ForwarderConfig \<Rightarrow> (int + MultiForwarder) go" where
  "Run_start lib unmarshal now config =
     (case NewClient lib (fc_GitHubConfig config) of
        Err e \<Rightarrow> Ret (Inl 1)
      | Panic s \<Rightarrow> Panic s
      | Hang \<Rightarrow> Hang
      | Ret ghClient \<Rightarrow>
          (case New_MultiForwarder unmarshal (fc_Rules config) [] of
             Err e \<Rightarrow> Ret (Inl 1)
           | Panic s \<Rightarrow> Panic s
           | Hang \<Rightarrow> Hang
           | Ret rules \<Rightarrow>
               Ret (Inr \<lparr>mw_client = ghClient, mw_Rules = rules,
                 mw_Checkpointer = (case fc_Checkpointer config of None \<Rightarrow> NewInMemoryLogPositionProvider now | Some cp \<Rightarrow> cp)\<rparr>)))"

record ConfigMapConfig =
  cc_Name :: string
  cc_Namespace :: string

definition ConfigMapConfig_InitFlags :: ConfigMapConfig where
  "ConfigMapConfig_InitFlags = \<lparr>cc_Name = ''gh-webhook-forwarder'', cc_Namespace = ''default''\<rparr>"

text \<open>\<open>configmap.New\<close>: \<open>mgr\<close> is the answer of \<open>ctrl.NewManager\<close>, and \<open>getMap\<close> the config map of a name and a namespace as its client reads it.\<close>

definition configmap_New ::
  "unit go \<Rightarrow> forwardCall api \<Rightarrow> (string \<Rightarrow> string \<Rightarrow> forwardCall list \<Rightarrow> cmData go) \<Rightarrow> time \<Rightarrow> ConfigMapConfig \<Rightarrow> Checkpointer go" where
  "configmap_New mgr api getMap now config =
     go_bind (orErrorf ''unable to start manager'' mgr) (\<lambda>_. Ret (ConfigMapCheckpointer api (getMap (cc_Namespace config) (cc_Name config)) now))"

definition forwarder_main ::
  "ClientLibs \<Rightarrow> (string \<Rightarrow> RuleConfig go) \<Rightarrow> unit go \<Rightarrow> forwardCall api \<Rightarrow> (string \<Rightarrow> string \<Rightarrow> forwardCall list \<Rightarrow> cmData go) \<Rightarrow> time \<Rightarrow>
     ConfigMapConfig \<Rightarrow> ForwarderConfig \<Rightarrow> (int + MultiForwarder) go" where
  "forwarder_main lib unmarshal mgr api getMap now checkpointerConfig config =
     (case configmap_New mgr api getMap now checkpointerConfig of
        Err e \<Rightarrow> Ret (Inl 1)
      | Panic s \<Rightarrow> Panic s
      | Hang \<Rightarrow> Hang
      | Ret p \<Rightarrow> Run_start lib unmarshal now (config\<lparr>fc_Checkpointer := Some p\<rparr>))"

text \<open>The older forwarder has one repository and one target.\<close>

definition older_main :: "ClientLibs \<Rightarrow> GitHubConfig \<Rightarrow> string \<Rightarrow> string \<Rightarrow> (int + GhClient \<times> string \<times> string) go" where
  "older_main lib c repo target =
     (case NewClient lib c of
        Err e \<Rightarrow> Ret (Inl 1)
      | Panic s \<Rightarrow> Panic s
      | Hang \<Rightarrow> Hang
      | Ret ghClient \<Rightarrow> Ret (Inr (ghClient, target, repo)))"

subsection \<open>The goroutines of MultiForwarder.Run\<close>

text \<open>
  A goroutine runs the forwarder of a rule, then sends its error to the channel \<open>errs\<close>, whose capacity is the number of rules, and then releases the wait group. \<open>Run\<close> waits for the group and then takes an error from the channel, if there is one. \<open>ended i e\<close> says that the forwarder of rule \<open>i\<close> may
  end with the error \<open>e\<close>; a forwarder never ends without one. \<open>mu_Returned\<close> is what \<open>Run\<close> has returned.
\<close>

datatype sender = Forwarding | Reported | Finished

record MultiRun =
  mu_Senders :: "sender list"
  mu_Errs :: "goerr list"
  mu_Returned :: "goerr option option"

definition startMulti :: "nat \<Rightarrow> MultiRun" where
  "startMulti n = \<lparr>mu_Senders = replicate n Forwarding, mu_Errs = [], mu_Returned = None\<rparr>"

definition ruleEnds :: "sortSlice \<Rightarrow> GitHubHooks \<Rightarrow> string \<Rightarrow> Checkpointer \<Rightarrow> Rule list \<Rightarrow> forwardCall api \<Rightarrow> nat \<Rightarrow> goerr \<Rightarrow> bool" where
  "ruleEnds srt gh secret cp rules api i e \<longleftrightarrow>
     (\<exists>polls l. snd (MultiForwarder_run srt gh secret cp (rules ! i) polls api l) \<in> {Ret (Failed e), Ret (PersistentError e)})"

inductive MultiForwarder_Run :: "(nat \<Rightarrow> goerr \<Rightarrow> bool) \<Rightarrow> MultiRun \<Rightarrow> MultiRun \<Rightarrow> bool" for ended where
  send: "i < length (mu_Senders s) \<Longrightarrow> mu_Senders s ! i = Forwarding \<Longrightarrow> ended i e \<Longrightarrow> length (mu_Errs s) < length (mu_Senders s) \<Longrightarrow>
    MultiForwarder_Run ended s (s\<lparr>mu_Senders := (mu_Senders s)[i := Reported], mu_Errs := mu_Errs s @ [e]\<rparr>)"
| finish: "i < length (mu_Senders s) \<Longrightarrow> mu_Senders s ! i = Reported \<Longrightarrow>
    MultiForwarder_Run ended s (s\<lparr>mu_Senders := (mu_Senders s)[i := Finished]\<rparr>)"
| return: "mu_Returned s = None \<Longrightarrow> (\<forall>i < length (mu_Senders s). mu_Senders s ! i = Finished) \<Longrightarrow>
    MultiForwarder_Run ended s (s\<lparr>mu_Returned := Some (case mu_Errs s of [] \<Rightarrow> None | e # _ \<Rightarrow> Some e), mu_Errs := tl (mu_Errs s)\<rparr>)"

text \<open>The invariant: before \<open>Run\<close> returns the channel holds one error for each forwarder that has ended; afterwards all have.\<close>

definition sent :: "MultiRun \<Rightarrow> nat" where "sent s = length (filter (\<lambda>g. g \<noteq> Forwarding) (mu_Senders s))"

definition multiInv :: "(nat \<Rightarrow> goerr \<Rightarrow> bool) \<Rightarrow> nat \<Rightarrow> MultiRun \<Rightarrow> bool" where
  "multiInv ended n s \<longleftrightarrow> length (mu_Senders s) = n \<and> (\<forall>e \<in> set (mu_Errs s). \<exists>i < n. ended i e) \<and>
     (case mu_Returned s of
        None \<Rightarrow> length (mu_Errs s) = sent s
      | Some r \<Rightarrow> (\<forall>i < n. mu_Senders s ! i = Finished) \<and> (case r of None \<Rightarrow> n = 0 | Some e \<Rightarrow> \<exists>i < n. ended i e))"

lemma filter_update: "i < length xs \<Longrightarrow> \<not> P (xs ! i) \<Longrightarrow> P y \<Longrightarrow> length (filter P (xs[i := y])) = Suc (length (filter P xs))"
  by (induction xs arbitrary: i) (auto split: nat.split simp: nth_Cons)

lemma filter_update_same: "i < length xs \<Longrightarrow> P (xs ! i) \<Longrightarrow> P y \<Longrightarrow> length (filter P (xs[i := y])) = length (filter P xs)"
  by (induction xs arbitrary: i) (auto split: nat.split simp: nth_Cons)

lemma sent_room:
  assumes "i < length (mu_Senders s)" and "mu_Senders s ! i = Forwarding"
  shows "sent s < length (mu_Senders s)"
  using assms nth_mem [OF assms(1)] length_filter_less [of "mu_Senders s ! i" "mu_Senders s" "\<lambda>g. g \<noteq> Forwarding"] by (simp add: sent_def)

lemma multiInv_start: "multiInv ended n (startMulti n)"
  by (simp add: multiInv_def startMulti_def sent_def)

lemma multiInv_step:
  assumes "MultiForwarder_Run ended s s'" and "multiInv ended n s"
  shows "multiInv ended n s'"
  using assms
proof (induction rule: MultiForwarder_Run.induct)
  case (send i s e)
  then show ?case by (auto simp: multiInv_def sent_def filter_update split: option.splits)
next
  case (finish i s)
  then show ?case by (auto simp: multiInv_def sent_def filter_update_same nth_list_update split: option.splits)
next
  case (return s)
  then have "sent s = n" by (auto simp: multiInv_def sent_def in_set_conv_nth intro!: arg_cong [of _ _ length] filter_True)
  with return show ?case by (cases "mu_Errs s") (auto simp: multiInv_def split: option.splits)
qed

lemma multiInv_reachable: "(MultiForwarder_Run ended)\<^sup>*\<^sup>* (startMulti n) s \<Longrightarrow> multiInv ended n s"
  by (induction rule: rtranclp_induct) (auto intro: multiInv_start multiInv_step)

lemma multi_progress:
  assumes "multiInv ended n s" and "mu_Returned s = None" and "\<forall>i < n. mu_Senders s ! i = Forwarding \<longrightarrow> (\<exists>e. ended i e)"
  shows "\<exists>s'. MultiForwarder_Run ended s s'"
proof (cases "\<forall>i < length (mu_Senders s). mu_Senders s ! i = Finished")
  case True
  with assms(2) show ?thesis by (blast intro: MultiForwarder_Run.return)
next
  case False
  then obtain i where i: "i < length (mu_Senders s)" "mu_Senders s ! i \<noteq> Finished" by blast
  then consider "mu_Senders s ! i = Forwarding" | "mu_Senders s ! i = Reported" by (cases "mu_Senders s ! i") auto
  then show ?thesis
  proof cases
    case 1
    with i assms obtain e where "ended i e" by (auto simp: multiInv_def)
    moreover have "length (mu_Errs s) < length (mu_Senders s)" using sent_room [OF i(1) 1] assms(1,2) by (simp add: multiInv_def)
    ultimately show ?thesis using i(1) 1 by (blast intro: MultiForwarder_Run.send)
  qed (use i in \<open>blast intro: MultiForwarder_Run.finish\<close>)
qed

text \<open>
  C35. \<open>MultiForwarder.Run\<close>, in every interleaving of its forwarders: a forwarder that ends always finds room for its error in the channel; \<open>Run\<close> returns only when the forwarders of all rules have ended, and then with an error of one of them, or with none if there are no rules; so as long as one
  forwarder is polling, nothing is reported of the others, whatever they ended with. And it does not get stuck: while it has not returned and every forwarder that still runs can end, some goroutine has a step to take.
\<close>

theorem multi_forwarder_waits:
  assumes "(MultiForwarder_Run (ruleEnds srt gh secret cp rules api))\<^sup>*\<^sup>* (startMulti (length rules)) s"
  shows "(\<forall>i < length rules. mu_Senders s ! i = Forwarding \<longrightarrow> length (mu_Errs s) < length rules \<and> mu_Returned s = None) \<and>
    (\<forall>r. mu_Returned s = Some r \<longrightarrow> (case r of None \<Rightarrow> rules = [] | Some e \<Rightarrow> \<exists>i < length rules. ruleEnds srt gh secret cp rules api i e)) \<and>
    (mu_Returned s = None \<longrightarrow> (\<forall>i < length rules. mu_Senders s ! i = Forwarding \<longrightarrow> (\<exists>e. ruleEnds srt gh secret cp rules api i e)) \<longrightarrow>
      (\<exists>s'. MultiForwarder_Run (ruleEnds srt gh secret cp rules api) s s'))"
proof -
  note inv = multiInv_reachable [OF assms]
  have "mu_Returned s = None \<and> length (mu_Errs s) < length rules" if "i < length rules" "mu_Senders s ! i = Forwarding" for i
    using inv that sent_room [of i s] by (auto simp: multiInv_def split: option.splits)
  moreover have "case r of None \<Rightarrow> rules = [] | Some e \<Rightarrow> \<exists>i < length rules. ruleEnds srt gh secret cp rules api i e" if "mu_Returned s = Some r" for r
    using inv that by (auto simp: multiInv_def split: option.splits)
  ultimately show ?thesis using multi_progress [OF inv] by blast
qed

definition exampleRule :: Rule where
  "exampleRule = \<lparr>rl_Repo = ''org'', rl_Target = ''http://localhost'', rl_Hook = \<lparr>hk_ID = 0, hk_Config = [], hk_Events = [], hk_Active = None\<rparr>\<rparr>"

definition unreachableHooks :: GitHubHooks where
  "unreachableHooks = exampleHooks\<lparr>ghk_OrgListHooks := \<lambda>org. Err (GitHubErr ''down'')\<rparr>"

lemma example_rule_ends: "ruleEnds srt unreachableHooks secret cp [exampleRule] api 0 (GitHubErr ''down'')"
  unfolding ruleEnds_def
  by (intro exI [of _ "[]"]) (simp add: MultiForwarder_run_def Run_Forwarder_def ownerAndRepo_def exampleRule_def unreachableHooks_def newHooksAPI_def selectHook_def go_simps)

theorem multi_forwarder_waits_witness:
  "\<exists>s. (MultiForwarder_Run (ruleEnds (sort_key hd_DeliveredAt) unreachableHooks [] (NewInMemoryLogPositionProvider 0) [exampleRule] acceptAll))\<^sup>*\<^sup>* (startMulti 1) s \<and>
     mu_Returned s = Some (Some (GitHubErr ''down'')) \<and> (\<exists>i < 1. ruleEnds (sort_key hd_DeliveredAt) unreachableHooks [] (NewInMemoryLogPositionProvider 0) [exampleRule] acceptAll i (GitHubErr ''down''))"
proof -
  let ?ended = "ruleEnds (sort_key hd_DeliveredAt) unreachableHooks [] (NewInMemoryLogPositionProvider 0) [exampleRule] acceptAll" and ?e = "GitHubErr ''down''"
  let ?s1 = "\<lparr>mu_Senders = [Reported], mu_Errs = [?e], mu_Returned = None\<rparr>" and ?s2 = "\<lparr>mu_Senders = [Finished], mu_Errs = [?e], mu_Returned = None\<rparr>"
  let ?s3 = "\<lparr>mu_Senders = [Finished], mu_Errs = [], mu_Returned = Some (Some ?e)\<rparr>"
  have a: "MultiForwarder_Run ?ended (startMulti 1) ?s1"
    using MultiForwarder_Run.send [of 0 "startMulti 1" ?ended ?e] example_rule_ends by (simp add: startMulti_def)
  have b: "MultiForwarder_Run ?ended ?s1 ?s2" using MultiForwarder_Run.finish [of 0 ?s1 ?ended] by simp
  have c: "MultiForwarder_Run ?ended ?s2 ?s3" using MultiForwarder_Run.return [of ?s2 ?ended] by simp
  have r: "(MultiForwarder_Run ?ended)\<^sup>*\<^sup>* (startMulti 1) ?s3"
    using rtranclp.rtrancl_into_rtrancl [OF rtranclp.rtrancl_into_rtrancl [OF r_into_rtranclp [where r = "MultiForwarder_Run ?ended"]]] a b c by blast
  with multi_forwarder_waits [of "sort_key hd_DeliveredAt" unreachableHooks "[]" "NewInMemoryLogPositionProvider 0" "[exampleRule]" acceptAll ?s3] show ?thesis by auto
qed

subsection \<open>What a started forwarder has\<close>

text \<open>
  A forwarder that starts keeps its positions in the config map of the flags, not in memory, and has a target for every one of its rules, which are the sources of the parsed rules in order; a rule that does not parse or lacks a source or a target ends the program with status 1.
\<close>

theorem forwarder_starts:
  assumes "forwarder_main lib unmarshal (Ret ()) api getMap now cc config = Ret (Inr fwd)"
  shows "mw_Checkpointer fwd = ConfigMapCheckpointer api (getMap (cc_Namespace cc) (cc_Name cc)) now \<and> NewClient lib (fc_GitHubConfig config) = Ret (mw_client fwd) \<and>
    (\<exists>configs. list_all2 (\<lambda>r c. unmarshal r = Ret c \<and> rc_Repo c \<noteq> [] \<and> rc_Target c \<noteq> []) (fc_Rules config) configs \<and>
      map (\<lambda>r. (rl_Repo r, rl_Target r)) (mw_Rules fwd) = concat (map (\<lambda>c. map (\<lambda>repo. (repo, rc_Target c)) (rc_Repo c)) configs))"
proof -
  from assms obtain rules where r: "New_MultiForwarder unmarshal (fc_Rules config) [] = Ret rules" "mw_Rules fwd = rules"
      and "mw_Checkpointer fwd = ConfigMapCheckpointer api (getMap (cc_Namespace cc) (cc_Name cc)) now" "NewClient lib (fc_GitHubConfig config) = Ret (mw_client fwd)"
    by (auto simp: forwarder_main_def configmap_New_def orErrorf_def Run_start_def split: go.splits)
  then show ?thesis using rules_expanded [of unmarshal "fc_Rules config" rules] by (auto simp: map_concat comp_def)
qed

end
