(* ===== verification/Shutdown.thy ===== *)
theory Shutdown
  imports Arc_Prelude
begin

section \<open>How the server programs end\<close>

text \<open>
  Model of the goroutines of three programs that have the same shape: the webhook server (\<open>src/cmd/githubwebhookserver/main.go\<close>), the webhook delivery forwarder (\<open>Run\<close> in \<open>src/pkg/hookdeliveryforwarder/config.go\<close>) and the older forwarder
  (\<open>src/pkg/githubwebhookdeliveryforwarder/cmd/main.go\<close>). One goroutine runs the worker (the manager, or the forwarder), one the HTTP server; when one of them returns it releases the wait group and then cancels the shared context, and a third goroutine shuts the HTTP server down when
  the context is cancelled. \<open>main\<close> waits for the wait group. The signal handler cancels on the first signal and exits on the second.

  The state says where each goroutine is; a step is one action of one goroutine, in any order. An error of the worker ends the webhook server with status 1 and is only printed by the forwarders; the newer forwarder has a manager for its checkpoints besides, started by \<open>main\<close>, whose error ends
  the process with status 1.
\<close>

text \<open>A goroutine with \<open>defer cancel(); defer wg.Done()\<close>: the deferred calls run last in first out.\<close>

datatype goroutine = Working | Released | Ended

datatype program = WebhookServer | HookDeliveryForwarder | OlderForwarder

record Process =
  pr_Worker :: goroutine
  pr_Server :: goroutine
  pr_InFlight :: nat \<comment> \<open>requests being handled\<close>
  pr_ShutdownCalled :: bool
  pr_Cancelled :: bool
  pr_Signals :: nat
  pr_Exit :: "int option"

definition started :: Process where
  "started = \<lparr>pr_Worker = Working, pr_Server = Working, pr_InFlight = 0, pr_ShutdownCalled = False, pr_Cancelled = False, pr_Signals = 0, pr_Exit = None\<rparr>"

text \<open>What the handler of \<open>SetupSignalHandler\<close> has done after \<open>n\<close> signals: whether it has cancelled its context, and the status it exits with.\<close>

definition SetupSignalHandler :: "nat \<Rightarrow> bool \<times> int option" where
  "SetupSignalHandler n = (n \<ge> 1, if n \<ge> 2 then Some 1 else None)"

text \<open>The actions of the program in good order, its failures, and the actions of the outside world (requests and signals).\<close>

inductive act :: "program \<Rightarrow> Process \<Rightarrow> Process \<Rightarrow> bool" for prog where
  worker_stops: "pr_Exit s = None \<Longrightarrow> pr_Worker s = Working \<Longrightarrow> pr_Cancelled s \<Longrightarrow> act prog s (s\<lparr>pr_Worker := Released\<rparr>)"
| worker_cancels: "pr_Exit s = None \<Longrightarrow> pr_Worker s = Released \<Longrightarrow> act prog s (s\<lparr>pr_Worker := Ended, pr_Cancelled := True\<rparr>)"
| server_closed: "pr_Exit s = None \<Longrightarrow> pr_Server s = Working \<Longrightarrow> pr_ShutdownCalled s \<Longrightarrow> act prog s (s\<lparr>pr_Server := Released\<rparr>)"
| server_cancels: "pr_Exit s = None \<Longrightarrow> pr_Server s = Released \<Longrightarrow> act prog s (s\<lparr>pr_Server := Ended, pr_Cancelled := True\<rparr>)"
| shutdown: "pr_Exit s = None \<Longrightarrow> pr_Cancelled s \<Longrightarrow> \<not> pr_ShutdownCalled s \<Longrightarrow> act prog s (s\<lparr>pr_ShutdownCalled := True\<rparr>)"
| signal_cancels: "pr_Exit s = None \<Longrightarrow> fst (SetupSignalHandler (pr_Signals s)) \<Longrightarrow> \<not> pr_Cancelled s \<Longrightarrow> act prog s (s\<lparr>pr_Cancelled := True\<rparr>)"
| signal_exits: "pr_Exit s = None \<Longrightarrow> snd (SetupSignalHandler (pr_Signals s)) = Some c \<Longrightarrow> act prog s (s\<lparr>pr_Exit := Some c\<rparr>)"
| main_returns: "pr_Exit s = None \<Longrightarrow> pr_Worker s \<noteq> Working \<Longrightarrow> pr_Server s \<noteq> Working \<Longrightarrow> act prog s (s\<lparr>pr_Exit := Some 0\<rparr>)"

inductive fails :: "program \<Rightarrow> Process \<Rightarrow> Process \<Rightarrow> bool" for prog where
  worker_fails: "pr_Exit s = None \<Longrightarrow> pr_Worker s = Working \<Longrightarrow>
    fails prog s (if prog = WebhookServer then s\<lparr>pr_Exit := Some 1\<rparr> else s\<lparr>pr_Worker := Released\<rparr>)"
| manager_fails: "pr_Exit s = None \<Longrightarrow> prog = HookDeliveryForwarder \<Longrightarrow> fails prog s (s\<lparr>pr_Exit := Some 1\<rparr>)"
| server_fails: "pr_Exit s = None \<Longrightarrow> pr_Server s = Working \<Longrightarrow> fails prog s (s\<lparr>pr_Server := Released\<rparr>)"

inductive outside :: "Process \<Rightarrow> Process \<Rightarrow> bool" where
  request: "pr_Exit s = None \<Longrightarrow> pr_Server s = Working \<Longrightarrow> \<not> pr_ShutdownCalled s \<Longrightarrow> outside s (s\<lparr>pr_InFlight := Suc (pr_InFlight s)\<rparr>)"
| answered: "pr_Exit s = None \<Longrightarrow> pr_InFlight s > 0 \<Longrightarrow> outside s (s\<lparr>pr_InFlight := pr_InFlight s - 1\<rparr>)"
| signal: "pr_Exit s = None \<Longrightarrow> outside s (s\<lparr>pr_Signals := Suc (pr_Signals s)\<rparr>)"

text \<open>The three programs.\<close>

definition webhookServer :: "Process \<Rightarrow> Process \<Rightarrow> bool" where
  "webhookServer s s' \<longleftrightarrow> act WebhookServer s s' \<or> fails WebhookServer s s'"

definition hookDeliveryForwarder :: "Process \<Rightarrow> Process \<Rightarrow> bool" where
  "hookDeliveryForwarder s s' \<longleftrightarrow> act HookDeliveryForwarder s s' \<or> fails HookDeliveryForwarder s s'"

definition olderForwarder :: "Process \<Rightarrow> Process \<Rightarrow> bool" where
  "olderForwarder s s' \<longleftrightarrow> act OlderForwarder s s' \<or> fails OlderForwarder s s'"

lemmas programs = webhookServer_def hookDeliveryForwarder_def olderForwarder_def

fun programStep :: "program \<Rightarrow> Process \<Rightarrow> Process \<Rightarrow> bool" where
  "programStep WebhookServer = webhookServer"
| "programStep HookDeliveryForwarder = hookDeliveryForwarder"
| "programStep OlderForwarder = olderForwarder"

lemma programStep_iff: "programStep prog s s' \<longleftrightarrow> act prog s s' \<or> fails prog s s'"
  by (cases prog) (simp_all add: programs)

definition runs :: "program \<Rightarrow> Process \<Rightarrow> bool" where
  "runs prog s \<longleftrightarrow> (\<lambda>s s'. programStep prog s s' \<or> outside s s')\<^sup>*\<^sup>* started s"

lemma runs_act: "runs prog s \<Longrightarrow> act prog s s' \<Longrightarrow> runs prog s'"
  unfolding runs_def programStep_iff by (blast intro: rtranclp.rtrancl_into_rtrancl)

lemma runs_fails: "runs prog s \<Longrightarrow> fails prog s s' \<Longrightarrow> runs prog s'"
  unfolding runs_def programStep_iff by (blast intro: rtranclp.rtrancl_into_rtrancl)

lemma runs_outside: "runs prog s \<Longrightarrow> outside s s' \<Longrightarrow> runs prog s'"
  unfolding runs_def by (blast intro: rtranclp.rtrancl_into_rtrancl)

lemma runs_started: "runs prog started"
  by (simp add: runs_def)

lemma runs_induct [consumes 1, case_names start act fails outside]:
  assumes "runs prog s" and "P started" and "\<And>s s'. P s \<Longrightarrow> act prog s s' \<Longrightarrow> P s'"
    and "\<And>s s'. P s \<Longrightarrow> fails prog s s' \<Longrightarrow> P s'" and "\<And>s s'. P s \<Longrightarrow> outside s s' \<Longrightarrow> P s'"
  shows "P s"
  using assms(1) unfolding runs_def
proof (induction rule: rtranclp_induct)
  case (step s s')
  then show ?case using assms(3-5) unfolding programStep_iff by blast
qed (rule assms(2))

subsection \<open>Shutting down\<close>

text \<open>A goroutine that has ended has cancelled the context before.\<close>

definition cancelledByEnd :: "Process \<Rightarrow> bool" where
  "cancelledByEnd s \<longleftrightarrow> (pr_Worker s = Ended \<or> pr_Server s = Ended \<longrightarrow> pr_Cancelled s)"

lemma act_cancelledByEnd: "act prog s s' \<Longrightarrow> cancelledByEnd s \<Longrightarrow> cancelledByEnd s'"
  by (induction rule: act.induct) (auto simp: cancelledByEnd_def)

lemma fails_cancelledByEnd: "fails prog s s' \<Longrightarrow> cancelledByEnd s \<Longrightarrow> cancelledByEnd s'"
  by (induction rule: fails.induct) (auto simp: cancelledByEnd_def)

lemma runs_cancelledByEnd: "runs prog s \<Longrightarrow> cancelledByEnd s"
proof (induction rule: runs_induct)
  case (outside s s')
  from outside(2,1) show ?case by (induction rule: outside.induct) (auto simp: cancelledByEnd_def)
qed (simp_all add: act_cancelledByEnd fails_cancelledByEnd, simp add: cancelledByEnd_def started_def)

text \<open>Something has gone: the context is cancelled, a goroutine has returned, or a signal has come.\<close>

definition goingDown :: "Process \<Rightarrow> bool" where
  "goingDown s \<longleftrightarrow> pr_Cancelled s \<or> pr_Worker s \<noteq> Working \<or> pr_Server s \<noteq> Working \<or> pr_Signals s > 0"

text \<open>Then the program has something to do in good order as long as it has not ended: a goroutine that has returned cancels, the signal handler cancels, and with the context cancelled the worker stops and the server is shut down, until nothing is left to wait for.\<close>

lemma goingDown_progress:
  assumes "goingDown s" and "cancelledByEnd s" and run: "pr_Exit s = None"
  shows "\<exists>s'. act prog s s'"
proof (cases "pr_Cancelled s")
  case True
  consider "pr_Worker s = Working" | "pr_Server s = Working" | "pr_Worker s \<noteq> Working" "pr_Server s \<noteq> Working" by blast
  then show ?thesis
    using worker_stops [OF run _ True] server_closed [OF run] shutdown [OF run True] main_returns [OF run] by cases blast+
next
  case False
  with assms(2) have "pr_Worker s \<noteq> Ended" "pr_Server s \<noteq> Ended" by (auto simp: cancelledByEnd_def)
  with False assms(1) consider "pr_Worker s = Released" | "pr_Server s = Released" | "pr_Signals s > 0"
    by (cases "pr_Worker s"; cases "pr_Server s") (auto simp: goingDown_def)
  then show ?thesis
  proof cases
    case 3
    then have "fst (SetupSignalHandler (pr_Signals s))" by (simp add: SetupSignalHandler_def)
    with signal_cancels [OF run _ False] show ?thesis by blast
  qed (use worker_cancels [OF run] server_cancels [OF run] in blast)+
qed

text \<open>Each action and each failure of the program uses up one of a bounded number of things left to do.\<close>

fun left :: "goroutine \<Rightarrow> nat" where "left Working = 2" | "left Released = 1" | "left Ended = 0"

definition todo :: "Process \<Rightarrow> nat" where
  "todo s = left (pr_Worker s) + left (pr_Server s) + (if pr_ShutdownCalled s then 0 else 1) + (if pr_Cancelled s then 0 else 1) + (if pr_Exit s = None then 1 else 0)"

lemma todo_bound: "todo s \<le> 7"
proof -
  have "left g \<le> 2" for g by (cases g) simp_all
  from this [of "pr_Worker s"] this [of "pr_Server s"] show ?thesis by (simp add: todo_def)
qed

lemma programStep_decreases:
  assumes "programStep prog s s'"
  shows "todo s' < todo s"
proof -
  have "act prog s s' \<Longrightarrow> todo s' < todo s" by (induction rule: act.induct) (auto simp: todo_def)
  moreover have "fails prog s s' \<Longrightarrow> todo s' < todo s" by (induction rule: fails.induct) (auto simp: todo_def)
  ultimately show ?thesis using assms by (auto simp: programStep_iff)
qed

lemma act_goingDown: "act prog s s' \<Longrightarrow> goingDown s \<Longrightarrow> goingDown s'"
  by (induction rule: act.induct) (auto simp: goingDown_def)

lemma fails_goingDown: "fails prog s s' \<Longrightarrow> goingDown s \<Longrightarrow> goingDown s'"
  by (induction rule: fails.induct) (auto simp: goingDown_def)

lemma programSteps_goingDown:
  assumes "goingDown s" and "cancelledByEnd s" and "(programStep prog ^^ k) s s'"
  shows "goingDown s' \<and> cancelledByEnd s' \<and> k + todo s' \<le> todo s"
  using assms(3)
proof (induction k arbitrary: s')
  case (Suc k)
  then obtain t where t: "(programStep prog ^^ k) s t" "programStep prog t s'" by auto
  have "goingDown t" "cancelledByEnd t" "k + todo t \<le> todo s" using Suc.IH [OF t(1)] by simp_all
  moreover from t(2) have "act prog t s' \<or> fails prog t s'" by (simp add: programStep_iff)
  ultimately show ?case using programStep_decreases [OF t(2)] act_goingDown fails_goingDown act_cancelledByEnd fails_cancelledByEnd by fastforce
qed (use assms(1,2) in simp)

lemma act_programStep: "(act prog ^^ k) s s' \<Longrightarrow> (programStep prog ^^ k) s s'"
  by (rule relpowp_mono) (simp_all add: programStep_iff)

text \<open>In good order and with at most one signal, the only way out is the end of \<open>main\<close>.\<close>

lemma orderly_exit:
  assumes "(act prog ^^ k) s s'" and "pr_Exit s = None" and "pr_Signals s \<le> 1"
  shows "pr_Signals s' = pr_Signals s \<and> pr_Exit s' \<in> {None, Some 0}"
  using assms(1)
proof (induction k arbitrary: s')
  case (Suc k)
  then obtain t where "(act prog ^^ k) s t" and "act prog t s'" by auto
  from this(2) Suc.IH [OF this(1)] assms(3) show ?case by (induction rule: act.induct) (auto simp: SetupSignalHandler_def)
qed (use assms(2) in simp)



subsection \<open>What the exit status says\<close>

text \<open>Status 0 means that both goroutines have returned; status 1 comes from an error of the manager of the webhook server or of the newer forwarder, or from a second signal.\<close>

definition exitOk :: "program \<Rightarrow> Process \<Rightarrow> bool" where
  "exitOk prog s \<longleftrightarrow> (pr_Exit s = Some 0 \<longrightarrow> pr_Worker s \<noteq> Working \<and> pr_Server s \<noteq> Working) \<and>
     (pr_Exit s = Some 1 \<longrightarrow> prog \<noteq> OlderForwarder \<or> pr_Signals s > 1) \<and> pr_Exit s \<in> {None, Some 0, Some 1}"

theorem exit_status:
  "runs prog s \<Longrightarrow> exitOk prog s"
proof (induction rule: runs_induct)
  case (act s s')
  from act(2,1) show ?case by (induction rule: act.induct) (auto simp: exitOk_def SetupSignalHandler_def split: if_splits)
next
  case (fails s s')
  from fails(2,1) show ?case by (induction rule: fails.induct) (auto simp: exitOk_def)
next
  case (outside s s')
  from outside(2,1) show ?case by (induction rule: outside.induct) (auto simp: exitOk_def)
qed (simp add: exitOk_def started_def)

text \<open>
  The exit status and the requests: the webhook server may end with status 0 although its HTTP server failed (an address in use is only logged, and everything else is shut down in good order), and it may end while requests are being handled, because \<open>ListenAndServe\<close> returns as
  soon as \<open>Shutdown\<close> is called and nothing waits for \<open>Shutdown\<close> to have drained them.
\<close>

theorem exit_zero_hides_failure:
  "(\<exists>s. runs WebhookServer s \<and> pr_Exit s = Some 0 \<and> pr_Signals s = 0 \<and> \<not> pr_ShutdownCalled s) \<and> (\<exists>s. runs WebhookServer s \<and> pr_Exit s = Some 0 \<and> pr_InFlight s > 0)"
proof
  let ?s1 = "started\<lparr>pr_Server := Released\<rparr>" and ?s2 = "started\<lparr>pr_Server := Ended, pr_Cancelled := True\<rparr>"
  let ?s3 = "started\<lparr>pr_Server := Ended, pr_Cancelled := True, pr_Worker := Released\<rparr>"
  have "runs WebhookServer ?s1" using runs_fails [OF runs_started fails.server_fails] by (simp add: started_def)
  then have "runs WebhookServer ?s2" using runs_act [OF _ act.server_cancels, where s = ?s1] by (simp add: started_def)
  then have "runs WebhookServer ?s3" using runs_act [OF _ act.worker_stops, where s = ?s2] by (simp add: started_def)
  then have "runs WebhookServer (?s3\<lparr>pr_Exit := Some 0\<rparr>)" using runs_act [OF _ act.main_returns, where s = ?s3] by (simp add: started_def)
  then show "\<exists>s. runs WebhookServer s \<and> pr_Exit s = Some 0 \<and> pr_Signals s = 0 \<and> \<not> pr_ShutdownCalled s"
    by (intro exI [of _ "?s3\<lparr>pr_Exit := Some 0\<rparr>"] conjI) (simp_all add: started_def)
next
  let ?s1 = "started\<lparr>pr_InFlight := 1\<rparr>" and ?s2 = "started\<lparr>pr_InFlight := 1, pr_Signals := 1\<rparr>"
  let ?s3 = "started\<lparr>pr_InFlight := 1, pr_Signals := 1, pr_Cancelled := True\<rparr>" and ?s4 = "started\<lparr>pr_InFlight := 1, pr_Signals := 1, pr_Cancelled := True, pr_ShutdownCalled := True\<rparr>"
  let ?s5 = "started\<lparr>pr_InFlight := 1, pr_Signals := 1, pr_Cancelled := True, pr_ShutdownCalled := True, pr_Server := Released\<rparr>"
  let ?s6 = "started\<lparr>pr_InFlight := 1, pr_Signals := 1, pr_Cancelled := True, pr_ShutdownCalled := True, pr_Server := Released, pr_Worker := Released\<rparr>"
  have "runs WebhookServer ?s1" using runs_outside [OF runs_started outside.request] by (simp add: started_def)
  then have "runs WebhookServer ?s2" using runs_outside [OF _ outside.signal, where s = ?s1] by (simp add: started_def)
  then have "runs WebhookServer ?s3" using runs_act [OF _ act.signal_cancels, where s = ?s2] by (simp add: started_def SetupSignalHandler_def)
  then have "runs WebhookServer ?s4" using runs_act [OF _ act.shutdown, where s = ?s3] by (simp add: started_def)
  then have "runs WebhookServer ?s5" using runs_act [OF _ act.server_closed, where s = ?s4] by (simp add: started_def)
  then have "runs WebhookServer ?s6" using runs_act [OF _ act.worker_stops, where s = ?s5] by (simp add: started_def)
  then have "runs WebhookServer (?s6\<lparr>pr_Exit := Some 0\<rparr>)" using runs_act [OF _ act.main_returns, where s = ?s6] by (simp add: started_def)
  then show "\<exists>s. runs WebhookServer s \<and> pr_Exit s = Some 0 \<and> pr_InFlight s > 0"
    by (intro exI [of _ "?s6\<lparr>pr_Exit := Some 0\<rparr>"] conjI) (simp_all add: started_def)
qed

end
