(* ===== verification/Controller_Setup.thy ===== *)
theory Controller_Setup
  imports Processes Runner_Pod_Controller Replica_Set_Controller
begin

section \<open>How the controllers are woken\<close>

text \<open>
  \<open>SetupWithManager\<close> of every controller and \<open>SetupWebhookWithManager\<close> of the API types: the name under which a controller records events, the field indexes it needs, the kind of object it reconciles (\<open>For\<close>) and the kinds it also watches because it creates them (\<open>Owns\<close>). The index functions themselves are
  \<open>replicaSetOwner\<close>, \<open>statefulSetOwner\<close> and \<open>hraKeys\<close>, in the theories of their controllers. \<open>wakes\<close> says what controller-runtime documents of such a watch: an event of an object of the kind of \<open>For\<close> asks for that object to be reconciled, an event of an object of a kind of \<open>Owns\<close> for the object of the kind of \<open>For\<close> that its controller reference names, in the same namespace.
\<close>

datatype kind = KindRunner | KindPod | KindRunnerReplicaSet | KindRunnerDeployment | KindRunnerSet | KindStatefulSet | KindHorizontalRunnerAutoscaler

datatype managerCall =
    EventRecorderFor string
  | IndexField kind string
  | BuildController string kind "kind list"
  | BuildWebhook kind
  | RegisterWebhook string

definition controllerName :: "string \<Rightarrow> string \<Rightarrow> string" where
  "controllerName fallback name = (if name \<noteq> [] then name else fallback)"

definition runnerSetOwnerKey :: string where "runnerSetOwnerKey = ''.metadata.controller''"

definition scaleTargetKey :: string where "scaleTargetKey = ''scaleTarget''"

definition RunnerReconciler_SetupWithManager :: "managerCall api \<Rightarrow> string \<Rightarrow> (managerCall, unit) eff" where
  "RunnerReconciler_SetupWithManager api r_Name =
     (let name = controllerName ''runner-controller'' r_Name
      in elog (EventRecorderFor name) (ewrite api (BuildController name KindRunner [KindPod])))"

definition RunnerPodReconciler_SetupWithManager :: "managerCall api \<Rightarrow> string \<Rightarrow> (managerCall, unit) eff" where
  "RunnerPodReconciler_SetupWithManager api r_Name =
     (let name = controllerName ''runnerpod-controller'' r_Name
      in elog (EventRecorderFor name) (ewrite api (BuildController name KindPod [])))"

definition RunnerReplicaSetReconciler_SetupWithManager :: "managerCall api \<Rightarrow> string \<Rightarrow> (managerCall, unit) eff" where
  "RunnerReplicaSetReconciler_SetupWithManager api r_Name =
     (let name = controllerName ''runnerreplicaset-controller'' r_Name
      in elog (EventRecorderFor name) (ewrite api (BuildController name KindRunnerReplicaSet [KindRunner])))"

definition RunnerDeploymentReconciler_SetupWithManager :: "managerCall api \<Rightarrow> string \<Rightarrow> (managerCall, unit) eff" where
  "RunnerDeploymentReconciler_SetupWithManager api r_Name =
     (let name = controllerName ''runnerdeployment-controller'' r_Name
      in elog (EventRecorderFor name)
           (ebind (ewrite api (IndexField KindRunnerReplicaSet runnerSetOwnerKey))
             (\<lambda>_. ewrite api (BuildController name KindRunnerDeployment [KindRunnerReplicaSet]))))"

definition RunnerSetReconciler_SetupWithManager :: "managerCall api \<Rightarrow> string \<Rightarrow> (managerCall, unit) eff" where
  "RunnerSetReconciler_SetupWithManager api r_Name =
     (let name = controllerName ''runnerset-controller'' r_Name
      in elog (EventRecorderFor name)
           (ebind (ewrite api (IndexField KindStatefulSet runnerSetOwnerKey))
             (\<lambda>_. ewrite api (BuildController name KindRunnerSet [KindStatefulSet]))))"

definition HorizontalRunnerAutoscalerReconciler_SetupWithManager :: "managerCall api \<Rightarrow> string \<Rightarrow> (managerCall, unit) eff" where
  "HorizontalRunnerAutoscalerReconciler_SetupWithManager api r_Name =
     (let name = controllerName ''horizontalrunnerautoscaler-controller'' r_Name
      in elog (EventRecorderFor name) (ewrite api (BuildController name KindHorizontalRunnerAutoscaler [])))"

definition HorizontalRunnerAutoscalerGitHubWebhook_SetupWithManager :: "managerCall api \<Rightarrow> string \<Rightarrow> (managerCall, unit) eff" where
  "HorizontalRunnerAutoscalerGitHubWebhook_SetupWithManager api autoscaler_Name =
     (let name = controllerName ''webhookbasedautoscaler'' autoscaler_Name
      in elog (EventRecorderFor name)
           (ebind (ewrite api (IndexField KindHorizontalRunnerAutoscaler scaleTargetKey))
             (\<lambda>_. ewrite api (BuildController name KindHorizontalRunnerAutoscaler []))))"

definition PodRunnerTokenInjector_SetupWithManager :: "managerCall api \<Rightarrow> string \<Rightarrow> (managerCall, unit) eff" where
  "PodRunnerTokenInjector_SetupWithManager api r_Name =
     elog (EventRecorderFor (controllerName ''pod-runner-token-injector'' r_Name)) (elog (RegisterWebhook ''/mutate-runner-set-pod'') (eret ()))"

definition Runner_SetupWebhookWithManager :: "managerCall api \<Rightarrow> (managerCall, unit) eff" where
  "Runner_SetupWebhookWithManager api = ewrite api (BuildWebhook KindRunner)"

definition RunnerDeployment_SetupWebhookWithManager :: "managerCall api \<Rightarrow> (managerCall, unit) eff" where
  "RunnerDeployment_SetupWebhookWithManager api = ewrite api (BuildWebhook KindRunnerDeployment)"

definition RunnerReplicaSet_SetupWebhookWithManager :: "managerCall api \<Rightarrow> (managerCall, unit) eff" where
  "RunnerReplicaSet_SetupWebhookWithManager api = ewrite api (BuildWebhook KindRunnerReplicaSet)"

text \<open>The calls of the programs' \<open>main\<close> functions (theory \<open>Processes\<close>), which name only the webhook server's controller themselves.\<close>

fun setupOf :: "managerCall api \<Rightarrow> setupCall \<Rightarrow> (managerCall, unit) eff" where
  "setupOf api (SetupRunner rr) = RunnerReconciler_SetupWithManager api []"
| "setupOf api SetupRunnerReplicaSet = RunnerReplicaSetReconciler_SetupWithManager api []"
| "setupOf api (SetupRunnerDeployment labels) = RunnerDeploymentReconciler_SetupWithManager api []"
| "setupOf api (SetupRunnerSet rr labels) = RunnerSetReconciler_SetupWithManager api []"
| "setupOf api SetupRunnerPod = RunnerPodReconciler_SetupWithManager api []"
| "setupOf api (SetupHorizontalRunnerAutoscaler c d) = HorizontalRunnerAutoscalerReconciler_SetupWithManager api []"
| "setupOf api SetupRunnerWebhook = Runner_SetupWebhookWithManager api"
| "setupOf api SetupRunnerDeploymentWebhook = RunnerDeployment_SetupWebhookWithManager api"
| "setupOf api SetupRunnerReplicaSetWebhook = RunnerReplicaSet_SetupWebhookWithManager api"
| "setupOf api SetupInjector = PodRunnerTokenInjector_SetupWithManager api []"
| "setupOf api (SetupWebhookAutoscaler wh) = HorizontalRunnerAutoscalerGitHubWebhook_SetupWithManager api ''webhookbasedautoscaler''"
| "setupOf api (NewManager opts) = eret ()"
| "setupOf api StartManager = eret ()"

definition setupAll :: "managerCall api \<Rightarrow> setupCall list \<Rightarrow> (managerCall, unit) eff" where
  "setupAll api cs = foldr (\<lambda>c k. ebind (setupOf api c) (\<lambda>_. k)) cs (eret ())"

subsection \<open>Watches\<close>

fun kindName :: "kind \<Rightarrow> string" where
  "kindName KindRunner = ''Runner''"
| "kindName KindPod = ''Pod''"
| "kindName KindRunnerReplicaSet = ''RunnerReplicaSet''"
| "kindName KindRunnerDeployment = ''RunnerDeployment''"
| "kindName KindRunnerSet = ''RunnerSet''"
| "kindName KindStatefulSet = ''StatefulSet''"
| "kindName KindHorizontalRunnerAutoscaler = ''HorizontalRunnerAutoscaler''"

definition controlledBy :: "kind \<Rightarrow> string \<Rightarrow> ObjectMeta \<Rightarrow> bool" where
  "controlledBy K name m \<longleftrightarrow> (\<exists>ref. GetControllerOf m = Some ref \<and> or_APIVersion ref = ''actions.summerwind.dev/v1alpha1'' \<and> or_Kind ref = kindName K \<and> or_Name ref = name)"

text \<open>The requests (controller, namespace, name) that an event of an object of kind \<open>K\<close> with metadata \<open>m\<close> brings about.\<close>

fun wakesOf :: "kind \<Rightarrow> ObjectMeta \<Rightarrow> managerCall \<Rightarrow> (string \<times> string \<times> string) set" where
  "wakesOf K m (BuildController n F Os) =
     (if K = F then {(n, om_Namespace m, om_Name m)} else {}) \<union> (if K \<in> set Os then {(n, om_Namespace m, x) | x. controlledBy F x m} else {})"
| "wakesOf K m _ = {}"

definition wakes :: "managerCall list \<Rightarrow> kind \<Rightarrow> ObjectMeta \<Rightarrow> (string \<times> string \<times> string) set" where
  "wakes calls K m = \<Union> (wakesOf K m ` set calls)"

text \<open>When all the setups succeed, these are the calls.\<close>

lemma ewrite_Ret_iff: "ewrite api c l = (l', Ret u) \<longleftrightarrow> l' = l @ [c] \<and> api l c = None"
  by (auto simp: ewrite_def ecall_def eret_def eerr_def split: option.splits)

lemma ebind_Ret_iff: "ebind m f l = (l', Ret x) \<longleftrightarrow> (\<exists>l1 y. m l = (l1, Ret y) \<and> f y l1 = (l', Ret x))"
  by (auto simp: ebind_def split: prod.splits go.splits)

lemmas setup_defs = RunnerReconciler_SetupWithManager_def RunnerPodReconciler_SetupWithManager_def RunnerReplicaSetReconciler_SetupWithManager_def
  RunnerDeploymentReconciler_SetupWithManager_def RunnerSetReconciler_SetupWithManager_def HorizontalRunnerAutoscalerReconciler_SetupWithManager_def
  HorizontalRunnerAutoscalerGitHubWebhook_SetupWithManager_def PodRunnerTokenInjector_SetupWithManager_def Runner_SetupWebhookWithManager_def
  RunnerDeployment_SetupWebhookWithManager_def RunnerReplicaSet_SetupWebhookWithManager_def controllerName_def

definition managerWatches :: "managerCall list" where
  "managerWatches =
     [EventRecorderFor ''runner-controller'', BuildController ''runner-controller'' KindRunner [KindPod],
      EventRecorderFor ''runnerreplicaset-controller'', BuildController ''runnerreplicaset-controller'' KindRunnerReplicaSet [KindRunner],
      EventRecorderFor ''runnerdeployment-controller'', IndexField KindRunnerReplicaSet runnerSetOwnerKey,
      BuildController ''runnerdeployment-controller'' KindRunnerDeployment [KindRunnerReplicaSet],
      EventRecorderFor ''runnerset-controller'', IndexField KindStatefulSet runnerSetOwnerKey,
      BuildController ''runnerset-controller'' KindRunnerSet [KindStatefulSet],
      EventRecorderFor ''runnerpod-controller'', BuildController ''runnerpod-controller'' KindPod [],
      EventRecorderFor ''horizontalrunnerautoscaler-controller'', BuildController ''horizontalrunnerautoscaler-controller'' KindHorizontalRunnerAutoscaler [],
      BuildWebhook KindRunner, BuildWebhook KindRunnerDeployment, BuildWebhook KindRunnerReplicaSet,
      EventRecorderFor ''pod-runner-token-injector'', RegisterWebhook ''/mutate-runner-set-pod'']"

lemma setupAll_manager:
  "setupAll api (managerCalls client f) [] = (calls, Ret ()) \<Longrightarrow> calls = managerWatches"
  by (auto simp: setupAll_def managerCalls_def setup_defs Let_def ebind_Ret_iff ewrite_Ret_iff elog_def eret_def managerWatches_def)

lemma setupAll_manager_accepted: "setupAll acceptAll (managerCalls client f) [] = (managerWatches, Ret ())"
  by (simp add: setupAll_def managerCalls_def setup_defs Let_def ebind_def ewrite_def ecall_def acceptAll_def elog_def eret_def managerWatches_def)

subsection \<open>Who is woken by whom\<close>

lemmas wakes_simps = wakes_def managerWatches_def

text \<open>An object as the server keeps it: whatever else changes, its namespace and its controller stay.\<close>

definition sameController :: "ObjectMeta \<Rightarrow> ObjectMeta \<Rightarrow> bool" where
  "sameController m m' \<longleftrightarrow> om_Namespace m' = om_Namespace m \<and> GetControllerOf m' = GetControllerOf m"

lemma sameController_controlledBy: "controlledBy K x m \<Longrightarrow> sameController m m' \<Longrightarrow> controlledBy K y m' \<longleftrightarrow> y = x"
  by (auto simp: sameController_def controlledBy_def)

lemma setRunnerEnv_namespace [simp]: "om_Namespace (pod_Meta (setRunnerEnv pod k v)) = om_Namespace (pod_Meta pod)"
  by (simp add: setRunnerEnv_def)

lemma newPod_namespace:
  assumes "newPod env r runner = Ret p" and "setsOnlyReference env"
  shows "om_Namespace (pod_Meta p) = om_Namespace (r_Meta runner)"
proof -
  let ?n = "om_Name (r_Meta runner)" and ?t = "podTemplate env r runner" and ?c = "rs_Config (r_Spec runner)"
  let ?ro = "getAnnotation (r_Meta runner) annotationKeyRegistrationOnly \<noteq> None"
  obtain q spec refs where q: "newRunnerPod r ?n ?t ?c ?ro = Ret q"
    and p: "p = (mutatePod (q\<lparr>pod_Spec := spec, pod_Meta := (pod_Meta q)\<lparr>om_Name := ?n\<rparr>\<rparr>) (reg_Token (rst_Registration (r_Status runner))))\<lparr>pod_Meta :=
      (pod_Meta (mutatePod (q\<lparr>pod_Spec := spec, pod_Meta := (pod_Meta q)\<lparr>om_Name := ?n\<rparr>\<rparr>) (reg_Token (rst_Registration (r_Status runner)))))\<lparr>om_OwnerReferences := refs\<rparr>\<rparr>"
    using assms unfolding newPod_def Let_def go_bind_Ret_iff setsOnlyReference_def by blast
  have "q = assemblePod r ?n ?t ?c ?ro \<or> (\<exists>k v. q = setRunnerEnv (assemblePod r ?n ?t ?c ?ro) k v)" using newRunnerPod_Ret(2) [OF q] by blast
  then have "om_Namespace (pod_Meta q) = om_Namespace (r_Meta runner)"
    by (auto simp: assemblePod_def podTemplate_def Let_def emptyMeta_def emptyPod_def)
  then show ?thesis by (simp add: p mutatePod_def Let_def)
qed

text \<open>What the code relies on in \<open>ctrl.SetControllerReference\<close>: the object it succeeds on is controlled by the owner it was given.\<close>

definition setsController :: "kind \<Rightarrow> ('o \<Rightarrow> ObjectMeta) \<Rightarrow> ('a \<Rightarrow> ObjectMeta) \<Rightarrow> ('o \<Rightarrow> 'a \<Rightarrow> 'a go) \<Rightarrow> bool" where
  "setsController K ometa meta f \<longleftrightarrow> (\<forall>x y z. f x y = Ret z \<longrightarrow> controlledBy K (om_Name (ometa x)) (meta z))"

lemma deployment_woken:
  assumes "newRunnerReplicaSet env rd = Ret rs" and "setsOnlyOwner env" and "setsController KindRunnerDeployment rd_Meta rrs_Meta (de_SetControllerReference env)"
    and "sameController (rrs_Meta rs) m"
  shows "replicaSetOwner rs = [om_Name (rd_Meta rd)] \<and> wakes managerWatches KindRunnerReplicaSet m =
    {(''runnerreplicaset-controller'', om_Namespace (rd_Meta rd), om_Name m), (''runnerdeployment-controller'', om_Namespace (rd_Meta rd), om_Name (rd_Meta rd))}"
proof -
  have c: "controlledBy KindRunnerDeployment (om_Name (rd_Meta rd)) (rrs_Meta rs)"
    using assms(1,3) by (auto simp: newRunnerReplicaSet_def setsController_def)
  obtain refs where "rs = (desiredReplicaSet env rd)\<lparr>rrs_Meta := (rrs_Meta (desiredReplicaSet env rd))\<lparr>om_OwnerReferences := refs\<rparr>\<rparr>"
    using assms(1,2) unfolding newRunnerReplicaSet_def setsOnlyOwner_def by blast
  then have "om_Namespace m = om_Namespace (rd_Meta rd)" using assms(4) by (simp add: sameController_def desiredReplicaSet_def Let_def)
  with c show ?thesis
    by (auto simp: wakes_simps sameController_controlledBy [OF c assms(4)]) (auto simp: replicaSetOwner_def controlledBy_def)
qed

lemma replica_set_woken:
  assumes "newRunner env stamp rs = Ret r" and "setsOnlyRunnerOwner env" and "setsController KindRunnerReplicaSet rrs_Meta r_Meta (rse_SetControllerReference env)"
    and "sameController (r_Meta r) m"
  shows "wakes managerWatches KindRunner m =
    {(''runner-controller'', om_Namespace (rrs_Meta rs), om_Name m), (''runnerreplicaset-controller'', om_Namespace (rrs_Meta rs), om_Name (rrs_Meta rs))}"
proof -
  have c: "controlledBy KindRunnerReplicaSet (om_Name (rrs_Meta rs)) (r_Meta r)"
    using assms(1,3) by (auto simp: newRunner_def setsController_def)
  obtain refs where "r = (desiredRunner stamp rs)\<lparr>r_Meta := (r_Meta (desiredRunner stamp rs))\<lparr>om_OwnerReferences := refs\<rparr>\<rparr>"
    using assms(1,2) unfolding newRunner_def setsOnlyRunnerOwner_def by blast
  then have "om_Namespace m = om_Namespace (rrs_Meta rs)" using assms(4) by (simp add: sameController_def desiredRunner_def Let_def)
  then show ?thesis by (auto simp: wakes_simps sameController_controlledBy [OF c assms(4)])
qed

lemma runner_woken:
  assumes "newPod env rr runner = Ret pod" and "setsOnlyReference env" and "setsController KindRunner r_Meta pod_Meta (pe_SetControllerReference env)"
    and "sameController (pod_Meta pod) m"
  shows "wakes managerWatches KindPod m =
    {(''runnerpod-controller'', om_Namespace (r_Meta runner), om_Name m), (''runner-controller'', om_Namespace (r_Meta runner), om_Name (r_Meta runner))}"
proof -
  have c: "controlledBy KindRunner (om_Name (r_Meta runner)) (pod_Meta pod)"
    using assms(1,3) unfolding newPod_def Let_def go_bind_Ret_iff setsController_def by blast
  have "om_Namespace m = om_Namespace (r_Meta runner)"
    using assms(4) newPod_namespace [OF assms(1,2)] by (simp add: sameController_def)
  then show ?thesis by (auto simp: wakes_simps sameController_controlledBy [OF c assms(4)])
qed

lemma runner_set_woken:
  assumes "newStatefulSet env stamp rs = Ret s" and "setsOnlyStatefulSetOwner env" and "setsController KindRunnerSet rset_Meta ss_Meta (rve_SetControllerReference env)"
    and "sameController (ss_Meta s) m"
  shows "statefulSetOwner s = [om_Name (rset_Meta rs)] \<and> wakes managerWatches KindStatefulSet m = {(''runnerset-controller'', om_Namespace (rset_Meta rs), om_Name (rset_Meta rs))}"
proof -
  obtain spec pod h where s: "rve_SetControllerReference env rs (statefulSetOf rs spec pod h stamp) = Ret s"
    using assms(1) unfolding newStatefulSet_def Let_def go_bind_Ret_iff by blast
  then have c: "controlledBy KindRunnerSet (om_Name (rset_Meta rs)) (ss_Meta s)"
    using assms(3) by (auto simp: setsController_def)
  from s assms(2) obtain refs where "s = (statefulSetOf rs spec pod h stamp)\<lparr>ss_Meta := (ss_Meta (statefulSetOf rs spec pod h stamp))\<lparr>om_OwnerReferences := refs\<rparr>\<rparr>"
    unfolding setsOnlyStatefulSetOwner_def by blast
  then have "om_Namespace m = om_Namespace (rset_Meta rs)" using assms(4) by (simp add: sameController_def statefulSetOf_def)
  with c show ?thesis by (auto simp: wakes_simps sameController_controlledBy [OF c assms(4)]) (auto simp: statefulSetOwner_def controlledBy_def)
qed

text \<open>
  The pods of a stateful set wake nobody but the pod controller: their controller reference is no runner's. So the mark that the pod controller leaves on such a pod, that its runner is unregistered, is noticed by the controller of the runner set only when something happens to the stateful set, or at the next resynchronisation.
\<close>

lemma stateful_set_pod_wakes:
  "\<not> (\<exists>x. controlledBy KindRunner x m) \<Longrightarrow> wakes managerWatches KindPod m = {(''runnerpod-controller'', om_Namespace m, om_Name m)}"
  by (auto simp: wakes_simps)

definition setsReferences :: "DeploymentEnv \<Rightarrow> ReplicaSetEnv \<Rightarrow> PodEnv \<Rightarrow> RunnerSetEnv \<Rightarrow> bool" where
  "setsReferences denv renv penv senv \<longleftrightarrow>
     setsOnlyOwner denv \<and> setsController KindRunnerDeployment rd_Meta rrs_Meta (de_SetControllerReference denv) \<and>
     setsOnlyRunnerOwner renv \<and> setsController KindRunnerReplicaSet rrs_Meta r_Meta (rse_SetControllerReference renv) \<and>
     setsOnlyReference penv \<and> setsController KindRunner r_Meta pod_Meta (pe_SetControllerReference penv) \<and>
     setsOnlyStatefulSetOwner senv \<and> setsController KindRunnerSet rset_Meta ss_Meta (rve_SetControllerReference senv)"

text \<open>
  C38. The controllers are woken by what they created: when the manager's controllers have been set up, every event of a replica set that a deployment made, of a runner that a replica set made and of a pod that a runner made, as long as the object keeps its namespace and its controller, asks for exactly two reconciliations, of the object by its own controller and of its creator by the
  creator's controller; an event of a stateful set asks for that of its runner set only. The field indexes by which a deployment lists its replica sets and a runner set its stateful sets lead to the same owner.
\<close>

theorem creators_are_woken:
  assumes "setupAll api (managerCalls client f) [] = (calls, Ret ())" and "setsReferences denv renv penv senv"
  shows "(\<forall>rd rs m. newRunnerReplicaSet denv rd = Ret rs \<and> sameController (rrs_Meta rs) m \<longrightarrow> replicaSetOwner rs = [om_Name (rd_Meta rd)] \<and>
      wakes calls KindRunnerReplicaSet m =
        {(''runnerreplicaset-controller'', om_Namespace (rd_Meta rd), om_Name m), (''runnerdeployment-controller'', om_Namespace (rd_Meta rd), om_Name (rd_Meta rd))}) \<and>
    (\<forall>rs stamp r m. newRunner renv stamp rs = Ret r \<and> sameController (r_Meta r) m \<longrightarrow>
      wakes calls KindRunner m =
        {(''runner-controller'', om_Namespace (rrs_Meta rs), om_Name m), (''runnerreplicaset-controller'', om_Namespace (rrs_Meta rs), om_Name (rrs_Meta rs))}) \<and>
    (\<forall>rr runner pod m. newPod penv rr runner = Ret pod \<and> sameController (pod_Meta pod) m \<longrightarrow>
      wakes calls KindPod m =
        {(''runnerpod-controller'', om_Namespace (r_Meta runner), om_Name m), (''runner-controller'', om_Namespace (r_Meta runner), om_Name (r_Meta runner))}) \<and>
    (\<forall>rs stamp s m. newStatefulSet senv stamp rs = Ret s \<and> sameController (ss_Meta s) m \<longrightarrow> statefulSetOwner s = [om_Name (rset_Meta rs)] \<and>
      wakes calls KindStatefulSet m = {(''runnerset-controller'', om_Namespace (rset_Meta rs), om_Name (rset_Meta rs))})"
  unfolding setupAll_manager [OF assms(1)] using assms(2) unfolding setsReferences_def
  by (intro conjI allI impI; elim conjE) (simp_all only: deployment_woken replica_set_woken runner_woken runner_set_woken)

lemma example_setsReferences: "setsReferences exampleDeploymentEnv exampleReplicaSetEnv examplePodEnv exampleRunnerSetEnv"
  by (auto simp: setsReferences_def setsOnlyOwner_def setsOnlyRunnerOwner_def setsOnlyReference_def setsOnlyStatefulSetOwner_def setsController_def controlledBy_def
      GetControllerOf_def exampleDeploymentEnv_def exampleReplicaSetEnv_def examplePodEnv_def exampleRunnerSetEnv_def)

theorem creators_are_woken_witness:
  "\<exists>client rs. NewClient exampleClientLibs exampleGitHubConfig = Ret client \<and> newRunnerReplicaSet exampleDeploymentEnv exampleRD = Ret rs \<and>
    wakes (fst (setupAll acceptAll (managerCalls client defaultManagerFlags) [])) KindRunnerReplicaSet ((rrs_Meta rs)\<lparr>om_Name := ''rs''\<rparr>) =
      {(''runnerreplicaset-controller'', [], ''rs''), (''runnerdeployment-controller'', [], [])}"
proof -
  obtain client rs where c: "NewClient exampleClientLibs exampleGitHubConfig = Ret client" and rs: "newRunnerReplicaSet exampleDeploymentEnv exampleRD = Ret rs"
    using example_client example_newReplicaSet by blast
  have "sameController (rrs_Meta rs) ((rrs_Meta rs)\<lparr>om_Name := ''rs''\<rparr>)" by (simp add: sameController_def GetControllerOf_def)
  with rs creators_are_woken [OF setupAll_manager_accepted [of client defaultManagerFlags] example_setsReferences]
  have "wakes managerWatches KindRunnerReplicaSet ((rrs_Meta rs)\<lparr>om_Name := ''rs''\<rparr>) =
      {(''runnerreplicaset-controller'', [], ''rs''), (''runnerdeployment-controller'', [], [])}"
    by (simp add: exampleRD_def emptyMeta_def)
  with c rs show ?thesis by (auto simp: setupAll_manager_accepted)
qed

end
