(* ===== verification/Go_Heap.thy ===== *)
theory Go_Heap
  imports Arc_Prelude
begin

section \<open>Go values in memory\<close>

text \<open>
  Values of HOL are never shared, values of Go are: a pointer, a slice or a map is the address of a cell that others may hold too. This theory models memory for the sake of the generated deep copies (theory \<open>Deep_Copy\<close>): the cells, the steps of which generated code is made, and what it means that a value is a
  copy of another of its own. A slice is modelled as the address of its whole array, since the code makes no sub-slices of what it copies. Types of libraries are opaque; how they are read and copied are parameters.
\<close>

type_synonym addr = nat

datatype gval = GPrim string | GStruct "(string \<times> gval) list" | GAddr "addr option"

datatype cell = Target gval | Elems "gval list" | Entries "(string \<times> gval) list"

text \<open>The cells allocated so far, at the addresses 0, 1 and so on.\<close>

type_synonym memory = "cell list"

type_synonym copier = "gval \<Rightarrow> memory \<Rightarrow> gval \<times> memory"

subsection \<open>The steps of generated code\<close>

text \<open>An assignment copies the value itself: a primitive value, the fields of a struct, an address.\<close>

definition assign :: copier where "assign v h = (v, h)"

text \<open>A pointer that is not nil gets a new target (\<open>new\<close>), into which the old one is copied; a slice a new array (\<open>make\<close>), into which its elements are copied in order; a map a new table.\<close>

fun copyPtr :: "copier \<Rightarrow> copier" where
  "copyPtr c (GAddr (Some a)) h =
     (case h ! a of
        Target v \<Rightarrow> (let (v', h') = c v h in (GAddr (Some (length h')), h' @ [Target v']))
      | _ \<Rightarrow> (GAddr (Some a), h))"
| "copyPtr c v h = (v, h)"

fun copyList :: "copier \<Rightarrow> gval list \<Rightarrow> memory \<Rightarrow> gval list \<times> memory" where
  "copyList c [] h = ([], h)"
| "copyList c (v # vs) h = (let (v', h1) = c v h; (vs', h2) = copyList c vs h1 in (v' # vs', h2))"

fun copySlice :: "copier \<Rightarrow> copier" where
  "copySlice c (GAddr (Some a)) h =
     (case h ! a of
        Elems vs \<Rightarrow> (let (vs', h') = copyList c vs h in (GAddr (Some (length h')), h' @ [Elems vs']))
      | _ \<Rightarrow> (GAddr (Some a), h))"
| "copySlice c v h = (v, h)"

fun copyMap :: "copier \<Rightarrow> copier" where
  "copyMap c (GAddr (Some a)) h =
     (case h ! a of
        Entries kvs \<Rightarrow> (let (vs', h') = copyList c (map snd kvs) h in (GAddr (Some (length h')), h' @ [Entries (zip (map fst kvs) vs')]))
      | _ \<Rightarrow> (GAddr (Some a), h))"
| "copyMap c v h = (v, h)"

text \<open>A struct is copied by \<open>*out = *in\<close>, after which some fields of \<open>out\<close> are replaced, one after the other, by copies of those of \<open>in\<close>.\<close>

definition setField :: "string \<Rightarrow> gval \<Rightarrow> (string \<times> gval) list \<Rightarrow> (string \<times> gval) list" where
  "setField f v fs = map (\<lambda>(g, w). (g, if g = f then v else w)) fs"

fun copyFields :: "(string \<times> copier) list \<Rightarrow> (string \<times> gval) list \<Rightarrow> (string \<times> gval) list \<Rightarrow> memory \<Rightarrow> (string \<times> gval) list \<times> memory" where
  "copyFields [] inn out h = (out, h)"
| "copyFields ((f, c) # acts) inn out h =
     (case map_of inn f of
        None \<Rightarrow> copyFields acts inn out h
      | Some v \<Rightarrow> (let (v', h') = c v h in copyFields acts inn (setField f v' out) h'))"

fun intoStruct :: "(string \<times> copier) list \<Rightarrow> copier" where
  "intoStruct acts (GStruct fs) h = (let (out, h') = copyFields acts fs fs h in (GStruct out, h'))"
| "intoStruct acts v h = (v, h)"

subsection \<open>What a value stands for\<close>

text \<open>Types, and the trees that values stand for: the value without its addresses.\<close>

datatype gtype = TBasic | TLib string | TStruct "(string \<times> gtype) list" | TPtr gtype | TSlice gtype | TMap gtype

datatype tree = XPrim string | XStruct "(string \<times> tree) list" | XNil | XPtr tree | XSlice "tree list" | XMap "(string \<times> tree) list"

text \<open>
  \<open>reads lib h T v t A\<close>: in the memory \<open>h\<close> the value \<open>v\<close> of type \<open>T\<close> stands for \<open>t\<close>, and \<open>A\<close> are the addresses of the cells that this depends on. \<open>lib\<close> says so of the types of libraries.
\<close>

type_synonym libReads = "string \<Rightarrow> memory \<Rightarrow> gval \<Rightarrow> tree \<Rightarrow> addr set \<Rightarrow> bool"

inductive reads :: "libReads \<Rightarrow> memory \<Rightarrow> gtype \<Rightarrow> gval \<Rightarrow> tree \<Rightarrow> addr set \<Rightarrow> bool" for lib h where
  basic: "reads lib h TBasic (GPrim s) (XPrim s) {}"
| library: "lib T h v t A \<Longrightarrow> reads lib h (TLib T) v t A"
| nil_ptr: "reads lib h (TPtr T) (GAddr None) XNil {}"
| nil_slice: "reads lib h (TSlice T) (GAddr None) XNil {}"
| nil_map: "reads lib h (TMap T) (GAddr None) XNil {}"
| ptr: "a < length h \<Longrightarrow> h ! a = Target v \<Longrightarrow> reads lib h T v t A \<Longrightarrow> reads lib h (TPtr T) (GAddr (Some a)) (XPtr t) (insert a A)"
| slice: "a < length h \<Longrightarrow> h ! a = Elems vs \<Longrightarrow> list_all2 (\<lambda>v x. reads lib h T v (fst x) (snd x)) vs xs \<Longrightarrow>
    reads lib h (TSlice T) (GAddr (Some a)) (XSlice (map fst xs)) (insert a (\<Union> (snd ` set xs)))"
| map: "a < length h \<Longrightarrow> h ! a = Entries kvs \<Longrightarrow> list_all2 (\<lambda>v x. reads lib h T v (fst x) (snd x)) (map snd kvs) xs \<Longrightarrow>
    reads lib h (TMap T) (GAddr (Some a)) (XMap (zip (map fst kvs) (map fst xs))) (insert a (\<Union> (snd ` set xs)))"
| struct: "distinct (map fst Ts) \<Longrightarrow> map fst vs = map fst Ts \<Longrightarrow>
    (\<forall>f T v. map_of Ts f = Some T \<longrightarrow> map_of vs f = Some v \<longrightarrow> reads lib h T v (X f) (B f)) \<Longrightarrow>
    reads lib h (TStruct Ts) (GStruct vs) (XStruct (map (\<lambda>f. (f, X f)) (map fst Ts))) (\<Union> (B ` set (map fst Ts)))"

inductive_cases reads_basicE: "reads lib h TBasic v t A"
inductive_cases reads_libE: "reads lib h (TLib T) v t A"
inductive_cases reads_ptrE: "reads lib h (TPtr T) v t A"
inductive_cases reads_sliceE: "reads lib h (TSlice T) v t A"
inductive_cases reads_mapE: "reads lib h (TMap T) v t A"

lemma reads_structE:
  assumes "reads lib h (TStruct Ts) v t A"
  obtains vs X B where "v = GStruct vs" "t = XStruct (map (\<lambda>f. (f, X f)) (map fst Ts))" "distinct (map fst Ts)" "map fst vs = map fst Ts"
    "\<forall>f T v. map_of Ts f = Some T \<longrightarrow> map_of vs f = Some v \<longrightarrow> reads lib h T v (X f) (B f)"
  using assms by (cases rule: reads.cases) metis+

text \<open>The fields one by one, each with its value, what it stands for and its cells.\<close>

lemma reads_fields:
  assumes "distinct (map fst Ts)" and "list_all2 (\<lambda>(f, T) (g, v, x, B). f = g \<and> reads lib h T v x B) Ts vs"
  shows "reads lib h (TStruct Ts) (GStruct (map (\<lambda>(f, v, x, B). (f, v)) vs)) (XStruct (map (\<lambda>(f, v, x, B). (f, x)) vs)) (\<Union> ((\<lambda>(f, v, x, B). B) ` set vs))"
proof -
  let ?X = "\<lambda>f. fst (snd (the (map_of vs f)))" and ?B = "\<lambda>f. snd (snd (the (map_of vs f)))"
  have keys: "map fst vs = map fst Ts"
    using assms(2) by (induction rule: list_all2_induct) auto
  with assms(1) have vs: "map_of vs f = Some y" if "(f, y) \<in> set vs" for f y using that by simp
  have "reads lib h (TStruct Ts) (GStruct (map (\<lambda>(f, v, x, B). (f, v)) vs)) (XStruct (map (\<lambda>f. (f, ?X f)) (map fst Ts))) (\<Union> (?B ` set (map fst Ts)))"
  proof (intro reads.struct allI impI)
    fix f T v assume f: "map_of Ts f = Some T" "map_of (map (\<lambda>(f, v, x, B). (f, v)) vs) f = Some v"
    then obtain x B where y: "(f, v, x, B) \<in> set vs" by (auto dest!: map_of_SomeD)
    then obtain i where i: "i < length vs" "vs ! i = (f, v, x, B)" by (auto simp: in_set_conv_nth)
    with list_all2_nthD2 [OF assms(2)] obtain T' where "Ts ! i = (f, T')" "reads lib h T' v x B" by (cases "Ts ! i") fastforce
    moreover from this(1) i(1) list_all2_lengthD [OF assms(2)] have "(f, T') \<in> set Ts" by (metis nth_mem)
    with f(1) assms(1) have "T' = T" by (metis map_of_is_SomeI option.inject)
    ultimately show "reads lib h T v (?X f) (?B f)" using vs [OF y] by simp
  qed (use assms(1) keys in \<open>simp_all add: comp_def case_prod_unfold\<close>)
  moreover have "map (\<lambda>f. (f, ?X f)) (map fst Ts) = map (\<lambda>(f, v, x, B). (f, x)) vs"
    unfolding keys [symmetric] by (auto dest: vs)
  moreover have "?B ` set (map fst Ts) = (\<lambda>(f, v, x, B). B) ` set vs"
    unfolding keys [symmetric] set_map image_image by (rule image_cong) (auto dest: vs)
  ultimately show ?thesis by (simp only:)
qed

text \<open>A copier of a type is deep when the copy stands for the same and depends on nothing but new cells.\<close>

definition fresh :: "libReads \<Rightarrow> memory \<Rightarrow> memory \<Rightarrow> gtype \<Rightarrow> gval \<Rightarrow> tree \<Rightarrow> bool" where
  "fresh lib h h' T v t \<longleftrightarrow> (\<exists>A. reads lib h' T v t A \<and> A \<subseteq> {length h..<length h'})"

definition isDeepCopy :: "libReads \<Rightarrow> gtype \<Rightarrow> memory \<Rightarrow> tree \<Rightarrow> gval \<times> memory \<Rightarrow> bool" where
  "isDeepCopy lib T h t r \<longleftrightarrow> prefix h (snd r) \<and> fresh lib h (snd r) T (fst r) t"

definition deepCopier :: "libReads \<Rightarrow> gtype \<Rightarrow> copier \<Rightarrow> bool" where
  "deepCopier lib T c \<longleftrightarrow> (\<forall>h v t A. reads lib h T v t A \<longrightarrow> isDeepCopy lib T h t (c v h))"

text \<open>Types without addresses, given those of the libraries.\<close>

fun flat :: "string list \<Rightarrow> gtype \<Rightarrow> bool" where
  "flat libs TBasic = True"
| "flat libs (TLib T) = (T \<in> set libs)"
| "flat libs (TStruct Ts) = list_all (\<lambda>(f, T). flat libs T) Ts"
| "flat libs _ = False"

text \<open>
  What the deep copies rely on of the types of libraries: their readings are determined by allocated cells, their own deep copies are deep, and those named in \<open>flatLibs\<close> hold no address. Cells that nobody ever changes, such as the time zone of a \<open>time.Time\<close>, need not be counted among those a reading depends on.
\<close>

locale go_library =
  fixes lr :: libReads and libCopy :: "string \<Rightarrow> copier" and flatLibs :: "string list"
  assumes lib_bound: "lr T h v t A \<Longrightarrow> A \<subseteq> {..<length h}"
    and lib_frame: "lr T h v t A \<Longrightarrow> length h \<le> length h' \<Longrightarrow> \<forall>a\<in>A. h' ! a = h ! a \<Longrightarrow> lr T h' v t A"
    and lib_copies: "lr T h v t A \<Longrightarrow> isDeepCopy lr (TLib T) h t (libCopy T v h)"
    and lib_flat: "T \<in> set flatLibs \<Longrightarrow> lr T h v t A \<Longrightarrow> A = {}"
begin

lemma reads_bound: "reads lr h T v t A \<Longrightarrow> A \<subseteq> {..<length h}"
proof (induction rule: reads.induct)
  case (slice a vs T xs)
  then show ?case
    by (fastforce simp: list_all2_conv_all_nth in_set_conv_nth)
next
  case (map a kvs T xs)
  then show ?case
    by (fastforce simp: list_all2_conv_all_nth in_set_conv_nth)
next
  case (struct Ts vs X B)
  have "B f \<subseteq> {..<length h}" if "f \<in> set (map fst Ts)" for f
  proof -
    from that struct(2) obtain T v where "map_of Ts f = Some T" "map_of vs f = Some v"
      by (metis map_of_eq_None_iff not_Some_eq set_map)
    with struct(3) show ?thesis by blast
  qed
  then show ?case by blast
qed (auto dest: lib_bound)

lemma reads_frame:
  "reads lr h T v t A \<Longrightarrow> length h \<le> length h' \<Longrightarrow> \<forall>a\<in>A. h' ! a = h ! a \<Longrightarrow> reads lr h' T v t A"
proof (induction rule: reads.induct)
  case (slice a vs T xs)
  then show ?case
    by (intro reads.slice) (auto elim!: list.rel_mono_strong)
next
  case (map a kvs T xs)
  then show ?case
    by (intro reads.map) (auto elim!: list.rel_mono_strong)
next
  case (struct Ts vs X B)
  show ?case
  proof (intro reads.struct allI impI)
    fix f T v assume "map_of Ts f = Some T" "map_of vs f = Some v"
    moreover from this have "f \<in> set (map fst Ts)" by (force dest: map_of_SomeD)
    ultimately show "reads lr h' T v (X f) (B f)" using struct by blast
  qed (use struct in auto)
qed (auto intro: reads.intros lib_frame)

lemma reads_prefix: "reads lr h T v t A \<Longrightarrow> prefix h h' \<Longrightarrow> reads lr h' T v t A"
  by (frule reads_bound, erule reads_frame) (auto simp: prefix_def nth_append)

lemma flat_footprint: "reads lr h T v t A \<Longrightarrow> flat flatLibs T \<Longrightarrow> A = {}"
proof (induction rule: reads.induct)
  case (struct Ts vs X B)
  have "B f = {}" if "f \<in> set (map fst Ts)" for f
  proof -
    from that struct(2) obtain T v where T: "map_of Ts f = Some T" "map_of vs f = Some v"
      by (metis map_of_eq_None_iff not_Some_eq set_map)
    with struct(4) have "flat flatLibs T" by (auto simp: list_all_iff dest: map_of_SomeD)
    with T struct(3) show ?thesis by blast
  qed
  then show ?case by blast
qed (auto dest: lib_flat)

text \<open>The copiers of which the generated code is made: each is deep when those it is made of are.\<close>

lemma deep_lib: "deepCopier lr (TLib T) (libCopy T)"
  unfolding deepCopier_def by (auto elim!: reads_libE dest: lib_copies)

lemma deep_assign: "flat flatLibs T \<Longrightarrow> deepCopier lr T assign"
  unfolding deepCopier_def isDeepCopy_def fresh_def assign_def
  by (auto dest: flat_footprint)

text \<open>The last step of a copy of a pointer, a slice or a map: the new cell.\<close>

lemma isDeepCopy_cell:
  assumes "prefix h h'" and A: "A \<subseteq> {length h..<length h'}"
    and r: "reads lr (h' @ [cl]) T (GAddr (Some (length h'))) t (insert (length h') A)"
  shows "isDeepCopy lr T h t (GAddr (Some (length h')), h' @ [cl])"
proof -
  have "length h \<le> length h'" using assms(1) by (rule prefix_length_le)
  then have "insert (length h') A \<subseteq> {length h..<length (h' @ [cl])}" using A by auto
  with r assms(1) show ?thesis unfolding isDeepCopy_def fresh_def by (auto intro!: exI [of _ "insert (length h') A"])
qed

lemma fresh_mono:
  assumes "fresh lr h1 h2 T v t" and "prefix h h1" and "prefix h2 h3"
  shows "fresh lr h h3 T v t"
proof -
  from assms(1) obtain A where A: "reads lr h2 T v t A" "A \<subseteq> {length h1..<length h2}" by (auto simp: fresh_def)
  moreover have "length h \<le> length h1" "length h2 \<le> length h3" using assms by (simp_all add: prefix_length_le)
  ultimately show ?thesis using reads_prefix [OF A(1) assms(3)] unfolding fresh_def by (intro exI [of _ A]) auto
qed

lemma deepCopierE:
  assumes "deepCopier lr T c" and "reads lr h T v t A"
  obtains v' h' where "c v h = (v', h')" "prefix h h'" "fresh lr h h' T v' t"
proof (cases "c v h")
  case (Pair v' h')
  with assms have "isDeepCopy lr T h t (v', h')" by (metis deepCopier_def)
  with Pair that show thesis by (simp add: isDeepCopy_def)
qed

lemma deep_ptr:
  assumes c: "deepCopier lr T c"
  shows "deepCopier lr (TPtr T) (copyPtr c)"
  unfolding deepCopier_def
proof (intro allI impI)
  fix h v t A assume "reads lr h (TPtr T) v t A"
  then show "isDeepCopy lr (TPtr T) h t (copyPtr c v h)"
  proof (rule reads_ptrE)
    fix a w x B assume v: "v = GAddr (Some a)" "t = XPtr x" "h ! a = Target w" and "reads lr h T w x B"
    with c obtain v' h' A' where r: "c w h = (v', h')" "prefix h h'" "reads lr h' T v' x A'" "A' \<subseteq> {length h..<length h'}"
      by (elim deepCopierE) (auto simp: fresh_def)
    have "isDeepCopy lr (TPtr T) h (XPtr x) (GAddr (Some (length h')), h' @ [Target v'])"
      using r(2,4) by (rule isDeepCopy_cell) (rule reads.ptr [OF _ _ reads_prefix [OF r(3)]], simp_all)
    with v r show ?thesis by simp
  qed (auto simp: isDeepCopy_def fresh_def intro: reads.nil_ptr)
qed

lemma copyList_deep:
  assumes c: "deepCopier lr T c" and "list_all2 (\<lambda>v x. reads lr h T v (fst x) (snd x)) vs xs"
  obtains vs' h' ys where "copyList c vs h = (vs', h')" "prefix h h'" "map fst ys = map fst xs" "\<Union> (snd ` set ys) \<subseteq> {length h..<length h'}"
    "list_all2 (\<lambda>v x. reads lr h' T v (fst x) (snd x)) vs' ys"
  using assms(2)
proof (induction vs arbitrary: xs h thesis)
  case Nil
  then show ?case by simp
next
  case (Cons v vs)
  from Cons.prems(2) obtain x xs' where xs: "xs = x # xs'" "reads lr h T v (fst x) (snd x)" "list_all2 (\<lambda>v x. reads lr h T v (fst x) (snd x)) vs xs'"
    by (auto simp: list_all2_Cons1)
  from c xs(2) obtain v' h1 A where A: "c v h = (v', h1)" "prefix h h1" "reads lr h1 T v' (fst x) A" "A \<subseteq> {length h..<length h1}"
    by (elim deepCopierE) (auto simp: fresh_def)
  from xs(3) have "list_all2 (\<lambda>v x. reads lr h1 T v (fst x) (snd x)) vs xs'"
    by (rule list_all2_mono) (rule reads_prefix [OF _ A(2)])
  then obtain vs' h2 ys where ys: "copyList c vs h1 = (vs', h2)" "prefix h1 h2" "map fst ys = map fst xs'"
    "\<Union> (snd ` set ys) \<subseteq> {length h1..<length h2}" "list_all2 (\<lambda>v x. reads lr h2 T v (fst x) (snd x)) vs' ys"
    by (rule Cons.IH [rotated])
  have len: "length h \<le> length h1" "length h1 \<le> length h2" using A(2) ys(2) by (simp_all add: prefix_length_le)
  show ?case
  proof (rule Cons.prems(1))
    show "copyList c (v # vs) h = (v' # vs', h2)" by (simp add: A(1) ys(1))
    show "prefix h h2" using A(2) ys(2) by (rule prefix_order.trans)
    show "map fst ((fst x, A) # ys) = map fst xs" by (simp add: xs(1) ys(3))
    show "\<Union> (snd ` set ((fst x, A) # ys)) \<subseteq> {length h..<length h2}" using A(4) ys(4) len by fastforce
    show "list_all2 (\<lambda>v x. reads lr h2 T v (fst x) (snd x)) (v' # vs') ((fst x, A) # ys)"
      by (simp add: ys(5) reads_prefix [OF A(3) ys(2)])
  qed
qed

lemma list_all2_reads_prefix:
  "list_all2 (\<lambda>v x. reads lr h T v (fst x) (snd x)) vs xs \<Longrightarrow> prefix h h' \<Longrightarrow> list_all2 (\<lambda>v x. reads lr h' T v (fst x) (snd x)) vs xs"
  by (erule list_all2_mono) (rule reads_prefix)

lemma deep_slice:
  assumes c: "deepCopier lr T c"
  shows "deepCopier lr (TSlice T) (copySlice c)"
  unfolding deepCopier_def
proof (intro allI impI)
  fix h v t A assume "reads lr h (TSlice T) v t A"
  then show "isDeepCopy lr (TSlice T) h t (copySlice c v h)"
  proof (rule reads_sliceE)
    fix a vs xs assume v: "v = GAddr (Some a)" "t = XSlice (map fst xs)" "h ! a = Elems vs"
      and "list_all2 (\<lambda>v x. reads lr h T v (fst x) (snd x)) vs xs"
    from copyList_deep [OF c this(4)] obtain vs' h' ys where r: "copyList c vs h = (vs', h')" "prefix h h'" "map fst ys = map fst xs"
      "\<Union> (snd ` set ys) \<subseteq> {length h..<length h'}" "list_all2 (\<lambda>v x. reads lr h' T v (fst x) (snd x)) vs' ys" .
    have "isDeepCopy lr (TSlice T) h (XSlice (map fst ys)) (GAddr (Some (length h')), h' @ [Elems vs'])"
      using r(2,4) by (rule isDeepCopy_cell) (rule reads.slice [OF _ _ list_all2_reads_prefix [OF r(5)]], simp_all)
    with v r show ?thesis by simp
  qed (auto simp: isDeepCopy_def fresh_def intro: reads.nil_slice)
qed

lemma deep_map:
  assumes c: "deepCopier lr T c"
  shows "deepCopier lr (TMap T) (copyMap c)"
  unfolding deepCopier_def
proof (intro allI impI)
  fix h v t A assume "reads lr h (TMap T) v t A"
  then show "isDeepCopy lr (TMap T) h t (copyMap c v h)"
  proof (rule reads_mapE)
    fix a kvs xs assume v: "v = GAddr (Some a)" "t = XMap (zip (map fst kvs) (map fst xs))" "h ! a = Entries kvs"
      and l: "list_all2 (\<lambda>v x. reads lr h T v (fst x) (snd x)) (map snd kvs) xs"
    from copyList_deep [OF c l] obtain vs' h' ys where r: "copyList c (map snd kvs) h = (vs', h')" "prefix h h'" "map fst ys = map fst xs"
      "\<Union> (snd ` set ys) \<subseteq> {length h..<length h'}" "list_all2 (\<lambda>v x. reads lr h' T v (fst x) (snd x)) vs' ys" .
    have "length kvs = length vs'"
      using list_all2_lengthD [OF l] list_all2_lengthD [OF r(5)] arg_cong [OF r(3), of length] by simp
    then have k: "map fst (zip (map fst kvs) vs') = map fst kvs" "map snd (zip (map fst kvs) vs') = vs'" by simp_all
    let ?cell = "Entries (zip (map fst kvs) vs')"
    have "list_all2 (\<lambda>v x. reads lr (h' @ [?cell]) T v (fst x) (snd x)) (map snd (zip (map fst kvs) vs')) ys"
      unfolding k by (rule list_all2_reads_prefix [OF r(5)]) simp
    then have "reads lr (h' @ [?cell]) (TMap T) (GAddr (Some (length h'))) (XMap (zip (map fst (zip (map fst kvs) vs')) (map fst ys)))
        (insert (length h') (\<Union> (snd ` set ys)))"
      by (intro reads.map) simp_all
    then have "isDeepCopy lr (TMap T) h (XMap (zip (map fst kvs) (map fst ys))) (GAddr (Some (length h')), h' @ [?cell])"
      unfolding k by (rule isDeepCopy_cell [OF r(2,4)])
    with v r show ?thesis by simp
  qed (auto simp: isDeepCopy_def fresh_def intro: reads.nil_map)
qed

text \<open>The fields of a struct: those with a step get a copy of their own, the others keep the value of the assignment.\<close>

lemma map_fst_setField [simp]: "map fst (setField f v fs) = map fst fs"
  by (simp add: setField_def comp_def case_prod_unfold)

lemma map_of_setField [simp]:
  "map_of (setField f v fs) g = (if g = f \<and> map_of fs f \<noteq> None then Some v else map_of fs g)"
  by (induction fs) (auto simp: setField_def)

lemma copyFields_deep:
  assumes "distinct (map fst acts)" and "map fst inn = map fst Ts" and "map fst out = map fst Ts"
    and "\<forall>f c. (f, c) \<in> set acts \<longrightarrow> (\<exists>T. map_of Ts f = Some T \<and> deepCopier lr T c)"
    and "\<forall>f T v. map_of Ts f = Some T \<longrightarrow> map_of inn f = Some v \<longrightarrow> reads lr h T v (X f) (B f)"
  obtains out' h' where "copyFields acts inn out h = (out', h')" "prefix h h'" "map fst out' = map fst Ts"
    "\<forall>f. f \<notin> fst ` set acts \<longrightarrow> map_of out' f = map_of out f"
    "\<forall>f T v. f \<in> fst ` set acts \<longrightarrow> map_of Ts f = Some T \<longrightarrow> map_of out' f = Some v \<longrightarrow> fresh lr h h' T v (X f)"
  using assms
proof (induction acts arbitrary: out h thesis)
  case Nil
  then show ?case by simp
next
  case (Cons act acts)
  obtain g c where act: "act = (g, c)" by force
  with Cons.prems(5) obtain T where T: "map_of Ts g = Some T" "deepCopier lr T c" by auto
  with Cons.prems(3) obtain w where w: "map_of inn g = Some w"
    by (metis map_of_eq_None_iff option.distinct(1) option.exhaust set_map)
  with Cons.prems(6) T have "reads lr h T w (X g) (B g)" by blast
  with T(2) obtain w' h1 where A: "c w h = (w', h1)" "prefix h h1" "fresh lr h h1 T w' (X g)"
    by (rule deepCopierE)
  have in1: "\<forall>f T v. map_of Ts f = Some T \<longrightarrow> map_of inn f = Some v \<longrightarrow> reads lr h1 T v (X f) (B f)"
    using Cons.prems(6) reads_prefix [OF _ A(2)] by blast
  obtain out' h' where o: "copyFields acts inn (setField g w' out) h1 = (out', h')" "prefix h1 h'" "map fst out' = map fst Ts"
    "\<forall>f. f \<notin> fst ` set acts \<longrightarrow> map_of out' f = map_of (setField g w' out) f"
    "\<forall>f T v. f \<in> fst ` set acts \<longrightarrow> map_of Ts f = Some T \<longrightarrow> map_of out' f = Some v \<longrightarrow> fresh lr h1 h' T v (X f)"
    by (rule Cons.IH [of "setField g w' out" h1]) (use Cons.prems in1 in auto)
  have "g \<notin> fst ` set acts" using Cons.prems(2) act by simp
  with o(4) have "map_of out' g = Some w' \<or> map_of out' g = None" by simp
  with A(3) T(1) have "\<forall>T v. map_of Ts g = Some T \<longrightarrow> map_of out' g = Some v \<longrightarrow> fresh lr h h' T v (X g)"
    using fresh_mono [OF _ prefix_order.refl o(2)] by auto
  moreover have "\<forall>f T v. f \<in> fst ` set acts \<longrightarrow> map_of Ts f = Some T \<longrightarrow> map_of out' f = Some v \<longrightarrow> fresh lr h h' T v (X f)"
    using o(5) fresh_mono [OF _ A(2) prefix_order.refl] by blast
  ultimately show ?case
    using o(1,3,4) act w A(1,2) o(2) by (intro Cons.prems(1) [of out' h']) (auto intro: prefix_order.trans)
qed

lemma struct_fresh:
  assumes "prefix h h'" and "distinct (map fst Ts)" and "map fst vs = map fst Ts"
    and ex: "\<forall>f T w. map_of Ts f = Some T \<longrightarrow> map_of vs f = Some w \<longrightarrow> fresh lr h h' T w (X f)"
  shows "fresh lr h h' (TStruct Ts) (GStruct vs) (XStruct (map (\<lambda>f. (f, X f)) (map fst Ts)))"
proof -
  obtain B where B: "\<And>f T w. map_of Ts f = Some T \<Longrightarrow> map_of vs f = Some w \<Longrightarrow> reads lr h' T w (X f) (B f) \<and> B f \<subseteq> {length h..<length h'}"
  proof
    let ?B = "\<lambda>f. SOME A. reads lr h' (the (map_of Ts f)) (the (map_of vs f)) (X f) A \<and> A \<subseteq> {length h..<length h'}"
    fix f T w assume "map_of Ts f = Some T" "map_of vs f = Some w"
    moreover from this ex have "\<exists>A. reads lr h' T w (X f) A \<and> A \<subseteq> {length h..<length h'}" by (simp add: fresh_def)
    ultimately show "reads lr h' T w (X f) (?B f) \<and> ?B f \<subseteq> {length h..<length h'}"
      using someI_ex [of "\<lambda>A. reads lr h' T w (X f) A \<and> A \<subseteq> {length h..<length h'}"] by simp
  qed
  have "\<exists>T w. map_of Ts f = Some T \<and> map_of vs f = Some w" if "f \<in> set (map fst Ts)" for f
    using that assms(3) by (metis map_of_eq_None_iff not_Some_eq set_map)
  then have "\<Union> (B ` set (map fst Ts)) \<subseteq> {length h..<length h'}" using B by blast
  moreover have "reads lr h' (TStruct Ts) (GStruct vs) (XStruct (map (\<lambda>f. (f, X f)) (map fst Ts))) (\<Union> (B ` set (map fst Ts)))"
    using B by (intro reads.struct [OF assms(2,3)]) simp
  ultimately show ?thesis unfolding fresh_def by (intro exI conjI)
qed

lemma deep_struct:
  assumes acts: "distinct (map fst acts)" "\<forall>f c. (f, c) \<in> set acts \<longrightarrow> (\<exists>T. map_of Ts f = Some T \<and> deepCopier lr T c)"
    and rest: "\<forall>f T. (f, T) \<in> set Ts \<longrightarrow> f \<in> fst ` set acts \<or> flat flatLibs T"
  shows "deepCopier lr (TStruct Ts) (intoStruct acts)"
  unfolding deepCopier_def
proof (intro allI impI)
  fix h v t A assume "reads lr h (TStruct Ts) v t A"
  then show "isDeepCopy lr (TStruct Ts) h t (intoStruct acts v h)"
  proof (rule reads_structE)
    fix vs X B assume v: "v = GStruct vs" "t = XStruct (map (\<lambda>f. (f, X f)) (map fst Ts))" "distinct (map fst Ts)" "map fst vs = map fst Ts"
      and r: "\<forall>f T v. map_of Ts f = Some T \<longrightarrow> map_of vs f = Some v \<longrightarrow> reads lr h T v (X f) (B f)"
    from copyFields_deep [OF acts(1) v(4) v(4) acts(2) r] obtain out' h' where o: "copyFields acts vs vs h = (out', h')" "prefix h h'" "map fst out' = map fst Ts"
      "\<forall>f. f \<notin> fst ` set acts \<longrightarrow> map_of out' f = map_of vs f"
      "\<forall>f T v. f \<in> fst ` set acts \<longrightarrow> map_of Ts f = Some T \<longrightarrow> map_of out' f = Some v \<longrightarrow> fresh lr h h' T v (X f)" .
    have "fresh lr h h' T w (X f)" if f: "map_of Ts f = Some T" "map_of out' f = Some w" for f T w
    proof (cases "f \<in> fst ` set acts")
      case True
      with o(5) f show ?thesis by blast
    next
      case False
      with o(4) r f have r: "reads lr h T w (X f) (B f)" by simp
      from False rest f(1) have "flat flatLibs T" by (auto dest: map_of_SomeD)
      with flat_footprint [OF r] reads_prefix [OF r o(2)] show ?thesis by (auto simp: fresh_def)
    qed
    with v o show ?thesis using struct_fresh [OF o(2) v(3) o(3)] by (simp add: isDeepCopy_def)
  qed
qed

text \<open>A deep copy and its original share no cell: whatever is written to the cells of the one, the other stands for what it stood for.\<close>

lemma isDeepCopy_independent:
  assumes r: "reads lr h T v t A" and "isDeepCopy lr T h t (v', h')"
  obtains A' where "reads lr h' T v' t A'" "A \<inter> A' = {}"
    "\<And>h''. length h'' = length h' \<Longrightarrow> \<forall>a. a \<notin> A' \<longrightarrow> h'' ! a = h' ! a \<Longrightarrow> reads lr h'' T v t A"
    "\<And>h''. length h'' = length h' \<Longrightarrow> \<forall>a. a \<notin> A \<longrightarrow> h'' ! a = h' ! a \<Longrightarrow> reads lr h'' T v' t A'"
proof -
  from assms(2) obtain A' where A': "prefix h h'" "reads lr h' T v' t A'" "A' \<subseteq> {length h..<length h'}"
    by (auto simp: isDeepCopy_def fresh_def)
  have r': "reads lr h' T v t A" using r A'(1) by (rule reads_prefix)
  have d: "A \<inter> A' = {}" using reads_bound [OF r] A'(3) by fastforce
  show thesis
    by (rule that [OF A'(2) d]) (rule reads_frame [OF r'], use d in auto, rule reads_frame [OF A'(2)], use d in auto)
qed

lemma deep_struct_list:
  assumes "distinct (map fst acts)" and "list_all (\<lambda>(f, c). case map_of Ts f of None \<Rightarrow> False | Some T \<Rightarrow> deepCopier lr T c) acts"
    and "list_all (\<lambda>(f, T). f \<in> set (map fst acts) \<or> flat flatLibs T) Ts"
  shows "deepCopier lr (TStruct Ts) (intoStruct acts)"
  by (rule deep_struct) (use assms in \<open>fastforce simp: list_all_iff split: option.splits\<close>)+

lemmas deep_rules = deep_lib deep_assign deep_ptr deep_slice deep_map

end

end
