(* ===== verification/Deep_Copy.thy ===== *)
theory Deep_Copy
  imports Go_Heap
begin

section \<open>Deep copies of the API objects\<close>

text \<open>
  \<open>api/v1alpha1/zz_generated.deepcopy.go\<close> over the memory of theory \<open>Go_Heap\<close>: for every struct of the API its type (the fields as the \<open>*_types.go\<close> files declare them, embedded structs under the name of their type) and its \<open>DeepCopyInto\<close>, \<open>DeepCopy\<close> and, for objects and lists of objects,
  \<open>DeepCopyObject\<close>, with the steps in the order of the code. The receiver of \<open>DeepCopyInto\<close> is the struct itself, that of the others the pointer. \<open>lib\<close> gives the copies of the types of libraries by their names: their \<open>DeepCopyInto\<close>; their \<open>DeepCopy\<close> on a pointer is a new target with it. What the code relies on of them is the locale
  \<open>go_library\<close>.
\<close>

text \<open>The types of libraries that the code copies by assignment, alone or as the elements of a slice.\<close>

definition flatTypes :: "string list" where
  "flatTypes = [''metav1.TypeMeta'', ''metav1.Duration'', ''v1.LocalObjectReference'', ''v1.PullPolicy'']"

text \<open>A nil pointer becomes a nil interface, not an interface that holds a nil pointer.\<close>

definition asObject :: "copier \<Rightarrow> gval \<Rightarrow> memory \<Rightarrow> gval option \<times> memory" where
  "asObject c v h = (case c v h of (c', h') \<Rightarrow> (if c' \<noteq> GAddr None then Some c' else None, h'))"

subsection \<open>HorizontalRunnerAutoscaler: \<open>horizontalrunnerautoscaler_types.go\<close>\<close>

definition type_CheckRunSpec :: gtype where
  "type_CheckRunSpec = TStruct [(''Types'', TSlice TBasic), (''Status'', TBasic), (''Names'', TSlice TBasic), (''Repositories'', TSlice TBasic)]"

definition DeepCopyInto_CheckRunSpec :: "(string \<Rightarrow> copier) \<Rightarrow> copier" where
  "DeepCopyInto_CheckRunSpec lib = intoStruct [(''Types'', copySlice assign), (''Names'', copySlice assign), (''Repositories'', copySlice assign)]"

definition DeepCopy_CheckRunSpec :: "(string \<Rightarrow> copier) \<Rightarrow> copier" where
  "DeepCopy_CheckRunSpec lib = copyPtr (DeepCopyInto_CheckRunSpec lib)"

definition type_WorkflowJobSpec :: gtype where
  "type_WorkflowJobSpec = TStruct []"

definition DeepCopyInto_WorkflowJobSpec :: "(string \<Rightarrow> copier) \<Rightarrow> copier" where
  "DeepCopyInto_WorkflowJobSpec lib = intoStruct []"

definition DeepCopy_WorkflowJobSpec :: "(string \<Rightarrow> copier) \<Rightarrow> copier" where
  "DeepCopy_WorkflowJobSpec lib = copyPtr (DeepCopyInto_WorkflowJobSpec lib)"

definition type_PullRequestSpec :: gtype where
  "type_PullRequestSpec = TStruct [(''Types'', TSlice TBasic), (''Branches'', TSlice TBasic)]"

definition DeepCopyInto_PullRequestSpec :: "(string \<Rightarrow> copier) \<Rightarrow> copier" where
  "DeepCopyInto_PullRequestSpec lib = intoStruct [(''Types'', copySlice assign), (''Branches'', copySlice assign)]"

definition DeepCopy_PullRequestSpec :: "(string \<Rightarrow> copier) \<Rightarrow> copier" where
  "DeepCopy_PullRequestSpec lib = copyPtr (DeepCopyInto_PullRequestSpec lib)"

definition type_PushSpec :: gtype where
  "type_PushSpec = TStruct []"

definition DeepCopyInto_PushSpec :: "(string \<Rightarrow> copier) \<Rightarrow> copier" where
  "DeepCopyInto_PushSpec lib = intoStruct []"

definition DeepCopy_PushSpec :: "(string \<Rightarrow> copier) \<Rightarrow> copier" where
  "DeepCopy_PushSpec lib = copyPtr (DeepCopyInto_PushSpec lib)"

definition type_GitHubEventScaleUpTriggerSpec :: gtype where
  "type_GitHubEventScaleUpTriggerSpec = TStruct
     [(''CheckRun'', TPtr type_CheckRunSpec), (''PullRequest'', TPtr type_PullRequestSpec), (''Push'', TPtr type_PushSpec),
      (''WorkflowJob'', TPtr type_WorkflowJobSpec)]"

definition DeepCopyInto_GitHubEventScaleUpTriggerSpec :: "(string \<Rightarrow> copier) \<Rightarrow> copier" where
  "DeepCopyInto_GitHubEventScaleUpTriggerSpec lib = intoStruct
     [(''CheckRun'', copyPtr (DeepCopyInto_CheckRunSpec lib)), (''PullRequest'', copyPtr (DeepCopyInto_PullRequestSpec lib)),
      (''Push'', copyPtr assign), (''WorkflowJob'', copyPtr assign)]"

definition DeepCopy_GitHubEventScaleUpTriggerSpec :: "(string \<Rightarrow> copier) \<Rightarrow> copier" where
  "DeepCopy_GitHubEventScaleUpTriggerSpec lib = copyPtr (DeepCopyInto_GitHubEventScaleUpTriggerSpec lib)"

definition type_ScaleUpTrigger :: gtype where
  "type_ScaleUpTrigger = TStruct
     [(''GitHubEvent'', TPtr type_GitHubEventScaleUpTriggerSpec), (''Amount'', TBasic), (''Duration'', TLib ''metav1.Duration'')]"

definition DeepCopyInto_ScaleUpTrigger :: "(string \<Rightarrow> copier) \<Rightarrow> copier" where
  "DeepCopyInto_ScaleUpTrigger lib = intoStruct [(''GitHubEvent'', copyPtr (DeepCopyInto_GitHubEventScaleUpTriggerSpec lib)), (''Duration'', assign)]"

definition DeepCopy_ScaleUpTrigger :: "(string \<Rightarrow> copier) \<Rightarrow> copier" where
  "DeepCopy_ScaleUpTrigger lib = copyPtr (DeepCopyInto_ScaleUpTrigger lib)"

definition type_CapacityReservation :: gtype where
  "type_CapacityReservation = TStruct
     [(''Name'', TBasic), (''ExpirationTime'', TLib ''metav1.Time''), (''Replicas'', TBasic), (''EffectiveTime'', TLib ''metav1.Time'')]"

definition DeepCopyInto_CapacityReservation :: "(string \<Rightarrow> copier) \<Rightarrow> copier" where
  "DeepCopyInto_CapacityReservation lib = intoStruct [(''ExpirationTime'', lib ''metav1.Time''), (''EffectiveTime'', lib ''metav1.Time'')]"

definition DeepCopy_CapacityReservation :: "(string \<Rightarrow> copier) \<Rightarrow> copier" where
  "DeepCopy_CapacityReservation lib = copyPtr (DeepCopyInto_CapacityReservation lib)"

definition type_ScaleTargetRef :: gtype where
  "type_ScaleTargetRef = TStruct [(''Kind'', TBasic), (''Name'', TBasic)]"

definition DeepCopyInto_ScaleTargetRef :: "(string \<Rightarrow> copier) \<Rightarrow> copier" where
  "DeepCopyInto_ScaleTargetRef lib = intoStruct []"

definition DeepCopy_ScaleTargetRef :: "(string \<Rightarrow> copier) \<Rightarrow> copier" where
  "DeepCopy_ScaleTargetRef lib = copyPtr (DeepCopyInto_ScaleTargetRef lib)"

definition type_MetricSpec :: gtype where
  "type_MetricSpec = TStruct
     [(''Type'', TBasic), (''RepositoryNames'', TSlice TBasic), (''ScaleUpThreshold'', TBasic), (''ScaleDownThreshold'', TBasic),
      (''ScaleUpFactor'', TBasic), (''ScaleDownFactor'', TBasic), (''ScaleUpAdjustment'', TBasic), (''ScaleDownAdjustment'', TBasic)]"

definition DeepCopyInto_MetricSpec :: "(string \<Rightarrow> copier) \<Rightarrow> copier" where
  "DeepCopyInto_MetricSpec lib = intoStruct [(''RepositoryNames'', copySlice assign)]"

definition DeepCopy_MetricSpec :: "(string \<Rightarrow> copier) \<Rightarrow> copier" where
  "DeepCopy_MetricSpec lib = copyPtr (DeepCopyInto_MetricSpec lib)"

definition type_RecurrenceRule :: gtype where
  "type_RecurrenceRule = TStruct [(''Frequency'', TBasic), (''UntilTime'', TLib ''metav1.Time'')]"

definition DeepCopyInto_RecurrenceRule :: "(string \<Rightarrow> copier) \<Rightarrow> copier" where
  "DeepCopyInto_RecurrenceRule lib = intoStruct [(''UntilTime'', lib ''metav1.Time'')]"

definition DeepCopy_RecurrenceRule :: "(string \<Rightarrow> copier) \<Rightarrow> copier" where
  "DeepCopy_RecurrenceRule lib = copyPtr (DeepCopyInto_RecurrenceRule lib)"

definition type_ScheduledOverride :: gtype where
  "type_ScheduledOverride = TStruct
     [(''StartTime'', TLib ''metav1.Time''), (''EndTime'', TLib ''metav1.Time''), (''MinReplicas'', TPtr TBasic),
      (''RecurrenceRule'', type_RecurrenceRule)]"

definition DeepCopyInto_ScheduledOverride :: "(string \<Rightarrow> copier) \<Rightarrow> copier" where
  "DeepCopyInto_ScheduledOverride lib = intoStruct
     [(''StartTime'', lib ''metav1.Time''), (''EndTime'', lib ''metav1.Time''), (''MinReplicas'', copyPtr assign),
      (''RecurrenceRule'', DeepCopyInto_RecurrenceRule lib)]"

definition DeepCopy_ScheduledOverride :: "(string \<Rightarrow> copier) \<Rightarrow> copier" where
  "DeepCopy_ScheduledOverride lib = copyPtr (DeepCopyInto_ScheduledOverride lib)"

definition type_HorizontalRunnerAutoscalerSpec :: gtype where
  "type_HorizontalRunnerAutoscalerSpec = TStruct
     [(''ScaleTargetRef'', type_ScaleTargetRef), (''MinReplicas'', TPtr TBasic), (''MaxReplicas'', TPtr TBasic),
      (''ScaleDownDelaySecondsAfterScaleUp'', TPtr TBasic), (''Metrics'', TSlice type_MetricSpec), (''ScaleUpTriggers'', TSlice type_ScaleUpTrigger),
      (''CapacityReservations'', TSlice type_CapacityReservation), (''ScheduledOverrides'', TSlice type_ScheduledOverride)]"

definition DeepCopyInto_HorizontalRunnerAutoscalerSpec :: "(string \<Rightarrow> copier) \<Rightarrow> copier" where
  "DeepCopyInto_HorizontalRunnerAutoscalerSpec lib = intoStruct
     [(''ScaleTargetRef'', assign), (''MinReplicas'', copyPtr assign), (''MaxReplicas'', copyPtr assign),
      (''ScaleDownDelaySecondsAfterScaleUp'', copyPtr assign), (''Metrics'', copySlice (DeepCopyInto_MetricSpec lib)),
      (''ScaleUpTriggers'', copySlice (DeepCopyInto_ScaleUpTrigger lib)),
      (''CapacityReservations'', copySlice (DeepCopyInto_CapacityReservation lib)),
      (''ScheduledOverrides'', copySlice (DeepCopyInto_ScheduledOverride lib))]"

definition DeepCopy_HorizontalRunnerAutoscalerSpec :: "(string \<Rightarrow> copier) \<Rightarrow> copier" where
  "DeepCopy_HorizontalRunnerAutoscalerSpec lib = copyPtr (DeepCopyInto_HorizontalRunnerAutoscalerSpec lib)"

definition type_CacheEntry :: gtype where
  "type_CacheEntry = TStruct [(''Key'', TBasic), (''Value'', TBasic), (''ExpirationTime'', TLib ''metav1.Time'')]"

definition DeepCopyInto_CacheEntry :: "(string \<Rightarrow> copier) \<Rightarrow> copier" where
  "DeepCopyInto_CacheEntry lib = intoStruct [(''ExpirationTime'', lib ''metav1.Time'')]"

definition DeepCopy_CacheEntry :: "(string \<Rightarrow> copier) \<Rightarrow> copier" where
  "DeepCopy_CacheEntry lib = copyPtr (DeepCopyInto_CacheEntry lib)"

definition type_HorizontalRunnerAutoscalerStatus :: gtype where
  "type_HorizontalRunnerAutoscalerStatus = TStruct
     [(''ObservedGeneration'', TBasic), (''DesiredReplicas'', TPtr TBasic), (''LastSuccessfulScaleOutTime'', TPtr (TLib ''metav1.Time'')),
      (''CacheEntries'', TSlice type_CacheEntry), (''ScheduledOverridesSummary'', TPtr TBasic)]"

definition DeepCopyInto_HorizontalRunnerAutoscalerStatus :: "(string \<Rightarrow> copier) \<Rightarrow> copier" where
  "DeepCopyInto_HorizontalRunnerAutoscalerStatus lib = intoStruct
     [(''DesiredReplicas'', copyPtr assign), (''LastSuccessfulScaleOutTime'', copyPtr (lib ''metav1.Time'')),
      (''CacheEntries'', copySlice (DeepCopyInto_CacheEntry lib)), (''ScheduledOverridesSummary'', copyPtr assign)]"

definition DeepCopy_HorizontalRunnerAutoscalerStatus :: "(string \<Rightarrow> copier) \<Rightarrow> copier" where
  "DeepCopy_HorizontalRunnerAutoscalerStatus lib = copyPtr (DeepCopyInto_HorizontalRunnerAutoscalerStatus lib)"

definition type_HorizontalRunnerAutoscaler :: gtype where
  "type_HorizontalRunnerAutoscaler = TStruct
     [(''TypeMeta'', TLib ''metav1.TypeMeta''), (''ObjectMeta'', TLib ''metav1.ObjectMeta''), (''Spec'', type_HorizontalRunnerAutoscalerSpec),
      (''Status'', type_HorizontalRunnerAutoscalerStatus)]"

definition DeepCopyInto_HorizontalRunnerAutoscaler :: "(string \<Rightarrow> copier) \<Rightarrow> copier" where
  "DeepCopyInto_HorizontalRunnerAutoscaler lib = intoStruct
     [(''TypeMeta'', assign), (''ObjectMeta'', lib ''metav1.ObjectMeta''), (''Spec'', DeepCopyInto_HorizontalRunnerAutoscalerSpec lib),
      (''Status'', DeepCopyInto_HorizontalRunnerAutoscalerStatus lib)]"

definition DeepCopy_HorizontalRunnerAutoscaler :: "(string \<Rightarrow> copier) \<Rightarrow> copier" where
  "DeepCopy_HorizontalRunnerAutoscaler lib = copyPtr (DeepCopyInto_HorizontalRunnerAutoscaler lib)"

definition DeepCopyObject_HorizontalRunnerAutoscaler :: "(string \<Rightarrow> copier) \<Rightarrow> gval \<Rightarrow> memory \<Rightarrow> gval option \<times> memory" where
  "DeepCopyObject_HorizontalRunnerAutoscaler lib = asObject (DeepCopy_HorizontalRunnerAutoscaler lib)"

definition type_HorizontalRunnerAutoscalerList :: gtype where
  "type_HorizontalRunnerAutoscalerList = TStruct
     [(''TypeMeta'', TLib ''metav1.TypeMeta''), (''ListMeta'', TLib ''metav1.ListMeta''), (''Items'', TSlice type_HorizontalRunnerAutoscaler)]"

definition DeepCopyInto_HorizontalRunnerAutoscalerList :: "(string \<Rightarrow> copier) \<Rightarrow> copier" where
  "DeepCopyInto_HorizontalRunnerAutoscalerList lib = intoStruct
     [(''TypeMeta'', assign), (''ListMeta'', lib ''metav1.ListMeta''), (''Items'', copySlice (DeepCopyInto_HorizontalRunnerAutoscaler lib))]"

definition DeepCopy_HorizontalRunnerAutoscalerList :: "(string \<Rightarrow> copier) \<Rightarrow> copier" where
  "DeepCopy_HorizontalRunnerAutoscalerList lib = copyPtr (DeepCopyInto_HorizontalRunnerAutoscalerList lib)"

definition DeepCopyObject_HorizontalRunnerAutoscalerList :: "(string \<Rightarrow> copier) \<Rightarrow> gval \<Rightarrow> memory \<Rightarrow> gval option \<times> memory" where
  "DeepCopyObject_HorizontalRunnerAutoscalerList lib = asObject (DeepCopy_HorizontalRunnerAutoscalerList lib)"

subsection \<open>Runner: \<open>runner_types.go\<close>\<close>

definition type_RunnerConfig :: gtype where
  "type_RunnerConfig = TStruct
     [(''Enterprise'', TBasic), (''Organization'', TBasic), (''Repository'', TBasic), (''Labels'', TSlice TBasic), (''Group'', TBasic),
      (''Ephemeral'', TPtr TBasic), (''Image'', TBasic), (''WorkDir'', TBasic), (''DockerdWithinRunnerContainer'', TPtr TBasic),
      (''DockerEnabled'', TPtr TBasic), (''DockerMTU'', TPtr TBasic), (''DockerRegistryMirror'', TPtr TBasic),
      (''VolumeSizeLimit'', TPtr (TLib ''resource.Quantity'')), (''VolumeStorageMedium'', TPtr TBasic)]"

definition DeepCopyInto_RunnerConfig :: "(string \<Rightarrow> copier) \<Rightarrow> copier" where
  "DeepCopyInto_RunnerConfig lib = intoStruct
     [(''Labels'', copySlice assign), (''Ephemeral'', copyPtr assign), (''DockerdWithinRunnerContainer'', copyPtr assign),
      (''DockerEnabled'', copyPtr assign), (''DockerMTU'', copyPtr assign), (''DockerRegistryMirror'', copyPtr assign),
      (''VolumeSizeLimit'', copyPtr (lib ''resource.Quantity'')), (''VolumeStorageMedium'', copyPtr assign)]"

definition DeepCopy_RunnerConfig :: "(string \<Rightarrow> copier) \<Rightarrow> copier" where
  "DeepCopy_RunnerConfig lib = copyPtr (DeepCopyInto_RunnerConfig lib)"

definition type_RunnerPodSpec :: gtype where
  "type_RunnerPodSpec = TStruct
     [(''DockerdContainerResources'', TLib ''v1.ResourceRequirements''), (''DockerVolumeMounts'', TSlice (TLib ''v1.VolumeMount'')),
      (''DockerEnv'', TSlice (TLib ''v1.EnvVar'')), (''Containers'', TSlice (TLib ''v1.Container'')), (''ImagePullPolicy'', TLib ''v1.PullPolicy''),
      (''Env'', TSlice (TLib ''v1.EnvVar'')), (''EnvFrom'', TSlice (TLib ''v1.EnvFromSource'')), (''Resources'', TLib ''v1.ResourceRequirements''),
      (''VolumeMounts'', TSlice (TLib ''v1.VolumeMount'')), (''Volumes'', TSlice (TLib ''v1.Volume'')), (''EnableServiceLinks'', TPtr TBasic),
      (''InitContainers'', TSlice (TLib ''v1.Container'')), (''NodeSelector'', TMap TBasic), (''ServiceAccountName'', TBasic),
      (''AutomountServiceAccountToken'', TPtr TBasic), (''SidecarContainers'', TSlice (TLib ''v1.Container'')),
      (''SecurityContext'', TPtr (TLib ''v1.PodSecurityContext'')), (''ImagePullSecrets'', TSlice (TLib ''v1.LocalObjectReference'')),
      (''Affinity'', TPtr (TLib ''v1.Affinity'')), (''Tolerations'', TSlice (TLib ''v1.Toleration'')),
      (''TerminationGracePeriodSeconds'', TPtr TBasic), (''EphemeralContainers'', TSlice (TLib ''v1.EphemeralContainer'')),
      (''HostAliases'', TSlice (TLib ''v1.HostAlias'')), (''TopologySpreadConstraints'', TSlice (TLib ''v1.TopologySpreadConstraint'')),
      (''RuntimeClassName'', TPtr TBasic), (''DnsConfig'', TPtr (TLib ''v1.PodDNSConfig''))]"

definition DeepCopyInto_RunnerPodSpec :: "(string \<Rightarrow> copier) \<Rightarrow> copier" where
  "DeepCopyInto_RunnerPodSpec lib = intoStruct
     [(''DockerdContainerResources'', lib ''v1.ResourceRequirements''), (''DockerVolumeMounts'', copySlice (lib ''v1.VolumeMount'')),
      (''DockerEnv'', copySlice (lib ''v1.EnvVar'')), (''Containers'', copySlice (lib ''v1.Container'')), (''Env'', copySlice (lib ''v1.EnvVar'')),
      (''EnvFrom'', copySlice (lib ''v1.EnvFromSource'')), (''Resources'', lib ''v1.ResourceRequirements''),
      (''VolumeMounts'', copySlice (lib ''v1.VolumeMount'')), (''Volumes'', copySlice (lib ''v1.Volume'')), (''EnableServiceLinks'', copyPtr assign),
      (''InitContainers'', copySlice (lib ''v1.Container'')), (''NodeSelector'', copyMap assign), (''AutomountServiceAccountToken'', copyPtr assign),
      (''SidecarContainers'', copySlice (lib ''v1.Container'')), (''SecurityContext'', copyPtr (lib ''v1.PodSecurityContext'')),
      (''ImagePullSecrets'', copySlice assign), (''Affinity'', copyPtr (lib ''v1.Affinity'')), (''Tolerations'', copySlice (lib ''v1.Toleration'')),
      (''TerminationGracePeriodSeconds'', copyPtr assign), (''EphemeralContainers'', copySlice (lib ''v1.EphemeralContainer'')),
      (''HostAliases'', copySlice (lib ''v1.HostAlias'')), (''TopologySpreadConstraints'', copySlice (lib ''v1.TopologySpreadConstraint'')),
      (''RuntimeClassName'', copyPtr assign), (''DnsConfig'', copyPtr (lib ''v1.PodDNSConfig''))]"

definition DeepCopy_RunnerPodSpec :: "(string \<Rightarrow> copier) \<Rightarrow> copier" where
  "DeepCopy_RunnerPodSpec lib = copyPtr (DeepCopyInto_RunnerPodSpec lib)"

definition type_RunnerSpec :: gtype where
  "type_RunnerSpec = TStruct [(''RunnerConfig'', type_RunnerConfig), (''RunnerPodSpec'', type_RunnerPodSpec)]"

definition DeepCopyInto_RunnerSpec :: "(string \<Rightarrow> copier) \<Rightarrow> copier" where
  "DeepCopyInto_RunnerSpec lib = intoStruct [(''RunnerConfig'', DeepCopyInto_RunnerConfig lib), (''RunnerPodSpec'', DeepCopyInto_RunnerPodSpec lib)]"

definition DeepCopy_RunnerSpec :: "(string \<Rightarrow> copier) \<Rightarrow> copier" where
  "DeepCopy_RunnerSpec lib = copyPtr (DeepCopyInto_RunnerSpec lib)"

definition type_RunnerStatusRegistration :: gtype where
  "type_RunnerStatusRegistration = TStruct
     [(''Enterprise'', TBasic), (''Organization'', TBasic), (''Repository'', TBasic), (''Labels'', TSlice TBasic), (''Token'', TBasic),
      (''ExpiresAt'', TLib ''metav1.Time'')]"

definition DeepCopyInto_RunnerStatusRegistration :: "(string \<Rightarrow> copier) \<Rightarrow> copier" where
  "DeepCopyInto_RunnerStatusRegistration lib = intoStruct [(''Labels'', copySlice assign), (''ExpiresAt'', lib ''metav1.Time'')]"

definition DeepCopy_RunnerStatusRegistration :: "(string \<Rightarrow> copier) \<Rightarrow> copier" where
  "DeepCopy_RunnerStatusRegistration lib = copyPtr (DeepCopyInto_RunnerStatusRegistration lib)"

definition type_RunnerStatus :: gtype where
  "type_RunnerStatus = TStruct
     [(''Ready'', TBasic), (''Registration'', type_RunnerStatusRegistration), (''Phase'', TBasic), (''Reason'', TBasic), (''Message'', TBasic),
      (''LastRegistrationCheckTime'', TPtr (TLib ''metav1.Time''))]"

definition DeepCopyInto_RunnerStatus :: "(string \<Rightarrow> copier) \<Rightarrow> copier" where
  "DeepCopyInto_RunnerStatus lib = intoStruct
     [(''Registration'', DeepCopyInto_RunnerStatusRegistration lib), (''LastRegistrationCheckTime'', copyPtr (lib ''metav1.Time''))]"

definition DeepCopy_RunnerStatus :: "(string \<Rightarrow> copier) \<Rightarrow> copier" where
  "DeepCopy_RunnerStatus lib = copyPtr (DeepCopyInto_RunnerStatus lib)"

definition type_Runner :: gtype where
  "type_Runner = TStruct
     [(''TypeMeta'', TLib ''metav1.TypeMeta''), (''ObjectMeta'', TLib ''metav1.ObjectMeta''), (''Spec'', type_RunnerSpec),
      (''Status'', type_RunnerStatus)]"

definition DeepCopyInto_Runner :: "(string \<Rightarrow> copier) \<Rightarrow> copier" where
  "DeepCopyInto_Runner lib = intoStruct
     [(''TypeMeta'', assign), (''ObjectMeta'', lib ''metav1.ObjectMeta''), (''Spec'', DeepCopyInto_RunnerSpec lib),
      (''Status'', DeepCopyInto_RunnerStatus lib)]"

definition DeepCopy_Runner :: "(string \<Rightarrow> copier) \<Rightarrow> copier" where
  "DeepCopy_Runner lib = copyPtr (DeepCopyInto_Runner lib)"

definition DeepCopyObject_Runner :: "(string \<Rightarrow> copier) \<Rightarrow> gval \<Rightarrow> memory \<Rightarrow> gval option \<times> memory" where
  "DeepCopyObject_Runner lib = asObject (DeepCopy_Runner lib)"

definition type_RunnerList :: gtype where
  "type_RunnerList = TStruct [(''TypeMeta'', TLib ''metav1.TypeMeta''), (''ListMeta'', TLib ''metav1.ListMeta''), (''Items'', TSlice type_Runner)]"

definition DeepCopyInto_RunnerList :: "(string \<Rightarrow> copier) \<Rightarrow> copier" where
  "DeepCopyInto_RunnerList lib = intoStruct
     [(''TypeMeta'', assign), (''ListMeta'', lib ''metav1.ListMeta''), (''Items'', copySlice (DeepCopyInto_Runner lib))]"

definition DeepCopy_RunnerList :: "(string \<Rightarrow> copier) \<Rightarrow> copier" where
  "DeepCopy_RunnerList lib = copyPtr (DeepCopyInto_RunnerList lib)"

definition DeepCopyObject_RunnerList :: "(string \<Rightarrow> copier) \<Rightarrow> gval \<Rightarrow> memory \<Rightarrow> gval option \<times> memory" where
  "DeepCopyObject_RunnerList lib = asObject (DeepCopy_RunnerList lib)"

subsection \<open>RunnerReplicaSet: \<open>runnerreplicaset_types.go\<close>\<close>

definition type_RunnerTemplate :: gtype where
  "type_RunnerTemplate = TStruct [(''ObjectMeta'', TLib ''metav1.ObjectMeta''), (''Spec'', type_RunnerSpec)]"

definition DeepCopyInto_RunnerTemplate :: "(string \<Rightarrow> copier) \<Rightarrow> copier" where
  "DeepCopyInto_RunnerTemplate lib = intoStruct [(''ObjectMeta'', lib ''metav1.ObjectMeta''), (''Spec'', DeepCopyInto_RunnerSpec lib)]"

definition DeepCopy_RunnerTemplate :: "(string \<Rightarrow> copier) \<Rightarrow> copier" where
  "DeepCopy_RunnerTemplate lib = copyPtr (DeepCopyInto_RunnerTemplate lib)"

subsection \<open>RunnerDeployment: \<open>runnerdeployment_types.go\<close>\<close>

definition type_RunnerDeploymentSpec :: gtype where
  "type_RunnerDeploymentSpec = TStruct
     [(''Replicas'', TPtr TBasic), (''EffectiveTime'', TPtr (TLib ''metav1.Time'')), (''Selector'', TPtr (TLib ''metav1.LabelSelector'')),
      (''Template'', type_RunnerTemplate)]"

definition DeepCopyInto_RunnerDeploymentSpec :: "(string \<Rightarrow> copier) \<Rightarrow> copier" where
  "DeepCopyInto_RunnerDeploymentSpec lib = intoStruct
     [(''Replicas'', copyPtr assign), (''EffectiveTime'', copyPtr (lib ''metav1.Time'')), (''Selector'', copyPtr (lib ''metav1.LabelSelector'')),
      (''Template'', DeepCopyInto_RunnerTemplate lib)]"

definition DeepCopy_RunnerDeploymentSpec :: "(string \<Rightarrow> copier) \<Rightarrow> copier" where
  "DeepCopy_RunnerDeploymentSpec lib = copyPtr (DeepCopyInto_RunnerDeploymentSpec lib)"

definition type_RunnerDeploymentStatus :: gtype where
  "type_RunnerDeploymentStatus = TStruct
     [(''AvailableReplicas'', TPtr TBasic), (''ReadyReplicas'', TPtr TBasic), (''UpdatedReplicas'', TPtr TBasic), (''DesiredReplicas'', TPtr TBasic),
      (''Replicas'', TPtr TBasic)]"

definition DeepCopyInto_RunnerDeploymentStatus :: "(string \<Rightarrow> copier) \<Rightarrow> copier" where
  "DeepCopyInto_RunnerDeploymentStatus lib = intoStruct
     [(''AvailableReplicas'', copyPtr assign), (''ReadyReplicas'', copyPtr assign), (''UpdatedReplicas'', copyPtr assign),
      (''DesiredReplicas'', copyPtr assign), (''Replicas'', copyPtr assign)]"

definition DeepCopy_RunnerDeploymentStatus :: "(string \<Rightarrow> copier) \<Rightarrow> copier" where
  "DeepCopy_RunnerDeploymentStatus lib = copyPtr (DeepCopyInto_RunnerDeploymentStatus lib)"

definition type_RunnerDeployment :: gtype where
  "type_RunnerDeployment = TStruct
     [(''TypeMeta'', TLib ''metav1.TypeMeta''), (''ObjectMeta'', TLib ''metav1.ObjectMeta''), (''Spec'', type_RunnerDeploymentSpec),
      (''Status'', type_RunnerDeploymentStatus)]"

definition DeepCopyInto_RunnerDeployment :: "(string \<Rightarrow> copier) \<Rightarrow> copier" where
  "DeepCopyInto_RunnerDeployment lib = intoStruct
     [(''TypeMeta'', assign), (''ObjectMeta'', lib ''metav1.ObjectMeta''), (''Spec'', DeepCopyInto_RunnerDeploymentSpec lib),
      (''Status'', DeepCopyInto_RunnerDeploymentStatus lib)]"

definition DeepCopy_RunnerDeployment :: "(string \<Rightarrow> copier) \<Rightarrow> copier" where
  "DeepCopy_RunnerDeployment lib = copyPtr (DeepCopyInto_RunnerDeployment lib)"

definition DeepCopyObject_RunnerDeployment :: "(string \<Rightarrow> copier) \<Rightarrow> gval \<Rightarrow> memory \<Rightarrow> gval option \<times> memory" where
  "DeepCopyObject_RunnerDeployment lib = asObject (DeepCopy_RunnerDeployment lib)"

definition type_RunnerDeploymentList :: gtype where
  "type_RunnerDeploymentList = TStruct
     [(''TypeMeta'', TLib ''metav1.TypeMeta''), (''ListMeta'', TLib ''metav1.ListMeta''), (''Items'', TSlice type_RunnerDeployment)]"

definition DeepCopyInto_RunnerDeploymentList :: "(string \<Rightarrow> copier) \<Rightarrow> copier" where
  "DeepCopyInto_RunnerDeploymentList lib = intoStruct
     [(''TypeMeta'', assign), (''ListMeta'', lib ''metav1.ListMeta''), (''Items'', copySlice (DeepCopyInto_RunnerDeployment lib))]"

definition DeepCopy_RunnerDeploymentList :: "(string \<Rightarrow> copier) \<Rightarrow> copier" where
  "DeepCopy_RunnerDeploymentList lib = copyPtr (DeepCopyInto_RunnerDeploymentList lib)"

definition DeepCopyObject_RunnerDeploymentList :: "(string \<Rightarrow> copier) \<Rightarrow> gval \<Rightarrow> memory \<Rightarrow> gval option \<times> memory" where
  "DeepCopyObject_RunnerDeploymentList lib = asObject (DeepCopy_RunnerDeploymentList lib)"

definition type_RunnerReplicaSetSpec :: gtype where
  "type_RunnerReplicaSetSpec = TStruct
     [(''Replicas'', TPtr TBasic), (''EffectiveTime'', TPtr (TLib ''metav1.Time'')), (''Selector'', TPtr (TLib ''metav1.LabelSelector'')),
      (''Template'', type_RunnerTemplate)]"

definition DeepCopyInto_RunnerReplicaSetSpec :: "(string \<Rightarrow> copier) \<Rightarrow> copier" where
  "DeepCopyInto_RunnerReplicaSetSpec lib = intoStruct
     [(''Replicas'', copyPtr assign), (''EffectiveTime'', copyPtr (lib ''metav1.Time'')), (''Selector'', copyPtr (lib ''metav1.LabelSelector'')),
      (''Template'', DeepCopyInto_RunnerTemplate lib)]"

definition DeepCopy_RunnerReplicaSetSpec :: "(string \<Rightarrow> copier) \<Rightarrow> copier" where
  "DeepCopy_RunnerReplicaSetSpec lib = copyPtr (DeepCopyInto_RunnerReplicaSetSpec lib)"

definition type_RunnerReplicaSetStatus :: gtype where
  "type_RunnerReplicaSetStatus = TStruct [(''Replicas'', TPtr TBasic), (''ReadyReplicas'', TPtr TBasic), (''AvailableReplicas'', TPtr TBasic)]"

definition DeepCopyInto_RunnerReplicaSetStatus :: "(string \<Rightarrow> copier) \<Rightarrow> copier" where
  "DeepCopyInto_RunnerReplicaSetStatus lib = intoStruct
     [(''Replicas'', copyPtr assign), (''ReadyReplicas'', copyPtr assign), (''AvailableReplicas'', copyPtr assign)]"

definition DeepCopy_RunnerReplicaSetStatus :: "(string \<Rightarrow> copier) \<Rightarrow> copier" where
  "DeepCopy_RunnerReplicaSetStatus lib = copyPtr (DeepCopyInto_RunnerReplicaSetStatus lib)"

definition type_RunnerReplicaSet :: gtype where
  "type_RunnerReplicaSet = TStruct
     [(''TypeMeta'', TLib ''metav1.TypeMeta''), (''ObjectMeta'', TLib ''metav1.ObjectMeta''), (''Spec'', type_RunnerReplicaSetSpec),
      (''Status'', type_RunnerReplicaSetStatus)]"

definition DeepCopyInto_RunnerReplicaSet :: "(string \<Rightarrow> copier) \<Rightarrow> copier" where
  "DeepCopyInto_RunnerReplicaSet lib = intoStruct
     [(''TypeMeta'', assign), (''ObjectMeta'', lib ''metav1.ObjectMeta''), (''Spec'', DeepCopyInto_RunnerReplicaSetSpec lib),
      (''Status'', DeepCopyInto_RunnerReplicaSetStatus lib)]"

definition DeepCopy_RunnerReplicaSet :: "(string \<Rightarrow> copier) \<Rightarrow> copier" where
  "DeepCopy_RunnerReplicaSet lib = copyPtr (DeepCopyInto_RunnerReplicaSet lib)"

definition DeepCopyObject_RunnerReplicaSet :: "(string \<Rightarrow> copier) \<Rightarrow> gval \<Rightarrow> memory \<Rightarrow> gval option \<times> memory" where
  "DeepCopyObject_RunnerReplicaSet lib = asObject (DeepCopy_RunnerReplicaSet lib)"

definition type_RunnerReplicaSetList :: gtype where
  "type_RunnerReplicaSetList = TStruct
     [(''TypeMeta'', TLib ''metav1.TypeMeta''), (''ListMeta'', TLib ''metav1.ListMeta''), (''Items'', TSlice type_RunnerReplicaSet)]"

definition DeepCopyInto_RunnerReplicaSetList :: "(string \<Rightarrow> copier) \<Rightarrow> copier" where
  "DeepCopyInto_RunnerReplicaSetList lib = intoStruct
     [(''TypeMeta'', assign), (''ListMeta'', lib ''metav1.ListMeta''), (''Items'', copySlice (DeepCopyInto_RunnerReplicaSet lib))]"

definition DeepCopy_RunnerReplicaSetList :: "(string \<Rightarrow> copier) \<Rightarrow> copier" where
  "DeepCopy_RunnerReplicaSetList lib = copyPtr (DeepCopyInto_RunnerReplicaSetList lib)"

definition DeepCopyObject_RunnerReplicaSetList :: "(string \<Rightarrow> copier) \<Rightarrow> gval \<Rightarrow> memory \<Rightarrow> gval option \<times> memory" where
  "DeepCopyObject_RunnerReplicaSetList lib = asObject (DeepCopy_RunnerReplicaSetList lib)"

subsection \<open>RunnerSet: \<open>runnerset_types.go\<close>\<close>

definition type_RunnerSetSpec :: gtype where
  "type_RunnerSetSpec = TStruct
     [(''RunnerConfig'', type_RunnerConfig), (''EffectiveTime'', TPtr (TLib ''metav1.Time'')),
      (''StatefulSetSpec'', TLib ''appsv1.StatefulSetSpec'')]"

definition DeepCopyInto_RunnerSetSpec :: "(string \<Rightarrow> copier) \<Rightarrow> copier" where
  "DeepCopyInto_RunnerSetSpec lib = intoStruct
     [(''RunnerConfig'', DeepCopyInto_RunnerConfig lib), (''EffectiveTime'', copyPtr (lib ''metav1.Time'')),
      (''StatefulSetSpec'', lib ''appsv1.StatefulSetSpec'')]"

definition DeepCopy_RunnerSetSpec :: "(string \<Rightarrow> copier) \<Rightarrow> copier" where
  "DeepCopy_RunnerSetSpec lib = copyPtr (DeepCopyInto_RunnerSetSpec lib)"

definition type_RunnerSetStatus :: gtype where
  "type_RunnerSetStatus = TStruct
     [(''CurrentReplicas'', TPtr TBasic), (''ReadyReplicas'', TPtr TBasic), (''UpdatedReplicas'', TPtr TBasic), (''DesiredReplicas'', TPtr TBasic),
      (''Replicas'', TPtr TBasic)]"

definition DeepCopyInto_RunnerSetStatus :: "(string \<Rightarrow> copier) \<Rightarrow> copier" where
  "DeepCopyInto_RunnerSetStatus lib = intoStruct
     [(''CurrentReplicas'', copyPtr assign), (''ReadyReplicas'', copyPtr assign), (''UpdatedReplicas'', copyPtr assign),
      (''DesiredReplicas'', copyPtr assign), (''Replicas'', copyPtr assign)]"

definition DeepCopy_RunnerSetStatus :: "(string \<Rightarrow> copier) \<Rightarrow> copier" where
  "DeepCopy_RunnerSetStatus lib = copyPtr (DeepCopyInto_RunnerSetStatus lib)"

definition type_RunnerSet :: gtype where
  "type_RunnerSet = TStruct
     [(''TypeMeta'', TLib ''metav1.TypeMeta''), (''ObjectMeta'', TLib ''metav1.ObjectMeta''), (''Spec'', type_RunnerSetSpec),
      (''Status'', type_RunnerSetStatus)]"

definition DeepCopyInto_RunnerSet :: "(string \<Rightarrow> copier) \<Rightarrow> copier" where
  "DeepCopyInto_RunnerSet lib = intoStruct
     [(''TypeMeta'', assign), (''ObjectMeta'', lib ''metav1.ObjectMeta''), (''Spec'', DeepCopyInto_RunnerSetSpec lib),
      (''Status'', DeepCopyInto_RunnerSetStatus lib)]"

definition DeepCopy_RunnerSet :: "(string \<Rightarrow> copier) \<Rightarrow> copier" where
  "DeepCopy_RunnerSet lib = copyPtr (DeepCopyInto_RunnerSet lib)"

definition DeepCopyObject_RunnerSet :: "(string \<Rightarrow> copier) \<Rightarrow> gval \<Rightarrow> memory \<Rightarrow> gval option \<times> memory" where
  "DeepCopyObject_RunnerSet lib = asObject (DeepCopy_RunnerSet lib)"

definition type_RunnerSetList :: gtype where
  "type_RunnerSetList = TStruct
     [(''TypeMeta'', TLib ''metav1.TypeMeta''), (''ListMeta'', TLib ''metav1.ListMeta''), (''Items'', TSlice type_RunnerSet)]"

definition DeepCopyInto_RunnerSetList :: "(string \<Rightarrow> copier) \<Rightarrow> copier" where
  "DeepCopyInto_RunnerSetList lib = intoStruct
     [(''TypeMeta'', assign), (''ListMeta'', lib ''metav1.ListMeta''), (''Items'', copySlice (DeepCopyInto_RunnerSet lib))]"

definition DeepCopy_RunnerSetList :: "(string \<Rightarrow> copier) \<Rightarrow> copier" where
  "DeepCopy_RunnerSetList lib = copyPtr (DeepCopyInto_RunnerSetList lib)"

definition DeepCopyObject_RunnerSetList :: "(string \<Rightarrow> copier) \<Rightarrow> gval \<Rightarrow> memory \<Rightarrow> gval option \<times> memory" where
  "DeepCopyObject_RunnerSetList lib = asObject (DeepCopy_RunnerSetList lib)"

subsection \<open>All of them\<close>

definition deepCopies :: "(string \<Rightarrow> copier) \<Rightarrow> (gtype \<times> copier) list" where
  "deepCopies lib =
     [(type_CheckRunSpec, DeepCopy_CheckRunSpec lib),
      (type_WorkflowJobSpec, DeepCopy_WorkflowJobSpec lib),
      (type_PullRequestSpec, DeepCopy_PullRequestSpec lib),
      (type_PushSpec, DeepCopy_PushSpec lib),
      (type_GitHubEventScaleUpTriggerSpec, DeepCopy_GitHubEventScaleUpTriggerSpec lib),
      (type_ScaleUpTrigger, DeepCopy_ScaleUpTrigger lib),
      (type_CapacityReservation, DeepCopy_CapacityReservation lib),
      (type_ScaleTargetRef, DeepCopy_ScaleTargetRef lib),
      (type_MetricSpec, DeepCopy_MetricSpec lib),
      (type_RecurrenceRule, DeepCopy_RecurrenceRule lib),
      (type_ScheduledOverride, DeepCopy_ScheduledOverride lib),
      (type_HorizontalRunnerAutoscalerSpec, DeepCopy_HorizontalRunnerAutoscalerSpec lib),
      (type_CacheEntry, DeepCopy_CacheEntry lib),
      (type_HorizontalRunnerAutoscalerStatus, DeepCopy_HorizontalRunnerAutoscalerStatus lib),
      (type_HorizontalRunnerAutoscaler, DeepCopy_HorizontalRunnerAutoscaler lib),
      (type_HorizontalRunnerAutoscalerList, DeepCopy_HorizontalRunnerAutoscalerList lib),
      (type_RunnerConfig, DeepCopy_RunnerConfig lib),
      (type_RunnerPodSpec, DeepCopy_RunnerPodSpec lib),
      (type_RunnerSpec, DeepCopy_RunnerSpec lib),
      (type_RunnerStatusRegistration, DeepCopy_RunnerStatusRegistration lib),
      (type_RunnerStatus, DeepCopy_RunnerStatus lib),
      (type_Runner, DeepCopy_Runner lib),
      (type_RunnerList, DeepCopy_RunnerList lib),
      (type_RunnerTemplate, DeepCopy_RunnerTemplate lib),
      (type_RunnerDeploymentSpec, DeepCopy_RunnerDeploymentSpec lib),
      (type_RunnerDeploymentStatus, DeepCopy_RunnerDeploymentStatus lib),
      (type_RunnerDeployment, DeepCopy_RunnerDeployment lib),
      (type_RunnerDeploymentList, DeepCopy_RunnerDeploymentList lib),
      (type_RunnerReplicaSetSpec, DeepCopy_RunnerReplicaSetSpec lib),
      (type_RunnerReplicaSetStatus, DeepCopy_RunnerReplicaSetStatus lib),
      (type_RunnerReplicaSet, DeepCopy_RunnerReplicaSet lib),
      (type_RunnerReplicaSetList, DeepCopy_RunnerReplicaSetList lib),
      (type_RunnerSetSpec, DeepCopy_RunnerSetSpec lib),
      (type_RunnerSetStatus, DeepCopy_RunnerSetStatus lib),
      (type_RunnerSet, DeepCopy_RunnerSet lib),
      (type_RunnerSetList, DeepCopy_RunnerSetList lib)]"

definition deepCopyObjects :: "(string \<Rightarrow> copier) \<Rightarrow> (gtype \<times> (gval \<Rightarrow> memory \<Rightarrow> gval option \<times> memory)) list" where
  "deepCopyObjects lib =
     [(type_HorizontalRunnerAutoscaler, DeepCopyObject_HorizontalRunnerAutoscaler lib),
      (type_HorizontalRunnerAutoscalerList, DeepCopyObject_HorizontalRunnerAutoscalerList lib),
      (type_Runner, DeepCopyObject_Runner lib),
      (type_RunnerDeployment, DeepCopyObject_RunnerDeployment lib),
      (type_RunnerDeploymentList, DeepCopyObject_RunnerDeploymentList lib),
      (type_RunnerList, DeepCopyObject_RunnerList lib),
      (type_RunnerReplicaSet, DeepCopyObject_RunnerReplicaSet lib),
      (type_RunnerReplicaSetList, DeepCopyObject_RunnerReplicaSetList lib),
      (type_RunnerSet, DeepCopyObject_RunnerSet lib),
      (type_RunnerSetList, DeepCopyObject_RunnerSetList lib)]"

subsection \<open>The scheme: \<open>groupversion_info.go\<close> and the \<open>init\<close> functions\<close>

definition GroupVersion :: "string \<times> string" where "GroupVersion = (''actions.summerwind.dev'', ''v1alpha1'')"

definition init_HorizontalRunnerAutoscaler :: "gtype list" where "init_HorizontalRunnerAutoscaler = [type_HorizontalRunnerAutoscaler, type_HorizontalRunnerAutoscalerList]"
definition init_Runner :: "gtype list" where "init_Runner = [type_Runner, type_RunnerList]"
definition init_RunnerDeployment :: "gtype list" where "init_RunnerDeployment = [type_RunnerDeployment, type_RunnerDeploymentList]"
definition init_RunnerReplicaSet :: "gtype list" where "init_RunnerReplicaSet = [type_RunnerReplicaSet, type_RunnerReplicaSetList]"
definition init_RunnerSet :: "gtype list" where "init_RunnerSet = [type_RunnerSet, type_RunnerSetList]"

text \<open>\<open>SchemeBuilder\<close> collects what the \<open>init\<close> functions register, file by file.\<close>

definition SchemeBuilder :: "(string \<times> string) \<times> gtype list" where
  "SchemeBuilder = (GroupVersion, init_HorizontalRunnerAutoscaler @ init_Runner @ init_RunnerDeployment @ init_RunnerReplicaSet @ init_RunnerSet)"

lemmas deepCopy_defs =
  DeepCopy_CheckRunSpec_def DeepCopy_WorkflowJobSpec_def DeepCopy_PullRequestSpec_def DeepCopy_PushSpec_def DeepCopy_GitHubEventScaleUpTriggerSpec_def
  DeepCopy_ScaleUpTrigger_def DeepCopy_CapacityReservation_def DeepCopy_ScaleTargetRef_def DeepCopy_MetricSpec_def DeepCopy_RecurrenceRule_def
  DeepCopy_ScheduledOverride_def DeepCopy_HorizontalRunnerAutoscalerSpec_def DeepCopy_CacheEntry_def DeepCopy_HorizontalRunnerAutoscalerStatus_def
  DeepCopy_HorizontalRunnerAutoscaler_def DeepCopy_HorizontalRunnerAutoscalerList_def DeepCopy_RunnerConfig_def DeepCopy_RunnerPodSpec_def
  DeepCopy_RunnerSpec_def DeepCopy_RunnerStatusRegistration_def DeepCopy_RunnerStatus_def DeepCopy_Runner_def DeepCopy_RunnerList_def
  DeepCopy_RunnerTemplate_def DeepCopy_RunnerDeploymentSpec_def DeepCopy_RunnerDeploymentStatus_def DeepCopy_RunnerDeployment_def
  DeepCopy_RunnerDeploymentList_def DeepCopy_RunnerReplicaSetSpec_def DeepCopy_RunnerReplicaSetStatus_def DeepCopy_RunnerReplicaSet_def
  DeepCopy_RunnerReplicaSetList_def DeepCopy_RunnerSetSpec_def DeepCopy_RunnerSetStatus_def DeepCopy_RunnerSet_def DeepCopy_RunnerSetList_def

lemmas deepCopyObject_defs =
  DeepCopyObject_HorizontalRunnerAutoscaler_def DeepCopyObject_HorizontalRunnerAutoscalerList_def DeepCopyObject_Runner_def
  DeepCopyObject_RunnerDeployment_def DeepCopyObject_RunnerDeploymentList_def DeepCopyObject_RunnerList_def DeepCopyObject_RunnerReplicaSet_def
  DeepCopyObject_RunnerReplicaSetList_def DeepCopyObject_RunnerSet_def DeepCopyObject_RunnerSetList_def

subsection \<open>They are deep\<close>

locale api_library = go_library lr libCopy flatTypes for lr :: libReads and libCopy :: "string \<Rightarrow> copier"
begin

lemmas deep_simps [simp] = deep_rules

lemma flat_lib_types [simp]:
  "''metav1.TypeMeta'' \<in> set flatTypes" "''metav1.Duration'' \<in> set flatTypes" "''v1.LocalObjectReference'' \<in> set flatTypes" "''v1.PullPolicy'' \<in> set flatTypes"
  by (simp_all add: flatTypes_def)

lemma flat_structs [simp]: "flat flatTypes type_PushSpec" "flat flatTypes type_WorkflowJobSpec" "flat flatTypes type_ScaleTargetRef"
  by (simp_all add: type_PushSpec_def type_WorkflowJobSpec_def type_ScaleTargetRef_def)

lemma deep_CheckRunSpec [simp]: "deepCopier lr type_CheckRunSpec (DeepCopyInto_CheckRunSpec libCopy)"
  unfolding type_CheckRunSpec_def DeepCopyInto_CheckRunSpec_def by (rule deep_struct_list) simp_all

lemma deep_WorkflowJobSpec [simp]: "deepCopier lr type_WorkflowJobSpec (DeepCopyInto_WorkflowJobSpec libCopy)"
  unfolding type_WorkflowJobSpec_def DeepCopyInto_WorkflowJobSpec_def by (rule deep_struct_list) simp_all

lemma deep_PullRequestSpec [simp]: "deepCopier lr type_PullRequestSpec (DeepCopyInto_PullRequestSpec libCopy)"
  unfolding type_PullRequestSpec_def DeepCopyInto_PullRequestSpec_def by (rule deep_struct_list) simp_all

lemma deep_PushSpec [simp]: "deepCopier lr type_PushSpec (DeepCopyInto_PushSpec libCopy)"
  unfolding type_PushSpec_def DeepCopyInto_PushSpec_def by (rule deep_struct_list) simp_all

lemma deep_GitHubEventScaleUpTriggerSpec [simp]: "deepCopier lr type_GitHubEventScaleUpTriggerSpec (DeepCopyInto_GitHubEventScaleUpTriggerSpec libCopy)"
  unfolding type_GitHubEventScaleUpTriggerSpec_def DeepCopyInto_GitHubEventScaleUpTriggerSpec_def by (rule deep_struct_list) simp_all

lemma deep_ScaleUpTrigger [simp]: "deepCopier lr type_ScaleUpTrigger (DeepCopyInto_ScaleUpTrigger libCopy)"
  unfolding type_ScaleUpTrigger_def DeepCopyInto_ScaleUpTrigger_def by (rule deep_struct_list) simp_all

lemma deep_CapacityReservation [simp]: "deepCopier lr type_CapacityReservation (DeepCopyInto_CapacityReservation libCopy)"
  unfolding type_CapacityReservation_def DeepCopyInto_CapacityReservation_def by (rule deep_struct_list) simp_all

lemma deep_ScaleTargetRef [simp]: "deepCopier lr type_ScaleTargetRef (DeepCopyInto_ScaleTargetRef libCopy)"
  unfolding type_ScaleTargetRef_def DeepCopyInto_ScaleTargetRef_def by (rule deep_struct_list) simp_all

lemma deep_MetricSpec [simp]: "deepCopier lr type_MetricSpec (DeepCopyInto_MetricSpec libCopy)"
  unfolding type_MetricSpec_def DeepCopyInto_MetricSpec_def by (rule deep_struct_list) simp_all

lemma deep_RecurrenceRule [simp]: "deepCopier lr type_RecurrenceRule (DeepCopyInto_RecurrenceRule libCopy)"
  unfolding type_RecurrenceRule_def DeepCopyInto_RecurrenceRule_def by (rule deep_struct_list) simp_all

lemma deep_ScheduledOverride [simp]: "deepCopier lr type_ScheduledOverride (DeepCopyInto_ScheduledOverride libCopy)"
  unfolding type_ScheduledOverride_def DeepCopyInto_ScheduledOverride_def by (rule deep_struct_list) simp_all

lemma deep_HorizontalRunnerAutoscalerSpec [simp]: "deepCopier lr type_HorizontalRunnerAutoscalerSpec (DeepCopyInto_HorizontalRunnerAutoscalerSpec libCopy)"
  unfolding type_HorizontalRunnerAutoscalerSpec_def DeepCopyInto_HorizontalRunnerAutoscalerSpec_def by (rule deep_struct_list) simp_all

lemma deep_CacheEntry [simp]: "deepCopier lr type_CacheEntry (DeepCopyInto_CacheEntry libCopy)"
  unfolding type_CacheEntry_def DeepCopyInto_CacheEntry_def by (rule deep_struct_list) simp_all

lemma deep_HorizontalRunnerAutoscalerStatus [simp]: "deepCopier lr type_HorizontalRunnerAutoscalerStatus (DeepCopyInto_HorizontalRunnerAutoscalerStatus libCopy)"
  unfolding type_HorizontalRunnerAutoscalerStatus_def DeepCopyInto_HorizontalRunnerAutoscalerStatus_def by (rule deep_struct_list) simp_all

lemma deep_HorizontalRunnerAutoscaler [simp]: "deepCopier lr type_HorizontalRunnerAutoscaler (DeepCopyInto_HorizontalRunnerAutoscaler libCopy)"
  unfolding type_HorizontalRunnerAutoscaler_def DeepCopyInto_HorizontalRunnerAutoscaler_def by (rule deep_struct_list) simp_all

lemma deep_HorizontalRunnerAutoscalerList [simp]: "deepCopier lr type_HorizontalRunnerAutoscalerList (DeepCopyInto_HorizontalRunnerAutoscalerList libCopy)"
  unfolding type_HorizontalRunnerAutoscalerList_def DeepCopyInto_HorizontalRunnerAutoscalerList_def by (rule deep_struct_list) simp_all

lemma deep_RunnerConfig [simp]: "deepCopier lr type_RunnerConfig (DeepCopyInto_RunnerConfig libCopy)"
  unfolding type_RunnerConfig_def DeepCopyInto_RunnerConfig_def by (rule deep_struct_list) simp_all

lemma deep_RunnerPodSpec [simp]: "deepCopier lr type_RunnerPodSpec (DeepCopyInto_RunnerPodSpec libCopy)"
  unfolding type_RunnerPodSpec_def DeepCopyInto_RunnerPodSpec_def by (rule deep_struct_list) simp_all

lemma deep_RunnerSpec [simp]: "deepCopier lr type_RunnerSpec (DeepCopyInto_RunnerSpec libCopy)"
  unfolding type_RunnerSpec_def DeepCopyInto_RunnerSpec_def by (rule deep_struct_list) simp_all

lemma deep_RunnerStatusRegistration [simp]: "deepCopier lr type_RunnerStatusRegistration (DeepCopyInto_RunnerStatusRegistration libCopy)"
  unfolding type_RunnerStatusRegistration_def DeepCopyInto_RunnerStatusRegistration_def by (rule deep_struct_list) simp_all

lemma deep_RunnerStatus [simp]: "deepCopier lr type_RunnerStatus (DeepCopyInto_RunnerStatus libCopy)"
  unfolding type_RunnerStatus_def DeepCopyInto_RunnerStatus_def by (rule deep_struct_list) simp_all

lemma deep_Runner [simp]: "deepCopier lr type_Runner (DeepCopyInto_Runner libCopy)"
  unfolding type_Runner_def DeepCopyInto_Runner_def by (rule deep_struct_list) simp_all

lemma deep_RunnerList [simp]: "deepCopier lr type_RunnerList (DeepCopyInto_RunnerList libCopy)"
  unfolding type_RunnerList_def DeepCopyInto_RunnerList_def by (rule deep_struct_list) simp_all

lemma deep_RunnerTemplate [simp]: "deepCopier lr type_RunnerTemplate (DeepCopyInto_RunnerTemplate libCopy)"
  unfolding type_RunnerTemplate_def DeepCopyInto_RunnerTemplate_def by (rule deep_struct_list) simp_all

lemma deep_RunnerDeploymentSpec [simp]: "deepCopier lr type_RunnerDeploymentSpec (DeepCopyInto_RunnerDeploymentSpec libCopy)"
  unfolding type_RunnerDeploymentSpec_def DeepCopyInto_RunnerDeploymentSpec_def by (rule deep_struct_list) simp_all

lemma deep_RunnerDeploymentStatus [simp]: "deepCopier lr type_RunnerDeploymentStatus (DeepCopyInto_RunnerDeploymentStatus libCopy)"
  unfolding type_RunnerDeploymentStatus_def DeepCopyInto_RunnerDeploymentStatus_def by (rule deep_struct_list) simp_all

lemma deep_RunnerDeployment [simp]: "deepCopier lr type_RunnerDeployment (DeepCopyInto_RunnerDeployment libCopy)"
  unfolding type_RunnerDeployment_def DeepCopyInto_RunnerDeployment_def by (rule deep_struct_list) simp_all

lemma deep_RunnerDeploymentList [simp]: "deepCopier lr type_RunnerDeploymentList (DeepCopyInto_RunnerDeploymentList libCopy)"
  unfolding type_RunnerDeploymentList_def DeepCopyInto_RunnerDeploymentList_def by (rule deep_struct_list) simp_all

lemma deep_RunnerReplicaSetSpec [simp]: "deepCopier lr type_RunnerReplicaSetSpec (DeepCopyInto_RunnerReplicaSetSpec libCopy)"
  unfolding type_RunnerReplicaSetSpec_def DeepCopyInto_RunnerReplicaSetSpec_def by (rule deep_struct_list) simp_all

lemma deep_RunnerReplicaSetStatus [simp]: "deepCopier lr type_RunnerReplicaSetStatus (DeepCopyInto_RunnerReplicaSetStatus libCopy)"
  unfolding type_RunnerReplicaSetStatus_def DeepCopyInto_RunnerReplicaSetStatus_def by (rule deep_struct_list) simp_all

lemma deep_RunnerReplicaSet [simp]: "deepCopier lr type_RunnerReplicaSet (DeepCopyInto_RunnerReplicaSet libCopy)"
  unfolding type_RunnerReplicaSet_def DeepCopyInto_RunnerReplicaSet_def by (rule deep_struct_list) simp_all

lemma deep_RunnerReplicaSetList [simp]: "deepCopier lr type_RunnerReplicaSetList (DeepCopyInto_RunnerReplicaSetList libCopy)"
  unfolding type_RunnerReplicaSetList_def DeepCopyInto_RunnerReplicaSetList_def by (rule deep_struct_list) simp_all

lemma deep_RunnerSetSpec [simp]: "deepCopier lr type_RunnerSetSpec (DeepCopyInto_RunnerSetSpec libCopy)"
  unfolding type_RunnerSetSpec_def DeepCopyInto_RunnerSetSpec_def by (rule deep_struct_list) simp_all

lemma deep_RunnerSetStatus [simp]: "deepCopier lr type_RunnerSetStatus (DeepCopyInto_RunnerSetStatus libCopy)"
  unfolding type_RunnerSetStatus_def DeepCopyInto_RunnerSetStatus_def by (rule deep_struct_list) simp_all

lemma deep_RunnerSet [simp]: "deepCopier lr type_RunnerSet (DeepCopyInto_RunnerSet libCopy)"
  unfolding type_RunnerSet_def DeepCopyInto_RunnerSet_def by (rule deep_struct_list) simp_all

lemma deep_RunnerSetList [simp]: "deepCopier lr type_RunnerSetList (DeepCopyInto_RunnerSetList libCopy)"
  unfolding type_RunnerSetList_def DeepCopyInto_RunnerSetList_def by (rule deep_struct_list) simp_all

lemma deepCopies_deep: "(T, c) \<in> set (deepCopies libCopy) \<Longrightarrow> deepCopier lr (TPtr T) c"
  by (auto simp: deepCopies_def deepCopy_defs)

end

text \<open>
  The contract of a \<open>DeepCopy\<close> for its clients. The controllers use it before every patch: they change a copy and send what differs from the original, so the original has to stay as it was read.
\<close>

locale deep_copy = go_library lr libCopy flatLibs for lr :: libReads and libCopy :: "string \<Rightarrow> copier" and flatLibs :: "string list" +
  fixes T :: gtype and c :: copier
  assumes copies: "deepCopier lr (TPtr T) c"
begin

lemma copy_independent:
  assumes r: "reads lr h (TPtr T) v t A" and c: "c v h = (v', h')"
  shows "prefix h h' \<and> (\<exists>A'. reads lr h' (TPtr T) v' t A' \<and> A \<inter> A' = {} \<and>
    (\<forall>h''. length h'' = length h' \<and> (\<forall>a. a \<notin> A' \<longrightarrow> h'' ! a = h' ! a) \<longrightarrow> reads lr h'' (TPtr T) v t A) \<and>
    (\<forall>h''. length h'' = length h' \<and> (\<forall>a. a \<notin> A \<longrightarrow> h'' ! a = h' ! a) \<longrightarrow> reads lr h'' (TPtr T) v' t A'))"
proof -
  have copy: "isDeepCopy lr (TPtr T) h t (v', h')" using copies r c unfolding deepCopier_def by metis
  obtain A' where A': "reads lr h' (TPtr T) v' t A'" "A \<inter> A' = {}"
    "\<And>h''. length h'' = length h' \<Longrightarrow> \<forall>a. a \<notin> A' \<longrightarrow> h'' ! a = h' ! a \<Longrightarrow> reads lr h'' (TPtr T) v t A"
    "\<And>h''. length h'' = length h' \<Longrightarrow> \<forall>a. a \<notin> A \<longrightarrow> h'' ! a = h' ! a \<Longrightarrow> reads lr h'' (TPtr T) v' t A'"
    using copy by (rule isDeepCopy_independent [OF r]) blast
  have "prefix h h'" using copy by (simp add: isDeepCopy_def)
  with A' show ?thesis by (intro conjI exI [of _ A']) simp_all
qed

text \<open>A field of the copy that is set afterwards, be it the target of the pointer itself or a cell below it, is not set in the original.\<close>

lemma update_keeps_original:
  assumes r: "reads lr h (TPtr T) v t A" and c: "c v h = (v', h')" and a: "length h \<le> a"
  shows "reads lr (h'[a := cl]) (TPtr T) v t A"
proof -
  have p: "prefix h h'" using copy_independent [OF r c] by blast
  then have "reads lr h' (TPtr T) v t A" by (rule reads_prefix [OF r])
  then show ?thesis by (rule reads_frame) (use reads_bound [OF r] a in auto)
qed

end

lemma deep_copyI: "api_library lr libCopy \<Longrightarrow> (T, c) \<in> set (deepCopies libCopy) \<Longrightarrow> deep_copy lr libCopy flatTypes T c"
  by (simp add: deep_copy_def deep_copy_axioms_def api_library_def api_library.deepCopies_deep)

sublocale api_library \<subseteq> hra_copy: deep_copy lr libCopy flatTypes type_HorizontalRunnerAutoscaler "DeepCopy_HorizontalRunnerAutoscaler libCopy"
  by unfold_locales (simp add: DeepCopy_HorizontalRunnerAutoscaler_def)

sublocale api_library \<subseteq> runner_copy: deep_copy lr libCopy flatTypes type_Runner "DeepCopy_Runner libCopy"
  by unfold_locales (simp add: DeepCopy_Runner_def)

sublocale api_library \<subseteq> deployment_copy: deep_copy lr libCopy flatTypes type_RunnerDeployment "DeepCopy_RunnerDeployment libCopy"
  by unfold_locales (simp add: DeepCopy_RunnerDeployment_def)

sublocale api_library \<subseteq> replica_set_copy: deep_copy lr libCopy flatTypes type_RunnerReplicaSet "DeepCopy_RunnerReplicaSet libCopy"
  by unfold_locales (simp add: DeepCopy_RunnerReplicaSet_def)

sublocale api_library \<subseteq> runner_set_copy: deep_copy lr libCopy flatTypes type_RunnerSet "DeepCopy_RunnerSet libCopy"
  by unfold_locales (simp add: DeepCopy_RunnerSet_def)

text \<open>A library in which every value that is not flat is a pointer to a basic value.\<close>

definition libShape :: "string \<Rightarrow> gtype" where
  "libShape T = (if T \<in> set flatTypes then TBasic else TPtr TBasic)"

definition refReads :: libReads where
  "refReads T h v t A \<longleftrightarrow> reads (\<lambda>_ _ _ _ _. False) h (libShape T) v t A"

definition refCopy :: "string \<Rightarrow> copier" where
  "refCopy T = (if T \<in> set flatTypes then assign else copyPtr assign)"

interpretation bare: go_library "\<lambda>_ _ _ _ _. False" "\<lambda>_. assign" "[]"
  by unfold_locales auto

lemma bare_deep: "deepCopier (\<lambda>_ _ _ _ _. False) (libShape T) (refCopy T)"
  by (simp add: libShape_def refCopy_def bare.deep_assign bare.deep_ptr)

interpretation ref_library: api_library refReads refCopy
proof
  fix T h v t A assume r: "refReads T h v t A"
  then show "A \<subseteq> {..<length h}" by (simp add: refReads_def bare.reads_bound)
  have "isDeepCopy (\<lambda>_ _ _ _ _. False) (libShape T) h t (refCopy T v h)"
    using bare_deep [of T] r unfolding refReads_def deepCopier_def by blast
  then show "isDeepCopy refReads (TLib T) h t (refCopy T v h)"
    by (auto simp: isDeepCopy_def fresh_def refReads_def intro!: reads.library)
next
  fix T h v t A h' assume "refReads T h v t A" "length h \<le> length h'" "\<forall>a\<in>A. h' ! a = h ! a"
  then show "refReads T h' v t A" unfolding refReads_def by (rule bare.reads_frame)
next
  fix T h v t A assume "T \<in> set flatTypes" "refReads T h v t A"
  then show "A = {}" by (auto simp: refReads_def libShape_def elim: reads_basicE)
qed

subsection \<open>What the deep copies promise\<close>

text \<open>
  C37. For every struct of the API, \<open>DeepCopy\<close> of a pointer to it makes a value of its own: nothing allocated before is changed, the copy stands for the same, and the original and the copy share no cell, so that any writes to the cells of the copy leave the original as it was and any writes to those of the original leave the copy as it was. Of the types of libraries
  this uses that their own deep copies are deep and that those copied by assignment hold no addresses.
\<close>

theorem deepCopies_independent:
  assumes "api_library lr libCopy" and "(T, c) \<in> set (deepCopies libCopy)" and "reads lr h (TPtr T) v t A" and "c v h = (v', h')"
  shows "prefix h h' \<and> (\<exists>A'. reads lr h' (TPtr T) v' t A' \<and> A \<inter> A' = {} \<and>
    (\<forall>h''. length h'' = length h' \<and> (\<forall>a. a \<notin> A' \<longrightarrow> h'' ! a = h' ! a) \<longrightarrow> reads lr h'' (TPtr T) v t A) \<and>
    (\<forall>h''. length h'' = length h' \<and> (\<forall>a. a \<notin> A \<longrightarrow> h'' ! a = h' ! a) \<longrightarrow> reads lr h'' (TPtr T) v' t A'))"
  by (rule deep_copy.copy_independent [OF deep_copyI [OF assms(1,2)] assms(3,4)])

text \<open>A trigger on check runs of one type, and its copy.\<close>

definition sampleMemory :: memory where
  "sampleMemory =
     [Target (GStruct [(''CheckRun'', GAddr (Some 1)), (''PullRequest'', GAddr None), (''Push'', GAddr None), (''WorkflowJob'', GAddr None)]),
      Target (GStruct [(''Types'', GAddr (Some 2)), (''Status'', GPrim ''queued''), (''Names'', GAddr None), (''Repositories'', GAddr None)]),
      Elems [GPrim ''created'']]"

definition sampleTree :: tree where
  "sampleTree =
     XPtr (XStruct [(''CheckRun'', XPtr (XStruct [(''Types'', XSlice [XPrim ''created'']), (''Status'', XPrim ''queued''), (''Names'', XNil), (''Repositories'', XNil)])),
       (''PullRequest'', XNil), (''Push'', XNil), (''WorkflowJob'', XNil)])"

lemma sampleMemory_reads: "reads lr sampleMemory (TPtr type_GitHubEventScaleUpTriggerSpec) (GAddr (Some 0)) sampleTree {0, 1, 2}"
proof -
  let ?h = sampleMemory
  have types: "reads lr ?h (TSlice TBasic) (GAddr (Some 2)) (XSlice [XPrim ''created'']) {2}"
    using reads.slice [of 2 ?h "[GPrim ''created'']" lr TBasic "[(XPrim ''created'', {})]"] by (simp add: sampleMemory_def reads.basic)
  have "reads lr ?h type_CheckRunSpec (GStruct [(''Types'', GAddr (Some 2)), (''Status'', GPrim ''queued''), (''Names'', GAddr None), (''Repositories'', GAddr None)])
      (XStruct [(''Types'', XSlice [XPrim ''created'']), (''Status'', XPrim ''queued''), (''Names'', XNil), (''Repositories'', XNil)]) {2}" (is "reads lr ?h _ ?v ?x _")
    using reads_fields [of "[(''Types'', TSlice TBasic), (''Status'', TBasic), (''Names'', TSlice TBasic), (''Repositories'', TSlice TBasic)]" lr ?h
        "[(''Types'', GAddr (Some 2), XSlice [XPrim ''created''], {2}), (''Status'', GPrim ''queued'', XPrim ''queued'', {}), (''Names'', GAddr None, XNil, {}), (''Repositories'', GAddr None, XNil, {})]"]
    by (simp add: type_CheckRunSpec_def types reads.basic reads.nil_slice)
  then have "reads lr ?h (TPtr type_CheckRunSpec) (GAddr (Some 1)) (XPtr ?x) {1, 2}"
    using reads.ptr [of 1 ?h ?v] by (simp add: sampleMemory_def)
  then have "reads lr ?h type_GitHubEventScaleUpTriggerSpec
      (GStruct [(''CheckRun'', GAddr (Some 1)), (''PullRequest'', GAddr None), (''Push'', GAddr None), (''WorkflowJob'', GAddr None)])
      (XStruct [(''CheckRun'', XPtr ?x), (''PullRequest'', XNil), (''Push'', XNil), (''WorkflowJob'', XNil)]) {1, 2}" (is "reads lr ?h _ ?w _ _")
    using reads_fields [of "[(''CheckRun'', TPtr type_CheckRunSpec), (''PullRequest'', TPtr type_PullRequestSpec), (''Push'', TPtr type_PushSpec), (''WorkflowJob'', TPtr type_WorkflowJobSpec)]" lr ?h
        "[(''CheckRun'', GAddr (Some 1), XPtr ?x, {1, 2}), (''PullRequest'', GAddr None, XNil, {}), (''Push'', GAddr None, XNil, {}), (''WorkflowJob'', GAddr None, XNil, {})]"]
    by (simp add: type_GitHubEventScaleUpTriggerSpec_def reads.nil_ptr)
  then show ?thesis
    using reads.ptr [of 0 ?h ?w] by (simp add: sampleMemory_def sampleTree_def)
qed

theorem deepCopies_independent_witness:
  "\<exists>A'. reads refReads
      (sampleMemory @
        [Elems [GPrim ''created''],
         Target (GStruct [(''Types'', GAddr (Some 3)), (''Status'', GPrim ''queued''), (''Names'', GAddr None), (''Repositories'', GAddr None)]),
         Target (GStruct [(''CheckRun'', GAddr (Some 4)), (''PullRequest'', GAddr None), (''Push'', GAddr None), (''WorkflowJob'', GAddr None)])])
      (TPtr type_GitHubEventScaleUpTriggerSpec) (GAddr (Some 5)) sampleTree A' \<and> {0, 1, 2} \<inter> A' = {}"
proof -
  have "(type_GitHubEventScaleUpTriggerSpec, DeepCopy_GitHubEventScaleUpTriggerSpec refCopy) \<in> set (deepCopies refCopy)"
    by (simp add: deepCopies_def)
  moreover have "DeepCopy_GitHubEventScaleUpTriggerSpec refCopy (GAddr (Some 0)) sampleMemory = (GAddr (Some 5), sampleMemory @
        [Elems [GPrim ''created''],
         Target (GStruct [(''Types'', GAddr (Some 3)), (''Status'', GPrim ''queued''), (''Names'', GAddr None), (''Repositories'', GAddr None)]),
         Target (GStruct [(''CheckRun'', GAddr (Some 4)), (''PullRequest'', GAddr None), (''Push'', GAddr None), (''WorkflowJob'', GAddr None)])])"
    by (simp add: DeepCopy_GitHubEventScaleUpTriggerSpec_def DeepCopyInto_GitHubEventScaleUpTriggerSpec_def DeepCopyInto_CheckRunSpec_def
        sampleMemory_def assign_def setField_def)
  ultimately show ?thesis using deepCopies_independent [OF ref_library.api_library_axioms _ sampleMemory_reads] by blast
qed

text \<open>
  \<open>DeepCopyObject\<close> is \<open>DeepCopy\<close> behind an interface, which is nil exactly when the pointer is.
\<close>

lemma deepCopies_objects: 
  "(type_HorizontalRunnerAutoscaler, DeepCopy_HorizontalRunnerAutoscaler lib) \<in> set (deepCopies lib)"
  "(type_HorizontalRunnerAutoscalerList, DeepCopy_HorizontalRunnerAutoscalerList lib) \<in> set (deepCopies lib)"
  "(type_Runner, DeepCopy_Runner lib) \<in> set (deepCopies lib)"
  "(type_RunnerDeployment, DeepCopy_RunnerDeployment lib) \<in> set (deepCopies lib)"
  "(type_RunnerDeploymentList, DeepCopy_RunnerDeploymentList lib) \<in> set (deepCopies lib)"
  "(type_RunnerList, DeepCopy_RunnerList lib) \<in> set (deepCopies lib)"
  "(type_RunnerReplicaSet, DeepCopy_RunnerReplicaSet lib) \<in> set (deepCopies lib)"
  "(type_RunnerReplicaSetList, DeepCopy_RunnerReplicaSetList lib) \<in> set (deepCopies lib)"
  "(type_RunnerSet, DeepCopy_RunnerSet lib) \<in> set (deepCopies lib)"
  "(type_RunnerSetList, DeepCopy_RunnerSetList lib) \<in> set (deepCopies lib)"
  by (simp_all add: deepCopies_def)

lemma deepCopyObjects_asObject: "(T, f) \<in> set (deepCopyObjects lib) \<Longrightarrow> \<exists>c. (T, c) \<in> set (deepCopies lib) \<and> f = asObject c"
  unfolding deepCopyObjects_def deepCopyObject_defs using deepCopies_objects [of lib] by auto

lemma copyPtr_nil: "copyPtr c v h = (GAddr None, h') \<Longrightarrow> v = GAddr None \<and> h' = h"
  by (cases "(c, v, h)" rule: copyPtr.cases) (auto split: cell.splits prod.splits)

lemma deepCopies_copyPtr: "(T, c) \<in> set (deepCopies lib) \<Longrightarrow> \<exists>d. c = copyPtr d"
  by (auto simp: deepCopies_def deepCopy_defs)

lemma deepCopies_nil: "(T, c) \<in> set (deepCopies lib) \<Longrightarrow> c v h = (GAddr None, h') \<longleftrightarrow> v = GAddr None \<and> h' = h"
  by (drule deepCopies_copyPtr) (auto dest: copyPtr_nil)

theorem deepCopyObjects_interface:
  assumes "(T, f) \<in> set (deepCopyObjects lib)"
  shows "f (GAddr None) h = (None, h) \<and>
    (\<exists>c. (T, c) \<in> set (deepCopies lib) \<and> (\<forall>v. v \<noteq> GAddr None \<longrightarrow> f v h = (Some (fst (c v h)), snd (c v h))))"
proof -
  from deepCopyObjects_asObject [OF assms] obtain c where c: "(T, c) \<in> set (deepCopies lib)" "f = asObject c" by blast
  moreover have "fst (c v h) \<noteq> GAddr None" if "v \<noteq> GAddr None" for v
    using that deepCopies_nil [OF c(1), of v h "snd (c v h)"] by (metis prod.collapse)
  moreover have "c (GAddr None) h = (GAddr None, h)" using deepCopies_nil [OF c(1)] by blast
  ultimately show ?thesis by (auto simp: asObject_def case_prod_unfold)
qed

text \<open>The registered types are exactly those with a \<open>DeepCopyObject\<close>, as the scheme demands of them.\<close>

lemma registered_are_objects: "set (snd SchemeBuilder) = fst ` set (deepCopyObjects lib)"
  unfolding SchemeBuilder_def deepCopyObjects_def init_HorizontalRunnerAutoscaler_def init_Runner_def init_RunnerDeployment_def init_RunnerReplicaSet_def init_RunnerSet_def
  by auto

end
