(* ===== verification/Fake_GitHub.thy ===== *)
theory Fake_GitHub
  imports GitHub_Client Go_Numbers Api_Types
begin

section \<open>The GitHub double of the tests\<close>

text \<open>
  \<open>src/github/fake\<close>: the list of runners that the tests of the controllers serve (\<open>runners.go\<close>), and the server with fixed responses (\<open>fake.go\<close>, \<open>options.go\<close>). A handler answers with a status and a body, or panics. Requests are given by their path, taken as clean, and their query. The \<open>ServeMux\<close> of the standard library is modelled as
  it is documented; the router of gorilla/mux and the JSON encoding of go-github's types are parameters. Paths are ASCII, where the numbers of \<open>unicode.IsNumber\<close> are the digits. \<open>fmt.Fprintf\<close> writes a format without directives as it is; what it makes of directives without operands is a parameter. The operating system of a runner, always linux, and the body of a redirect are left out.
\<close>

record Response =
  resp_Status :: int
  resp_Body :: string

record Request =
  req_Path :: string
  req_Query :: "(string \<times> string) list"

text \<open>A read of a Go map of strings: the empty string where there is none.\<close>

definition orEmpty :: "string option \<Rightarrow> string" where "orEmpty x = (case x of None \<Rightarrow> [] | Some s \<Rightarrow> s)"

text \<open>\<open>WriteHeader\<close> panics on a status that is not a number of three digits.\<close>

definition respond :: "int \<Rightarrow> string \<Rightarrow> Response go" where
  "respond status body = (if status < 100 \<or> status > 999 then Panic ''invalid WriteHeader code'' else Ret \<lparr>resp_Status = status, resp_Body = body\<rparr>)"

subsection \<open>The list of runners: \<open>runners.go\<close>\<close>

definition NewRunnersList :: "GhRunner list" where "NewRunnersList = []"

fun exists_runner :: "GhRunner list \<Rightarrow> GhRunner \<Rightarrow> bool go" where
  "exists_runner [] runner = Ret False"
| "exists_runner (r # rs) runner =
     (case (ghr_Name r, ghr_Name runner) of
        (Some a, Some b) \<Rightarrow> if a = b then Ret True else exists_runner rs runner
      | _ \<Rightarrow> Panic ''nil pointer dereference'')"

definition Add_runner :: "GhRunner list \<Rightarrow> GhRunner \<Rightarrow> GhRunner list go" where
  "Add_runner rs runner = go_bind (exists_runner rs runner) (\<lambda>b. Ret (if \<not> b then rs @ [runner] else rs))"

text \<open>\<open>Sync\<close> and \<open>AddOffline\<close> add runners that differ in their first id and their status; the position in the list given is counted, whether or not the runner is added.\<close>

fun addAll :: "int \<Rightarrow> string \<Rightarrow> Runner list \<Rightarrow> GhRunner list \<Rightarrow> GhRunner list go" where
  "addAll i status [] rs = Ret rs"
| "addAll i status (want # wants) rs =
     go_bind (Add_runner rs \<lparr>ghr_ID = Some i, ghr_Name = Some (om_Name (r_Meta want)), ghr_Status = status, ghr_Busy = False\<rparr>) (addAll (i + 1) status wants)"

definition Sync_runners :: "Runner list \<Rightarrow> GhRunner list \<Rightarrow> GhRunner list go" where
  "Sync_runners runners rs = addAll 0 ''online'' runners []"

definition AddOffline :: "Runner list \<Rightarrow> GhRunner list \<Rightarrow> GhRunner list go" where
  "AddOffline runners rs = addAll 1000 ''offline'' runners rs"

definition HandleList :: "(int \<Rightarrow> GhRunner list \<Rightarrow> string option) \<Rightarrow> GhRunner list \<Rightarrow> Response go" where
  "HandleList marshal rs =
     (case marshal (int (length rs)) rs of
        None \<Rightarrow> Panic ''json''
      | Some j \<Rightarrow> respond 200 j)"

text \<open>
  The loop of \<open>handleRemove\<close> ranges over the slice as it was at the start, while \<open>append\<close> shifts the elements of the same array to the left and shortens \<open>r.runners\<close>: the state is the array and the length of \<open>r.runners\<close>. Slicing from beyond that length panics.
\<close>

definition hasID :: "string \<Rightarrow> GhRunner \<Rightarrow> bool" where
  "hasID ident r = (case ghr_ID r of None \<Rightarrow> False | Some i \<Rightarrow> ident = Sprintd i)"

fun removeLoop :: "string \<Rightarrow> nat list \<Rightarrow> GhRunner list \<times> nat \<Rightarrow> (GhRunner list \<times> nat) go" where
  "removeLoop ident [] s = Ret s"
| "removeLoop ident (i # is) (arr, len) =
     (if hasID ident (arr ! i) then
        if i + 1 > len then Panic ''slice bounds out of range''
        else removeLoop ident is (take i arr @ take (len - (i + 1)) (drop (i + 1) arr) @ drop (len - 1) arr, len - 1)
      else removeLoop ident is (arr, len))"

definition handleRemove :: "string \<Rightarrow> GhRunner list \<Rightarrow> (Response \<times> GhRunner list) go" where
  "handleRemove ident rs =
     go_bind (removeLoop ident [0..<length rs] (rs, length rs))
       (\<lambda>(arr, len). go_bind (respond 200 []) (\<lambda>resp. Ret (resp, take len arr)))"

text \<open>The routes of \<open>GetServer\<close>; \<open>vars\<close> is the router's match of a path with a route.\<close>

datatype listRoute = ListRoute | RemoveRoute

definition listRoutes :: "(string \<times> listRoute) list" where
  "listRoutes =
     [(''/repos/{owner}/{repo}/actions/runners'', ListRoute), (''/repos/{owner}/{repo}/actions/runners/{id}'', RemoveRoute),
      (''/orgs/{org}/actions/runners'', ListRoute), (''/orgs/{org}/actions/runners/{id}'', RemoveRoute)]"

definition GetServer ::
  "(int \<Rightarrow> GhRunner list \<Rightarrow> string option) \<Rightarrow> (string \<Rightarrow> string \<Rightarrow> (string \<times> string) list option) \<Rightarrow> string \<Rightarrow> GhRunner list \<Rightarrow> (Response \<times> GhRunner list) go" where
  "GetServer marshal vars path rs =
     (case List.find (\<lambda>(route, _). vars route path \<noteq> None) listRoutes of
        None \<Rightarrow> go_bind (respond 404 (''404 page not found'' @ [CHR 0x0A])) (\<lambda>resp. Ret (resp, rs))
      | Some (route, ListRoute) \<Rightarrow> go_bind (HandleList marshal rs) (\<lambda>resp. Ret (resp, rs))
      | Some (route, RemoveRoute) \<Rightarrow> handleRemove (orEmpty (map_of (the (vars route path)) ''id'')) rs)"

subsection \<open>The fixed responses: \<open>fake.go\<close> and \<open>options.go\<close>\<close>

definition Fprintf :: "(string \<Rightarrow> string) \<Rightarrow> string \<Rightarrow> string" where
  "Fprintf directives s = (if CHR ''%'' \<in> set s then directives s else s)"

record ListRunnersHandler =
  lh_Status :: int
  lh_Body :: string

definition ListRunnersHandler_ServeHTTP :: "(string \<Rightarrow> string) \<Rightarrow> ListRunnersHandler \<Rightarrow> Response go" where
  "ListRunnersHandler_ServeHTTP d h = respond (lh_Status h) (Fprintf d (lh_Body h))"

record Handler =
  hd_Status :: int
  hd_Body :: string
  hd_Statuses :: "(string \<times> string) list"

definition Handler_ServeHTTP :: "(string \<Rightarrow> string) \<Rightarrow> Handler \<Rightarrow> Request \<Rightarrow> Response go" where
  "Handler_ServeHTTP d h req =
     respond (hd_Status h)
       (case map_of (hd_Statuses h) (orEmpty (map_of (req_Query req) ''status'')) of
          Some body \<Rightarrow> Fprintf d body
        | None \<Rightarrow> Fprintf d (hd_Body h))"

record MapHandler =
  mh_Status :: int
  mh_Bodies :: "(int \<times> string) list"

definition TrimFunc :: "(char \<Rightarrow> bool) \<Rightarrow> string \<Rightarrow> string" where
  "TrimFunc f s = rev (dropWhile f (rev (dropWhile f s)))"

definition MapHandler_ServeHTTP :: "(string \<Rightarrow> string) \<Rightarrow> MapHandler \<Rightarrow> Request \<Rightarrow> Response go" where
  "MapHandler_ServeHTTP d h req =
     (case ParseInt10 (TrimFunc (\<lambda>c. \<not> isDigitC c) (req_Path req)) of
        None \<Rightarrow> respond 400 []
      | Some key \<Rightarrow>
          (let body = orEmpty (map_of (mh_Bodies h) key)
           in if length body = 0 then respond 404 [] else respond (mh_Status h) (Fprintf d body)))"

text \<open>A handler behind the interface \<open>http.Handler\<close>; a nil pointer is not a nil interface. \<open>HandlerFunc\<close> stands for the list handler of a \<open>RunnersList\<close>.\<close>

datatype http_Handler =
    FixedHandler "Handler option"
  | BodiesHandler "MapHandler option"
  | ListHandler ListRunnersHandler
  | HandlerFunc "Request \<Rightarrow> Response go"

fun ServeHTTP :: "(string \<Rightarrow> string) \<Rightarrow> http_Handler \<Rightarrow> Request \<Rightarrow> Response go" where
  "ServeHTTP d (FixedHandler None) req = Panic ''nil pointer dereference''"
| "ServeHTTP d (FixedHandler (Some h)) req = Handler_ServeHTTP d h req"
| "ServeHTTP d (BodiesHandler None) req = (case ParseInt10 (TrimFunc (\<lambda>c. \<not> isDigitC c) (req_Path req)) of None \<Rightarrow> respond 400 [] | Some _ \<Rightarrow> Panic ''nil pointer dereference'')"
| "ServeHTTP d (BodiesHandler (Some h)) req = MapHandler_ServeHTTP d h req"
| "ServeHTTP d (ListHandler h) req = ListRunnersHandler_ServeHTTP d h"
| "ServeHTTP d (HandlerFunc f) req = f req"

record FixedResponses =
  fr_ListRepositoryWorkflowRuns :: "Handler option"
  fr_ListWorkflowJobs :: "MapHandler option"
  fr_ListRunners :: "http_Handler option"

type_synonym fakeOption = "FixedResponses \<Rightarrow> FixedResponses"

definition WithListRepositoryWorkflowRunsResponse :: "int \<Rightarrow> string \<Rightarrow> string \<Rightarrow> string \<Rightarrow> fakeOption" where
  "WithListRepositoryWorkflowRunsResponse status body queued in_progress c =
     c\<lparr>fr_ListRepositoryWorkflowRuns := Some \<lparr>hd_Status = status, hd_Body = body, hd_Statuses = [(''queued'', queued), (''in_progress'', in_progress)]\<rparr>\<rparr>"

definition WithListWorkflowJobsResponse :: "int \<Rightarrow> (int \<times> string) list \<Rightarrow> fakeOption" where
  "WithListWorkflowJobsResponse status bodies c = c\<lparr>fr_ListWorkflowJobs := Some \<lparr>mh_Status = status, mh_Bodies = bodies\<rparr>\<rparr>"

definition WithListRunnersResponse :: "int \<Rightarrow> string \<Rightarrow> fakeOption" where
  "WithListRunnersResponse status body c = c\<lparr>fr_ListRunners := Some (ListHandler \<lparr>lh_Status = status, lh_Body = body\<rparr>)\<rparr>"

definition WithFixedResponses :: "FixedResponses \<Rightarrow> fakeOption" where
  "WithFixedResponses responses c = responses"

definition RegistrationTokenText :: string where "RegistrationTokenText = ''fake-registration-token''"

definition RunnersListBody :: string where
  "RunnersListBody =
     [CHR 0x0A] @ ''{'' @ [CHR 0x0A] @ ''  \"total_count\": 2,'' @ [CHR 0x0A] @ ''  \"runners\": ['' @ [CHR 0x0A] @
     ''    {\"id\": 1, \"name\": \"test1\", \"os\": \"linux\", \"status\": \"online\", \"busy\": false},'' @ [CHR 0x0A] @
     ''    {\"id\": 2, \"name\": \"test2\", \"os\": \"linux\", \"status\": \"offline\", \"busy\": false}'' @ [CHR 0x0A] @
     ''  ]'' @ [CHR 0x0A] @ ''}'' @ [CHR 0x0A]"

definition DefaultListRunnersHandler :: ListRunnersHandler where
  "DefaultListRunnersHandler = \<lparr>lh_Status = 200, lh_Body = RunnersListBody\<rparr>"

definition fixed :: "int \<Rightarrow> string \<Rightarrow> http_Handler option" where
  "fixed status body = Some (FixedHandler (Some \<lparr>hd_Status = status, hd_Body = body, hd_Statuses = []\<rparr>))"

definition fakeRoutes :: "duration \<Rightarrow> time \<Rightarrow> FixedResponses \<Rightarrow> (string \<times> http_Handler option) list" where
  "fakeRoutes loc now config =
     (let token = ''{\"token\": \"'' @ RegistrationTokenText @ ''\", \"expires_at\": \"'' @ FormatRFC3339 loc (now + Hour) @ ''\"}''
      in [(''/repos/test/valid/actions/runners/registration-token'', fixed 201 token),
          (''/repos/test/invalid/actions/runners/registration-token'', fixed 200 token),
          (''/repos/test/error/actions/runners/registration-token'', fixed 400 []),
          (''/orgs/test/actions/runners/registration-token'', fixed 201 token),
          (''/orgs/invalid/actions/runners/registration-token'', fixed 200 token),
          (''/orgs/error/actions/runners/registration-token'', fixed 400 []),
          (''/enterprises/test/actions/runners/registration-token'', fixed 201 token),
          (''/enterprises/invalid/actions/runners/registration-token'', fixed 200 token),
          (''/enterprises/error/actions/runners/registration-token'', fixed 400 []),
          (''/repos/test/valid/actions/runners'', fr_ListRunners config),
          (''/repos/test/invalid/actions/runners'', fixed 204 []),
          (''/repos/test/error/actions/runners'', fixed 400 []),
          (''/orgs/test/actions/runners'', fixed 200 RunnersListBody),
          (''/orgs/invalid/actions/runners'', fixed 204 []),
          (''/orgs/error/actions/runners'', fixed 400 []),
          (''/enterprises/test/actions/runners'', fixed 200 RunnersListBody),
          (''/enterprises/invalid/actions/runners'', fixed 204 []),
          (''/enterprises/error/actions/runners'', fixed 400 []),
          (''/repos/test/valid/actions/runners/0'', fixed 204 []),
          (''/repos/test/valid/actions/runners/1'', fixed 204 []),
          (''/repos/test/invalid/actions/runners/1'', fixed 200 []),
          (''/repos/test/error/actions/runners/1'', fixed 400 []),
          (''/orgs/test/actions/runners/1'', fixed 204 []),
          (''/orgs/invalid/actions/runners/1'', fixed 200 []),
          (''/orgs/error/actions/runners/1'', fixed 400 []),
          (''/enterprises/test/actions/runners/1'', fixed 204 []),
          (''/enterprises/invalid/actions/runners/1'', fixed 200 []),
          (''/enterprises/error/actions/runners/1'', fixed 400 []),
          (''/repos/test/valid/actions/runs'', Some (FixedHandler (fr_ListRepositoryWorkflowRuns config))),
          (''/repos/test/valid/actions/runs/'', Some (BodiesHandler (fr_ListWorkflowJobs config)))])"

text \<open>\<open>ServeMux\<close>: registering a nil interface panics; a path is served by the route that is the same, else by the longest route that ends in a slash and that the path starts with, after a redirect when only the path with a slash is registered.\<close>

fun muxHandle :: "(string \<times> http_Handler option) list \<Rightarrow> (string \<times> http_Handler) list go" where
  "muxHandle [] = Ret []"
| "muxHandle ((path, None) # routes) = Panic ''http: nil handler''"
| "muxHandle ((path, Some h) # routes) = go_bind (muxHandle routes) (\<lambda>m. Ret ((path, h) # m))"

definition longest :: "string list \<Rightarrow> string option" where
  "longest ps = fold (\<lambda>p best. case best of None \<Rightarrow> Some p | Some b \<Rightarrow> if length p > length b then Some p else best) ps None"

definition muxServe :: "(string \<Rightarrow> string) \<Rightarrow> (string \<times> http_Handler) list \<Rightarrow> Request \<Rightarrow> Response go" where
  "muxServe d m req =
     (let path = req_Path req
      in case map_of m path of
           Some h \<Rightarrow> ServeHTTP d h req
         | None \<Rightarrow>
             if map_of m (path @ ''/'') \<noteq> None then respond 301 []
             else case longest (filter (\<lambda>p. HasSuffix p ''/'' \<and> HasPrefix path p) (map fst m)) of
                    Some p \<Rightarrow> ServeHTTP d (the (map_of m p)) req
                  | None \<Rightarrow> respond 404 (''404 page not found'' @ [CHR 0x0A]))"

definition NewServer :: "duration \<Rightarrow> time \<Rightarrow> fakeOption list \<Rightarrow> (string \<times> http_Handler) list go" where
  "NewServer loc now opts =
     muxHandle (fakeRoutes loc now (fold (\<lambda>opt c. opt c) opts \<lparr>fr_ListRepositoryWorkflowRuns = None, fr_ListWorkflowJobs = None, fr_ListRunners = None\<rparr>))"

subsection \<open>Removing a runner\<close>

lemma removeLoop_append: "removeLoop ident (is @ js) s = go_bind (removeLoop ident is s) (removeLoop ident js)"
  by (induction ident "is" s rule: removeLoop.induct) auto

lemma removeLoop_none: "\<forall>i \<in> set is. \<not> hasID ident (arr ! i) \<Longrightarrow> removeLoop ident is (arr, len) = Ret (arr, len)"
  by (induction "is") auto

lemma removeLoop_one:
  assumes r: "hasID ident r" and xs: "\<forall>x \<in> set xs. \<not> hasID ident x" and ys: "\<forall>y \<in> set ys. \<not> hasID ident y"
  shows "\<exists>arr. removeLoop ident [0..<length (xs @ r # ys)] (xs @ r # ys, length (xs @ r # ys)) = Ret (arr, length (xs @ ys)) \<and> take (length (xs @ ys)) arr = xs @ ys"
proof -
  let ?rs = "xs @ r # ys" and ?arr = "xs @ ys @ drop (length xs + length ys) (xs @ r # ys)"
  have idx: "[0..<length ?rs] = [0..<length xs] @ length xs # [Suc (length xs)..<length ?rs]"
    using upt_add_eq_append [of 0 "length xs" "Suc (length ys)"] by (simp add: upt_conv_Cons del: upt_Suc)
  have "removeLoop ident [0..<length xs] (?rs, length ?rs) = Ret (?rs, length ?rs)"
    by (rule removeLoop_none) (use xs in \<open>auto simp: nth_append\<close>)
  moreover have "\<not> hasID ident (?arr ! i)" if "i \<in> set [Suc (length xs)..<length ?rs]" for i
  proof -
    from that have i: "length xs < i" "i \<le> length xs + length ys" by auto
    then have "ys \<noteq> []" by auto
    then have "drop (length xs + length ys) ?rs = [last ys]" by (cases ys rule: rev_cases) simp_all
    with i \<open>ys \<noteq> []\<close> have "?arr ! i \<in> set ys"
      by (cases "i = length xs + length ys") (auto simp: nth_append)
    with ys show ?thesis by blast
  qed
  then have "removeLoop ident [Suc (length xs)..<length ?rs] (?arr, length (xs @ ys)) = Ret (?arr, length (xs @ ys))"
    by (intro removeLoop_none) blast
  ultimately show ?thesis using r unfolding idx removeLoop_append by (simp del: upt_Suc)
qed

lemma respond_200 [simp]: "respond 200 b = Ret \<lparr>resp_Status = 200, resp_Body = b\<rparr>"
  by (simp add: respond_def)

lemma handleRemove_unique:
  assumes "length (filter (hasID ident) rs) \<le> 1"
  shows "handleRemove ident rs = Ret (\<lparr>resp_Status = 200, resp_Body = []\<rparr>, filter (\<lambda>r. \<not> hasID ident r) rs)"
proof (cases "\<exists>r \<in> set rs. hasID ident r")
  case False
  then have "removeLoop ident [0..<length rs] (rs, length rs) = Ret (rs, length rs)" by (intro removeLoop_none) simp
  with False show ?thesis by (simp add: handleRemove_def filter_id_conv)
next
  case True
  then obtain xs r ys where rs: "rs = xs @ r # ys" "hasID ident r" "\<forall>x \<in> set xs. \<not> hasID ident x" by (rule split_list_first_propE)
  with assms have ys: "\<forall>y \<in> set ys. \<not> hasID ident y" by (auto simp: filter_empty_conv)
  from removeLoop_one [OF rs(2,3) ys] show ?thesis using rs ys by (auto simp: handleRemove_def filter_id_conv)
qed

text \<open>With the last runner and another one under the same id, the loop comes to the last element of the array after the list has become shorter, and slices beyond its end.\<close>

lemma removeLoop_shrinks:
  "removeLoop ident is (arr, len) = Ret (arr', len') \<Longrightarrow> len \<le> length arr \<Longrightarrow>
     len' \<le> len \<and> length arr' = length arr \<and> (arr \<noteq> [] \<longrightarrow> last arr' = last arr) \<and> ((\<forall>i \<in> set is. \<not> hasID ident (arr ! i)) \<or> len' < len)"
proof (induction "is" arbitrary: arr len)
  case (Cons i "is")
  show ?case
  proof (cases "hasID ident (arr ! i)")
    case False
    with Cons show ?thesis by auto
  next
    case True
    define arr1 where "arr1 = take i arr @ take (len - (i + 1)) (drop (i + 1) arr) @ drop (len - 1) arr"
    from True Cons.prems have i: "i + 1 \<le> len" and r: "removeLoop ident is (arr1, len - 1) = Ret (arr', len')"
      by (auto simp: arr1_def split: if_splits)
    have l: "length arr1 = length arr" using i Cons.prems(2) by (simp add: arr1_def)
    have "arr \<noteq> [] \<longrightarrow> last arr1 = last arr" using i Cons.prems(2) by (auto simp: arr1_def last_append)
    moreover have "arr1 \<noteq> [] \<longleftrightarrow> arr \<noteq> []" using l by (metis length_0_conv)
    moreover have "len' \<le> len - 1 \<and> length arr' = length arr1 \<and> (arr1 \<noteq> [] \<longrightarrow> last arr' = last arr1)"
      using Cons.IH [OF r] l Cons.prems(2) by simp
    ultimately show ?thesis using l i by auto
  qed
qed auto

lemma removeLoop_no_error: "removeLoop ident is s \<noteq> Err e" "removeLoop ident is s \<noteq> Hang"
  by (induction ident "is" s rule: removeLoop.induct) auto

lemma handleRemove_duplicate:
  assumes z: "hasID ident z" and r: "r \<in> set rs" "hasID ident r"
  shows "\<exists>s. handleRemove ident (rs @ [z]) = Panic s"
proof (cases "removeLoop ident [0..<length rs] (rs @ [z], length (rs @ [z]))")
  case (Ret x)
  then obtain arr len where x: "removeLoop ident [0..<length rs] (rs @ [z], length (rs @ [z])) = Ret (arr, len)" by (cases x) auto
  from r obtain i where "i < length rs" "rs ! i = r" by (auto simp: in_set_conv_nth)
  with r(2) removeLoop_shrinks [OF x] have arr: "length arr = Suc (length rs)" "last arr = z" "len < Suc (length rs)"
    by (auto simp: nth_append)
  then have "arr ! length rs = z" using last_conv_nth [of arr] by (cases arr) auto
  with arr z x show ?thesis by (simp add: handleRemove_def removeLoop_append)
qed (use removeLoop_no_error in \<open>auto simp: handleRemove_def removeLoop_append\<close>)

subsection \<open>The runners that the tests put in\<close>

lemma Sprintd_inj:
  assumes "0 \<le> i" "0 \<le> j" "Sprintd i = Sprintd j"
  shows "i = j"
proof -
  from assms have "digitsVal (Itoa (nat i)) = digitsVal (Itoa (nat j))" by (simp add: Sprintd_def)
  with assms(1,2) show ?thesis by (simp add: digitsVal_Itoa)
qed

lemma exists_runner_named:
  "\<forall>r \<in> set rs. ghr_Name r \<noteq> None \<Longrightarrow> ghr_Name x = Some n \<Longrightarrow> exists_runner rs x = Ret (n \<in> the ` ghr_Name ` set rs)"
  by (induction rs) auto

definition syncedRunner :: "string \<Rightarrow> int \<Rightarrow> string \<Rightarrow> GhRunner" where
  "syncedRunner status i name = \<lparr>ghr_ID = Some i, ghr_Name = Some name, ghr_Status = status, ghr_Busy = False\<rparr>"

lemma addAll_distinct:
  assumes "distinct (map (\<lambda>w. om_Name (r_Meta w)) wants)" and "\<forall>r \<in> set rs. ghr_Name r \<noteq> None"
    and "the ` ghr_Name ` set rs \<inter> (\<lambda>w. om_Name (r_Meta w)) ` set wants = {}"
  shows "addAll i status wants rs = Ret (rs @ map (\<lambda>k. syncedRunner status (i + int k) (om_Name (r_Meta (wants ! k)))) [0..<length wants])"
  using assms
proof (induction wants arbitrary: i rs)
  case (Cons w wants)
  let ?r = "syncedRunner status i (om_Name (r_Meta w))"
  have add: "Add_runner rs ?r = Ret (rs @ [?r])"
    using Cons.prems(2,3) by (simp add: Add_runner_def exists_runner_named syncedRunner_def)
  have "addAll (i + 1) status wants (rs @ [?r]) =
      Ret ((rs @ [?r]) @ map (\<lambda>k. syncedRunner status (i + 1 + int k) (om_Name (r_Meta (wants ! k)))) [0..<length wants])"
    by (rule Cons.IH) (use Cons.prems in \<open>auto simp: syncedRunner_def\<close>)
  moreover have "[0..<length (w # wants)] = 0 # map Suc [0..<length wants]" by (simp add: map_Suc_upt upt_conv_Cons del: upt_Suc)
  ultimately show ?case using add by (simp add: syncedRunner_def comp_def add.assoc del: upt_Suc)
qed simp

lemma Sync_runners_distinct:
  assumes "distinct (map (\<lambda>w. om_Name (r_Meta w)) wants)"
  shows "Sync_runners wants rs = Ret (map (\<lambda>k. syncedRunner ''online'' (int k) (om_Name (r_Meta (wants ! k)))) [0..<length wants])"
  using addAll_distinct [OF assms, of "[]" 0 "''online''"] by (simp add: Sync_runners_def)

lemma hasID_synced: "hasID (Sprintd (int i)) (syncedRunner status (int k) name) \<longleftrightarrow> k = i"
  using Sprintd_inj [of "int i" "int k"] by (auto simp: hasID_def syncedRunner_def)

text \<open>
  The double of GitHub's runners: after a synchronisation with runners of distinct names, removing one by its id answers 200 and leaves exactly the others, in their order, although the loop shifts the array it ranges over. The GitHub client takes this answer for a failure, whatever the organization: it wants the status 204, which GitHub gives. With the last runner and another one under the same id
  the removal panics.
\<close>

theorem fake_removal:
  assumes "distinct (map (\<lambda>w. om_Name (r_Meta w)) wants)" and "i < length wants" and "org \<noteq> []"
  shows "(\<exists>rs resp. Sync_runners wants rs0 = Ret rs \<and> map ghr_Name rs = map (\<lambda>w. Some (om_Name (r_Meta w))) wants \<and>
      handleRemove (Sprintd (int i)) rs = Ret (resp, take i rs @ drop (Suc i) rs) \<and> resp_Status resp = 200 \<and>
      (\<forall>gh. gh_RemoveOrganizationRunner gh org (int i) = Ret (resp_Status resp) \<longrightarrow> RemoveRunner gh [] org [] (int i) = Err (Errorf ''unexpected status''))) \<and>
    (\<forall>ident z r rs. hasID ident z \<and> r \<in> set rs \<and> hasID ident r \<longrightarrow> (\<exists>s. handleRemove ident (rs @ [z]) = Panic s))"
proof -
  let ?f = "\<lambda>k. syncedRunner ''online'' (int k) (om_Name (r_Meta (wants ! k)))"
  let ?rs = "map ?f [0..<length wants]"
  have idx: "[0..<length wants] = [0..<i] @ i # [Suc i..<length wants]"
    using assms(2) upt_add_eq_append [of 0 i "length wants - i"] by (simp add: upt_conv_Cons)
  have "filter (hasID (Sprintd (int i))) ?rs = [?f i]" and rest: "filter (\<lambda>r. \<not> hasID (Sprintd (int i)) r) ?rs = map ?f ([0..<i] @ [Suc i..<length wants])"
    by (auto simp: idx hasID_synced filter_map comp_def intro!: filter_True filter_False)
  then have "handleRemove (Sprintd (int i)) ?rs = Ret (\<lparr>resp_Status = 200, resp_Body = []\<rparr>, map ?f ([0..<i] @ [Suc i..<length wants]))"
    by (simp add: handleRemove_unique)
  moreover have "take i ?rs @ drop (Suc i) ?rs = map ?f ([0..<i] @ [Suc i..<length wants])"
    using assms(2) by (simp add: take_map drop_map)
  moreover have "map ghr_Name ?rs = map (\<lambda>w. Some (om_Name (r_Meta w))) wants"
    by (intro nth_equalityI) (simp_all add: syncedRunner_def)
  moreover have "RemoveRunner gh [] org [] (int i) = Err (Errorf ''unexpected status'')" if "gh_RemoveOrganizationRunner gh org (int i) = Ret 200" for gh
    using that assms(3) by (simp add: RemoveRunner_def getEnterpriseOrganizationAndRepo_def removeRunner_def)
  ultimately show ?thesis
    using Sync_runners_distinct [OF assms(1), of rs0] handleRemove_duplicate by (intro conjI exI [of _ ?rs] exI) auto
qed

definition testRunner :: "string \<Rightarrow> Runner" where
  "testRunner name = \<lparr>r_Meta = emptyMeta\<lparr>om_Name := name\<rparr>, r_Spec = exampleSpec,
     r_Status = \<lparr>rst_Ready = False, rst_Registration = \<lparr>reg_Enterprise = [], reg_Organization = [], reg_Repository = [], reg_Labels = [], reg_Token = [], reg_ExpiresAt = 0\<rparr>,
       rst_Phase = [], rst_Reason = [], rst_Message = [], rst_LastRegistrationCheckTime = None\<rparr>\<rparr>"

theorem fake_removal_witness:
  "\<exists>rs resp. Sync_runners [testRunner ''a'', testRunner ''b''] [] = Ret rs \<and> handleRemove (Sprintd (int 0)) rs = Ret (resp, drop 1 rs) \<and> map ghr_Name rs = [Some ''a'', Some ''b'']"
  using fake_removal [of "[testRunner ''a'', testRunner ''b'']" 0 "''org''" "[]"] by (auto simp: testRunner_def)

subsection \<open>The fixed responses\<close>

definition fakeConfig :: "fakeOption list \<Rightarrow> FixedResponses" where
  "fakeConfig opts = fold (\<lambda>opt c. opt c) opts \<lparr>fr_ListRepositoryWorkflowRuns = None, fr_ListWorkflowJobs = None, fr_ListRunners = None\<rparr>"

lemma muxHandle_eq:
  "muxHandle routes = (if None \<in> snd ` set routes then Panic ''http: nil handler'' else Ret (map (\<lambda>(p, h). (p, the h)) routes))"
  by (induction routes rule: muxHandle.induct) auto

text \<open>The double starts exactly when the tests give it a handler for the list of runners.\<close>

lemma NewServer_starts:
  "NewServer loc now opts =
     (if fr_ListRunners (fakeConfig opts) = None then Panic ''http: nil handler''
      else Ret (map (\<lambda>(p, h). (p, the h)) (fakeRoutes loc now (fakeConfig opts))))"
  unfolding NewServer_def fakeConfig_def [symmetric] muxHandle_eq by (auto simp: fakeRoutes_def Let_def fixed_def)

text \<open>The scopes of the double with the statuses of its answers to a request for a registration token and to the removal of runner 1: the client succeeds with 201 and 204.\<close>

definition fakeScopes :: "(string \<times> int \<times> int) list" where
  "fakeScopes =
     [(''/repos/test/valid'', 201, 204), (''/repos/test/invalid'', 200, 200), (''/repos/test/error'', 400, 400),
      (''/orgs/test'', 201, 204), (''/orgs/invalid'', 200, 200), (''/orgs/error'', 400, 400),
      (''/enterprises/test'', 201, 204), (''/enterprises/invalid'', 200, 200), (''/enterprises/error'', 400, 400)]"

lemma muxServe_fixed:
  "map_of m path = Some (FixedHandler (Some \<lparr>hd_Status = st, hd_Body = b, hd_Statuses = []\<rparr>)) \<Longrightarrow>
     muxServe d m \<lparr>req_Path = path, req_Query = q\<rparr> = respond st (Fprintf d b)"
  by (simp add: muxServe_def Let_def Handler_ServeHTTP_def)

lemma fakeRoutes_scopes:
  "list_all (\<lambda>(scope, token, remove). (\<exists>b. map_of (fakeRoutes loc now config) (scope @ ''/actions/runners/registration-token'') = Some (fixed token b)) \<and>
     map_of (fakeRoutes loc now config) (scope @ ''/actions/runners/1'') = Some (fixed remove [])) fakeScopes"
  unfolding fakeScopes_def list.pred_inject case_prod_conv by (intro conjI) (simp_all add: fakeRoutes_def Let_def, (rule exI, rule refl)+)

lemma fakeScopes_range: "(scope, token, remove) \<in> set fakeScopes \<Longrightarrow> 100 \<le> token \<and> token \<le> 999 \<and> 100 \<le> remove \<and> remove \<le> 999"
  by (auto simp: fakeScopes_def)

lemma fake_scope_statuses:
  assumes m: "NewServer loc now opts = Ret m" and s: "(scope, token, remove) \<in> set fakeScopes"
  shows "(\<exists>b. muxServe d m \<lparr>req_Path = scope @ ''/actions/runners/registration-token'', req_Query = q\<rparr> = Ret \<lparr>resp_Status = token, resp_Body = b\<rparr>) \<and>
    muxServe d m \<lparr>req_Path = scope @ ''/actions/runners/1'', req_Query = q\<rparr> = Ret \<lparr>resp_Status = remove, resp_Body = []\<rparr>"
proof -
  from m have "m = map (\<lambda>(p, h). (p, the h)) (fakeRoutes loc now (fakeConfig opts))" by (simp add: NewServer_starts split: if_splits)
  then have m': "map_of m path = map_option the (map_of (fakeRoutes loc now (fakeConfig opts)) path)" for path by (simp add: map_of_map)
  from s fakeRoutes_scopes [of loc now "fakeConfig opts"] obtain b where
    "map_of (fakeRoutes loc now (fakeConfig opts)) (scope @ ''/actions/runners/registration-token'') = Some (fixed token b)"
    "map_of (fakeRoutes loc now (fakeConfig opts)) (scope @ ''/actions/runners/1'') = Some (fixed remove [])"
    by (auto simp: list_all_iff)
  then show ?thesis
    using fakeScopes_range [OF s] muxServe_fixed [of m _ _ _ d q] by (auto simp: m' fixed_def respond_def Fprintf_def)
qed

text \<open>The jobs of a workflow run: the id of the run is read out of the path of the request.\<close>

lemma TrimFunc_middle:
  assumes "\<forall>c \<in> set a. f c" and "\<forall>c \<in> set b. f c" and "\<forall>c \<in> set s. \<not> f c" and "s \<noteq> []"
  shows "TrimFunc f (a @ s @ b) = s"
proof -
  have "dropWhile f (a @ s @ b) = s @ b" using assms by (cases s) auto
  moreover have "dropWhile f (rev b @ rev s) = dropWhile f (rev s)" by (rule dropWhile_append2) (use assms(2) in simp)
  then have "dropWhile f (rev b @ rev s) = rev s" using assms(3,4) by (cases s rule: rev_cases) auto
  ultimately show ?thesis by (simp add: TrimFunc_def)
qed

lemma fake_workflow_jobs:
  assumes m: "NewServer loc now opts = Ret m" and h: "fr_ListWorkflowJobs (fakeConfig opts) = Some h"
    and n: "0 \<le> n" "n < 2 ^ 63" and b: "map_of (mh_Bodies h) n = Some b" "b \<noteq> []" "CHR ''%'' \<notin> set b"
  shows "muxServe d m \<lparr>req_Path = ''/repos/test/valid/actions/runs/'' @ Sprintd n @ ''/jobs'', req_Query = q\<rparr> = respond (mh_Status h) b"
proof -
  let ?path = "''/repos/test/valid/actions/runs/'' @ Sprintd n @ ''/jobs''"
  have digits: "list_all isDigitC (Sprintd n)" "Sprintd n \<noteq> []" using n Itoa_digits [of "nat n"] by (simp_all add: Sprintd_def)
  have m': "m = map (\<lambda>(p, h). (p, the h)) (fakeRoutes loc now (fakeConfig opts))" using m by (simp add: NewServer_starts split: if_splits)
  have trim: "TrimFunc (\<lambda>c. \<not> isDigitC c) ?path = Sprintd n"
    using digits by (intro TrimFunc_middle) (auto simp: isDigitC_def list_all_iff)
  have none: "map_of m ?path = None" "map_of m (?path @ ''/'') = None"
    using digits(2) by (simp_all add: m' fakeRoutes_def Let_def)
  have "filter (\<lambda>p. HasSuffix p ''/'' \<and> HasPrefix ?path p) (map fst m) = [''/repos/test/valid/actions/runs/'']"
    by (simp add: m' fakeRoutes_def Let_def HasSuffix_def HasPrefix_def suffix_def)
  moreover have "map_of m ''/repos/test/valid/actions/runs/'' = Some (BodiesHandler (Some h))"
    using h by (simp add: m' fakeRoutes_def Let_def)
  ultimately have "muxServe d m \<lparr>req_Path = ?path, req_Query = q\<rparr> = MapHandler_ServeHTTP d h \<lparr>req_Path = ?path, req_Query = q\<rparr>"
    using none by (simp add: muxServe_def longest_def)
  also have "\<dots> = respond (mh_Status h) b"
    using n b trim by (simp add: MapHandler_ServeHTTP_def ParseInt10_Sprintd orEmpty_def Fprintf_def)
  finally show ?thesis .
qed

end
