(* ===== verification/Spec2Isabelle.thy ===== *)
theory Spec2Isabelle
  imports Scale_Up Runner_Pod_Controller Runner_Set_Controller Scale_Down_Runs Processes Forwarder_Process Shutdown Controller_Setup Deep_Copy Fake_GitHub
begin

text \<open>
  Verification of the actions-runner-controller, a Kubernetes operator that runs self-hosted GitHub Actions runners.

  \<^bold>\<open>The program.\<close> A \<open>HorizontalRunnerAutoscaler\<close> decides how many runners a \<open>RunnerDeployment\<close> or a \<open>RunnerSet\<close> should have, from metrics it reads at GitHub and from capacity that the webhook server
  reserves when jobs are queued. The deployment controller turns a deployment into \<open>RunnerReplicaSet\<close>s, one per version of its template; a replica set creates \<open>Runner\<close>s, and the runner controller registers each with GitHub
  and creates its pod. A runner set creates \<open>StatefulSet\<close>s whose pods get their token from an admission webhook. Pods are stopped gracefully: first unregistered at GitHub, then deleted. Two small programs forward webhook
  deliveries to a server that GitHub cannot reach.

  \<^bold>\<open>How it is modelled.\<close> A Go function that returns a value and an error is a function into \<open>'a go\<close> (value, error, panic or no return); code that writes to an API server is an \<open>eff\<close>, which extends the log of the calls made and whose
  continuation depends on the server's answers; a server is a function from the calls before and the call to an answer, so that every failure pattern is covered (theory Arc_Prelude). The program logic of theory Run_Logic
  has one rule per combinator and derives what every call of a run satisfies and which panics are possible. Reads of the API server, the clock, GitHub (go-github), the recurrence rules (rrule), the object
  printer (spew), \<open>SetControllerReference\<close> and \<open>sort.Slice\<close>, which may leave elements that its comparison does not tell apart in any order, are parameters; what a theorem needs of them is a named hypothesis, and witnesses instantiate them.

  \<^bold>\<open>The theories, and the files under src they model.\<close>
  \<^item> Arc_Prelude, Run_Logic, Run_History, Go_Strings, Go_Time, Go_Rfc3339, Go_Numbers, Go_Float: Go values, errors, effects; the parts of the standard library that the code uses (strings, calendar, time formats, numbers in texts, float64 with rounding to nearest even).
  \<^item> Kube_Types, Api_Types, Kube_Calls: pods, labels and selectors (\<open>controllers/constants.go\<close>, \<open>utils.go\<close>), the custom resources and their validators (\<open>api/v1alpha1\<close>), the writes of the controllers.
  \<^item> Actions_Glob (\<open>pkg/actionsglob\<close>), Fnv_Hash (\<open>hash\<close>), Runner_Groups and Group_Visibility (\<open>simulator\<close>), Schedule (\<open>controllers/schedule.go\<close>).
  \<^item> GitHub_Client and GitHub_Config (\<open>github/github.go\<close>): every operation of the client, with its cache of registration tokens; the choice of authentication and URLs.
  \<^item> Autoscaling and HRA_Controller (\<open>controllers/autoscaling.go\<close>, \<open>horizontalrunnerautoscaler_controller.go\<close>): both metrics, reservations, bounds, scale-down delay, overrides, the whole reconciliation.
  \<^item> HRA_Webhook (\<open>controllers/horizontal_runner_autoscaler_webhook*.go\<close>): the request handler, the search for a scale target, reservations, concurrent handlers as interleaved steps.
  \<^item> Graceful_Stop (\<open>controllers/runner_graceful_stop.go\<close>), Pod_Owner (\<open>runner_pod_owner.go\<close>): the unregistration protocol of a pod, and the synchronisation of runners or stateful sets with the desired number.
  \<^item> Runner_Pod, Runner_Controller (\<open>runner_controller.go\<close>), Runner_Pod_Controller (\<open>runner_pod_controller.go\<close>, \<open>pod_runner_token_injector.go\<close>): the pods and their controllers.
  \<^item> Deployment_Controller, Replica_Set_Controller, Runner_Set_Controller (\<open>runnerdeployment_controller.go\<close>, \<open>runnerreplicaset_controller.go\<close>, \<open>runnerset_controller.go\<close>).
  \<^item> Scale_Up: the way from the event of a queued job through the webhook server and four controllers to the pods of the new runners.
  \<^item> Pod_Unregistration: what one reconciliation of a runner pod may do to the pod and to GitHub, over all answers of both, and what it has learned when it does so.
  \<^item> Scale_Down, Scale_Down_Runs: the life of runners as a step relation. A world holds the runners, the pods, GitHub's runners and the jobs; a step is a reconciliation of a replica set, of a runner pod or of a runner (the definitions of the theories above, run on a server that may refuse any
    write), or an action from outside: a runner registers, leaves, takes or ends a job, a container changes its status, a user deletes a pod or a runner. The invariant of reachable worlds is kept by each step.
  \<^item> Telemetry (\<open>controllers/metrics\<close>, \<open>github/metrics\<close>, \<open>logging\<close>): gauges, loggers and the transports around the cache of the GitHub client.
  \<^item> Processes (\<open>main.go\<close>, \<open>cmd/githubwebhookserver\<close>): from the flags to the running manager.
  \<^item> Hook_Forwarder, Forwarder_Process (\<open>pkg/hookdeliveryforwarder\<close>, \<open>pkg/githubwebhookdeliveryforwarder\<close>): the forwarders, their start, and the forwarders of all rules side by side.
  \<^item> Shutdown (\<open>cmd/githubwebhookserver/main.go\<close>, \<open>pkg/hookdeliveryforwarder/config.go\<close> and \<open>signal.go\<close>, \<open>pkg/githubwebhookdeliveryforwarder/cmd\<close>): the goroutines of the servers as a step relation, until the process ends.
  \<^item> Controller_Setup (\<open>SetupWithManager\<close> of every controller, \<open>SetupWebhookWithManager\<close> of the API types): names, field indexes and watches, and which reconciliations an event of an object asks for.
  \<^item> Go_Heap, Deep_Copy (\<open>api/v1alpha1/zz_generated.deepcopy.go\<close>, \<open>groupversion_info.go\<close>): memory with cells that several values may share, and the generated deep copies over it. Elsewhere values of HOL stand for Go values, which is right where nothing is shared: what a controller changes is a deep copy.
  \<^item> Fake_GitHub (\<open>github/fake\<close>): the double of GitHub that the tests use.
  \<^item> this theory: properties that span components.

  \<^bold>\<open>Interfaces.\<close> The update of a scale target is a locale of HRA_Controller, interpreted for deployments and runner sets; the controller of owners of pods is a locale of Pod_Owner, interpreted by the replica set and the runner set
  controllers; the checkpointer is a locale of Hook_Forwarder, interpreted by the in-memory and the config map checkpointer; the wrapper of a transport is a locale of Telemetry, interpreted by the
  metrics and the logging transport and by their composition; the life of runners assumes of GitHub's answers only that no runner with a job is removed,
  and records answers that mislead the code (a listing out of the client's cache that is out of date, a removal answered with 403) as races; the locale \<open>true_answers\<close> of Scale_Down states when a client gives rise to none of them, and a reference server with a list of runners satisfies it; what the deep copies rely on of the types of libraries is the locale \<open>go_library\<close> of Go_Heap
  (their readings depend on allocated cells only, their own copies are deep, those copied by assignment hold no addresses), extended to \<open>api_library\<close> for the types of this API.

  \<^bold>\<open>What is shown.\<close> Over the whole life of runners: scaling down interrupts no job, in every interleaving and outside the races that are listed with the theorem, one of which is shown to be real; an idle runner comes down in four reconciliations, each with its exact effect. Safety of deletion: runners, pods, stateful sets and replica sets are deleted, and finalizers taken off, only when no job can be running on them. Progress: a queued job gets a runner with its labels, from zero replicas and through all controllers; a queued job raises the deployment, a deployment gets its
  runners, a runner gets its pod, a runner set its stateful sets. Exactness of the number of replicas, of the scale target chosen, of runner group precedence and of schedules. Stability of the reconciliation. Invariants of the token cache and of
  the forwarder. Errors: which panics are reachable, which errors are swallowed. Start and end of the processes: nothing runs before everything is set up, and a process that goes down ends after a bounded number of actions. Controllers are woken by what they created. A deep copy of an API object shares no memory with the original.

  \<^bold>\<open>Loops.\<close> Structural recursion wherever the code ranges over a list; a measure for the binary search; paging through GitHub's answers is a \<open>partial_function\<close> in the option monad (the code has no bound on the number of pages), with theorems
  that it returns when the pages end. The forwarders' endless loop runs over a finite but arbitrary sequence of polls, so nothing depends on a bound.

  \<^bold>\<open>Not modelled.\<close> Parsing of flags and of the environment, HTTP servers and the managers themselves, which are libraries; the cache of the GitHub client; the drivers of the end-to-end tests, which run other programs.
  In the life of runners each reconciliation is one step on what it has read, so that stale reads within a reconciliation are not covered there; the theorems on single reconciliations hold for arbitrary reads. Overflow of Go's 64 bit
  integers is not modelled; the conversions to 32 bits are.
\<close>

section \<open>From a webhook to the runner deployment\<close>

text \<open>
  C2. From a queued job to the runner deployment: the webhook reserves replicas on the autoscaler; as long as the reservation has not expired, a successful reconciliation of that autoscaler leaves the deployment with at least
  the replicas the metrics suggest (the minimum where they suggest none) plus those reserved before plus those of the job, up to the maximum.
\<close>

theorem queued_job_scales_deployment:
  assumes amount: "0 < amount" and time: "now \<le> t" "t < now' + d"
    and stored: "k_GetHRA (he_Reads env) namespace name = Ret (afterScale now now' amount d hra)"
    and live: "IsZero (om_DeletionTimestamp (hra_Meta hra))" "IsZero (om_DeletionTimestamp (rd_Meta rd))"
    and kind: "str_Kind (hs_ScaleTargetRef (hra_Spec hra)) \<in> {[], ''RunnerDeployment''}"
    and target: "k_GetRD (he_Reads env) namespace (str_Name (hs_ScaleTargetRef (hra_Spec hra))) = Ret rd"
    and ok: "outcome (Reconcile_HRA env api t t' namespace name) = Ret ()"
    and least: "getMinReplicas (he_NewRRule env) (he_Loc env) t hra = Ret (minReplicas, active, upcoming)"
    and most: "hs_MaxReplicas (hra_Spec hra) = Some M" "minReplicas \<le> M"
    and metric: "suggestDesiredReplicas (he_GitHub env) (scaleTargetFromRD (he_Reads env) rd) hra = Ret v"
  shows "max minReplicas (min M ((case v of None \<Rightarrow> minReplicas | Some s \<Rightarrow> s) + reservedAt t hra + amount))
    \<le> deploymentReplicas (targetAfter deploymentPatch (writes (Reconcile_HRA env api t t' namespace name)) rd)"
proof -
  let ?hra = "afterScale now now' amount d hra"
  obtain n where n: "computeReplicasWithCache (he_GitHub env) (he_DefaultScaleDownDelay env) t (scaleTargetFromRD (he_Reads env) rd) ?hra minReplicas = Ret n"
    and r: "deploymentReplicas (targetAfter deploymentPatch (writes (Reconcile_HRA env api t t' namespace name)) rd) = n"
    using Reconcile_HRA_deployment [OF stored _ _ _ live(2) ok] live(1) kind target least by (auto simp: afterScale_fields)
  have "reservedAt t ?hra = reservedAt t hra + amount" using scaledReservations_up [OF amount time] by simp
  with n computeReplicas_value [of "he_GitHub env" "scaleTargetFromRD (he_Reads env) rd" ?hra v M minReplicas "he_DefaultScaleDownDelay env" t] most metric
  show ?thesis unfolding r by (auto simp: afterScale_fields reservedReplicas_sum [symmetric] add.assoc split: option.splits if_splits)
qed

definition webhookEnv :: HraEnv where
  "webhookEnv = exampleEnv\<lparr>he_Reads := (he_Reads exampleEnv)\<lparr>k_GetHRA := \<lambda>ns n. Ret (afterScale 4 4 1 Minute exampleHRA)\<rparr>\<rparr>"

lemma webhookEnv_ok: "outcome (Reconcile_HRA webhookEnv acceptAll 5 6 [] ''h'') = Ret ()"
  by (simp add: outcome_def Reconcile_HRA_def webhookEnv_def exampleEnv_def ifFound_def exampleHRA_def exampleRD_def emptyMeta_def reconcileHRA_def
      getMinReplicas_def matchScheduledOverrides_def minReplicasOf_def computeReplicasWithCache_def suggestDesiredReplicas_def afterScale_eq withReservations_def
      updateRunnerDeployment_def ebind_def ecall_def eret_def elift_def Let_def split: option.splits)

theorem queued_job_scales_deployment_witness:
  "4 \<le> deploymentReplicas (targetAfter deploymentPatch (writes (Reconcile_HRA webhookEnv acceptAll 5 6 [] ''h'')) exampleRD)"
  using queued_job_scales_deployment [of 1 4 5 4 Minute webhookEnv "[]" "''h''" exampleHRA exampleRD acceptAll 6 1 None None 5 None, OF _ _ _ _ _ _ _ _ webhookEnv_ok]
  by (simp add: webhookEnv_def exampleEnv_def exampleHRA_def exampleRD_def emptyMeta_def getMinReplicas_def matchScheduledOverrides_def minReplicasOf_def
      suggestDesiredReplicas_def reservedReplicas_def)

end
